(* ===== verification/Prelude.thy ===== *)
theory Prelude
  imports Main "HOL-Library.List_Lexorder" "HOL-Library.Char_ord"
begin

text \<open>
  Shared vocabulary of the development: the collections of rewrite rules the component
  proofs draw on, results of fallible code, and the generic facts on lists, association
  lists and step relations that several components use.
\<close>

named_theorems keep_intros
  \<open>rules that show that a computation keeps an invariant, whatever its outcome\<close>
named_theorems run_simps
  \<open>equations that execute a computation of the state-and-exception monad symbolically\<close>

section \<open>Results of fallible pure code\<close>

text \<open>A pure function that may raise returns \<open>Inl\<close> of the error or \<open>Inr\<close> of its value.\<close>

fun bind_res :: "'e + 'a \<Rightarrow> ('a \<Rightarrow> 'e + 'b) \<Rightarrow> 'e + 'b" where
  "bind_res (Inl e) k = Inl e"
| "bind_res (Inr x) k = k x"

definition guard_res :: "bool \<Rightarrow> 'e \<Rightarrow> 'e + unit" where
  "guard_res c e = (if c then Inr () else Inl e)"

text \<open>A Python loop over a list whose body may raise: it stops at the first error.\<close>

fun map_res :: "('a \<Rightarrow> 'e + 'b) \<Rightarrow> 'a list \<Rightarrow> 'e + 'b list" where
  "map_res f [] = Inr []"
| "map_res f (x # xs) = bind_res (f x) (\<lambda>y. bind_res (map_res f xs) (\<lambda>ys. Inr (y # ys)))"

lemma bind_res_Inr_iff [simp]:
  "bind_res m k = Inr y \<longleftrightarrow> (\<exists>x. m = Inr x \<and> k x = Inr y)"
  by (cases m) auto

lemma bind_res_Inl_iff:
  "bind_res m k = Inl e \<longleftrightarrow> m = Inl e \<or> (\<exists>x. m = Inr x \<and> k x = Inl e)"
  by (cases m) auto

lemma guard_res_Inr_iff [simp]: "guard_res c e = Inr u \<longleftrightarrow> c"
  by (simp add: guard_res_def)

lemma guard_res_Inl_iff [simp]: "guard_res c e = Inl e' \<longleftrightarrow> \<not> c \<and> e' = e"
  by (auto simp: guard_res_def)

lemma map_res_Inr_iff: "map_res f xs = Inr ys \<longleftrightarrow> list_all2 (\<lambda>x y. f x = Inr y) xs ys"
  by (induction xs arbitrary: ys) (auto simp: list_all2_Cons1)

lemma map_res_length: "map_res f xs = Inr ys \<Longrightarrow> length ys = length xs"
  by (simp add: map_res_Inr_iff list_all2_lengthD)

lemma map_res_set:
  assumes "map_res f xs = Inr ys" and "y \<in> set ys"
  shows "\<exists>x \<in> set xs. f x = Inr y"
  using assms by (induction xs arbitrary: ys) auto

section \<open>Association lists as insertion-ordered dictionaries\<close>

text \<open>
  A Python dictionary keeps the position of a key that is overwritten and appends a new
  one, which is what \<open>dict_set\<close> does; a lookup is \<open>map_of\<close>.
\<close>

fun dict_set :: "'k \<Rightarrow> 'v \<Rightarrow> ('k \<times> 'v) list \<Rightarrow> ('k \<times> 'v) list" where
  "dict_set k v [] = [(k, v)]"
| "dict_set k v ((k', v') # d) = (if k' = k then (k, v) # d else (k', v') # dict_set k v d)"

lemma map_of_dict_set [simp]: "map_of (dict_set k v d) = (map_of d)(k \<mapsto> v)"
  by (induction k v d rule: dict_set.induct) (auto simp: fun_eq_iff)

lemma keys_dict_set [simp]: "fst ` set (dict_set k v d) = insert k (fst ` set d)"
  by (induction k v d rule: dict_set.induct) auto

lemma distinct_dict_set:
  "distinct (map fst d) \<Longrightarrow> distinct (map fst (dict_set k v d))"
proof (induction k v d rule: dict_set.induct)
  case (2 k v k' v' d)
  have "k' \<noteq> k \<Longrightarrow> k' \<notin> fst ` set (dict_set k v d)"
    using "2.prems" by simp
  with 2 show ?case by auto
qed simp

lemma dict_set_fresh: "map_of es x = None \<Longrightarrow> dict_set x n es = es @ [(x, n)]"
  by (induction x n es rule: dict_set.induct) (auto split: if_splits)

section \<open>Strings\<close>

text \<open>\<open>str.startswith\<close>, \<open>str.endswith\<close>, \<open>split\<close> at dots, and the characters of a digest.\<close>

definition starts_with :: "string \<Rightarrow> string \<Rightarrow> bool" where
  "starts_with p s \<longleftrightarrow> take (length p) s = p"

definition ends_with :: "string \<Rightarrow> string \<Rightarrow> bool" where
  "ends_with x s \<longleftrightarrow> length x \<le> length s \<and> drop (length s - length x) s = x"

fun split_dots :: "string \<Rightarrow> string list" where
  "split_dots [] = [[]]"
| "split_dots (c # s) = (if c = CHR ''.'' then [] # split_dots s
     else (case split_dots s of x # xs \<Rightarrow> (c # x) # xs | [] \<Rightarrow> [[c]]))"

definition is_hex :: "char \<Rightarrow> bool" where
  "is_hex c \<longleftrightarrow> (let n = of_char c :: nat in (48 \<le> n \<and> n \<le> 57) \<or> (97 \<le> n \<and> n \<le> 102))"

text \<open>The white space of \<open>str.strip\<close> among the code points the model has.\<close>

definition is_space :: "char \<Rightarrow> bool" where
  "is_space c = (let n = of_char c :: nat in
     (9 \<le> n \<and> n \<le> 13) \<or> (28 \<le> n \<and> n \<le> 32) \<or> n = 133 \<or> n = 160)"

lemma is_hex_code [code]:
  "is_hex (Char b0 b1 b2 b3 b4 b5 b6 b7) \<longleftrightarrow> \<not> b7 \<and> b5 \<and>
     (if b6 then \<not> b4 \<and> \<not> b3 \<and> (b0 \<or> b1 \<or> b2) \<and> \<not> (b0 \<and> b1 \<and> b2) else b4 \<and> (\<not> b3 \<or> (\<not> b2 \<and> \<not> b1)))"
  by (cases b7; cases b6; cases b5; cases b4; cases b3; cases b2; cases b1; cases b0; simp add: is_hex_def)

lemma starts_with_iff: "starts_with p s \<longleftrightarrow> (\<exists>z. s = p @ z)"
  unfolding starts_with_def by (metis append_eq_conv_conj append_take_drop_id)

lemma split_dots_first: "CHR ''.'' \<notin> set x \<Longrightarrow> split_dots (x @ CHR ''.'' # y) = x # split_dots y"
  by (induction x) auto

lemma split_dots_last: "CHR ''.'' \<notin> set x \<Longrightarrow> split_dots x = [x]"
  by (induction x) auto

fun join_dots :: "string list \<Rightarrow> string" where
  "join_dots [] = []"
| "join_dots [x] = x"
| "join_dots (x # xs) = x @ CHR ''.'' # join_dots xs"

lemma join_split_dots: "join_dots (split_dots s) = s"
proof -
  have ne: "split_dots s \<noteq> []" for s by (induction s) (auto split: list.splits)
  show ?thesis
  proof (induction s)
    case (Cons c s)
    obtain x xs where "split_dots s = x # xs" using ne [of s] by (cases "split_dots s") auto
    with Cons show ?case by (cases xs) auto
  qed simp
qed

lemma hex_no_dot: "list_all is_hex x \<Longrightarrow> CHR ''.'' \<notin> set x"
  by (auto simp: list_all_iff is_hex_def)

section \<open>Reachability under a step relation\<close>

text \<open>
  A component that moves by steps is given by its initial states and its step relation; an
  invariant holds initially and is kept by every step, hence it holds wherever the
  component can get to.
\<close>

inductive reach :: "('s \<Rightarrow> bool) \<Rightarrow> ('s \<Rightarrow> 's \<Rightarrow> bool) \<Rightarrow> 's \<Rightarrow> bool" for init step where
  reach_init: "init s \<Longrightarrow> reach init step s"
| reach_step: "reach init step s \<Longrightarrow> step s t \<Longrightarrow> reach init step t"

locale step_invariant =
  fixes init :: "'s \<Rightarrow> bool" and step :: "'s \<Rightarrow> 's \<Rightarrow> bool" and inv :: "'s \<Rightarrow> bool"
  assumes inv_init: "init s \<Longrightarrow> inv s"
    and inv_step: "inv s \<Longrightarrow> step s t \<Longrightarrow> inv t"
begin

lemma inv_reach: "reach init step s \<Longrightarrow> inv s"
  by (induction rule: reach.induct) (auto intro: inv_init inv_step)

lemma inv_steps: "step\<^sup>*\<^sup>* s t \<Longrightarrow> inv s \<Longrightarrow> inv t"
  by (induction rule: rtranclp_induct) (auto intro: inv_step)

end

end
