(* ===== verification/Exec_Monad.thy ===== *)
theory Exec_Monad
  imports Prelude
begin

text \<open>
  Stateful Python code that may raise: a computation takes the state and returns the raised
  error or the result together with the state it leaves behind. A raise keeps the effects
  that came before it; \<open>atomic_x\<close> is the transaction of an SQLite connection used as a
  context manager, which undoes the effects on its part of the state when the body raises.
  The weakest-precondition transformer \<open>wp\<close> executes a computation symbolically.
\<close>

type_synonym ('s, 'e, 'a) exec = "'s \<Rightarrow> ('e + 'a) \<times> 's"

section \<open>Combinators\<close>

definition return_x :: "'a \<Rightarrow> ('s, 'e, 'a) exec" where
  "return_x x s = (Inr x, s)"

definition raise_x :: "'e \<Rightarrow> ('s, 'e, 'a) exec" where
  "raise_x e s = (Inl e, s)"

definition bind_x :: "('s, 'e, 'a) exec \<Rightarrow> ('a \<Rightarrow> ('s, 'e, 'b) exec) \<Rightarrow> ('s, 'e, 'b) exec" where
  "bind_x m k s = (case m s of (Inl e, t) \<Rightarrow> (Inl e, t) | (Inr x, t) \<Rightarrow> k x t)"

definition then_x :: "('s, 'e, 'a) exec \<Rightarrow> ('s, 'e, 'b) exec \<Rightarrow> ('s, 'e, 'b) exec" where
  "then_x m k = bind_x m (\<lambda>_. k)"

definition gets_x :: "('s \<Rightarrow> 'a) \<Rightarrow> ('s, 'e, 'a) exec" where
  "gets_x f s = (Inr (f s), s)"

definition modify_x :: "('s \<Rightarrow> 's) \<Rightarrow> ('s, 'e, unit) exec" where
  "modify_x f s = (Inr (), f s)"

definition guard_x :: "bool \<Rightarrow> 'e \<Rightarrow> ('s, 'e, unit) exec" where
  "guard_x c e = (if c then return_x () else raise_x e)"

definition when_x :: "bool \<Rightarrow> ('s, 'e, unit) exec \<Rightarrow> ('s, 'e, unit) exec" where
  "when_x c m = (if c then m else return_x ())"

definition catch_x :: "('s, 'e, 'a) exec \<Rightarrow> ('e \<Rightarrow> ('s, 'e, 'a) exec) \<Rightarrow> ('s, 'e, 'a) exec" where
  "catch_x m h s = (case m s of (Inl e, t) \<Rightarrow> h e t | (Inr x, t) \<Rightarrow> (Inr x, t))"

text \<open>\<open>try: ... except Exception\<close>: the outcome as a value, the effects kept.\<close>

definition try_x :: "('s, 'e, 'a) exec \<Rightarrow> ('s, 'e, 'e + 'a) exec" where
  "try_x m s = (case m s of (r, t) \<Rightarrow> (Inr r, t))"

definition atomic_x ::
  "('s \<Rightarrow> 'd) \<Rightarrow> ('d \<Rightarrow> 's \<Rightarrow> 's) \<Rightarrow> ('s, 'e, 'a) exec \<Rightarrow> ('s, 'e, 'a) exec" where
  "atomic_x db put m s = (case m s of (Inl e, t) \<Rightarrow> (Inl e, put (db s) t) | (Inr x, t) \<Rightarrow> (Inr x, t))"

text \<open>A computation on a component of the state, with its errors embedded.\<close>

definition zoom_x ::
  "('s \<Rightarrow> 'c) \<Rightarrow> ('c \<Rightarrow> 's \<Rightarrow> 's) \<Rightarrow> ('f \<Rightarrow> 'e) \<Rightarrow> ('c, 'f, 'a) exec \<Rightarrow> ('s, 'e, 'a) exec" where
  "zoom_x get put err m s =
     (case m (get s) of (Inl e, c) \<Rightarrow> (Inl (err e), put c s) | (Inr x, c) \<Rightarrow> (Inr x, put c s))"

fun each_x :: "('a \<Rightarrow> ('s, 'e, unit) exec) \<Rightarrow> 'a list \<Rightarrow> ('s, 'e, unit) exec" where
  "each_x f [] = return_x ()"
| "each_x f (x # xs) = then_x (f x) (each_x f xs)"

section \<open>Symbolic execution\<close>

definition wp ::
  "('s, 'e, 'a) exec \<Rightarrow> ('a \<Rightarrow> 's \<Rightarrow> bool) \<Rightarrow> ('e \<Rightarrow> 's \<Rightarrow> bool) \<Rightarrow> 's \<Rightarrow> bool" where
  "wp m Q R s = (case m s of (Inl e, t) \<Rightarrow> R e t | (Inr x, t) \<Rightarrow> Q x t)"

lemma wp_return [simp]: "wp (return_x x) Q R s = Q x s"
  by (simp add: wp_def return_x_def)

lemma wp_raise [simp]: "wp (raise_x e) Q R s = R e s"
  by (simp add: wp_def raise_x_def)

lemma wp_bind [simp]: "wp (bind_x m k) Q R s = wp m (\<lambda>x. wp (k x) Q R) R s"
  by (simp add: wp_def bind_x_def split: prod.splits sum.splits)

lemma wp_then [simp]: "wp (then_x m k) Q R s = wp m (\<lambda>_. wp k Q R) R s"
  by (simp add: then_x_def)

lemma wp_gets [simp]: "wp (gets_x f) Q R s = Q (f s) s"
  by (simp add: wp_def gets_x_def)

lemma wp_modify [simp]: "wp (modify_x f) Q R s = Q () (f s)"
  by (simp add: wp_def modify_x_def)

lemma wp_guard [simp]: "wp (guard_x c e) Q R s = (if c then Q () s else R e s)"
  by (simp add: guard_x_def)

lemma wp_when [simp]: "wp (when_x c m) Q R s = (if c then wp m Q R s else Q () s)"
  by (simp add: when_x_def)

lemma wp_catch [simp]: "wp (catch_x m h) Q R s = wp m Q (\<lambda>e. wp (h e) Q R) s"
  by (simp add: wp_def catch_x_def split: prod.splits sum.splits)

lemma wp_try [simp]: "wp (try_x m) Q R s = wp m (\<lambda>x. Q (Inr x)) (\<lambda>e. Q (Inl e)) s"
  by (simp add: wp_def try_x_def split: prod.splits sum.splits)

lemma wp_atomic [simp]:
  "wp (atomic_x db put m) Q R s = wp m Q (\<lambda>e t. R e (put (db s) t)) s"
  by (simp add: wp_def atomic_x_def split: prod.splits sum.splits)

lemma wp_zoom [simp]:
  "wp (zoom_x get put err m) Q R s
   = wp m (\<lambda>x c. Q x (put c s)) (\<lambda>e c. R (err e) (put c s)) (get s)"
  by (simp add: wp_def zoom_x_def split: prod.splits sum.splits)

lemma wp_if [simp]: "wp (if c then m else m') Q R s = (if c then wp m Q R s else wp m' Q R s)"
  by simp

lemma wp_case_option [simp]:
  "wp (case x of None \<Rightarrow> m | Some y \<Rightarrow> k y) Q R s
   = (case x of None \<Rightarrow> wp m Q R s | Some y \<Rightarrow> wp (k y) Q R s)"
  by (cases x) auto

lemma wp_case_sum [simp]:
  "wp (case x of Inl y \<Rightarrow> m y | Inr y \<Rightarrow> k y) Q R s
   = (case x of Inl y \<Rightarrow> wp (m y) Q R s | Inr y \<Rightarrow> wp (k y) Q R s)"
  by (cases x) auto

lemma wp_mono:
  assumes "wp m Q R s" and "\<And>x t. Q x t \<Longrightarrow> Q' x t" and "\<And>e t. R e t \<Longrightarrow> R' e t"
  shows "wp m Q' R' s"
  using assms by (auto simp: wp_def split: prod.splits sum.splits)

lemma wp_conj: "wp m Q R s \<Longrightarrow> wp m Q' R' s \<Longrightarrow> wp m (\<lambda>x t. Q x t \<and> Q' x t) (\<lambda>e t. R e t \<and> R' e t) s"
  by (auto simp: wp_def split: prod.splits sum.splits)

lemma wp_result: "wp m Q R s \<Longrightarrow> m s = (Inr x, t) \<Longrightarrow> Q x t"
  by (simp add: wp_def)

lemma wp_error: "wp m Q R s \<Longrightarrow> m s = (Inl e, t) \<Longrightarrow> R e t"
  by (simp add: wp_def)

lemma wp_snd: "wp m (\<lambda>_. P) (\<lambda>_. P) s \<longleftrightarrow> P (snd (m s))"
  by (auto simp: wp_def split: prod.splits sum.splits)

section \<open>Invariants kept whatever the outcome\<close>

text \<open>
  \<open>keeps I m\<close>: from a state with \<open>I\<close>, \<open>m\<close> ends in a state with \<open>I\<close>, whether it
  returns or raises at any point.
\<close>

definition keeps :: "('s \<Rightarrow> bool) \<Rightarrow> ('s, 'e, 'a) exec \<Rightarrow> bool" where
  "keeps I m \<longleftrightarrow> (\<forall>s. I s \<longrightarrow> wp m (\<lambda>_. I) (\<lambda>_. I) s)"

lemma keepsI: "(\<And>s. I s \<Longrightarrow> wp m (\<lambda>_. I) (\<lambda>_. I) s) \<Longrightarrow> keeps I m"
  by (simp add: keeps_def)

lemma keepsD: "keeps I m \<Longrightarrow> I s \<Longrightarrow> wp m (\<lambda>_. I) (\<lambda>_. I) s"
  by (simp add: keeps_def)

lemma keeps_snd: "keeps I m \<Longrightarrow> I s \<Longrightarrow> I (snd (m s))"
  by (simp add: keeps_def wp_snd)

lemma keeps_return [keep_intros]: "keeps I (return_x x)"
  by (simp add: keeps_def)

lemma keeps_raise [keep_intros]: "keeps I (raise_x e)"
  by (simp add: keeps_def)

lemma keeps_gets [keep_intros]: "keeps I (gets_x f)"
  by (simp add: keeps_def)

lemma keeps_guard [keep_intros]: "keeps I (guard_x c e)"
  by (simp add: keeps_def)

lemma keeps_bind [keep_intros]:
  "keeps I m \<Longrightarrow> (\<And>x. keeps I (k x)) \<Longrightarrow> keeps I (bind_x m k)"
  by (rule keepsI) (auto intro: wp_mono [OF keepsD] keepsD)

lemma keeps_then [keep_intros]: "keeps I m \<Longrightarrow> keeps I k \<Longrightarrow> keeps I (then_x m k)"
  by (rule keepsI) (auto intro: wp_mono [OF keepsD] keepsD)

lemma keeps_when [keep_intros]: "(c \<Longrightarrow> keeps I m) \<Longrightarrow> keeps I (when_x c m)"
  by (simp add: keeps_def)

lemma keeps_if [keep_intros]:
  "(c \<Longrightarrow> keeps I m) \<Longrightarrow> (\<not> c \<Longrightarrow> keeps I m') \<Longrightarrow> keeps I (if c then m else m')"
  by simp

lemma keeps_catch [keep_intros]:
  "keeps I m \<Longrightarrow> (\<And>e. keeps I (h e)) \<Longrightarrow> keeps I (catch_x m h)"
  by (rule keepsI) (auto intro: wp_mono [OF keepsD] keepsD)

lemma keeps_try [keep_intros]: "keeps I m \<Longrightarrow> keeps I (try_x m)"
  by (rule keepsI) (auto intro: wp_mono [OF keepsD] keepsD)

lemma keeps_option [keep_intros]:
  "keeps I m \<Longrightarrow> (\<And>x. keeps I (k x)) \<Longrightarrow> keeps I (case x of None \<Rightarrow> m | Some x \<Rightarrow> k x)"
  by (cases x) auto

lemma keeps_sum [keep_intros]:
  "(\<And>e. keeps I (m e)) \<Longrightarrow> (\<And>x. keeps I (k x)) \<Longrightarrow> keeps I (case x of Inl e \<Rightarrow> m e | Inr x \<Rightarrow> k x)"
  by (cases x) auto

lemma keeps_each [keep_intros]: "(\<And>x. keeps I (f x)) \<Longrightarrow> keeps I (each_x f xs)"
  by (induction xs) (auto intro!: keep_intros)

section \<open>Laws\<close>

lemma bind_x_assoc: "bind_x (bind_x m k) h = bind_x m (\<lambda>x. bind_x (k x) h)"
  by (rule ext) (simp add: bind_x_def split: prod.splits sum.splits)

lemma bind_x_return [simp]: "bind_x m return_x = m"
  by (rule ext) (simp add: bind_x_def return_x_def split: prod.splits sum.splits)

lemma return_x_bind [simp]: "bind_x (return_x x) k = k x"
  by (rule ext) (simp add: bind_x_def return_x_def)

text \<open>A transaction that raises leaves its part of the state as it found it.\<close>

lemma atomic_x_rolls_back:
  "atomic_x db put m s = (Inl e, t) \<Longrightarrow> (\<And>d t. db (put d t) = d) \<Longrightarrow> db t = db s"
  by (auto simp: atomic_x_def split: prod.splits sum.splits)

lemmas exec_defs = return_x_def raise_x_def bind_x_def then_x_def gets_x_def modify_x_def
  guard_x_def when_x_def catch_x_def try_x_def atomic_x_def zoom_x_def

section \<open>Safety of programs over a store\<close>

text \<open>
  The durable components run over a state with a store part \<open>get\<close>. \<open>frames get m\<close>: \<open>m\<close> leaves the
  store alone. \<open>safe get I m d\<close>: started with store \<open>d\<close>, \<open>m\<close> ends with a store that satisfies
  \<open>I\<close>, however it ends. The rules of \<open>safe_intros\<close> follow the shape of a program and leave the
  transactions as goals.
\<close>

named_theorems frame_intros \<open>programs that leave the store alone\<close>
named_theorems safe_intros \<open>rules for safety of programs over a store\<close>

definition frames :: "('s \<Rightarrow> 'd) \<Rightarrow> ('s, 'e, 'a) exec \<Rightarrow> bool" where
  "frames get m \<longleftrightarrow> (\<forall>s. get (snd (m s)) = get s)"

definition safe :: "('s \<Rightarrow> 'd) \<Rightarrow> ('d \<Rightarrow> bool) \<Rightarrow> ('s, 'e, 'a) exec \<Rightarrow> 'd \<Rightarrow> bool" where
  "safe get I m d \<longleftrightarrow> (\<forall>s. get s = d \<longrightarrow> wp m (\<lambda>_ t. I (get t)) (\<lambda>_ t. I (get t)) s)"

lemma framesI: "(\<And>s. wp m (\<lambda>_ t. get t = get s) (\<lambda>_ t. get t = get s) s) \<Longrightarrow> frames get m"
  by (simp add: frames_def wp_snd)

lemma framesD: "frames get m \<Longrightarrow> wp m (\<lambda>_ t. get t = get s) (\<lambda>_ t. get t = get s) s"
  by (simp add: frames_def wp_snd)

lemma safeI: "(\<And>s. get s = d \<Longrightarrow> wp m (\<lambda>_ t. I (get t)) (\<lambda>_ t. I (get t)) s) \<Longrightarrow> safe get I m d"
  by (simp add: safe_def)

lemma safe_snd: "safe get I m (get s) \<Longrightarrow> I (get (snd (m s)))"
  by (auto simp: safe_def wp_snd)

lemma wp_frame:
  assumes "frames get m" and "\<And>x t. get t = get s \<Longrightarrow> Q x t" and "\<And>e t. get t = get s \<Longrightarrow> R e t"
  shows "wp m Q R s"
  by (rule wp_mono [OF framesD [OF assms(1)]]) (auto intro: assms)

lemma frames_return [frame_intros]: "frames get (return_x x)"
  by (rule framesI) simp

lemma frames_gets [frame_intros]: "frames get (gets_x f)"
  by (rule framesI) simp

lemma frames_raise [frame_intros]: "frames get (raise_x e)"
  by (rule framesI) simp

lemma frames_guard [frame_intros]: "frames get (guard_x c e)"
  by (rule framesI) simp

lemma frames_bind [frame_intros]:
  assumes "frames get m" and "\<And>x. frames get (k x)"
  shows "frames get (bind_x m k)"
proof (rule framesI)
  fix s
  show "wp (bind_x m k) (\<lambda>_ t. get t = get s) (\<lambda>_ t. get t = get s) s"
    by (simp, rule wp_frame [OF assms(1)])
       (auto intro!: wp_frame [OF assms(2)])
qed

lemma frames_then [frame_intros]: "frames get m \<Longrightarrow> frames get k \<Longrightarrow> frames get (then_x m k)"
  by (simp add: then_x_def frames_bind)

lemma frames_try [frame_intros]: "frames get m \<Longrightarrow> frames get (try_x m)"
  by (rule framesI) (auto intro: wp_frame)

lemma frames_when [frame_intros]: "frames get m \<Longrightarrow> frames get (when_x c m)"
  by (rule framesI) (auto intro: wp_frame)

lemma frames_if [frame_intros]:
  "(c \<Longrightarrow> frames get m) \<Longrightarrow> (\<not> c \<Longrightarrow> frames get m') \<Longrightarrow> frames get (if c then m else m')"
  by simp

lemma frames_option [frame_intros]:
  "frames get m \<Longrightarrow> (\<And>x. frames get (k x)) \<Longrightarrow> frames get (case x of None \<Rightarrow> m | Some y \<Rightarrow> k y)"
  by (cases x) auto

lemma frames_sum [frame_intros]:
  "(\<And>e. frames get (m e)) \<Longrightarrow> (\<And>x. frames get (k x)) \<Longrightarrow> frames get (case x of Inl e \<Rightarrow> m e | Inr y \<Rightarrow> k y)"
  by (cases x) auto

lemma safe_frame: "frames get m \<Longrightarrow> I d \<Longrightarrow> safe get I m d"
  by (rule safeI) (auto intro: wp_frame)

lemma safe_return [safe_intros]: "I d \<Longrightarrow> safe get I (return_x x) d"
  by (rule safeI) simp

lemma safe_raise [safe_intros]: "I d \<Longrightarrow> safe get I (raise_x e) d"
  by (rule safeI) simp

lemma safe_guard [safe_intros]: "I d \<Longrightarrow> safe get I (guard_x c e) d"
  by (rule safeI) simp

lemma safe_guard_then [safe_intros]:
  "I d \<Longrightarrow> (c \<Longrightarrow> safe get I k d) \<Longrightarrow> safe get I (then_x (guard_x c e) k) d"
  by (simp add: safe_def)

lemma safe_frame_bind:
  "frames get m \<Longrightarrow> I d \<Longrightarrow> (\<And>x. safe get I (k x) d) \<Longrightarrow> safe get I (bind_x m k) d"
  by (rule safeI) (auto simp: safe_def intro: wp_frame)

lemma safe_frame_then:
  "frames get m \<Longrightarrow> I d \<Longrightarrow> safe get I k d \<Longrightarrow> safe get I (then_x m k) d"
  by (simp add: then_x_def safe_frame_bind)

lemma safe_gets_bind:
  "safe get I (k (f d)) d \<Longrightarrow> safe get I (bind_x (gets_x (\<lambda>s. f (get s))) k) d"
  by (simp add: safe_def)

lemma safe_when_then [safe_intros]:
  "(c \<Longrightarrow> safe get I (then_x m k) d) \<Longrightarrow> (\<not> c \<Longrightarrow> safe get I k d) \<Longrightarrow> safe get I (then_x (when_x c m) k) d"
  by (simp add: safe_def)

lemma safe_if [safe_intros]:
  "(c \<Longrightarrow> safe get I m d) \<Longrightarrow> (\<not> c \<Longrightarrow> safe get I m' d) \<Longrightarrow> safe get I (if c then m else m') d"
  by simp

lemma safe_bind:
  assumes "safe get I m d" and "\<And>x d'. I d' \<Longrightarrow> safe get I (k x) d'"
  shows "safe get I (bind_x m k) d"
  using assms unfolding safe_def by (auto elim!: wp_mono)

lemma safe_then: "safe get I m d \<Longrightarrow> (\<And>d'. I d' \<Longrightarrow> safe get I k d') \<Longrightarrow> safe get I (then_x m k) d"
  by (simp add: then_x_def safe_bind)

lemma safe_then_assoc [safe_intros]:
  "safe get I (then_x m (then_x k h)) d \<Longrightarrow> safe get I (then_x (then_x m k) h) d"
  by (simp add: then_x_def bind_x_assoc)

lemma safe_return_then [safe_intros]: "safe get I k d \<Longrightarrow> safe get I (then_x (return_x x) k) d"
  by (simp add: safe_def)

lemma safe_raise_then [safe_intros]: "I d \<Longrightarrow> safe get I (then_x (raise_x e) k) d"
  by (simp add: safe_def)

text \<open>A transaction: only its outcome when it does not raise has to be considered.\<close>

lemma safe_tx_bind:
  assumes "I d" and "\<And>t. get (put d t) = d"
    and "\<And>s. get s = d \<Longrightarrow> wp m (\<lambda>x t. safe get I (k x) (get t)) (\<lambda>_ _. True) s"
  shows "safe get I (bind_x (atomic_x get put m) k) d"
proof (rule safeI)
  fix s
  assume s: "get s = d"
  show "wp (bind_x (atomic_x get put m) k) (\<lambda>_ t. I (get t)) (\<lambda>_ t. I (get t)) s"
    using s assms(1,2) by (simp, intro wp_mono [OF assms(3) [OF s]]) (auto simp: safe_def)
qed

lemma safe_tx_then:
  "I d \<Longrightarrow> (\<And>t. get (put d t) = d) \<Longrightarrow>
   (\<And>s. get s = d \<Longrightarrow> wp m (\<lambda>_ t. safe get I k (get t)) (\<lambda>_ _. True) s) \<Longrightarrow>
   safe get I (then_x (atomic_x get put m) k) d"
  unfolding then_x_def by (rule safe_tx_bind)

lemma safe_tx:
  "I d \<Longrightarrow> (\<And>t. get (put d t) = d) \<Longrightarrow>
   (\<And>s. get s = d \<Longrightarrow> wp m (\<lambda>_ t. I (get t)) (\<lambda>_ _. True) s) \<Longrightarrow>
   safe get I (atomic_x get put m) d"
  by (rule safeI) (auto elim!: wp_mono)

lemma safe_wp:
  "safe get I m d \<Longrightarrow> get s = d \<Longrightarrow> (\<And>t. I (get t) \<Longrightarrow> Q t) \<Longrightarrow> wp m (\<lambda>_. Q) (\<lambda>_. Q) s"
  by (auto simp: safe_def wp_snd)

text \<open>Passing over a program that leaves the store alone.\<close>

lemma wp_frame_bind:
  "frames get m \<Longrightarrow> (\<And>x t. get t = get s \<Longrightarrow> wp (k x) Q R t) \<Longrightarrow> (\<And>e t. get t = get s \<Longrightarrow> R e t) \<Longrightarrow>
   wp (bind_x m k) Q R s"
  by (simp add: wp_frame)

lemma wp_frame_then:
  "frames get m \<Longrightarrow> (\<And>t. get t = get s \<Longrightarrow> wp k Q R t) \<Longrightarrow> (\<And>e t. get t = get s \<Longrightarrow> R e t) \<Longrightarrow>
   wp (then_x m k) Q R s"
  by (simp add: wp_frame)

text \<open>A program whose run is known, and what a triple says of the run.\<close>

lemma wp_run: "m s = (r, t) \<Longrightarrow> wp m Q R s = (case r of Inl e \<Rightarrow> R e t | Inr x \<Rightarrow> Q x t)"
  by (simp add: wp_def split: sum.splits)

lemma wp_raises_iff: "wp m (\<lambda>_ _. False) R s \<longleftrightarrow> (\<exists>e t. m s = (Inl e, t) \<and> R e t)"
  by (auto simp: wp_def split: prod.splits sum.splits)

lemma wp_any [simp]: "wp m (\<lambda>_ _. True) (\<lambda>_ _. True) s"
  by (simp add: wp_def split: prod.splits sum.splits)

lemma wp_return_any: "wp (return_x x) Q R = Q x"
  by (rule ext) simp

lemma wp_raise_any: "wp (raise_x e) Q R = R e"
  by (rule ext) simp

end
