(* ===== verification/Json_Value.thy ===== *)
theory Json_Value
  imports Prelude
begin

text \<open>
  JSON values as Python holds them after \<open>json.loads\<close> and before \<open>json.dumps\<close>, and the two
  canonical serialisations the package uses: \<open>ecpa_model.canonical_bytes\<close> (sorted keys, no
  blanks, non-ASCII kept and UTF-8 encoded) and \<open>ReferenceExposureGate._json\<close> (the same with
  non-ASCII escaped). Strings are lists of code points up to 255; numbers are integers. A
  dictionary is an insertion-ordered association list.
\<close>

datatype json =
    JNull
  | JBool bool
  | JInt int
  | JStr string
  | JArr "json list"
  | JObj "(string \<times> json) list"

section \<open>Decimal and hexadecimal numerals\<close>

fun digit_char :: "nat \<Rightarrow> char" where
  "digit_char n = (if n < 10 then char_of (48 + n) else char_of (87 + n))"

fun show_nat :: "nat \<Rightarrow> string" where
  "show_nat n = (if n < 10 then [digit_char n] else show_nat (n div 10) @ [digit_char (n mod 10)])"

declare show_nat.simps [simp del]

definition show_int :: "int \<Rightarrow> string" where
  "show_int i = (if i < 0 then ''-'' @ show_nat (nat (- i)) else show_nat (nat i))"

section \<open>json.dumps with sorted keys and compact separators\<close>

definition hex4 :: "nat \<Rightarrow> string" where
  "hex4 n = map digit_char [n div 4096, n div 256 mod 16, n div 16 mod 16, n mod 16]"

definition escape_char :: "bool \<Rightarrow> char \<Rightarrow> string" where
  "escape_char ensure_ascii c =
     (let n = of_char c :: nat in
      if n = 34 then [CHR 0x5C, CHR 0x22]
      else if n = 92 then [CHR 0x5C, CHR 0x5C]
      else if n = 10 then [CHR 0x5C, CHR ''n'']
      else if n = 13 then [CHR 0x5C, CHR ''r'']
      else if n = 9 then [CHR 0x5C, CHR ''t'']
      else if n = 12 then [CHR 0x5C, CHR ''f'']
      else if n = 8 then [CHR 0x5C, CHR ''b'']
      else if n < 32 \<or> (ensure_ascii \<and> n > 126) then [CHR 0x5C, CHR ''u''] @ hex4 n
      else [c])"

definition dumps_string :: "bool \<Rightarrow> string \<Rightarrow> string" where
  "dumps_string ensure_ascii s = [CHR 0x22] @ concat (map (escape_char ensure_ascii) s) @ [CHR 0x22]"

fun join :: "string \<Rightarrow> string list \<Rightarrow> string" where
  "join sep [] = []"
| "join sep [x] = x"
| "join sep (x # y # ys) = x @ sep @ join sep (y # ys)"

fun dumps :: "bool \<Rightarrow> json \<Rightarrow> string" where
  "dumps a JNull = ''null''"
| "dumps a (JBool b) = (if b then ''true'' else ''false'')"
| "dumps a (JInt i) = show_int i"
| "dumps a (JStr s) = dumps_string a s"
| "dumps a (JArr xs) = ''['' @ join '','' (map (dumps a) xs) @ '']''"
| "dumps a (JObj kvs) =
     ''{'' @ join '','' (map (\<lambda>(k, v). dumps_string a k @ '':'' @ v)
                (sort_key fst (map (\<lambda>(k, v). (k, dumps a v)) kvs))) @ ''}''"

text \<open>UTF-8 of the code points a string of the model can hold.\<close>

definition utf8 :: "string \<Rightarrow> string" where
  "utf8 s = concat (map (\<lambda>c. let n = of_char c :: nat in
     if n < 128 then [c] else [char_of (192 + n div 64), char_of (128 + n mod 64)]) s)"

section \<open>What json.loads returns for the dumped text; equality of Python values\<close>

text \<open>Loading a dumped value gives it back with the keys of every object in sorted order.\<close>

fun canon :: "json \<Rightarrow> json" where
  "canon (JArr xs) = JArr (map canon xs)"
| "canon (JObj kvs) = JObj (sort_key fst (map (\<lambda>(k, v). (k, canon v)) kvs))"
| "canon v = v"

text \<open>
  Python's \<open>==\<close> on such values: \<open>True == 1\<close>, and dictionaries are compared as mappings.
\<close>

fun py_norm :: "json \<Rightarrow> json" where
  "py_norm (JBool b) = JInt (if b then 1 else 0)"
| "py_norm (JArr xs) = JArr (map py_norm xs)"
| "py_norm (JObj kvs) = JObj (sort_key fst (map (\<lambda>(k, v). (k, py_norm v)) kvs))"
| "py_norm v = v"

definition py_eq :: "json \<Rightarrow> json \<Rightarrow> bool" where
  "py_eq a b \<longleftrightarrow> py_norm a = py_norm b"

definition jget :: "string \<Rightarrow> json \<Rightarrow> json option" where
  "jget k v = (case v of JObj kvs \<Rightarrow> map_of kvs k | _ \<Rightarrow> None)"

text \<open>\<open>set(value)\<close> and \<open>value.get(key)\<close> of a dictionary; other values have no keys.\<close>

definition jkeys :: "json \<Rightarrow> string set" where
  "jkeys v = (case v of JObj kvs \<Rightarrow> fst ` set kvs | _ \<Rightarrow> {})"

definition jfield :: "json \<Rightarrow> string \<Rightarrow> json" where
  "jfield v k = (case jget k v of None \<Rightarrow> JNull | Some x \<Rightarrow> x)"

section \<open>Facts\<close>

lemma insort_key_map_values:
  "insort_key fst (k, f v) (map (\<lambda>(k, v). (k, f v)) kvs)
   = map (\<lambda>(k, v). (k, f v)) (insort_key fst (k, v) kvs)"
  by (induction kvs) auto

lemma sort_key_map_values:
  "sort_key fst (map (\<lambda>(k, v). (k, f v)) kvs) = map (\<lambda>(k, v). (k, f v)) (sort_key fst kvs)"
  by (induction kvs) (auto simp: insort_key_map_values)

lemma sort_key_sort_key [simp]: "sort_key f (sort_key f xs) = sort_key f xs"
  by (rule sort_key_id_if_sorted) simp

lemma map_values_cong:
  "(\<And>k v. (k, v) \<in> set kvs \<Longrightarrow> f v = g v) \<Longrightarrow> map (\<lambda>(k, v). (k, f v)) kvs = map (\<lambda>(k, v). (k, g v)) kvs"
  by auto

lemma values_compose:
  "map (\<lambda>(k, v). (k, f v)) (sort_key fst (map (\<lambda>(k, v). (k, g v)) kvs))
   = sort_key fst (map (\<lambda>(k, v). (k, f (g v))) kvs)"
  by (auto simp: sort_key_map_values)

text \<open>The serialisation does not depend on the order of keys.\<close>

lemma dumps_canon [simp]: "dumps a (canon v) = dumps a v"
proof (induction v)
  case (JObj kvs)
  then have vals: "map (\<lambda>(k, v). (k, dumps a (canon v))) kvs = map (\<lambda>(k, v). (k, dumps a v)) kvs"
    by (intro map_values_cong) auto
  show ?case by (simp add: values_compose vals del: map_eq_conv)
next
  case (JArr xs)
  then show ?case by (simp cong: map_cong)
qed simp_all

lemma canon_canon [simp]: "canon (canon v) = canon v"
proof (induction v)
  case (JObj kvs)
  then have vals: "map (\<lambda>(k, v). (k, canon (canon v))) kvs = map (\<lambda>(k, v). (k, canon v)) kvs"
    by (intro map_values_cong) auto
  show ?case by (simp add: values_compose vals del: map_eq_conv)
next
  case (JArr xs)
  then show ?case by (simp cong: map_cong)
qed simp_all

lemma py_norm_canon [simp]: "py_norm (canon v) = py_norm v"
proof (induction v)
  case (JObj kvs)
  then have vals: "map (\<lambda>(k, v). (k, py_norm (canon v))) kvs = map (\<lambda>(k, v). (k, py_norm v)) kvs"
    by (intro map_values_cong) auto
  show ?case by (simp add: values_compose vals del: map_eq_conv)
next
  case (JArr xs)
  then show ?case by (simp cong: map_cong)
qed simp_all

lemma py_eq_refl [simp]: "py_eq v v"
  by (simp add: py_eq_def)

lemma py_eq_sym: "py_eq a b \<Longrightarrow> py_eq b a"
  by (simp add: py_eq_def)

lemma py_eq_canon [simp]: "py_eq (canon a) b = py_eq a b" "py_eq a (canon b) = py_eq a b"
  by (simp_all add: py_eq_def)

lemma jget_JObj [simp]: "jget k (JObj kvs) = map_of kvs k"
  by (simp add: jget_def)

lemma map_of_map_values: "map_of (map (\<lambda>(k, v). (k, f v)) kvs) k = map_option f (map_of kvs k)"
  by (induction kvs) auto

lemma map_of_insort_key:
  "map_of (insort_key fst (k', v) kvs) k = (if k = k' then Some v else map_of kvs k)"
  by (induction kvs) (auto simp: less_le_not_le)

lemma map_of_sort_key: "map_of (sort_key fst kvs) k = map_of kvs k"
proof (induction kvs)
  case (Cons kv kvs)
  then show ?case by (cases kv) (simp add: map_of_insort_key)
qed simp

lemma jget_canon [simp]: "jget k (canon v) = map_option canon (jget k v)"
  by (cases v) (simp_all add: jget_def map_of_sort_key map_of_map_values)

lemma jkeys_JObj [simp]: "jkeys (JObj kvs) = fst ` set kvs"
  by (simp add: jkeys_def)

lemma jfield_JObj [simp]: "jfield (JObj kvs) k = (case map_of kvs k of None \<Rightarrow> JNull | Some x \<Rightarrow> x)"
  by (simp add: jfield_def)

lemma jkeys_canon [simp]: "jkeys (canon v) = jkeys v"
  by (cases v) (force simp: jkeys_def)+

lemma jfield_canon [simp]: "jfield (canon v) k = canon (jfield v k)"
  by (simp add: jfield_def split: option.splits)

text \<open>The same escape by the bits of the character, for evaluation.\<close>

lemma escape_char_code [code]:
  "escape_char ensure_ascii (Char b0 b1 b2 b3 b4 b5 b6 b7) =
     (if b7 \<or> (b6 \<and> b5 \<and> b4 \<and> b3 \<and> b2 \<and> b1 \<and> b0)
      then (if ensure_ascii then [CHR 0x5C, CHR ''u''] @ hex4 (of_char (Char b0 b1 b2 b3 b4 b5 b6 b7))
            else [Char b0 b1 b2 b3 b4 b5 b6 b7])
      else if b6 \<or> b5
      then (if Char b0 b1 b2 b3 b4 b5 b6 b7 = CHR 0x22 \<or> Char b0 b1 b2 b3 b4 b5 b6 b7 = CHR 0x5C
            then [CHR 0x5C, Char b0 b1 b2 b3 b4 b5 b6 b7] else [Char b0 b1 b2 b3 b4 b5 b6 b7])
      else (let c = Char b0 b1 b2 b3 b4 b5 b6 b7 in
        if c = CHR 0x0A then [CHR 0x5C, CHR ''n'']
        else if c = CHR 0x0D then [CHR 0x5C, CHR ''r'']
        else if c = CHR 0x09 then [CHR 0x5C, CHR ''t'']
        else if c = CHR 0x0C then [CHR 0x5C, CHR ''f'']
        else if c = CHR 0x08 then [CHR 0x5C, CHR ''b'']
        else [CHR 0x5C, CHR ''u''] @ hex4 (of_char c)))"
  by (cases b7; cases b6; cases b5; cases b4; cases b3; cases b2; cases b1; cases b0;
      cases ensure_ascii; simp add: escape_char_def)

text \<open>Printable ASCII characters are written as they are; a string of them needs no scan per bit.\<close>

fun plain_char :: "char \<Rightarrow> bool" where
  "plain_char (Char b0 b1 b2 b3 b4 b5 b6 b7) \<longleftrightarrow> \<not> b7 \<and> (b6 \<or> b5) \<and>
     \<not> (b6 \<and> b5 \<and> b4 \<and> b3 \<and> b2 \<and> b1 \<and> b0) \<and>
     \<not> (\<not> b6 \<and> b5 \<and> \<not> b4 \<and> \<not> b3 \<and> \<not> b2 \<and> b1 \<and> \<not> b0) \<and>
     \<not> (b6 \<and> \<not> b5 \<and> b4 \<and> b3 \<and> b2 \<and> \<not> b1 \<and> \<not> b0)"

lemma escape_plain: "plain_char c \<Longrightarrow> escape_char a c = [c]"
  by (cases c) (auto simp: escape_char_code)

lemma escape_plains: "list_all plain_char s \<Longrightarrow> concat (map (escape_char a) s) = s"
  by (induction s) (simp_all add: escape_plain)

lemma dumps_string_code [code]:
  "dumps_string a s = (if list_all plain_char s then CHR 0x22 # s @ [CHR 0x22]
     else [CHR 0x22] @ concat (map (escape_char a) s) @ [CHR 0x22])"
  by (simp add: dumps_string_def escape_plains)

fun ascii_char :: "char \<Rightarrow> bool" where
  "ascii_char (Char b0 b1 b2 b3 b4 b5 b6 b7) \<longleftrightarrow> \<not> b7"

lemma ascii_char_code_point: "ascii_char c \<longleftrightarrow> (of_char c :: nat) < 128"
proof (cases c)
  case (Char b0 b1 b2 b3 b4 b5 b6 b7)
  then show ?thesis
    by (cases b0; cases b1; cases b2; cases b3; cases b4; cases b5; cases b6; cases b7; simp)
qed

lemma utf8_code [code]:
  "utf8 s = (if list_all ascii_char s then s else concat (map (\<lambda>c. let n = of_char c :: nat in
     if n < 128 then [c] else [char_of (192 + n div 64), char_of (128 + n mod 64)]) s))"
proof -
  have "utf8 s = s" if "list_all ascii_char s" using that
    by (induction s) (auto simp: utf8_def ascii_char_code_point Let_def)
  then show ?thesis by (simp add: utf8_def)
qed

lemma show_nat_not_Nil [simp]: "show_nat n \<noteq> []"
  by (subst show_nat.simps) simp

lemma show_int_not_Nil [simp]: "show_int i \<noteq> []"
  by (simp add: show_int_def)

end
