(* ===== verification/Ecpa_Model.thy ===== *)
theory Ecpa_Model
  imports Exec_Monad Json_Value
begin

text \<open>
  The pure reference model of the activation contract (ecpa\_model.py): identities and their
  content hashes, plans, attestations, and the \<open>ReferenceModel\<close> whose operations follow below
  in the order of the source. The digest function of hashlib is the parameter \<open>H\<close> (bytes to
  hexadecimal text) of the operations that hash; what holds here holds for every \<open>H\<close>. An error
  is its contract code: the human-readable detail is not modelled.
\<close>

section \<open>States, error codes and identities\<close>

datatype ecpa_state =
    St_INTENT | St_RESOLVED | St_PLANNED | St_PREPARING | St_PREPARED | St_LAUNCHING
  | St_OBSERVING | St_COMMIT_READY | St_EFFECTIVE | St_DEGRADED | St_RECONCILE | St_ROLLBACK
  | St_ROLLED_BACK | St_FAILED_SAFE | St_SAFETY_UNKNOWN

datatype error_code =
    UNKNOWN_RESOURCE | AMBIGUOUS_RESOURCE | RESOURCE_CONFLICT | INCOMPATIBLE_HOST
  | MISSING_PROCESS_EVIDENCE | STALE_EVIDENCE | REPLAYED_NONCE | CAS_MISMATCH
  | EXTERNAL_LEASE_INVALID | AUTHORITY_VIOLATION | INVALID_TRANSITION | ROLLBACK_FAILED

datatype model_error = ContractError error_code | AssertionError

definition canonical_bytes :: "json \<Rightarrow> string" where
  "canonical_bytes v = utf8 (dumps False v)"

definition content_id :: "(string \<Rightarrow> string) \<Rightarrow> string \<Rightarrow> json \<Rightarrow> string" where
  "content_id H prefix v = prefix @ '':sha256:'' @ H (canonical_bytes v)"

text \<open>\<open>str.lower\<close> on the code points the model has.\<close>

definition lower_char :: "char \<Rightarrow> char" where
  "lower_char c = (let n = of_char c :: nat in
     if (65 \<le> n \<and> n \<le> 90) \<or> (192 \<le> n \<and> n \<le> 222 \<and> n \<noteq> 215) then char_of (n + 32) else c)"

definition canonical_uri :: "string \<Rightarrow> string \<Rightarrow> error_code + string" where
  "canonical_uri value kind =
     (if \<not> starts_with (''urn:ecpa:'' @ kind @ '':'') value \<or> map lower_char value \<noteq> value
         \<or> CHR '' '' \<in> set value
      then Inl UNKNOWN_RESOURCE else Inr value)"

record plugin_identity =
  pl_namespace :: string
  pl_name :: string
  pl_version :: string
  pl_artifact_sha256 :: string

record host_compatibility =
  hc_runtime :: string
  hc_version :: string
  hc_provider :: string
  hc_abi :: string

record process_identity =
  pr_host :: string
  pr_role :: string
  pr_ordinal :: int
  pr_start_id :: string
  pr_epoch :: int

record resource_claim =
  rc_uri :: string
  rc_owner :: string
  rc_mode :: string

record evidence_obligation =
  ob_id :: string
  ob_role :: string
  ob_event :: string
  ob_required_ordinals :: "int list"

record attestation =
  at_plan_id :: string
  at_launch_id :: string
  at_process :: process_identity
  at_obligation_id :: string
  at_event :: string
  at_nonce :: string
  at_issued_at :: int
  at_expires_at :: int
  at_artifact_id :: string
  at_authority :: string
  at_issuer :: string
  at_kid :: string
  at_observed_at :: int
  at_evidence_digest :: string
  at_artifact_digest :: string

record predecessor_snapshot =
  ps_generation :: int
  ps_plan_id :: "string option"
  ps_rendered_inputs :: json

record plan =
  plan_plugins :: "plugin_identity list"
  plan_host :: host_compatibility
  plan_claims :: "resource_claim list"
  plan_obligations :: "evidence_obligation list"
  plan_predecessor :: predecessor_snapshot
  plan_fallback_proven :: bool

section \<open>asdict and content identities\<close>

definition opt_str :: "string option \<Rightarrow> json" where
  "opt_str x = (case x of None \<Rightarrow> JNull | Some s \<Rightarrow> JStr s)"

definition plugin_dict :: "plugin_identity \<Rightarrow> json" where
  "plugin_dict p = JObj [(''namespace'', JStr (pl_namespace p)), (''name'', JStr (pl_name p)),
     (''version'', JStr (pl_version p)), (''artifact_sha256'', JStr (pl_artifact_sha256 p))]"

definition plugin_id :: "(string \<Rightarrow> string) \<Rightarrow> plugin_identity \<Rightarrow> string" where
  "plugin_id H p = content_id H ''plugin'' (plugin_dict p)"

definition process_key :: "process_identity \<Rightarrow> string" where
  "process_key p = pr_host p @ ''/'' @ pr_role p @ ''/'' @ show_int (pr_ordinal p) @ ''/''
     @ pr_start_id p @ ''/'' @ show_int (pr_epoch p)"

definition process_dict :: "process_identity \<Rightarrow> json" where
  "process_dict p = JObj [(''host'', JStr (pr_host p)), (''role'', JStr (pr_role p)),
     (''ordinal'', JInt (pr_ordinal p)), (''start_id'', JStr (pr_start_id p)),
     (''epoch'', JInt (pr_epoch p))]"

definition host_dict :: "host_compatibility \<Rightarrow> json" where
  "host_dict h = JObj [(''runtime'', JStr (hc_runtime h)), (''version'', JStr (hc_version h)),
     (''provider'', JStr (hc_provider h)), (''abi'', JStr (hc_abi h))]"

definition claim_dict :: "resource_claim \<Rightarrow> json" where
  "claim_dict c = JObj [(''uri'', JStr (rc_uri c)), (''owner'', JStr (rc_owner c)),
     (''mode'', JStr (rc_mode c))]"

definition obligation_dict :: "evidence_obligation \<Rightarrow> json" where
  "obligation_dict b = JObj [(''obligation_id'', JStr (ob_id b)), (''role'', JStr (ob_role b)),
     (''event'', JStr (ob_event b)),
     (''required_ordinals'', JArr (map JInt (ob_required_ordinals b)))]"

definition predecessor_dict :: "predecessor_snapshot \<Rightarrow> json" where
  "predecessor_dict p = JObj [(''generation'', JInt (ps_generation p)),
     (''plan_id'', opt_str (ps_plan_id p)), (''rendered_inputs'', ps_rendered_inputs p)]"

definition plan_dict :: "plan \<Rightarrow> json" where
  "plan_dict p = JObj [(''plugins'', JArr (map plugin_dict (plan_plugins p))),
     (''host'', host_dict (plan_host p)), (''claims'', JArr (map claim_dict (plan_claims p))),
     (''obligations'', JArr (map obligation_dict (plan_obligations p))),
     (''predecessor'', predecessor_dict (plan_predecessor p)),
     (''fallback_proven'', JBool (plan_fallback_proven p))]"

definition plan_id :: "(string \<Rightarrow> string) \<Rightarrow> plan \<Rightarrow> string" where
  "plan_id H p = content_id H ''plan'' (plan_dict p)"

definition attestation_dict :: "attestation \<Rightarrow> json" where
  "attestation_dict a = JObj [(''plan_id'', JStr (at_plan_id a)),
     (''launch_id'', JStr (at_launch_id a)), (''process'', process_dict (at_process a)),
     (''obligation_id'', JStr (at_obligation_id a)), (''event'', JStr (at_event a)),
     (''nonce'', JStr (at_nonce a)), (''issued_at'', JInt (at_issued_at a)),
     (''expires_at'', JInt (at_expires_at a)), (''artifact_id'', JStr (at_artifact_id a)),
     (''authority'', JStr (at_authority a)), (''issuer'', JStr (at_issuer a)),
     (''kid'', JStr (at_kid a)), (''observed_at'', JInt (at_observed_at a)),
     (''evidence_digest'', JStr (at_evidence_digest a)),
     (''artifact_digest'', JStr (at_artifact_digest a))]"

section \<open>The reference model\<close>

record store_record =
  sr_sequence :: nat
  sr_kind :: string
  sr_payload :: json

record reference_model =
  rm_state :: ecpa_state
  rm_generation :: int
  rm_store :: "store_record list"
  rm_plan :: "plan option"
  rm_launch_id :: "string option"
  rm_inventory :: "process_identity list"
  rm_nonces :: "string set"
  rm_accepted :: "attestation list"

type_synonym 'a rm_exec = "(reference_model, model_error, 'a) exec"

definition rm_init :: "int \<Rightarrow> reference_model" where
  "rm_init generation = \<lparr>rm_state = St_INTENT, rm_generation = generation, rm_store = [],
     rm_plan = None, rm_launch_id = None, rm_inventory = [], rm_nonces = {}, rm_accepted = []\<rparr>"

definition store_append :: "string \<Rightarrow> json \<Rightarrow> store_record list \<Rightarrow> store_record list" where
  "store_append kind payload records =
     records @ [\<lparr>sr_sequence = length records, sr_kind = kind, sr_payload = payload\<rparr>]"

definition rm_append :: "string \<Rightarrow> json \<Rightarrow> unit rm_exec" where
  "rm_append kind payload = modify_x (\<lambda>m. m\<lparr>rm_store := store_append kind payload (rm_store m)\<rparr>)"

definition rm_set_state :: "ecpa_state \<Rightarrow> unit rm_exec" where
  "rm_set_state st = modify_x (\<lambda>m. m\<lparr>rm_state := st\<rparr>)"

definition rm_require :: "ecpa_state list \<Rightarrow> unit rm_exec" where
  "rm_require states =
     bind_x (gets_x rm_state) (\<lambda>st. guard_x (st \<in> set states) (ContractError INVALID_TRANSITION))"

definition rm_the_plan :: "plan rm_exec" where
  "rm_the_plan = bind_x (gets_x rm_plan) (\<lambda>p.
     case p of None \<Rightarrow> raise_x AssertionError | Some p \<Rightarrow> return_x p)"

definition rm_resolve :: "string list \<Rightarrow> string \<Rightarrow> unit rm_exec" where
  "rm_resolve registrations expected =
     then_x (rm_require [St_INTENT])
     (let matches = filter (\<lambda>x. x = expected) registrations in
      then_x (guard_x (matches \<noteq> []) (ContractError UNKNOWN_RESOURCE))
      (then_x (guard_x (length matches = 1) (ContractError AMBIGUOUS_RESOURCE))
      (rm_set_state St_RESOLVED)))"

definition claims_conflict :: "resource_claim \<Rightarrow> resource_claim \<Rightarrow> bool" where
  "claims_conflict prior claim \<longleftrightarrow>
     (rc_mode prior = ''exclusive'' \<or> rc_mode claim = ''exclusive'') \<and> rc_owner prior \<noteq> rc_owner claim"

fun normalize_claims ::
  "(string \<times> resource_claim) list \<Rightarrow> resource_claim list \<Rightarrow> error_code + (string \<times> resource_claim) list"
  where
  "normalize_claims normalized [] = Inr normalized"
| "normalize_claims normalized (claim # claims) =
     bind_res (canonical_uri (rc_uri claim) ''resource'') (\<lambda>uri.
       if (case map_of normalized uri of None \<Rightarrow> False | Some prior \<Rightarrow> claims_conflict prior claim)
       then Inl RESOURCE_CONFLICT
       else normalize_claims (dict_set uri claim normalized) claims)"

definition rm_make_plan ::
  "(string \<Rightarrow> string) \<Rightarrow> plugin_identity list \<Rightarrow> host_compatibility \<Rightarrow> resource_claim list \<Rightarrow>
   evidence_obligation list \<Rightarrow> predecessor_snapshot \<Rightarrow> bool \<Rightarrow> plan rm_exec" where
  "rm_make_plan H plugins host claims obligations predecessor fallback_proven =
     then_x (rm_require [St_RESOLVED])
     (case normalize_claims [] claims of
        Inl code \<Rightarrow> raise_x (ContractError code)
      | Inr normalized \<Rightarrow>
          (let p = \<lparr>plan_plugins = plugins, plan_host = host, plan_claims = map snd normalized,
                    plan_obligations = obligations, plan_predecessor = predecessor,
                    plan_fallback_proven = fallback_proven\<rparr> in
           then_x (modify_x (\<lambda>m. m\<lparr>rm_plan := Some p\<rparr>))
           (then_x (rm_append ''plan'' (JObj [(''plan_id'', JStr (plan_id H p))]))
           (then_x (rm_set_state St_PLANNED)
           (return_x p)))))"

definition rm_prepare :: "(string \<Rightarrow> string) \<Rightarrow> unit rm_exec" where
  "rm_prepare H =
     then_x (rm_require [St_PLANNED])
     (bind_x rm_the_plan (\<lambda>p.
      let payload = JObj [(''operation'', JStr ''prepare''), (''plan_id'', JStr (plan_id H p))] in
      then_x (rm_set_state St_PREPARING)
      (then_x (rm_append ''wal'' payload)
      (then_x (rm_append ''receipt'' payload)
      (rm_set_state St_PREPARED)))))"

definition rm_launch :: "string \<Rightarrow> process_identity list \<Rightarrow> unit rm_exec" where
  "rm_launch launch_id inventory =
     then_x (rm_require [St_PREPARED])
     (bind_x rm_the_plan (\<lambda>_.
      let payload = JObj [(''operation'', JStr ''launch''), (''launch_id'', JStr launch_id)] in
      then_x (rm_set_state St_LAUNCHING)
      (then_x (modify_x (\<lambda>m. m\<lparr>rm_launch_id := Some launch_id, rm_inventory := inventory\<rparr>))
      (then_x (rm_append ''wal'' payload)
      (then_x (rm_append ''receipt'' payload)
      (rm_set_state St_OBSERVING))))))"

definition rm_attest :: "(string \<Rightarrow> string) \<Rightarrow> attestation \<Rightarrow> int \<Rightarrow> unit rm_exec" where
  "rm_attest H item now =
     then_x (rm_require [St_OBSERVING, St_RECONCILE])
     (bind_x rm_the_plan (\<lambda>p.
      bind_x (gets_x id) (\<lambda>m.
      then_x (guard_x (at_authority item = ''host-runtime'') (ContractError AUTHORITY_VIOLATION))
      (then_x (guard_x (\<not> (at_plan_id item \<noteq> plan_id H p
                  \<or> at_artifact_id item \<notin> plugin_id H ` set (plan_plugins p)
                  \<or> Some (at_launch_id item) \<noteq> rm_launch_id m
                  \<or> at_expires_at item < now \<or> at_issued_at item > now))
                (ContractError STALE_EVIDENCE))
      (then_x (guard_x (at_nonce item \<notin> rm_nonces m) (ContractError REPLAYED_NONCE))
      (then_x (guard_x (process_key (at_process item) \<in> process_key ` set (rm_inventory m))
                (ContractError STALE_EVIDENCE))
      (then_x (modify_x (\<lambda>m. m\<lparr>rm_nonces := insert (at_nonce item) (rm_nonces m),
                               rm_accepted := rm_accepted m @ [item]\<rparr>))
      (rm_append ''attestation'' (attestation_dict item)))))))))"

definition processes_of :: "process_identity list \<Rightarrow> string \<Rightarrow> (int \<times> process_identity) list" where
  "processes_of inventory role =
     fold (\<lambda>p d. dict_set (pr_ordinal p) p d) (filter (\<lambda>p. pr_role p = role) inventory) []"

definition obligation_complete ::
  "process_identity list \<Rightarrow> attestation list \<Rightarrow> evidence_obligation \<Rightarrow> bool" where
  "obligation_complete inventory accepted b =
     (let processes = processes_of inventory (ob_role b) in
      set (ob_required_ordinals b) \<subseteq> fst ` set processes
      \<and> (\<lambda>ordinal. (ob_role b, ordinal, pr_epoch (the (map_of processes ordinal))))
           ` set (ob_required_ordinals b)
        = (\<lambda>a. (pr_role (at_process a), pr_ordinal (at_process a), pr_epoch (at_process a)))
           ` {a \<in> set accepted. at_obligation_id a = ob_id b \<and> at_event a = ob_event b})"

definition rm_evidence_complete :: "reference_model \<Rightarrow> plan \<Rightarrow> bool" where
  "rm_evidence_complete m p =
     list_all (obligation_complete (rm_inventory m) (rm_accepted m)) (plan_obligations p)"

definition rm_commit :: "int \<Rightarrow> int rm_exec" where
  "rm_commit expected_generation =
     then_x (rm_require [St_OBSERVING])
     (bind_x rm_the_plan (\<lambda>p.
      bind_x (gets_x id) (\<lambda>m.
      then_x (guard_x (expected_generation = rm_generation m
                  \<and> ps_generation (plan_predecessor p) = rm_generation m)
                (ContractError CAS_MISMATCH))
      (then_x (guard_x (rm_evidence_complete m p) (ContractError MISSING_PROCESS_EVIDENCE))
      (then_x (rm_set_state St_COMMIT_READY)
      (then_x (rm_append ''wal''
                (JObj [(''operation'', JStr ''commit''), (''from'', JInt (rm_generation m))]))
      (then_x (modify_x (\<lambda>m. m\<lparr>rm_generation := rm_generation m + 1\<rparr>))
      (bind_x (gets_x rm_generation) (\<lambda>g.
      then_x (rm_append ''receipt''
                (JObj [(''operation'', JStr ''commit''), (''generation'', JInt g)]))
      (then_x (rm_set_state St_EFFECTIVE)
      (return_x g)))))))))))"

definition rm_rollback :: "string \<Rightarrow> bool \<Rightarrow> unit rm_exec" where
  "rm_rollback reason succeeds =
     bind_x rm_the_plan (\<lambda>p.
     then_x (rm_set_state St_ROLLBACK)
     (then_x (rm_append ''wal'' (JObj [(''operation'', JStr ''rollback''), (''reason'', JStr reason),
                (''predecessor'', predecessor_dict (plan_predecessor p))]))
     (if \<not> succeeds
      then then_x (rm_append ''receipt''
                     (JObj [(''operation'', JStr ''rollback''), (''success'', JBool False)]))
           (then_x (rm_set_state St_FAILED_SAFE)
           (raise_x (ContractError ROLLBACK_FAILED)))
      else then_x (rm_append ''receipt''
                     (JObj [(''operation'', JStr ''rollback''), (''conditional'', JBool True)]))
           (rm_set_state St_ROLLED_BACK))))"

definition rm_external_lease_lost :: "unit rm_exec" where
  "rm_external_lease_lost =
     bind_x rm_the_plan (\<lambda>p.
     then_x (rm_set_state St_DEGRADED)
     (if plan_fallback_proven p then rm_set_state St_RECONCILE
      else rm_rollback ''external lease invalid'' True))"

definition rm_recover_after_crash :: "unit rm_exec" where
  "rm_recover_after_crash =
     then_x (modify_x (\<lambda>m. m\<lparr>rm_accepted := []\<rparr>))
     (then_x (rm_set_state St_RECONCILE)
     (bind_x (gets_x rm_launch_id) (\<lambda>l.
      rm_append ''reobserve-required'' (JObj [(''launch_id'', opt_str l)]))))"

section \<open>Invariant of the reference model\<close>

text \<open>A receipt directly follows the write-ahead record of the same operation.\<close>

definition receipt_logged :: "store_record list \<Rightarrow> nat \<Rightarrow> bool" where
  "receipt_logged records i \<longleftrightarrow> sr_kind (records ! i) = ''receipt'' \<longrightarrow>
     0 < i \<and> sr_kind (records ! (i - 1)) = ''wal''
     \<and> jget ''operation'' (sr_payload (records ! (i - 1))) = jget ''operation'' (sr_payload (records ! i))"

definition store_inv :: "store_record list \<Rightarrow> bool" where
  "store_inv records \<longleftrightarrow> (\<forall>i < length records. sr_sequence (records ! i) = i \<and> receipt_logged records i)"

definition accepted_inv :: "(string \<Rightarrow> string) \<Rightarrow> reference_model \<Rightarrow> attestation \<Rightarrow> bool" where
  "accepted_inv H m a \<longleftrightarrow> (\<exists>p. rm_plan m = Some p \<and> at_plan_id a = plan_id H p
     \<and> at_artifact_id a \<in> plugin_id H ` set (plan_plugins p))
     \<and> at_authority a = ''host-runtime'' \<and> Some (at_launch_id a) = rm_launch_id m
     \<and> process_key (at_process a) \<in> process_key ` set (rm_inventory m)
     \<and> at_nonce a \<in> rm_nonces m"

definition rm_inv :: "(string \<Rightarrow> string) \<Rightarrow> reference_model \<Rightarrow> bool" where
  "rm_inv H m \<longleftrightarrow> store_inv (rm_store m)
     \<and> (\<forall>a \<in> set (rm_accepted m). accepted_inv H m a) \<and> distinct (map at_nonce (rm_accepted m))
     \<and> (rm_state m \<in> {St_INTENT, St_RESOLVED, St_PLANNED, St_PREPARED} \<longrightarrow> rm_accepted m = [])
     \<and> (rm_state m = St_EFFECTIVE \<longrightarrow> (\<exists>p. rm_plan m = Some p \<and> rm_evidence_complete m p
          \<and> rm_generation m = ps_generation (plan_predecessor p) + 1))"

lemma store_inv_append:
  assumes "store_inv records"
    and "kind = ''receipt'' \<Longrightarrow> records \<noteq> [] \<and> sr_kind (last records) = ''wal''
           \<and> jget ''operation'' (sr_payload (last records)) = jget ''operation'' payload"
  shows "store_inv (store_append kind payload records)"
proof -
  have "receipt_logged (store_append kind payload records) i" if "i < length records" for i
    using assms(1) that unfolding store_inv_def receipt_logged_def store_append_def
    by (auto simp: nth_append)
  moreover have "receipt_logged (store_append kind payload records) (length records)"
    using assms(2) by (auto simp: receipt_logged_def store_append_def nth_append last_conv_nth)
  ultimately show ?thesis
    using assms(1) by (auto simp: store_inv_def store_append_def nth_append less_Suc_eq)
qed

lemma store_append_not_Nil [simp]: "store_append kind payload records \<noteq> []"
  by (simp add: store_append_def)

lemma last_store_append [simp]:
  "last (store_append kind payload records)
   = \<lparr>sr_sequence = length records, sr_kind = kind, sr_payload = payload\<rparr>"
  by (simp add: store_append_def)


lemma store_inv_append_other [simp]:
  "store_inv records \<Longrightarrow> kind \<noteq> ''receipt'' \<Longrightarrow> store_inv (store_append kind payload records)"
  by (rule store_inv_append) auto

lemma store_inv_append_receipt [simp]:
  "store_inv records \<Longrightarrow> jget ''operation'' p = jget ''operation'' q \<Longrightarrow>
   store_inv (store_append ''receipt'' q (store_append ''wal'' p records))"
  by (intro store_inv_append) auto

lemma rm_evidence_complete_frame [simp]:
  "rm_evidence_complete (m\<lparr>rm_state := st\<rparr>) p = rm_evidence_complete m p"
  "rm_evidence_complete (m\<lparr>rm_store := rs\<rparr>) p = rm_evidence_complete m p"
  "rm_evidence_complete (m\<lparr>rm_generation := g\<rparr>) p = rm_evidence_complete m p"
  by (simp_all add: rm_evidence_complete_def)

lemma accepted_inv_frame [simp]:
  "accepted_inv H (m\<lparr>rm_state := st\<rparr>) a = accepted_inv H m a"
  "accepted_inv H (m\<lparr>rm_store := rs\<rparr>) a = accepted_inv H m a"
  "accepted_inv H (m\<lparr>rm_generation := g\<rparr>) a = accepted_inv H m a"
  by (simp_all add: accepted_inv_def)

lemma wp_rm_append [simp]:
  "wp (rm_append kind payload) Q R m = Q () (m\<lparr>rm_store := store_append kind payload (rm_store m)\<rparr>)"
  by (simp add: rm_append_def)

lemma wp_rm_set_state [simp]: "wp (rm_set_state st) Q R m = Q () (m\<lparr>rm_state := st\<rparr>)"
  by (simp add: rm_set_state_def)

lemma wp_rm_require [simp]:
  "wp (rm_require states) Q R m
   = (if rm_state m \<in> set states then Q () m else R (ContractError INVALID_TRANSITION) m)"
  by (simp add: rm_require_def)

lemma wp_rm_the_plan [simp]:
  "wp rm_the_plan Q R m = (case rm_plan m of None \<Rightarrow> R AssertionError m | Some p \<Rightarrow> Q p m)"
  by (simp add: rm_the_plan_def split: option.splits)

lemma rm_resolve_keeps [keep_intros]: "keeps (rm_inv H) (rm_resolve registrations expected)"
  by (rule keepsI) (simp add: rm_resolve_def rm_inv_def Let_def)

lemma rm_make_plan_keeps [keep_intros]:
  "keeps (rm_inv H) (rm_make_plan H plugins host claims obligations predecessor fallback)"
  by (rule keepsI) (simp add: rm_make_plan_def rm_inv_def Let_def split: sum.splits)

lemma rm_prepare_keeps [keep_intros]: "keeps (rm_inv H) (rm_prepare H)"
  by (rule keepsI) (simp add: rm_prepare_def rm_inv_def Let_def split: option.splits)

lemma rm_launch_keeps [keep_intros]: "keeps (rm_inv H) (rm_launch launch_id inventory)"
  by (rule keepsI) (simp add: rm_launch_def rm_inv_def Let_def split: option.splits)

lemma rm_inv_accept:
  assumes inv: "rm_inv H m" and item: "accepted_inv H (m\<lparr>rm_nonces := insert (at_nonce item) (rm_nonces m)\<rparr>) item"
    and fresh: "at_nonce item \<notin> rm_nonces m" and st: "rm_state m \<in> {St_OBSERVING, St_RECONCILE}"
  shows "rm_inv H (m\<lparr>rm_nonces := insert (at_nonce item) (rm_nonces m), rm_accepted := rm_accepted m @ [item],
           rm_store := store_append ''attestation'' payload (rm_store m)\<rparr>)"
proof -
  have old: "at_nonce a \<in> rm_nonces m" "accepted_inv H (m\<lparr>rm_nonces := insert n (rm_nonces m), rm_accepted := xs\<rparr>) a"
    if "a \<in> set (rm_accepted m)" for a n xs
    using inv that by (simp_all add: rm_inv_def accepted_inv_def)
  have "accepted_inv H (m\<lparr>rm_nonces := insert (at_nonce item) (rm_nonces m), rm_accepted := xs\<rparr>) item" for xs
    using item by (simp add: accepted_inv_def)
  moreover have "at_nonce item \<notin> at_nonce ` set (rm_accepted m)"
    using old(1) fresh by auto
  ultimately show ?thesis
    using inv st old(2) by (auto simp: rm_inv_def)
qed

lemma rm_attest_keeps [keep_intros]: "keeps (rm_inv H) (rm_attest H item now)"
proof (rule keepsI)
  fix m
  assume "rm_inv H m"
  then show "wp (rm_attest H item now) (\<lambda>_. rm_inv H) (\<lambda>_. rm_inv H) m"
    by (auto simp: rm_attest_def accepted_inv_def intro!: rm_inv_accept split: option.splits)
qed

lemma rm_commit_keeps [keep_intros]: "keeps (rm_inv H) (rm_commit g)"
  by (rule keepsI) (auto simp: rm_commit_def rm_inv_def split: option.splits)

lemma rm_rollback_keeps [keep_intros]: "keeps (rm_inv H) (rm_rollback reason succeeds)"
  by (rule keepsI) (auto simp: rm_rollback_def rm_inv_def split: option.splits)

lemma rm_external_lease_lost_keeps [keep_intros]: "keeps (rm_inv H) rm_external_lease_lost"
  unfolding rm_external_lease_lost_def
  by (rule keepsI) (auto simp: rm_rollback_def rm_inv_def split: option.splits)

lemma rm_recover_after_crash_keeps [keep_intros]: "keeps (rm_inv H) rm_recover_after_crash"
  by (rule keepsI) (simp add: rm_recover_after_crash_def rm_inv_def)

section \<open>Runs of the reference model\<close>

datatype rm_op =
    Rm_resolve "string list" string
  | Rm_make_plan "plugin_identity list" host_compatibility "resource_claim list"
      "evidence_obligation list" predecessor_snapshot bool
  | Rm_prepare
  | Rm_launch string "process_identity list"
  | Rm_attest attestation int
  | Rm_commit int
  | Rm_rollback string bool
  | Rm_external_lease_lost
  | Rm_recover_after_crash

text \<open>The state an operation leaves, whether it returns or raises.\<close>

fun rm_after :: "(string \<Rightarrow> string) \<Rightarrow> rm_op \<Rightarrow> reference_model \<Rightarrow> reference_model" where
  "rm_after H (Rm_resolve registrations expected) m = snd (rm_resolve registrations expected m)"
| "rm_after H (Rm_make_plan plugins host claims obligations predecessor fallback) m
   = snd (rm_make_plan H plugins host claims obligations predecessor fallback m)"
| "rm_after H Rm_prepare m = snd (rm_prepare H m)"
| "rm_after H (Rm_launch launch_id inventory) m = snd (rm_launch launch_id inventory m)"
| "rm_after H (Rm_attest item now) m = snd (rm_attest H item now m)"
| "rm_after H (Rm_commit expected) m = snd (rm_commit expected m)"
| "rm_after H (Rm_rollback reason succeeds) m = snd (rm_rollback reason succeeds m)"
| "rm_after H Rm_external_lease_lost m = snd (rm_external_lease_lost m)"
| "rm_after H Rm_recover_after_crash m = snd (rm_recover_after_crash m)"

inductive rm_step :: "(string \<Rightarrow> string) \<Rightarrow> reference_model \<Rightarrow> reference_model \<Rightarrow> bool" for H where
  "rm_step H m (rm_after H opn m)"

inductive_cases rm_stepE: "rm_step H m m'"

definition rm_initial :: "reference_model \<Rightarrow> bool" where
  "rm_initial m \<longleftrightarrow> (\<exists>g. m = rm_init g)"

text \<open>
  What every operation keeps is kept along a run: the rule that turns one \<open>keeps\<close> fact per
  operation into a fact about steps.
\<close>

lemma rm_after_keeps:
  assumes "\<And>rs e. keeps I (rm_resolve rs e)" "\<And>a b c d e f. keeps I (rm_make_plan H a b c d e f)"
    and "keeps I (rm_prepare H)" "\<And>l i. keeps I (rm_launch l i)" "\<And>a n. keeps I (rm_attest H a n)"
    and "\<And>g. keeps I (rm_commit g)" "\<And>r b. keeps I (rm_rollback r b)"
    and "keeps I rm_external_lease_lost" "keeps I rm_recover_after_crash"
    and "I m"
  shows "I (rm_after H opn m)"
  using assms by (cases opn) (auto intro: keeps_snd)

lemmas rm_operations = rm_resolve_def rm_make_plan_def rm_prepare_def rm_launch_def rm_attest_def
  rm_commit_def rm_external_lease_lost_def rm_rollback_def rm_recover_after_crash_def Let_def

interpretation rm: step_invariant rm_initial "rm_step H" "rm_inv H" for H
proof
  show "rm_inv H m" if "rm_initial m" for m
    using that by (auto simp: rm_initial_def rm_init_def rm_inv_def store_inv_def)
  show "rm_inv H m'" if "rm_inv H m" "rm_step H m m'" for m m'
    using that by (auto elim!: rm_stepE intro!: rm_after_keeps [where I = "rm_inv H"] keep_intros)
qed

text \<open>A nonce once accepted stays consumed, also through a crash.\<close>

lemma rm_nonce_kept:
  assumes "rm_step H m m'" and "n \<in> rm_nonces m"
  shows "n \<in> rm_nonces m'"
proof -
  obtain opn where m': "m' = rm_after H opn m" using assms(1) by (rule rm_stepE)
  show ?thesis unfolding m'
    by (rule rm_after_keeps [where I = "\<lambda>m. n \<in> rm_nonces m"]; (rule keepsI)?;
        simp add: rm_operations assms(2) split: option.splits sum.splits)
qed

text \<open>The states from which the model only reconciles or rolls back.\<close>

definition rm_fallen :: "reference_model \<Rightarrow> bool" where
  "rm_fallen m \<longleftrightarrow> rm_state m \<in> {St_DEGRADED, St_RECONCILE, St_ROLLBACK, St_ROLLED_BACK, St_FAILED_SAFE}"

lemma rm_fallen_step:
  assumes "rm_step H m m'" and "rm_fallen m"
  shows "rm_fallen m' \<and> rm_generation m' = rm_generation m"
proof -
  obtain opn where m': "m' = rm_after H opn m" using assms(1) by (rule rm_stepE)
  have start: "rm_fallen m \<and> rm_generation m = rm_generation m" using assms(2) by simp
  show ?thesis unfolding m'
    by (rule rm_after_keeps [where I = "\<lambda>t. rm_fallen t \<and> rm_generation t = rm_generation m",
          OF _ _ _ _ _ _ _ _ _ start]; rule keepsI;
        auto simp: rm_operations rm_fallen_def split: option.splits sum.splits)
qed

lemma rm_fallen_steps:
  "(rm_step H)\<^sup>*\<^sup>* m m' \<Longrightarrow> rm_fallen m \<Longrightarrow> rm_fallen m' \<and> rm_generation m' = rm_generation m"
  by (induction rule: rtranclp_induct) (auto dest: rm_fallen_step)

lemma rm_nonce_steps: "(rm_step H)\<^sup>*\<^sup>* m m' \<Longrightarrow> n \<in> rm_nonces m \<Longrightarrow> n \<in> rm_nonces m'"
  by (induction rule: rtranclp_induct) (auto dest: rm_nonce_kept)

section \<open>Resource claims\<close>

definition claims_ok :: "resource_claim list \<Rightarrow> bool" where
  "claims_ok claims \<longleftrightarrow>
     (\<forall>c \<in> set claims. \<forall>d \<in> set claims. rc_uri c = rc_uri d \<longrightarrow> \<not> claims_conflict c d)"

definition claim_table :: "resource_claim list \<Rightarrow> (string \<times> resource_claim) list" where
  "claim_table seen = fold (\<lambda>c. dict_set (rc_uri c) c) seen []"

lemma claim_table_snoc: "claim_table (seen @ [c]) = dict_set (rc_uri c) c (claim_table seen)"
  by (simp add: claim_table_def)

lemma claim_table_Some: "map_of (claim_table seen) u = Some c \<Longrightarrow> c \<in> set seen \<and> rc_uri c = u"
  by (induction seen rule: rev_induct) (auto simp: claim_table_def claim_table_snoc split: if_splits)

lemma claim_table_None: "map_of (claim_table seen) u = None \<longleftrightarrow> u \<notin> rc_uri ` set seen"
  by (induction seen rule: rev_induct) (auto simp: claim_table_def claim_table_snoc)

lemma canonical_uri_Inr: "canonical_uri u k = Inr v \<Longrightarrow> v = u"
  by (simp add: canonical_uri_def split: if_splits)

lemma claims_conflict_sym: "claims_conflict c d = claims_conflict d c"
  by (auto simp: claims_conflict_def)

lemma claims_conflict_self [simp]: "\<not> claims_conflict c c"
  by (simp add: claims_conflict_def)

lemma claims_ok_append_one:
  "claims_ok (seen @ [c]) \<longleftrightarrow>
   claims_ok seen \<and> (\<forall>q \<in> set seen. rc_uri q = rc_uri c \<longrightarrow> \<not> claims_conflict q c)"
  using claims_conflict_sym [of c] by (auto simp: claims_ok_def)

text \<open>
  One more claim conflicts with none of the claims seen exactly if it does not conflict with
  the last one recorded for its URI, as long as no owner claims a URI twice.
\<close>

lemma claims_ok_snoc:
  assumes ok: "claims_ok seen"
    and dist: "distinct (map (\<lambda>c. (rc_uri c, rc_owner c)) (seen @ [c]))"
  shows "claims_ok (seen @ [c]) \<longleftrightarrow>
    (case map_of (claim_table seen) (rc_uri c) of None \<Rightarrow> True | Some p \<Rightarrow> \<not> claims_conflict p c)"
proof (cases "map_of (claim_table seen) (rc_uri c)")
  case None
  then have "\<forall>q \<in> set seen. rc_uri q \<noteq> rc_uri c"
    unfolding claim_table_None by (metis imageI)
  with ok None show ?thesis by (simp add: claims_ok_append_one)
next
  case (Some p)
  then have p: "p \<in> set seen" "rc_uri p = rc_uri c" using claim_table_Some by blast+
  have "\<not> claims_conflict q c"
    if pc: "\<not> claims_conflict p c" and q: "q \<in> set seen" "rc_uri q = rc_uri c" for q
  proof (cases "q = p")
    case False
    have "(rc_uri p, rc_owner p) \<in> (\<lambda>c. (rc_uri c, rc_owner c)) ` set seen"
      using p(1) by (rule imageI)
    then have "rc_owner p \<noteq> rc_owner c" using dist p(2) by auto
    moreover have "rc_owner p \<noteq> rc_owner q"
      using dist p q False by (auto simp: distinct_map inj_on_def)
    moreover have "\<not> claims_conflict q p" using ok p q by (simp add: claims_ok_def)
    ultimately show ?thesis using pc by (simp add: claims_conflict_def)
  qed (use pc in simp)
  then show ?thesis using Some p ok by (auto simp: claims_ok_append_one)
qed

lemma claims_ok_prefix: "claims_ok (xs @ ys) \<Longrightarrow> claims_ok xs"
  by (auto simp: claims_ok_def)

lemma normalize_claims_iff:
  assumes "claims_ok seen" and "distinct (map (\<lambda>c. (rc_uri c, rc_owner c)) (seen @ claims))"
  shows "(\<exists>d. normalize_claims (claim_table seen) claims = Inr d) \<longleftrightarrow>
    (\<forall>c \<in> set claims. \<exists>u. canonical_uri (rc_uri c) ''resource'' = Inr u) \<and> claims_ok (seen @ claims)"
  using assms
proof (induction claims arbitrary: seen)
  case (Cons c claims)
  have snoc: "claims_ok (seen @ [c]) \<longleftrightarrow>
    (case map_of (claim_table seen) (rc_uri c) of None \<Rightarrow> True | Some p \<Rightarrow> \<not> claims_conflict p c)"
    using Cons.prems by (intro claims_ok_snoc) auto
  have drop: "claims_ok (seen @ c # claims) \<Longrightarrow> claims_ok (seen @ [c])"
    using claims_ok_prefix [of "seen @ [c]" claims] by simp
  show ?case
  proof (cases "canonical_uri (rc_uri c) ''resource''")
    case (Inr u)
    then have u: "u = rc_uri c" by (rule canonical_uri_Inr)
    show ?thesis
    proof (cases "claims_ok (seen @ [c])")
      case True
      then show ?thesis
        using Cons.IH [of "seen @ [c]"] Cons.prems(2) Inr u snoc
        by (auto simp: claim_table_snoc split: option.splits)
    next
      case False
      then show ?thesis using snoc Inr u drop by (auto split: option.splits)
    qed
  qed auto
qed auto

lemma normalize_claims_table:
  "normalize_claims (claim_table seen) claims = Inr d \<Longrightarrow> d = claim_table (seen @ claims)"
proof (induction claims arbitrary: seen)
  case (Cons c claims)
  then obtain u where u: "canonical_uri (rc_uri c) ''resource'' = Inr u" by auto
  then have "normalize_claims (claim_table (seen @ [c])) claims = Inr d"
    using Cons.prems canonical_uri_Inr [OF u] by (auto simp: claim_table_snoc split: if_splits)
  then show ?case using Cons.IH by fastforce
qed auto


section \<open>Properties\<close>

lemma rm_step_after: "rm_step H m (rm_after H opn m)"
  by (rule rm_step.intros)

lemma rm_effective_evidence:
  assumes inv: "rm_inv H m" and eff: "rm_state m = St_EFFECTIVE"
  obtains p where "rm_plan m = Some p" "rm_generation m = ps_generation (plan_predecessor p) + 1"
    "\<And>b i. b \<in> set (plan_obligations p) \<Longrightarrow> i \<in> set (ob_required_ordinals b) \<Longrightarrow>
      \<exists>a \<in> set (rm_accepted m). at_obligation_id a = ob_id b \<and> at_event a = ob_event b
        \<and> pr_role (at_process a) = ob_role b \<and> pr_ordinal (at_process a) = i"
proof -
  obtain p where p: "rm_plan m = Some p" "rm_evidence_complete m p"
      "rm_generation m = ps_generation (plan_predecessor p) + 1"
    using inv eff by (auto simp: rm_inv_def)
  have "\<exists>a \<in> set (rm_accepted m). at_obligation_id a = ob_id b \<and> at_event a = ob_event b
        \<and> pr_role (at_process a) = ob_role b \<and> pr_ordinal (at_process a) = i"
    if "b \<in> set (plan_obligations p)" "i \<in> set (ob_required_ordinals b)" for b i
  proof -
    let ?f = "\<lambda>i. (ob_role b, i, pr_epoch (the (map_of (processes_of (rm_inventory m) (ob_role b)) i)))"
    have "?f i \<in> (\<lambda>a. (pr_role (at_process a), pr_ordinal (at_process a), pr_epoch (at_process a)))
           ` {a \<in> set (rm_accepted m). at_obligation_id a = ob_id b \<and> at_event a = ob_event b}"
      using p(2) that imageI [OF that(2), of ?f]
      by (simp add: rm_evidence_complete_def list_all_iff obligation_complete_def Let_def)
    then show ?thesis by auto
  qed
  with p that show thesis by blast
qed

text \<open>
  C8. The model is EFFECTIVE only after full evidence: in every state reachable by any sequence
  of operations, succeeding or raising, EFFECTIVE means that there is a plan, the generation is
  the successor of the plan's predecessor, and for every obligation and every ordinal it requires
  an attestation was accepted that the host runtime issued for this plan, this launch, an artifact
  of the plan and a process of the current inventory.
\<close>

theorem rm_effective_justified:
  assumes "reach rm_initial (rm_step H) m" and "rm_state m = St_EFFECTIVE"
  shows "\<exists>p. rm_plan m = Some p \<and> rm_generation m = ps_generation (plan_predecessor p) + 1 \<and>
    (\<forall>b \<in> set (plan_obligations p). \<forall>i \<in> set (ob_required_ordinals b).
       \<exists>a \<in> set (rm_accepted m). at_obligation_id a = ob_id b \<and> at_event a = ob_event b
         \<and> pr_role (at_process a) = ob_role b \<and> pr_ordinal (at_process a) = i
         \<and> at_authority a = ''host-runtime'' \<and> at_plan_id a = plan_id H p
         \<and> Some (at_launch_id a) = rm_launch_id m
         \<and> at_artifact_id a \<in> plugin_id H ` set (plan_plugins p)
         \<and> process_key (at_process a) \<in> process_key ` set (rm_inventory m))"
proof -
  have inv: "rm_inv H m" using assms(1) by (rule rm.inv_reach)
  then obtain p where p: "rm_plan m = Some p" "rm_generation m = ps_generation (plan_predecessor p) + 1"
    "\<And>b i. b \<in> set (plan_obligations p) \<Longrightarrow> i \<in> set (ob_required_ordinals b) \<Longrightarrow>
      \<exists>a \<in> set (rm_accepted m). at_obligation_id a = ob_id b \<and> at_event a = ob_event b
        \<and> pr_role (at_process a) = ob_role b \<and> pr_ordinal (at_process a) = i"
    using rm_effective_evidence [OF _ assms(2)] by metis
  have "accepted_inv H m a" if "a \<in> set (rm_accepted m)" for a
    using inv that by (simp add: rm_inv_def)
  then show ?thesis using p(1,2) p(3) by (fastforce simp: accepted_inv_def)
qed

text \<open>
  Write-ahead order of the evidence store: in every reachable state the records are numbered
  consecutively from 0 and every receipt directly follows the write-ahead record of the same
  operation.
\<close>

theorem rm_receipts_follow_wal:
  assumes "reach rm_initial (rm_step H) m" and "i < length (rm_store m)"
  shows "sr_sequence (rm_store m ! i) = i \<and> (sr_kind (rm_store m ! i) = ''receipt'' \<longrightarrow>
    0 < i \<and> sr_kind (rm_store m ! (i - 1)) = ''wal''
    \<and> jget ''operation'' (sr_payload (rm_store m ! (i - 1)))
      = jget ''operation'' (sr_payload (rm_store m ! i)))"
  using rm.inv_reach [OF assms(1)] assms(2)
  by (auto simp: rm_inv_def store_inv_def receipt_logged_def)

text \<open>
  C19. Replay protection: once an attestation was accepted, an attestation with the same nonce is
  refused in every later state, whatever operations, rollbacks and crash recoveries come in between,
  and the refusal changes nothing.
\<close>

theorem rm_nonce_never_reused:
  assumes "fst (rm_attest H item now m) = Inr ()"
    and "(rm_step H)\<^sup>*\<^sup>* (snd (rm_attest H item now m)) m'"
    and "at_nonce item' = at_nonce item"
  shows "(\<exists>e. fst (rm_attest H item' now' m') = Inl e) \<and> snd (rm_attest H item' now' m') = m'"
proof -
  have "wp (rm_attest H item now) (\<lambda>_ t. at_nonce item \<in> rm_nonces t) (\<lambda>_ _. True) m"
    by (simp add: rm_attest_def split: option.splits)
  then have "at_nonce item \<in> rm_nonces (snd (rm_attest H item now m))"
    using assms(1) by (auto simp: wp_def split: prod.splits)
  then have "at_nonce item' \<in> rm_nonces m'"
    using rm_nonce_steps [OF assms(2)] assms(3) by simp
  then have "wp (rm_attest H item' now') (\<lambda>_ _. False) (\<lambda>_ t. t = m') m'"
    by (simp add: rm_attest_def split: option.splits)
  then show ?thesis by (auto simp: wp_def split: prod.splits sum.splits)
qed

text \<open>
  A crash is never papered over: after crash recovery no sequence of operations makes the same
  model EFFECTIVE or changes its generation; it stays in RECONCILE or a rollback state.
\<close>

theorem rm_no_effective_after_crash:
  assumes "(rm_step H)\<^sup>*\<^sup>* (snd (rm_recover_after_crash m)) m'"
  shows "rm_state m' \<in> {St_DEGRADED, St_RECONCILE, St_ROLLBACK, St_ROLLED_BACK, St_FAILED_SAFE}
    \<and> rm_generation m' = rm_generation m"
proof -
  have "wp rm_recover_after_crash (\<lambda>_ t. rm_fallen t \<and> rm_generation t = rm_generation m)
          (\<lambda>_ t. rm_fallen t \<and> rm_generation t = rm_generation m) m"
    by (simp add: rm_recover_after_crash_def rm_fallen_def)
  then show ?thesis
    using rm_fallen_steps [OF assms] by (auto simp: wp_snd rm_fallen_def)
qed

text \<open>
  Resource claims: when no owner claims a resource twice, planning succeeds from RESOLVED
  exactly if every claimed URI is canonical and no two claims of one URI with different owners
  include an exclusive one.
\<close>

theorem rm_make_plan_decides_conflicts:
  assumes "rm_state m = St_RESOLVED"
    and "distinct (map (\<lambda>c. (rc_uri c, rc_owner c)) claims)"
  shows "(\<exists>p. fst (rm_make_plan H plugins host claims obligations predecessor fallback m) = Inr p)
    \<longleftrightarrow> (\<forall>c \<in> set claims. \<exists>u. canonical_uri (rc_uri c) ''resource'' = Inr u)
      \<and> (\<forall>c \<in> set claims. \<forall>d \<in> set claims. rc_uri c = rc_uri d \<and> rc_owner c \<noteq> rc_owner d
           \<longrightarrow> rc_mode c \<noteq> ''exclusive'' \<and> rc_mode d \<noteq> ''exclusive'')"
proof -
  have "(\<exists>p. fst (rm_make_plan H plugins host claims obligations predecessor fallback m) = Inr p)
    \<longleftrightarrow> (\<exists>d. normalize_claims [] claims = Inr d)"
    using assms(1)
    by (auto simp: rm_make_plan_def rm_require_def rm_append_def rm_set_state_def exec_defs Let_def
        split: sum.splits)
  also have "\<dots> \<longleftrightarrow> (\<forall>c \<in> set claims. \<exists>u. canonical_uri (rc_uri c) ''resource'' = Inr u) \<and> claims_ok claims"
    using normalize_claims_iff [of "[]" claims] assms(2) by (simp add: claim_table_def claims_ok_def)
  also have "claims_ok claims \<longleftrightarrow> (\<forall>c \<in> set claims. \<forall>d \<in> set claims. rc_uri c = rc_uri d \<and> rc_owner c \<noteq> rc_owner d
           \<longrightarrow> rc_mode c \<noteq> ''exclusive'' \<and> rc_mode d \<noteq> ''exclusive'')"
    by (auto simp: claims_ok_def claims_conflict_def)
  finally show ?thesis .
qed

text \<open>
  Only the last claim on a resource is kept: when an owner may claim a resource twice, planning
  accepts two owners of one resource although one of them claims it exclusively, and the plan
  records the exclusive claim only.
\<close>

theorem rm_make_plan_last_writer_wins:
  "fst (rm_make_plan H [] host
      [\<lparr>rc_uri = ''urn:ecpa:resource:npu'', rc_owner = ''a'', rc_mode = ''shared''\<rparr>,
       \<lparr>rc_uri = ''urn:ecpa:resource:npu'', rc_owner = ''b'', rc_mode = ''shared''\<rparr>,
       \<lparr>rc_uri = ''urn:ecpa:resource:npu'', rc_owner = ''b'', rc_mode = ''exclusive''\<rparr>]
      [] predecessor fallback ((rm_init 0)\<lparr>rm_state := St_RESOLVED\<rparr>))
   = Inr \<lparr>plan_plugins = [], plan_host = host,
       plan_claims = [\<lparr>rc_uri = ''urn:ecpa:resource:npu'', rc_owner = ''b'', rc_mode = ''exclusive''\<rparr>],
       plan_obligations = [], plan_predecessor = predecessor, plan_fallback_proven = fallback\<rparr>"
  by (simp add: rm_make_plan_def rm_require_def rm_append_def rm_set_state_def exec_defs Let_def
      canonical_uri_def starts_with_def lower_char_def claims_conflict_def)


section \<open>A complete activation\<close>

definition demo_hash :: "string \<Rightarrow> string" where
  "demo_hash _ = ''00''"

definition demo_plugin :: plugin_identity where
  "demo_plugin = \<lparr>pl_namespace = ''ns'', pl_name = ''p'', pl_version = ''1'', pl_artifact_sha256 = ''aa''\<rparr>"

definition demo_host :: host_compatibility where
  "demo_host = \<lparr>hc_runtime = ''vllm'', hc_version = ''1'', hc_provider = ''npu'', hc_abi = ''x''\<rparr>"

definition demo_process :: process_identity where
  "demo_process = \<lparr>pr_host = ''h'', pr_role = ''worker'', pr_ordinal = 0, pr_start_id = ''s'', pr_epoch = 1\<rparr>"

definition demo_obligation :: evidence_obligation where
  "demo_obligation = \<lparr>ob_id = ''o1'', ob_role = ''worker'', ob_event = ''ready'', ob_required_ordinals = [0]\<rparr>"

definition demo_claim :: resource_claim where
  "demo_claim = \<lparr>rc_uri = ''urn:ecpa:resource:npu'', rc_owner = ''p'', rc_mode = ''exclusive''\<rparr>"

definition demo_predecessor :: predecessor_snapshot where
  "demo_predecessor = \<lparr>ps_generation = 0, ps_plan_id = None, ps_rendered_inputs = JObj []\<rparr>"

definition demo_plan :: plan where
  "demo_plan = \<lparr>plan_plugins = [demo_plugin], plan_host = demo_host, plan_claims = [demo_claim],
     plan_obligations = [demo_obligation], plan_predecessor = demo_predecessor, plan_fallback_proven = False\<rparr>"

definition demo_attestation :: attestation where
  "demo_attestation = \<lparr>at_plan_id = plan_id demo_hash demo_plan, at_launch_id = ''l1'',
     at_process = demo_process, at_obligation_id = ''o1'', at_event = ''ready'', at_nonce = ''n1'',
     at_issued_at = 5, at_expires_at = 20, at_artifact_id = plugin_id demo_hash demo_plugin,
     at_authority = ''host-runtime'', at_issuer = ''i'', at_kid = ''k'', at_observed_at = 6,
     at_evidence_digest = ''e'', at_artifact_digest = ''aa''\<rparr>"

definition demo_ops :: "rm_op list" where
  "demo_ops = [Rm_resolve [''ns''] ''ns'',
     Rm_make_plan [demo_plugin] demo_host [demo_claim] [demo_obligation] demo_predecessor False,
     Rm_prepare, Rm_launch ''l1'' [demo_process]]"

lemmas demo_defs = demo_hash_def demo_plugin_def demo_host_def demo_process_def demo_obligation_def
  demo_claim_def demo_predecessor_def demo_plan_def

definition demo_run :: "rm_op list \<Rightarrow> reference_model" where
  "demo_run ops = fold (rm_after demo_hash) ops (rm_init 0)"

lemma demo_run_reach: "reach rm_initial (rm_step demo_hash) (demo_run ops)"
proof (induction ops rule: rev_induct)
  case Nil
  then show ?case by (auto simp: demo_run_def rm_initial_def intro: reach.intros)
next
  case (snoc opn ops)
  then show ?case
    using reach_step [OF snoc rm_step_after [of demo_hash _ opn]] by (simp add: demo_run_def)
qed

lemma demo_steps: "demo_run (ops @ [opn]) = rm_after demo_hash opn (demo_run ops)"
  by (simp add: demo_run_def)

lemma demo_ids [simp]:
  "plan_id demo_hash p = ''plan:sha256:00''" "plugin_id demo_hash q = ''plugin:sha256:00''"
  by (simp_all add: plan_id_def plugin_id_def content_id_def demo_hash_def)

lemmas demo_exec = demo_run_def demo_ops_def rm_operations rm_require_def rm_append_def
  rm_set_state_def rm_the_plan_def exec_defs rm_init_def canonical_uri_def starts_with_def lower_char_def

definition demo_model :: "store_record list \<Rightarrow> reference_model" where
  "demo_model records = \<lparr>rm_state = St_OBSERVING, rm_generation = 0, rm_store = records,
     rm_plan = Some demo_plan, rm_launch_id = Some ''l1'', rm_inventory = [demo_process],
     rm_nonces = {}, rm_accepted = []\<rparr>"

lemma demo_observing: "\<exists>records. demo_run demo_ops = demo_model records"
  by (simp add: demo_exec demo_claim_def demo_plan_def demo_model_def)

lemma demo_attested:
  "rm_attest demo_hash demo_attestation 10 (demo_model records) =
    (Inr (), (demo_model records)\<lparr>rm_nonces := {''n1''}, rm_accepted := [demo_attestation],
       rm_store := store_append ''attestation'' (attestation_dict demo_attestation) records\<rparr>)"
  by (simp add: rm_attest_def rm_require_def rm_append_def rm_the_plan_def exec_defs
       demo_model_def demo_attestation_def demo_plan_def)

lemma demo_attestation_fields:
  "at_obligation_id demo_attestation = ''o1''" "at_event demo_attestation = ''ready''"
  "at_process demo_attestation = demo_process"
  by (simp_all add: demo_attestation_def)

lemma demo_evidence: "obligation_complete [demo_process] [demo_attestation] demo_obligation"
proof -
  have "{a \<in> set [demo_attestation]. at_obligation_id a = ''o1'' \<and> at_event a = ''ready''} = {demo_attestation}"
    using demo_attestation_fields by auto
  then show ?thesis
    by (simp add: obligation_complete_def demo_obligation_def processes_of_def demo_process_def
      demo_attestation_fields)
qed

lemma demo_committed:
  "rm_state (demo_run (demo_ops @ [Rm_attest demo_attestation 10, Rm_commit 0])) = St_EFFECTIVE"
proof -
  obtain records where "demo_run demo_ops = demo_model records" using demo_observing by blast
  then have "demo_run (demo_ops @ [Rm_attest demo_attestation 10, Rm_commit 0])
    = snd (rm_commit 0 (snd (rm_attest demo_hash demo_attestation 10 (demo_model records))))"
    using demo_steps [of "demo_ops @ [Rm_attest demo_attestation 10]" "Rm_commit 0"]
    by (simp add: demo_steps)
  then show ?thesis unfolding demo_attested
    by (simp add: rm_commit_def rm_require_def rm_append_def rm_the_plan_def
       rm_set_state_def exec_defs demo_model_def demo_plan_def demo_predecessor_def
       rm_evidence_complete_def demo_evidence)
qed

theorem rm_effective_justified_witness:
  "\<exists>p. rm_plan (demo_run (demo_ops @ [Rm_attest demo_attestation 10, Rm_commit 0])) = Some p
     \<and> rm_generation (demo_run (demo_ops @ [Rm_attest demo_attestation 10, Rm_commit 0]))
       = ps_generation (plan_predecessor p) + 1"
  by (rule ex_forward [OF rm_effective_justified [OF demo_run_reach demo_committed]])
     (elim conjE, rule conjI)

theorem rm_receipts_follow_wal_witness:
  "sr_kind (rm_store (demo_run demo_ops) ! 2) = ''receipt''
   \<and> sr_kind (rm_store (demo_run demo_ops) ! 1) = ''wal''"
proof -
  have "2 < length (rm_store (demo_run demo_ops))" "sr_kind (rm_store (demo_run demo_ops) ! 2) = ''receipt''"
    by (simp_all add: demo_exec store_append_def demo_claim_def)
  then show ?thesis using rm_receipts_follow_wal [OF demo_run_reach, of 2 demo_ops] by simp
qed

theorem rm_nonce_never_reused_witness:
  "\<exists>e. fst (rm_attest demo_hash demo_attestation 11
      (snd (rm_attest demo_hash demo_attestation 10 (demo_model [])))) = Inl e"
  using rm_nonce_never_reused [where m = "demo_model []" and H = demo_hash and item = demo_attestation
      and now = 10 and item' = demo_attestation and now' = 11]
  by (simp add: demo_attested)

theorem rm_no_effective_after_crash_witness:
  "rm_state (snd (rm_recover_after_crash (demo_model []))) \<noteq> St_EFFECTIVE"
  using rm_no_effective_after_crash [OF rtranclp.rtrancl_refl, where m = "demo_model []"] by auto

theorem rm_make_plan_decides_conflicts_witness:
  "\<exists>p. fst (rm_make_plan demo_hash [] demo_host [demo_claim] [] demo_predecessor False
     ((rm_init 0)\<lparr>rm_state := St_RESOLVED\<rparr>)) = Inr p"
  by (subst rm_make_plan_decides_conflicts)
     (simp_all add: demo_claim_def canonical_uri_def starts_with_def lower_char_def)

end
