(* ===== verification/Json_Parse.thy ===== *)
theory Json_Parse
  imports Json_Value
begin

text \<open>
  \<open>json.loads\<close> on UTF-8 text of values the model has (no fractions or exponents, code points up to 255),
  plain and with a hook for objects, and that it inverts \<open>json.dumps\<close> up to the order of keys.
\<close>

section \<open>Parser\<close>

definition is_digit :: "char \<Rightarrow> bool" where
  "is_digit c \<longleftrightarrow> 48 \<le> (of_char c :: nat) \<and> (of_char c :: nat) \<le> 57"

definition read_nat :: "string \<Rightarrow> nat" where
  "read_nat = foldl (\<lambda>n c. 10 * n + (of_char c - 48)) 0"

definition parse_nat :: "string \<Rightarrow> (nat \<times> string) option" where
  "parse_nat s = (let ds = takeWhile is_digit s; rest = dropWhile is_digit s in
     if ds = [] \<or> (hd ds = CHR ''0'' \<and> length ds > 1) then None else Some (read_nat ds, rest))"

definition hex_value :: "char \<Rightarrow> nat option" where
  "hex_value c = (let n = of_char c :: nat in
     if 48 \<le> n \<and> n \<le> 57 then Some (n - 48) else if 97 \<le> n \<and> n \<le> 102 then Some (n - 87)
     else if 65 \<le> n \<and> n \<le> 70 then Some (n - 55) else None)"

fun parse_hex4 :: "string \<Rightarrow> (char \<times> string) option" where
  "parse_hex4 (a # b # c # d # s) = (case (hex_value a, hex_value b, hex_value c, hex_value d) of
     (Some w, Some x, Some y, Some z) \<Rightarrow>
       let n = w * 4096 + x * 256 + y * 16 + z in if n < 256 then Some (char_of n, s) else None
   | _ \<Rightarrow> None)"
| "parse_hex4 _ = None"

definition unescape :: "char \<Rightarrow> char option" where
  "unescape c = (if c = CHR 0x22 \<or> c = CHR 0x5C \<or> c = CHR ''/'' then Some c
     else if c = CHR ''n'' then Some (CHR 0x0A) else if c = CHR ''r'' then Some (CHR 0x0D)
     else if c = CHR ''t'' then Some (CHR 0x09) else if c = CHR ''f'' then Some (CHR 0x0C)
     else if c = CHR ''b'' then Some (CHR 0x08) else None)"

text \<open>One character of a string, after the opening quote; None at its end or at an error.\<close>

definition parse_char :: "string \<Rightarrow> (char \<times> string) option" where
  "parse_char s = (case s of
     [] \<Rightarrow> None
   | c # s \<Rightarrow>
       if c = CHR 0x22 then None
       else if c = CHR 0x5C then (case s of
           [] \<Rightarrow> None
         | d # t \<Rightarrow> if d = CHR ''u'' then parse_hex4 t else map_option (\<lambda>x. (x, t)) (unescape d))
       else if (of_char c :: nat) < 32 then None else Some (c, s))"

lemma parse_hex4_shorter: "parse_hex4 s = Some (c, t) \<Longrightarrow> length t < length s"
  by (induction s rule: parse_hex4.induct) (auto simp: Let_def split: option.splits if_splits)

lemma parse_char_shorter: "parse_char s = Some (c, t) \<Longrightarrow> length t < length s"
  by (auto simp: parse_char_def split: list.splits if_splits option.splits dest: parse_hex4_shorter)

function parse_string :: "string \<Rightarrow> (string \<times> string) option" where
  "parse_string s = (case s of
     c # t \<Rightarrow> if c = CHR 0x22 then Some ([], t)
       else (case parse_char s of
           None \<Rightarrow> None
         | Some (x, u) \<Rightarrow> map_option (\<lambda>(y, r). (x # y, r)) (parse_string u))
   | [] \<Rightarrow> None)"
  by pat_completeness auto
termination
  by (relation "measure length") (auto dest: parse_char_shorter)

declare parse_string.simps [simp del]

text \<open>Why a text is refused: it is no JSON, an object repeats a key, or a value is none of the model
  (\<open>NaN\<close>, \<open>Infinity\<close> and numbers with a fraction or an exponent).\<close>

datatype parse_error = ParseMalformed | ParseDuplicate | ParseUnsupported

definition is_blank :: "char \<Rightarrow> bool" where
  "is_blank c \<longleftrightarrow> c = CHR '' '' \<or> c = CHR 0x09 \<or> c = CHR 0x0A \<or> c = CHR 0x0D"

definition skip :: "string \<Rightarrow> string" where
  "skip = dropWhile is_blank"

definition malformed :: "'a option \<Rightarrow> parse_error + 'a" where
  "malformed x = (case x of None \<Rightarrow> Inl ParseMalformed | Some y \<Rightarrow> Inr y)"

definition parse_word :: "string \<Rightarrow> parse_error + json \<Rightarrow> string \<Rightarrow> parse_error + json \<times> string" where
  "parse_word word v s = (if take (length word) s = word then bind_res v (\<lambda>v. Inr (v, drop (length word) s)) else Inl ParseMalformed)"

definition parse_number :: "(nat \<Rightarrow> int) \<Rightarrow> string \<Rightarrow> parse_error + json \<times> string" where
  "parse_number sign s = (case parse_nat s of
     Some (n, r) \<Rightarrow> if r \<noteq> [] \<and> hd r \<in> {CHR ''.'', CHR ''e'', CHR ''E''} then Inl ParseUnsupported else Inr (JInt (sign n), r)
   | None \<Rightarrow> Inl ParseMalformed)"

text \<open>Values, the elements of an array after its bracket, the members of an object after its brace. The
  first argument makes the value of an object (\<open>object_pairs_hook\<close>), the second bounds the depth of the
  recursion.\<close>

fun parse_value :: "((string \<times> json) list \<Rightarrow> parse_error + json) \<Rightarrow> nat \<Rightarrow> string \<Rightarrow> parse_error + json \<times> string"
  and parse_elements :: "((string \<times> json) list \<Rightarrow> parse_error + json) \<Rightarrow> nat \<Rightarrow> string \<Rightarrow> parse_error + json list \<times> string"
  and parse_members :: "((string \<times> json) list \<Rightarrow> parse_error + json) \<Rightarrow> nat \<Rightarrow> string \<Rightarrow> parse_error + (string \<times> json) list \<times> string" where
  "parse_value hook 0 s = Inl ParseMalformed"
| "parse_value hook (Suc n) s = (case s of
     [] \<Rightarrow> Inl ParseMalformed
   | c # t \<Rightarrow>
       if c = CHR 0x22 then malformed (map_option (\<lambda>(x, r). (JStr x, r)) (parse_string t))
       else if c = CHR ''['' then
         (if take 1 (skip t) = '']'' then Inr (JArr [], drop 1 (skip t))
          else bind_res (parse_elements hook n (skip t)) (\<lambda>(xs, r). Inr (JArr xs, r)))
       else if c = CHR ''{'' then
         (if take 1 (skip t) = ''}'' then bind_res (hook []) (\<lambda>v. Inr (v, drop 1 (skip t)))
          else bind_res (parse_members hook n (skip t)) (\<lambda>(kvs, r). bind_res (hook kvs) (\<lambda>v. Inr (v, r))))
       else if c = CHR ''-'' then
         (if take 1 t = ''I'' then parse_word ''Infinity'' (Inl ParseUnsupported) t else parse_number (\<lambda>n. - int n) t)
       else if is_digit c then parse_number int s
       else if c = CHR ''n'' then parse_word ''null'' (Inr JNull) s
       else if c = CHR ''t'' then parse_word ''true'' (Inr (JBool True)) s
       else if c = CHR ''f'' then parse_word ''false'' (Inr (JBool False)) s
       else if c = CHR ''N'' then parse_word ''NaN'' (Inl ParseUnsupported) s
       else if c = CHR ''I'' then parse_word ''Infinity'' (Inl ParseUnsupported) s
       else Inl ParseMalformed)"
| "parse_elements hook 0 s = Inl ParseMalformed"
| "parse_elements hook (Suc n) s = bind_res (parse_value hook n s) (\<lambda>(v, r). case skip r of
       [] \<Rightarrow> Inl ParseMalformed
     | c # t \<Rightarrow> if c = CHR '']'' then Inr ([v], t)
         else if c = CHR '','' then bind_res (parse_elements hook n (skip t)) (\<lambda>(vs, r). Inr (v # vs, r))
         else Inl ParseMalformed)"
| "parse_members hook 0 s = Inl ParseMalformed"
| "parse_members hook (Suc n) s = (case s of
     [] \<Rightarrow> Inl ParseMalformed
   | c # t \<Rightarrow> if c \<noteq> CHR 0x22 then Inl ParseMalformed else bind_res (malformed (parse_string t)) (\<lambda>(k, u).
       if take 1 (skip u) \<noteq> '':'' then Inl ParseMalformed
       else bind_res (parse_value hook n (skip (drop 1 (skip u)))) (\<lambda>(v, r). case skip r of
           [] \<Rightarrow> Inl ParseMalformed
         | c # t \<Rightarrow> if c = CHR ''}'' then Inr ([(k, v)], t)
             else if c = CHR '','' then bind_res (parse_members hook n (skip t)) (\<lambda>(kvs, r). Inr ((k, v) # kvs, r))
             else Inl ParseMalformed)))"

text \<open>Decoding UTF-8, for the code points the model has.\<close>

fun utf8_decode :: "string \<Rightarrow> string option" where
  "utf8_decode [] = Some []"
| "utf8_decode (c # s) = (let n = of_char c :: nat in
     if n < 128 then map_option ((#) c) (utf8_decode s)
     else if n = 194 \<or> n = 195 then (case s of
         [] \<Rightarrow> None
       | d # t \<Rightarrow> let m = of_char d :: nat in
           if 128 \<le> m \<and> m < 192 then map_option ((#) (char_of ((n - 192) * 64 + (m - 128)))) (utf8_decode t) else None)
     else None)"

definition parse_text :: "((string \<times> json) list \<Rightarrow> parse_error + json) \<Rightarrow> string \<Rightarrow> parse_error + json" where
  "parse_text hook s = bind_res (parse_value hook (2 * length s + 1) (skip s)) (\<lambda>(v, r).
     if skip r = [] then Inr v else Inl ParseMalformed)"

text \<open>The last value of a repeated key counts.\<close>

definition last_wins :: "(string \<times> json) list \<Rightarrow> parse_error + json" where
  "last_wins kvs = Inr (JObj (fold (\<lambda>(k, v). dict_set k v) kvs []))"

definition loads_with :: "((string \<times> json) list \<Rightarrow> parse_error + json) \<Rightarrow> string \<Rightarrow> parse_error + json" where
  "loads_with hook raw = bind_res (malformed (utf8_decode raw)) (parse_text hook)"

definition loads :: "string \<Rightarrow> parse_error + json" where
  "loads = loads_with last_wins"

section \<open>The pieces of a dumped text\<close>

lemma utf8_decode_utf8: "utf8_decode (utf8 s) = Some s"
proof (induction s)
  case (Cons c s)
  have n: "(of_char c :: nat) < 256" by simp
  show ?case
  proof (cases "(of_char c :: nat) < 128")
    case True
    then show ?thesis using Cons by (simp add: utf8_def Let_def)
  next
    case False
    let ?n = "of_char c :: nat"
    have lead: "?n div 64 = 2 \<or> ?n div 64 = 3" 
    proof -
      have "?n div 64 < 4" using n by (intro less_mult_imp_div_less) simp
      moreover have "2 \<le> ?n div 64" using False div_le_mono [of 128 ?n 64] by simp
      ultimately show ?thesis by linarith
    qed
    have "of_char (char_of (192 + ?n div 64) :: char) = (192 + ?n div 64 :: nat)"
      and "of_char (char_of (128 + ?n mod 64) :: char) = (128 + ?n mod 64 :: nat)"
      using lead by (auto simp: of_char_of)
    moreover have "(?n div 64) * 64 + ?n mod 64 = ?n" by simp
    moreover have "utf8 (c # s) = char_of (192 + ?n div 64) # char_of (128 + ?n mod 64) # utf8 s"
      using False by (simp add: utf8_def Let_def)
    ultimately show ?thesis using Cons lead by (auto simp: Let_def)
  qed
qed (simp add: utf8_def)

lemma digit_char_value: "n < 10 \<Longrightarrow> (of_char (digit_char n) :: nat) = 48 + n"
  by (simp add: of_char_of)

lemma read_show_nat: "read_nat (show_nat n) = n"
proof (induction n rule: show_nat.induct)
  case (1 n)
  show ?case
  proof (cases "n < 10")
    case True
    then show ?thesis by (simp add: show_nat.simps [of n] read_nat_def of_char_of)
  next
    case False
    then have "read_nat (show_nat (n div 10)) = n div 10" using 1 by simp
    then show ?thesis using False by (subst show_nat.simps) (simp add: read_nat_def of_char_of)
  qed
qed

lemma show_nat_digits: "\<forall>c \<in> set (show_nat n). is_digit c"
  by (induction n rule: show_nat.induct) (subst show_nat.simps, auto simp: is_digit_def of_char_of)

lemma show_nat_lead: "n > 0 \<Longrightarrow> hd (show_nat n) \<noteq> CHR ''0''"
proof (induction n rule: show_nat.induct)
  case (1 n)
  show ?case
  proof (cases "n < 10")
    case True
    have "(of_char (char_of (48 + n) :: char) :: nat) = 48 + n" using True by (simp add: of_char_of)
    moreover have "(of_char CHR ''0'' :: nat) = 48" by simp
    ultimately have "char_of (48 + n) \<noteq> CHR ''0''" using "1.prems" by (metis add_cancel_left_right less_irrefl)
    then show ?thesis using True by (simp add: show_nat.simps [of n])
  next
    case False
    then have "hd (show_nat (n div 10)) \<noteq> CHR ''0''" using 1 by simp
    then show ?thesis using False by (subst show_nat.simps) simp
  qed
qed

definition ends_number :: "string \<Rightarrow> bool" where
  "ends_number r \<longleftrightarrow> r = [] \<or> (\<not> is_digit (hd r) \<and> hd r \<notin> {CHR ''.'', CHR ''e'', CHR ''E''})"

lemma parse_show_nat:
  assumes "ends_number r"
  shows "parse_nat (show_nat n @ r) = Some (n, r)"
proof -
  have tw: "takeWhile is_digit (show_nat n @ r) = show_nat n" "dropWhile is_digit (show_nat n @ r) = r"
    using show_nat_digits [of n] assms by (cases r; auto simp: ends_number_def takeWhile_append dropWhile_append)+
  have "n = 0 \<Longrightarrow> length (show_nat n) = 1" by (simp add: show_nat.simps)
  then have "\<not> (hd (show_nat n) = CHR ''0'' \<and> length (show_nat n) > 1)" using show_nat_lead [of n] by (cases "n = 0") auto
  then show ?thesis by (auto simp: parse_nat_def tw read_show_nat)
qed

section \<open>Strings\<close>

lemma hex_digit_value: "n < 16 \<Longrightarrow> hex_value (digit_char n) = Some n"
  by (auto simp: hex_value_def Let_def of_char_of)

lemma parse_hex4_hex4:
  assumes "n < 256"
  shows "parse_hex4 (hex4 n @ s) = Some (char_of n, s)"
proof -
  have "n div 4096 = 0" "n div 256 mod 16 = 0" "n div 16 mod 16 < 16" "n mod 16 < 16" "n div 16 mod 16 * 16 + n mod 16 = n"

  proof -
    have "n div 16 < 16" using assms by (intro less_mult_imp_div_less) simp
    then show "n div 4096 = 0" "n div 256 mod 16 = 0" "n div 16 mod 16 < 16" "n mod 16 < 16" "n div 16 mod 16 * 16 + n mod 16 = n"
      using assms by simp_all
  qed
  then show ?thesis using assms hex_digit_value [of 0] by (simp add: hex4_def hex_digit_value Let_def del: digit_char.simps)
qed

lemma parse_escape: "parse_char (escape_char a c @ s) = Some (c, s) \<and> escape_char a c \<noteq> [] \<and> hd (escape_char a c) \<noteq> CHR 0x22"
proof -
  let ?n = "of_char c :: nat"
  have eq: "?n = m \<longleftrightarrow> c = char_of m" if "m < 256" for m
    using that by (metis char_of_char of_char_of mod_less)
  show ?thesis
  proof (cases "?n \<in> {34, 92, 10, 13, 9, 12, 8}")
    case True
    then consider "c = CHR 0x22" | "c = CHR 0x5C" | "c = CHR 0x0A" | "c = CHR 0x0D" | "c = CHR 0x09" | "c = CHR 0x0C" | "c = CHR 0x08"
      by (auto simp: eq char_of_def bit_Suc_0_iff)
    then show ?thesis
      by cases (simp_all add: escape_char_def Let_def parse_char_def unescape_def)
  next
    case False
    have "(of_char CHR 0x22 :: nat) = 34" "(of_char CHR 0x5C :: nat) = 92" by simp_all
    then have ne: "c \<noteq> CHR 0x22" "c \<noteq> CHR 0x5C" using False by (metis insertCI)+
    show ?thesis
    proof (cases "?n < 32 \<or> (a \<and> ?n > 126)")
      case True
      then have "escape_char a c = [CHR 0x5C, CHR ''u''] @ hex4 ?n" using False by (simp add: escape_char_def Let_def)
      then show ?thesis by (simp add: parse_char_def parse_hex4_hex4)
    next
      case plain: False
      then have "escape_char a c = [c]" using False by (simp add: escape_char_def Let_def)
      then show ?thesis using plain ne by (simp add: parse_char_def)
    qed
  qed
qed

lemma parse_string_dumps: "parse_string (concat (map (escape_char a) s) @ CHR 0x22 # r) = Some (s, r)"
proof (induction s)
  case (Cons c s)
  obtain d t where dt: "escape_char a c @ concat (map (escape_char a) s) @ CHR 0x22 # r = d # t" "d \<noteq> CHR 0x22"
    using parse_escape [of a c "[]"] by (cases "escape_char a c") auto
  then show ?case
    using Cons parse_escape [of a c "concat (map (escape_char a) s) @ CHR 0x22 # r"]
    by (subst parse_string.simps) simp
qed (subst parse_string.simps, simp)

section \<open>Values\<close>

text \<open>No object has a key twice.\<close>

fun keys_ok :: "json \<Rightarrow> bool" where
  "keys_ok (JArr xs) = list_all keys_ok xs"
| "keys_ok (JObj kvs) = (distinct (map fst kvs) \<and> list_all (\<lambda>(k, v). keys_ok v) kvs)"
| "keys_ok v = True"

lemma dict_set_new: "k \<notin> fst ` set d \<Longrightarrow> dict_set k v d = d @ [(k, v)]"
  by (induction k v d rule: dict_set.induct) auto

lemma fold_dict_set_distinct:
  "distinct (map fst kvs) \<Longrightarrow> fst ` set kvs \<inter> fst ` set d = {} \<Longrightarrow> fold (\<lambda>(k, v). dict_set k v) kvs d = d @ kvs"
  by (induction kvs arbitrary: d) (auto simp: dict_set_new)

lemma dumps_not_Nil [simp]: "dumps a v \<noteq> []"
  by (cases v) (auto simp: dumps_string_def)

lemma ends_number_simps [simp]: "ends_number []" "ends_number (CHR '','' # r)" "ends_number (CHR '']'' # r)"
  "ends_number (CHR ''}'' # r)" "ends_number (CHR 0x0A # r)"
  by (simp_all add: ends_number_def is_digit_def)

lemma skip_Cons [simp]: "\<not> is_blank c \<Longrightarrow> skip (c # s) = c # s" "skip [] = []"
  by (simp_all add: skip_def)

lemma not_blank [simp]: "\<not> is_blank (CHR '','')" "\<not> is_blank (CHR '']'')" "\<not> is_blank (CHR ''}'')" "\<not> is_blank (CHR '':'')" "\<not> is_blank (CHR 0x22)"
  by (simp_all add: is_blank_def)

lemma dumps_head: "dumps a v = c # s \<Longrightarrow> c \<noteq> CHR '']'' \<and> c \<noteq> CHR ''}'' \<and> \<not> is_blank c"
proof (cases v)
  case (JInt i)
  assume "dumps a v = c # s"
  then have "c = CHR ''-'' \<or> is_digit c"
    using show_nat_digits [of "nat i"] by (auto simp: JInt show_int_def split: if_splits)
  then show ?thesis by (auto simp: is_digit_def is_blank_def)
qed (auto simp: dumps_string_def is_blank_def split: if_splits)

lemma skip_dumps [simp]: "skip (dumps a v @ r) = dumps a v @ r" "skip (dumps a v) = dumps a v"
  using dumps_head [of a v] by (cases "dumps a v"; simp)+

lemma join_not_Nil: "xs \<noteq> [] \<Longrightarrow> hd xs \<noteq> [] \<Longrightarrow> \<exists>ys. join sep xs = hd (hd xs) # ys"
  by (induction xs rule: induct_list012) (auto simp: neq_Nil_conv)

lemma skip_join: "xs \<noteq> [] \<Longrightarrow> hd xs \<noteq> [] \<Longrightarrow> \<not> is_blank (hd (hd xs)) \<Longrightarrow> skip (join sep xs @ r) = join sep xs @ r"
  using join_not_Nil [of xs sep] by auto

definition member_text :: "bool \<Rightarrow> string \<times> json \<Rightarrow> string" where
  "member_text a kv = dumps_string a (fst kv) @ CHR '':'' # dumps a (snd kv)"

lemma member_text_head [simp]: "member_text a kv \<noteq> []" "hd (member_text a kv) = CHR 0x22"
  by (simp_all add: member_text_def dumps_string_def)

lemma skip_texts [simp]:
  "xs \<noteq> [] \<Longrightarrow> skip (join sep (map (dumps a) xs) @ r) = join sep (map (dumps a) xs) @ r"
  "kvs \<noteq> [] \<Longrightarrow> skip (join sep (map (member_text a) kvs) @ r) = join sep (map (member_text a) kvs) @ r"
proof -
  assume "xs \<noteq> []"
  moreover have "\<not> is_blank (hd (dumps a (hd xs)))" using dumps_head [of a "hd xs"] by (cases "dumps a (hd xs)") auto
  ultimately show "skip (join sep (map (dumps a) xs) @ r) = join sep (map (dumps a) xs) @ r" by (intro skip_join) (auto simp: hd_map)
next
  assume "kvs \<noteq> []"
  then show "skip (join sep (map (member_text a) kvs) @ r) = join sep (map (member_text a) kvs) @ r" by (intro skip_join) (auto simp: hd_map)
qed

lemma dumps_object: "dumps a (JObj kvs) = CHR ''{'' # join '','' (map (member_text a) (sort_key fst kvs)) @ ''}''"
proof -
  have "map (\<lambda>(k, v). dumps_string a k @ '':'' @ v) (sort_key fst (map (\<lambda>(k, v). (k, dumps a v)) kvs))
      = map (member_text a) (sort_key fst kvs)"
    unfolding sort_key_map_values by (auto simp: member_text_def)
  then show ?thesis by simp
qed

lemma parse_words:
  assumes "2 \<le> n"
  shows "parse_value hook n (CHR ''n'' # CHR ''u'' # CHR ''l'' # CHR ''l'' # r) = Inr (JNull, r)"
    "parse_value hook n (CHR ''t'' # CHR ''r'' # CHR ''u'' # CHR ''e'' # r) = Inr (JBool True, r)"
    "parse_value hook n (CHR ''f'' # CHR ''a'' # CHR ''l'' # CHR ''s'' # CHR ''e'' # r) = Inr (JBool False, r)"
  using assms by (cases n; simp add: is_digit_def parse_word_def)+

section \<open>Objects\<close>

text \<open>A hook that keeps the members of an object without repeated keys as they are.\<close>

locale object_hook =
  fixes hook :: "(string \<times> json) list \<Rightarrow> parse_error + json"
  assumes hook_distinct: "distinct (map fst kvs) \<Longrightarrow> hook kvs = Inr (JObj kvs)"
begin

definition parses :: "bool \<Rightarrow> json \<Rightarrow> bool" where
  "parses a v \<longleftrightarrow> (\<forall>n r. n \<ge> 2 * length (dumps a v) \<longrightarrow> ends_number r \<longrightarrow> parse_value hook n (dumps a v @ r) = Inr (canon v, r))"

lemma parse_elements_dumps:
  assumes "xs \<noteq> []" and "\<forall>x \<in> set xs. parses a x" and "n > 2 * length (join '','' (map (dumps a) xs))"
  shows "parse_elements hook n (join '','' (map (dumps a) xs) @ CHR '']'' # r) = Inr (map canon xs, r)"
  using assms
proof (induction xs arbitrary: n rule: induct_list012)
  case (2 x)
  then obtain m where "n = Suc m" by (cases n) auto
  then show ?case using 2 by (simp add: parses_def)
next
  case (3 x y zs)
  then obtain m where m: "n = Suc m" by (cases n) auto
  have "m > 2 * length (join '','' (map (dumps a) (y # zs)))" "m \<ge> 2 * length (dumps a x)"
    using "3.prems"(3) m by simp_all
  moreover have "skip (join '','' (map (dumps a) (y # zs)) @ CHR '']'' # r) = join '','' (map (dumps a) (y # zs)) @ CHR '']'' # r"
    by (rule skip_texts(1)) simp
  ultimately show ?case using "3.IH"(2) [of m] "3.prems" m by (simp add: parses_def)
qed simp

lemma parse_member:
  assumes "parses a v" and "m \<ge> 2 * length (dumps a v)" and "ends_number r"
  shows "parse_members hook (Suc m) (member_text a (k, v) @ r) = (case skip r of
           [] \<Rightarrow> Inl ParseMalformed
         | c # t \<Rightarrow> if c = CHR ''}'' then Inr ([(k, canon v)], t)
             else if c = CHR '','' then bind_res (parse_members hook m (skip t)) (\<lambda>(kvs, r). Inr ((k, canon v) # kvs, r))
             else Inl ParseMalformed)"
proof -
  have "parse_string (concat (map (escape_char a) k) @ CHR 0x22 # CHR '':'' # dumps a v @ r) = Some (k, CHR '':'' # dumps a v @ r)"
    by (rule parse_string_dumps)
  moreover have "parse_value hook m (dumps a v @ r) = Inr (canon v, r)" using assms by (simp add: parses_def)
  ultimately show ?thesis by (simp add: member_text_def dumps_string_def malformed_def)
qed

lemma parse_members_dumps:
  assumes "kvs \<noteq> []" and "\<forall>(k, v) \<in> set kvs. parses a v" and "n > 2 * length (join '','' (map (member_text a) kvs))"
  shows "parse_members hook n (join '','' (map (member_text a) kvs) @ CHR ''}'' # r) = Inr (map (\<lambda>(k, v). (k, canon v)) kvs, r)"
  using assms
proof (induction kvs arbitrary: n rule: induct_list012)
  case (2 kv)
  obtain k v where kv: "kv = (k, v)" by (cases kv)
  obtain m where m: "n = Suc m" using "2.prems" by (cases n) auto
  have "m \<ge> 2 * length (dumps a v)" using "2.prems"(3) m by (simp add: kv member_text_def)
  then show ?case using "2.prems" parse_member [of a v m "CHR ''}'' # r" k] m kv by simp
next
  case (3 kv y zs)
  obtain k v where kv: "kv = (k, v)" by (cases kv)
  obtain m where m: "n = Suc m" using "3.prems" by (cases n) auto
  let ?rest = "join '','' (map (member_text a) (y # zs)) @ CHR ''}'' # r"
  have "length (member_text a kv) \<ge> length (dumps a v)" by (simp add: kv member_text_def)
  then have "m > 2 * length (join '','' (map (member_text a) (y # zs)))" "m \<ge> 2 * length (dumps a v)"
    using "3.prems"(3) m by simp_all
  moreover have "skip ?rest = ?rest" by (rule skip_texts(2)) simp
  ultimately show ?case
    using "3.IH"(2) [of m] "3.prems" parse_member [of a v m "CHR '','' # ?rest" k] m kv by simp
qed simp

lemma parses_string: "parses a (JStr s)"
  unfolding parses_def
proof (intro allI impI)
  fix n r assume "n \<ge> 2 * length (dumps a (JStr s))"
  then obtain m where "n = Suc m" by (cases n) (auto simp: dumps_string_def)
  then show "parse_value hook n (dumps a (JStr s) @ r) = Inr (canon (JStr s), r)"
    using parse_string_dumps [of a s r] by (simp add: dumps_string_def malformed_def)
qed

lemma parses_int: "parses a (JInt i)"
  unfolding parses_def
proof (intro allI impI)
  fix n r assume n: "n \<ge> 2 * length (dumps a (JInt i))" and r: "ends_number r"
  then obtain m where m: "n = Suc m" by (cases n) auto
  have number: "parse_number sign (show_nat k @ r) = Inr (JInt (sign k), r)" for sign k
    using parse_show_nat [OF r, of k] r by (auto simp: parse_number_def ends_number_def)
  have head: "\<exists>d ds. show_nat k = d # ds \<and> is_digit d \<and> d \<notin> {CHR 0x22, CHR ''['', CHR ''{'', CHR ''-'', CHR ''I''}" for k
    using show_nat_digits [of k] by (cases "show_nat k") (auto simp: is_digit_def)
  show "parse_value hook n (dumps a (JInt i) @ r) = Inr (canon (JInt i), r)"
    using number [of "\<lambda>n. - int n" "nat (- i)"] number [of int "nat i"] head [of "nat (- i)"] head [of "nat i"]
    by (auto simp: m show_int_def)
qed

lemma parses_array:
  assumes all: "\<forall>x \<in> set xs. parses a x"
  shows "parses a (JArr xs)"
  unfolding parses_def
proof (intro allI impI)
  fix n r assume n: "n \<ge> 2 * length (dumps a (JArr xs))"
  then obtain m where m: "n = Suc m" by (cases n) auto
  show "parse_value hook n (dumps a (JArr xs) @ r) = Inr (canon (JArr xs), r)"
  proof (cases "xs = []")
    case False
    obtain ys where "join '','' (map (dumps a) xs) = hd (dumps a (hd xs)) # ys"
      using join_not_Nil [of "map (dumps a) xs"] False by (auto simp: hd_map)
    moreover have "hd (dumps a (hd xs)) \<noteq> CHR '']''" using dumps_head [of a "hd xs"] by (cases "dumps a (hd xs)") auto
    moreover have "skip (join '','' (map (dumps a) xs) @ CHR '']'' # r) = join '','' (map (dumps a) xs) @ CHR '']'' # r"
      using False by (rule skip_texts(1))
    ultimately show ?thesis using parse_elements_dumps [OF False all, of m r] n m by simp
  qed (simp add: m)
qed

lemma parses_object:
  assumes all: "\<forall>(k, v) \<in> set kvs. parses a v" and distinct: "distinct (map fst kvs)"
  shows "parses a (JObj kvs)"
  unfolding parses_def
proof (intro allI impI)
  fix n r assume n: "n \<ge> 2 * length (dumps a (JObj kvs))"
  then obtain m where m: "n = Suc m" by (cases n) (auto simp: dumps_object)
  let ?s = "sort_key fst kvs"
  have hooked: "hook (map (\<lambda>(k, v). (k, canon v)) ?s) = Inr (canon (JObj kvs))"
    unfolding canon.simps sort_key_map_values using distinct by (intro hook_distinct) (auto simp: comp_def case_prod_unfold distinct_map)
  show "parse_value hook n (dumps a (JObj kvs) @ r) = Inr (canon (JObj kvs), r)"
  proof (cases "kvs = []")
    case False
    have ne: "?s \<noteq> []" using False by (metis length_0_conv length_sort)
    then obtain ys where "join '','' (map (member_text a) ?s) = CHR 0x22 # ys"
      using join_not_Nil [of "map (member_text a) ?s"] by (auto simp: hd_map)
    moreover have "parse_members hook m (join '','' (map (member_text a) ?s) @ CHR ''}'' # r) = Inr (map (\<lambda>(k, v). (k, canon v)) ?s, r)"
      using n m all by (intro parse_members_dumps ne) (auto simp: dumps_object simp del: dumps.simps)
    ultimately show ?thesis using hooked by (simp add: m dumps_object del: dumps.simps canon.simps)
  qed (use hooked in \<open>simp add: m\<close>)
qed

lemma parses_all: "keys_ok v \<Longrightarrow> parses a v"
proof (induction v)
  case (JArr xs)
  then show ?case by (intro parses_array) (auto simp: list_all_iff)
next
  case (JObj kvs)
  then show ?case by (intro parses_object) (auto simp: list_all_iff)
qed (simp_all add: parses_string parses_int, simp_all add: parses_def parse_words)

lemma parse_text_dumps:
  assumes "keys_ok v" and "skip r = []" and "ends_number r"
  shows "parse_text hook (dumps a v @ r) = Inr (canon v)"
proof -
  have "parse_value hook (2 * length (dumps a v @ r) + 1) (dumps a v @ r) = Inr (canon v, r)"
    using parses_all [OF assms(1), of a] assms(3) unfolding parses_def by (simp del: parse_value.simps)
  then show ?thesis using assms(2) by (simp add: parse_text_def del: parse_value.simps)
qed

lemma loads_with_dumps:
  assumes "keys_ok v" and "skip r = []" and "ends_number r"
  shows "loads_with hook (utf8 (dumps a v @ r)) = Inr (canon v)"
  using parse_text_dumps [OF assms] by (simp add: loads_with_def utf8_decode_utf8 malformed_def)

end

interpretation last: object_hook last_wins
proof
  show "last_wins kvs = Inr (JObj kvs)" if "distinct (map fst kvs)" for kvs
    using that by (simp add: last_wins_def fold_dict_set_distinct)
qed

lemma loads_dumps: "keys_ok v \<Longrightarrow> loads (utf8 (dumps a v)) = Inr (canon v)"
  using last.loads_with_dumps [of v "[]"] by (simp add: loads_def)

lemma utf8_append: "utf8 (s @ t) = utf8 s @ utf8 t"
  by (simp add: utf8_def)

lemma loads_line: "keys_ok v \<Longrightarrow> loads (utf8 (dumps a v) @ [CHR 0x0A]) = Inr (canon v)"
proof -
  assume "keys_ok v"
  then have "loads (utf8 (dumps a v @ [CHR 0x0A])) = Inr (canon v)"
    using last.loads_with_dumps [of v "[CHR 0x0A]"] by (simp add: loads_def skip_def is_blank_def)
  then show ?thesis by (simp add: utf8_append utf8_def)
qed

end
