(* ===== verification/Base64.thy ===== *)
theory Base64
  imports Json_Value
begin

text \<open>
  \<open>base64.b64encode\<close> and \<open>base64.b64decode\<close> with \<open>validate=True\<close>, on strings of bytes, and that decoding
  inverts encoding.
\<close>

definition b64_char :: "nat \<Rightarrow> char" where
  "b64_char n = char_of (if n < 26 then 65 + n else if n < 52 then 71 + n else if n < 62 then n - 4
     else if n = 62 then 43 else 47)"

definition b64_value :: "char \<Rightarrow> nat option" where
  "b64_value c = (let n = of_char c :: nat in
     if 65 \<le> n \<and> n \<le> 90 then Some (n - 65) else if 97 \<le> n \<and> n \<le> 122 then Some (n - 71)
     else if 48 \<le> n \<and> n \<le> 57 then Some (n + 4) else if n = 43 then Some 62
     else if n = 47 then Some 63 else None)"

definition b64_digits :: "nat \<Rightarrow> string" where
  "b64_digits n = [b64_char (n div 262144), b64_char (n div 4096 mod 64), b64_char (n div 64 mod 64), b64_char (n mod 64)]"

fun b64encode :: "string \<Rightarrow> string" where
  "b64encode [] = []"
| "b64encode [a] = take 2 (b64_digits (of_char a * 65536)) @ ''==''"
| "b64encode [a, b] = take 3 (b64_digits (of_char a * 65536 + of_char b * 256)) @ ''=''"
| "b64encode (a # b # c # s) = b64_digits (of_char a * 65536 + of_char b * 256 + of_char c) @ b64encode s"

definition b64_number :: "char \<Rightarrow> char \<Rightarrow> char \<Rightarrow> char \<Rightarrow> nat option" where
  "b64_number w x y z = (case (b64_value w, b64_value x, b64_value y, b64_value z) of
     (Some i, Some j, Some k, Some l) \<Rightarrow> Some (i * 262144 + j * 4096 + k * 64 + l) | _ \<Rightarrow> None)"

definition b64_bytes :: "nat \<Rightarrow> string" where
  "b64_bytes n = [char_of (n div 65536), char_of (n div 256 mod 256), char_of (n mod 256)]"

text \<open>The last group may end in one or two padding characters.\<close>

fun b64decode :: "string \<Rightarrow> string option" where
  "b64decode [] = Some []"
| "b64decode (w # x # y # z # s) =
     (if s = [] \<and> y = CHR ''='' \<and> z = CHR ''='' then map_option (\<lambda>n. take 1 (b64_bytes n)) (b64_number w x (CHR ''A'') (CHR ''A''))
      else if s = [] \<and> z = CHR ''='' then map_option (\<lambda>n. take 2 (b64_bytes n)) (b64_number w x y (CHR ''A''))
      else (case b64_number w x y z of None \<Rightarrow> None
            | Some n \<Rightarrow> map_option (\<lambda>r. b64_bytes n @ r) (b64decode s)))"
| "b64decode _ = None"

lemma b64_value_char: "n < 64 \<Longrightarrow> b64_value (b64_char n) = Some n"
  by (auto simp: b64_value_def b64_char_def Let_def)

lemma b64_char_not_pad: "n < 64 \<Longrightarrow> b64_char n \<noteq> CHR ''=''"
  using b64_value_char [of n] by (auto simp: b64_value_def)

lemma b64_digits_number:
  assumes "n < 16777216"
  shows "b64_number (b64_char (n div 262144)) (b64_char (n div 4096 mod 64)) (b64_char (n div 64 mod 64)) (b64_char (n mod 64)) = Some n"
proof -
  have "n div 262144 < 64" using assms by (intro less_mult_imp_div_less) simp
  moreover have "n div 262144 * 262144 + n div 4096 mod 64 * 4096 + n div 64 mod 64 * 64 + n mod 64 = n"
  proof -
    have "n div 4096 = n div 262144 * 64 + n div 4096 mod 64" "n div 64 = n div 4096 * 64 + n div 64 mod 64"
      "n = n div 64 * 64 + n mod 64"
      using div_mult_mod_eq [of "n div 4096" 64] div_mult_mod_eq [of "n div 64" 64] by (simp_all add: div_mult2_eq [symmetric])
    then show ?thesis by linarith
  qed
  ultimately show ?thesis by (simp add: b64_number_def b64_value_char)
qed

lemma b64_bytes_number:
  "b64_bytes (of_char a * 65536 + of_char b * 256 + of_char c) = [a, b, c]"
proof -
  let ?n = "of_char a * 65536 + of_char b * 256 + of_char c :: nat"
  have lt: "(of_char a :: nat) < 256" "(of_char b :: nat) < 256" "(of_char c :: nat) < 256" by simp_all
  have "?n < 65536 * of_char a + 65536" using lt by linarith
  moreover have "?n < 256 * (of_char a * 256 + of_char b) + 256" using lt by (simp add: algebra_simps)
  ultimately have "?n div 65536 = of_char a" and n: "?n div 256 = of_char a * 256 + of_char b"
    by (intro div_nat_eqI; simp)+
  moreover note n
  moreover have "?n mod 256 = of_char c"
    using n minus_div_mult_eq_mod [of ?n 256] by (simp add: algebra_simps)
  ultimately show ?thesis by (simp add: b64_bytes_def)
qed

lemma b64_bound: "(of_char a * 65536 + of_char b * 256 + of_char c :: nat) < 16777216"
proof -
  have "(of_char a :: nat) < 256" "(of_char b :: nat) < 256" "(of_char c :: nat) < 256" by simp_all
  then show ?thesis by linarith
qed

lemma b64_char_A: "b64_char 0 = CHR ''A''"
  by (simp add: b64_char_def char_of_def bit_Suc_0_iff)

lemma b64decode_b64encode: "b64decode (b64encode s) = Some s"
proof (induction s rule: b64encode.induct)
  case (2 a)
  let ?n = "of_char a * 65536 :: nat"
  have "?n = 64 * (64 * (of_char a * 16))" by simp
  then have "?n div 64 mod 64 = 0" "?n mod 64 = 0" by (metis mod_mult_self1_is_0 nonzero_mult_div_cancel_left zero_neq_numeral)+
  then have "b64_number (b64_char (?n div 262144)) (b64_char (?n div 4096 mod 64)) (CHR ''A'') (CHR ''A'') = Some ?n"
    using b64_digits_number [of ?n] b64_bound [of a "CHR 0x00" "CHR 0x00"] by (simp add: b64_char_A)
  then show ?case using b64_bytes_number [of a "CHR 0x00" "CHR 0x00"] by (simp add: b64_digits_def)
next
  case (3 a b)
  let ?n = "of_char a * 65536 + of_char b * 256 :: nat"
  have "?n = 64 * (of_char a * 1024 + of_char b * 4)" by simp
  then have "?n mod 64 = 0" by (metis mod_mult_self1_is_0)
  then have "b64_number (b64_char (?n div 262144)) (b64_char (?n div 4096 mod 64)) (b64_char (?n div 64 mod 64)) (CHR ''A'') = Some ?n"
    using b64_digits_number [of ?n] b64_bound [of a b "CHR 0x00"] by (simp add: b64_char_A)
  moreover have "b64_char (?n div 64 mod 64) \<noteq> CHR ''=''" by (rule b64_char_not_pad) simp
  ultimately show ?case using b64_bytes_number [of a b "CHR 0x00"] by (simp add: b64_digits_def)
next
  case (4 a b c s)
  let ?n = "of_char a * 65536 + of_char b * 256 + of_char c :: nat"
  have "b64_char (?n mod 64) \<noteq> CHR ''=''" by (rule b64_char_not_pad) simp
  then show ?case using 4 b64_digits_number [OF b64_bound, of a b c] by (simp add: b64_digits_def b64_bytes_number)
qed simp

end
