(* ===== verification/Attestation.thy ===== *)
theory Attestation
  imports Ecpa_Model Json_Parse Base64
begin

text \<open>
  The attestation profile (attestation/model.py, attestation/profile.py): statements, their canonical
  payload, the detached JWS over it, the trust store, and the verifier that the coordinator calls. The
  packages \<^verbatim>\<open>jcs\<close> and \<^verbatim>\<open>cryptography\<close> are parameters: the canonical text of a value, and the check of a
  signature under a public key; so is the hash function. An error is its code; the detail text is not kept.
\<close>

section \<open>Errors\<close>

datatype attestation_error_code =
    MALFORMED_JSON | DUPLICATE_KEY | UNSUPPORTED_VALUE | NONCANONICAL_PAYLOAD | MALFORMED_JWS
  | WRONG_ALGORITHM | WRONG_TYPE | WRONG_PROFILE | UNKNOWN_CRITICAL_HEADER | UNKNOWN_CRITICAL_CLAIM
  | UNKNOWN_KEY | KEY_MISMATCH | INVALID_SIGNATURE | NOT_YET_VALID | EXPIRED | BINDING_MISMATCH
  | INVALID_STATEMENT | INVALID_TIME | TRUST_POLICY | TRUST_STORE_CONFIG

type_synonym 'a attest = "attestation_error_code + 'a"

section \<open>base64url\<close>

text \<open>\<open>base64.urlsafe_b64encode\<close> and the removal of the padding.\<close>

definition urlsafe :: "char \<Rightarrow> char" where
  "urlsafe c = (if c = CHR ''+'' then CHR ''-'' else if c = CHR ''/'' then CHR ''_'' else c)"

definition standard :: "char \<Rightarrow> char" where
  "standard c = (if c = CHR ''-'' then CHR ''+'' else if c = CHR ''_'' then CHR ''/'' else c)"

definition b64url :: "string \<Rightarrow> string" where
  "b64url value = rev (dropWhile (\<lambda>c. c = CHR ''='') (rev (map urlsafe (b64encode value))))"

definition is_b64url :: "char \<Rightarrow> bool" where
  "is_b64url c \<longleftrightarrow> (let n = of_char c :: nat in
     (65 \<le> n \<and> n \<le> 90) \<or> (97 \<le> n \<and> n \<le> 122) \<or> (48 \<le> n \<and> n \<le> 57) \<or> n = 95 \<or> n = 45)"

definition b64url_decode :: "string \<Rightarrow> string attest" where
  "b64url_decode value =
     bind_res (guard_res (CHR ''='' \<notin> set value \<and> length value mod 4 \<noteq> 1 \<and> list_all is_b64url value) MALFORMED_JWS) (\<lambda>_.
     case b64decode (map standard value @ replicate ((4 - length value mod 4) mod 4) (CHR ''='')) of
       None \<Rightarrow> Inl MALFORMED_JWS
     | Some decoded \<Rightarrow> if b64url decoded = value then Inr decoded else Inl MALFORMED_JWS)"

section \<open>Strict JSON and the canonical form\<close>

text \<open>\<open>_pairs\<close>.\<close>

definition unique_pairs :: "(string \<times> json) list \<Rightarrow> parse_error + json" where
  "unique_pairs kvs = (if distinct (map fst kvs) then Inr (JObj kvs) else Inl ParseDuplicate)"

definition parse_strict :: "string \<Rightarrow> json attest" where
  "parse_strict raw = (case loads_with unique_pairs raw of
     Inl ParseMalformed \<Rightarrow> Inl MALFORMED_JSON
   | Inl ParseDuplicate \<Rightarrow> Inl DUPLICATE_KEY
   | Inl ParseUnsupported \<Rightarrow> Inl UNSUPPORTED_VALUE
   | Inr (JObj kvs) \<Rightarrow> Inr (JObj kvs)
   | Inr _ \<Rightarrow> Inl MALFORMED_JSON)"

definition MAX_SAFE_INTEGER :: int where
  "MAX_SAFE_INTEGER = 2 ^ 53 - 1"

text \<open>\<open>_validate_values\<close>; every string of the model can be encoded.\<close>

fun values_ok :: "json \<Rightarrow> bool" where
  "values_ok (JInt i) \<longleftrightarrow> - MAX_SAFE_INTEGER \<le> i \<and> i \<le> MAX_SAFE_INTEGER"
| "values_ok (JObj kvs) \<longleftrightarrow> list_all (\<lambda>(k, v). values_ok v) kvs"
| "values_ok (JArr xs) \<longleftrightarrow> list_all values_ok xs"
| "values_ok _ \<longleftrightarrow> True"

definition canonicalize :: "(json \<Rightarrow> string option) \<Rightarrow> json \<Rightarrow> string attest" where
  "canonicalize jcs v = bind_res (guard_res (values_ok v) UNSUPPORTED_VALUE) (\<lambda>_.
     case jcs v of None \<Rightarrow> Inl UNSUPPORTED_VALUE | Some raw \<Rightarrow> Inr raw)"

section \<open>Statements\<close>

definition SCHEMA :: string where
  "SCHEMA = ''ecpa-attestation-statement/0.1''"

definition PROFILE :: string where
  "PROFILE = ''ecpa-jcs-jws-eddsa/0.1''"

record process_statement =
  ps_host :: string
  ps_role :: string
  ps_ordinal :: int
  ps_start_identity :: string
  ps_epoch :: int

record attestation_statement =
  as_schema :: string
  as_profile :: string
  as_issuer :: string
  as_kid :: string
  as_subject :: string
  as_plan_id :: string
  as_launch_id :: string
  as_plugin_id :: string
  as_artifact_digest :: string
  as_process :: process_statement
  as_obligation :: string
  as_event :: string
  as_observed_at :: int
  as_issued_at :: int
  as_expires_at :: int
  as_challenge_nonce :: string
  as_evidence_digest :: string
  as_critical_claims :: "string list"

definition process_to_dict :: "process_statement \<Rightarrow> json" where
  "process_to_dict p = JObj [(''host'', JStr (ps_host p)), (''role'', JStr (ps_role p)), (''ordinal'', JInt (ps_ordinal p)),
     (''start_identity'', JStr (ps_start_identity p)), (''epoch'', JInt (ps_epoch p))]"

definition to_dict :: "attestation_statement \<Rightarrow> json" where
  "to_dict a = JObj [(''schema'', JStr (as_schema a)), (''profile'', JStr (as_profile a)), (''issuer'', JStr (as_issuer a)),
     (''kid'', JStr (as_kid a)), (''subject'', JStr (as_subject a)), (''plan_id'', JStr (as_plan_id a)),
     (''launch_id'', JStr (as_launch_id a)), (''plugin_id'', JStr (as_plugin_id a)),
     (''artifact_digest'', JStr (as_artifact_digest a)), (''process'', process_to_dict (as_process a)),
     (''obligation'', JStr (as_obligation a)), (''event'', JStr (as_event a)), (''observed_at'', JInt (as_observed_at a)),
     (''issued_at'', JInt (as_issued_at a)), (''expires_at'', JInt (as_expires_at a)),
     (''challenge_nonce'', JStr (as_challenge_nonce a)), (''evidence_digest'', JStr (as_evidence_digest a)),
     (''critical_claims'', JArr (map JStr (as_critical_claims a)))]"

definition STRING_FIELDS :: "string list" where
  "STRING_FIELDS = [''schema'', ''profile'', ''issuer'', ''kid'', ''subject'', ''plan_id'', ''launch_id'', ''plugin_id'',
     ''artifact_digest'', ''obligation'', ''event'', ''challenge_nonce'', ''evidence_digest'']"

definition TIME_FIELDS :: "string list" where
  "TIME_FIELDS = [''observed_at'', ''issued_at'', ''expires_at'']"

definition PROCESS_FIELDS :: "string list" where
  "PROCESS_FIELDS = [''host'', ''role'', ''ordinal'', ''start_identity'', ''epoch'']"

definition is_object :: "json \<Rightarrow> bool" where
  "is_object v \<longleftrightarrow> (case v of JObj _ \<Rightarrow> True | _ \<Rightarrow> False)"

definition nonempty_string :: "json \<Rightarrow> bool" where
  "nonempty_string v \<longleftrightarrow> (case v of JStr s \<Rightarrow> s \<noteq> [] | _ \<Rightarrow> False)"

definition safe_integer :: "json \<Rightarrow> bool" where
  "safe_integer v \<longleftrightarrow> (case v of JInt i \<Rightarrow> 0 \<le> i \<and> i \<le> MAX_SAFE_INTEGER | _ \<Rightarrow> False)"

definition jstr :: "json \<Rightarrow> string" where
  "jstr v = (case v of JStr s \<Rightarrow> s | _ \<Rightarrow> [])"

definition jint :: "json \<Rightarrow> int" where
  "jint v = (case v of JInt i \<Rightarrow> i | _ \<Rightarrow> 0)"

definition jlist :: "json \<Rightarrow> json list" where
  "jlist v = (case v of JArr xs \<Rightarrow> xs | _ \<Rightarrow> [])"

definition is_string :: "json \<Rightarrow> bool" where
  "is_string v \<longleftrightarrow> (case v of JStr _ \<Rightarrow> True | _ \<Rightarrow> False)"

definition is_list :: "json \<Rightarrow> bool" where
  "is_list v \<longleftrightarrow> (case v of JArr _ \<Rightarrow> True | _ \<Rightarrow> False)"

text \<open>\<open>DIGEST.fullmatch\<close>\<close>

definition DIGEST :: "string \<Rightarrow> bool" where
  "DIGEST s \<longleftrightarrow> take 7 s = ''sha256:'' \<and> length s = 71 \<and> list_all is_hex (drop 7 s)"

text \<open>\<open>from_dict\<close>, for a value whose fields are checked.\<close>

definition from_dict :: "json \<Rightarrow> attestation_statement" where
  "from_dict v = (let p = jfield v ''process'' in
     \<lparr>as_schema = jstr (jfield v ''schema''), as_profile = jstr (jfield v ''profile''), as_issuer = jstr (jfield v ''issuer''),
      as_kid = jstr (jfield v ''kid''), as_subject = jstr (jfield v ''subject''), as_plan_id = jstr (jfield v ''plan_id''),
      as_launch_id = jstr (jfield v ''launch_id''), as_plugin_id = jstr (jfield v ''plugin_id''),
      as_artifact_digest = jstr (jfield v ''artifact_digest''),
      as_process = \<lparr>ps_host = jstr (jfield p ''host''), ps_role = jstr (jfield p ''role''), ps_ordinal = jint (jfield p ''ordinal''),
        ps_start_identity = jstr (jfield p ''start_identity''), ps_epoch = jint (jfield p ''epoch'')\<rparr>,
      as_obligation = jstr (jfield v ''obligation''), as_event = jstr (jfield v ''event''),
      as_observed_at = jint (jfield v ''observed_at''), as_issued_at = jint (jfield v ''issued_at''),
      as_expires_at = jint (jfield v ''expires_at''), as_challenge_nonce = jstr (jfield v ''challenge_nonce''),
      as_evidence_digest = jstr (jfield v ''evidence_digest''),
      as_critical_claims = map jstr (jlist (jfield v ''critical_claims''))\<rparr>)"

definition statement_ok :: "json \<Rightarrow> bool" where
  "statement_ok v \<longleftrightarrow> (let p = jfield v ''process''; critical = jfield v ''critical_claims'' in
     jkeys v = set (STRING_FIELDS @ TIME_FIELDS @ [''process'', ''critical_claims''])
     \<and> is_object p \<and> jkeys p = set PROCESS_FIELDS
     \<and> list_all (\<lambda>name. nonempty_string (jfield v name)) STRING_FIELDS
     \<and> list_all (\<lambda>name. nonempty_string (jfield p name)) [''host'', ''role'', ''start_identity'']
     \<and> list_all (\<lambda>name. safe_integer (jfield p name)) [''ordinal'', ''epoch'']
     \<and> list_all (\<lambda>name. safe_integer (jfield v name)) TIME_FIELDS
     \<and> is_list critical \<and> list_all is_string (jlist critical) \<and> distinct (jlist critical)
     \<and> DIGEST (jstr (jfield v ''artifact_digest'')) \<and> DIGEST (jstr (jfield v ''evidence_digest'')))"

definition validate_statement :: "json \<Rightarrow> attestation_statement attest" where
  "validate_statement v = bind_res (guard_res (statement_ok v) INVALID_STATEMENT) (\<lambda>_. Inr (from_dict v))"

section \<open>Signing\<close>

record signed_envelope =
  se_payload :: string
  se_detached_jws :: string

definition ALGORITHM :: string where
  "ALGORITHM = ''EdDSA''"

definition JWS_TYPE :: string where
  "JWS_TYPE = ''application/ecpa-attestation+jws''"

definition protected_header :: "string \<Rightarrow> json" where
  "protected_header kid = JObj [(''alg'', JStr ALGORITHM), (''crit'', JArr [JStr ''ecpa_profile'']),
     (''ecpa_profile'', JStr PROFILE), (''kid'', JStr kid), (''typ'', JStr JWS_TYPE)]"

text \<open>\<open>key\<close> is the method \<open>sign\<close> of the private key.\<close>

definition sign_statement ::
  "(json \<Rightarrow> string option) \<Rightarrow> (string \<Rightarrow> string) \<Rightarrow> attestation_statement \<Rightarrow> signed_envelope attest" where
  "sign_statement jcs key a =
     bind_res (guard_res (as_schema a = SCHEMA \<and> as_profile a = PROFILE) WRONG_PROFILE) (\<lambda>_.
     bind_res (validate_statement (to_dict a)) (\<lambda>_.
     bind_res (canonicalize jcs (to_dict a)) (\<lambda>payload.
     bind_res (canonicalize jcs (protected_header (as_kid a))) (\<lambda>protected.
     let header = b64url protected; signature = b64url (key (header @ ''.'' @ b64url payload)) in
     Inr \<lparr>se_payload = payload, se_detached_jws = header @ ''..'' @ signature\<rparr>))))"

section \<open>Trust\<close>

record 'k trust_entry =
  te_issuer :: string
  te_kid :: string
  te_public_key :: 'k
  te_subjects :: "string list"
  te_not_before :: int
  te_not_after :: int
  te_enabled :: bool

definition trust_entry_ok :: "'k trust_entry \<Rightarrow> bool" where
  "trust_entry_ok e \<longleftrightarrow> te_issuer e \<noteq> [] \<and> te_kid e \<noteq> [] \<and> te_subjects e \<noteq> [] \<and> [] \<notin> set (te_subjects e)
     \<and> 0 \<le> te_not_before e \<and> te_not_before e \<le> te_not_after e"

type_synonym 'k trust_store = "((string \<times> string) \<times> 'k trust_entry) list"

fun trust_store :: "'k trust_entry list \<Rightarrow> 'k trust_store \<Rightarrow> 'k trust_store attest" where
  "trust_store [] d = Inr d"
| "trust_store (e # es) d =
     (if \<not> trust_entry_ok e \<or> (te_issuer e, te_kid e) \<in> fst ` set d then Inl TRUST_STORE_CONFIG
      else trust_store es (dict_set (te_issuer e, te_kid e) e d))"

definition trust_lookup :: "'k trust_store \<Rightarrow> string \<Rightarrow> string \<Rightarrow> string \<Rightarrow> int \<Rightarrow> 'k trust_entry attest" where
  "trust_lookup store issuer kid subject now = (case map_of store (issuer, kid) of
     None \<Rightarrow> Inl UNKNOWN_KEY
   | Some e \<Rightarrow> if \<not> te_enabled e \<or> subject \<notin> set (te_subjects e) \<or> now < te_not_before e \<or> now > te_not_after e
       then Inl TRUST_POLICY else Inr e)"

section \<open>Verification\<close>

text \<open>The clock skew, the maximal lifetime and the maximal age of an observation.\<close>

record time_policy =
  tp_clock_skew :: int
  tp_max_ttl :: int
  tp_max_observation_age :: int

definition verify_header :: "(json \<Rightarrow> string option) \<Rightarrow> string \<Rightarrow> string attest" where
  "verify_header jcs part =
     bind_res (b64url_decode part) (\<lambda>raw.
     bind_res (parse_strict raw) (\<lambda>header.
     bind_res (guard_res (jkeys header = {''alg'', ''crit'', ''ecpa_profile'', ''kid'', ''typ''}) UNKNOWN_CRITICAL_HEADER) (\<lambda>_.
     bind_res (canonicalize jcs header) (\<lambda>canonical.
     bind_res (guard_res (raw = canonical) MALFORMED_JWS) (\<lambda>_.
     bind_res (guard_res (jfield header ''alg'' = JStr ALGORITHM) WRONG_ALGORITHM) (\<lambda>_.
     bind_res (guard_res (jfield header ''typ'' = JStr JWS_TYPE) WRONG_TYPE) (\<lambda>_.
     bind_res (guard_res (jfield header ''crit'' = JArr [JStr ''ecpa_profile'']) UNKNOWN_CRITICAL_HEADER) (\<lambda>_.
     bind_res (guard_res (jfield header ''ecpa_profile'' = JStr PROFILE) WRONG_PROFILE) (\<lambda>_.
     bind_res (guard_res (is_string (jfield header ''kid'')) UNKNOWN_KEY) (\<lambda>_. Inr (jstr (jfield header ''kid''))))))))))))"

definition verify_payload :: "(json \<Rightarrow> string option) \<Rightarrow> string \<Rightarrow> string \<Rightarrow> attestation_statement attest" where
  "verify_payload jcs kid payload =
     bind_res (parse_strict payload) (\<lambda>v.
     bind_res (canonicalize jcs v) (\<lambda>canonical.
     bind_res (guard_res (payload = canonical) NONCANONICAL_PAYLOAD) (\<lambda>_.
     bind_res (validate_statement v) (\<lambda>a.
     bind_res (guard_res (as_schema a = SCHEMA \<and> as_profile a = PROFILE) WRONG_PROFILE) (\<lambda>_.
     bind_res (guard_res (as_kid a = kid) KEY_MISMATCH) (\<lambda>_.
     bind_res (guard_res (as_critical_claims a = []) UNKNOWN_CRITICAL_CLAIM) (\<lambda>_. Inr a)))))))"

definition verify_times :: "time_policy \<Rightarrow> int \<Rightarrow> attestation_statement \<Rightarrow> unit attest" where
  "verify_times T now a =
     bind_res (guard_res (\<not> (as_issued_at a > now + tp_clock_skew T \<or> as_observed_at a > now + tp_clock_skew T)) NOT_YET_VALID) (\<lambda>_.
     bind_res (guard_res (\<not> as_expires_at a < now - tp_clock_skew T) EXPIRED) (\<lambda>_.
     bind_res (guard_res (as_observed_at a \<le> as_issued_at a \<and> as_issued_at a \<le> as_expires_at a) INVALID_TIME) (\<lambda>_.
     bind_res (guard_res (\<not> as_expires_at a - as_issued_at a > tp_max_ttl T) INVALID_TIME) (\<lambda>_.
     guard_res (\<not> now - as_observed_at a > tp_max_observation_age T + tp_clock_skew T) INVALID_TIME))))"

text \<open>\<open>check\<close> is the method \<open>verify\<close> of a public key: the key, the signature and the signed text.\<close>

definition verify_envelope ::
  "(json \<Rightarrow> string option) \<Rightarrow> ('k \<Rightarrow> string \<Rightarrow> string \<Rightarrow> bool) \<Rightarrow> 'k trust_store \<Rightarrow> time_policy \<Rightarrow> int \<Rightarrow> signed_envelope \<Rightarrow>
   attestation_statement attest" where
  "verify_envelope jcs check store T now envelope = (case split_dots (se_detached_jws envelope) of
     [header, middle, signature] \<Rightarrow>
       bind_res (guard_res (middle = []) MALFORMED_JWS) (\<lambda>_.
       bind_res (verify_header jcs header) (\<lambda>kid.
       bind_res (verify_payload jcs kid (se_payload envelope)) (\<lambda>a.
       bind_res (trust_lookup store (as_issuer a) kid (as_subject a) now) (\<lambda>e.
       bind_res (b64url_decode signature) (\<lambda>bytes.
       bind_res (guard_res (check (te_public_key e) bytes (header @ ''.'' @ b64url (se_payload envelope))) INVALID_SIGNATURE) (\<lambda>_.
       bind_res (verify_times T now a) (\<lambda>_. Inr a)))))))
   | _ \<Rightarrow> Inl MALFORMED_JWS)"

section \<open>The verifier of the coordinator\<close>

record 'k signed_verifier =
  sv_envelopes :: "(string \<times> signed_envelope) list"
  sv_trust_store :: "'k trust_store"
  sv_policy :: time_policy

definition binds_receipt :: "attestation_statement \<Rightarrow> attestation \<Rightarrow> bool" where
  "binds_receipt a item \<longleftrightarrow>
     as_subject a = at_authority item \<and> as_issuer a = at_issuer item \<and> as_kid a = at_kid item
     \<and> as_plan_id a = at_plan_id item \<and> as_launch_id a = at_launch_id item \<and> as_plugin_id a = at_artifact_id item
     \<and> ps_host (as_process a) = pr_host (at_process item) \<and> ps_role (as_process a) = pr_role (at_process item)
     \<and> ps_ordinal (as_process a) = pr_ordinal (at_process item) \<and> ps_start_identity (as_process a) = pr_start_id (at_process item)
     \<and> ps_epoch (as_process a) = pr_epoch (at_process item) \<and> as_obligation a = at_obligation_id item
     \<and> as_event a = at_event item \<and> as_issued_at a = at_issued_at item \<and> as_observed_at a = at_observed_at item
     \<and> as_expires_at a = at_expires_at item \<and> as_challenge_nonce a = at_nonce item
     \<and> as_evidence_digest a = at_evidence_digest item \<and> as_artifact_digest a = at_artifact_digest item"

definition signed_verify ::
  "(string \<Rightarrow> string) \<Rightarrow> (json \<Rightarrow> string option) \<Rightarrow> ('k \<Rightarrow> string \<Rightarrow> string \<Rightarrow> bool) \<Rightarrow> 'k signed_verifier \<Rightarrow> attestation \<Rightarrow> int \<Rightarrow> plan \<Rightarrow> unit attest" where
  "signed_verify H jcs check V item now p = (case map_of (sv_envelopes V) (at_nonce item) of
     None \<Rightarrow> Inl BINDING_MISMATCH
   | Some envelope \<Rightarrow>
       bind_res (verify_envelope jcs check (sv_trust_store V) (sv_policy V) now envelope) (\<lambda>a.
       bind_res (guard_res (case find (\<lambda>q. plugin_id H q = at_artifact_id item) (plan_plugins p) of
           None \<Rightarrow> False | Some q \<Rightarrow> as_artifact_digest a = ''sha256:'' @ pl_artifact_sha256 q) BINDING_MISMATCH) (\<lambda>_.
       guard_res (binds_receipt a item) BINDING_MISMATCH)))"

end
