(* ===== verification/Attestation_Properties.thy ===== *)
theory Attestation_Properties
  imports Attestation
begin

text \<open>
  Lemmas on the attestation profile: base64url is a bijection onto the texts its decoder accepts, the
  strict parser refuses repeated keys at every depth, and values with the same members have the same
  canonical text.
\<close>

section \<open>base64url\<close>

definition b64_plain :: "char \<Rightarrow> bool" where
  "b64_plain c \<longleftrightarrow> c \<noteq> CHR ''='' \<and> c \<noteq> CHR ''-'' \<and> c \<noteq> CHR ''_'' \<and> is_b64url (urlsafe c)"

lemma b64_value_plain: "b64_value c = Some n \<Longrightarrow> b64_plain c"
proof (cases c)
  case (Char b0 b1 b2 b3 b4 b5 b6 b7)
  then show "b64_value c = Some n \<Longrightarrow> b64_plain c"
    by (cases b0; cases b1; cases b2; cases b3; cases b4; cases b5; cases b6; cases b7;
        simp add: b64_value_def b64_plain_def is_b64url_def urlsafe_def)
qed

lemma b64_char_plain: "n < 64 \<Longrightarrow> b64_plain (b64_char n)"
  using b64_value_plain [OF b64_value_char] .

lemma is_b64url_not: "is_b64url c \<Longrightarrow> c \<noteq> CHR ''='' \<and> c \<noteq> CHR ''.''"
  by (auto simp: is_b64url_def)

lemma plain_url: "b64_plain c \<Longrightarrow> is_b64url (urlsafe c)" "b64_plain c \<Longrightarrow> standard (urlsafe c) = c"
  by (auto simp: b64_plain_def urlsafe_def standard_def)

lemma b64_digits_plain: "n < 16777216 \<Longrightarrow> list_all b64_plain (b64_digits n) \<and> length (b64_digits n) = 4"
  by (auto simp: b64_digits_def less_mult_imp_div_less intro!: b64_char_plain)

text \<open>The text before the padding, and how much padding there is.\<close>

lemma b64encode_shape:
  "\<exists>core. b64encode s = core @ replicate ((4 - length core mod 4) mod 4) (CHR ''='') \<and> list_all b64_plain core \<and> length core mod 4 \<noteq> 1"
proof (induction s rule: b64encode.induct)
  case (2 a)
  have n: "of_char a * 65536 < (16777216 :: nat)" using b64_bound [of a "CHR 0x00" "CHR 0x00"] by simp
  let ?core = "take 2 (b64_digits (of_char a * 65536))"
  have "length ?core = 2" using b64_digits_plain [OF n] by simp
  moreover have "list_all b64_plain ?core" using b64_digits_plain [OF n] by (auto simp: list_all_iff dest: in_set_takeD)
  ultimately show ?case by (intro exI [of _ ?core]) (simp add: numeral_2_eq_2)
next
  case (3 a b)
  have n: "of_char a * 65536 + of_char b * 256 < (16777216 :: nat)" using b64_bound [of a b "CHR 0x00"] by simp
  let ?core = "take 3 (b64_digits (of_char a * 65536 + of_char b * 256))"
  have "length ?core = 3" using b64_digits_plain [OF n] by simp
  moreover have "list_all b64_plain ?core" using b64_digits_plain [OF n] by (auto simp: list_all_iff dest: in_set_takeD)
  ultimately show ?case by (intro exI [of _ ?core]) simp
next
  case (4 a b c s)
  then obtain core where core: "b64encode s = core @ replicate ((4 - length core mod 4) mod 4) (CHR ''='')"
    "list_all b64_plain core" "length core mod 4 \<noteq> 1" by blast
  let ?d = "b64_digits (of_char a * 65536 + of_char b * 256 + of_char c)"
  have "list_all b64_plain ?d" "length ?d = 4" using b64_digits_plain [OF b64_bound] by auto
  then show ?case using core by (intro exI [of _ "?d @ core"]) simp
qed (intro exI [of _ "[]"], simp)

lemma strip_padding: "x \<notin> set xs \<Longrightarrow> rev (dropWhile (\<lambda>c. c = x) (rev (xs @ replicate k x))) = xs"
proof -
  assume x: "x \<notin> set xs"
  have "dropWhile (\<lambda>c. c = x) (replicate k x @ rev xs) = dropWhile (\<lambda>c. c = x) (rev xs)" by (induction k) auto
  moreover have "dropWhile (\<lambda>c. c = x) (rev xs) = rev xs" using x by (cases xs rule: rev_cases) auto
  ultimately show ?thesis by simp
qed

lemma b64url_core:
  "\<exists>core. b64encode s = core @ replicate ((4 - length core mod 4) mod 4) (CHR ''='') \<and> list_all b64_plain core \<and> length core mod 4 \<noteq> 1
     \<and> b64url s = map urlsafe core"
proof -
  obtain core where core: "b64encode s = core @ replicate ((4 - length core mod 4) mod 4) (CHR ''='')" "list_all b64_plain core" "length core mod 4 \<noteq> 1"
    using b64encode_shape by blast
  have no_pad: "CHR ''='' \<notin> set (map urlsafe core)" using core(2) plain_url(1) is_b64url_not unfolding list_all_iff by force
  have pad: "urlsafe (CHR ''='') = CHR ''=''" by (simp add: urlsafe_def)
  have "b64url s = map urlsafe core"
    unfolding b64url_def core(1) map_append map_replicate pad by (rule strip_padding [OF no_pad])
  with core show ?thesis by blast
qed

lemma b64url_chars: "list_all is_b64url (b64url s)"
  using b64url_core [of s] plain_url(1) by (auto simp: list_all_iff)

lemma b64url_no_dot: "CHR ''.'' \<notin> set (b64url s)" "CHR ''='' \<notin> set (b64url s)"
  using b64url_chars [of s] is_b64url_not unfolding list_all_iff by blast+

lemma b64url_decode_b64url: "b64url_decode (b64url s) = Inr s"
proof -
  obtain core where core: "b64encode s = core @ replicate ((4 - length core mod 4) mod 4) (CHR ''='')" "list_all b64_plain core" "length core mod 4 \<noteq> 1"
    "b64url s = map urlsafe core" using b64url_core by blast
  have "map standard (map urlsafe core) = core"
    unfolding map_map comp_def using core(2) plain_url(2) by (intro map_idI) (auto simp: list_all_iff)
  moreover have "length (b64url s) = length core" using core(4) by simp
  ultimately have "b64decode (map standard (b64url s) @ replicate ((4 - length (b64url s) mod 4) mod 4) (CHR ''='')) = Some s"
    using core(1,4) b64decode_b64encode [of s] by simp
  then show ?thesis using core(3) \<open>length (b64url s) = length core\<close> b64url_chars [of s] b64url_no_dot [of s]
    by (simp add: b64url_decode_def guard_res_def)
qed

lemma b64url_decode_iff: "b64url_decode v = Inr s \<longleftrightarrow> v = b64url s"
  using b64url_decode_b64url [of s] by (auto simp: b64url_decode_def split: option.splits if_splits)

section \<open>The strict parser\<close>

interpretation strict: object_hook unique_pairs
  by unfold_locales (simp add: unique_pairs_def)

text \<open>What a parser returns satisfies a predicate.\<close>

definition yields :: "('a \<Rightarrow> bool) \<Rightarrow> parse_error + 'a \<times> string \<Rightarrow> bool" where
  "yields P x \<longleftrightarrow> (\<forall>v r. x = Inr (v, r) \<longrightarrow> P v)"

lemma yields_intros:
  "yields P (Inl e)" "P v \<Longrightarrow> yields P (Inr (v, r))"
  "(c \<Longrightarrow> yields P x) \<Longrightarrow> (\<not> c \<Longrightarrow> yields P y) \<Longrightarrow> yields P (if c then x else y)"
  "(s = [] \<Longrightarrow> yields P x) \<Longrightarrow> (\<And>c t. s = c # t \<Longrightarrow> yields P (f c t)) \<Longrightarrow> yields P (case s of [] \<Rightarrow> x | c # t \<Rightarrow> f c t)"
  by (auto simp: yields_def split: list.splits)

lemma yields_bind: "yields Q m \<Longrightarrow> (\<And>v r. Q v \<Longrightarrow> yields P (k (v, r))) \<Longrightarrow> yields P (bind_res m k)"
  by (cases m) (fastforce simp: yields_def)+

lemma yields_words:
  "(\<And>x. v = Inr x \<Longrightarrow> P x) \<Longrightarrow> yields P (parse_word w v s)" "(\<And>i. P (JInt i)) \<Longrightarrow> yields P (parse_number f s)"
  "(\<And>x. P (JStr x)) \<Longrightarrow> yields P (malformed (map_option (\<lambda>(x, r). (JStr x, r)) y))"
  by (auto simp: yields_def parse_word_def parse_number_def malformed_def split: if_splits option.splits)

lemma yields_hook: "list_all (\<lambda>(k, v). keys_ok v) kvs \<Longrightarrow> yields keys_ok (bind_res (unique_pairs kvs) (\<lambda>v. Inr (v, r)))"
  by (simp add: yields_def unique_pairs_def)

lemma parse_keys_ok:
  "(\<forall>s. yields keys_ok (parse_value unique_pairs n s)) \<and> (\<forall>s. yields (list_all keys_ok) (parse_elements unique_pairs n s))
   \<and> (\<forall>s. yields (list_all (\<lambda>(k, v). keys_ok v)) (parse_members unique_pairs n s))"
proof (induction n)
  case (Suc n)
  then have IH: "yields keys_ok (parse_value unique_pairs n s)" "yields (list_all keys_ok) (parse_elements unique_pairs n s)"
    "yields (list_all (\<lambda>(k, v). keys_ok v)) (parse_members unique_pairs n s)" for s by blast+
  have "yields keys_ok (parse_value unique_pairs (Suc n) s)" for s
    unfolding parse_value.simps
    by (intro yields_intros yields_words yields_hook yields_bind [OF IH(2)] yields_bind [OF IH(3)]; (simp add: yields_intros yields_hook)?; auto)
  moreover have "yields (list_all keys_ok) (parse_elements unique_pairs (Suc n) s)" for s
    unfolding parse_elements.simps
    by (rule yields_bind [OF IH(1)]) (auto intro!: yields_intros yields_bind [OF IH(2)])
  moreover have "yields (list_all (\<lambda>(k, v). keys_ok v)) (parse_members unique_pairs (Suc n) s)" for s
    unfolding parse_members.simps
    by (auto intro!: yields_intros yields_bind [OF IH(1)] yields_bind [OF IH(3)] yields_bind [where Q = "\<lambda>_. True"] simp: yields_def [of "\<lambda>_. True"])
  ultimately show ?case by blast
qed (simp add: yields_def)
lemma parse_strict_keys_ok: "parse_strict raw = Inr v \<Longrightarrow> keys_ok v \<and> is_object v"
proof -
  assume v: "parse_strict raw = Inr v"
  then obtain kvs where kvs: "v = JObj kvs" "loads_with unique_pairs raw = Inr (JObj kvs)"
    by (auto simp: parse_strict_def split: sum.splits parse_error.splits json.splits)
  then obtain s r where "parse_value unique_pairs (2 * length s + 1) (skip s) = Inr (JObj kvs, r)"
    by (auto simp: loads_with_def parse_text_def simp del: parse_value.simps split: if_splits)
  then have "keys_ok (JObj kvs)" using parse_keys_ok [of "2 * length s + 1"] unfolding yields_def by blast
  then show ?thesis using kvs by (simp add: is_object_def)
qed

lemma parse_strict_canonical:
  assumes "keys_ok (JObj kvs)"
  shows "parse_strict (canonical_bytes (JObj kvs)) = Inr (canon (JObj kvs))"
proof -
  have "loads_with unique_pairs (canonical_bytes (JObj kvs)) = Inr (canon (JObj kvs))"
    using strict.loads_with_dumps [OF assms, of "[]" False] by (simp add: canonical_bytes_def)
  then show ?thesis by (simp add: parse_strict_def)
qed

section \<open>Canonical texts\<close>

text \<open>Objects with the same members have the same canonical text.\<close>

lemma canon_members:
  assumes "(k, v) \<in> set ks" and "distinct (map fst ks)" and "distinct (map fst ls)" and "fst ` set ks = fst ` set ls"
    and "canon (jfield (JObj ks) k) = canon (jfield (JObj ls) k)"
  shows "(k, canon v) \<in> set (map (\<lambda>(k, v). (k, canon v)) ls)"
proof -
  have "k \<in> fst ` set ls" using assms(1,4) by force
  then obtain w where w: "(k, w) \<in> set ls" by auto
  have "map_of ks k = Some v" "map_of ls k = Some w" using assms(1,2,3) w by (auto simp: map_of_is_SomeI)
  then have "canon v = canon w" using assms(5) by simp
  then show ?thesis using w by force
qed

lemma canon_eqI:
  assumes "distinct (map fst kvs)" and "distinct (map fst kvs')" and "fst ` set kvs = fst ` set kvs'"
    and "\<And>k. k \<in> fst ` set kvs \<Longrightarrow> canon (jfield (JObj kvs) k) = canon (jfield (JObj kvs') k)"
  shows "canon (JObj kvs) = canon (JObj kvs')"
proof -
  let ?c = "map (\<lambda>(k, v). (k, canon v))"
  have same: "set (?c kvs) = set (?c kvs')"
  proof (intro equalityI subsetI)
    fix x assume "x \<in> set (?c kvs)"
    then obtain k v where x: "x = (k, canon v)" "(k, v) \<in> set kvs" by auto
    moreover have "k \<in> fst ` set kvs" using x(2) by force
    ultimately show "x \<in> set (?c kvs')" using canon_members [of k v kvs kvs'] assms(1,2,3) assms(4) [of k] by simp
  next
    fix x assume "x \<in> set (?c kvs')"
    then obtain k v where x: "x = (k, canon v)" "(k, v) \<in> set kvs'" by auto
    moreover have "k \<in> fst ` set kvs" using x(2) assms(3) by force
    ultimately show "x \<in> set (?c kvs)" using canon_members [of k v kvs' kvs] assms(1,2,3) assms(4) [of k] by simp
  qed
  have fsts: "map fst (?c ls) = map fst ls" for ls :: "(string \<times> json) list" by auto
  have d: "distinct (map fst (sort_key fst (?c ls)))" if "distinct (map fst ls)" for ls :: "(string \<times> json) list"
    using that fsts [of ls] by (metis distinct_map distinct_sort set_sort)
  have "sort_key fst (?c kvs) = sort_key fst (?c kvs')"
  proof (rule map_sorted_distinct_set_unique [of fst])
    have "inj_on fst (set (?c kvs))" using assms(1) fsts [of kvs] by (metis distinct_map)
    then show "inj_on fst (set (sort_key fst (?c kvs)) \<union> set (sort_key fst (?c kvs')))" using same by simp
  qed (use d assms(1,2) same in \<open>simp_all\<close>)
  then show ?thesis by simp
qed

section \<open>Statements\<close>

lemma distinct_keys_sort [simp]: "distinct (map fst (sort_key fst kvs)) \<longleftrightarrow> distinct (map fst kvs)"
  by (simp add: distinct_map)

lemma keys_ok_canon [simp]: "keys_ok v \<Longrightarrow> keys_ok (canon v)"
proof (induction v)
  case (JObj kvs)
  have "map fst (map (\<lambda>(k, v). (k, canon v)) kvs) = map fst kvs" by (induction kvs) auto
  then have "distinct (map fst (map (\<lambda>(k, v). (k, canon v)) kvs))" using JObj.prems by (metis keys_ok.simps(2))
  then show ?case unfolding canon.simps keys_ok.simps distinct_keys_sort using JObj by (auto simp: list_all_iff)
qed (auto simp: list_all_iff)

lemma values_ok_canon [simp]: "values_ok (canon v) \<longleftrightarrow> values_ok v"
proof (induction v)
  case (JObj kvs)
  then show ?case by (fastforce simp: sort_key_map_values list_all_iff)
qed (auto simp: list_all_iff)

lemma canonical_bytes_canon [simp]: "canonical_bytes (canon v) = canonical_bytes v"
  by (simp add: canonical_bytes_def)

lemma field_canon [simp]:
  "jstr (canon v) = jstr v" "jint (canon v) = jint v" "jlist (canon v) = map canon (jlist v)"
  "is_object (canon v) = is_object v" "is_list (canon v) = is_list v" "is_string (canon v) = is_string v"
  "nonempty_string (canon v) = nonempty_string v" "safe_integer (canon v) = safe_integer v"
  by (cases v; simp add: jstr_def jint_def jlist_def is_object_def is_list_def is_string_def nonempty_string_def safe_integer_def)+

lemma from_dict_canon [simp]: "from_dict (canon v) = from_dict v"
  by (simp add: from_dict_def comp_def Let_def)

lemma string_canon: "is_string v \<Longrightarrow> canon v = v"
  by (cases v) (auto simp: is_string_def)

lemma strings_canon: "list_all is_string xs \<Longrightarrow> distinct (map canon xs) \<longleftrightarrow> distinct xs"
  by (subst map_idI) (auto simp: list_all_iff string_canon)

lemma statement_ok_canon [simp]: "statement_ok (canon v) \<longleftrightarrow> statement_ok v"
  by (simp add: statement_ok_def Let_def list.pred_map comp_def strings_canon cong: conj_cong)

lemma from_to_dict [simp]: "from_dict (to_dict a) = a"
  by (simp add: from_dict_def to_dict_def process_to_dict_def jstr_def jint_def jlist_def comp_def)

lemma to_dict_keys [simp]: "keys_ok (to_dict a)" "keys_ok (protected_header kid)"
  by (simp_all add: to_dict_def process_to_dict_def protected_header_def list_all_iff)

lemma nonempty_jstr: "nonempty_string v \<Longrightarrow> JStr (jstr v) = v"
  by (cases v) (auto simp: nonempty_string_def jstr_def)

lemma safe_jint: "safe_integer v \<Longrightarrow> JInt (jint v) = v \<and> 0 \<le> jint v \<and> jint v \<le> MAX_SAFE_INTEGER"
  by (cases v) (auto simp: safe_integer_def jint_def)

lemma strings_jstr: "list_all is_string xs \<Longrightarrow> map JStr (map jstr xs) = xs"
  by (induction xs) (auto simp: is_string_def jstr_def split: json.splits)

lemma canon_same_fields:
  assumes "keys_ok v" and "is_object v" and "keys_ok w" and "is_object w" and "jkeys v = jkeys w"
    and "\<And>k. k \<in> jkeys w \<Longrightarrow> canon (jfield v k) = canon (jfield w k)"
  shows "canon v = canon w"
proof -
  obtain kvs ls where v: "v = JObj kvs" "w = JObj ls" using assms(2,4) by (cases v; cases w) (auto simp: is_object_def)
  show ?thesis unfolding v by (rule canon_eqI) (use assms v in \<open>simp_all del: jfield_JObj canon.simps\<close>)
qed

lemma canon_process:
  assumes "keys_ok p" and "is_object p" and "jkeys p = set PROCESS_FIELDS"
    and "list_all (\<lambda>name. nonempty_string (jfield p name)) [''host'', ''role'', ''start_identity'']"
    and "list_all (\<lambda>name. safe_integer (jfield p name)) [''ordinal'', ''epoch'']"
  shows "canon (process_to_dict \<lparr>ps_host = jstr (jfield p ''host''), ps_role = jstr (jfield p ''role''), ps_ordinal = jint (jfield p ''ordinal''),
        ps_start_identity = jstr (jfield p ''start_identity''), ps_epoch = jint (jfield p ''epoch'')\<rparr>) = canon p"
proof (rule canon_same_fields)
  fix k assume "k \<in> jkeys p"
  then have "k \<in> set PROCESS_FIELDS" using assms(3) by simp
  then show "canon (jfield (process_to_dict \<lparr>ps_host = jstr (jfield p ''host''), ps_role = jstr (jfield p ''role''), ps_ordinal = jint (jfield p ''ordinal''),
        ps_start_identity = jstr (jfield p ''start_identity''), ps_epoch = jint (jfield p ''epoch'')\<rparr>) k) = canon (jfield p k)"
    using assms(4,5) by (auto simp: PROCESS_FIELDS_def process_to_dict_def nonempty_jstr safe_jint simp del: canon.simps)
qed (use assms in \<open>auto simp: process_to_dict_def is_object_def PROCESS_FIELDS_def\<close>)

lemma keys_ok_field: "keys_ok v \<Longrightarrow> keys_ok (jfield v k)"
proof (cases v)
  case (JObj kvs)
  assume "keys_ok v"
  then show ?thesis using JObj by (auto simp: list_all_iff split: option.splits dest: map_of_SomeD)
qed (auto simp: jfield_def jget_def)

lemma dict_fields:
  "\<forall>k \<in> set STRING_FIELDS. jfield (to_dict (from_dict v)) k = JStr (jstr (jfield v k))"
  "\<forall>k \<in> set TIME_FIELDS. jfield (to_dict (from_dict v)) k = JInt (jint (jfield v k))"
  by (simp_all add: STRING_FIELDS_def TIME_FIELDS_def to_dict_def from_dict_def Let_def)

lemma to_dict_jkeys: "jkeys (to_dict a) = set (STRING_FIELDS @ TIME_FIELDS @ [''process'', ''critical_claims''])"
  by (auto simp: to_dict_def STRING_FIELDS_def TIME_FIELDS_def)

lemma canon_statement:
  assumes "keys_ok v" and "is_object v" and "statement_ok v"
  shows "canon (to_dict (from_dict v)) = canon v"
proof (rule canon_same_fields)
  let ?p = "jfield v ''process''" and ?c = "jfield v ''critical_claims''"
  note ok = assms(3) [unfolded statement_ok_def Let_def]
  have p: "canon (process_to_dict (as_process (from_dict v))) = canon ?p"
    using canon_process [OF keys_ok_field [OF assms(1)], of "''process''"] ok by (simp add: from_dict_def Let_def)
  obtain xs where xs: "?c = JArr xs" using ok by (cases ?c) (auto simp: is_list_def)
  then have c: "JArr (map JStr (as_critical_claims (from_dict v))) = ?c"
    using ok strings_jstr [of xs] by (simp add: from_dict_def Let_def jlist_def)
  fix k assume "k \<in> jkeys v"
  then have k: "k \<in> set (STRING_FIELDS @ TIME_FIELDS @ [''process'', ''critical_claims''])" using ok by simp
  have strs: "JStr (jstr (jfield v k)) = jfield v k" if "k \<in> set STRING_FIELDS" using that ok nonempty_jstr by (auto simp: list_all_iff)
  have times: "JInt (jint (jfield v k)) = jfield v k" if "k \<in> set TIME_FIELDS" using that ok safe_jint by (auto simp: list_all_iff)
  consider "k \<in> set STRING_FIELDS" | "k \<in> set TIME_FIELDS" | "k = ''process''" | "k = ''critical_claims''" using k by auto
  then show "canon (jfield (to_dict (from_dict v)) k) = canon (jfield v k)"
  proof cases
    case 1
    then show ?thesis using strs dict_fields(1) [of v] by simp
  next
    case 2
    then show ?thesis using times dict_fields(2) [of v] by simp
  qed (use p c in \<open>simp_all add: to_dict_def del: canon.simps\<close>)
next
  show "jkeys (to_dict (from_dict v)) = jkeys v" using assms(3) unfolding to_dict_jkeys statement_ok_def by metis
qed (use assms in \<open>simp_all\<close>, simp add: to_dict_def is_object_def)

lemma statement_values_ok:
  assumes "statement_ok (to_dict a)"
  shows "values_ok (to_dict a)"
proof -
  have "safe_integer (JInt i) \<Longrightarrow> values_ok (JInt i)" for i by (auto simp: safe_integer_def MAX_SAFE_INTEGER_def)
  moreover have "list_all values_ok (map JStr xs)" for xs by (auto simp: list_all_iff)
  ultimately show ?thesis using assms
    by (simp add: statement_ok_def Let_def to_dict_def process_to_dict_def TIME_FIELDS_def del: values_ok.simps(1))
qed

section \<open>What is accepted\<close>

text \<open>The package jcs implements RFC 8785, which on the values of the model is the sorted, compact text.\<close>

definition rfc8785 :: "(json \<Rightarrow> string option) \<Rightarrow> bool" where
  "rfc8785 jcs \<longleftrightarrow> (\<forall>v. keys_ok v \<and> values_ok v \<longrightarrow> jcs v = Some (canonical_bytes v))"

lemma canonicalize_iff:
  assumes "rfc8785 jcs" and "keys_ok v"
  shows "canonicalize jcs v = Inr raw \<longleftrightarrow> values_ok v \<and> raw = canonical_bytes v"
  using assms by (auto simp: canonicalize_def rfc8785_def guard_res_def)

lemma verify_header_iff:
  assumes jcs: "rfc8785 jcs"
  shows "verify_header jcs part = Inr kid \<longleftrightarrow> part = b64url (canonical_bytes (protected_header kid))"
proof
  assume "verify_header jcs part = Inr kid"
  then obtain raw header canonical where r: "b64url_decode part = Inr raw" "parse_strict raw = Inr header"
      "jkeys header = {''alg'', ''crit'', ''ecpa_profile'', ''kid'', ''typ''}" "canonicalize jcs header = Inr canonical" "raw = canonical"
      "jfield header ''alg'' = JStr ALGORITHM" "jfield header ''typ'' = JStr JWS_TYPE" "jfield header ''crit'' = JArr [JStr ''ecpa_profile'']"
      "jfield header ''ecpa_profile'' = JStr PROFILE" "is_string (jfield header ''kid'')" "jstr (jfield header ''kid'') = kid"
    by (auto simp: verify_header_def)
  have kid: "jfield header ''kid'' = JStr kid" using r(10,11) by (cases "jfield header ''kid''") (auto simp: is_string_def jstr_def)
  have ok: "keys_ok header" "is_object header" using parse_strict_keys_ok [OF r(2)] by auto
  have "canon header = canon (protected_header kid)"
  proof (rule canon_same_fields)
    fix k assume "k \<in> jkeys (protected_header kid)"
    then show "canon (jfield header k) = canon (jfield (protected_header kid) k)"
      using r(6-9) kid by (auto simp: protected_header_def)
  qed (use ok r(3) in \<open>auto simp: protected_header_def is_object_def\<close>)
  then have "canonical_bytes header = canonical_bytes (protected_header kid)" using canonical_bytes_canon by metis
  then show "part = b64url (canonical_bytes (protected_header kid))"
    using r(1,4,5) canonicalize_iff [OF jcs ok(1)] b64url_decode_iff by simp
next
  assume part: "part = b64url (canonical_bytes (protected_header kid))"
  let ?h = "canon (protected_header kid)"
  have parse: "parse_strict (canonical_bytes (protected_header kid)) = Inr ?h"
    using parse_strict_canonical to_dict_keys(2) [of kid] unfolding protected_header_def by blast
  have "canonicalize jcs ?h = Inr (canonical_bytes (protected_header kid))"
    using canonicalize_iff [OF jcs, of ?h] by (simp add: protected_header_def)
  moreover have "jkeys ?h = {''alg'', ''crit'', ''ecpa_profile'', ''kid'', ''typ''}" "jfield ?h ''alg'' = JStr ALGORITHM" "jfield ?h ''typ'' = JStr JWS_TYPE"
      "jfield ?h ''crit'' = JArr [JStr ''ecpa_profile'']" "jfield ?h ''ecpa_profile'' = JStr PROFILE" "jfield ?h ''kid'' = JStr kid"
    unfolding jkeys_canon jfield_canon by (auto simp: protected_header_def)
  ultimately show "verify_header jcs part = Inr kid"
    using parse by (simp add: verify_header_def part b64url_decode_b64url guard_res_def is_string_def jstr_def)
qed

lemma verify_payload_iff:
  assumes jcs: "rfc8785 jcs"
  shows "verify_payload jcs kid payload = Inr a \<longleftrightarrow> payload = canonical_bytes (to_dict a) \<and> statement_ok (to_dict a)
     \<and> as_schema a = SCHEMA \<and> as_profile a = PROFILE \<and> as_kid a = kid \<and> as_critical_claims a = []"
proof
  assume "verify_payload jcs kid payload = Inr a"
  then obtain v where v: "parse_strict payload = Inr v" "canonicalize jcs v = Inr payload" "statement_ok v" "a = from_dict v"
      "as_schema a = SCHEMA" "as_profile a = PROFILE" "as_kid a = kid" "as_critical_claims a = []"
    by (auto simp: verify_payload_def validate_statement_def)
  have ok: "keys_ok v" "is_object v" using parse_strict_keys_ok [OF v(1)] by auto
  have same: "canon (to_dict a) = canon v" using canon_statement [OF ok v(3)] v(4) by simp
  have "payload = canonical_bytes (to_dict a)" using v(2) canonicalize_iff [OF jcs ok(1)] same canonical_bytes_canon by metis
  moreover have "statement_ok (to_dict a)" using same v(3) statement_ok_canon by metis
  ultimately show "payload = canonical_bytes (to_dict a) \<and> statement_ok (to_dict a)
     \<and> as_schema a = SCHEMA \<and> as_profile a = PROFILE \<and> as_kid a = kid \<and> as_critical_claims a = []" using v by blast
next
  assume a: "payload = canonical_bytes (to_dict a) \<and> statement_ok (to_dict a)
     \<and> as_schema a = SCHEMA \<and> as_profile a = PROFILE \<and> as_kid a = kid \<and> as_critical_claims a = []"
  let ?v = "canon (to_dict a)"
  have parse: "parse_strict payload = Inr ?v"
    using a parse_strict_canonical to_dict_keys(1) [of a] unfolding to_dict_def by blast
  have "canonicalize jcs ?v = Inr payload"
    using canonicalize_iff [OF jcs, of ?v] a statement_values_ok [of a] by simp
  then show "verify_payload jcs kid payload = Inr a"
    using parse a by (simp add: verify_payload_def validate_statement_def guard_res_def)
qed

end
