(* ===== verification/Exposure_Gate.thy ===== *)
theory Exposure_Gate
  imports Exec_Monad Json_Value
begin

text \<open>
  The durable reference exposure gate (exposure\_gate.py): the deterministic traffic adapter, the
  SQLite tables as lists of rows, and every operation of \<open>ReferenceExposureGate\<close>. A blob column
  holds the JSON value its text parses to; \<open>with self.connection\<close> is \<open>atomic_x\<close> on the
  database; the clock is a stream of readings indexed by a counter in the state. Rows are never
  deleted, so AUTOINCREMENT gives one more than the last row number. The digest function of
  hashlib and the clock are the environment \<open>E\<close>. A crash is an \<open>InjectedCrash\<close> at one of the
  fault points of the source.
\<close>

section \<open>States, errors and data\<close>

datatype gate_state =
    PREDECESSOR_OPEN | CANDIDATE_STAGED | CANDIDATE_CLOSED | OPENING | CANDIDATE_OPEN
  | DRAINING | ROLLED_BACK | FAILED_SAFE | SAFETY_UNKNOWN

fun gate_state_value :: "gate_state \<Rightarrow> string" where
  "gate_state_value PREDECESSOR_OPEN = ''PREDECESSOR_OPEN''"
| "gate_state_value CANDIDATE_STAGED = ''CANDIDATE_STAGED''"
| "gate_state_value CANDIDATE_CLOSED = ''CANDIDATE_CLOSED''"
| "gate_state_value OPENING = ''OPENING''"
| "gate_state_value CANDIDATE_OPEN = ''CANDIDATE_OPEN''"
| "gate_state_value DRAINING = ''DRAINING''"
| "gate_state_value ROLLED_BACK = ''ROLLED_BACK''"
| "gate_state_value FAILED_SAFE = ''FAILED_SAFE''"
| "gate_state_value SAFETY_UNKNOWN = ''SAFETY_UNKNOWN''"

datatype rollback_class = RC_RESTORED_STRONG | RC_BEHAVIORAL | RC_FAILED_SAFE | RC_SAFETY_UNKNOWN

fun rollback_class_value :: "rollback_class \<Rightarrow> string" where
  "rollback_class_value RC_RESTORED_STRONG = ''RESTORED_STRONG''"
| "rollback_class_value RC_BEHAVIORAL = ''BEHAVIORAL''"
| "rollback_class_value RC_FAILED_SAFE = ''FAILED_SAFE''"
| "rollback_class_value RC_SAFETY_UNKNOWN = ''SAFETY_UNKNOWN''"

text \<open>The exceptions of the language the gate code can raise besides its own.\<close>

datatype py_exception = KeyError | TypeError | ValueError | IndexError

datatype gate_error = GateError string | InjectedCrash string | PyError py_exception

text \<open>\<open>str(exc)\<close>; the text of the language's own exceptions is not modelled.\<close>

fun err_str :: "gate_error \<Rightarrow> string" where
  "err_str (GateError msg) = msg"
| "err_str (InjectedCrash point) = point"
| "err_str (PyError _) = []"

record admission_request =
  aq_request_id :: string
  aq_admitted_at :: int

record admission_result =
  ar_finished_at :: int
  ar_result :: "string option"
  ar_abort :: "string option"

record route_state =
  rs_generation :: "int option"
  rs_fence :: string
  rs_snapshot :: json

record lease_grant =
  lg_holder :: string
  lg_fencing_token :: int
  lg_expires_at :: int

record open_proof =
  op_plan_id :: string
  op_generation :: int
  op_evidence_count :: int
  op_evidence_digest :: string
  op_coverage_digest :: string
  op_lease :: lease_grant
  op_candidate_digest :: string

record behavioral_oracle_result =
  bo_equivalent :: bool
  bo_observations_digest :: string
  bo_oracle :: string

record fail_close_result =
  fc_classification :: rollback_class
  fc_actual_route :: "route_state option"
  fc_error :: "string option"

definition opt_int :: "int option \<Rightarrow> json" where
  "opt_int x = (case x of None \<Rightarrow> JNull | Some i \<Rightarrow> JInt i)"

definition opt_string :: "string option \<Rightarrow> json" where
  "opt_string x = (case x of None \<Rightarrow> JNull | Some s \<Rightarrow> JStr s)"

definition route_dict :: "route_state \<Rightarrow> json" where
  "route_dict r = JObj [(''generation'', opt_int (rs_generation r)), (''fence'', JStr (rs_fence r)),
     (''snapshot'', rs_snapshot r)]"

definition opt_route_dict :: "route_state option \<Rightarrow> json" where
  "opt_route_dict x = (case x of None \<Rightarrow> JNull | Some r \<Rightarrow> route_dict r)"

definition lease_dict :: "lease_grant \<Rightarrow> json" where
  "lease_dict g = JObj [(''holder'', JStr (lg_holder g)),
     (''fencing_token'', JInt (lg_fencing_token g)), (''expires_at'', JInt (lg_expires_at g))]"

definition proof_fields :: "open_proof \<Rightarrow> (string \<times> json) list" where
  "proof_fields p = [(''plan_id'', JStr (op_plan_id p)), (''generation'', JInt (op_generation p)),
     (''evidence_count'', JInt (op_evidence_count p)),
     (''evidence_digest'', JStr (op_evidence_digest p)),
     (''coverage_digest'', JStr (op_coverage_digest p)), (''lease'', lease_dict (op_lease p)),
     (''candidate_digest'', JStr (op_candidate_digest p))]"

definition oracle_dict :: "behavioral_oracle_result option \<Rightarrow> json" where
  "oracle_dict x = (case x of None \<Rightarrow> JNull | Some b \<Rightarrow>
     JObj [(''equivalent'', JBool (bo_equivalent b)),
       (''observations_digest'', JStr (bo_observations_digest b)), (''oracle'', JStr (bo_oracle b))])"

text \<open>\<open>ReferenceExposureGate._json\<close> and \<open>_digest\<close>; \<open>OpenProof.digest\<close> serialises the same way.\<close>

definition gate_json :: "json \<Rightarrow> string" where
  "gate_json v = dumps True v"

definition gate_digest :: "(string \<Rightarrow> string) \<Rightarrow> json \<Rightarrow> string" where
  "gate_digest H v = ''sha256:'' @ H (gate_json v)"

definition proof_digest :: "(string \<Rightarrow> string) \<Rightarrow> open_proof \<Rightarrow> string" where
  "proof_digest H p = gate_digest H (JObj (proof_fields p))"

definition fence_of :: "int \<Rightarrow> string" where
  "fence_of generation = ''fence-'' @ show_int generation"

section \<open>The deterministic traffic adapter\<close>

record traffic =
  ta_route :: route_state
  ta_authority :: lease_grant
  ta_faults :: "string set"
  ta_behavioral_restore :: bool
  ta_rollback_fails :: bool

type_synonym 'a traffic_exec = "(traffic, gate_error, 'a) exec"

definition ta_init ::
  "int \<Rightarrow> json \<Rightarrow> lease_grant option \<Rightarrow> string set \<Rightarrow> bool \<Rightarrow> bool \<Rightarrow> traffic" where
  "ta_init predecessor_generation predecessor_snapshot authority faults behavioral fails =
     \<lparr>ta_route = \<lparr>rs_generation = Some predecessor_generation,
        rs_fence = fence_of predecessor_generation, rs_snapshot = predecessor_snapshot\<rparr>,
      ta_authority = (case authority of None \<Rightarrow>
          \<lparr>lg_holder = ''manager'', lg_fencing_token = 1, lg_expires_at = 2 ^ 62\<rparr> | Some g \<Rightarrow> g),
      ta_faults = faults, ta_behavioral_restore = behavioral, ta_rollback_fails = fails\<rparr>"

definition closed_route :: route_state where
  "closed_route = \<lparr>rs_generation = None, rs_fence = ''closed'', rs_snapshot = JNull\<rparr>"

definition ta_hit :: "string \<Rightarrow> unit traffic_exec" where
  "ta_hit point = bind_x (gets_x ta_faults) (\<lambda>faults.
     when_x (point \<in> faults)
       (then_x (modify_x (\<lambda>t. t\<lparr>ta_faults := faults - {point}\<rparr>)) (raise_x (InjectedCrash point))))"

definition ta_set_route :: "route_state \<Rightarrow> unit traffic_exec" where
  "ta_set_route r = modify_x (\<lambda>t. t\<lparr>ta_route := r\<rparr>)"

definition ta_close :: "int \<Rightarrow> unit traffic_exec" where
  "ta_close generation = ta_hit ''close''"

definition ta_open :: "int \<Rightarrow> string \<Rightarrow> json \<Rightarrow> lease_grant \<Rightarrow> int \<Rightarrow> unit traffic_exec" where
  "ta_open generation fence snapshot grant now =
     then_x (ta_hit ''open.before'')
     (bind_x (gets_x ta_authority) (\<lambda>current.
      then_x (guard_x (\<not> (current \<noteq> grant \<or> lg_expires_at grant < now))
               (GateError ''lease changed or expired before traffic open''))
      (then_x (ta_set_route \<lparr>rs_generation = Some generation, rs_fence = fence, rs_snapshot = snapshot\<rparr>)
      (ta_hit ''open.after''))))"

definition ta_close_all :: "unit traffic_exec" where
  "ta_close_all = then_x (ta_hit ''close_all'') (ta_set_route closed_route)"

text \<open>\<open>dict(snapshot)\<close> needs a mapping.\<close>

definition ta_restore :: "int \<Rightarrow> string \<Rightarrow> json \<Rightarrow> route_state traffic_exec" where
  "ta_restore generation fence snapshot =
     bind_x (gets_x ta_rollback_fails) (\<lambda>fails.
     then_x (guard_x (\<not> fails) (GateError ''rollback failed''))
     (then_x (guard_x (case snapshot of JObj _ \<Rightarrow> True | _ \<Rightarrow> False) (PyError TypeError))
     (bind_x (gets_x ta_behavioral_restore) (\<lambda>behavioral.
      let restored = (if behavioral then JObj [(''behaviorally_equivalent'', JBool True)] else snapshot) in
      then_x (ta_set_route \<lparr>rs_generation = Some generation, rs_fence = fence, rs_snapshot = restored\<rparr>)
      (gets_x ta_route)))))"

definition ta_lease_valid :: "lease_grant \<Rightarrow> int \<Rightarrow> traffic \<Rightarrow> bool" where
  "ta_lease_valid grant now t \<longleftrightarrow> ta_authority t = grant \<and> lg_expires_at grant \<ge> now"

definition ta_query_route :: "route_state traffic_exec" where
  "ta_query_route = then_x (ta_hit ''route.query'') (gets_x ta_route)"

section \<open>The database\<close>

record gate_row =
  gr_state :: gate_state
  gr_predecessor_generation :: int
  gr_candidate_generation :: int
  gr_predecessor_json :: json
  gr_candidate_json :: json
  gr_route_generation :: "int option"
  gr_route_fence :: string
  gr_lease :: lease_grant
  gr_transition_seq :: nat
  gr_revision :: nat
  gr_schema_version :: nat
  gr_proof_digest :: "string option"
  gr_candidate_digest :: string
  gr_observed_candidate_digest :: "string option"
  gr_predecessor_digest :: string
  gr_observed_predecessor_digest :: "string option"

record transition_row =
  tr_seq :: nat
  tr_generation :: int
  tr_kind :: string
  tr_operation :: string
  tr_operation_id :: string
  tr_from :: "gate_state option"
  tr_to :: "gate_state option"
  tr_fence :: "string option"
  tr_at :: int
  tr_detail :: json

record admission_row =
  ad_request_id :: string
  ad_route_epoch :: string
  ad_chosen_generation :: int
  ad_admitted_at :: int
  ad_finished_at :: "int option"
  ad_result :: "string option"
  ad_abort :: "string option"
  ad_transition_seq :: nat

record event_row =
  ev_seq :: nat
  ev_request_id :: string
  ev_kind :: string
  ev_chosen_generation :: int
  ev_route_epoch :: string
  ev_at :: int
  ev_transition_seq :: nat
  ev_detail :: json

record gate_db =
  gd_state :: "gate_row option"
  gd_transition :: "transition_row list"
  gd_admission :: "admission_row list"
  gd_event :: "event_row list"

text \<open>The empty tables \<open>_schema\<close> creates.\<close>

definition gate_schema :: gate_db where
  "gate_schema = \<lparr>gd_state = None, gd_transition = [], gd_admission = [], gd_event = []\<rparr>"

record gate_env =
  ge_hash :: "string \<Rightarrow> string"
  ge_clock :: "nat \<Rightarrow> int"

text \<open>
  The gate object with its store and its adapter. \<open>gs_authority = None\<close>: the gate shares the
  adapter's lease authority (the default of the constructor).
\<close>

record gate_sys =
  gs_db :: gate_db
  gs_traffic :: traffic
  gs_authority :: "lease_grant option"
  gs_faults :: "string set"
  gs_ticks :: nat

type_synonym 'a gate_exec = "(gate_sys, gate_error, 'a) exec"

definition gate_schema_version :: nat where
  "gate_schema_version = 2"

definition gate_init :: "traffic \<Rightarrow> lease_grant option \<Rightarrow> string set \<Rightarrow> gate_sys" where
  "gate_init t authority faults =
     \<lparr>gs_db = gate_schema, gs_traffic = t, gs_authority = authority, gs_faults = faults, gs_ticks = 0\<rparr>"

fun ALLOWED :: "gate_state \<Rightarrow> gate_state list" where
  "ALLOWED PREDECESSOR_OPEN = [CANDIDATE_STAGED, FAILED_SAFE, SAFETY_UNKNOWN]"
| "ALLOWED CANDIDATE_STAGED = [CANDIDATE_CLOSED, ROLLED_BACK, FAILED_SAFE, SAFETY_UNKNOWN]"
| "ALLOWED CANDIDATE_CLOSED = [OPENING, ROLLED_BACK, FAILED_SAFE, SAFETY_UNKNOWN]"
| "ALLOWED OPENING = [CANDIDATE_OPEN, FAILED_SAFE, SAFETY_UNKNOWN]"
| "ALLOWED CANDIDATE_OPEN = [DRAINING, ROLLED_BACK, FAILED_SAFE, SAFETY_UNKNOWN]"
| "ALLOWED DRAINING = [CANDIDATE_OPEN, ROLLED_BACK, FAILED_SAFE, SAFETY_UNKNOWN]"
| "ALLOWED ROLLED_BACK = []"
| "ALLOWED FAILED_SAFE = []"
| "ALLOWED SAFETY_UNKNOWN = []"

section \<open>Access to store, adapter, clock and fault points\<close>

definition g_traffic :: "'a traffic_exec \<Rightarrow> 'a gate_exec" where
  "g_traffic m = zoom_x gs_traffic (\<lambda>t s. s\<lparr>gs_traffic := t\<rparr>) id m"

definition g_atomic :: "'a gate_exec \<Rightarrow> 'a gate_exec" where
  "g_atomic m = atomic_x gs_db (\<lambda>d s. s\<lparr>gs_db := d\<rparr>) m"

definition g_db :: "(gate_db \<Rightarrow> gate_db) \<Rightarrow> unit gate_exec" where
  "g_db f = modify_x (\<lambda>s. s\<lparr>gs_db := f (gs_db s)\<rparr>)"

definition g_clock :: "gate_env \<Rightarrow> int gate_exec" where
  "g_clock E = bind_x (gets_x gs_ticks) (\<lambda>n.
     then_x (modify_x (\<lambda>s. s\<lparr>gs_ticks := n + 1\<rparr>)) (return_x (ge_clock E n)))"

definition g_current :: "gate_sys \<Rightarrow> lease_grant" where
  "g_current s = (case gs_authority s of None \<Rightarrow> ta_authority (gs_traffic s) | Some g \<Rightarrow> g)"

definition g_route :: "route_state gate_exec" where
  "g_route = gets_x (\<lambda>s. ta_route (gs_traffic s))"

definition g_hit :: "string \<Rightarrow> unit gate_exec" where
  "g_hit point = bind_x (gets_x gs_faults) (\<lambda>faults.
     when_x (point \<in> faults)
       (then_x (modify_x (\<lambda>s. s\<lparr>gs_faults := faults - {point}\<rparr>)) (raise_x (InjectedCrash point))))"

definition g_row :: "gate_row gate_exec" where
  "g_row = bind_x (gets_x (\<lambda>s. gd_state (gs_db s))) (\<lambda>x. case x of
       None \<Rightarrow> raise_x (GateError ''gate is not initialized'')
     | Some row \<Rightarrow>
         then_x (guard_x (gr_schema_version row = gate_schema_version)
                  (GateError ''unknown gate schema version''))
         (return_x row))"

definition update_row :: "(gate_row \<Rightarrow> gate_row) \<Rightarrow> gate_db \<Rightarrow> gate_db" where
  "update_row f d = d\<lparr>gd_state := map_option f (gd_state d)\<rparr>"

definition next_seq :: "transition_row list \<Rightarrow> nat" where
  "next_seq rows = (if rows = [] then 1 else Suc (tr_seq (last rows)))"

definition next_event :: "event_row list \<Rightarrow> nat" where
  "next_event rows = (if rows = [] then 1 else Suc (ev_seq (last rows)))"

definition insert_transition ::
  "int \<Rightarrow> string \<Rightarrow> string \<Rightarrow> string \<Rightarrow> gate_state option \<Rightarrow> gate_state option \<Rightarrow> string option \<Rightarrow>
   int \<Rightarrow> json \<Rightarrow> gate_db \<Rightarrow> gate_db" where
  "insert_transition generation kind operation operation_id from_state to_state fence at_time detail d =
     d\<lparr>gd_transition := gd_transition d @
        [\<lparr>tr_seq = next_seq (gd_transition d), tr_generation = generation, tr_kind = kind,
          tr_operation = operation, tr_operation_id = operation_id, tr_from = from_state,
          tr_to = to_state, tr_fence = fence, tr_at = at_time, tr_detail = canon detail\<rparr>]\<rparr>"

definition correlation :: "string option \<Rightarrow> string \<Rightarrow> int \<Rightarrow> string" where
  "correlation operation_id operation generation =
     (case operation_id of
        Some (c # cs) \<Rightarrow> c # cs
      | _ \<Rightarrow> takeWhile (\<lambda>c. c \<noteq> CHR ''.'') operation @ '':'' @ show_int generation)"

definition g_append ::
  "gate_env \<Rightarrow> int \<Rightarrow> string \<Rightarrow> string \<Rightarrow> gate_state option \<Rightarrow> gate_state option \<Rightarrow> string option \<Rightarrow>
   json \<Rightarrow> string option \<Rightarrow> nat gate_exec" where
  "g_append E generation kind operation from_state to_state fence detail operation_id =
     bind_x (g_clock E) (\<lambda>now.
     bind_x (gets_x (\<lambda>s. next_seq (gd_transition (gs_db s)))) (\<lambda>seq.
     then_x (g_db (insert_transition generation kind operation
               (correlation operation_id operation generation) from_state to_state fence now detail))
     (return_x seq)))"

text \<open>
  The revision test of the UPDATE compares the revision read a moment ago in the same
  transaction, so it always finds the row.
\<close>

definition g_transition ::
  "gate_env \<Rightarrow> int \<Rightarrow> gate_state \<Rightarrow> string \<Rightarrow> string \<Rightarrow> json \<Rightarrow> string option \<Rightarrow> string option \<Rightarrow>
   nat gate_exec" where
  "g_transition E generation target operation kind detail fence operation_id =
     bind_x g_row (\<lambda>row.
     let current = gr_state row in
     then_x (guard_x (\<not> (target \<noteq> current \<and> target \<notin> set (ALLOWED current)))
              (GateError (''invalid gate transition '' @ gate_state_value current @ ''->''
                 @ gate_state_value target)))
     (bind_x (g_append E generation kind operation (Some current) (Some target) fence detail operation_id)
      (\<lambda>seq.
      bind_x (gets_x (\<lambda>s. gd_state (gs_db s))) (\<lambda>now.
      then_x (guard_x (map_option gr_revision now = Some (gr_revision row))
               (GateError ''gate revision CAS mismatch''))
      (then_x (g_db (update_row (\<lambda>r. r\<lparr>gr_state := target, gr_transition_seq := seq,
                 gr_revision := gr_revision r + 1\<rparr>)))
      (return_x seq))))))"

section \<open>Operations of the gate\<close>

text \<open>\<open>int(value)\<close>: a string is read as an optional sign and decimal digits between blanks;
  digit groups with underscores are not modelled.\<close>

definition digit_value :: "char \<Rightarrow> nat option" where
  "digit_value c = (let n = of_char c :: nat in if 48 \<le> n \<and> n \<le> 57 then Some (n - 48) else None)"

fun parse_digits :: "nat \<Rightarrow> string \<Rightarrow> nat option" where
  "parse_digits acc [] = Some acc"
| "parse_digits acc (c # cs) =
     (case digit_value c of None \<Rightarrow> None | Some d \<Rightarrow> parse_digits (10 * acc + d) cs)"

definition is_blank :: "char \<Rightarrow> bool" where
  "is_blank c \<longleftrightarrow> (let n = of_char c :: nat in (9 \<le> n \<and> n \<le> 13) \<or> (28 \<le> n \<and> n \<le> 32) \<or> n = 133 \<or> n = 160)"

definition strip :: "string \<Rightarrow> string" where
  "strip s = rev (dropWhile is_blank (rev (dropWhile is_blank s)))"

definition parse_int :: "string \<Rightarrow> int option" where
  "parse_int s = (case strip s of
       [] \<Rightarrow> None
     | c # cs \<Rightarrow>
         (if c = CHR ''-'' then (if cs = [] then None else map_option (\<lambda>n. - int n) (parse_digits 0 cs))
          else if c = CHR ''+'' then (if cs = [] then None else map_option int (parse_digits 0 cs))
          else map_option int (parse_digits 0 (c # cs))))"

definition py_int :: "json \<Rightarrow> gate_error + int" where
  "py_int v = (case v of
       JInt i \<Rightarrow> Inr i
     | JBool b \<Rightarrow> Inr (if b then 1 else 0)
     | JStr s \<Rightarrow> (case parse_int s of None \<Rightarrow> Inl (PyError ValueError) | Some i \<Rightarrow> Inr i)
     | _ \<Rightarrow> Inl (PyError TypeError))"

text \<open>\<open>value[key]\<close>\<close>

definition py_item :: "json \<Rightarrow> string \<Rightarrow> gate_error + json" where
  "py_item v k = (case v of
       JObj kvs \<Rightarrow> (case map_of kvs k of None \<Rightarrow> Inl (PyError KeyError) | Some x \<Rightarrow> Inr x)
     | _ \<Rightarrow> Inl (PyError TypeError))"

definition lift_res :: "'e + 'a \<Rightarrow> ('s, 'e, 'a) exec" where
  "lift_res r = (case r of Inl e \<Rightarrow> raise_x e | Inr x \<Rightarrow> return_x x)"

subsection \<open>fail-close\<close>

definition is_closed :: "route_state option \<Rightarrow> bool" where
  "is_closed actual = (case actual of None \<Rightarrow> False
     | Some r \<Rightarrow> rs_generation r = None \<and> rs_fence r = ''closed'')"

definition set_route_columns :: "route_state option \<Rightarrow> gate_db \<Rightarrow> gate_db" where
  "set_route_columns actual = update_row (\<lambda>r. case actual of
       None \<Rightarrow> r\<lparr>gr_route_generation := None, gr_route_fence := ''unknown''\<rparr>
     | Some a \<Rightarrow> r\<lparr>gr_route_generation := rs_generation a, gr_route_fence := rs_fence a\<rparr>)"

definition ok_or_none :: "'e + 'a \<Rightarrow> 'a option" where
  "ok_or_none r = (case r of Inl _ \<Rightarrow> None | Inr x \<Rightarrow> Some x)"

text \<open>
  Two errors in a row: the text of the first is kept in front of the second unless it is empty.
\<close>

definition chain_error :: "string \<Rightarrow> string option \<Rightarrow> gate_error + 'a \<Rightarrow> string option" where
  "chain_error sep err r = (case r of
       Inr _ \<Rightarrow> err
     | Inl exc \<Rightarrow> Some (case err of
           None \<Rightarrow> err_str exc
         | Some e \<Rightarrow> if e = [] then err_str exc else e @ sep @ err_str exc))"

definition err_of :: "gate_error + 'a \<Rightarrow> string option" where
  "err_of r = (case r of Inl exc \<Rightarrow> Some (err_str exc) | Inr _ \<Rightarrow> None)"

definition gate_fail_close :: "gate_env \<Rightarrow> int \<Rightarrow> string \<Rightarrow> fail_close_result gate_exec" where
  "gate_fail_close E generation reason =
     bind_x g_row (\<lambda>row.
     then_x (guard_x (gr_candidate_generation row = generation) (GateError ''stale generation fail-close''))
     (then_x (g_atomic (g_append E generation ''intent'' ''fail_close'' (Some (gr_state row)) None
                 (Some ''closed'') (JObj [(''reason'', JStr reason)]) None))
     (then_x (g_hit ''fail_close.before_effect'')
     (bind_x (try_x (g_traffic ta_close_all)) (\<lambda>r1.
      then_x (g_hit ''fail_close.after_effect'')
     (bind_x (try_x (g_traffic ta_query_route)) (\<lambda>r2.
      let error1 = err_of r1;
          actual = ok_or_none r2;
          error = chain_error ''; route query: '' error1 r2;
          closed = is_closed actual;
          classification = (if closed then RC_FAILED_SAFE else RC_SAFETY_UNKNOWN);
          target = (if closed then FAILED_SAFE else SAFETY_UNKNOWN) in
      then_x (g_atomic
        (then_x (g_transition E generation target ''fail_close'' ''receipt''
                   (JObj [(''classification'', JStr (rollback_class_value classification)),
                          (''actual_route'', opt_route_dict actual), (''error'', opt_string error)])
                   None None)
        (g_db (set_route_columns actual))))
      (return_x \<lparr>fc_classification = classification, fc_actual_route = actual, fc_error = error\<rparr>))))))))"

subsection \<open>stage\<close>

definition gate_stage :: "gate_env \<Rightarrow> json \<Rightarrow> json \<Rightarrow> int gate_exec" where
  "gate_stage E candidate predecessor =
     bind_x (lift_res (bind_res (py_item predecessor ''generation'') py_int)) (\<lambda>predecessor_generation.
     let candidate_generation = predecessor_generation + 1;
         candidate_digest = gate_digest (ge_hash E) candidate;
         predecessor_digest = gate_digest (ge_hash E) predecessor in
     bind_x (gets_x (\<lambda>s. gd_state (gs_db s))) (\<lambda>existing. case existing of
       Some row \<Rightarrow>
         (if gr_candidate_generation row = candidate_generation
             \<and> py_eq (gr_candidate_json row) candidate \<and> py_eq (gr_predecessor_json row) predecessor
             \<and> gr_route_fence row = fence_of predecessor_generation
          then return_x candidate_generation
          else raise_x (GateError ''another candidate is already staged''))
     | None \<Rightarrow>
         bind_x g_route (\<lambda>route.
         then_x (guard_x (\<not> (rs_generation route \<noteq> Some predecessor_generation
                     \<or> rs_fence route \<noteq> fence_of predecessor_generation
                     \<or> gate_json (rs_snapshot route) \<noteq> gate_json predecessor))
                  (GateError ''actual predecessor generation/fence/snapshot mismatch''))
         (then_x (g_atomic
           (bind_x (gets_x g_current) (\<lambda>lease.
            then_x (g_db (\<lambda>d. d\<lparr>gd_state := Some
               \<lparr>gr_state = PREDECESSOR_OPEN, gr_predecessor_generation = predecessor_generation,
                gr_candidate_generation = candidate_generation, gr_predecessor_json = canon predecessor,
                gr_candidate_json = canon candidate, gr_route_generation = rs_generation route,
                gr_route_fence = rs_fence route, gr_lease = lease, gr_transition_seq = 0,
                gr_revision = 0, gr_schema_version = gate_schema_version, gr_proof_digest = None,
                gr_candidate_digest = candidate_digest, gr_observed_candidate_digest = None,
                gr_predecessor_digest = predecessor_digest,
                gr_observed_predecessor_digest = Some predecessor_digest\<rparr>\<rparr>))
            (g_transition E candidate_generation CANDIDATE_STAGED ''stage'' ''receipt''
               (JObj [(''candidate'', candidate), (''candidate_digest'', JStr candidate_digest),
                      (''predecessor_digest'', JStr predecessor_digest)]) None None))))
         (return_x candidate_generation)))))"

subsection \<open>close\<close>

definition has_row :: "(transition_row \<Rightarrow> bool) \<Rightarrow> transition_row list \<Rightarrow> bool" where
  "has_row P rows = list_ex P rows"

definition op_pending :: "string \<Rightarrow> transition_row list \<Rightarrow> bool" where
  "op_pending operation_id rows \<longleftrightarrow>
     has_row (\<lambda>r. tr_operation_id r = operation_id \<and> tr_kind r = ''intent'') rows
     \<and> \<not> has_row (\<lambda>r. tr_operation_id r = operation_id \<and> tr_kind r = ''receipt'') rows"

text \<open>The part of \<open>close\<close> after the intent is on record.\<close>

definition close_effect :: "gate_env \<Rightarrow> int \<Rightarrow> gate_row \<Rightarrow> unit gate_exec" where
  "close_effect E generation row =
     (let operation_id = ''close:'' @ show_int generation in
      then_x (g_hit ''close.before_effect'')
      (then_x (g_traffic (ta_close generation))
      (then_x (g_hit ''close.after_effect'')
      (bind_x (g_traffic ta_query_route) (\<lambda>actual.
      then_x (g_hit ''close.after_query'')
      (let observed_digest = gate_digest (ge_hash E) (rs_snapshot actual) in
        if rs_generation actual \<noteq> Some (gr_predecessor_generation row)
           \<or> rs_fence actual \<noteq> gr_route_fence row \<or> observed_digest \<noteq> gr_predecessor_digest row
        then
          then_x (g_atomic (g_append E generation ''receipt'' ''close'' (Some (gr_state row)) None
                    (Some (rs_fence actual))
                    (JObj [(''cancelled'', JStr ''predecessor continuity mismatch''),
                           (''observed_predecessor_digest'', JStr observed_digest)])
                    (Some operation_id)))
          (then_x (gate_fail_close E generation ''predecessor continuity mismatch'')
          (raise_x (GateError ''close changed predecessor route identity'')))
        else
          g_atomic
            (then_x (g_transition E generation CANDIDATE_CLOSED ''close'' ''receipt''
                       (JObj [(''actual_route'', route_dict actual),
                              (''observed_predecessor_digest'', JStr observed_digest)])
                       None (Some operation_id))
            (g_db (update_row (\<lambda>r. r\<lparr>gr_observed_predecessor_digest := Some observed_digest\<rparr>))))))))))"

definition gate_close :: "gate_env \<Rightarrow> int \<Rightarrow> unit gate_exec" where
  "gate_close E generation =
     bind_x g_row (\<lambda>row.
     let state = gr_state row; operation_id = ''close:'' @ show_int generation in
     then_x (guard_x (gr_candidate_generation row = generation) (GateError ''stale generation close''))
     (if state = CANDIDATE_CLOSED then return_x ()
      else
       bind_x (gets_x (\<lambda>s. op_pending operation_id (gd_transition (gs_db s)))) (\<lambda>pending.
       if pending then close_effect E generation row
       else
         then_x (g_atomic (g_append E generation ''intent'' ''close'' (Some state) None None (JObj [])
                   (Some operation_id)))
         (close_effect E generation row))))"

subsection \<open>open\<close>

text \<open>\<open>_SHA256.fullmatch\<close>\<close>

definition is_sha256 :: "string \<Rightarrow> bool" where
  "is_sha256 s \<longleftrightarrow> take 7 s = ''sha256:'' \<and> length s = 71 \<and> list_all is_hex (drop 7 s)"

definition open_fence :: "int \<Rightarrow> open_proof \<Rightarrow> gate_row \<Rightarrow> string" where
  "open_fence generation pf row =
     ''gate-'' @ show_int generation @ ''-lease-'' @ show_int (lg_fencing_token (op_lease pf)) @ ''-''
       @ take 12 (drop 7 (op_candidate_digest pf)) @ ''-'' @ show_nat (gr_transition_seq row + 1)"

definition expected_plan :: "json \<Rightarrow> gate_error + json" where
  "expected_plan candidate = (case candidate of JStr s \<Rightarrow> Inr (JStr s) | _ \<Rightarrow> py_item candidate ''plan_id'')"

text \<open>\<open>traffic.lease_valid(lease, clock())\<close>, reached only when the leases agree.\<close>

definition g_lease_ok :: "gate_env \<Rightarrow> lease_grant \<Rightarrow> lease_grant \<Rightarrow> bool gate_exec" where
  "g_lease_ok E lease staged =
     (if lease \<noteq> staged then return_x False
      else bind_x (g_clock E) (\<lambda>now. gets_x (\<lambda>s. ta_lease_valid lease now (gs_traffic s))))"

text \<open>The checks before anything is written, and the side-effecting part after them.\<close>

definition open_checks :: "gate_env \<Rightarrow> int \<Rightarrow> open_proof \<Rightarrow> gate_row \<Rightarrow> unit gate_exec" where
  "open_checks E generation pf row =
     then_x (guard_x (\<not> (op_generation pf \<noteq> generation \<or> gr_candidate_generation row \<noteq> generation))
              (GateError ''stale generation open''))
     (bind_x (lift_res (expected_plan (gr_candidate_json row))) (\<lambda>expected.
      then_x (guard_x (py_eq (JStr (op_plan_id pf)) expected) (GateError ''open proof plan mismatch''))
      (then_x (guard_x (op_candidate_digest pf = gr_candidate_digest row)
                 (GateError ''open proof candidate snapshot mismatch''))
      (then_x (guard_x (\<not> (op_evidence_count pf < 1 \<or> \<not> is_sha256 (op_evidence_digest pf)
                    \<or> \<not> is_sha256 (op_coverage_digest pf)))
                 (GateError ''open proof has no durable evidence coverage''))
      (bind_x (g_lease_ok E (op_lease pf) (gr_lease row)) (\<lambda>ok.
       guard_x ok (GateError ''lease lost'')))))))"

text \<open>The part of \<open>open\<close> after the intent is on record.\<close>

definition open_expose :: "gate_env \<Rightarrow> int \<Rightarrow> open_proof \<Rightarrow> gate_row \<Rightarrow> string gate_exec" where
  "open_expose E generation pf row =
     (let fence = open_fence generation pf row in
      then_x (g_hit ''open.after_intent'')
      (bind_x (g_clock E) (\<lambda>now.
       then_x (g_traffic (ta_open generation fence (gr_candidate_json row) (op_lease pf) now))
      (then_x (g_hit ''open.after_side_effect'')
      (bind_x (g_traffic ta_query_route) (\<lambda>actual.
       then_x (g_hit ''open.after_query'')
       (let actual_digest = gate_digest (ge_hash E) (rs_snapshot actual) in
        if rs_generation actual \<noteq> Some generation \<or> rs_fence actual \<noteq> fence
           \<or> actual_digest \<noteq> op_candidate_digest pf
        then
          then_x (g_atomic (g_append E generation ''receipt'' ''open'' (Some OPENING) None (Some fence)
                    (JObj [(''cancelled'', JStr ''actual candidate route mismatch'')])
                    (Some (''open:'' @ show_int generation))))
          (then_x (gate_fail_close E generation ''actual candidate route mismatch'')
          (raise_x (GateError ''actual candidate route mismatch'')))
        else
          then_x (g_atomic
            (bind_x (g_transition E generation CANDIDATE_OPEN ''open'' ''receipt''
                       (JObj [(''actual_route'', JInt generation),
                              (''lease_fencing_token'', JInt (lg_fencing_token (op_lease pf))),
                              (''proof_digest'', JStr (proof_digest (ge_hash E) pf)),
                              (''observed_candidate_digest'', JStr actual_digest)])
                       (Some fence) None) (\<lambda>seq.
             g_db (update_row (\<lambda>r. r\<lparr>gr_route_generation := Some generation, gr_route_fence := fence,
                     gr_transition_seq := seq, gr_observed_candidate_digest := Some actual_digest\<rparr>)))))
          (return_x fence))))))))"

definition open_effect :: "gate_env \<Rightarrow> int \<Rightarrow> open_proof \<Rightarrow> gate_row \<Rightarrow> string gate_exec" where
  "open_effect E generation pf row =
     (let pdigest = proof_digest (ge_hash E) pf in
      then_x (g_hit ''open.before_intent'')
      (then_x (g_atomic
         (then_x (g_transition E generation OPENING ''open'' ''intent''
                    (JObj (proof_fields pf @ [(''proof_digest'', JStr pdigest)]))
                    (Some (open_fence generation pf row)) None)
         (g_db (update_row (\<lambda>r. r\<lparr>gr_proof_digest := Some pdigest\<rparr>)))))
      (open_expose E generation pf row)))"

definition gate_open :: "gate_env \<Rightarrow> int \<Rightarrow> open_proof \<Rightarrow> string gate_exec" where
  "gate_open E generation pf =
     bind_x g_row (\<lambda>row.
     then_x (open_checks E generation pf row)
     (if gr_state row = CANDIDATE_OPEN
      then then_x (guard_x (gr_proof_digest row = Some (proof_digest (ge_hash E) pf))
                     (GateError ''idempotent open proof mismatch''))
           (return_x (gr_route_fence row))
      else if gr_state row = OPENING then raise_x (GateError ''opening outcome requires reconcile'')
      else open_effect E generation pf row))"

subsection \<open>drain\<close>

definition unfinished_of :: "int \<Rightarrow> admission_row list \<Rightarrow> nat" where
  "unfinished_of generation rows =
     length (filter (\<lambda>a. ad_chosen_generation a = generation \<and> ad_finished_at a = None) rows)"

text \<open>The part of \<open>drain\<close> in state DRAINING.\<close>

definition drain_settle :: "gate_env \<Rightarrow> int \<Rightarrow> gate_row \<Rightarrow> bool gate_exec" where
  "drain_settle E generation row =
     bind_x (gets_x (\<lambda>s. unfinished_of (gr_predecessor_generation row) (gd_admission (gs_db s))))
      (\<lambda>unfinished.
      if unfinished \<noteq> 0 then return_x False
      else then_x (g_atomic (g_transition E generation CANDIDATE_OPEN ''drain'' ''receipt''
                      (JObj [(''unfinished_predecessor'', JInt 0)]) None None))
           (return_x True))"

definition gate_drain :: "gate_env \<Rightarrow> int \<Rightarrow> bool gate_exec" where
  "gate_drain E generation =
     bind_x g_row (\<lambda>row.
     then_x (guard_x (gr_candidate_generation row = generation) (GateError ''stale generation drain''))
     (if gr_state row = DRAINING then drain_settle E generation row
      else then_x (g_atomic (g_transition E generation DRAINING ''drain'' ''intent'' (JObj []) None None))
           (drain_settle E generation row)))"

subsection \<open>observe\<close>

definition find_admission :: "string \<Rightarrow> admission_row list \<Rightarrow> admission_row option" where
  "find_admission request_id rows = find (\<lambda>a. ad_request_id a = request_id) rows"

definition predecessor_mismatch :: "gate_env \<Rightarrow> gate_row \<Rightarrow> route_state \<Rightarrow> bool" where
  "predecessor_mismatch E row actual \<longleftrightarrow>
     gr_state row \<in> {PREDECESSOR_OPEN, CANDIDATE_STAGED, CANDIDATE_CLOSED}
     \<and> (rs_generation actual \<noteq> Some (gr_predecessor_generation row)
        \<or> rs_fence actual \<noteq> fence_of (gr_predecessor_generation row)
        \<or> gate_digest (ge_hash E) (rs_snapshot actual) \<noteq> gr_predecessor_digest row)"

definition insert_admission :: "admission_request \<Rightarrow> int \<Rightarrow> string \<Rightarrow> nat \<Rightarrow> gate_db \<Rightarrow> gate_db" where
  "insert_admission request generation fence seq d =
     d\<lparr>gd_admission := gd_admission d @
         [\<lparr>ad_request_id = aq_request_id request, ad_route_epoch = fence,
           ad_chosen_generation = generation, ad_admitted_at = aq_admitted_at request,
           ad_finished_at = None, ad_result = None, ad_abort = None, ad_transition_seq = seq\<rparr>],
       gd_event := gd_event d @
         [\<lparr>ev_seq = next_event (gd_event d), ev_request_id = aq_request_id request, ev_kind = ''admit'',
           ev_chosen_generation = generation, ev_route_epoch = fence, ev_at = aq_admitted_at request,
           ev_transition_seq = seq, ev_detail = JObj []\<rparr>]\<rparr>"

text \<open>The admission of a request that has no row yet: the row it gets.\<close>

definition observe_new :: "gate_env \<Rightarrow> admission_request \<Rightarrow> admission_row gate_exec" where
  "observe_new E request =
     bind_x g_row (\<lambda>row.
     then_x (guard_x (gr_state row \<notin> {OPENING, ROLLED_BACK, FAILED_SAFE, SAFETY_UNKNOWN})
              (GateError (''admission blocked in '' @ gate_state_value (gr_state row))))
     (bind_x g_route (\<lambda>actual. case rs_generation actual of
        None \<Rightarrow> raise_x (GateError ''traffic is failed safe'')
      | Some generation \<Rightarrow>
         then_x (guard_x (rs_fence actual \<noteq> ''closed'') (GateError ''traffic is failed safe''))
         (then_x (when_x (predecessor_mismatch E row actual)
                   (then_x (gate_fail_close E (gr_candidate_generation row)
                              ''pre-open predecessor continuity mismatch'')
                   (raise_x (GateError ''predecessor route identity changed''))))
         (then_x (guard_x (\<not> (gr_route_generation row \<noteq> Some generation
                     \<or> rs_fence actual \<noteq> gr_route_fence row
                     \<or> (generation = gr_candidate_generation row
                        \<and> Some (gate_digest (ge_hash E) (rs_snapshot actual))
                          \<noteq> gr_observed_candidate_digest row)))
                  (GateError ''unknown route state''))
         (then_x (g_atomic (g_db (insert_admission request generation (rs_fence actual)
                                    (gr_transition_seq row))))
         (bind_x (gets_x (\<lambda>s. find_admission (aq_request_id request) (gd_admission (gs_db s))))
          (\<lambda>found. case found of None \<Rightarrow> raise_x (PyError TypeError) | Some a \<Rightarrow> return_x a))))))))"

definition finish_row :: "string \<Rightarrow> admission_result \<Rightarrow> admission_row \<Rightarrow> admission_row" where
  "finish_row request_id result a =
     (if ad_request_id a = request_id \<and> ad_finished_at a = None
      then a\<lparr>ad_finished_at := Some (ar_finished_at result), ad_result := ar_result result,
             ad_abort := ar_abort result\<rparr>
      else a)"

definition finish_admission ::
  "string \<Rightarrow> admission_result \<Rightarrow> admission_row \<Rightarrow> gate_db \<Rightarrow> gate_db" where
  "finish_admission request_id result existing d =
     d\<lparr>gd_admission := map (finish_row request_id result) (gd_admission d),
       gd_event := gd_event d @
         [\<lparr>ev_seq = next_event (gd_event d), ev_request_id = request_id, ev_kind = ''finish'',
           ev_chosen_generation = ad_chosen_generation existing,
           ev_route_epoch = ad_route_epoch existing, ev_at = ar_finished_at result,
           ev_transition_seq = ad_transition_seq existing,
           ev_detail = canon (JObj [(''result'', opt_string (ar_result result)),
                                    (''abort'', opt_string (ar_abort result))])\<rparr>]\<rparr>"

definition observe_finish :: "string \<Rightarrow> admission_row \<Rightarrow> admission_result \<Rightarrow> unit gate_exec" where
  "observe_finish request_id existing result =
     then_x (guard_x ((ar_result result = None) \<noteq> (ar_abort result = None))
              (GateError ''finish requires exactly one of result or abort''))
     (then_x (guard_x (ar_finished_at result \<ge> ad_admitted_at existing)
                (GateError ''finish precedes admission''))
     (then_x (guard_x (ad_finished_at existing = None) (GateError ''request finish is immutable''))
     (g_atomic
       (bind_x (gets_x (\<lambda>s. length (filter (\<lambda>a. ad_request_id a = request_id \<and> ad_finished_at a = None)
                               (gd_admission (gs_db s))))) (\<lambda>changed.
        then_x (guard_x (changed = 1) (GateError ''concurrent request finish''))
        (g_db (finish_admission request_id result existing)))))))"

definition gate_observe ::
  "gate_env \<Rightarrow> admission_request \<Rightarrow> admission_result option \<Rightarrow> int gate_exec" where
  "gate_observe E request result =
     bind_x (gets_x (\<lambda>s. find_admission (aq_request_id request) (gd_admission (gs_db s)))) (\<lambda>found.
     bind_x (case found of None \<Rightarrow> observe_new E request | Some a \<Rightarrow> return_x a) (\<lambda>existing.
     then_x (case result of None \<Rightarrow> return_x ()
                | Some r \<Rightarrow> observe_finish (aq_request_id request) existing r)
     (return_x (ad_chosen_generation existing))))"

subsection \<open>rollback\<close>

text \<open>\<open>with suppress(Exception): traffic.close_all()\<close>, then the route as it is.\<close>

definition close_all_suppressed :: "route_state gate_exec" where
  "close_all_suppressed = then_x (try_x (g_traffic ta_close_all)) g_route"

definition closed_outcome :: "route_state \<Rightarrow> rollback_class" where
  "closed_outcome actual = (if is_closed (Some actual) then RC_FAILED_SAFE else RC_SAFETY_UNKNOWN)"

definition oracle_accepts :: "behavioral_oracle_result option \<Rightarrow> bool" where
  "oracle_accepts x = (case x of None \<Rightarrow> False
     | Some b \<Rightarrow> bo_equivalent b \<and> take 7 (bo_observations_digest b) = ''sha256:'' \<and> bo_oracle b \<noteq> [])"

fun rollback_target :: "rollback_class \<Rightarrow> gate_state" where
  "rollback_target RC_RESTORED_STRONG = ROLLED_BACK"
| "rollback_target RC_BEHAVIORAL = ROLLED_BACK"
| "rollback_target RC_FAILED_SAFE = FAILED_SAFE"
| "rollback_target RC_SAFETY_UNKNOWN = SAFETY_UNKNOWN"

text \<open>The restore attempt and its classification.\<close>

definition rollback_effect ::
  "gate_row \<Rightarrow> behavioral_oracle_result option \<Rightarrow> rollback_class gate_exec" where
  "rollback_effect row oracle =
     (let predecessor = gr_predecessor_json row;
          predecessor_generation = gr_predecessor_generation row;
          predecessor_fence = fence_of predecessor_generation in
      bind_x (try_x (g_traffic (ta_restore predecessor_generation predecessor_fence predecessor))) (\<lambda>r.
      case r of
        Inl _ \<Rightarrow> bind_x close_all_suppressed (\<lambda>actual. return_x (closed_outcome actual))
      | Inr actual \<Rightarrow>
          (if rs_generation actual = Some predecessor_generation
              \<and> py_eq (rs_snapshot actual) predecessor \<and> rs_fence actual = predecessor_fence
           then return_x RC_RESTORED_STRONG
           else bind_x (gets_x (\<lambda>s. ta_behavioral_restore (gs_traffic s))) (\<lambda>behavioral.
             if oracle_accepts oracle \<and> behavioral then return_x RC_BEHAVIORAL
             else bind_x close_all_suppressed (\<lambda>actual. return_x (closed_outcome actual))))))"

definition gate_rollback ::
  "gate_env \<Rightarrow> int \<Rightarrow> behavioral_oracle_result option \<Rightarrow> rollback_class gate_exec" where
  "gate_rollback E generation oracle =
     bind_x g_row (\<lambda>row.
     then_x (guard_x (gr_candidate_generation row = generation) (GateError ''stale generation rollback''))
     (then_x (g_atomic (g_append E generation ''intent'' ''rollback'' (Some (gr_state row)) None
                (Some (fence_of (gr_predecessor_generation row)))
                (JObj [(''behavioral_oracle'', oracle_dict oracle)]) None))
     (then_x (g_hit ''rollback.after_intent'')
     (bind_x (rollback_effect row oracle) (\<lambda>outcome.
      then_x (g_hit ''rollback.after_effect'')
      (then_x (g_atomic
         (bind_x g_route (\<lambda>route.
          then_x (g_transition E generation (rollback_target outcome) ''rollback'' ''receipt''
                    (JObj [(''classification'', JStr (rollback_class_value outcome)),
                           (''behavioral_oracle'', oracle_dict oracle),
                           (''actual_route'', route_dict route)]) None None)
          (g_db (set_route_columns (Some route))))))
      (return_x outcome)))))))"

subsection \<open>reconcile\<close>

text \<open>\<open>ORDER BY seq DESC LIMIT 1\<close> of the rows of an operation and a kind.\<close>

definition last_row :: "(transition_row \<Rightarrow> bool) \<Rightarrow> transition_row list \<Rightarrow> transition_row option" where
  "last_row P rows = find P (rev rows)"

definition op_kind :: "string \<Rightarrow> string \<Rightarrow> transition_row \<Rightarrow> bool" where
  "op_kind operation kind r \<longleftrightarrow> tr_operation r = operation \<and> tr_kind r = kind"

text \<open>The last intent of an operation that no receipt of the operation follows.\<close>

definition open_intent_of :: "string \<Rightarrow> transition_row list \<Rightarrow> transition_row option" where
  "open_intent_of operation rows =
     (case last_row (op_kind operation ''intent'') rows of
        None \<Rightarrow> None
      | Some i \<Rightarrow> (case last_row (op_kind operation ''receipt'') rows of
            None \<Rightarrow> Some i
          | Some r \<Rightarrow> if tr_seq r < tr_seq i then Some i else None))"

definition recovery_close_intent :: "transition_row list \<Rightarrow> transition_row option" where
  "recovery_close_intent rows =
     last_row (\<lambda>r. op_kind ''open.reconcile.close_all'' ''intent'' r
        \<and> \<not> has_row (\<lambda>q. tr_operation_id q = tr_operation_id r \<and> tr_kind q = ''receipt'') rows) rows"

definition item_str :: "json \<Rightarrow> string \<Rightarrow> gate_error + string" where
  "item_str v k = bind_res (py_item v k)
     (\<lambda>x. case x of JStr s \<Rightarrow> Inr s | _ \<Rightarrow> Inl (PyError TypeError))"

definition item_int :: "json \<Rightarrow> string \<Rightarrow> gate_error + int" where
  "item_int v k = bind_res (py_item v k)
     (\<lambda>x. case x of JInt i \<Rightarrow> Inr i | _ \<Rightarrow> Inl (PyError TypeError))"

text \<open>\<open>LeaseGrant(**value)\<close>\<close>

definition lease_of_dict :: "json \<Rightarrow> gate_error + lease_grant" where
  "lease_of_dict v =
     (if (case v of JObj kvs \<Rightarrow> set (map fst kvs) = {''holder'', ''fencing_token'', ''expires_at''} | _ \<Rightarrow> False)
      then bind_res (item_str v ''holder'') (\<lambda>holder.
           bind_res (item_int v ''fencing_token'') (\<lambda>token.
           bind_res (item_int v ''expires_at'') (\<lambda>expires.
           Inr \<lparr>lg_holder = holder, lg_fencing_token = token, lg_expires_at = expires\<rparr>)))
      else Inl (PyError TypeError))"

definition proof_of_detail :: "json \<Rightarrow> gate_error + open_proof" where
  "proof_of_detail detail =
     bind_res (item_str detail ''plan_id'') (\<lambda>plan.
     bind_res (item_int detail ''generation'') (\<lambda>generation.
     bind_res (item_int detail ''evidence_count'') (\<lambda>count.
     bind_res (item_str detail ''evidence_digest'') (\<lambda>evidence.
     bind_res (item_str detail ''coverage_digest'') (\<lambda>coverage.
     bind_res (bind_res (py_item detail ''lease'') lease_of_dict) (\<lambda>lease.
     bind_res (item_str detail ''candidate_digest'') (\<lambda>candidate.
     Inr \<lparr>op_plan_id = plan, op_generation = generation, op_evidence_count = count,
          op_evidence_digest = evidence, op_coverage_digest = coverage, op_lease = lease,
          op_candidate_digest = candidate\<rparr>)))))))"

definition close_target :: "route_state option \<Rightarrow> gate_state" where
  "close_target actual = (if is_closed actual then FAILED_SAFE else SAFETY_UNKNOWN)"

definition reconcile_fail_close :: "gate_env \<Rightarrow> gate_row \<Rightarrow> transition_row \<Rightarrow> gate_state gate_exec" where
  "reconcile_fail_close E row intent =
     bind_x (try_x (g_traffic ta_query_route)) (\<lambda>r.
     let actual = ok_or_none r; target = close_target actual;
         classification = (if is_closed actual then RC_FAILED_SAFE else RC_SAFETY_UNKNOWN) in
     then_x (g_atomic
       (then_x (g_transition E (gr_candidate_generation row) target ''fail_close'' ''receipt''
                  (JObj [(''classification'', JStr (rollback_class_value classification)),
                         (''reconciled'', JBool True), (''actual_route'', opt_route_dict actual),
                         (''error'', opt_string (err_of r))])
                  None (Some (tr_operation_id intent)))
       (g_db (set_route_columns actual))))
     (return_x target))"

definition reconcile_recovery_close :: "gate_env \<Rightarrow> gate_row \<Rightarrow> transition_row \<Rightarrow> gate_state gate_exec" where
  "reconcile_recovery_close E row intent =
     (let generation = gr_candidate_generation row in
      then_x (g_hit ''open_recovery_close.before_effect'')
      (then_x (try_x (g_traffic ta_close_all))
      (then_x (g_hit ''open_recovery_close.after_effect'')
      (bind_x (try_x (g_traffic ta_query_route)) (\<lambda>r.
       then_x (g_hit ''open_recovery_close.after_query'')
       (bind_x (gets_x (\<lambda>s. last_row (op_kind ''open'' ''intent'') (gd_transition (gs_db s)))) (\<lambda>open_intent.
        let actual = ok_or_none r; target = close_target actual in
        then_x (g_atomic
          (then_x (g_append E generation ''receipt'' ''open.reconcile.close_all'' (Some OPENING) None
                     (Some ''closed'') (JObj [(''actual_route'', opt_route_dict actual)])
                     (Some (tr_operation_id intent)))
          (case open_intent of
             None \<Rightarrow> raise_x (PyError TypeError)
           | Some oi \<Rightarrow>
               g_transition E generation target ''open'' ''receipt''
                 (JObj [(''cancelled'', JStr ''recovery close''), (''closed'', JBool (is_closed actual))])
                 None (Some (tr_operation_id oi)))))
        (return_x target))))))))"

definition reconcile_rollback :: "gate_env \<Rightarrow> gate_row \<Rightarrow> transition_row \<Rightarrow> gate_state gate_exec" where
  "reconcile_rollback E row intent =
     bind_x (try_x (g_traffic ta_query_route)) (\<lambda>r.
     let actual = ok_or_none r;
         restored = (case actual of None \<Rightarrow> False | Some a \<Rightarrow>
            rs_generation a = Some (gr_predecessor_generation row)
            \<and> rs_fence a = fence_of (gr_predecessor_generation row)
            \<and> gate_json (rs_snapshot a) = gate_json (gr_predecessor_json row));
         classification = (if restored then RC_RESTORED_STRONG
            else if is_closed actual then RC_FAILED_SAFE else RC_SAFETY_UNKNOWN);
         target = rollback_target classification in
     then_x (g_atomic (g_transition E (gr_candidate_generation row) target ''rollback'' ''receipt''
               (JObj [(''classification'', JStr (rollback_class_value classification)),
                      (''reconciled'', JBool True), (''actual_route'', opt_route_dict actual)])
               None (Some (tr_operation_id intent))))
     (return_x target))"

definition outcome_state :: "fail_close_result \<Rightarrow> gate_state" where
  "outcome_state outcome = (if fc_classification outcome = RC_FAILED_SAFE then FAILED_SAFE else SAFETY_UNKNOWN)"

text \<open>A pending open that is given up: the open is cancelled in the journal and traffic closed.\<close>

definition cancel_open :: "gate_env \<Rightarrow> int \<Rightarrow> transition_row \<Rightarrow> string \<Rightarrow> gate_state gate_exec" where
  "cancel_open E generation intent reason =
     then_x (g_atomic (g_append E generation ''receipt'' ''open'' (Some OPENING) None (tr_fence intent)
               (JObj [(''cancelled'', JStr reason)]) (Some (tr_operation_id intent))))
     (bind_x (gate_fail_close E generation reason) (\<lambda>outcome. return_x (outcome_state outcome)))"

definition confirm_open ::
  "gate_env \<Rightarrow> int \<Rightarrow> transition_row \<Rightarrow> route_state \<Rightarrow> string \<Rightarrow> gate_state gate_exec" where
  "confirm_open E generation intent actual actual_digest =
     then_x (g_atomic
       (bind_x (g_transition E generation CANDIDATE_OPEN ''open.reconcile'' ''receipt''
                  (JObj [(''queried_actual_route'', JInt generation),
                         (''observed_candidate_digest'', JStr actual_digest)])
                  (Some (rs_fence actual)) (Some (tr_operation_id intent))) (\<lambda>seq.
        g_db (update_row (\<lambda>r. r\<lparr>gr_route_generation := Some generation, gr_route_fence := rs_fence actual,
                gr_transition_seq := seq, gr_observed_candidate_digest := Some actual_digest\<rparr>)))))
     (return_x CANDIDATE_OPEN)"

definition recovery_close ::
  "gate_env \<Rightarrow> int \<Rightarrow> transition_row \<Rightarrow> route_state \<Rightarrow> gate_state gate_exec" where
  "recovery_close E generation intent actual =
     (let operation_id = ''open-reconcile-close:'' @ show_int generation in
      then_x (g_atomic (g_append E generation ''intent'' ''open.reconcile.close_all'' (Some OPENING) None
                (Some ''closed'') (JObj [(''queried_actual_generation'', opt_int (rs_generation actual))])
                (Some operation_id)))
      (then_x (g_hit ''open_recovery_close.before_effect'')
      (bind_x (try_x (g_traffic ta_close_all)) (\<lambda>r1.
       then_x (g_hit ''open_recovery_close.after_effect'')
      (bind_x (try_x (g_traffic ta_query_route)) (\<lambda>r2.
       then_x (g_hit ''open_recovery_close.after_query'')
       (let close_error = chain_error ''; '' (err_of r1) r2 in
        then_x (g_atomic (g_append E generation ''receipt'' ''open.reconcile.close_all'' (Some OPENING) None
                  (Some ''closed'')
                  (JObj [(''actual_generation'', opt_int (rs_generation actual)),
                         (''actual_route'', opt_route_dict (ok_or_none r2)),
                         (''error'', opt_string close_error)]) (Some operation_id)))
        (if close_error \<noteq> None then cancel_open E generation intent ''open recovery close failed''
         else
          then_x (g_atomic
            (then_x (g_transition E generation FAILED_SAFE ''open'' ''receipt''
                       (JObj [(''actual_generation'', opt_int (rs_generation actual)),
                              (''action'', JStr ''close_all'')])
                       None (Some (tr_operation_id intent)))
            (g_db (update_row (\<lambda>r. r\<lparr>gr_route_generation := None, gr_route_fence := ''closed''\<rparr>)))))
          (return_x FAILED_SAFE)))))))))"

definition reconcile_opening :: "gate_env \<Rightarrow> gate_row \<Rightarrow> gate_state gate_exec" where
  "reconcile_opening E row =
     (let generation = gr_candidate_generation row in
      bind_x (gets_x (\<lambda>s. last_row (op_kind ''open'' ''intent'') (gd_transition (gs_db s)))) (\<lambda>found.
      case found of
        None \<Rightarrow> raise_x (PyError TypeError)
      | Some intent \<Rightarrow>
         bind_x (lift_res (proof_of_detail (tr_detail intent))) (\<lambda>pf.
         bind_x (lift_res (item_str (tr_detail intent) ''proof_digest'')) (\<lambda>recorded.
         bind_x (if proof_digest (ge_hash E) pf \<noteq> recorded then return_x False
                 else g_lease_ok E (op_lease pf) (gr_lease row)) (\<lambda>fresh.
         if \<not> fresh then cancel_open E generation intent ''persisted open lease is stale''
         else
          bind_x (try_x (g_traffic ta_query_route)) (\<lambda>r. case r of
            Inl _ \<Rightarrow> cancel_open E generation intent ''open recovery route query failed''
          | Inr actual \<Rightarrow>
             (let actual_digest = gate_digest (ge_hash E) (rs_snapshot actual) in
              if rs_generation actual = Some generation \<and> Some (rs_fence actual) = tr_fence intent
                 \<and> actual_digest = op_candidate_digest pf
              then confirm_open E generation intent actual actual_digest
              else recovery_close E generation intent actual)))))))"

definition gate_reconcile :: "gate_env \<Rightarrow> gate_state gate_exec" where
  "gate_reconcile E =
     bind_x g_row (\<lambda>row.
     bind_x (gets_x (\<lambda>s. gd_transition (gs_db s))) (\<lambda>rows.
     case open_intent_of ''fail_close'' rows of
       Some intent \<Rightarrow> reconcile_fail_close E row intent
     | None \<Rightarrow>
        (case recovery_close_intent rows of
           Some intent \<Rightarrow> reconcile_recovery_close E row intent
         | None \<Rightarrow>
            (case open_intent_of ''rollback'' rows of
               Some intent \<Rightarrow> reconcile_rollback E row intent
             | None \<Rightarrow>
                (if gr_state row \<noteq> OPENING then return_x (gr_state row)
                 else reconcile_opening E row)))))"

end
