(* ===== verification/Durable_Coordinator.thy ===== *)
theory Durable_Coordinator
  imports Ecpa_Model Exposure_Gate
begin

text \<open>
  The durable activation coordinator (durable\_coordinator.py). Its SQLite tables are lists of rows
  in \<open>co_db\<close>; the host, the evidence verifier, a plain traffic gate and the external service are the
  record \<open>adapters\<close> of operations on a world of any type, with the deterministic fakes of the
  source as one instance; when the traffic component is a \<open>ReferenceExposureGate\<close>, the coordinator
  holds a \<open>gate_sys\<close>. The digest function and the clock readings are in the environment. Of a
  ContractError the code is kept, of any other exception its text.
\<close>

section \<open>Environment, adapters and errors\<close>

datatype co_error =
    ContractErr error_code
  | GateErr gate_error
  | OtherErr string
  | IntegrityErr
  | AssertErr
  | PyErr py_exception

fun co_str :: "co_error \<Rightarrow> string" where
  "co_str (OtherErr msg) = msg"
| "co_str (GateErr e) = err_str e"
| "co_str _ = []"

record 'w adapters =
  host_prepare :: "plan \<Rightarrow> ('w, co_error, json) exec"
  host_launch :: "plan \<Rightarrow> string \<Rightarrow> ('w, co_error, process_identity list) exec"
  host_rollback :: "predecessor_snapshot \<Rightarrow> ('w, co_error, json) exec"
  verifier_verify :: "attestation \<Rightarrow> int \<Rightarrow> plan \<Rightarrow> ('w, co_error, unit) exec"
  traffic_hold :: "predecessor_snapshot \<Rightarrow> ('w, co_error, unit) exec"
  traffic_activate :: "plan \<Rightarrow> ('w, co_error, unit) exec"
  traffic_restore :: "predecessor_snapshot \<Rightarrow> ('w, co_error, unit) exec"
  external_lease_valid :: "plan \<Rightarrow> ('w, co_error, bool) exec"

text \<open>\<open>ce_signed\<close>: the verifier is a \<open>SignedAttestationVerifier\<close>.\<close>

record co_env =
  ce_hash :: "string \<Rightarrow> string"
  ce_clock :: "nat \<Rightarrow> int"
  ce_gate :: gate_env
  ce_signed :: bool

text \<open>\<open>Resolved\<close> has no entry in the source's table; a lookup there is a KeyError.\<close>

fun TRANSITIONS :: "ecpa_state \<Rightarrow> ecpa_state list" where
  "TRANSITIONS St_INTENT = [St_PLANNED]"
| "TRANSITIONS St_PLANNED = [St_PREPARING]"
| "TRANSITIONS St_PREPARING = [St_PREPARED, St_RECONCILE]"
| "TRANSITIONS St_PREPARED = [St_LAUNCHING, St_ROLLBACK]"
| "TRANSITIONS St_LAUNCHING = [St_OBSERVING, St_RECONCILE]"
| "TRANSITIONS St_OBSERVING = [St_COMMIT_READY, St_DEGRADED, St_RECONCILE, St_ROLLBACK]"
| "TRANSITIONS St_COMMIT_READY = [St_EFFECTIVE, St_RECONCILE, St_FAILED_SAFE]"
| "TRANSITIONS St_EFFECTIVE = [St_DEGRADED, St_ROLLBACK]"
| "TRANSITIONS St_DEGRADED = [St_RECONCILE, St_ROLLBACK]"
| "TRANSITIONS St_RECONCILE = [St_OBSERVING, St_ROLLBACK, St_FAILED_SAFE]"
| "TRANSITIONS St_ROLLBACK = [St_ROLLED_BACK, St_FAILED_SAFE, St_SAFETY_UNKNOWN]"
| "TRANSITIONS St_ROLLED_BACK = []"
| "TRANSITIONS St_FAILED_SAFE = []"
| "TRANSITIONS St_SAFETY_UNKNOWN = []"
| "TRANSITIONS St_RESOLVED = []"

fun state_value :: "ecpa_state \<Rightarrow> string" where
  "state_value St_INTENT = ''Intent''"
| "state_value St_RESOLVED = ''Resolved''"
| "state_value St_PLANNED = ''Planned''"
| "state_value St_PREPARING = ''Preparing''"
| "state_value St_PREPARED = ''Prepared''"
| "state_value St_LAUNCHING = ''Launching''"
| "state_value St_OBSERVING = ''Observing''"
| "state_value St_COMMIT_READY = ''CommitReady''"
| "state_value St_EFFECTIVE = ''Effective''"
| "state_value St_DEGRADED = ''Degraded''"
| "state_value St_RECONCILE = ''Reconcile''"
| "state_value St_ROLLBACK = ''Rollback''"
| "state_value St_ROLLED_BACK = ''RolledBack''"
| "state_value St_FAILED_SAFE = ''FailedSafe''"
| "state_value St_SAFETY_UNKNOWN = ''SafetyUnknown''"

section \<open>Reading a plan back from its JSON\<close>

text \<open>
  The dataclasses take the parsed values as they are; the model is typed and raises TypeError on a
  value of another type, which the coordinator never stores.
\<close>

definition str_field :: "json \<Rightarrow> string \<Rightarrow> co_error + string" where
  "str_field v k = (case jget k v of
       Some (JStr s) \<Rightarrow> Inr s | Some _ \<Rightarrow> Inl (PyErr TypeError) | None \<Rightarrow> Inl (PyErr KeyError))"

definition int_field :: "json \<Rightarrow> string \<Rightarrow> co_error + int" where
  "int_field v k = (case jget k v of
       Some (JInt i) \<Rightarrow> Inr i | Some _ \<Rightarrow> Inl (PyErr TypeError) | None \<Rightarrow> Inl (PyErr KeyError))"

definition arr_field :: "json \<Rightarrow> string \<Rightarrow> co_error + json list" where
  "arr_field v k = (case jget k v of
       Some (JArr xs) \<Rightarrow> Inr xs | Some _ \<Rightarrow> Inl (PyErr TypeError) | None \<Rightarrow> Inl (PyErr KeyError))"

definition any_field :: "json \<Rightarrow> string \<Rightarrow> co_error + json" where
  "any_field v k = (case jget k v of Some x \<Rightarrow> Inr x | None \<Rightarrow> Inl (PyErr KeyError))"

text \<open>The keyword arguments of a dataclass: all required ones and no unknown one.\<close>

definition kwargs_ok :: "string set \<Rightarrow> string set \<Rightarrow> json \<Rightarrow> bool" where
  "kwargs_ok required optional v = (case v of
       JObj kvs \<Rightarrow> required \<subseteq> fst ` set kvs \<and> fst ` set kvs \<subseteq> required \<union> optional | _ \<Rightarrow> False)"

definition plugin_of_dict :: "json \<Rightarrow> co_error + plugin_identity" where
  "plugin_of_dict v =
     bind_res (guard_res (kwargs_ok {''namespace'', ''name'', ''version'', ''artifact_sha256''} {} v)
                (PyErr TypeError)) (\<lambda>_.
     bind_res (str_field v ''namespace'') (\<lambda>ns.
     bind_res (str_field v ''name'') (\<lambda>name.
     bind_res (str_field v ''version'') (\<lambda>version.
     bind_res (str_field v ''artifact_sha256'') (\<lambda>sha.
     Inr \<lparr>pl_namespace = ns, pl_name = name, pl_version = version, pl_artifact_sha256 = sha\<rparr>)))))"

definition host_of_dict :: "json \<Rightarrow> co_error + host_compatibility" where
  "host_of_dict v =
     bind_res (guard_res (kwargs_ok {''runtime'', ''version'', ''provider'', ''abi''} {} v) (PyErr TypeError)) (\<lambda>_.
     bind_res (str_field v ''runtime'') (\<lambda>runtime.
     bind_res (str_field v ''version'') (\<lambda>version.
     bind_res (str_field v ''provider'') (\<lambda>provider.
     bind_res (str_field v ''abi'') (\<lambda>abi.
     Inr \<lparr>hc_runtime = runtime, hc_version = version, hc_provider = provider, hc_abi = abi\<rparr>)))))"

definition claim_of_dict :: "json \<Rightarrow> co_error + resource_claim" where
  "claim_of_dict v =
     bind_res (guard_res (kwargs_ok {''uri'', ''owner''} {''mode''} v) (PyErr TypeError)) (\<lambda>_.
     bind_res (str_field v ''uri'') (\<lambda>uri.
     bind_res (str_field v ''owner'') (\<lambda>owner.
     bind_res (if jget ''mode'' v = None then Inr ''exclusive'' else str_field v ''mode'') (\<lambda>mode.
     Inr \<lparr>rc_uri = uri, rc_owner = owner, rc_mode = mode\<rparr>))))"

definition json_int :: "json \<Rightarrow> co_error + int" where
  "json_int v = (case v of JInt i \<Rightarrow> Inr i | _ \<Rightarrow> Inl (PyErr TypeError))"

definition obligation_of_dict :: "json \<Rightarrow> co_error + evidence_obligation" where
  "obligation_of_dict v =
     bind_res (str_field v ''obligation_id'') (\<lambda>oid.
     bind_res (str_field v ''role'') (\<lambda>role.
     bind_res (str_field v ''event'') (\<lambda>event.
     bind_res (bind_res (arr_field v ''required_ordinals'') (map_res json_int)) (\<lambda>ordinals.
     Inr \<lparr>ob_id = oid, ob_role = role, ob_event = event, ob_required_ordinals = ordinals\<rparr>))))"

definition opt_str_field :: "json \<Rightarrow> string \<Rightarrow> co_error + string option" where
  "opt_str_field v k = (case jget k v of
       Some (JStr s) \<Rightarrow> Inr (Some s) | Some JNull \<Rightarrow> Inr None
     | Some _ \<Rightarrow> Inl (PyErr TypeError) | None \<Rightarrow> Inl (PyErr KeyError))"

definition predecessor_of_dict :: "json \<Rightarrow> co_error + predecessor_snapshot" where
  "predecessor_of_dict v =
     bind_res (guard_res (kwargs_ok {''generation'', ''plan_id'', ''rendered_inputs''} {} v) (PyErr TypeError)) (\<lambda>_.
     bind_res (int_field v ''generation'') (\<lambda>generation.
     bind_res (opt_str_field v ''plan_id'') (\<lambda>pid.
     bind_res (any_field v ''rendered_inputs'') (\<lambda>inputs.
     Inr \<lparr>ps_generation = generation, ps_plan_id = pid, ps_rendered_inputs = inputs\<rparr>))))"

definition plan_from_json :: "json \<Rightarrow> co_error + plan" where
  "plan_from_json v =
     bind_res (bind_res (arr_field v ''plugins'') (map_res plugin_of_dict)) (\<lambda>plugins.
     bind_res (bind_res (any_field v ''host'') host_of_dict) (\<lambda>host.
     bind_res (bind_res (arr_field v ''claims'') (map_res claim_of_dict)) (\<lambda>claims.
     bind_res (bind_res (arr_field v ''obligations'') (map_res obligation_of_dict)) (\<lambda>obligations.
     bind_res (bind_res (any_field v ''predecessor'') predecessor_of_dict) (\<lambda>predecessor.
     bind_res (case jget ''fallback_proven'' v of
          None \<Rightarrow> Inr False | Some (JBool b) \<Rightarrow> Inr b | Some _ \<Rightarrow> Inl (PyErr TypeError)) (\<lambda>fallback.
     Inr \<lparr>plan_plugins = plugins, plan_host = host, plan_claims = claims, plan_obligations = obligations,
          plan_predecessor = predecessor, plan_fallback_proven = fallback\<rparr>))))))"

section \<open>The store\<close>

record activation_row =
  av_plan_id :: string
  av_plan_json :: json
  av_state :: ecpa_state
  av_launch_id :: "string option"
  av_predecessor_json :: json
  av_created_at :: int

record journal_row =
  jr_sequence :: nat
  jr_plan_id :: string
  jr_kind :: string
  jr_operation :: string
  jr_detail :: json
  jr_created_at :: int

record inventory_row =
  iv_plan_id :: string
  iv_host :: string
  iv_role :: string
  iv_ordinal :: int
  iv_start_id :: string
  iv_epoch :: int

record evidence_row =
  ed_nonce :: string
  ed_plan_id :: string
  ed_launch_id :: string
  ed_process_key :: string
  ed_role :: string
  ed_ordinal :: int
  ed_epoch :: int
  ed_obligation_id :: string
  ed_event :: string
  ed_issued_at :: int
  ed_expires_at :: int
  ed_artifact_id :: string
  ed_authority :: string
  ed_manager_epoch :: int
  ed_valid :: bool
  ed_issuer :: string
  ed_kid :: string
  ed_observed_at :: int
  ed_evidence_digest :: string
  ed_artifact_digest :: string

record outcome_row =
  or_plan_id :: string
  or_success :: bool
  or_detail :: json
  or_created_at :: int

text \<open>
  \<open>cd_sequence\<close> is the AUTOINCREMENT counter of the journal, which deleted rows do not give back;
  the outcome rows are never deleted, their sequence number is their position.
\<close>

record co_db =
  cd_generation :: int
  cd_manager_epoch :: int
  cd_activation :: "activation_row list"
  cd_journal :: "journal_row list"
  cd_sequence :: nat
  cd_inventory :: "inventory_row list"
  cd_evidence :: "evidence_row list"
  cd_outcome :: "outcome_row list"

definition co_schema :: co_db where
  "co_schema = \<lparr>cd_generation = 0, cd_manager_epoch = 0, cd_activation = [], cd_journal = [],
     cd_sequence = 0, cd_inventory = [], cd_evidence = [], cd_outcome = []\<rparr>"

record 'w co_sys =
  cs_db :: co_db
  cs_gate :: "gate_sys option"
  cs_world :: 'w
  cs_faults :: "string set"
  cs_epoch :: int
  cs_ticks :: nat

type_synonym ('w, 'a) co_exec = "('w co_sys, co_error, 'a) exec"

definition co_atomic :: "('w, 'a) co_exec \<Rightarrow> ('w, 'a) co_exec" where
  "co_atomic m = atomic_x cs_db (\<lambda>d s. s\<lparr>cs_db := d\<rparr>) m"

definition co_mod :: "(co_db \<Rightarrow> co_db) \<Rightarrow> ('w, unit) co_exec" where
  "co_mod f = modify_x (\<lambda>s. s\<lparr>cs_db := f (cs_db s)\<rparr>)"

definition co_world :: "('w, co_error, 'a) exec \<Rightarrow> ('w, 'a) co_exec" where
  "co_world m = zoom_x cs_world (\<lambda>w s. s\<lparr>cs_world := w\<rparr>) id m"

text \<open>A call of the exposure gate; used only where the coordinator has one.\<close>

definition on_gate :: "'a gate_exec \<Rightarrow> ('w, 'a) co_exec" where
  "on_gate m = bind_x (gets_x cs_gate) (\<lambda>g. case g of
       None \<Rightarrow> raise_x AssertErr
     | Some _ \<Rightarrow> zoom_x (\<lambda>s. the (cs_gate s)) (\<lambda>t s. s\<lparr>cs_gate := Some t\<rparr>) GateErr m)"

definition co_now :: "co_env \<Rightarrow> ('w, int) co_exec" where
  "co_now E = bind_x (gets_x cs_ticks) (\<lambda>n.
     then_x (modify_x (\<lambda>s. s\<lparr>cs_ticks := n + 1\<rparr>)) (return_x (ce_clock E n)))"

definition faults_hit :: "string \<Rightarrow> ('w, unit) co_exec" where
  "faults_hit point = bind_x (gets_x cs_faults) (\<lambda>points.
     when_x (point \<in> points)
       (then_x (modify_x (\<lambda>s. s\<lparr>cs_faults := points - {point}\<rparr>))
       (raise_x (OtherErr (''injected fault: '' @ point)))))"

definition exposure_gate :: "('w, bool) co_exec" where
  "exposure_gate = gets_x (\<lambda>s. cs_gate s \<noteq> None)"

definition store_boot :: "('w, int) co_exec" where
  "store_boot = co_atomic
     (then_x (co_mod (\<lambda>d. d\<lparr>cd_manager_epoch := cd_manager_epoch d + 1\<rparr>))
     (bind_x (gets_x (\<lambda>s. cd_manager_epoch (cs_db s))) (\<lambda>epoch.
      then_x (co_mod (\<lambda>d. d\<lparr>cd_evidence := map (\<lambda>e. e\<lparr>ed_valid := False\<rparr>) (cd_evidence d)\<rparr>))
      (return_x epoch))))"

text \<open>Constructing a coordinator on a store: adapters and faults are given, the epoch is new.\<close>

definition co_boot :: "('w, unit) co_exec" where
  "co_boot = bind_x store_boot (\<lambda>epoch. modify_x (\<lambda>s. s\<lparr>cs_epoch := epoch\<rparr>))"

definition find_activation :: "string \<Rightarrow> activation_row list \<Rightarrow> activation_row option" where
  "find_activation pid rows = find (\<lambda>a. av_plan_id a = pid) rows"

definition co_row :: "string \<Rightarrow> ('w, activation_row) co_exec" where
  "co_row pid = bind_x (gets_x (\<lambda>s. find_activation pid (cd_activation (cs_db s)))) (\<lambda>r. case r of
       None \<Rightarrow> raise_x (ContractErr UNKNOWN_RESOURCE) | Some row \<Rightarrow> return_x row)"

definition insert_journal :: "string \<Rightarrow> string \<Rightarrow> string \<Rightarrow> json \<Rightarrow> int \<Rightarrow> co_db \<Rightarrow> co_db" where
  "insert_journal pid kind operation detail now d =
     d\<lparr>cd_sequence := cd_sequence d + 1,
       cd_journal := cd_journal d @ [\<lparr>jr_sequence = cd_sequence d + 1, jr_plan_id = pid, jr_kind = kind,
         jr_operation = operation, jr_detail = canon detail, jr_created_at = now\<rparr>]\<rparr>"

definition co_journal :: "co_env \<Rightarrow> string \<Rightarrow> string \<Rightarrow> string \<Rightarrow> json \<Rightarrow> ('w, unit) co_exec" where
  "co_journal E pid kind operation detail =
     bind_x (co_now E) (\<lambda>now. co_mod (insert_journal pid kind operation detail now))"

definition update_activation :: "string \<Rightarrow> (activation_row \<Rightarrow> activation_row) \<Rightarrow> co_db \<Rightarrow> co_db" where
  "update_activation pid f d =
     d\<lparr>cd_activation := map (\<lambda>a. if av_plan_id a = pid then f a else a) (cd_activation d)\<rparr>"

definition co_transition :: "co_env \<Rightarrow> string \<Rightarrow> ecpa_state \<Rightarrow> ('w, unit) co_exec" where
  "co_transition E pid target =
     bind_x (co_row pid) (\<lambda>row.
     let current = av_state row in
     then_x (guard_x (current \<noteq> St_RESOLVED) (PyErr KeyError))
     (then_x (guard_x (target \<in> set (TRANSITIONS current)) (ContractErr INVALID_TRANSITION))
     (then_x (co_mod (update_activation pid (\<lambda>a. a\<lparr>av_state := target\<rparr>)))
     (co_journal E pid ''transition'' (state_value target) (JObj [(''from'', JStr (state_value current))])))))"

definition co_plan_of :: "string \<Rightarrow> ('w, plan) co_exec" where
  "co_plan_of pid = bind_x (co_row pid) (\<lambda>row. lift_res (plan_from_json (av_plan_json row)))"

section \<open>plan, prepare and launch\<close>

definition obligations_ok :: "plan \<Rightarrow> bool" where
  "obligations_ok p \<longleftrightarrow> plan_obligations p \<noteq> [] \<and> list_all (\<lambda>b. ob_required_ordinals b \<noteq> []) (plan_obligations p)"

definition insert_activation :: "activation_row \<Rightarrow> ('w, unit) co_exec" where
  "insert_activation row =
     bind_x (gets_x (\<lambda>s. find_activation (av_plan_id row) (cd_activation (cs_db s)))) (\<lambda>existing.
     then_x (guard_x (existing = None) IntegrityErr)
     (co_mod (\<lambda>d. d\<lparr>cd_activation := cd_activation d @ [row]\<rparr>)))"

definition delete_plan :: "string \<Rightarrow> co_db \<Rightarrow> co_db" where
  "delete_plan pid d = d\<lparr>cd_journal := filter (\<lambda>j. jr_plan_id j \<noteq> pid) (cd_journal d),
     cd_activation := filter (\<lambda>a. av_plan_id a \<noteq> pid) (cd_activation d)\<rparr>"

definition co_plan :: "'w adapters \<Rightarrow> co_env \<Rightarrow> plan \<Rightarrow> ('w, string) co_exec" where
  "co_plan A E p =
     (let pid = plan_id (ce_hash E) p in
      then_x (guard_x (obligations_ok p) (ContractErr MISSING_PROCESS_EVIDENCE))
      (then_x (co_atomic
         (bind_x (co_now E) (\<lambda>now.
          then_x (insert_activation \<lparr>av_plan_id = pid, av_plan_json = canon (plan_dict p),
                     av_state = St_PLANNED, av_launch_id = None,
                     av_predecessor_json = canon (predecessor_dict (plan_predecessor p)), av_created_at = now\<rparr>)
          (co_journal E pid ''transition'' ''plan'' (JObj [(''state'', JStr ''Planned'')])))))
      (bind_x exposure_gate (\<lambda>gated.
       then_x (if gated
               then catch_x
                 (then_x (on_gate (gate_stage (ce_gate E) (JStr pid) (predecessor_dict (plan_predecessor p))))
                    (return_x ()))
                 (\<lambda>e. then_x (co_atomic (co_mod (delete_plan pid))) (raise_x e))
               else co_world (traffic_hold A (plan_predecessor p)))
       (return_x pid)))))"

definition co_prepare :: "'w adapters \<Rightarrow> co_env \<Rightarrow> string \<Rightarrow> ('w, unit) co_exec" where
  "co_prepare A E pid =
     bind_x (co_plan_of pid) (\<lambda>p.
     then_x (co_atomic (then_x (co_transition E pid St_PREPARING)
                (co_journal E pid ''wal'' ''prepare'' (JObj []))))
     (then_x (faults_hit ''prepare.after_wal'')
     (bind_x (co_world (host_prepare A p)) (\<lambda>receipt.
      then_x (faults_hit ''prepare.after_side_effect'')
     (then_x (co_atomic (then_x (co_journal E pid ''receipt'' ''prepare'' receipt)
                (co_transition E pid St_PREPARED)))
     (bind_x exposure_gate (\<lambda>gated.
      when_x gated (on_gate (gate_close (ce_gate E) (ps_generation (plan_predecessor p) + 1)))))))))) "

definition inventory_of :: "string \<Rightarrow> process_identity \<Rightarrow> inventory_row" where
  "inventory_of pid p = \<lparr>iv_plan_id = pid, iv_host = pr_host p, iv_role = pr_role p,
     iv_ordinal = pr_ordinal p, iv_start_id = pr_start_id p, iv_epoch = pr_epoch p\<rparr>"

text \<open>DELETE of the plan's rows and INSERT of the new ones under the primary key.\<close>

definition replace_inventory :: "string \<Rightarrow> process_identity list \<Rightarrow> ('w, unit) co_exec" where
  "replace_inventory pid ps =
     then_x (co_mod (\<lambda>d. d\<lparr>cd_inventory := filter (\<lambda>i. iv_plan_id i \<noteq> pid) (cd_inventory d)\<rparr>))
     (then_x (guard_x (distinct (map (\<lambda>p. (pr_role p, pr_ordinal p)) ps)) IntegrityErr)
     (co_mod (\<lambda>d. d\<lparr>cd_inventory := cd_inventory d @ map (inventory_of pid) ps\<rparr>)))"

definition co_launch :: "'w adapters \<Rightarrow> co_env \<Rightarrow> string \<Rightarrow> string \<Rightarrow> ('w, unit) co_exec" where
  "co_launch A E pid launch_id =
     bind_x (co_plan_of pid) (\<lambda>p.
     then_x (co_atomic (then_x (co_transition E pid St_LAUNCHING)
               (then_x (co_mod (update_activation pid (\<lambda>a. a\<lparr>av_launch_id := Some launch_id\<rparr>)))
               (co_journal E pid ''wal'' ''launch'' (JObj [(''launch_id'', JStr launch_id)])))))
     (then_x (faults_hit ''launch.after_wal'')
     (bind_x (co_world (host_launch A p launch_id)) (\<lambda>inventory.
      then_x (faults_hit ''launch.after_side_effect'')
      (co_atomic (then_x (replace_inventory pid inventory)
         (then_x (co_journal E pid ''receipt'' ''launch'' (JObj [(''count'', JInt (int (length inventory)))]))
         (co_transition E pid St_OBSERVING))))))))"

section \<open>observe, refresh\_inventory and completeness of evidence\<close>

definition find_inventory :: "string \<Rightarrow> process_identity \<Rightarrow> inventory_row list \<Rightarrow> inventory_row option" where
  "find_inventory pid p rows =
     find (\<lambda>i. iv_plan_id i = pid \<and> iv_role i = pr_role p \<and> iv_ordinal i = pr_ordinal p) rows"

definition evidence_stale ::
  "(string \<Rightarrow> string) \<Rightarrow> string \<Rightarrow> activation_row \<Rightarrow> plan \<Rightarrow> inventory_row option \<Rightarrow> attestation \<Rightarrow> bool" where
  "evidence_stale H pid row p found item \<longleftrightarrow>
     at_plan_id item \<noteq> pid \<or> Some (at_launch_id item) \<noteq> av_launch_id row
     \<or> at_artifact_id item \<notin> plugin_id H ` set (plan_plugins p)
     \<or> (case found of None \<Rightarrow> True
        | Some i \<Rightarrow> iv_start_id i \<noteq> pr_start_id (at_process item) \<or> iv_epoch i \<noteq> pr_epoch (at_process item))"

definition evidence_of :: "string \<Rightarrow> int \<Rightarrow> attestation \<Rightarrow> evidence_row" where
  "evidence_of pid epoch item =
     \<lparr>ed_nonce = at_nonce item, ed_plan_id = pid, ed_launch_id = at_launch_id item,
      ed_process_key = process_key (at_process item), ed_role = pr_role (at_process item),
      ed_ordinal = pr_ordinal (at_process item), ed_epoch = pr_epoch (at_process item),
      ed_obligation_id = at_obligation_id item, ed_event = at_event item,
      ed_issued_at = at_issued_at item, ed_expires_at = at_expires_at item,
      ed_artifact_id = at_artifact_id item, ed_authority = at_authority item,
      ed_manager_epoch = epoch, ed_valid = True, ed_issuer = at_issuer item, ed_kid = at_kid item,
      ed_observed_at = at_observed_at item, ed_evidence_digest = at_evidence_digest item,
      ed_artifact_digest = at_artifact_digest item\<rparr>"

definition insert_evidence :: "string \<Rightarrow> attestation \<Rightarrow> ('w, unit) co_exec" where
  "insert_evidence pid item =
     bind_x (gets_x id) (\<lambda>s.
     then_x (guard_x (at_nonce item \<notin> set (map ed_nonce (cd_evidence (cs_db s)))) IntegrityErr)
     (co_mod (\<lambda>d. d\<lparr>cd_evidence := cd_evidence d @ [evidence_of pid (cs_epoch s) item]\<rparr>)))"

definition co_observe ::
  "'w adapters \<Rightarrow> co_env \<Rightarrow> string \<Rightarrow> attestation \<Rightarrow> int option \<Rightarrow> ('w, unit) co_exec" where
  "co_observe A E pid item now =
     bind_x (co_row pid) (\<lambda>row.
     then_x (guard_x (av_state row \<in> {St_OBSERVING, St_RECONCILE}) (ContractErr INVALID_TRANSITION))
     (bind_x (lift_res (plan_from_json (av_plan_json row))) (\<lambda>p.
      bind_x (case now of None \<Rightarrow> co_now E | Some n \<Rightarrow> return_x n) (\<lambda>observed_at.
      then_x (co_world (verifier_verify A item observed_at p))
      (bind_x (gets_x (\<lambda>s. find_inventory pid (at_process item) (cd_inventory (cs_db s)))) (\<lambda>found.
       then_x (guard_x (\<not> evidence_stale (ce_hash E) pid row p found item) (ContractErr STALE_EVIDENCE))
       (catch_x
         (co_atomic (then_x (insert_evidence pid item)
            (co_journal E pid ''evidence'' (at_event item) (attestation_dict item))))
         (\<lambda>e. raise_x (if e = IntegrityErr then ContractErr REPLAYED_NONCE else e)))))))))"

definition co_refresh_inventory ::
  "co_env \<Rightarrow> string \<Rightarrow> process_identity list \<Rightarrow> ('w, unit) co_exec" where
  "co_refresh_inventory E pid processes =
     bind_x (co_row pid) (\<lambda>row.
     then_x (guard_x (av_state row \<in> {St_OBSERVING, St_RECONCILE}) (ContractErr INVALID_TRANSITION))
     (co_atomic (then_x (replace_inventory pid processes)
       (then_x (co_mod (\<lambda>d. d\<lparr>cd_evidence := map (\<lambda>e. if ed_plan_id e = pid then e\<lparr>ed_valid := False\<rparr> else e)
                   (cd_evidence d)\<rparr>))
       (co_journal E pid ''inventory'' ''refresh''
          (JObj [(''processes'', JArr (map process_dict processes))]))))))"

text \<open>\<open>by_process\<close>: a dictionary over the inventory rows; a later row of a key would win.\<close>

definition by_process :: "string \<Rightarrow> inventory_row list \<Rightarrow> ((string \<times> int) \<times> int) list" where
  "by_process pid rows = fold (\<lambda>i. dict_set (iv_role i, iv_ordinal i) (iv_epoch i))
     (filter (\<lambda>i. iv_plan_id i = pid) rows) []"

definition evidence_current :: "string \<Rightarrow> int \<Rightarrow> evidence_row \<Rightarrow> bool" where
  "evidence_current pid epoch e \<longleftrightarrow> ed_plan_id e = pid \<and> ed_valid e \<and> ed_manager_epoch e = epoch"

definition observed_set ::
  "string \<Rightarrow> int \<Rightarrow> int \<Rightarrow> evidence_row list \<Rightarrow> (string \<times> int \<times> int \<times> string \<times> string) set" where
  "observed_set pid epoch now rows =
     (\<lambda>e. (ed_role e, ed_ordinal e, ed_epoch e, ed_obligation_id e, ed_event e))
       ` set (filter (\<lambda>e. evidence_current pid epoch e \<and> ed_expires_at e \<ge> now) rows)"

definition evidence_complete :: "(string \<Rightarrow> string) \<Rightarrow> plan \<Rightarrow> int \<Rightarrow> int \<Rightarrow> co_db \<Rightarrow> bool" where
  "evidence_complete H p epoch now d \<longleftrightarrow> obligations_ok p \<and>
     list_all (\<lambda>b. list_all (\<lambda>ordinal.
       (case map_of (by_process (plan_id H p) (cd_inventory d)) (ob_role b, ordinal) of
          None \<Rightarrow> False
        | Some pepoch \<Rightarrow> (ob_role b, ordinal, pepoch, ob_id b, ob_event b)
              \<in> observed_set (plan_id H p) epoch now (cd_evidence d)))
       (ob_required_ordinals b)) (plan_obligations p)"

section \<open>rollback and lost leases\<close>

definition insert_outcome :: "string \<Rightarrow> bool \<Rightarrow> json \<Rightarrow> co_env \<Rightarrow> ('w, unit) co_exec" where
  "insert_outcome pid success detail E = bind_x (co_now E) (\<lambda>now.
     co_mod (\<lambda>d. d\<lparr>cd_outcome := cd_outcome d @
       [\<lparr>or_plan_id = pid, or_success = success, or_detail = canon detail, or_created_at = now\<rparr>]\<rparr>))"

definition gate_fail_class :: "co_env \<Rightarrow> int \<Rightarrow> string \<Rightarrow> ('w, rollback_class) co_exec" where
  "gate_fail_class E generation reason =
     bind_x (on_gate (gate_fail_close (ce_gate E) generation reason)) (\<lambda>r. return_x (fc_classification r))"

text \<open>The outcome of the gate's part of a rollback and the text of its errors.\<close>

definition rollback_traffic ::
  "co_env \<Rightarrow> int \<Rightarrow> string option \<Rightarrow> ('w, rollback_class \<times> string option) co_exec" where
  "rollback_traffic E generation host_error =
     bind_x (try_x (if host_error = None then on_gate (gate_rollback (ce_gate E) generation None)
                    else gate_fail_class E generation ''host rollback failed'')) (\<lambda>r. case r of
       Inr outcome \<Rightarrow> return_x (outcome, None)
     | Inl exc \<Rightarrow>
        bind_x (try_x (gate_fail_class E generation ''traffic rollback failed'')) (\<lambda>r2. case r2 of
          Inr outcome \<Rightarrow> return_x (outcome, Some (co_str exc))
        | Inl close_exc \<Rightarrow>
            return_x (RC_SAFETY_UNKNOWN, Some (co_str exc @ ''; fail-close: '' @ co_str close_exc))))"

definition gated_rollback ::
  "co_env \<Rightarrow> string \<Rightarrow> plan \<Rightarrow> json \<Rightarrow> string option \<Rightarrow> ('w, ecpa_state) co_exec" where
  "gated_rollback E pid p host_outcome host_error =
     bind_x (rollback_traffic E (ps_generation (plan_predecessor p) + 1) host_error) (\<lambda>(outcome, gate_error).
     then_x (faults_hit ''rollback.after_traffic_side_effect'')
     (then_x (co_atomic (co_journal E pid ''receipt'' ''rollback.traffic''
        (JObj [(''outcome'', JStr (rollback_class_value outcome)), (''error'', opt_string gate_error)])))
     (let target = (if outcome = RC_SAFETY_UNKNOWN then St_SAFETY_UNKNOWN
                    else if host_error \<noteq> None \<or> outcome = RC_FAILED_SAFE then St_FAILED_SAFE
                    else St_ROLLED_BACK) in
      then_x (co_atomic (then_x (insert_outcome pid (target = St_ROLLED_BACK)
          (JObj [(''host_outcome'', host_outcome), (''host_error'', opt_string host_error),
                 (''traffic_outcome'', JStr (rollback_class_value outcome)),
                 (''traffic_error'', opt_string gate_error)]) E)
        (co_transition E pid target)))
      (return_x target))))"

definition plain_rollback ::
  "'w adapters \<Rightarrow> co_env \<Rightarrow> string \<Rightarrow> plan \<Rightarrow> json \<Rightarrow> string option \<Rightarrow> ('w, ecpa_state) co_exec" where
  "plain_rollback A E pid p host_outcome host_error =
     bind_x (try_x (case host_error of
         Some msg \<Rightarrow> raise_x (OtherErr msg)
       | None \<Rightarrow> then_x (guard_x (host_outcome \<noteq> JNull) AssertErr)
                   (co_world (traffic_restore A (plan_predecessor p))))) (\<lambda>r. case r of
       Inl exc \<Rightarrow>
         then_x (co_atomic (then_x (insert_outcome pid False (JObj [(''error'', JStr (co_str exc))]) E)
            (co_transition E pid St_FAILED_SAFE)))
         (raise_x (ContractErr ROLLBACK_FAILED))
     | Inr _ \<Rightarrow>
         then_x (co_atomic (then_x (insert_outcome pid True host_outcome E)
            (then_x (co_journal E pid ''receipt'' ''rollback'' host_outcome)
            (co_transition E pid St_ROLLED_BACK))))
         (return_x St_ROLLED_BACK))"

definition co_rollback :: "'w adapters \<Rightarrow> co_env \<Rightarrow> string \<Rightarrow> string \<Rightarrow> ('w, ecpa_state) co_exec" where
  "co_rollback A E pid reason =
     bind_x (co_plan_of pid) (\<lambda>p.
     then_x (co_atomic (then_x (co_transition E pid St_ROLLBACK)
               (co_journal E pid ''wal'' ''rollback'' (JObj [(''reason'', JStr reason)]))))
     (bind_x (try_x (co_world (host_rollback A (plan_predecessor p)))) (\<lambda>r.
      let host_outcome = (case r of Inr v \<Rightarrow> v | Inl _ \<Rightarrow> JNull);
          host_error = (case r of Inr _ \<Rightarrow> None | Inl exc \<Rightarrow> Some (co_str exc)) in
      then_x (co_atomic (co_journal E pid ''receipt'' ''rollback.host''
                (JObj [(''outcome'', host_outcome), (''error'', opt_string host_error)])))
      (bind_x exposure_gate (\<lambda>gated.
       if gated then gated_rollback E pid p host_outcome host_error
       else plain_rollback A E pid p host_outcome host_error)))))"

definition co_external_lease_lost :: "'w adapters \<Rightarrow> co_env \<Rightarrow> string \<Rightarrow> ('w, ecpa_state) co_exec" where
  "co_external_lease_lost A E pid =
     bind_x (co_plan_of pid) (\<lambda>p.
     then_x (co_atomic (co_transition E pid St_DEGRADED))
     (if plan_fallback_proven p
      then then_x (co_atomic (co_transition E pid St_RECONCILE)) (return_x St_RECONCILE)
      else co_rollback A E pid ''external lease invalid''))"

section \<open>commit\<close>

definition evidence_entry :: "evidence_row \<Rightarrow> json" where
  "evidence_entry e = JObj [(''nonce'', JStr (ed_nonce e)), (''evidence_digest'', JStr (ed_evidence_digest e)),
     (''process_key'', JStr (ed_process_key e)), (''obligation_id'', JStr (ed_obligation_id e)),
     (''event'', JStr (ed_event e))]"

definition co_digest :: "co_env \<Rightarrow> json \<Rightarrow> string" where
  "co_digest E v = ''sha256:'' @ ce_hash E (canonical_bytes v)"

definition co_open_proof :: "co_env \<Rightarrow> plan \<Rightarrow> int \<Rightarrow> ('w, open_proof) co_exec" where
  "co_open_proof E p generation =
     bind_x (gets_x (\<lambda>s. sort_key ed_nonce
        (filter (evidence_current (plan_id (ce_hash E) p) (cs_epoch s)) (cd_evidence (cs_db s))))) (\<lambda>rows.
     let evidence = map evidence_entry rows; coverage = map obligation_dict (plan_obligations p) in
     bind_x (on_gate (gets_x g_current)) (\<lambda>lease.
     bind_x (on_gate g_row) (\<lambda>row.
     return_x \<lparr>op_plan_id = plan_id (ce_hash E) p, op_generation = generation,
       op_evidence_count = int (length evidence), op_evidence_digest = co_digest E (JArr evidence),
       op_coverage_digest = co_digest E (JArr coverage), op_lease = lease,
       op_candidate_digest = gr_candidate_digest row\<rparr>)))"

text \<open>The transaction that makes a plan ready and moves the generation.\<close>

definition commit_wal :: "co_env \<Rightarrow> string \<Rightarrow> plan \<Rightarrow> int \<Rightarrow> ('w, unit) co_exec" where
  "commit_wal E pid p expected =
     co_atomic
       (then_x (co_transition E pid St_COMMIT_READY)
       (then_x (co_journal E pid ''wal'' ''commit'' (JObj [(''from'', JInt expected)]))
       (bind_x (gets_x (\<lambda>s. cd_generation (cs_db s))) (\<lambda>current.
        then_x (co_mod (\<lambda>d. if cd_generation d = expected then d\<lparr>cd_generation := cd_generation d + 1\<rparr> else d))
        (guard_x (\<not> (current \<noteq> expected \<or> ps_generation (plan_predecessor p) \<noteq> expected))
          (ContractErr CAS_MISMATCH))))))"

definition commit_receipt :: "co_env \<Rightarrow> string \<Rightarrow> ('w, int) co_exec" where
  "commit_receipt E pid =
     co_atomic
       (bind_x (gets_x (\<lambda>s. cd_generation (cs_db s))) (\<lambda>generation.
        then_x (co_journal E pid ''receipt'' ''commit'' (JObj [(''generation'', JInt generation)]))
        (then_x (co_transition E pid St_EFFECTIVE)
        (return_x generation))))"

definition commit_expose :: "'w adapters \<Rightarrow> co_env \<Rightarrow> plan \<Rightarrow> int \<Rightarrow> ('w, unit) co_exec" where
  "commit_expose A E p expected =
     bind_x exposure_gate (\<lambda>gated.
     if gated
     then then_x (guard_x (ce_signed E) (ContractErr MISSING_PROCESS_EVIDENCE))
          (bind_x (co_open_proof E p (expected + 1)) (\<lambda>pf.
           then_x (on_gate (gate_open (ce_gate E) (expected + 1) pf)) (return_x ())))
     else co_world (traffic_activate A p))"

definition co_commit :: "'w adapters \<Rightarrow> co_env \<Rightarrow> string \<Rightarrow> int \<Rightarrow> ('w, int) co_exec" where
  "co_commit A E pid expected =
     bind_x (co_plan_of pid) (\<lambda>p.
     bind_x (co_world (external_lease_valid A p)) (\<lambda>valid.
     if \<not> valid
     then then_x (co_external_lease_lost A E pid) (raise_x (ContractErr EXTERNAL_LEASE_INVALID))
     else
      bind_x (co_now E) (\<lambda>now.
      bind_x (gets_x (\<lambda>s. evidence_complete (ce_hash E) p (cs_epoch s) now (cs_db s))) (\<lambda>complete.
      then_x (guard_x complete (ContractErr MISSING_PROCESS_EVIDENCE))
      (then_x (commit_wal E pid p expected)
      (then_x (faults_hit ''commit.after_wal'')
      (then_x (commit_expose A E p expected)
      (then_x (faults_hit ''commit.after_side_effect'')
      (commit_receipt E pid)))))))))"

section \<open>recover\<close>

definition last_host_receipt :: "string \<Rightarrow> journal_row list \<Rightarrow> journal_row option" where
  "last_host_receipt pid rows =
     find (\<lambda>j. jr_plan_id j = pid \<and> jr_operation j = ''rollback.host'') (rev rows)"

definition is_none_field :: "string \<Rightarrow> json \<Rightarrow> bool" where
  "is_none_field k v \<longleftrightarrow> jget k v = None \<or> jget k v = Some JNull"

fun class_gate_state :: "rollback_class \<Rightarrow> gate_state option" where
  "class_gate_state RC_FAILED_SAFE = Some FAILED_SAFE"
| "class_gate_state RC_SAFETY_UNKNOWN = Some SAFETY_UNKNOWN"
| "class_gate_state _ = None"

definition missing_receipt :: json where
  "missing_receipt = JObj [(''outcome'', JNull), (''error'', JStr ''missing host receipt'')]"

definition recover_rollback :: "co_env \<Rightarrow> string \<Rightarrow> plan \<Rightarrow> ('w, ecpa_state) co_exec" where
  "recover_rollback E pid p =
     (let generation = ps_generation (plan_predecessor p) + 1 in
      bind_x (gets_x (\<lambda>s. last_host_receipt pid (cd_journal (cs_db s)))) (\<lambda>host_receipt.
      bind_x (on_gate (gate_reconcile (ce_gate E))) (\<lambda>reconciled.
      bind_x (case host_receipt of
          Some j \<Rightarrow> return_x (reconciled, jr_detail j)
        | None \<Rightarrow>
            bind_x (gate_fail_class E generation ''host rollback outcome missing during recovery'') (\<lambda>c.
            case class_gate_state c of
              None \<Rightarrow> raise_x (PyErr KeyError)
            | Some st \<Rightarrow> return_x (st, missing_receipt))) (\<lambda>(gstate, host_detail).
      bind_x (if gstate = SAFETY_UNKNOWN then return_x St_SAFETY_UNKNOWN
              else if gstate = FAILED_SAFE \<or> \<not> is_none_field ''error'' host_detail
                      \<or> is_none_field ''outcome'' host_detail
              then return_x St_FAILED_SAFE
              else if gstate = ROLLED_BACK then return_x St_ROLLED_BACK
              else bind_x (gate_fail_class E generation
                       (''unexpected gate recovery state '' @ gate_state_value gstate)) (\<lambda>c.
                   return_x (if c = RC_FAILED_SAFE then St_FAILED_SAFE else St_SAFETY_UNKNOWN))) (\<lambda>target.
      let detail = JObj [(''recovered'', JBool True), (''host'', host_detail),
                         (''gate_state'', JStr (gate_state_value gstate))] in
      then_x (co_atomic
        (then_x (insert_outcome pid (target = St_ROLLED_BACK) detail E)
        (then_x (co_journal E pid ''receipt'' ''rollback.recover'' detail)
        (co_transition E pid target))))
      (return_x target))))))"

definition recover_commit :: "co_env \<Rightarrow> string \<Rightarrow> plan \<Rightarrow> ('w, unit) co_exec" where
  "recover_commit E pid p =
     bind_x (on_gate (gate_reconcile (ce_gate E))) (\<lambda>gstate.
     if gstate = CANDIDATE_OPEN
     then co_atomic (then_x (co_journal E pid ''receipt'' ''commit.reconcile'' (JObj [(''queried'', JBool True)]))
            (co_transition E pid St_EFFECTIVE))
     else
       then_x (when_x (gstate = CANDIDATE_CLOSED)
                (then_x (on_gate (gate_rollback (ce_gate E) (ps_generation (plan_predecessor p) + 1) None))
                  (return_x ())))
       (co_atomic (then_x (co_transition E pid St_RECONCILE)
          (co_journal E pid ''recovery'' ''gate-not-open''
             (JObj [(''gate_state'', JStr (gate_state_value gstate))])))))"

definition co_recover :: "'w adapters \<Rightarrow> co_env \<Rightarrow> string \<Rightarrow> ('w, ecpa_state) co_exec" where
  "co_recover A E pid =
     bind_x (co_row pid) (\<lambda>row.
     let state = av_state row in
     bind_x (lift_res (plan_from_json (av_plan_json row))) (\<lambda>p.
     bind_x exposure_gate (\<lambda>gated.
     if state = St_ROLLBACK
     then (if \<not> gated
           then then_x (co_atomic (co_transition E pid St_FAILED_SAFE)) (return_x St_FAILED_SAFE)
           else recover_rollback E pid p)
     else
       then_x
         (if state = St_COMMIT_READY \<and> gated then recover_commit E pid p
          else if state \<in> {St_PREPARING, St_LAUNCHING, St_OBSERVING} \<and> gated
          then then_x (on_gate (gate_rollback (ce_gate E) (ps_generation (plan_predecessor p) + 1) None))
               (co_atomic (then_x (co_transition E pid St_RECONCILE)
                  (co_journal E pid ''recovery'' ''pre-open-rollback''
                     (JObj [(''state'', JStr (state_value state))]))))
          else if state \<in> {St_PREPARING, St_LAUNCHING, St_COMMIT_READY}
          then then_x (co_world (traffic_restore A (plan_predecessor p)))
               (co_atomic (then_x (co_transition E pid St_RECONCILE)
                  (co_journal E pid ''recovery'' ''reobserve'' (JObj []))))
          else if state = St_OBSERVING
          then then_x (co_world (traffic_restore A (plan_predecessor p)))
               (co_atomic (co_transition E pid St_RECONCILE))
          else return_x ())
       (bind_x (co_row pid) (\<lambda>row. return_x (av_state row))))))"

definition co_resume_observing :: "co_env \<Rightarrow> string \<Rightarrow> ('w, unit) co_exec" where
  "co_resume_observing E pid = co_atomic (co_transition E pid St_OBSERVING)"

definition co_status :: "string \<Rightarrow> ('w, json) co_exec" where
  "co_status pid =
     bind_x (co_row pid) (\<lambda>row.
     bind_x (gets_x id) (\<lambda>s.
     return_x (JObj [(''plan_id'', JStr pid), (''state'', JStr (state_value (av_state row))),
       (''launch_id'', opt_string (av_launch_id row)), (''generation'', JInt (cd_generation (cs_db s))),
       (''manager_epoch'', JInt (cs_epoch s))])))"

section \<open>The deterministic fakes\<close>

record fake_world =
  fw_inventory :: "process_identity list"
  fw_prepared :: bool
  fw_launched :: bool
  fw_rollback_succeeds :: bool
  fw_active_plan_id :: "string option"
  fw_predecessor_plan_id :: "string option"
  fw_valid :: bool

definition fake_verify :: "attestation \<Rightarrow> int \<Rightarrow> plan \<Rightarrow> (fake_world, co_error, unit) exec" where
  "fake_verify item now p =
     then_x (guard_x (at_authority item = ''host-runtime'') (ContractErr AUTHORITY_VIOLATION))
     (guard_x (\<not> (at_issued_at item > now \<or> at_expires_at item < now)) (ContractErr STALE_EVIDENCE))"

definition fake_prepare :: "(string \<Rightarrow> string) \<Rightarrow> plan \<Rightarrow> (fake_world, co_error, json) exec" where
  "fake_prepare H p = then_x (modify_x (\<lambda>w. w\<lparr>fw_prepared := True\<rparr>))
     (return_x (JObj [(''prepared'', JBool True), (''plan_id'', JStr (plan_id H p))]))"

definition fake_launch :: "plan \<Rightarrow> string \<Rightarrow> (fake_world, co_error, process_identity list) exec" where
  "fake_launch p launch_id = then_x (modify_x (\<lambda>w. w\<lparr>fw_launched := True\<rparr>)) (gets_x fw_inventory)"

definition fake_host_rollback :: "predecessor_snapshot \<Rightarrow> (fake_world, co_error, json) exec" where
  "fake_host_rollback pre =
     bind_x (gets_x fw_rollback_succeeds) (\<lambda>ok.
     then_x (guard_x ok (OtherErr ''deterministic rollback failure''))
     (then_x (modify_x (\<lambda>w. w\<lparr>fw_launched := False\<rparr>))
     (return_x (JObj [(''restored_generation'', JInt (ps_generation pre))]))))"

definition fake_hold :: "predecessor_snapshot \<Rightarrow> (fake_world, co_error, unit) exec" where
  "fake_hold pre = modify_x (\<lambda>w. w\<lparr>fw_active_plan_id := ps_plan_id pre, fw_predecessor_plan_id := ps_plan_id pre\<rparr>)"

definition fake_activate :: "(string \<Rightarrow> string) \<Rightarrow> plan \<Rightarrow> (fake_world, co_error, unit) exec" where
  "fake_activate H p = modify_x (\<lambda>w. w\<lparr>fw_active_plan_id := Some (plan_id H p)\<rparr>)"

definition fake_restore :: "predecessor_snapshot \<Rightarrow> (fake_world, co_error, unit) exec" where
  "fake_restore pre = modify_x (\<lambda>w. w\<lparr>fw_active_plan_id := ps_plan_id pre\<rparr>)"

definition fake_lease_valid :: "plan \<Rightarrow> (fake_world, co_error, bool) exec" where
  "fake_lease_valid p = gets_x fw_valid"

definition fake_adapters :: "(string \<Rightarrow> string) \<Rightarrow> fake_world adapters" where
  "fake_adapters H = \<lparr>host_prepare = fake_prepare H, host_launch = fake_launch,
     host_rollback = fake_host_rollback, verifier_verify = fake_verify, traffic_hold = fake_hold,
     traffic_activate = fake_activate H, traffic_restore = fake_restore,
     external_lease_valid = fake_lease_valid\<rparr>"

definition fake_issue ::
  "(string \<Rightarrow> string) \<Rightarrow> plan \<Rightarrow> string \<Rightarrow> process_identity \<Rightarrow> evidence_obligation \<Rightarrow> string \<Rightarrow> int \<Rightarrow>
   py_exception + attestation" where
  "fake_issue H p launch_id process obligation nonce now = (case plan_plugins p of
       [] \<Rightarrow> Inl IndexError
     | plugin # _ \<Rightarrow> Inr \<lparr>at_plan_id = plan_id H p, at_launch_id = launch_id, at_process = process,
         at_obligation_id = ob_id obligation, at_event = ob_event obligation, at_nonce = nonce,
         at_issued_at = now, at_expires_at = now + 60, at_artifact_id = plugin_id H plugin,
         at_authority = ''host-runtime'', at_issuer = [], at_kid = [], at_observed_at = 0,
         at_evidence_digest = [], at_artifact_digest = []\<rparr>)"

end
