(* ===== verification/Coordinator_Invariant.thy ===== *)
theory Coordinator_Invariant
  imports Durable_Coordinator
begin

text \<open>
  Symbolic execution of the coordinator's operations, the invariant of its store and that every
  operation keeps it, whether it returns or raises at any of its calls: plans are stored under their
  content hash and never twice, the journal has a legal path of transitions from \<open>Planned\<close> to the
  state of every activation, its sequence numbers increase, an evidence nonce is stored once, and the
  inventory has one row per process of a plan. A plan read back from the store is the plan that was
  given, up to the order of keys in its opaque rendered inputs.
\<close>

section \<open>Symbolic execution\<close>

declare wp_return_any [simp] wp_raise_any [simp]

lemma wp_co_mod [simp]: "wp (co_mod f) Q R s = Q () (s\<lparr>cs_db := f (cs_db s)\<rparr>)"
  by (simp add: co_mod_def)

lemma wp_co_now [simp]:
  "wp (co_now E) Q R s = Q (ce_clock E (cs_ticks s)) (s\<lparr>cs_ticks := cs_ticks s + 1\<rparr>)"
  by (simp add: co_now_def)

lemma wp_co_row [simp]:
  "wp (co_row pid) Q R s = (case find_activation pid (cd_activation (cs_db s)) of
     None \<Rightarrow> R (ContractErr UNKNOWN_RESOURCE) s | Some row \<Rightarrow> Q row s)"
  by (simp add: co_row_def split: option.splits)

lemma wp_lift_res_co [simp]:
  "wp (lift_res r) Q R s = (case r of Inl e \<Rightarrow> R e s | Inr x \<Rightarrow> Q x s)"
  by (simp add: lift_res_def split: sum.splits)

lemma wp_co_journal [simp]:
  "wp (co_journal E pid kind opn det) Q R s =
   Q () (s\<lparr>cs_ticks := cs_ticks s + 1, cs_db := insert_journal pid kind opn det (ce_clock E (cs_ticks s)) (cs_db s)\<rparr>)"
  by (simp add: co_journal_def)

text \<open>The store after a legal transition.\<close>

definition co_moved :: "string \<Rightarrow> ecpa_state \<Rightarrow> ecpa_state \<Rightarrow> int \<Rightarrow> co_db \<Rightarrow> co_db" where
  "co_moved pid current target now d =
     insert_journal pid ''transition'' (state_value target) (JObj [(''from'', JStr (state_value current))]) now
       (update_activation pid (\<lambda>a. a\<lparr>av_state := target\<rparr>) d)"

lemma wp_co_transition [simp]:
  "wp (co_transition E pid target) Q R s = (case find_activation pid (cd_activation (cs_db s)) of
     None \<Rightarrow> R (ContractErr UNKNOWN_RESOURCE) s
   | Some row \<Rightarrow>
       if av_state row = St_RESOLVED then R (PyErr KeyError) s
       else if target \<notin> set (TRANSITIONS (av_state row)) then R (ContractErr INVALID_TRANSITION) s
       else Q () (s\<lparr>cs_ticks := cs_ticks s + 1,
         cs_db := co_moved pid (av_state row) target (ce_clock E (cs_ticks s)) (cs_db s)\<rparr>))"
  by (simp add: co_transition_def Let_def co_moved_def split: option.splits)

lemma wp_insert_outcome [simp]:
  "wp (insert_outcome pid ok det E) Q R s = Q () (s\<lparr>cs_ticks := cs_ticks s + 1,
     cs_db := (cs_db s)\<lparr>cd_outcome := cd_outcome (cs_db s) @ [\<lparr>or_plan_id = pid, or_success = ok,
        or_detail = canon det, or_created_at = ce_clock E (cs_ticks s)\<rparr>]\<rparr>\<rparr>)"
  by (simp add: insert_outcome_def)

section \<open>Programs that leave the store alone\<close>

lemma frames_co_world [frame_intros]: "frames cs_db (co_world m)"
  by (simp add: frames_def co_world_def zoom_x_def split: prod.splits sum.splits)

lemma frames_on_gate [frame_intros]: "frames cs_db (on_gate m)"
  unfolding on_gate_def
  by (intro frame_intros) (simp add: frames_def zoom_x_def split: prod.splits sum.splits)

lemma frames_co_now [frame_intros]: "frames cs_db (co_now E)"
  by (rule framesI) simp

lemma frames_faults_hit [frame_intros]: "frames cs_db (faults_hit point)"
  by (rule framesI) (simp add: faults_hit_def)

lemma frames_exposure_gate [frame_intros]: "frames cs_db exposure_gate"
  by (rule framesI) (simp add: exposure_gate_def)

lemma frames_lift_res_co [frame_intros]: "frames cs_db (lift_res r)"
  by (rule framesI) (simp split: sum.splits)

lemma frames_co_row [frame_intros]: "frames cs_db (co_row pid)"
  by (rule framesI) (simp split: option.splits)

lemma frames_co_plan_of [frame_intros]: "frames cs_db (co_plan_of pid)"
  unfolding co_plan_of_def by (intro frame_intros)

lemma frames_gate_fail_class [frame_intros]: "frames cs_db (gate_fail_class E g r)"
  unfolding gate_fail_class_def by (intro frame_intros)

lemma frames_rollback_traffic [frame_intros]: "frames cs_db (rollback_traffic E g e)"
  unfolding rollback_traffic_def by (intro frame_intros)

lemma frames_co_open_proof [frame_intros]: "frames cs_db (co_open_proof E p g)"
  unfolding co_open_proof_def Let_def by (intro frame_intros)

lemma frames_commit_expose [frame_intros]: "frames cs_db (commit_expose A E p g)"
  unfolding commit_expose_def by (intro frame_intros)

section \<open>The invariant of the store\<close>

text \<open>The recorded transitions of a plan, and legal sequences of states.\<close>

definition plan_trace :: "string \<Rightarrow> journal_row list \<Rightarrow> string list" where
  "plan_trace pid rows = map jr_operation (filter (\<lambda>j. jr_plan_id j = pid \<and> jr_kind j = ''transition'') rows)"

fun chain :: "ecpa_state \<Rightarrow> ecpa_state list \<Rightarrow> bool" where
  "chain st [] = True"
| "chain st (t # ts) \<longleftrightarrow> t \<in> set (TRANSITIONS st) \<and> chain t ts"

definition explained :: "journal_row list \<Rightarrow> activation_row \<Rightarrow> bool" where
  "explained rows a \<longleftrightarrow> (\<exists>sts. plan_trace (av_plan_id a) rows = ''plan'' # map state_value sts
     \<and> chain St_PLANNED sts \<and> last (St_PLANNED # sts) = av_state a)"

definition activation_ok :: "(string \<Rightarrow> string) \<Rightarrow> activation_row \<Rightarrow> bool" where
  "activation_ok H a \<longleftrightarrow> (\<exists>p. plan_from_json (av_plan_json a) = Inr p \<and> plan_id H p = av_plan_id a
     \<and> obligations_ok p)"

definition plan_ids :: "co_db \<Rightarrow> string list" where
  "plan_ids d = map av_plan_id (cd_activation d)"

definition journal_ok :: "co_db \<Rightarrow> bool" where
  "journal_ok d \<longleftrightarrow> sorted_wrt (<) (map jr_sequence (cd_journal d))
     \<and> (\<forall>j \<in> set (cd_journal d). jr_sequence j \<le> cd_sequence d
          \<and> jr_plan_id j \<in> set (plan_ids d))"

definition co_inv :: "(string \<Rightarrow> string) \<Rightarrow> co_db \<Rightarrow> bool" where
  "co_inv H d \<longleftrightarrow> distinct (plan_ids d)
     \<and> (\<forall>a \<in> set (cd_activation d). activation_ok H a \<and> explained (cd_journal d) a)
     \<and> journal_ok d
     \<and> distinct (map ed_nonce (cd_evidence d))
     \<and> distinct (map (\<lambda>i. (iv_plan_id i, iv_role i, iv_ordinal i)) (cd_inventory d))"

lemma chain_append: "chain st (xs @ [t]) \<longleftrightarrow> chain st xs \<and> t \<in> set (TRANSITIONS (last (st # xs)))"
  by (induction st xs rule: chain.induct) auto

lemma find_activation_Some:
  "find_activation pid rows = Some a \<Longrightarrow> a \<in> set rows \<and> av_plan_id a = pid"
  by (auto simp: find_activation_def find_Some_iff)

lemma find_activation_update:
  "(\<And>a. av_plan_id (f a) = av_plan_id a) \<Longrightarrow>
   find_activation pid (map (\<lambda>a. if av_plan_id a = pid' then f a else a) rows)
   = map_option (\<lambda>a. if av_plan_id a = pid' then f a else a) (find_activation pid rows)"
  by (induction rows) (auto simp: find_activation_def)

lemma plan_ids_update [simp]:
  "(\<And>a. av_plan_id (f a) = av_plan_id a) \<Longrightarrow> plan_ids (update_activation pid f d) = plan_ids d"
  by (simp add: plan_ids_def update_activation_def)

lemma find_activation_ids: "find_activation pid (cd_activation d) = Some a \<Longrightarrow> pid \<in> set (plan_ids d)"
  using find_activation_Some by (force simp: plan_ids_def)

lemma find_activation_None: "find_activation pid (cd_activation d) = None \<longleftrightarrow> pid \<notin> set (plan_ids d)"
  by (auto simp: find_activation_def find_None_iff plan_ids_def)

lemma insert_journal_simps [simp]:
  "plan_ids (insert_journal pid k opn det now d) = plan_ids d"
  "cd_activation (insert_journal pid k opn det now d) = cd_activation d"
  "cd_evidence (insert_journal pid k opn det now d) = cd_evidence d"
  "cd_inventory (insert_journal pid k opn det now d) = cd_inventory d"
  "cd_generation (insert_journal pid k opn det now d) = cd_generation d"
  "cd_manager_epoch (insert_journal pid k opn det now d) = cd_manager_epoch d"
  by (simp_all add: insert_journal_def plan_ids_def)

lemma update_activation_simps [simp]:
  "cd_evidence (update_activation pid f d) = cd_evidence d"
  "cd_inventory (update_activation pid f d) = cd_inventory d"
  "cd_journal (update_activation pid f d) = cd_journal d"
  "cd_sequence (update_activation pid f d) = cd_sequence d"
  "cd_generation (update_activation pid f d) = cd_generation d"
  "cd_manager_epoch (update_activation pid f d) = cd_manager_epoch d"
  by (simp_all add: update_activation_def)

lemma journal_ok_insert:
  "journal_ok d \<Longrightarrow> pid \<in> set (plan_ids d) \<Longrightarrow> journal_ok (insert_journal pid k opn det now d)"
  by (auto simp: journal_ok_def sorted_wrt_append) (auto simp: insert_journal_def sorted_wrt_append less_Suc_eq_le)

lemma explained_other:
  "explained (cd_journal d) a \<Longrightarrow> k \<noteq> ''transition'' \<or> pid \<noteq> av_plan_id a \<Longrightarrow>
   explained (cd_journal (insert_journal pid k opn det now d)) a"
  by (auto simp: explained_def plan_trace_def insert_journal_def)

text \<open>A journal row that is no transition, for a plan of the store.\<close>

lemma co_inv_journal:
  assumes "co_inv H d" and "pid \<in> set (plan_ids d)" and "k \<noteq> ''transition''"
  shows "co_inv H (insert_journal pid k opn det now d)"
  using assms by (auto simp: co_inv_def intro: journal_ok_insert explained_other)

lemma co_inv_update:
  assumes inv: "co_inv H d"
    and f: "\<And>a. av_plan_id (f a) = av_plan_id a \<and> av_plan_json (f a) = av_plan_json a \<and> av_state (f a) = av_state a"
  shows "co_inv H (update_activation pid f d)"
proof -
  have same: "activation_ok H (f a) = activation_ok H a" "explained rows (f a) = explained rows a" for a rows
    using f by (simp_all add: activation_ok_def explained_def)
  have "activation_ok H b \<and> explained (cd_journal d) b" if "b \<in> set (cd_activation (update_activation pid f d))" for b
    using inv that same by (auto simp: co_inv_def update_activation_def split: if_splits)
  then show ?thesis using inv f by (simp add: co_inv_def journal_ok_def)
qed

text \<open>A legal transition.\<close>

lemma co_inv_moved:
  assumes inv: "co_inv H d" and a: "find_activation pid (cd_activation d) = Some a"
    and legal: "target \<in> set (TRANSITIONS (av_state a))"
  shows "co_inv H (co_moved pid (av_state a) target now d)"
proof -
  let ?d = "update_activation pid (\<lambda>a. a\<lparr>av_state := target\<rparr>) d"
  let ?j = "cd_journal (co_moved pid (av_state a) target now d)"
  have aS: "a \<in> set (cd_activation d)" "av_plan_id a = pid" using find_activation_Some [OF a] by auto
  have uniq: "x = a" if "x \<in> set (cd_activation d)" "av_plan_id x = pid" for x
    using inv aS that by (auto simp: co_inv_def plan_ids_def distinct_map inj_on_def)
  have trace: "plan_trace q ?j = plan_trace q (cd_journal d) @ (if q = pid then [state_value target] else [])" for q
    by (auto simp: plan_trace_def co_moved_def insert_journal_def)
  have old: "explained (cd_journal d) x" "activation_ok H x" if "x \<in> set (cd_activation d)" for x
    using inv that by (simp_all add: co_inv_def)
  have "explained ?j (a\<lparr>av_state := target\<rparr>)"
  proof -
    obtain sts where sts: "plan_trace pid (cd_journal d) = ''plan'' # map state_value sts"
      "chain St_PLANNED sts" "last (St_PLANNED # sts) = av_state a"
      using old(1) [OF aS(1)] aS(2) by (auto simp: explained_def)
    then have "chain St_PLANNED (sts @ [target])" using legal by (simp add: chain_append)
    then show ?thesis
      using aS sts trace by (auto simp: explained_def intro!: exI [of _ "sts @ [target]"])
  qed
  moreover have "activation_ok H (a\<lparr>av_state := target\<rparr>)" using old(2) [OF aS(1)] by (simp add: activation_ok_def)
  moreover have "explained ?j x" if "x \<in> set (cd_activation d)" "av_plan_id x \<noteq> pid" for x
    using old(1) [OF that(1)] that(2) trace by (auto simp: explained_def)
  ultimately have rows: "activation_ok H b \<and> explained ?j b" if "b \<in> set (cd_activation ?d)" for b
    using that uniq old(2) by (auto simp: update_activation_def split: if_splits)
  moreover have "journal_ok (co_moved pid (av_state a) target now d)"
    unfolding co_moved_def using inv find_activation_ids [OF a]
    by (intro journal_ok_insert) (auto simp: co_inv_def journal_ok_def)
  ultimately show ?thesis
    using inv rows by (simp add: co_inv_def co_moved_def)
qed

section \<open>A stored plan is read back\<close>

lemma kwargs_ok_canon: "kwargs_ok req opt (canon v) = kwargs_ok req opt v"
  by (cases v) (simp_all add: kwargs_ok_def image_image case_prod_unfold)

lemma map_res_map: "(\<And>x. f (g x) = Inr (h x)) \<Longrightarrow> map_res f (map g xs) = Inr (map h xs)"
  by (induction xs) auto

lemmas field_defs = str_field_def int_field_def arr_field_def any_field_def opt_str_field_def guard_res_def

lemma plugin_round_trip: "plugin_of_dict (canon (plugin_dict p)) = Inr p"
  unfolding plugin_of_dict_def kwargs_ok_canon
  by (simp add: field_defs plugin_dict_def kwargs_ok_def jget_canon del: canon.simps(2))

lemma host_round_trip: "host_of_dict (canon (host_dict h)) = Inr h"
  unfolding host_of_dict_def kwargs_ok_canon
  by (simp add: field_defs host_dict_def kwargs_ok_def jget_canon del: canon.simps(2))

lemma claim_round_trip: "claim_of_dict (canon (claim_dict c)) = Inr c"
  unfolding claim_of_dict_def kwargs_ok_canon
  by (simp add: field_defs claim_dict_def kwargs_ok_def jget_canon del: canon.simps(2))

lemma obligation_round_trip: "obligation_of_dict (canon (obligation_dict b)) = Inr b"
proof -
  have "map_res json_int (map (canon \<circ> JInt) xs) = Inr xs" for xs
    using map_res_map [of json_int "canon \<circ> JInt" id xs] by (simp add: json_int_def)
  then show ?thesis
    unfolding obligation_of_dict_def
    by (simp add: field_defs obligation_dict_def jget_canon del: canon.simps(2))
qed

text \<open>A plan as it comes back from the store.\<close>

definition predecessor_canon :: "predecessor_snapshot \<Rightarrow> predecessor_snapshot" where
  "predecessor_canon pre = pre\<lparr>ps_rendered_inputs := canon (ps_rendered_inputs pre)\<rparr>"

definition plan_canon :: "plan \<Rightarrow> plan" where
  "plan_canon p = p\<lparr>plan_predecessor := predecessor_canon (plan_predecessor p)\<rparr>"

lemma predecessor_round_trip: "predecessor_of_dict (canon (predecessor_dict pre)) = Inr (predecessor_canon pre)"
  unfolding predecessor_of_dict_def kwargs_ok_canon
  by (simp add: field_defs predecessor_dict_def predecessor_canon_def kwargs_ok_def jget_canon
      opt_str_def split: option.splits del: canon.simps(2))

lemma plan_read_back: "plan_from_json (canon (plan_dict p)) = Inr (plan_canon p)"
proof -
  have lists: "map_res plugin_of_dict (map (canon \<circ> plugin_dict) xs) = Inr xs"
    "map_res claim_of_dict (map (canon \<circ> claim_dict) cs) = Inr cs"
    "map_res obligation_of_dict (map (canon \<circ> obligation_dict) bs) = Inr bs" for xs cs bs
    using map_res_map [of plugin_of_dict "canon \<circ> plugin_dict" id] map_res_map [of claim_of_dict "canon \<circ> claim_dict" id]
      map_res_map [of obligation_of_dict "canon \<circ> obligation_dict" id]
    by (simp_all add: plugin_round_trip claim_round_trip obligation_round_trip)
  show ?thesis
    unfolding plan_from_json_def
    by (simp add: field_defs plan_dict_def jget_canon lists host_round_trip predecessor_round_trip
        plan_canon_def del: canon.simps(2))
qed

lemma canon_plan_dict: "canon (plan_dict (plan_canon p)) = canon (plan_dict p)"
proof -
  have "canon (predecessor_dict (predecessor_canon pre)) = canon (predecessor_dict pre)" for pre
    by (simp add: predecessor_dict_def predecessor_canon_def)
  then show ?thesis by (simp add: plan_dict_def plan_canon_def)
qed

lemma plan_id_canon [simp]: "plan_id H (plan_canon p) = plan_id H p"
proof -
  have "dumps False (plan_dict (plan_canon p)) = dumps False (plan_dict p)"
    using dumps_canon [of False] canon_plan_dict by metis
  then show ?thesis by (simp add: plan_id_def content_id_def canonical_bytes_def)
qed

lemma obligations_ok_canon [simp]: "obligations_ok (plan_canon p) = obligations_ok p"
  by (simp add: obligations_ok_def plan_canon_def)

section \<open>The other changes of the store\<close>

lemma co_inv_schema: "co_inv H co_schema"
  by (simp add: co_inv_def co_schema_def plan_ids_def journal_ok_def)

lemma find_activation_no_trace:
  "journal_ok d \<Longrightarrow> pid \<notin> set (plan_ids d) \<Longrightarrow> plan_trace pid (cd_journal d) = []"
  by (auto simp: journal_ok_def plan_trace_def filter_empty_conv)

text \<open>A new plan with its first journal row.\<close>

definition planned :: "(string \<Rightarrow> string) \<Rightarrow> plan \<Rightarrow> int \<Rightarrow> int \<Rightarrow> co_db \<Rightarrow> co_db" where
  "planned H p now now' d =
     insert_journal (plan_id H p) ''transition'' ''plan'' (JObj [(''state'', JStr ''Planned'')]) now'
       (d\<lparr>cd_activation := cd_activation d @
         [\<lparr>av_plan_id = plan_id H p, av_plan_json = canon (plan_dict p), av_state = St_PLANNED,
           av_launch_id = None, av_predecessor_json = canon (predecessor_dict (plan_predecessor p)),
           av_created_at = now\<rparr>]\<rparr>)"

lemma co_inv_planned:
  assumes inv: "co_inv H d" and ok: "obligations_ok p"
    and new: "find_activation (plan_id H p) (cd_activation d) = None"
  shows "co_inv H (planned H p now now' d)"
proof -
  let ?pid = "plan_id H p" and ?d = "planned H p now now' d"
  have fresh: "?pid \<notin> set (plan_ids d)" using new by (simp add: find_activation_None)
  have jok: "journal_ok d" using inv by (simp add: co_inv_def)
  have trace: "plan_trace q (cd_journal ?d) = plan_trace q (cd_journal d) @ (if q = ?pid then [''plan''] else [])" for q
    by (auto simp: plan_trace_def planned_def insert_journal_def)
  have "explained (cd_journal ?d) a" if "a \<in> set (cd_activation d)" for a
  proof -
    have "av_plan_id a \<in> set (plan_ids d)" using that by (simp add: plan_ids_def)
    then have "av_plan_id a \<noteq> ?pid" using fresh by auto
    then show ?thesis using inv that trace by (auto simp: co_inv_def explained_def)
  qed
  moreover have "explained (cd_journal ?d) a" if "av_plan_id a = ?pid" "av_state a = St_PLANNED" for a
    using that trace find_activation_no_trace [OF jok fresh] by (auto simp: explained_def intro!: exI [of _ "[]"])
  moreover have "activation_ok H a" if "av_plan_id a = ?pid" "av_plan_json a = canon (plan_dict p)" for a
    using that ok by (simp add: activation_ok_def plan_read_back)
  moreover have "journal_ok ?d"
    unfolding planned_def using jok
    by (intro journal_ok_insert) (auto simp: journal_ok_def plan_ids_def)
  ultimately show ?thesis
    using inv fresh by (auto simp: co_inv_def planned_def plan_ids_def)
qed

lemma plan_trace_delete:
  "q \<noteq> pid \<Longrightarrow> plan_trace q (filter (\<lambda>j. jr_plan_id j \<noteq> pid) rows) = plan_trace q rows"
  by (induction rows) (auto simp: plan_trace_def)

lemma co_inv_delete_plan: "co_inv H d \<Longrightarrow> co_inv H (delete_plan pid d)"
  unfolding co_inv_def
proof (elim conjE, intro conjI)
  assume d: "distinct (plan_ids d)" "journal_ok d"
    "\<forall>a \<in> set (cd_activation d). activation_ok H a \<and> explained (cd_journal d) a"
  show "distinct (plan_ids (delete_plan pid d))"
    using d(1) by (simp add: delete_plan_def plan_ids_def distinct_map_filter)
  show "\<forall>a \<in> set (cd_activation (delete_plan pid d)). activation_ok H a \<and> explained (cd_journal (delete_plan pid d)) a"
    using d(3) by (auto simp: delete_plan_def explained_def plan_trace_delete)
  have "sorted_wrt (<) (map jr_sequence (filter P rows))" if "sorted_wrt (<) (map jr_sequence rows)" for P rows
    using that by (induction rows) auto
  then show "journal_ok (delete_plan pid d)"
    using d(2) by (auto simp: journal_ok_def delete_plan_def plan_ids_def)
qed (simp_all add: delete_plan_def)

lemma co_inv_same:
  assumes "co_inv H d" and "cd_activation d' = cd_activation d" and "cd_journal d' = cd_journal d"
    and "cd_sequence d' = cd_sequence d" and "distinct (map ed_nonce (cd_evidence d'))"
    and "distinct (map (\<lambda>i. (iv_plan_id i, iv_role i, iv_ordinal i)) (cd_inventory d'))"
  shows "co_inv H d'"
  using assms by (simp add: co_inv_def journal_ok_def plan_ids_def)

section \<open>Commits and progress\<close>

text \<open>
  The WAL rows of commits. The generation is their number; the \<open>n\<close>-th is of a plan whose predecessor
  has generation \<open>n\<close>.
\<close>

definition is_commit :: "journal_row \<Rightarrow> bool" where
  "is_commit j \<longleftrightarrow> jr_kind j = ''wal'' \<and> jr_operation j = ''commit''"

definition commits :: "co_db \<Rightarrow> journal_row list" where
  "commits d = filter is_commit (cd_journal d)"

definition base_generation :: "activation_row \<Rightarrow> int option" where
  "base_generation a = (case plan_from_json (av_plan_json a) of
     Inl _ \<Rightarrow> None | Inr p \<Rightarrow> Some (ps_generation (plan_predecessor p)))"

definition commit_row_ok :: "co_db \<Rightarrow> int \<Rightarrow> journal_row \<Rightarrow> bool" where
  "commit_row_ok d n j \<longleftrightarrow> jr_detail j = JObj [(''from'', JInt n)]
     \<and> (\<exists>a \<in> set (cd_activation d). av_plan_id a = jr_plan_id j \<and> base_generation a = Some n)"

definition commits_ok :: "co_db \<Rightarrow> bool" where
  "commits_ok d \<longleftrightarrow> cd_generation d = int (length (commits d))
     \<and> (\<forall>n < length (commits d). commit_row_ok d (int n) (commits d ! n))"

text \<open>The store only grows, and an activation moves along its transitions.\<close>

definition row_le :: "activation_row \<Rightarrow> activation_row \<Rightarrow> bool" where
  "row_le a b \<longleftrightarrow> av_plan_id b = av_plan_id a \<and> av_plan_json b = av_plan_json a
     \<and> (\<exists>sts. chain (av_state a) sts \<and> last (av_state a # sts) = av_state b)"

definition co_le :: "co_db \<Rightarrow> co_db \<Rightarrow> bool" where
  "co_le d d' \<longleftrightarrow> cd_generation d \<le> cd_generation d' \<and> cd_manager_epoch d \<le> cd_manager_epoch d'
     \<and> (\<exists>more. cd_journal d' = cd_journal d @ more)
     \<and> (\<exists>more. cd_outcome d' = cd_outcome d @ more)
     \<and> (\<exists>more. map ed_nonce (cd_evidence d') = map ed_nonce (cd_evidence d) @ more)
     \<and> (\<forall>a \<in> set (cd_activation d). \<exists>b \<in> set (cd_activation d'). row_le a b)"

definition co_good :: "(string \<Rightarrow> string) \<Rightarrow> co_db \<Rightarrow> co_db \<Rightarrow> bool" where
  "co_good H d0 d \<longleftrightarrow> co_inv H d \<and> commits_ok d \<and> co_le d0 d"

lemma chain_append_iff: "chain st (xs @ ys) \<longleftrightarrow> chain st xs \<and> chain (last (st # xs)) ys"
  by (induction st xs rule: chain.induct) auto

lemma row_le_refl [simp]: "row_le a a"
  by (auto simp: row_le_def intro: exI [of _ "[]"])

lemma row_le_trans: "row_le a b \<Longrightarrow> row_le b c \<Longrightarrow> row_le a c"
proof -
  assume ab: "row_le a b" and bc: "row_le b c"
  obtain xs where xs: "chain (av_state a) xs" "last (av_state a # xs) = av_state b"
    using ab by (auto simp: row_le_def)
  obtain ys where ys: "chain (av_state b) ys" "last (av_state b # ys) = av_state c"
    using bc by (auto simp: row_le_def)
  have "chain (av_state a) (xs @ ys)" "last (av_state a # (xs @ ys)) = av_state c"
    using xs ys by (auto simp: chain_append_iff split: if_splits)
  then have "\<exists>sts. chain (av_state a) sts \<and> last (av_state a # sts) = av_state c" by blast
  then show ?thesis using ab bc by (simp only: row_le_def simp_thms)
qed

lemma row_le_move: "target \<in> set (TRANSITIONS (av_state a)) \<Longrightarrow> row_le a (a\<lparr>av_state := target\<rparr>)"
  unfolding row_le_def by (intro conjI exI [of _ "[target]"]) simp_all

lemma co_le_refl [simp]: "co_le d d"
  by (auto simp: co_le_def intro: row_le_refl)

lemma co_le_trans: "co_le a b \<Longrightarrow> co_le b c \<Longrightarrow> co_le a c"
proof -
  assume ab: "co_le a b" and bc: "co_le b c"
  have "\<exists>z \<in> set (cd_activation c). row_le x z" if "x \<in> set (cd_activation a)" for x
    using ab bc that unfolding co_le_def by (meson row_le_trans)
  then show ?thesis using ab bc by (auto simp: co_le_def)
qed

lemma co_goodI [intro]: "co_inv H d \<Longrightarrow> commits_ok d \<Longrightarrow> co_good H d d"
  by (simp add: co_good_def)

lemma base_generation_json: "av_plan_json a = av_plan_json b \<Longrightarrow> base_generation a = base_generation b"
  by (simp add: base_generation_def)

lemma commit_row_ok_mono: "commit_row_ok d n j \<Longrightarrow> co_le d d' \<Longrightarrow> commit_row_ok d' n j"
  unfolding commit_row_ok_def co_le_def row_le_def
  by (metis base_generation_json)

lemma commits_ok_mono:
  "commits_ok d \<Longrightarrow> commits d' = commits d \<Longrightarrow> cd_generation d' = cd_generation d \<Longrightarrow> co_le d d' \<Longrightarrow> commits_ok d'"
  by (auto simp: commits_ok_def intro: commit_row_ok_mono)

lemma co_good_next:
  "co_good H d0 d \<Longrightarrow> co_inv H d' \<Longrightarrow> co_le d d' \<Longrightarrow> commits d' = commits d \<Longrightarrow>
   cd_generation d' = cd_generation d \<Longrightarrow> co_good H d0 d'"
  by (auto simp: co_good_def intro: co_le_trans commits_ok_mono)

lemma commits_insert_journal:
  "commits (insert_journal pid k opn det now d) =
   commits d @ (if k = ''wal'' \<and> opn = ''commit''
     then [\<lparr>jr_sequence = cd_sequence d + 1, jr_plan_id = pid, jr_kind = k, jr_operation = opn,
            jr_detail = canon det, jr_created_at = now\<rparr>] else [])"
  by (simp add: commits_def insert_journal_def is_commit_def)

lemma co_le_insert_journal [simp]: "co_le d (insert_journal pid k opn det now d)"
  by (auto simp: co_le_def insert_journal_def intro: row_le_refl)

lemma good_journal:
  "co_good H d0 d \<Longrightarrow> pid \<in> set (plan_ids d) \<Longrightarrow> k \<noteq> ''transition'' \<Longrightarrow> k \<noteq> ''wal'' \<or> opn \<noteq> ''commit'' \<Longrightarrow>
   co_good H d0 (insert_journal pid k opn det now d)"
  by (rule co_good_next, assumption) (auto simp: co_good_def commits_insert_journal intro: co_inv_journal)

lemma co_le_update:
  assumes "\<And>a. a \<in> set (cd_activation d) \<Longrightarrow> av_plan_id a = pid \<Longrightarrow> row_le a (f a)"
  shows "co_le d (update_activation pid f d)"
proof -
  have "\<exists>b \<in> set (cd_activation (update_activation pid f d)). row_le a b" if "a \<in> set (cd_activation d)" for a
  proof (cases "av_plan_id a = pid")
    case True
    then show ?thesis using that assms by (intro bexI [of _ "f a"]) (force simp: update_activation_def)+
  next
    case False
    then show ?thesis using that by (intro bexI [of _ a]) (force simp: update_activation_def)+
  qed
  then show ?thesis by (simp add: co_le_def) (simp add: update_activation_def)
qed

lemma good_launch_id:
  assumes "co_good H d0 d"
  shows "co_good H d0 (update_activation pid (\<lambda>a. a\<lparr>av_launch_id := l\<rparr>) d)"
  using assms
proof (rule co_good_next)
  show "co_inv H (update_activation pid (\<lambda>a. a\<lparr>av_launch_id := l\<rparr>) d)"
    using assms by (auto simp: co_good_def intro!: co_inv_update)
  show "co_le d (update_activation pid (\<lambda>a. a\<lparr>av_launch_id := l\<rparr>) d)"
    by (rule co_le_update) (auto simp: row_le_def intro: exI [of _ "[]"])
qed (simp_all add: commits_def)

lemma co_le_moved:
  assumes inv: "co_inv H d" and a: "find_activation pid (cd_activation d) = Some a"
    and legal: "target \<in> set (TRANSITIONS (av_state a))"
  shows "co_le d (co_moved pid (av_state a) target now d)"
proof -
  have "x = a" if "x \<in> set (cd_activation d)" "av_plan_id x = pid" for x
    using inv find_activation_Some [OF a] that by (auto simp: co_inv_def plan_ids_def distinct_map inj_on_def)
  then have "co_le d (update_activation pid (\<lambda>a. a\<lparr>av_state := target\<rparr>) d)"
    using legal by (intro co_le_update) (auto intro: row_le_move)
  then show ?thesis unfolding co_moved_def by (rule co_le_trans) simp
qed

lemma good_moved:
  assumes good: "co_good H d0 d" and a: "find_activation pid (cd_activation d) = Some a"
    and legal: "target \<in> set (TRANSITIONS (av_state a))"
  shows "co_good H d0 (co_moved pid (av_state a) target now d)"
  using good
proof (rule co_good_next)
  show "co_inv H (co_moved pid (av_state a) target now d)"
    using good co_inv_moved [OF _ a legal] by (simp add: co_good_def)
  show "co_le d (co_moved pid (av_state a) target now d)"
    using good by (auto simp: co_good_def intro: co_le_moved [OF _ a legal])
qed (simp_all add: co_moved_def commits_insert_journal, simp add: commits_def)

lemma good_planned:
  assumes good: "co_good H d0 d" and ok: "obligations_ok p"
    and new: "find_activation (plan_id H p) (cd_activation d) = None"
  shows "co_good H d0 (planned H p now now' d)"
  using good
proof (rule co_good_next)
  show "co_inv H (planned H p now now' d)" using good ok new by (simp add: co_good_def co_inv_planned)
  show "co_le d (planned H p now now' d)"
    by (auto simp: planned_def insert_journal_def co_le_def intro: row_le_refl)
qed (simp_all add: planned_def commits_insert_journal, simp add: commits_def)

text \<open>Deleting the plan that was just inserted.\<close>

lemma delete_planned:
  assumes "journal_ok d" and "find_activation (plan_id H p) (cd_activation d) = None"
  shows "delete_plan (plan_id H p) (planned H p now now' d) = d\<lparr>cd_sequence := cd_sequence d + 1\<rparr>"
proof -
  have new: "plan_id H p \<notin> set (plan_ids d)" using assms(2) by (simp add: find_activation_None)
  have "filter (\<lambda>j. jr_plan_id j \<noteq> plan_id H p) (cd_journal d) = cd_journal d"
    using assms(1) new by (intro filter_True) (auto simp: journal_ok_def)
  moreover have "filter (\<lambda>a. av_plan_id a \<noteq> plan_id H p) (cd_activation d) = cd_activation d"
    using new by (intro filter_True) (force simp: plan_ids_def)
  ultimately show ?thesis by (simp add: delete_plan_def planned_def insert_journal_def)
qed

lemma good_sequence:
  "co_good H d0 d \<Longrightarrow> co_good H d0 (d\<lparr>cd_sequence := cd_sequence d + 1\<rparr>)"
  by (rule co_good_next, assumption)
     (auto simp: co_good_def co_inv_def journal_ok_def plan_ids_def commits_def co_le_def intro: row_le_refl)

lemma good_outcome: "co_good H d0 d \<Longrightarrow> co_good H d0 (d\<lparr>cd_outcome := cd_outcome d @ rows\<rparr>)"
  by (rule co_good_next, assumption)
     (auto simp: co_good_def co_inv_def journal_ok_def plan_ids_def commits_def co_le_def intro: row_le_refl)

lemma co_le_same_rows:
  assumes "cd_activation d' = cd_activation d" and "cd_journal d' = cd_journal d"
    and "cd_generation d' = cd_generation d" and "cd_manager_epoch d \<le> cd_manager_epoch d'"
    and "cd_outcome d' = cd_outcome d" and "map ed_nonce (cd_evidence d') = map ed_nonce (cd_evidence d) @ extra"
  shows "co_le d d'"
  unfolding co_le_def assms(1,2,3,5,6)
  using assms(4) by (intro conjI) (blast intro: row_le_refl | simp)+

lemma good_store:
  assumes "co_good H d0 d" and "cd_activation d' = cd_activation d" and "cd_journal d' = cd_journal d"
    and "cd_sequence d' = cd_sequence d" and "cd_generation d' = cd_generation d"
    and "cd_manager_epoch d \<le> cd_manager_epoch d'" and "cd_outcome d' = cd_outcome d"
    and "map ed_nonce (cd_evidence d') = map ed_nonce (cd_evidence d) @ extra"
    and "distinct (map ed_nonce (cd_evidence d'))"
    and "distinct (map (\<lambda>i. (iv_plan_id i, iv_role i, iv_ordinal i)) (cd_inventory d'))"
  shows "co_good H d0 d'"
  using assms(1)
proof (rule co_good_next)
  show "co_inv H d'"
    using assms(1) by (intro co_inv_same [OF _ assms(2,3,4,9,10)]) (simp add: co_good_def)
  show "co_le d d'" by (rule co_le_same_rows [OF assms(2,3,5,6,7,8)])
qed (use assms(3,5) in \<open>simp_all add: commits_def\<close>)

lemma good_distinct:
  "co_good H d0 d \<Longrightarrow> distinct (map ed_nonce (cd_evidence d))
     \<and> distinct (map (\<lambda>i. (iv_plan_id i, iv_role i, iv_ordinal i)) (cd_inventory d))"
  by (simp add: co_good_def co_inv_def)

lemma good_inventory:
  assumes "co_good H d0 d" and "distinct (map (\<lambda>p. (pr_role p, pr_ordinal p)) ps)"
  shows "co_good H d0 (d\<lparr>cd_inventory := filter (\<lambda>i. iv_plan_id i \<noteq> pid) (cd_inventory d) @ map (inventory_of pid) ps\<rparr>)"
proof -
  have "distinct (map (\<lambda>i. (iv_plan_id i, iv_role i, iv_ordinal i)) (map (inventory_of pid) ps))"
    using assms(2) by (auto simp: distinct_map inj_on_def inventory_of_def)
  then show ?thesis
    using good_distinct [OF assms(1)]
    by (intro good_store [OF assms(1), where extra = "[]"]) (auto simp: distinct_map_filter inventory_of_def)
qed

lemma map_nonce_keep:
  "(\<And>e. ed_nonce (f e) = ed_nonce e) \<Longrightarrow> map ed_nonce (map f es) = map ed_nonce es"
  by simp

lemma good_evidence_map:
  assumes "co_good H d0 d" and "\<And>e. ed_nonce (f e) = ed_nonce e"
  shows "co_good H d0 (d\<lparr>cd_evidence := map f (cd_evidence d)\<rparr>)"
  using good_distinct [OF assms(1)] assms(2)
  by (intro good_store [OF assms(1), where extra = "[]"]) (simp_all add: map_nonce_keep del: map_map)

lemma good_evidence:
  assumes "co_good H d0 d" and "ed_nonce e \<notin> set (map ed_nonce (cd_evidence d))"
  shows "co_good H d0 (d\<lparr>cd_evidence := cd_evidence d @ [e]\<rparr>)"
  using good_distinct [OF assms(1)] assms(2) by (intro good_store [OF assms(1), where extra = "[ed_nonce e]"]) simp_all

lemma good_epoch:
  assumes "co_good H d0 d"
  shows "co_good H d0 (d\<lparr>cd_manager_epoch := cd_manager_epoch d + 1\<rparr>)"
  using good_distinct [OF assms] by (intro good_store [OF assms, where extra = "[]"]) simp_all

text \<open>The transaction of a commit.\<close>

definition committed :: "string \<Rightarrow> ecpa_state \<Rightarrow> int \<Rightarrow> int \<Rightarrow> int \<Rightarrow> co_db \<Rightarrow> co_db" where
  "committed pid st expected now now' d =
     (insert_journal pid ''wal'' ''commit'' (JObj [(''from'', JInt expected)]) now'
        (co_moved pid st St_COMMIT_READY now d))\<lparr>cd_generation := cd_generation d + 1\<rparr>"

lemma good_committed:
  assumes good: "co_good H d0 d" and a: "find_activation pid (cd_activation d) = Some a"
    and legal: "St_COMMIT_READY \<in> set (TRANSITIONS (av_state a))"
    and base: "base_generation a = Some (cd_generation d)"
  shows "co_good H d0 (committed pid (av_state a) (cd_generation d) now now' d)"
proof -
  let ?m = "co_moved pid (av_state a) St_COMMIT_READY now d"
  let ?d = "committed pid (av_state a) (cd_generation d) now now' d"
  have m: "co_good H d0 ?m" by (rule good_moved [OF good a legal])
  have gen: "cd_generation ?m = cd_generation d" by (simp add: co_moved_def)
  have ids: "pid \<in> set (plan_ids ?m)" using find_activation_ids [OF a] by (simp add: co_moved_def)
  have le: "co_le ?m ?d"
    unfolding committed_def by (auto simp: co_le_def insert_journal_def gen intro: row_le_refl)
  have inv: "co_inv H ?d"
  proof -
    have "co_inv H (insert_journal pid ''wal'' ''commit'' (JObj [(''from'', JInt (cd_generation d))]) now' ?m)"
      using m ids by (auto simp: co_good_def intro!: co_inv_journal)
    then show ?thesis by (simp add: committed_def co_inv_def journal_ok_def plan_ids_def)
  qed
  have old: "commits_ok d" using good by (simp add: co_good_def)
  have app: "commits ?d = commits d @ [\<lparr>jr_sequence = cd_sequence ?m + 1, jr_plan_id = pid, jr_kind = ''wal'',
      jr_operation = ''commit'', jr_detail = JObj [(''from'', JInt (cd_generation d))], jr_created_at = now'\<rparr>]"
    by (simp add: committed_def commits_def co_moved_def insert_journal_def is_commit_def)
  have dle: "co_le d ?d" using co_le_moved [OF _ a legal] good le by (auto simp: co_good_def intro: co_le_trans)
  have "\<exists>b \<in> set (cd_activation ?d). row_le a b"
    using dle find_activation_Some [OF a] by (simp add: co_le_def)
  then have row: "\<exists>b \<in> set (cd_activation ?d). av_plan_id b = pid \<and> base_generation b = Some (cd_generation d)"
    using find_activation_Some [OF a] base by (metis row_le_def base_generation_json)
  have "commit_row_ok ?d (int n) (commits ?d ! n)" if "n < length (commits ?d)" for n
  proof (cases "n < length (commits d)")
    case True
    then show ?thesis using old dle app by (auto simp: commits_ok_def nth_append intro: commit_row_ok_mono)
  next
    case False
    then have "n = length (commits d)" using that app by simp
    then show ?thesis using app row old by (simp add: commit_row_ok_def commits_ok_def)
  qed
  then have "commits_ok ?d" using old app by (simp add: commits_ok_def) (simp add: committed_def)
  then show ?thesis using inv m le by (auto simp: co_good_def intro: co_le_trans)
qed

section \<open>Every operation keeps the store good\<close>

lemma safe_co_tx:
  "I d \<Longrightarrow> (\<And>s. cs_db s = d \<Longrightarrow> wp m (\<lambda>_ t. I (cs_db t)) (\<lambda>_ _. True) s) \<Longrightarrow> safe cs_db I (co_atomic m) d"
  unfolding co_atomic_def by (rule safe_tx) auto

lemma safe_co_tx_then:
  "I d \<Longrightarrow> (\<And>s. cs_db s = d \<Longrightarrow> wp m (\<lambda>_ t. safe cs_db I k (cs_db t)) (\<lambda>_ _. True) s) \<Longrightarrow>
   safe cs_db I (then_x (co_atomic m) k) d"
  unfolding co_atomic_def by (rule safe_tx_then) auto

lemma safe_co_row:
  assumes "I d" and "\<And>a. find_activation pid (cd_activation d) = Some a \<Longrightarrow> safe cs_db I (k a) d"
  shows "safe cs_db I (bind_x (co_row pid) k) d"
  using assms by (auto simp: safe_def split: option.splits)

lemma safe_lift_res:
  "I d \<Longrightarrow> (\<And>p. r = Inr p \<Longrightarrow> safe cs_db I (k p) d) \<Longrightarrow> safe cs_db I (bind_x (lift_res r) k) d"
  by (auto simp: safe_def split: sum.splits)

lemma safe_co_plan_of:
  assumes "I d" and "\<And>a p. find_activation pid (cd_activation d) = Some a \<Longrightarrow>
      plan_from_json (av_plan_json a) = Inr p \<Longrightarrow> safe cs_db I (k p) d"
  shows "safe cs_db I (bind_x (co_plan_of pid) k) d"
  using assms by (auto simp: safe_def co_plan_of_def split: option.splits sum.splits)

lemma good_ids: "co_good H d0 d \<Longrightarrow> pid \<in> set (plan_ids d0) \<Longrightarrow> pid \<in> set (plan_ids d)"
proof -
  assume good: "co_good H d0 d" and "pid \<in> set (plan_ids d0)"
  then obtain a where a: "a \<in> set (cd_activation d0)" "av_plan_id a = pid" by (auto simp: plan_ids_def)
  then obtain b where b: "b \<in> set (cd_activation d)" "row_le a b" using good by (auto simp: co_good_def co_le_def)
  then have "av_plan_id b = pid" using a by (simp add: row_le_def)
  then show ?thesis using b(1) by (metis plan_ids_def image_eqI list.set_map)
qed

lemma co_moved_ids [simp]: "plan_ids (co_moved pid st t now d) = plan_ids d"
  by (simp add: co_moved_def)

text \<open>The usual transaction: a transition and journal rows of the plan.\<close>

lemma tx_move:
  assumes "co_good H d0 d"
  shows "safe cs_db (co_good H d0) (co_atomic (co_transition E pid target)) d"
  using assms by (intro safe_co_tx) (auto split: option.splits intro: good_moved)

lemma tx_move_journal:
  assumes "co_good H d0 d" and "k \<noteq> ''transition''" and "k \<noteq> ''wal'' \<or> opn \<noteq> ''commit''"
  shows "safe cs_db (co_good H d0) (co_atomic (then_x (co_transition E pid target) (co_journal E pid k opn det))) d"
  using assms
  by (intro safe_co_tx) (auto split: option.splits dest: find_activation_ids intro!: good_journal intro: good_moved)

lemma tx_journal:
  assumes "co_good H d0 d" and "pid \<in> set (plan_ids d0)" and "k \<noteq> ''transition''" and "k \<noteq> ''wal'' \<or> opn \<noteq> ''commit''"
  shows "safe cs_db (co_good H d0) (co_atomic (co_journal E pid k opn det)) d"
  using assms good_ids [OF assms(1,2)] by (intro safe_co_tx) (simp_all add: good_journal)

lemma tx_journal_move:
  assumes "co_good H d0 d" and "pid \<in> set (plan_ids d0)" and "k \<noteq> ''transition''" and "k \<noteq> ''wal'' \<or> opn \<noteq> ''commit''"
  shows "safe cs_db (co_good H d0) (co_atomic (then_x (co_journal E pid k opn det) (co_transition E pid target))) d"
proof -
  have "co_good H d0 (insert_journal pid k opn det now d)" for now
    using assms good_ids [OF assms(1,2)] by (simp add: good_journal)
  then show ?thesis
    using assms by (intro safe_co_tx) (auto split: option.splits intro!: good_moved)
qed

abbreviation co_safe :: "(string \<Rightarrow> string) \<Rightarrow> co_db \<Rightarrow> ('w, 'a) co_exec \<Rightarrow> co_db \<Rightarrow> bool" where
  "co_safe H d0 m d \<equiv> safe cs_db (co_good H d0) m d"

lemma good_boot:
  assumes "co_good H d0 d"
  shows "co_good H d0 (d\<lparr>cd_manager_epoch := cd_manager_epoch d + 1,
    cd_evidence := map (\<lambda>e. e\<lparr>ed_valid := False\<rparr>) (cd_evidence d)\<rparr>)"
  using good_evidence_map [OF good_epoch [OF assms], of "\<lambda>e. e\<lparr>ed_valid := False\<rparr>"] by simp

lemma boot_safe: "co_good H d0 d \<Longrightarrow> co_safe H d0 co_boot d"
  unfolding co_boot_def store_boot_def co_atomic_def
  by (rule safe_tx_bind) (auto simp: safe_def intro!: good_boot)

lemma plan_safe:
  assumes good: "co_good (ce_hash E) d0 d"
  shows "co_safe (ce_hash E) d0 (co_plan A E p) d"
proof -
  let ?H = "ce_hash E" and ?pid = "plan_id (ce_hash E) p"
  have after: "co_safe ?H d0 (bind_x exposure_gate (\<lambda>gated.
       then_x (if gated
               then catch_x
                 (then_x (on_gate (gate_stage (ce_gate E) (JStr ?pid) (predecessor_dict (plan_predecessor p))))
                    (return_x ()))
                 (\<lambda>e. then_x (co_atomic (co_mod (delete_plan ?pid))) (raise_x e))
               else co_world (traffic_hold A (plan_predecessor p)))
       (return_x ?pid))) (planned ?H p now now' d)" (is "co_safe ?H d0 ?m ?d")
    if new: "find_activation ?pid (cd_activation d) = None" and ok: "obligations_ok p" for now now'
  proof -
    have p: "co_good ?H d0 ?d" by (rule good_planned [OF good ok new])
    have "journal_ok d" using good by (simp add: co_good_def co_inv_def)
    then have del: "co_good ?H d0 (delete_plan ?pid ?d)"
      using good_sequence [OF good] new by (simp add: delete_planned)
    show ?thesis
      by (rule safe_frame_bind, rule frames_exposure_gate, rule p, rule safeI)
         (auto simp: co_atomic_def p del intro!: wp_frame [OF frames_on_gate] wp_frame [OF frames_co_world])
  qed
  show ?thesis
    unfolding co_plan_def Let_def
    by (intro safe_guard_then safe_co_tx_then good)
       (simp_all add: insert_activation_def planned_def [symmetric] after)
qed

lemmas co_safe_rules = safe_co_plan_of safe_co_row safe_lift_res safe_guard_then safe_then [OF tx_move_journal]
  safe_then [OF tx_journal_move] safe_then [OF tx_journal] safe_then [OF tx_move] tx_move_journal tx_journal_move
  tx_journal tx_move safe_frame_then safe_frame_bind safe_if frame_intros safe_return safe_raise

lemma prepare_safe:
  assumes "co_good H d d"
  shows "co_safe H d (co_prepare A E pid) d"
  unfolding co_prepare_def
  by (intro co_safe_rules assms) (auto dest: find_activation_ids intro!: frame_intros safe_frame assms)

lemma wp_replace_inventory [simp]:
  "wp (replace_inventory pid ps) Q R s =
   (if distinct (map (\<lambda>p. (pr_role p, pr_ordinal p)) ps)
    then Q () (s\<lparr>cs_db := (cs_db s)\<lparr>cd_inventory := filter (\<lambda>i. iv_plan_id i \<noteq> pid) (cd_inventory (cs_db s))
             @ map (inventory_of pid) ps\<rparr>\<rparr>)
    else R IntegrityErr (s\<lparr>cs_db := (cs_db s)\<lparr>cd_inventory :=
             filter (\<lambda>i. iv_plan_id i \<noteq> pid) (cd_inventory (cs_db s))\<rparr>\<rparr>))"
  by (simp add: replace_inventory_def)

lemma plan_ids_inventory [simp]: "plan_ids (d\<lparr>cd_inventory := x\<rparr>) = plan_ids d"
  by (simp add: plan_ids_def)

lemma launch_wal_safe:
  assumes "co_good H d0 d"
  shows "co_safe H d0 (co_atomic (then_x (co_transition E pid St_LAUNCHING)
               (then_x (co_mod (update_activation pid (\<lambda>a. a\<lparr>av_launch_id := Some l\<rparr>)))
               (co_journal E pid ''wal'' ''launch'' det)))) d"
  using assms
  by (intro safe_co_tx)
     (auto split: option.splits dest: find_activation_ids intro!: good_journal good_launch_id intro: good_moved)

lemma launch_receipt_safe:
  assumes good: "co_good H d0 d" and pid: "pid \<in> set (plan_ids d0)"
  shows "co_safe H d0 (co_atomic (then_x (replace_inventory pid ps)
         (then_x (co_journal E pid ''receipt'' ''launch'' det) (co_transition E pid St_OBSERVING)))) d"
proof -
  let ?d = "d\<lparr>cd_inventory := filter (\<lambda>i. iv_plan_id i \<noteq> pid) (cd_inventory d) @ map (inventory_of pid) ps\<rparr>"
  have "co_good H d0 (insert_journal pid ''receipt'' ''launch'' det now ?d)"
    if "distinct (map (\<lambda>p. (pr_role p, pr_ordinal p)) ps)" for now
    using good_inventory [OF good that] good_ids [OF good pid] by (simp add: good_journal)
  then show ?thesis
    using good by (intro safe_co_tx) (auto split: option.splits intro!: good_moved)
qed

lemma launch_safe:
  assumes "co_good H d d"
  shows "co_safe H d (co_launch A E pid l) d"
  unfolding co_launch_def
  by (intro co_safe_rules safe_then [OF launch_wal_safe] launch_receipt_safe assms)
     (auto dest: find_activation_ids intro!: assms)

lemma evidence_tx_safe:
  assumes good: "co_good H d0 d" and pid: "pid \<in> set (plan_ids d0)"
  shows "co_safe H d0 (catch_x (co_atomic (then_x (insert_evidence pid item)
            (co_journal E pid ''evidence'' opn det)))
         (\<lambda>e. raise_x (if e = IntegrityErr then ContractErr REPLAYED_NONCE else e))) d"
proof -
  have "co_good H d0 (insert_journal pid ''evidence'' opn det t (d\<lparr>cd_evidence := cd_evidence d @ [evidence_of pid ep item]\<rparr>))"
    if "at_nonce item \<notin> set (map ed_nonce (cd_evidence d))" for ep t
    using that good_evidence [OF good, of "evidence_of pid ep item"] good_ids [OF good pid]
    by (simp add: good_journal evidence_of_def plan_ids_def)
  then show ?thesis
    using good by (intro safeI) (auto simp: co_atomic_def insert_evidence_def)
qed

lemma frames_clock: "frames cs_db (case now of None \<Rightarrow> co_now E | Some n \<Rightarrow> return_x n)"
  by (cases now) (simp_all add: frame_intros)

lemma observe_safe:
  assumes good: "co_good H d d"
  shows "co_safe H d (co_observe A E pid item now) d"
  unfolding co_observe_def
  by (intro co_safe_rules evidence_tx_safe frames_clock good) (auto dest: find_activation_ids intro!: frame_intros)

lemma refresh_safe:
  assumes good: "co_good H d d"
  shows "co_safe H d (co_refresh_inventory E pid ps) d"
proof -
  let ?d = "d\<lparr>cd_inventory := filter (\<lambda>i. iv_plan_id i \<noteq> pid) (cd_inventory d) @ map (inventory_of pid) ps\<rparr>"
  let ?e = "?d\<lparr>cd_evidence := map (\<lambda>e. if ed_plan_id e = pid then e\<lparr>ed_valid := False\<rparr> else e) (cd_evidence d)\<rparr>"
  have "co_good H d (insert_journal pid ''inventory'' ''refresh'' det now ?e)"
    if "distinct (map (\<lambda>p. (pr_role p, pr_ordinal p)) ps)" "pid \<in> set (plan_ids d)" for now det
    using good_evidence_map [OF good_inventory [OF good that(1), of pid],
        of "\<lambda>e. if ed_plan_id e = pid then e\<lparr>ed_valid := False\<rparr> else e"] that(2)
    by (simp add: good_journal plan_ids_def)
  then show ?thesis
    unfolding co_refresh_inventory_def
    by (intro safe_co_row safe_guard_then safe_co_tx good) (simp_all add: find_activation_ids)
qed

lemma plan_ids_outcome [simp]: "plan_ids (d\<lparr>cd_outcome := x\<rparr>) = plan_ids d"
  by (simp add: plan_ids_def)

lemma tx_outcome_move:
  assumes good: "co_good H d0 d"
  shows "co_safe H d0 (co_atomic (then_x (insert_outcome pid ok det E) (co_transition E pid target))) d"
  using good by (intro safe_co_tx) (auto split: option.splits intro!: good_moved good_outcome)

lemma tx_outcome_journal_move:
  assumes good: "co_good H d0 d" and pid: "pid \<in> set (plan_ids d0)" and k: "k \<noteq> ''transition''" "k \<noteq> ''wal''"
  shows "co_safe H d0 (co_atomic (then_x (insert_outcome pid ok det E)
     (then_x (co_journal E pid k opn det') (co_transition E pid target)))) d"
proof -
  have "co_good H d0 (insert_journal pid k opn det' now (d\<lparr>cd_outcome := cd_outcome d @ rows\<rparr>))" for now rows
    using good_outcome [OF good] good_ids [OF good pid] k by (simp add: good_journal)
  then show ?thesis using good by (intro safe_co_tx) (auto split: option.splits intro!: good_moved)
qed

lemmas rollback_rules = co_safe_rules tx_outcome_move tx_outcome_journal_move
  safe_then [OF tx_outcome_move] safe_then [OF tx_outcome_journal_move]

lemma gated_rollback_safe:
  assumes "co_good H d0 d" and "pid \<in> set (plan_ids d0)"
  shows "co_safe H d0 (gated_rollback E pid p ho he) d"
  unfolding gated_rollback_def Let_def case_prod_unfold
  by (intro rollback_rules assms) (auto intro: assms)

lemma safe_sum:
  "(\<And>e. x = Inl e \<Longrightarrow> safe g I (m e) d) \<Longrightarrow> (\<And>y. x = Inr y \<Longrightarrow> safe g I (k y) d) \<Longrightarrow>
   safe g I (case x of Inl e \<Rightarrow> m e | Inr y \<Rightarrow> k y) d"
  by (cases x) auto

lemma plain_rollback_safe:
  assumes "co_good H d0 d" and "pid \<in> set (plan_ids d0)"
  shows "co_safe H d0 (plain_rollback A E pid p ho he) d"
  unfolding plain_rollback_def
  by (intro rollback_rules safe_sum assms) (auto intro: assms)

lemma rollback_safe:
  assumes "co_good H d0 d"
  shows "co_safe H d0 (co_rollback A E pid reason) d"
proof -
  have "co_safe H d (co_rollback A E pid reason) d"
    if "co_good H d d"
    unfolding co_rollback_def Let_def
    by (intro co_safe_rules gated_rollback_safe plain_rollback_safe that) (auto dest: find_activation_ids intro: that)
  moreover have "co_good H d d" using assms by (auto simp: co_good_def)
  ultimately have "co_safe H d (co_rollback A E pid reason) d" by blast
  then show ?thesis
    using assms unfolding safe_def by (fastforce simp: co_good_def intro: co_le_trans elim!: wp_mono)
qed

lemma lease_lost_safe:
  assumes "co_good H d0 d"
  shows "co_safe H d0 (co_external_lease_lost A E pid) d"
  unfolding co_external_lease_lost_def
  by (intro co_safe_rules rollback_safe assms) (auto intro: assms)

lemma commit_wal_safe:
  assumes good: "co_good H d0 d" and a: "find_activation pid (cd_activation d) = Some a"
    and p: "plan_from_json (av_plan_json a) = Inr p"
  shows "co_safe H d0 (commit_wal E pid p expected) d"
proof -
  have "co_good H d0 (committed pid (av_state a) (cd_generation d) now now' d)"
    if "St_COMMIT_READY \<in> set (TRANSITIONS (av_state a))" "ps_generation (plan_predecessor p) = cd_generation d" for now now'
    using good_committed [OF good a that(1)] that(2) p by (simp add: base_generation_def)
  then show ?thesis
    unfolding commit_wal_def using good a
    by (intro safe_co_tx) (auto simp: committed_def co_moved_def)
qed

lemma commit_receipt_safe:
  assumes good: "co_good H d0 d" and pid: "pid \<in> set (plan_ids d0)"
  shows "co_safe H d0 (commit_receipt E pid) d"
proof -
  have "co_good H d0 (insert_journal pid ''receipt'' ''commit'' det now d)" for det now
    using good good_ids [OF good pid] by (simp add: good_journal)
  then show ?thesis
    unfolding commit_receipt_def using good
    by (intro safe_co_tx) (auto split: option.splits intro!: good_moved)
qed

lemma commit_safe:
  assumes "co_good H d d"
  shows "co_safe H d (co_commit A E pid expected) d"
  unfolding co_commit_def
  by (intro co_safe_rules safe_then [OF lease_lost_safe] safe_then [OF commit_wal_safe] commit_receipt_safe assms)
     (auto dest: find_activation_ids intro!: frame_intros intro: assms)

lemma recover_rollback_safe:
  assumes "co_good H d0 d" and "pid \<in> set (plan_ids d0)"
  shows "co_safe H d0 (recover_rollback E pid p) d"
  unfolding recover_rollback_def Let_def case_prod_unfold
  by (intro rollback_rules assms) (auto intro: assms)

lemma recover_commit_safe:
  assumes "co_good H d0 d" and "pid \<in> set (plan_ids d0)"
  shows "co_safe H d0 (recover_commit E pid p) d"
  unfolding recover_commit_def
  by (intro co_safe_rules safe_when_then assms) (auto intro: assms)

lemma recover_safe:
  assumes "co_good H d d"
  shows "co_safe H d (co_recover A E pid) d"
  unfolding co_recover_def Let_def
  by (intro co_safe_rules safe_then [OF safe_if] recover_rollback_safe recover_commit_safe assms)
     (auto dest: find_activation_ids intro: assms)

lemma resume_safe: "co_good H d0 d \<Longrightarrow> co_safe H d0 (co_resume_observing E pid) d"
  unfolding co_resume_observing_def by (rule tx_move)

end
