(* ===== verification/Coordinator_Properties.thy ===== *)
theory Coordinator_Properties
  imports Coordinator_Invariant
begin

text \<open>
  The coordinator as a step system: calls with any adapters and any clock, restarts, and arbitrary
  changes of everything outside the store. The invariant of the store holds in every reachable state
  and the store only grows along steps. Below, what a single \<open>commit\<close>, \<open>observe\<close>, \<open>rollback\<close> or
  \<open>recover\<close> does.
\<close>

section \<open>Steps\<close>

datatype co_call =
    C_boot
  | C_plan plan
  | C_prepare string
  | C_launch string string
  | C_observe string attestation "int option"
  | C_refresh string "process_identity list"
  | C_commit string int
  | C_recover string
  | C_resume string
  | C_rollback string string
  | C_lease_lost string
  | C_status string

fun co_after :: "'w adapters \<Rightarrow> co_env \<Rightarrow> co_call \<Rightarrow> 'w co_sys \<Rightarrow> 'w co_sys" where
  "co_after A E C_boot s = snd (co_boot s)"
| "co_after A E (C_plan p) s = snd (co_plan A E p s)"
| "co_after A E (C_prepare pid) s = snd (co_prepare A E pid s)"
| "co_after A E (C_launch pid l) s = snd (co_launch A E pid l s)"
| "co_after A E (C_observe pid item now) s = snd (co_observe A E pid item now s)"
| "co_after A E (C_refresh pid ps) s = snd (co_refresh_inventory E pid ps s)"
| "co_after A E (C_commit pid g) s = snd (co_commit A E pid g s)"
| "co_after A E (C_recover pid) s = snd (co_recover A E pid s)"
| "co_after A E (C_resume pid) s = snd (co_resume_observing E pid s)"
| "co_after A E (C_rollback pid reason) s = snd (co_rollback A E pid reason s)"
| "co_after A E (C_lease_lost pid) s = snd (co_external_lease_lost A E pid s)"
| "co_after A E (C_status pid) s = snd (co_status pid s)"

inductive co_step :: "(string \<Rightarrow> string) \<Rightarrow> 'w co_sys \<Rightarrow> 'w co_sys \<Rightarrow> bool" for H where
  co_step_call: "ce_hash E = H \<Longrightarrow> co_step H s (co_after A E c s)"
| co_step_environment: "cs_db t = cs_db s \<Longrightarrow> co_step H s t"

inductive_cases co_stepE: "co_step H s t"

definition co_initial :: "'w co_sys \<Rightarrow> bool" where
  "co_initial s \<longleftrightarrow> cs_db s = co_schema"

lemma status_safe: "co_good H d0 d \<Longrightarrow> co_safe H d0 (co_status pid) d"
  unfolding co_status_def by (intro safe_frame frame_intros)

lemma co_after_good:
  assumes good: "co_good H (cs_db s) (cs_db s)" and E: "ce_hash E = H"
  shows "co_good H (cs_db s) (cs_db (co_after A E c s))"
proof -
  note rules = boot_safe [OF good] plan_safe [of E, unfolded E, OF good] prepare_safe [OF good]
    launch_safe [OF good] observe_safe [OF good] refresh_safe [OF good] commit_safe [OF good]
    recover_safe [OF good] resume_safe [OF good] rollback_safe [OF good] lease_lost_safe [OF good]
    status_safe [OF good]
  show ?thesis by (cases c) (simp_all add: rules safe_snd)
qed

lemma co_step_good:
  assumes "co_step H s t" and "co_inv H (cs_db s)" and "commits_ok (cs_db s)"
  shows "co_good H (cs_db s) (cs_db t)"
  using assms(1)
proof (rule co_stepE)
  fix E A c
  assume "t = co_after A E c s" and "ce_hash E = H"
  then show ?thesis using assms by (simp add: co_after_good co_goodI)
next
  assume "cs_db t = cs_db s"
  then show ?thesis using assms by (simp add: co_goodI)
qed

interpretation coord: step_invariant co_initial "co_step H" "\<lambda>s. co_inv H (cs_db s) \<and> commits_ok (cs_db s)" for H
proof
  show "co_inv H (cs_db s) \<and> commits_ok (cs_db s)" if "co_initial s" for s
    using that by (simp add: co_initial_def co_inv_schema) (simp add: commits_ok_def commits_def co_schema_def)
  show "co_inv H (cs_db t) \<and> commits_ok (cs_db t)"
    if "co_inv H (cs_db s) \<and> commits_ok (cs_db s)" "co_step H s t" for s t
    using co_step_good [OF that(2)] that(1) by (simp add: co_good_def)
qed

abbreviation co_reach :: "(string \<Rightarrow> string) \<Rightarrow> 'w co_sys \<Rightarrow> bool" where
  "co_reach H \<equiv> reach co_initial (co_step H)"

lemma co_reach_good: "co_reach H s \<Longrightarrow> co_inv H (cs_db s) \<and> commits_ok (cs_db s)"
  by (rule coord.inv_reach)

lemma co_steps_good:
  assumes "(co_step H)\<^sup>*\<^sup>* s t" and "co_reach H s"
  shows "co_le (cs_db s) (cs_db t) \<and> co_reach H t"
  using assms
proof (induction rule: rtranclp_induct)
  case (step t u)
  then have t: "co_le (cs_db s) (cs_db t)" "co_reach H t" by auto
  have "co_good H (cs_db t) (cs_db u)" using co_step_good [OF step.hyps(2)] co_reach_good [OF t(2)] by simp
  then show ?case using t reach_step [OF t(2) step.hyps(2)] by (auto simp: co_good_def intro: co_le_trans)
qed simp

section \<open>commit\<close>

lemma wp_co_world:
  "wp (co_world m) Q R s = wp m (\<lambda>x w. Q x (s\<lparr>cs_world := w\<rparr>)) (\<lambda>e w. R e (s\<lparr>cs_world := w\<rparr>)) (cs_world s)"
  by (simp add: co_world_def)

lemma wp_co_plan_of [simp]:
  "wp (co_plan_of pid) Q R s = (case find_activation pid (cd_activation (cs_db s)) of
     None \<Rightarrow> R (ContractErr UNKNOWN_RESOURCE) s
   | Some a \<Rightarrow> (case plan_from_json (av_plan_json a) of Inl e \<Rightarrow> R e s | Inr p \<Rightarrow> Q p s))"
  by (simp add: co_plan_of_def split: option.splits)

lemma commit_from: "St_COMMIT_READY \<in> set (TRANSITIONS st) \<longleftrightarrow> st = St_OBSERVING"
  by (cases st) auto

lemma find_moved [simp]:
  "find_activation q (cd_activation (co_moved pid st target now d)) =
   map_option (\<lambda>a. if av_plan_id a = pid then a\<lparr>av_state := target\<rparr> else a) (find_activation q (cd_activation d))"
  by (simp add: co_moved_def update_activation_def find_activation_update)

lemma moved_generation [simp]: "cd_generation (co_moved pid st target now d) = cd_generation d"
  by (simp add: co_moved_def)

lemma find_activation_id [simp]: "find_activation pid rows = Some a \<Longrightarrow> av_plan_id a = pid"
  using find_activation_Some by blast

text \<open>The transaction of a commit, completely.\<close>

lemma commit_wal_runs:
  assumes "find_activation pid (cd_activation (cs_db s)) = Some a"
  shows "wp (commit_wal E pid p expected) Q R s =
    (if av_state a = St_RESOLVED then \<exists>t. cs_db t = cs_db s \<and> R (PyErr KeyError) t \<and> t = s
     else if av_state a \<noteq> St_OBSERVING then R (ContractErr INVALID_TRANSITION) s
     else if cd_generation (cs_db s) \<noteq> expected \<or> ps_generation (plan_predecessor p) \<noteq> expected
     then R (ContractErr CAS_MISMATCH) (s\<lparr>cs_ticks := cs_ticks s + 2\<rparr>)
     else Q () (s\<lparr>cs_ticks := cs_ticks s + 2,
       cs_db := committed pid St_OBSERVING expected (ce_clock E (cs_ticks s)) (ce_clock E (cs_ticks s + 1)) (cs_db s)\<rparr>))"
  using assms by (simp add: commit_wal_def co_atomic_def commit_from committed_def)

definition commit_post :: "'w adapters \<Rightarrow> co_env \<Rightarrow> string \<Rightarrow> int \<Rightarrow> 'w co_sys \<Rightarrow> int \<Rightarrow> 'w co_sys \<Rightarrow> bool" where
  "commit_post A E pid expected s g t \<longleftrightarrow> (\<exists>a p w.
     find_activation pid (cd_activation (cs_db s)) = Some a \<and> plan_from_json (av_plan_json a) = Inr p
     \<and> av_state a = St_OBSERVING \<and> external_lease_valid A p (cs_world s) = (Inr True, w)
     \<and> evidence_complete (ce_hash E) p (cs_epoch s) (ce_clock E (cs_ticks s)) (cs_db s)
     \<and> cd_generation (cs_db s) = expected \<and> ps_generation (plan_predecessor p) = expected
     \<and> g = expected + 1 \<and> cd_generation (cs_db t) = expected + 1
     \<and> find_activation pid (cd_activation (cs_db t)) = Some (a\<lparr>av_state := St_EFFECTIVE\<rparr>))"

lemma committed_simps [simp]:
  "cd_generation (committed pid st g now now' d) = cd_generation d + 1"
  "find_activation pid (cd_activation (committed pid st g now now' d))
   = map_option (\<lambda>a. a\<lparr>av_state := St_COMMIT_READY\<rparr>) (find_activation pid (cd_activation d))"
  by (simp_all add: committed_def) (cases "find_activation pid (cd_activation d)"; simp)

lemma commit_receipt_runs:
  assumes "find_activation pid (cd_activation (cs_db s)) = Some b" and "av_state b = St_COMMIT_READY"
  shows "wp (commit_receipt E pid) (\<lambda>g t. g = cd_generation (cs_db s) \<and> cd_generation (cs_db t) = cd_generation (cs_db s)
      \<and> find_activation pid (cd_activation (cs_db t)) = Some (b\<lparr>av_state := St_EFFECTIVE\<rparr>)) (\<lambda>_ _. False) s"
  using assms by (simp add: commit_receipt_def co_atomic_def)

definition commit_tail :: "'w adapters \<Rightarrow> co_env \<Rightarrow> string \<Rightarrow> plan \<Rightarrow> int \<Rightarrow> ('w, int) co_exec" where
  "commit_tail A E pid p expected =
     then_x (faults_hit ''commit.after_wal'')
      (then_x (commit_expose A E p expected)
      (then_x (faults_hit ''commit.after_side_effect'')
      (commit_receipt E pid)))"

lemma commit_tail_runs:
  assumes "find_activation pid (cd_activation (cs_db s)) = Some b" and "av_state b = St_COMMIT_READY"
  shows "wp (commit_tail A E pid p expected)
    (\<lambda>g t. g = cd_generation (cs_db s) \<and> cd_generation (cs_db t) = cd_generation (cs_db s)
      \<and> find_activation pid (cd_activation (cs_db t)) = Some (b\<lparr>av_state := St_EFFECTIVE\<rparr>)) (\<lambda>_ _. True) s"
  unfolding commit_tail_def
  by (intro wp_frame_then [OF frames_faults_hit] wp_frame_then [OF frames_commit_expose] TrueI, rule wp_mono,
      rule commit_receipt_runs) (use assms in simp_all)

lemma commit_body_runs:
  assumes a: "find_activation pid (cd_activation (cs_db s)) = Some a"
    and p: "plan_from_json (av_plan_json a) = Inr p"
    and lease: "external_lease_valid A p (cs_world s) = (Inr True, w)"
  shows "wp (co_commit A E pid expected) Q R s =
    (if \<not> evidence_complete (ce_hash E) p (cs_epoch s) (ce_clock E (cs_ticks s)) (cs_db s)
     then R (ContractErr MISSING_PROCESS_EVIDENCE) (s\<lparr>cs_world := w, cs_ticks := cs_ticks s + 1\<rparr>)
     else wp (then_x (commit_wal E pid p expected) (commit_tail A E pid p expected)) Q R
            (s\<lparr>cs_world := w, cs_ticks := cs_ticks s + 1\<rparr>))"
  using assms by (simp add: co_commit_def wp_co_world wp_run [of _ _ "Inr True"] commit_tail_def)

lemma commit_lease_false:
  assumes a: "find_activation pid (cd_activation (cs_db s)) = Some a"
    and p: "plan_from_json (av_plan_json a) = Inr p"
    and lease: "fst (external_lease_valid A p (cs_world s)) \<noteq> Inr True"
  shows "wp (co_commit A E pid expected) (\<lambda>_ _. False) (\<lambda>_ _. True) s"
proof (cases "external_lease_valid A p (cs_world s)")
  case (Pair r w)
  then show ?thesis
    using assms by (cases r) (simp_all add: co_commit_def wp_co_world wp_run [of "external_lease_valid A p" "cs_world s" r w] Pair)
qed

lemma commit_returns: "wp (co_commit A E pid expected) (commit_post A E pid expected s) (\<lambda>_ _. True) s"
proof (cases "find_activation pid (cd_activation (cs_db s))")
  case a: (Some a)
  show ?thesis
  proof (cases "plan_from_json (av_plan_json a)")
    case p: (Inr p)
    show ?thesis
    proof (cases "fst (external_lease_valid A p (cs_world s)) = Inr True")
      case True
      then obtain w where w: "external_lease_valid A p (cs_world s) = (Inr True, w)" by (metis prod.collapse)
      have "wp (commit_tail A E pid p expected) (commit_post A E pid expected s) (\<lambda>_ _. True) t"
        if "cs_db t = committed pid St_OBSERVING expected n n' (cs_db s)" "av_state a = St_OBSERVING"
          "evidence_complete (ce_hash E) p (cs_epoch s) (ce_clock E (cs_ticks s)) (cs_db s)"
          "cd_generation (cs_db s) = expected" "ps_generation (plan_predecessor p) = expected" for t n n'
        by (rule wp_mono [OF commit_tail_runs [of _ _ "a\<lparr>av_state := St_COMMIT_READY\<rparr>"]])
           (use that a p w in \<open>auto simp: commit_post_def\<close>)
      then show ?thesis using a p w by (simp add: commit_body_runs commit_wal_runs)
    next
      case False
      show ?thesis by (rule wp_mono [OF commit_lease_false [OF a p False]]) auto
    qed
  qed (simp add: co_commit_def a)
qed (simp add: co_commit_def)

section \<open>rollback\<close>

definition rollback_final :: "ecpa_state \<Rightarrow> bool" where
  "rollback_final st \<longleftrightarrow> st \<in> {St_ROLLED_BACK, St_FAILED_SAFE, St_SAFETY_UNKNOWN}"

text \<open>The state recorded for the plan and the last outcome row agree with what is reported.\<close>

definition settled :: "string \<Rightarrow> activation_row \<Rightarrow> (co_error + ecpa_state) \<Rightarrow> co_db \<Rightarrow> bool" where
  "settled pid a r d \<longleftrightarrow> (\<exists>st row. rollback_final st
     \<and> find_activation pid (cd_activation d) = Some (a\<lparr>av_state := st\<rparr>)
     \<and> cd_outcome d \<noteq> [] \<and> last (cd_outcome d) = row \<and> or_plan_id row = pid
     \<and> or_success row = (st = St_ROLLED_BACK)
     \<and> (r = Inr st \<or> r = Inl (ContractErr ROLLBACK_FAILED) \<and> st = St_FAILED_SAFE))"

lemma outcome_simps [simp]:
  "cd_outcome (insert_journal pid k opn det now d) = cd_outcome d"
  "cd_outcome (co_moved pid st target now d) = cd_outcome d"
  by (simp_all add: co_moved_def insert_journal_def update_activation_def)

text \<open>What a call of an adapter or of the gate leaves alone.\<close>

abbreviation durable :: "'w co_sys \<Rightarrow> co_db \<times> string set" where
  "durable s \<equiv> (cs_db s, cs_faults s)"

lemma frames_durable_gate [frame_intros]: "frames durable (on_gate m)"
  unfolding on_gate_def
  by (intro frame_intros) (simp add: frames_def zoom_x_def split: prod.splits sum.splits)

lemma frames_durable_world [frame_intros]: "frames durable (co_world m)"
  by (simp add: frames_def co_world_def zoom_x_def split: prod.splits sum.splits)

lemma frames_durable_fail_class [frame_intros]: "frames durable (gate_fail_class E g r)"
  unfolding gate_fail_class_def by (intro frame_intros)

lemma wp_try_frame:
  assumes "frames get m" and "\<And>r t. get t = get s \<Longrightarrow> wp (k r) Q R t"
  shows "wp (bind_x (try_x m) k) Q R s"
  using assms by (auto intro: wp_frame)

lemma rollback_traffic_returns:
  "wp (rollback_traffic E g err) (\<lambda>_ t. durable t = durable s) (\<lambda>_ _. False) s"
  unfolding rollback_traffic_def
proof (rule wp_try_frame [where get = durable])
  fix r :: "co_error + rollback_class" and t :: "'a co_sys"
  assume t: "durable t = durable s"
  have "wp (gate_fail_class E g why) (\<lambda>_ u. durable u = durable s) (\<lambda>_ u. durable u = durable s) t" for why
    by (rule wp_frame [OF frames_durable_fail_class]) (simp_all add: t)
  then show "wp (case r of
       Inr outcome \<Rightarrow> return_x (outcome, None)
     | Inl exc \<Rightarrow>
        bind_x (try_x (gate_fail_class E g ''traffic rollback failed'')) (\<lambda>r2. case r2 of
          Inr outcome \<Rightarrow> return_x (outcome, Some (co_str exc))
        | Inl close_exc \<Rightarrow>
            return_x (RC_SAFETY_UNKNOWN, Some (co_str exc @ ''; fail-close: '' @ co_str close_exc))))
     (\<lambda>_ t. durable t = durable s) (\<lambda>_ _. False) t"
    using t by (simp split: sum.splits)
qed (intro frame_intros)

lemma gated_rollback_settles:
  assumes "find_activation pid (cd_activation (cs_db s)) = Some b" and "av_state b = St_ROLLBACK"
    and "cs_faults s = {}"
  shows "wp (gated_rollback E pid p ho he) (\<lambda>r t. settled pid b (Inr r) (cs_db t)) (\<lambda>_ _. False) s"
  unfolding gated_rollback_def
  by (simp add: Let_def case_prod_unfold, rule wp_mono [OF rollback_traffic_returns])
     (use assms in \<open>simp_all add: faults_hit_def co_atomic_def rollback_final_def settled_def\<close>)

lemma plain_rollback_settles:
  fixes s :: "'w co_sys"
  assumes "find_activation pid (cd_activation (cs_db s)) = Some b" and "av_state b = St_ROLLBACK"
  shows "wp (plain_rollback A E pid p ho he) (\<lambda>r t. settled pid b (Inr r) (cs_db t))
     (\<lambda>e t. settled pid b (Inl e) (cs_db t)) s"
  unfolding plain_rollback_def
proof (rule wp_try_frame [where get = durable])
  fix r :: "co_error + unit" and t :: "'w co_sys"
  assume "durable t = durable s"
  then show "wp (case r of
       Inl exc \<Rightarrow>
         then_x (co_atomic (then_x (insert_outcome pid False (JObj [(''error'', JStr (co_str exc))]) E)
            (co_transition E pid St_FAILED_SAFE)))
         (raise_x (ContractErr ROLLBACK_FAILED))
     | Inr _ \<Rightarrow>
         then_x (co_atomic (then_x (insert_outcome pid True ho E)
            (then_x (co_journal E pid ''receipt'' ''rollback'' ho)
            (co_transition E pid St_ROLLED_BACK))))
         (return_x St_ROLLED_BACK)) (\<lambda>r t. settled pid b (Inr r) (cs_db t))
     (\<lambda>e t. settled pid b (Inl e) (cs_db t)) t"
    using assms by (simp add: co_atomic_def rollback_final_def settled_def split: sum.splits)
qed (intro frame_intros)

definition rollback_rest :: "'w adapters \<Rightarrow> co_env \<Rightarrow> string \<Rightarrow> plan \<Rightarrow> ('w, ecpa_state) co_exec" where
  "rollback_rest A E pid p =
     bind_x (try_x (co_world (host_rollback A (plan_predecessor p)))) (\<lambda>r.
      let host_outcome = (case r of Inr v \<Rightarrow> v | Inl _ \<Rightarrow> JNull);
          host_error = (case r of Inr _ \<Rightarrow> None | Inl exc \<Rightarrow> Some (co_str exc)) in
      then_x (co_atomic (co_journal E pid ''receipt'' ''rollback.host''
                (JObj [(''outcome'', host_outcome), (''error'', opt_string host_error)])))
      (bind_x exposure_gate (\<lambda>gated.
       if gated then gated_rollback E pid p host_outcome host_error
       else plain_rollback A E pid p host_outcome host_error)))"

lemma rollback_rest_settles:
  fixes s :: "'w co_sys"
  assumes "find_activation pid (cd_activation (cs_db s)) = Some b" and "av_state b = St_ROLLBACK" and "cs_faults s = {}"
  shows "wp (rollback_rest A E pid p) (\<lambda>r t. settled pid b (Inr r) (cs_db t)) (\<lambda>e t. settled pid b (Inl e) (cs_db t)) s"
  unfolding rollback_rest_def
proof (rule wp_try_frame [where get = durable], goal_cases)
  case (2 r u)
  then show ?case
    using assms
    by (auto simp: Let_def co_atomic_def exposure_gate_def
        intro!: plain_rollback_settles wp_mono [OF gated_rollback_settles])
qed (intro frame_intros)

lemma rollback_runs:
  assumes "find_activation pid (cd_activation (cs_db s)) = Some a" and "plan_from_json (av_plan_json a) = Inr p"
  shows "wp (co_rollback A E pid reason) Q R s =
    (if av_state a = St_RESOLVED then R (PyErr KeyError) s
     else if St_ROLLBACK \<notin> set (TRANSITIONS (av_state a)) then R (ContractErr INVALID_TRANSITION) s
     else wp (rollback_rest A E pid p) Q R (s\<lparr>cs_ticks := cs_ticks s + 2,
       cs_db := insert_journal pid ''wal'' ''rollback'' (JObj [(''reason'', JStr reason)]) (ce_clock E (cs_ticks s + 1))
         (co_moved pid (av_state a) St_ROLLBACK (ce_clock E (cs_ticks s)) (cs_db s))\<rparr>))"
  using assms unfolding co_rollback_def rollback_rest_def [symmetric]
  by (simp add: co_atomic_def [of "then_x (co_transition _ _ _) _"])

lemma rollback_settles:
  assumes "find_activation pid (cd_activation (cs_db s)) = Some a" and "plan_from_json (av_plan_json a) = Inr p"
    and "St_ROLLBACK \<in> set (TRANSITIONS (av_state a))" and "cs_faults s = {}"
  shows "settled pid a (fst (co_rollback A E pid reason s)) (cs_db (snd (co_rollback A E pid reason s)))"
proof -
  let ?b = "a\<lparr>av_state := St_ROLLBACK\<rparr>"
  have "av_state a \<noteq> St_RESOLVED" using assms(3) by auto
  then have "wp (co_rollback A E pid reason) (\<lambda>r t. settled pid ?b (Inr r) (cs_db t)) (\<lambda>e t. settled pid ?b (Inl e) (cs_db t)) s"
    using assms by (simp add: rollback_runs rollback_rest_settles)
  then show ?thesis
    by (auto simp: wp_def settled_def split: prod.splits sum.splits)
qed

section \<open>Side effects are logged first\<close>

text \<open>A WAL row of the operation that is newer than the \<open>n\<close>-th journal row.\<close>

definition logged :: "string \<Rightarrow> string \<Rightarrow> nat \<Rightarrow> co_db \<Rightarrow> bool" where
  "logged pid opn n d \<longleftrightarrow> (\<exists>j \<in> set (cd_journal d). jr_plan_id j = pid \<and> jr_kind j = ''wal''
     \<and> jr_operation j = opn \<and> n < jr_sequence j)"

lemma logged_new: "n \<le> cd_sequence d \<Longrightarrow> logged pid opn n (insert_journal pid ''wal'' opn det now d)"
  by (simp add: logged_def insert_journal_def)

lemma logged_simps [simp]:
  "logged pid opn n d \<Longrightarrow> logged pid opn n (insert_journal q k o' det now d)"
  "logged pid opn n d \<Longrightarrow> logged pid opn n (co_moved q st target now d)"
  "logged pid opn n d \<Longrightarrow> logged pid opn n (d\<lparr>cd_outcome := x\<rparr>)"
  "logged pid opn n d \<Longrightarrow> logged pid opn n (d\<lparr>cd_inventory := y\<rparr>)"
  by (auto simp: logged_def insert_journal_def co_moved_def update_activation_def)

lemma moved_sequence [simp]:
  "cd_sequence (co_moved q st target now d) = cd_sequence d + 1"
  by (simp add: co_moved_def insert_journal_def update_activation_def)

lemma logged_tx:
  assumes "logged pid opn n d"
  shows "safe cs_db (logged pid opn n) (co_atomic (then_x (co_journal E q k o' det) (co_transition E q target))) d"
    "safe cs_db (logged pid opn n) (co_atomic (co_journal E q k o' det)) d"
    "safe cs_db (logged pid opn n) (co_atomic (then_x (insert_outcome q ok det E) (co_transition E q target))) d"
    "safe cs_db (logged pid opn n) (co_atomic (then_x (insert_outcome q ok det E)
       (then_x (co_journal E q k o' det') (co_transition E q target)))) d"
    "safe cs_db (logged pid opn n) (co_atomic (then_x (replace_inventory q ps)
       (then_x (co_journal E q k o' det) (co_transition E q target)))) d"
  by (rule safe_co_tx, rule assms, use assms in \<open>simp split: option.splits\<close>)+

lemmas logged_rules = logged_tx logged_tx [THEN safe_then] safe_frame_then safe_frame_bind safe_if
  safe_sum safe_return safe_raise frame_intros

lemma gated_rollback_logged:
  "logged pid opn n d \<Longrightarrow> safe cs_db (logged pid opn n) (gated_rollback E q p ho he) d"
  unfolding gated_rollback_def Let_def case_prod_unfold by (intro logged_rules)

lemma plain_rollback_logged:
  "logged pid opn n d \<Longrightarrow> safe cs_db (logged pid opn n) (plain_rollback A E q p ho he) d"
  unfolding plain_rollback_def by (intro logged_rules)

text \<open>What the host, the plain traffic gate and the exposure gate hold.\<close>

abbreviation outside :: "'w co_sys \<Rightarrow> 'w \<times> gate_sys option" where
  "outside s \<equiv> (cs_world s, cs_gate s)"

abbreviation effect_logged :: "string \<Rightarrow> string \<Rightarrow> 'w co_sys \<Rightarrow> 'w co_sys \<Rightarrow> bool" where
  "effect_logged pid opn s t \<equiv> outside t = outside s \<or> logged pid opn (cd_sequence (cs_db s)) (cs_db t)"

text \<open>An operation that reads the plan, logs in a transaction and goes on keeping the row.\<close>

lemma logged_op:
  assumes tx: "wp m (\<lambda>_ t. logged pid opn (cd_sequence (cs_db s)) (cs_db t)) (\<lambda>_ t. outside t = outside s) s"
    and k: "\<And>p n d. logged pid opn n d \<Longrightarrow> safe cs_db (logged pid opn n) (k p) d"
  shows "wp (bind_x (co_plan_of pid) (\<lambda>p. then_x (co_atomic m) (k p)))
    (\<lambda>_. effect_logged pid opn s) (\<lambda>_. effect_logged pid opn s) s"
proof -
  have "wp (then_x (co_atomic m) (k p)) (\<lambda>_. effect_logged pid opn s) (\<lambda>_. effect_logged pid opn s) s" for p
    by (simp add: co_atomic_def, rule wp_mono [OF tx]) (auto intro: safe_wp [OF k])
  then show ?thesis by (simp split: option.splits sum.splits)
qed

lemma wal_tx:
  "wp (then_x (co_transition E pid target) (co_journal E pid ''wal'' opn det))
     (\<lambda>_ t. logged pid opn (cd_sequence (cs_db s)) (cs_db t)) (\<lambda>_ t. outside t = outside s) s"
  by (simp add: logged_new split: option.splits)

lemma prepare_logged:
  "wp (co_prepare A E pid) (\<lambda>_. effect_logged pid ''prepare'' s) (\<lambda>_. effect_logged pid ''prepare'' s) s"
  unfolding co_prepare_def
  by (intro logged_op wal_tx) (intro logged_rules safe_frame)

lemma launch_logged:
  "wp (co_launch A E pid l) (\<lambda>_. effect_logged pid ''launch'' s) (\<lambda>_. effect_logged pid ''launch'' s) s"
  unfolding co_launch_def
proof (rule logged_op)
  show "wp (then_x (co_transition E pid St_LAUNCHING)
               (then_x (co_mod (update_activation pid (\<lambda>a. a\<lparr>av_launch_id := Some l\<rparr>)))
               (co_journal E pid ''wal'' ''launch'' (JObj [(''launch_id'', JStr l)]))))
     (\<lambda>_ t. logged pid ''launch'' (cd_sequence (cs_db s)) (cs_db t)) (\<lambda>_ t. outside t = outside s) s"
    by (simp add: logged_new split: option.splits)
qed (intro logged_rules)

lemma rollback_logged:
  "wp (co_rollback A E pid reason) (\<lambda>_. effect_logged pid ''rollback'' s) (\<lambda>_. effect_logged pid ''rollback'' s) s"
  unfolding co_rollback_def Let_def
  by (intro logged_op wal_tx) (intro logged_rules gated_rollback_logged plain_rollback_logged)

section \<open>observe and boot\<close>

lemma observe_records:
  "wp (co_observe A E pid item now) (\<lambda>_ t. at_nonce item \<notin> set (map ed_nonce (cd_evidence (cs_db s)))
      \<and> at_nonce item \<in> set (map ed_nonce (cd_evidence (cs_db t)))) (\<lambda>_ t. cs_db t = cs_db s) s"
  unfolding co_observe_def
  by (intro wp_frame_bind [OF frames_co_row] wp_frame_then [OF frames_guard [of cs_db]]
      wp_frame_bind [OF frames_lift_res_co] wp_frame_bind [OF frames_clock] wp_frame_then [OF frames_co_world]
      wp_frame_bind [OF frames_gets [of cs_db]])
     (simp_all add: co_atomic_def insert_evidence_def evidence_of_def)

lemma boot_invalidates:
  "wp co_boot (\<lambda>_ t. (\<forall>e \<in> set (cd_evidence (cs_db t)). \<not> ed_valid e) \<and> cd_generation (cs_db t) = cd_generation (cs_db s))
     (\<lambda>_ _. False) s"
  by (auto simp: co_boot_def store_boot_def co_atomic_def)

lemma no_valid_evidence_incomplete:
  assumes "\<forall>e \<in> set (cd_evidence d). ed_plan_id e = plan_id H p \<longrightarrow> \<not> ed_valid e"
  shows "\<not> evidence_complete H p epoch now d"
proof
  assume c: "evidence_complete H p epoch now d"
  then have "plan_obligations p \<noteq> []" by (simp add: evidence_complete_def obligations_ok_def)
  then obtain b where b: "b \<in> set (plan_obligations p)" by (meson hd_in_set)
  then have "ob_required_ordinals b \<noteq> []"
    using c by (simp add: evidence_complete_def obligations_ok_def list_all_iff)
  then obtain i where "i \<in> set (ob_required_ordinals b)" by (meson hd_in_set)
  then have "observed_set (plan_id H p) epoch now (cd_evidence d) \<noteq> {}"
    using c b by (fastforce simp: evidence_complete_def list_all_iff split: option.splits)
  then show False using assms by (auto simp: observed_set_def evidence_current_def)
qed

end
