(* ===== verification/Coordinator_Theorems.thy ===== *)
theory Coordinator_Theorems
  imports Coordinator_Properties
begin

text \<open>
  The properties of the durable coordinator, each with a run of a coordinator over the deterministic
  fakes that meets its hypotheses.
\<close>

section \<open>A concrete coordinator\<close>

definition fake_env :: co_env where
  "fake_env = \<lparr>ce_hash = demo_hash, ce_clock = (\<lambda>_. 100), ce_gate = \<lparr>ge_hash = demo_hash, ge_clock = (\<lambda>_. 100)\<rparr>,
     ce_signed = False\<rparr>"

definition fake_plan :: plan where
  "fake_plan = \<lparr>plan_plugins = [demo_plugin], plan_host = demo_host, plan_claims = [],
     plan_obligations = [demo_obligation], plan_predecessor = demo_predecessor, plan_fallback_proven = False\<rparr>"

definition fake_pid :: string where
  "fake_pid = plan_id demo_hash fake_plan"

lemma fake_pid_code [code]: "fake_pid = ''plan:sha256:00''"
  by (simp add: fake_pid_def plan_id_def content_id_def demo_hash_def)

definition fake_item :: "string \<Rightarrow> attestation" where
  "fake_item nonce = (case fake_issue demo_hash fake_plan ''l1'' demo_process demo_obligation nonce 100 of
     Inr item \<Rightarrow> item | Inl _ \<Rightarrow> undefined)"

definition fake_start :: "string set \<Rightarrow> fake_world co_sys" where
  "fake_start faults = \<lparr>cs_db = co_schema, cs_gate = None,
     cs_world = \<lparr>fw_inventory = [demo_process], fw_prepared = False, fw_launched = False,
       fw_rollback_succeeds = True, fw_active_plan_id = None, fw_predecessor_plan_id = None, fw_valid = True\<rparr>,
     cs_faults = faults, cs_epoch = 0, cs_ticks = 0\<rparr>"

definition co_run :: "co_call list \<Rightarrow> fake_world co_sys \<Rightarrow> fake_world co_sys" where
  "co_run calls s = fold (co_after (fake_adapters demo_hash) fake_env) calls s"

definition launched :: "co_call list" where
  "launched = [C_boot, C_plan fake_plan, C_prepare fake_pid, C_launch fake_pid ''l1'']"

definition observing :: "co_call list" where
  "observing = launched @ [C_observe fake_pid (fake_item ''n1'') None]"

lemma co_run_reach: "co_reach demo_hash (co_run calls (fake_start faults))"
proof (induction calls rule: rev_induct)
  case Nil
  then show ?case by (auto simp: co_run_def fake_start_def co_initial_def intro: reach_init)
next
  case (snoc c calls)
  have "ce_hash fake_env = demo_hash" by (simp add: fake_env_def)
  then show ?case
    using reach_step [OF snoc co_step_call [of fake_env demo_hash _ "fake_adapters demo_hash" c]] by (simp add: co_run_def)
qed

definition summary :: "fake_world co_sys \<Rightarrow> ecpa_state option \<times> int \<times> nat \<times> string option" where
  "summary s = (map_option av_state (find_activation fake_pid (cd_activation (cs_db s))), cd_generation (cs_db s),
     length (cd_journal (cs_db s)), fw_active_plan_id (cs_world s))"

text \<open>A crash after the write-ahead record of the commit, and the documented way back.\<close>

definition crashed_commit :: "co_call list" where
  "crashed_commit = [C_commit fake_pid 0, C_boot, C_recover fake_pid, C_refresh fake_pid [demo_process],
     C_observe fake_pid (fake_item ''n2'') None, C_resume fake_pid]"

abbreviation run_launched :: "fake_world co_sys" where
  "run_launched \<equiv> co_run launched (fake_start {''commit.after_wal''})"

abbreviation run_observed :: "fake_world co_sys" where
  "run_observed \<equiv> co_run observing (fake_start {''commit.after_wal''})"

abbreviation run_resumed :: "fake_world co_sys" where
  "run_resumed \<equiv> co_run crashed_commit run_observed"

definition fake_report where
  "fake_report = (let r = co_observe (fake_adapters demo_hash) fake_env fake_pid (fake_item ''n1'') None run_launched;
       s = snd r; t = co_run crashed_commit s;
       c = co_commit (fake_adapters demo_hash) fake_env fake_pid 0 (s\<lparr>cs_faults := {}\<rparr>) in
     (fst r, summary s, fw_valid (cs_world s), fst c, summary t,
      map jr_plan_id (commits (cs_db t))))"

lemma fake_report_value:
  "fake_report = (Inr (), (Some St_OBSERVING, 0, 10, None), True, Inr 1, (Some St_OBSERVING, 1, 17, None), [fake_pid])"
  by code_simp

lemma run_observed_run:
  "run_observed = snd (co_observe (fake_adapters demo_hash) fake_env fake_pid (fake_item ''n1'') None run_launched)"
  by (simp add: co_run_def observing_def)

lemma run_observed_facts:
  "\<exists>a. find_activation fake_pid (cd_activation (cs_db run_observed)) = Some a \<and> av_state a = St_OBSERVING"
  "fw_valid (cs_world run_observed)" "cd_generation (cs_db run_observed) = 0"
  "co_observe (fake_adapters demo_hash) fake_env fake_pid (fake_item ''n1'') None run_launched = (Inr (), run_observed)"
  "fst (co_commit (fake_adapters demo_hash) fake_env fake_pid 0 (run_observed\<lparr>cs_faults := {}\<rparr>)) = Inr 1"
  using fake_report_value unfolding run_observed_run by (simp_all add: fake_report_def Let_def summary_def prod_eq_iff)

lemma run_resumed_facts: "map jr_plan_id (commits (cs_db run_resumed)) = [fake_pid]" "cd_generation (cs_db run_resumed) = 1"
  using fake_report_value unfolding run_observed_run by (simp_all add: fake_report_def Let_def summary_def)

lemma run_resumed_run: "run_resumed = co_run (observing @ crashed_commit) (fake_start {''commit.after_wal''})"
  by (simp add: co_run_def)

lemma co_reach_plan:
  assumes "co_reach H s" and "find_activation pid (cd_activation (cs_db s)) = Some a"
  shows "\<exists>p. plan_from_json (av_plan_json a) = Inr p"
  using co_reach_good [OF assms(1)] find_activation_Some [OF assms(2)] by (auto simp: co_inv_def activation_ok_def)

lemma base_generation_Some:
  "base_generation a = Some n \<longleftrightarrow> (\<exists>p. plan_from_json (av_plan_json a) = Inr p \<and> ps_generation (plan_predecessor p) = n)"
  by (simp add: base_generation_def split: sum.splits)

lemma row_le_final:
  assumes "row_le a b" and "TRANSITIONS (av_state a) = []"
  shows "av_state b = av_state a"
proof -
  obtain sts where "chain (av_state a) sts" "last (av_state a # sts) = av_state b"
    using assms(1) by (auto simp: row_le_def)
  then show ?thesis using assms(2) by (cases sts) auto
qed

section \<open>The journal\<close>

text \<open>
  C26. In every store the coordinator can reach, whatever calls are made with whatever adapters, faults,
  crashes and restarts, the journal explains the state of each activation: its transition rows are a legal
  path from Planned to the stored state, and the journal's sequence numbers increase.
\<close>

theorem coordinator_journal_explains_state:
  assumes "co_reach H s" and "find_activation pid (cd_activation (cs_db s)) = Some a"
  shows "sorted_wrt (<) (map jr_sequence (cd_journal (cs_db s)))
    \<and> (\<exists>sts. plan_trace pid (cd_journal (cs_db s)) = ''plan'' # map state_value sts
         \<and> chain St_PLANNED sts \<and> last (St_PLANNED # sts) = av_state a)"
proof -
  have "journal_ok (cs_db s)" "explained (cd_journal (cs_db s)) a"
    using co_reach_good [OF assms(1)] find_activation_Some [OF assms(2)] by (auto simp: co_inv_def)
  moreover have "av_plan_id a = pid" using assms(2) by simp
  ultimately show ?thesis unfolding explained_def journal_ok_def by blast
qed

theorem coordinator_journal_explains_state_witness:
  "\<exists>sts. plan_trace fake_pid (cd_journal (cs_db run_observed)) = ''plan'' # map state_value sts
     \<and> chain St_PLANNED sts \<and> last (St_PLANNED # sts) = St_OBSERVING"
proof -
  obtain a where a: "find_activation fake_pid (cd_activation (cs_db run_observed)) = Some a" "av_state a = St_OBSERVING"
    using run_observed_facts(1) by blast
  from coordinator_journal_explains_state [OF co_run_reach a(1)] a(2) show ?thesis by metis
qed

text \<open>
  C4. In every reachable store the generation is the number of commits in the write-ahead log; the
  commit number n is of a plan whose predecessor has generation n, and no plan is in the log of commits
  twice. Two plans over the same predecessor generation therefore never both commit.
\<close>

theorem coordinator_generation_counts_commits:
  assumes "co_reach H s"
  shows "cd_generation (cs_db s) = int (length (commits (cs_db s)))
    \<and> distinct (map jr_plan_id (commits (cs_db s)))
    \<and> (\<forall>n < length (commits (cs_db s)). \<exists>a p. a \<in> set (cd_activation (cs_db s))
         \<and> av_plan_id a = jr_plan_id (commits (cs_db s) ! n) \<and> plan_from_json (av_plan_json a) = Inr p
         \<and> ps_generation (plan_predecessor p) = int n)"
proof -
  let ?d = "cs_db s" and ?c = "commits (cs_db s)"
  have ok: "commits_ok ?d" and inv: "co_inv H ?d" using co_reach_good [OF assms] by auto
  have row: "\<exists>a. a \<in> set (cd_activation ?d) \<and> av_plan_id a = jr_plan_id (?c ! n) \<and> base_generation a = Some (int n)"
    if "n < length ?c" for n
    using ok that by (auto simp: commits_ok_def commit_row_ok_def)
  have "jr_plan_id (?c ! i) \<noteq> jr_plan_id (?c ! j)" if i: "i < length ?c" and j: "j < length ?c" and ij: "i \<noteq> j" for i j
  proof
    assume eq: "jr_plan_id (?c ! i) = jr_plan_id (?c ! j)"
    obtain a b where "a \<in> set (cd_activation ?d)" "b \<in> set (cd_activation ?d)" "av_plan_id a = av_plan_id b"
      "base_generation a = Some (int i)" "base_generation b = Some (int j)"
      using row [OF i] row [OF j] eq by auto
    moreover from this have "a = b" using inv by (auto simp: co_inv_def plan_ids_def distinct_map inj_on_def)
    ultimately show False using ij by simp
  qed
  then have "distinct (map jr_plan_id ?c)" by (simp add: distinct_conv_nth)
  moreover have "\<exists>a p. a \<in> set (cd_activation ?d) \<and> av_plan_id a = jr_plan_id (?c ! n)
      \<and> plan_from_json (av_plan_json a) = Inr p \<and> ps_generation (plan_predecessor p) = int n" if "n < length ?c" for n
    using row [OF that] unfolding base_generation_Some by blast
  ultimately show ?thesis using ok by (simp add: commits_ok_def)
qed

theorem coordinator_generation_counts_commits_witness:
  "cd_generation (cs_db run_resumed) = 1 \<and> length (commits (cs_db run_resumed)) = 1
   \<and> distinct (map jr_plan_id (commits (cs_db run_resumed)))"
  using coordinator_generation_counts_commits [OF co_run_reach [of "observing @ crashed_commit" "{''commit.after_wal''}"]]
    run_resumed_facts by (simp add: run_resumed_run)

text \<open>
  Along any sequence of steps from a reachable store nothing recorded is lost: journal, rollback
  outcomes and used nonces only grow, the generation and the manager epoch never decrease, no plan
  disappears or changes, and a plan in RolledBack, FailedSafe or SafetyUnknown stays there.
\<close>

theorem coordinator_store_only_grows:
  assumes "co_reach H s" and "(co_step H)\<^sup>*\<^sup>* s t"
  shows "(\<exists>more. cd_journal (cs_db t) = cd_journal (cs_db s) @ more)
    \<and> (\<exists>more. cd_outcome (cs_db t) = cd_outcome (cs_db s) @ more)
    \<and> set (map ed_nonce (cd_evidence (cs_db s))) \<subseteq> set (map ed_nonce (cd_evidence (cs_db t)))
    \<and> cd_generation (cs_db s) \<le> cd_generation (cs_db t) \<and> cd_manager_epoch (cs_db s) \<le> cd_manager_epoch (cs_db t)
    \<and> (\<forall>a \<in> set (cd_activation (cs_db s)). \<exists>b \<in> set (cd_activation (cs_db t)). av_plan_id b = av_plan_id a
         \<and> av_plan_json b = av_plan_json a
         \<and> (av_state a \<in> {St_ROLLED_BACK, St_FAILED_SAFE, St_SAFETY_UNKNOWN} \<longrightarrow> av_state b = av_state a))"
proof -
  have le: "co_le (cs_db s) (cs_db t)" using co_steps_good [OF assms(2,1)] by simp
  have final: "TRANSITIONS st = []" if "st \<in> {St_ROLLED_BACK, St_FAILED_SAFE, St_SAFETY_UNKNOWN}" for st
    using that by auto
  have row: "av_plan_id b = av_plan_id a \<and> av_plan_json b = av_plan_json a
      \<and> (av_state a \<in> {St_ROLLED_BACK, St_FAILED_SAFE, St_SAFETY_UNKNOWN} \<longrightarrow> av_state b = av_state a)"
    if "row_le a b" for a b
    using row_le_final [OF that final] that unfolding row_le_def by blast
  have nonces: "set (map ed_nonce (cd_evidence (cs_db s))) \<subseteq> set (map ed_nonce (cd_evidence (cs_db t)))"
    using le unfolding co_le_def by (metis set_append Un_upper1)
  show ?thesis
    using le nonces row unfolding co_le_def by meson
qed

theorem coordinator_store_only_grows_witness:
  "\<exists>more. cd_journal (cs_db run_resumed) = cd_journal (cs_db run_observed) @ more"
proof -
  have "(co_step demo_hash)\<^sup>*\<^sup>* s (co_run calls s)" for s calls
  proof (induction calls rule: rev_induct)
    case (snoc c calls)
    have "co_step demo_hash (co_run calls s) (co_after (fake_adapters demo_hash) fake_env c (co_run calls s))"
      by (rule co_step_call) (simp add: fake_env_def)
    then show ?case using snoc by (simp add: co_run_def)
  qed (simp add: co_run_def)
  from coordinator_store_only_grows [OF co_run_reach [of observing "{''commit.after_wal''}"] this [of run_observed crashed_commit]]
  show ?thesis by blast
qed

section \<open>commit\<close>

text \<open>
  C27. A commit that returns was made in Observing, with a valid external lease, with current and
  unexpired evidence for every required process of every obligation, and with the expected generation
  equal to both the stored generation and the plan's predecessor; it returns and stores the next
  generation and leaves the plan Effective.
\<close>

theorem commit_success:
  assumes "co_commit A E pid expected s = (Inr g, t)"
  shows "\<exists>a p w. find_activation pid (cd_activation (cs_db s)) = Some a \<and> plan_from_json (av_plan_json a) = Inr p
     \<and> av_state a = St_OBSERVING \<and> external_lease_valid A p (cs_world s) = (Inr True, w)
     \<and> evidence_complete (ce_hash E) p (cs_epoch s) (ce_clock E (cs_ticks s)) (cs_db s)
     \<and> cd_generation (cs_db s) = expected \<and> ps_generation (plan_predecessor p) = expected
     \<and> g = expected + 1 \<and> cd_generation (cs_db t) = expected + 1
     \<and> find_activation pid (cd_activation (cs_db t)) = Some (a\<lparr>av_state := St_EFFECTIVE\<rparr>)"
  using wp_result [OF commit_returns assms] unfolding commit_post_def .

theorem commit_success_witness:
  "\<exists>g t. co_commit (fake_adapters demo_hash) fake_env fake_pid 0 (run_observed\<lparr>cs_faults := {}\<rparr>) = (Inr g, t)
     \<and> g = 1 \<and> cd_generation (cs_db t) = 1"
proof -
  obtain t where t: "co_commit (fake_adapters demo_hash) fake_env fake_pid 0 (run_observed\<lparr>cs_faults := {}\<rparr>) = (Inr 1, t)"
    using run_observed_facts(5) by (metis prod.collapse)
  from commit_success [OF t] have "cd_generation (cs_db t) = 1" by auto
  with t show ?thesis by blast
qed

text \<open>
  A commit refused for missing evidence, a wrong state or a generation that is not the expected
  one raises the matching contract error and leaves the store exactly as it was.
\<close>

theorem commit_refusal:
  assumes "find_activation pid (cd_activation (cs_db s)) = Some a" and "plan_from_json (av_plan_json a) = Inr p"
    and "external_lease_valid A p (cs_world s) = (Inr True, w)" and "av_state a \<noteq> St_RESOLVED"
    and "complete = evidence_complete (ce_hash E) p (cs_epoch s) (ce_clock E (cs_ticks s)) (cs_db s)"
    and "\<not> (complete \<and> av_state a = St_OBSERVING
            \<and> cd_generation (cs_db s) = expected \<and> ps_generation (plan_predecessor p) = expected)"
  shows "\<exists>t. co_commit A E pid expected s = (Inl (ContractErr (if \<not> complete then MISSING_PROCESS_EVIDENCE
       else if av_state a \<noteq> St_OBSERVING then INVALID_TRANSITION else CAS_MISMATCH)), t) \<and> cs_db t = cs_db s"
proof -
  let ?code = "if \<not> complete then MISSING_PROCESS_EVIDENCE
       else if av_state a \<noteq> St_OBSERVING then INVALID_TRANSITION else CAS_MISMATCH"
  have "wp (co_commit A E pid expected) (\<lambda>_ _. False) (\<lambda>e t. e = ContractErr ?code \<and> cs_db t = cs_db s) s"
    using assms by (auto simp: commit_body_runs commit_wal_runs)
  then show ?thesis unfolding wp_raises_iff by blast
qed

theorem commit_refusal_witness:
  "\<exists>t code. co_commit (fake_adapters demo_hash) fake_env fake_pid 7 run_observed = (Inl (ContractErr code), t)
     \<and> cs_db t = cs_db run_observed"
proof -
  obtain a where a: "find_activation fake_pid (cd_activation (cs_db run_observed)) = Some a" "av_state a = St_OBSERVING"
    using run_observed_facts(1) by blast
  obtain p where p: "plan_from_json (av_plan_json a) = Inr p" using co_reach_plan [OF co_run_reach a(1)] by blast
  have "external_lease_valid (fake_adapters demo_hash) p (cs_world run_observed) = (Inr True, cs_world run_observed)"
    using run_observed_facts(2) by (simp add: fake_adapters_def fake_lease_valid_def gets_x_def)
  from commit_refusal [OF a(1) p this _ refl, of fake_env 7] show ?thesis
    using a(2) run_observed_facts(3) by auto
qed

text \<open>
  C28. Once the write-ahead log has a commit of a plan, no later commit of that plan ever succeeds: a
  crash between the log record and the exposure of the candidate burns the generation, and after
  recovery, fresh inventory, fresh evidence and a return to Observing the commit still fails.
\<close>

theorem commit_never_retried:
  assumes "co_reach H s" and "pid \<in> set (map jr_plan_id (commits (cs_db s)))"
  shows "\<exists>e t. co_commit A E pid expected s = (Inl e, t)"
proof (rule ccontr)
  assume "\<not> ?thesis"
  then obtain g t where "co_commit A E pid expected s = (Inr g, t)"
    by (cases "co_commit A E pid expected s"; cases "fst (co_commit A E pid expected s)") auto
  from wp_result [OF commit_returns this] obtain a p where a: "find_activation pid (cd_activation (cs_db s)) = Some a"
    and p: "plan_from_json (av_plan_json a) = Inr p" and g: "ps_generation (plan_predecessor p) = cd_generation (cs_db s)"
    unfolding commit_post_def by auto
  have ok: "commits_ok (cs_db s)" and inv: "co_inv H (cs_db s)" using co_reach_good [OF assms(1)] by auto
  obtain n where n: "n < length (commits (cs_db s))" "jr_plan_id (commits (cs_db s) ! n) = pid"
    using assms(2) by (auto simp: in_set_conv_nth)
  then obtain b where b: "b \<in> set (cd_activation (cs_db s))" "av_plan_id b = pid" "base_generation b = Some (int n)"
    using ok by (auto simp: commits_ok_def commit_row_ok_def)
  then have "b = a" using inv find_activation_Some [OF a] by (auto simp: co_inv_def plan_ids_def distinct_map inj_on_def)
  then have "cd_generation (cs_db s) = int n" using b p g by (simp add: base_generation_def)
  then show False using ok n by (simp add: commits_ok_def)
qed

theorem commit_never_retried_witness:
  "\<exists>e t. co_commit (fake_adapters demo_hash) fake_env fake_pid 0 run_resumed = (Inl e, t)"
proof -
  have "fake_pid \<in> set (map jr_plan_id (commits (cs_db run_resumed)))" unfolding run_resumed_facts by simp
  then show ?thesis
    unfolding run_resumed_run by (rule commit_never_retried [OF co_run_reach])
qed

section \<open>Evidence\<close>

text \<open>
  C13. The nonce of an accepted attestation is never accepted again, for any plan, in any later state
  and across any number of restarts; a replay raises and changes nothing in the store.
\<close>

theorem nonce_accepted_once:
  assumes "co_reach H s" and "co_observe A E pid item now s = (Inr (), t)" and "ce_hash E = H"
    and "(co_step H)\<^sup>*\<^sup>* t u" and "at_nonce item' = at_nonce item"
  shows "\<exists>e v. co_observe A' E' pid' item' now' u = (Inl e, v) \<and> cs_db v = cs_db u"
proof -
  have "co_step H s t" using co_step_call [OF assms(3), of s A "C_observe pid item now"] assms(2) by simp
  then have t: "co_reach H t" by (rule reach_step [OF assms(1)])
  have "at_nonce item \<in> set (map ed_nonce (cd_evidence (cs_db t)))" using wp_result [OF observe_records assms(2)] by simp
  moreover have "co_le (cs_db t) (cs_db u)" using co_steps_good [OF assms(4) t] by simp
  ultimately have "at_nonce item' \<in> set (map ed_nonce (cd_evidence (cs_db u)))"
    using assms(5) unfolding co_le_def by (metis UnI1 set_append)
  then have "wp (co_observe A' E' pid' item' now') (\<lambda>_ _. False) (\<lambda>_ v. cs_db v = cs_db u) u"
    by (intro wp_mono [OF observe_records]) auto
  then show ?thesis unfolding wp_raises_iff .
qed

theorem nonce_accepted_once_witness:
  "\<exists>e v. co_observe (fake_adapters demo_hash) fake_env fake_pid (fake_item ''n1'') None run_observed = (Inl e, v)
     \<and> cs_db v = cs_db run_observed"
  using nonce_accepted_once [OF co_run_reach run_observed_facts(4)] by (simp add: fake_env_def)

text \<open>
  Opening a coordinator on a store invalidates all evidence: whatever it held before, the next
  commit raises, and the generation does not move.
\<close>

theorem boot_discards_evidence:
  "\<exists>e t u. co_boot s = (Inr (), t) \<and> co_commit A E pid expected t = (Inl e, u)
     \<and> cd_generation (cs_db t) = cd_generation (cs_db s)"
proof -
  have "\<exists>t. co_boot s = (Inr (), t) \<and> (\<forall>e \<in> set (cd_evidence (cs_db t)). \<not> ed_valid e)
      \<and> cd_generation (cs_db t) = cd_generation (cs_db s)"
    using boot_invalidates [of s] by (auto simp: wp_def split: prod.splits sum.splits)
  then obtain t where t: "co_boot s = (Inr (), t)" "\<forall>e \<in> set (cd_evidence (cs_db t)). \<not> ed_valid e"
    "cd_generation (cs_db t) = cd_generation (cs_db s)" by blast
  have "wp (co_commit A E pid expected) (\<lambda>_ _. False) (\<lambda>_ _. True) t"
    by (rule wp_mono [OF commit_returns]) (use t(2) in \<open>auto simp: commit_post_def no_valid_evidence_incomplete\<close>)
  then show ?thesis using t unfolding wp_raises_iff by blast
qed

text \<open>
  With the reference verifier, the outcome of observe does not depend on the host of the attesting
  process: an attestation issued for a process of the same role, ordinal, start identity and epoch on
  another host is accepted like the real one.
\<close>

theorem observe_ignores_host:
  "fst (co_observe (fake_adapters H) E pid (item\<lparr>at_process := (at_process item)\<lparr>pr_host := h\<rparr>\<rparr>) now s)
   = fst (co_observe (fake_adapters H) E pid item now s)"
proof -
  let ?x = "item\<lparr>at_process := (at_process item)\<lparr>pr_host := h\<rparr>\<rparr>"
  have "evidence_stale G pid row p found ?x = evidence_stale G pid row p found item" for G row p found
    by (simp add: evidence_stale_def split: option.splits)
  moreover have "find_inventory pid (at_process ?x) rows = find_inventory pid (at_process item) rows" for rows
    by (simp add: find_inventory_def)
  moreover have "verifier_verify (fake_adapters H) ?x n p = verifier_verify (fake_adapters H) item n p" for n p
    by (simp add: fake_adapters_def fake_verify_def)
  ultimately show ?thesis
    by (simp add: co_observe_def exec_defs co_atomic_def insert_evidence_def co_journal_def co_mod_def co_now_def
        split: prod.splits sum.splits option.splits)
qed

section \<open>Side effects and rollback\<close>

text \<open>
  C29. Whenever a prepare, launch or rollback has touched the host, the traffic gate or the exposure
  gate, however it ended, the store has a write-ahead row of that operation that was not there before
  the call.
\<close>

theorem side_effects_are_logged_first:
  "effect_logged pid ''prepare'' s (snd (co_prepare A E pid s))
   \<and> effect_logged pid ''launch'' s (snd (co_launch A E pid l s))
   \<and> effect_logged pid ''rollback'' s (snd (co_rollback A E pid reason s))"
  using prepare_logged [of A E pid s] launch_logged [of A E pid l s] rollback_logged [of A E pid reason s]
  unfolding wp_snd by blast



section \<open>Plans\<close>

text \<open>
  A plan written to the store as canonical JSON is read back as the same plan, up to the order of
  keys in its opaque predecessor inputs, and the plan read back has the identity of the one written.
\<close>

theorem plan_round_trip:
  "plan_from_json (canon (plan_dict p)) = Inr (plan_canon p) \<and> plan_id H (plan_canon p) = plan_id H p
   \<and> canon (plan_dict (plan_canon p)) = canon (plan_dict p)"
  by (simp add: plan_read_back canon_plan_dict)

end
