(* ===== verification/Attestation_Theorems.thy ===== *)
theory Attestation_Theorems
  imports Attestation_Properties Coordinator_Theorems
begin

text \<open>
  The properties of the attestation profile: exactly which envelopes are accepted, that a signed statement
  is, and what the coordinator stores when its verifier is the signed one.
\<close>

section \<open>Acceptance\<close>

lemma verify_times_iff:
  "verify_times T now a = Inr () \<longleftrightarrow> as_issued_at a \<le> now + tp_clock_skew T \<and> as_observed_at a \<le> now + tp_clock_skew T
     \<and> now - tp_clock_skew T \<le> as_expires_at a \<and> as_observed_at a \<le> as_issued_at a \<and> as_issued_at a \<le> as_expires_at a
     \<and> as_expires_at a - as_issued_at a \<le> tp_max_ttl T \<and> now - as_observed_at a \<le> tp_max_observation_age T + tp_clock_skew T"
  by (auto simp: verify_times_def)

lemma trust_lookup_iff:
  "trust_lookup store issuer kid subject now = Inr e \<longleftrightarrow> map_of store (issuer, kid) = Some e \<and> te_enabled e
     \<and> subject \<in> set (te_subjects e) \<and> te_not_before e \<le> now \<and> now \<le> te_not_after e"
  by (auto simp: trust_lookup_def split: option.splits)

text \<open>The three parts of a detached JWS.\<close>

lemma split_detached: "split_dots (b64url x @ ''..'' @ b64url y) = [b64url x, [], b64url y]"
  using b64url_no_dot(1) [of x] b64url_no_dot(1) [of y] by (simp add: split_dots_first split_dots_last)

lemma join_detached: "split_dots jws = [x, [], y] \<Longrightarrow> jws = x @ ''..'' @ y"
  using join_split_dots [of jws] by simp

text \<open>
  C9. Verification accepts exactly these envelopes: the payload is the canonical text of a well-formed statement of this
  profile without critical claims; the JWS consists of the base64url of the canonical protected header for the key
  identifier of the statement and of a signature of header and payload that the key of an enabled trust entry checks, where
  the entry is the one of issuer and key identifier, allows the subject and is in force; and the times of the statement are
  in order, not in the future, not expired and within the limits. So the statement determines the envelope up to the
  signature.
\<close>

theorem verify_accepts_iff:
  assumes "rfc8785 jcs"
  shows "verify_envelope jcs check store T now envelope = Inr a \<longleftrightarrow>
     se_payload envelope = canonical_bytes (to_dict a) \<and> statement_ok (to_dict a)
     \<and> as_schema a = SCHEMA \<and> as_profile a = PROFILE \<and> as_critical_claims a = []
     \<and> (\<exists>e signature. map_of store (as_issuer a, as_kid a) = Some e \<and> te_enabled e \<and> as_subject a \<in> set (te_subjects e)
          \<and> te_not_before e \<le> now \<and> now \<le> te_not_after e
          \<and> se_detached_jws envelope = b64url (canonical_bytes (protected_header (as_kid a))) @ ''..'' @ b64url signature
          \<and> check (te_public_key e) signature
              (b64url (canonical_bytes (protected_header (as_kid a))) @ ''.'' @ b64url (se_payload envelope)))
     \<and> as_issued_at a \<le> now + tp_clock_skew T \<and> as_observed_at a \<le> now + tp_clock_skew T
     \<and> now - tp_clock_skew T \<le> as_expires_at a \<and> as_observed_at a \<le> as_issued_at a \<and> as_issued_at a \<le> as_expires_at a
     \<and> as_expires_at a - as_issued_at a \<le> tp_max_ttl T \<and> now - as_observed_at a \<le> tp_max_observation_age T + tp_clock_skew T"
    (is "?accepted \<longleftrightarrow> ?payload \<and> ?ok \<and> ?schema \<and> ?profile \<and> ?critical \<and> (\<exists>e signature. ?signed e signature) \<and> ?times")
proof
  note iffs = verify_header_iff [OF assms] verify_payload_iff [OF assms] b64url_decode_iff trust_lookup_iff verify_times_iff
  assume ?accepted
  then obtain header signature where s: "split_dots (se_detached_jws envelope) = [header, [], signature]"
    by (auto simp: verify_envelope_def split: list.splits)
  with \<open>?accepted\<close> show "?payload \<and> ?ok \<and> ?schema \<and> ?profile \<and> ?critical \<and> (\<exists>e signature. ?signed e signature) \<and> ?times"
    using join_detached [OF s] by (auto simp: verify_envelope_def iffs)
next
  note iffs = verify_header_iff [OF assms] verify_payload_iff [OF assms] b64url_decode_iff trust_lookup_iff verify_times_iff
  assume a: "?payload \<and> ?ok \<and> ?schema \<and> ?profile \<and> ?critical \<and> (\<exists>e signature. ?signed e signature) \<and> ?times"
  then obtain e signature where "?signed e signature" by blast
  then show ?accepted using a split_detached [of "canonical_bytes (protected_header (as_kid a))" signature]
    by (auto simp: verify_envelope_def iffs)
qed

text \<open>An instance: a signature is the signed text itself.\<close>

definition demo_statement :: attestation_statement where
  "demo_statement = \<lparr>as_schema = SCHEMA, as_profile = PROFILE, as_issuer = ''i'', as_kid = ''k'', as_subject = ''host-runtime'',
     as_plan_id = ''p'', as_launch_id = ''l'', as_plugin_id = ''a'', as_artifact_digest = ''sha256:'' @ replicate 64 CHR ''0'',
     as_process = \<lparr>ps_host = ''h'', ps_role = ''worker'', ps_ordinal = 0, ps_start_identity = ''pid:1:start_ticks:2'', ps_epoch = 1\<rparr>,
     as_obligation = ''o'', as_event = ''invoked'', as_observed_at = 100, as_issued_at = 110, as_expires_at = 200,
     as_challenge_nonce = ''n'', as_evidence_digest = ''sha256:'' @ replicate 64 CHR ''1'', as_critical_claims = []\<rparr>"

definition demo_trust :: "unit trust_store" where
  "demo_trust = [((''i'', ''k''), \<lparr>te_issuer = ''i'', te_kid = ''k'', te_public_key = (), te_subjects = [''host-runtime''],
     te_not_before = 0, te_not_after = 1000, te_enabled = True\<rparr>)]"

definition demo_policy :: time_policy where
  "demo_policy = \<lparr>tp_clock_skew = 5, tp_max_ttl = 300, tp_max_observation_age = 300\<rparr>"

abbreviation demo_jcs :: "json \<Rightarrow> string option" where
  "demo_jcs \<equiv> \<lambda>v. Some (canonical_bytes v)"

abbreviation demo_check :: "unit \<Rightarrow> string \<Rightarrow> string \<Rightarrow> bool" where
  "demo_check \<equiv> \<lambda>_ signature text. signature = text"

lemma demo_rfc8785: "rfc8785 demo_jcs"
  by (simp add: rfc8785_def)

lemma demo_statement_ok: "statement_ok (to_dict demo_statement)"
proof -
  have "list_all is_hex (replicate 64 (CHR ''0''))" "list_all is_hex (replicate 64 (CHR ''1''))"
    by (simp_all add: list_all_length is_hex_def)
  then have "DIGEST (''sha256:'' @ replicate 64 CHR ''0'')" "DIGEST (''sha256:'' @ replicate 64 CHR ''1'')"
    by (simp_all add: DIGEST_def)
  then show ?thesis
    unfolding statement_ok_def Let_def to_dict_jkeys
    by (simp add: demo_statement_def to_dict_def process_to_dict_def STRING_FIELDS_def TIME_FIELDS_def PROCESS_FIELDS_def
        nonempty_string_def safe_integer_def MAX_SAFE_INTEGER_def is_object_def is_list_def jlist_def jstr_def SCHEMA_def PROFILE_def
        insert_commute)
qed

definition demo_envelope :: signed_envelope where
  "demo_envelope = \<lparr>se_payload = canonical_bytes (to_dict demo_statement),
     se_detached_jws = b64url (canonical_bytes (protected_header ''k'')) @ ''..''
       @ b64url (b64url (canonical_bytes (protected_header ''k'')) @ ''.'' @ b64url (canonical_bytes (to_dict demo_statement)))\<rparr>"

theorem verify_accepts_iff_witness:
  "verify_envelope demo_jcs demo_check demo_trust demo_policy 120 demo_envelope = Inr demo_statement"
  unfolding verify_accepts_iff [OF demo_rfc8785] using demo_statement_ok
  by (simp add: demo_envelope_def demo_trust_def demo_policy_def demo_statement_def [unfolded SCHEMA_def PROFILE_def]
      SCHEMA_def PROFILE_def)

section \<open>Round trip\<close>

text \<open>
  C17. What \<open>sign\<close> makes is accepted: when the public key checks what the private key signs and is the key of the trust entry
  for issuer, key identifier, subject and time, and the statement has no critical claims and is timely, \<open>verify\<close> of the
  envelope returns the signed statement.
\<close>

theorem signed_statement_verifies:
  assumes "rfc8785 jcs" and "sign_statement jcs key a = Inr envelope" and "\<forall>text. check (te_public_key e) (key text) text"
    and "trust_lookup store (as_issuer a) (as_kid a) (as_subject a) now = Inr e" and "verify_times T now a = Inr ()"
    and "as_critical_claims a = []"
  shows "verify_envelope jcs check store T now envelope = Inr a"
proof -
  have c: "canonicalize jcs (to_dict a) = Inr p \<Longrightarrow> p = canonical_bytes (to_dict a)"
      "canonicalize jcs (protected_header k) = Inr p \<Longrightarrow> p = canonical_bytes (protected_header k)" for p k
    using canonicalize_iff [OF assms(1)] by simp_all
  let ?h = "b64url (canonical_bytes (protected_header (as_kid a)))" and ?p = "canonical_bytes (to_dict a)"
  have env: "envelope = \<lparr>se_payload = ?p, se_detached_jws = ?h @ ''..'' @ b64url (key (?h @ ''.'' @ b64url ?p))\<rparr>"
    and ok: "as_schema a = SCHEMA" "as_profile a = PROFILE" "statement_ok (to_dict a)"
    using assms(2) c by (auto simp: sign_statement_def validate_statement_def Let_def)
  have "verify_header jcs ?h = Inr (as_kid a)" using verify_header_iff [OF assms(1)] by simp
  moreover have "verify_payload jcs (as_kid a) ?p = Inr a" using verify_payload_iff [OF assms(1)] ok assms(6) by simp
  ultimately show ?thesis unfolding env
    using assms(3,4,5) split_detached [of "canonical_bytes (protected_header (as_kid a))" "key (?h @ ''.'' @ b64url ?p)"]
    by (simp add: verify_envelope_def b64url_decode_b64url guard_res_def)
qed

theorem signed_statement_verifies_witness:
  "\<exists>envelope. sign_statement demo_jcs id demo_statement = Inr envelope
     \<and> verify_envelope demo_jcs demo_check demo_trust demo_policy 120 envelope = Inr demo_statement"
proof -
  have "values_ok (to_dict demo_statement)" by (rule statement_values_ok [OF demo_statement_ok])
  moreover have "values_ok (protected_header (as_kid demo_statement))" by (simp add: protected_header_def)
  moreover have "as_schema demo_statement = SCHEMA" "as_profile demo_statement = PROFILE" by (simp_all add: demo_statement_def)
  ultimately obtain envelope where s: "sign_statement demo_jcs id demo_statement = Inr envelope"
    using demo_statement_ok by (simp add: sign_statement_def validate_statement_def canonicalize_def guard_res_def Let_def)
  have "trust_lookup demo_trust (as_issuer demo_statement) (as_kid demo_statement) (as_subject demo_statement) 120
      = Inr (snd (hd demo_trust))" by (simp add: trust_lookup_iff demo_trust_def demo_statement_def)
  moreover have "verify_times demo_policy 120 demo_statement = Inr ()" by (simp add: verify_times_iff demo_policy_def demo_statement_def)
  ultimately show ?thesis
    using s signed_statement_verifies [OF demo_rfc8785 s, of demo_check "snd (hd demo_trust)"] by (simp add: demo_statement_def)
qed

section \<open>The coordinator with signed evidence\<close>

text \<open>The verifier as an adapter of the coordinator: it reads only its own state and raises \<open>AttestationError\<close>.\<close>

definition signed_adapter ::
  "(string \<Rightarrow> string) \<Rightarrow> (json \<Rightarrow> string option) \<Rightarrow> ('k \<Rightarrow> string \<Rightarrow> string \<Rightarrow> bool) \<Rightarrow> 'k signed_verifier \<Rightarrow>
   attestation \<Rightarrow> int \<Rightarrow> plan \<Rightarrow> ('w, co_error, unit) exec" where
  "signed_adapter H jcs check V item now p w = (case signed_verify H jcs check V item now p of
     Inl e \<Rightarrow> (Inl (OtherErr ''AttestationError''), w) | Inr _ \<Rightarrow> (Inr (), w))"

lemma signed_verify_iff:
  "signed_verify H jcs check V item now p = Inr () \<longleftrightarrow> (\<exists>envelope a q. map_of (sv_envelopes V) (at_nonce item) = Some envelope
     \<and> verify_envelope jcs check (sv_trust_store V) (sv_policy V) now envelope = Inr a \<and> binds_receipt a item
     \<and> find (\<lambda>q. plugin_id H q = at_artifact_id item) (plan_plugins p) = Some q \<and> as_artifact_digest a = ''sha256:'' @ pl_artifact_sha256 q)"
  by (auto simp: signed_verify_def split: option.splits)

text \<open>
  C16. With the signed verifier the coordinator stores evidence only under a signature: when \<open>observe\<close> returns, the evidence
  that it appended has an envelope under its nonce whose verified statement agrees with it in every field and names the
  artifact digest that the stored plan has for the plugin; when \<open>observe\<close> raises, the store is as it was.
\<close>

theorem observe_requires_signature:
  "case co_observe (A\<lparr>verifier_verify := signed_adapter H jcs check V\<rparr>) E pid item (Some now) s of
     (Inl e, t) \<Rightarrow> cs_db t = cs_db s
   | (Inr u, t) \<Rightarrow> \<exists>row p envelope a q. find_activation pid (cd_activation (cs_db s)) = Some row
       \<and> plan_from_json (av_plan_json row) = Inr p \<and> at_plan_id item = pid
       \<and> map_of (sv_envelopes V) (at_nonce item) = Some envelope
       \<and> verify_envelope jcs check (sv_trust_store V) (sv_policy V) now envelope = Inr a \<and> binds_receipt a item
       \<and> q \<in> set (plan_plugins p) \<and> plugin_id H q = at_artifact_id item \<and> as_artifact_digest a = ''sha256:'' @ pl_artifact_sha256 q
       \<and> cd_evidence (cs_db t) = cd_evidence (cs_db s) @ [evidence_of pid (cs_epoch s) item]"
proof (cases "co_observe (A\<lparr>verifier_verify := signed_adapter H jcs check V\<rparr>) E pid item (Some now) s")
  case (Pair r t)
  show ?thesis
  proof (cases r)
    case (Inl e)
    then show ?thesis using wp_error [OF observe_records] Pair by force
  next
    case (Inr u)
    obtain row p where row: "find_activation pid (cd_activation (cs_db s)) = Some row" "plan_from_json (av_plan_json row) = Inr p"
      "signed_verify H jcs check V item now p = Inr ()" "at_plan_id item = pid"
      and ev: "cd_evidence (cs_db t) = cd_evidence (cs_db s) @ [evidence_of pid (cs_epoch s) item]"
      using Pair Inr
      by (auto simp: co_observe_def co_row_def co_world_def signed_adapter_def lift_res_def co_atomic_def insert_evidence_def co_journal_def
          co_now_def co_mod_def insert_journal_def evidence_stale_def exec_defs split: option.splits sum.splits if_splits prod.splits)
    from row(3) [unfolded signed_verify_iff] obtain envelope a q where
      "map_of (sv_envelopes V) (at_nonce item) = Some envelope" "binds_receipt a item"
      "verify_envelope jcs check (sv_trust_store V) (sv_policy V) now envelope = Inr a"
      "find (\<lambda>q. plugin_id H q = at_artifact_id item) (plan_plugins p) = Some q" "as_artifact_digest a = ''sha256:'' @ pl_artifact_sha256 q" by blast
    moreover then have "q \<in> set (plan_plugins p)" "plugin_id H q = at_artifact_id item" by (auto simp: find_Some_iff)
    ultimately show ?thesis using Pair Inr row ev by auto
  qed
qed

end
