(* ===== verification/Host_Evidence.thy ===== *)
theory Host_Evidence
  imports Attestation
begin

text \<open>
  Host lifecycle events (host\_evidence.py): the strict parser of an event and the translation of an
  invocation to an attestation statement. A membership test with an unhashable value raises \<open>TypeError\<close>,
  as in Python; every other refusal is an \<open>AttestationError\<close>.
\<close>

section \<open>Numbers in texts\<close>

text \<open>\<open>int(text)\<close>: white space around, a sign, and digits that single underscores may separate.\<close>

definition strip :: "string \<Rightarrow> string" where
  "strip s = rev (dropWhile is_space (rev (dropWhile is_space s)))"

fun underscored :: "string \<Rightarrow> bool" where
  "underscored [] \<longleftrightarrow> False"
| "underscored [c] \<longleftrightarrow> is_digit c"
| "underscored (c # d # s) \<longleftrightarrow> is_digit c \<and> (if d = CHR ''_'' then underscored s else underscored (d # s))"

definition py_nat :: "string \<Rightarrow> int option" where
  "py_nat s = (if underscored s then Some (int (read_nat (filter is_digit s))) else None)"

definition py_int :: "string \<Rightarrow> int option" where
  "py_int text = (case strip text of
     [] \<Rightarrow> None
   | c # s \<Rightarrow> if c = CHR ''-'' then map_option uminus (py_nat s) else if c = CHR ''+'' then py_nat s else py_nat (c # s))"

section \<open>Events\<close>

datatype event_error = AttestationErr attestation_error_code | TypeErr

definition HOST_SCHEMA :: string where
  "HOST_SCHEMA = ''vllm-hust-plugin-evidence/0.1''"

definition HOST_EVENTS :: "string list" where
  "HOST_EVENTS = [''discovered'', ''resolved'', ''invoked'', ''failed'', ''skipped'']"

definition OBSERVATION_KINDS :: "string list" where
  "OBSERVATION_KINDS = [''loader_lifecycle'', ''scheduler_resolution'', ''scheduler_dispatch'']"

definition HOST_FIELDS :: "string list" where
  "HOST_FIELDS = [''schema'', ''event_id'', ''event'', ''observation_kind'', ''entry_point'', ''process'', ''observed_at_ns'',
     ''delivery_attempt'', ''plan_id'', ''launch_id'', ''binding_status'', ''occurrence_id'', ''controller_instance_id'',
     ''invocation_seq'', ''dispatch_id'', ''plugin_id'', ''artifact_digest'', ''identity_status'', ''detail'']"

definition LEGACY_PROCESS_FIELDS :: "string list" where
  "LEGACY_PROCESS_FIELDS = [''host'', ''role'', ''ordinal'', ''pid'', ''start_identity'', ''process_epoch'']"

record entry_point_binding =
  eb_group :: string
  eb_name :: string
  eb_value :: string
  eb_plugin_id :: string
  eb_obligation :: string

record host_receipt =
  hr_raw :: string
  hr_event :: json
  hr_statement :: attestation_statement

text \<open>\<open>value in {...}\<close>\<close>

definition member :: "json \<Rightarrow> string list \<Rightarrow> event_error + bool" where
  "member v xs = (case v of JArr _ \<Rightarrow> Inl TypeErr | JObj _ \<Rightarrow> Inl TypeErr | _ \<Rightarrow> Inr (v \<in> JStr ` set xs))"

text \<open>Tests in their order: the first that raises or fails decides.\<close>

fun run_checks :: "(event_error + bool) list \<Rightarrow> event_error + unit" where
  "run_checks [] = Inr ()"
| "run_checks (c # cs) = bind_res c (\<lambda>ok. if ok then run_checks cs else Inl (AttestationErr INVALID_STATEMENT))"

definition nonneg_integer :: "json \<Rightarrow> bool" where
  "nonneg_integer v \<longleftrightarrow> (case v of JInt i \<Rightarrow> 0 \<le> i | _ \<Rightarrow> False)"

definition null_or :: "(json \<Rightarrow> bool) \<Rightarrow> json \<Rightarrow> bool" where
  "null_or ok v \<longleftrightarrow> v = JNull \<or> ok v"

definition start_identity_ok :: "json \<Rightarrow> bool" where
  "start_identity_ok p \<longleftrightarrow> (let text = jstr (jfield p ''start_identity'');
       prefix = ''pid:'' @ show_int (jint (jfield p ''pid'')) @ '':start_ticks:'' in
     starts_with prefix text \<and> (case py_int (drop (length prefix) text) of None \<Rightarrow> False | Some n \<Rightarrow> n \<ge> 0))"

definition occurrence_ok :: "json \<Rightarrow> bool" where
  "occurrence_ok v \<longleftrightarrow> (case v of JInt i \<Rightarrow> i \<ge> 1 | JStr s \<Rightarrow> s \<noteq> [] | _ \<Rightarrow> False)"

definition positive_integer :: "json \<Rightarrow> bool" where
  "positive_integer v \<longleftrightarrow> (case v of JInt i \<Rightarrow> i \<ge> 1 | _ \<Rightarrow> False)"

definition dispatch_ok :: "json \<Rightarrow> bool" where
  "dispatch_ok v \<longleftrightarrow> (case v of JStr s \<Rightarrow> length s = 64 \<and> list_all is_hex s | _ \<Rightarrow> False)"

text \<open>\<open>json.dumps(items, separators=...).encode()\<close> and its digest.\<close>

definition material :: "(string \<Rightarrow> string) \<Rightarrow> json list \<Rightarrow> json" where
  "material H items = JStr (H (utf8 (dumps True (JArr items))))"

definition is_int :: "json \<Rightarrow> bool" where
  "is_int v \<longleftrightarrow> (case v of JInt _ \<Rightarrow> True | _ \<Rightarrow> False)"

definition dispatch_material :: "json \<Rightarrow> json list" where
  "dispatch_material v = (let p = jfield v ''process'' in
     [jfield p ''host'', jfield p ''start_identity'', jfield p ''process_epoch'', jfield v ''plan_id'', jfield v ''launch_id'',
      jfield v ''controller_instance_id'', jfield v ''occurrence_id''])"

definition scheduler_ok :: "(string \<Rightarrow> string) \<Rightarrow> json \<Rightarrow> bool" where
  "scheduler_ok H v \<longleftrightarrow> (let kind = jfield v ''observation_kind''; occurrence = jfield v ''occurrence_id'';
       controller = jfield v ''controller_instance_id''; seq = jfield v ''invocation_seq''; dispatch = jfield v ''dispatch_id'' in
     if kind = JStr ''loader_lifecycle'' then occurrence = JNull \<and> controller = JNull \<and> seq = JNull \<and> dispatch = JNull
     else if kind = JStr ''scheduler_resolution'' then
       jfield v ''event'' = JStr ''resolved'' \<and> is_string controller \<and> occurrence = JStr (''controller:'' @ jstr controller)
       \<and> seq = JNull \<and> dispatch = JNull
     else
       jfield v ''event'' = JStr ''invoked'' \<and> is_string controller \<and> is_int occurrence \<and> seq = occurrence
       \<and> dispatch = material H (dispatch_material v))"

definition event_material :: "json \<Rightarrow> json list" where
  "event_material v = (let p = jfield v ''process''; entry = jfield v ''entry_point'' in
     [jfield p ''host'', jfield p ''pid'', jfield p ''start_identity'', jfield p ''process_epoch'', jfield p ''role'', jfield p ''ordinal'',
      jfield entry ''group'', jfield entry ''name'', jfield entry ''value'', jfield v ''event'', jfield v ''detail'',
      jfield v ''occurrence_id'', jfield v ''plan_id'', jfield v ''launch_id'', jfield v ''observation_kind'',
      jfield v ''controller_instance_id'', jfield v ''delivery_attempt'', jfield v ''observed_at_ns'']
     @ (if jfield p ''assignment_source'' = JNull then [] else [jfield p ''assignment_source'']))"

definition event_checks :: "(string \<Rightarrow> string) \<Rightarrow> json \<Rightarrow> (event_error + bool) list" where
  "event_checks H v = (let entry = jfield v ''entry_point''; p = jfield v ''process'' in
     [Inr (jkeys v = set HOST_FIELDS),
      Inr (jfield v ''schema'' = JStr HOST_SCHEMA),
      member (jfield v ''event'') HOST_EVENTS,
      member (jfield v ''observation_kind'') OBSERVATION_KINDS,
      Inr (is_object entry \<and> jkeys entry = {''group'', ''name'', ''value''}),
      Inr (is_object p \<and> jkeys p \<in> {set LEGACY_PROCESS_FIELDS, insert ''assignment_source'' (set LEGACY_PROCESS_FIELDS)}),
      Inr (list_all nonempty_string ([jfield v ''event_id'', jfield v ''identity_status'']
        @ map (jfield entry) [''group'', ''name'', ''value''] @ map (jfield p) [''host'', ''role'', ''start_identity''])),
      (if ''assignment_source'' \<in> jkeys p then member (jfield p ''assignment_source'') [''host'', ''environment''] else Inr True),
      Inr (list_all nonneg_integer (map (jfield p) [''ordinal'', ''pid'', ''process_epoch''] @ map (jfield v) [''observed_at_ns'', ''delivery_attempt''])),
      Inr (start_identity_ok p),
      Inr (jint (jfield v ''delivery_attempt'') \<ge> 1),
      Inr (list_all (\<lambda>name. null_or nonempty_string (jfield v name)) [''plan_id'', ''launch_id'', ''detail'', ''controller_instance_id'']),
      member (jfield v ''binding_status'') [''bound'', ''unbound''],
      Inr ((jfield v ''plan_id'' = JNull) = (jfield v ''launch_id'' = JNull)),
      Inr ((jfield v ''plan_id'' \<noteq> JNull \<and> jfield v ''launch_id'' \<noteq> JNull) = (jfield v ''binding_status'' = JStr ''bound'')),
      Inr (null_or occurrence_ok (jfield v ''occurrence_id'')),
      Inr (null_or positive_integer (jfield v ''invocation_seq'')),
      Inr (null_or dispatch_ok (jfield v ''dispatch_id'')),
      Inr (scheduler_ok H v),
      Inr (jfield v ''event_id'' = material H (event_material v)),
      Inr (jfield v ''plugin_id'' = JNull \<and> jfield v ''artifact_digest'' = JNull)])"

definition attest_res :: "'a attest \<Rightarrow> event_error + 'a" where
  "attest_res x = (case x of Inl e \<Rightarrow> Inl (AttestationErr e) | Inr y \<Rightarrow> Inr y)"

definition parse_host_event :: "(string \<Rightarrow> string) \<Rightarrow> string \<Rightarrow> event_error + json" where
  "parse_host_event H raw =
     bind_res (attest_res (parse_strict raw)) (\<lambda>v.
     bind_res (run_checks (event_checks H v)) (\<lambda>_. Inr v))"

section \<open>Translation\<close>

definition mismatch :: "bool \<Rightarrow> event_error + unit" where
  "mismatch bad = guard_res (\<not> bad) (AttestationErr BINDING_MISMATCH)"

record challenge =
  ch_issuer :: string
  ch_kid :: string
  ch_nonce :: string
  ch_issued_at :: int
  ch_expires_at :: int

definition invocation_statement ::
  "(string \<Rightarrow> string) \<Rightarrow> string \<Rightarrow> json \<Rightarrow> plan \<Rightarrow> string \<Rightarrow> int \<Rightarrow> entry_point_binding \<Rightarrow> challenge \<Rightarrow> plugin_identity \<Rightarrow> attestation_statement" where
  "invocation_statement H raw v p launch_id epoch b c q = (let r = jfield v ''process'' in
     \<lparr>as_schema = SCHEMA, as_profile = PROFILE, as_issuer = ch_issuer c, as_kid = ch_kid c, as_subject = ''host-runtime'',
      as_plan_id = plan_id H p, as_launch_id = launch_id, as_plugin_id = plugin_id H q,
      as_artifact_digest = ''sha256:'' @ pl_artifact_sha256 q,
      as_process = \<lparr>ps_host = jstr (jfield r ''host''), ps_role = jstr (jfield r ''role''), ps_ordinal = jint (jfield r ''ordinal''),
        ps_start_identity = jstr (jfield r ''start_identity''), ps_epoch = epoch\<rparr>,
      as_obligation = eb_obligation b, as_event = ''invoked'', as_observed_at = jint (jfield v ''observed_at_ns'') div 1000000000,
      as_issued_at = ch_issued_at c, as_expires_at = ch_expires_at c, as_challenge_nonce = ch_nonce c,
      as_evidence_digest = ''sha256:'' @ H raw, as_critical_claims = []\<rparr>)"

definition translate_invocation ::
  "(string \<Rightarrow> string) \<Rightarrow> string \<Rightarrow> plan \<Rightarrow> string \<Rightarrow> int \<Rightarrow> entry_point_binding \<Rightarrow> challenge \<Rightarrow> event_error + host_receipt" where
  "translate_invocation H raw p launch_id epoch b c =
     bind_res (parse_host_event H raw) (\<lambda>v. let r = jfield v ''process''; entry = jfield v ''entry_point'' in
     bind_res (guard_res (jfield v ''event'' = JStr ''invoked'') (AttestationErr INVALID_STATEMENT)) (\<lambda>_.
     bind_res (mismatch (jfield v ''binding_status'' \<noteq> JStr ''bound'')) (\<lambda>_.
     bind_res (mismatch (jfield r ''assignment_source'' \<noteq> JStr ''host'')) (\<lambda>_.
     bind_res (mismatch (jfield v ''plan_id'' \<noteq> JStr (plan_id H p) \<or> jfield v ''launch_id'' \<noteq> JStr launch_id)) (\<lambda>_.
     bind_res (mismatch (jfield r ''process_epoch'' \<noteq> JInt epoch)) (\<lambda>_.
     bind_res (mismatch (\<not> (jfield entry ''group'' = JStr (eb_group b) \<and> jfield entry ''name'' = JStr (eb_name b)
         \<and> jfield entry ''value'' = JStr (eb_value b)))) (\<lambda>_.
     case find (\<lambda>q. plugin_id H q = eb_plugin_id b) (plan_plugins p) of
       None \<Rightarrow> Inl (AttestationErr BINDING_MISMATCH)
     | Some q \<Rightarrow> Inr \<lparr>hr_raw = raw, hr_event = v, hr_statement = invocation_statement H raw v p launch_id epoch b c q\<rparr>)))))))"

end
