(* ===== verification/Journal_Files.thy ===== *)
theory Journal_Files
  imports Exec_Monad Host_Evidence
begin

text \<open>
  Directories, system calls and the journal operations of host\_event\_sink.py: opening a journal
  root, the quarantine lock, appending to a journal, and the snapshot, the atomic move and the restore of
  a journal. A system call takes its outcome from a schedule, so that it may fail, write less than it
  was given, or be the last one of the process: \<open>Crash\<close> is no Python exception and passes every
  handler. A descriptor of a directory is its path; closing it has no effect.
\<close>

section \<open>Files\<close>

record file_node =
  fn_device :: int
  fn_inode :: int
  fn_regular :: bool
  fn_owned :: bool
  fn_mode :: int
  fn_raw :: string

text \<open>\<open>dr_canonical\<close>: the path is absolute, canonical and no symbolic link. \<open>dr_private\<close>: the directory
  is owned by the user and not writable by others.\<close>

record directory =
  dr_canonical :: bool
  dr_private :: bool
  dr_identity :: "int \<times> int"
  dr_entries :: "(string \<times> file_node) list"

text \<open>\<open>fs_count\<close> counts the random tokens drawn; \<open>fs_settled\<close> is the variable \<open>settled\<close> that the two
  closures of a prepared fault share.\<close>

datatype outcome = Go | Short nat | Fail | Die

record files =
  fs_dir :: "string \<Rightarrow> directory option"
  fs_locks :: "string list"
  fs_next :: int
  fs_count :: nat
  fs_outcomes :: "outcome list"
  fs_settled :: bool

datatype os_code = ENOENT | EEXIST | EAGAIN | EOTHER

text \<open>\<open>Waits\<close>: the call waits for a lock that another process holds.\<close>

datatype file_error =
    SinkErr | TransactionErr | LifecycleErr | AssertErr | EventErr event_error | OsErr os_code | Waits | Crash

type_synonym 'a file_exec = "(files, file_error, 'a) exec"

text \<open>The hash function, the process identifier and the random tokens of the process.\<close>

record file_env =
  fe_hash :: "string \<Rightarrow> string"
  fe_pid :: int
  fe_token :: "nat \<Rightarrow> string"

definition entry :: "files \<Rightarrow> string \<Rightarrow> string \<Rightarrow> file_node option" where
  "entry s d x = (case fs_dir s d of None \<Rightarrow> None | Some r \<Rightarrow> map_of (dr_entries r) x)"

definition on_entries :: "string \<Rightarrow> ((string \<times> file_node) list \<Rightarrow> (string \<times> file_node) list) \<Rightarrow> files \<Rightarrow> files" where
  "on_entries d f s = s\<lparr>fs_dir := (fs_dir s)(d := map_option (\<lambda>r. r\<lparr>dr_entries := f (dr_entries r)\<rparr>) (fs_dir s d))\<rparr>"

definition device_of :: "files \<Rightarrow> string \<Rightarrow> int" where
  "device_of s d = (case fs_dir s d of None \<Rightarrow> 0 | Some r \<Rightarrow> fst (dr_identity r))"

section \<open>System calls\<close>

text \<open>The outcome of the next system call; without one the call goes through.\<close>

definition os_call :: "(outcome \<Rightarrow> 'a file_exec) \<Rightarrow> 'a file_exec" where
  "os_call m s = (case fs_outcomes s of
       [] \<Rightarrow> m Go s
     | x # rest \<Rightarrow> (case x of
         Fail \<Rightarrow> (Inl (OsErr EOTHER), s\<lparr>fs_outcomes := rest\<rparr>)
       | Die \<Rightarrow> (Inl Crash, s\<lparr>fs_outcomes := rest\<rparr>)
       | _ \<Rightarrow> m x (s\<lparr>fs_outcomes := rest\<rparr>)))"

definition os_ok :: "unit file_exec" where
  "os_ok = os_call (\<lambda>_. return_x ())"

definition os_fsync :: "string \<Rightarrow> unit file_exec" where
  "os_fsync d = os_ok"

definition os_stat :: "string \<Rightarrow> string \<Rightarrow> file_node file_exec" where
  "os_stat d x = os_call (\<lambda>_. bind_x (gets_x (\<lambda>s. entry s d x)) (\<lambda>n. case n of
     None \<Rightarrow> raise_x (OsErr ENOENT) | Some n \<Rightarrow> return_x n))"

text \<open>Opening for reading, without following a symbolic link; and reading at most so many bytes.\<close>

definition os_open :: "string \<Rightarrow> string \<Rightarrow> file_node file_exec" where
  "os_open d x = os_stat d x"

definition os_read :: "file_node \<Rightarrow> int \<Rightarrow> string file_exec" where
  "os_read n limit = os_call (\<lambda>_. return_x (take (nat limit) (fn_raw n)))"

text \<open>\<open>O_CREAT | O_EXCL\<close>, mode 0600.\<close>

definition new_node :: "string \<Rightarrow> files \<Rightarrow> file_node" where
  "new_node d s = \<lparr>fn_device = device_of s d, fn_inode = fs_next s, fn_regular = True, fn_owned = True,
     fn_mode = 384, fn_raw = []\<rparr>"

definition add_node :: "string \<Rightarrow> string \<Rightarrow> files \<Rightarrow> files" where
  "add_node d x s = on_entries d (dict_set x (new_node d s)) s\<lparr>fs_next := fs_next s + 1\<rparr>"

definition os_create :: "string \<Rightarrow> string \<Rightarrow> unit file_exec" where
  "os_create d x = os_call (\<lambda>_. bind_x (gets_x (\<lambda>s. entry s d x)) (\<lambda>n.
     then_x (guard_x (n = None) (OsErr EEXIST)) (modify_x (add_node d x))))"

definition change_node :: "string \<Rightarrow> string \<Rightarrow> (file_node \<Rightarrow> file_node) \<Rightarrow> files \<Rightarrow> files" where
  "change_node d x f = on_entries d (map (\<lambda>(k, n). (k, if k = x then f n else n)))"

text \<open>Writing at the end of an open file; the number of bytes written.\<close>

definition os_write :: "string \<Rightarrow> string \<Rightarrow> string \<Rightarrow> nat file_exec" where
  "os_write d x raw = os_call (\<lambda>o'. let n = (case o' of Short n \<Rightarrow> min n (length raw) | _ \<Rightarrow> length raw) in
     then_x (modify_x (change_node d x (\<lambda>f. f\<lparr>fn_raw := fn_raw f @ take n raw\<rparr>))) (return_x n))"

definition os_unlink :: "string \<Rightarrow> string \<Rightarrow> unit file_exec" where
  "os_unlink d x = os_call (\<lambda>_. bind_x (gets_x (\<lambda>s. entry s d x)) (\<lambda>n.
     then_x (guard_x (n \<noteq> None) (OsErr ENOENT)) (modify_x (on_entries d (filter (\<lambda>(k, n). k \<noteq> x))))))"

text \<open>\<open>renameat2\<close> with \<open>RENAME_NOREPLACE\<close>.\<close>

definition move_node :: "string \<Rightarrow> string \<Rightarrow> string \<Rightarrow> string \<Rightarrow> file_node \<Rightarrow> files \<Rightarrow> files" where
  "move_node d x e y n s = on_entries e (\<lambda>es. es @ [(y, n)]) (on_entries d (filter (\<lambda>(k, n). k \<noteq> x)) s)"

definition rename_noreplace :: "string \<Rightarrow> string \<Rightarrow> string \<Rightarrow> string \<Rightarrow> unit file_exec" where
  "rename_noreplace d x e y = os_call (\<lambda>_. bind_x (gets_x id) (\<lambda>s. case entry s d x of
     None \<Rightarrow> raise_x (OsErr ENOENT)
   | Some n \<Rightarrow>
       then_x (guard_x (entry s e y = None) (OsErr EEXIST))
       (then_x (guard_x (device_of s d = device_of s e \<and> fs_dir s e \<noteq> None) (OsErr EOTHER))
       (modify_x (move_node d x e y n)))))"

definition os_listdir :: "string \<Rightarrow> string list file_exec" where
  "os_listdir d = os_call (\<lambda>_. gets_x (\<lambda>s. case fs_dir s d of None \<Rightarrow> [] | Some r \<Rightarrow> map fst (dr_entries r)))"

section \<open>Handlers\<close>

text \<open>\<open>except OSError: raise err\<close>.\<close>

definition os_as :: "file_error \<Rightarrow> 'a file_exec \<Rightarrow> 'a file_exec" where
  "os_as err m = catch_x m (\<lambda>e. raise_x (case e of OsErr _ \<Rightarrow> err | _ \<Rightarrow> e))"

text \<open>\<open>except HostEventSinkError: raise err\<close>.\<close>

definition sink_as :: "file_error \<Rightarrow> 'a file_exec \<Rightarrow> 'a file_exec" where
  "sink_as err m = catch_x m (\<lambda>e. raise_x (if e = SinkErr then err else e))"

text \<open>\<open>except BaseException as e\<close>: a crash is none.\<close>

definition except_x :: "'a file_exec \<Rightarrow> (file_error \<Rightarrow> 'a file_exec) \<Rightarrow> 'a file_exec" where
  "except_x m h = catch_x m (\<lambda>e. if e = Crash then raise_x e else h e)"

definition finally_x :: "'a file_exec \<Rightarrow> unit file_exec \<Rightarrow> 'a file_exec" where
  "finally_x m f = bind_x (except_x m (\<lambda>e. then_x f (raise_x e))) (\<lambda>x. then_x f (return_x x))"

text \<open>\<open>while view: ... os.write ...\<close>\<close>

function write_all :: "file_error \<Rightarrow> string \<Rightarrow> string \<Rightarrow> string \<Rightarrow> unit file_exec" where
  "write_all err d x view = (if view = [] then return_x ()
     else bind_x (os_write d x view) (\<lambda>written.
       if written = 0 then raise_x err else write_all err d x (drop written view)))"
  by pat_completeness auto
termination
  by (relation "measure (\<lambda>(_, _, _, view). length view)") auto

declare write_all.simps [simp del]

section \<open>Journal roots\<close>

definition open_journal_root :: "string \<Rightarrow> (int \<times> int) option \<Rightarrow> string file_exec" where
  "open_journal_root root expected =
     bind_x (gets_x (\<lambda>s. fs_dir s root)) (\<lambda>d. case d of
       None \<Rightarrow> raise_x SinkErr
     | Some r \<Rightarrow>
         then_x (guard_x (dr_canonical r) SinkErr)
         (then_x (os_as SinkErr os_ok)
         (then_x (os_as SinkErr os_ok)
         (then_x (guard_x (dr_private r) SinkErr)
         (then_x (guard_x (expected = None \<or> expected = Some (dr_identity r)) SinkErr)
         (return_x root))))))"

definition fence_name :: "(string \<Rightarrow> string) \<Rightarrow> string \<Rightarrow> string" where
  "fence_name H journal = ''.ecpa-quarantine-'' @ H (utf8 journal) @ ''.fence''"

definition QUARANTINE_LOCK :: string where
  "QUARANTINE_LOCK = ''.ecpa-quarantine.lock''"

definition safe_node :: "file_node \<Rightarrow> bool" where
  "safe_node n \<longleftrightarrow> fn_regular n \<and> fn_owned n \<and> fn_mode n = 384"

text \<open>The lock file: opened or created, and checked. The actuator takes the lock exclusively and without
  waiting; a writer takes it shared and waits while an actuator holds it. Writers keep it for one call of
  \<open>append_event\<close> only, and calls do not overlap in the model, so only exclusive locks are part of the state.\<close>

definition open_lock :: "string \<Rightarrow> unit file_exec" where
  "open_lock d =
     then_x (os_call (\<lambda>_. modify_x (\<lambda>s. if entry s d QUARANTINE_LOCK = None then add_node d QUARANTINE_LOCK s else s)))
     (bind_x (gets_x (\<lambda>s. entry s d QUARANTINE_LOCK)) (\<lambda>n.
      guard_x (case n of None \<Rightarrow> False | Some n \<Rightarrow> safe_node n) SinkErr))"

definition acquire_exclusive :: "string \<Rightarrow> unit file_exec" where
  "acquire_exclusive d = os_as SinkErr
     (then_x (open_lock d)
     (os_call (\<lambda>_. bind_x (gets_x fs_locks) (\<lambda>held.
        then_x (guard_x (d \<notin> set held) (OsErr EAGAIN))
        (modify_x (\<lambda>s. s\<lparr>fs_locks := d # held\<rparr>))))))"

definition acquire_shared :: "string \<Rightarrow> unit file_exec" where
  "acquire_shared d = os_as SinkErr
     (then_x (open_lock d)
     (os_call (\<lambda>_. bind_x (gets_x fs_locks) (\<lambda>held. guard_x (d \<notin> set held) Waits))))"

definition release_lock :: "string \<Rightarrow> unit file_exec" where
  "release_lock d = modify_x (\<lambda>s. s\<lparr>fs_locks := filter (\<lambda>p. p \<noteq> d) (fs_locks s)\<rparr>)"

text \<open>\<open>append_event\<close> from the opened root on, for the line and the name of its journal; \<open>fsync\<close> is the
  environment variable.\<close>

definition check_fence :: "file_env \<Rightarrow> string \<Rightarrow> string \<Rightarrow> unit file_exec" where
  "check_fence E d name =
     catch_x (then_x (os_stat d (fence_name (fe_hash E) name)) (raise_x SinkErr))
       (\<lambda>e. if e = OsErr ENOENT then return_x () else raise_x (case e of OsErr _ \<Rightarrow> SinkErr | _ \<Rightarrow> e))"

definition open_append :: "string \<Rightarrow> string \<Rightarrow> bool file_exec" where
  "open_append d name =
     catch_x (then_x (os_create d name) (return_x True))
       (\<lambda>e. if e = OsErr EEXIST then then_x (os_as SinkErr (os_open d name)) (return_x False)
            else raise_x (case e of OsErr _ \<Rightarrow> SinkErr | _ \<Rightarrow> e))"

definition private_journal :: "string \<Rightarrow> string \<Rightarrow> unit file_exec" where
  "private_journal d name =
     bind_x (gets_x (\<lambda>s. entry s d name)) (\<lambda>n.
     then_x (guard_x (case n of None \<Rightarrow> False | Some n \<Rightarrow> fn_regular n \<and> fn_owned n) SinkErr)
     (when_x (map_option fn_mode n \<noteq> Some 384)
       (then_x (os_call (\<lambda>_. modify_x (change_node d name (\<lambda>f. f\<lparr>fn_mode := 384\<rparr>))))
       (bind_x (gets_x (\<lambda>s. entry s d name)) (\<lambda>n. guard_x (map_option fn_mode n = Some 384) SinkErr)))))"

definition append_line :: "file_env \<Rightarrow> string \<Rightarrow> string \<Rightarrow> string \<Rightarrow> string \<Rightarrow> unit file_exec" where
  "append_line E fsync d name raw =
     then_x (acquire_shared d)
     (then_x (guard_x (fsync \<in> {''0'', ''1''}) SinkErr)
     (then_x (check_fence E d name)
     (bind_x (open_append d name) (\<lambda>created.
      then_x (os_as SinkErr
        (then_x (private_journal d name)
        (then_x (write_all SinkErr d name raw)
        (when_x (fsync = ''1'') (os_fsync d)))))
      (when_x (fsync = ''1'' \<and> created) (os_as SinkErr (os_fsync d)))))))"

section \<open>Snapshot, quarantine and restore of a journal\<close>

record quarantined_journal =
  qj_journal :: string
  qj_raw :: string
  qj_device :: int
  qj_inode :: int

definition journal_name_ok :: "string \<Rightarrow> bool" where
  "journal_name_ok journal \<longleftrightarrow> CHR ''/'' \<notin> set journal \<and> ends_with ''.jsonl'' journal"

definition node_identity :: "file_node \<Rightarrow> int \<times> int" where
  "node_identity n = (fn_device n, fn_inode n)"

definition complete_lines :: "string \<Rightarrow> bool" where
  "complete_lines raw \<longleftrightarrow> raw = [] \<or> last raw = CHR 0x0A"

definition snapshot_journal :: "string \<Rightarrow> string \<Rightarrow> int \<times> int \<Rightarrow> int \<Rightarrow> quarantined_journal file_exec" where
  "snapshot_journal root journal expected max_bytes =
     then_x (guard_x (journal_name_ok journal \<and> max_bytes > 0) SinkErr)
     (bind_x (open_journal_root root (Some expected)) (\<lambda>d.
      bind_x (os_as SinkErr (os_open d journal)) (\<lambda>before.
      then_x (guard_x (fn_regular before \<and> fn_owned before) SinkErr)
      (bind_x (os_read before (max_bytes + 1)) (\<lambda>raw.
       then_x (guard_x (int (length raw) \<le> max_bytes) SinkErr)
       (then_x (guard_x (complete_lines raw) SinkErr)
       (bind_x (os_as SinkErr (os_stat d journal)) (\<lambda>after.
        then_x (guard_x (node_identity after = node_identity before
                  \<and> length (fn_raw after) = length (fn_raw before)) SinkErr)
        (return_x \<lparr>qj_journal = journal, qj_raw = raw, qj_device = fn_device before, qj_inode = fn_inode before\<rparr>)))))))))"

text \<open>The inspection before the move: what is read, and the file it was read from.\<close>

definition inspect_source ::
  "string \<Rightarrow> string \<Rightarrow> string \<Rightarrow> int \<Rightarrow> quarantined_journal option \<Rightarrow> (string \<times> file_node) file_exec" where
  "inspect_source source quarantine journal max_bytes expected =
     then_x (guard_x (source \<noteq> quarantine) SinkErr)
     (bind_x (gets_x id) (\<lambda>s.
      then_x (guard_x (device_of s source = device_of s quarantine) SinkErr)
      (then_x (catch_x (then_x (os_stat quarantine journal) (raise_x SinkErr))
         (\<lambda>e. if e = OsErr ENOENT then return_x () else raise_x (case e of OsErr _ \<Rightarrow> SinkErr | _ \<Rightarrow> e)))
      (bind_x (os_as SinkErr (os_open source journal)) (\<lambda>n.
       then_x (guard_x (fn_regular n \<and> fn_owned n) SinkErr)
       (bind_x (os_read n (max_bytes + 1)) (\<lambda>raw.
        then_x (guard_x (int (length raw) \<le> max_bytes) SinkErr)
        (then_x (guard_x (complete_lines raw) SinkErr)
        (then_x (guard_x (case expected of None \<Rightarrow> True
              | Some q \<Rightarrow> qj_journal q = journal \<and> qj_raw q = raw \<and> qj_device q = fn_device n \<and> qj_inode q = fn_inode n) SinkErr)
        (bind_x (os_as SinkErr (os_stat source journal)) (\<lambda>current.
         then_x (guard_x (node_identity current = node_identity n \<and> length (fn_raw current) = length (fn_raw n)) SinkErr)
         (return_x (raw, n)))))))))))))"

text \<open>The verification after the move.\<close>

definition verify_moved :: "string \<Rightarrow> string \<Rightarrow> string \<Rightarrow> int \<Rightarrow> string \<Rightarrow> file_node \<Rightarrow> unit file_exec" where
  "verify_moved source quarantine journal max_bytes raw n = os_as SinkErr
     (then_x (os_fsync source)
     (then_x (os_fsync quarantine)
     (bind_x (os_stat quarantine journal) (\<lambda>destination.
      then_x (guard_x (node_identity destination = node_identity n) SinkErr)
      (bind_x (os_as SinkErr (os_open quarantine journal)) (\<lambda>retained.
       then_x (guard_x (node_identity retained = node_identity n) SinkErr)
       (bind_x (os_read retained (max_bytes + 1)) (\<lambda>bytes.
        then_x (guard_x (bytes = raw) SinkErr)
        (catch_x (then_x (os_stat source journal) (raise_x SinkErr))
          (\<lambda>e. if e = OsErr ENOENT then return_x () else raise_x e))))))))))"

text \<open>The handler after a move that could not be verified: the file goes back, unless its place was taken.\<close>

definition undo_move :: "string \<Rightarrow> string \<Rightarrow> string \<Rightarrow> file_error \<Rightarrow> unit file_exec" where
  "undo_move source quarantine journal original =
     catch_x (then_x (os_stat source journal) (raise_x SinkErr))
       (\<lambda>e. if e = OsErr ENOENT
            then then_x (os_as SinkErr
                   (then_x (rename_noreplace quarantine journal source journal)
                   (then_x (os_fsync source) (os_fsync quarantine))))
                 (raise_x original)
            else raise_x (case e of OsErr _ \<Rightarrow> SinkErr | _ \<Rightarrow> e))"

definition quarantine_journal ::
  "string \<Rightarrow> string \<Rightarrow> string \<Rightarrow> int \<times> int \<Rightarrow> int \<times> int \<Rightarrow> int \<Rightarrow> quarantined_journal option \<Rightarrow> quarantined_journal file_exec" where
  "quarantine_journal root quarantine_root journal expected_root expected_quarantine max_bytes expected =
     then_x (guard_x (journal_name_ok journal \<and> max_bytes > 0) SinkErr)
     (bind_x (open_journal_root root (Some expected_root)) (\<lambda>source.
      bind_x (open_journal_root quarantine_root (Some expected_quarantine)) (\<lambda>quarantine.
      bind_x (inspect_source source quarantine journal max_bytes expected) (\<lambda>(raw, n).
      then_x (os_as SinkErr (rename_noreplace source journal quarantine journal))
      (then_x (except_x (verify_moved source quarantine journal max_bytes raw n) (undo_move source quarantine journal))
      (return_x \<lparr>qj_journal = journal, qj_raw = raw, qj_device = fn_device n, qj_inode = fn_inode n\<rparr>))))))"

definition restore_quarantined_journal ::
  "string \<Rightarrow> string \<Rightarrow> quarantined_journal \<Rightarrow> int \<times> int \<Rightarrow> int \<times> int \<Rightarrow> int \<Rightarrow> unit file_exec" where
  "restore_quarantined_journal root quarantine_root q expected_root expected_quarantine max_bytes =
     bind_x (quarantine_journal quarantine_root root (qj_journal q) expected_quarantine expected_root max_bytes (Some q)) (\<lambda>restored.
     guard_x (qj_raw restored = qj_raw q \<and> qj_device restored = qj_device q \<and> qj_inode restored = qj_inode q) SinkErr)"

section \<open>Rules\<close>

text \<open>A system call goes through, fails or is the last one; it sees the state with the rest of the schedule.\<close>

lemma wp_os_call:
  assumes "\<And>x os. wp (m x) Q R (s\<lparr>fs_outcomes := os\<rparr>)"
    and "\<And>os. R (OsErr EOTHER) (s\<lparr>fs_outcomes := os\<rparr>)" and "\<And>os. R Crash (s\<lparr>fs_outcomes := os\<rparr>)"
  shows "wp (os_call m) Q R s"
proof (cases "fs_outcomes s")
  case Nil
  then have "wp (os_call m) Q R s = wp (m Go) Q R s" by (simp add: os_call_def wp_def)
  then show ?thesis using assms(1) [of Go "fs_outcomes s"] by simp
next
  case (Cons x os)
  then show ?thesis using assms(1) [of x os] assms(2,3) [of os]
    by (cases x) (auto simp: os_call_def wp_def)
qed

lemma entry_outcomes [simp]:
  "entry (s\<lparr>fs_outcomes := xs\<rparr>) = entry s" "entry (s\<lparr>fs_locks := ls\<rparr>) = entry s" "entry (s\<lparr>fs_count := k\<rparr>) = entry s"
  "entry (s\<lparr>fs_next := i\<rparr>) = entry s" "entry (s\<lparr>fs_settled := b\<rparr>) = entry s"
  by (simp_all add: entry_def fun_eq_iff)

end
