(* ===== verification/Event_Sink.thy ===== *)
theory Event_Sink
  imports Journal_Files
begin

text \<open>
  The event sink (host\_event\_sink.py) over the journal files: the canonical text of an event, appending
  an event to the journal of its process, and reading all journals of a directory. The environment of the
  process is the argument \<open>env\<close>.
\<close>

section \<open>Environment\<close>

definition JOURNAL_ENV :: string where
  "JOURNAL_ENV = ''ECPA_HOST_EVENT_DIR''"

definition FSYNC_ENV :: string where
  "FSYNC_ENV = ''ECPA_HOST_EVENT_FSYNC''"

definition DEVICE_ENV :: string where
  "DEVICE_ENV = ''ECPA_HOST_EVENT_DEVICE''"

definition INODE_ENV :: string where
  "INODE_ENV = ''ECPA_HOST_EVENT_INODE''"

definition lift_file :: "file_error + 'a \<Rightarrow> 'a file_exec" where
  "lift_file x = (case x of Inl e \<Rightarrow> raise_x e | Inr y \<Rightarrow> return_x y)"

definition expected_directory_identity :: "(string \<Rightarrow> string option) \<Rightarrow> file_error + (int \<times> int) option" where
  "expected_directory_identity env = (case (env DEVICE_ENV, env INODE_ENV) of
     (None, None) \<Rightarrow> Inr None
   | (Some device, Some inode) \<Rightarrow> (case (py_int device, py_int inode) of
       (Some a, Some b) \<Rightarrow> if a < 0 \<or> b < 0 then Inl SinkErr else Inr (Some (a, b))
     | _ \<Rightarrow> Inl SinkErr)
   | _ \<Rightarrow> Inl SinkErr)"

definition configured_journal_root :: "(string \<Rightarrow> string option) \<Rightarrow> string file_exec" where
  "configured_journal_root env = (case env JOURNAL_ENV of
     None \<Rightarrow> raise_x SinkErr
   | Some configured \<Rightarrow>
       then_x (guard_x (configured \<noteq> []) SinkErr)
       (bind_x (lift_file (expected_directory_identity env)) (open_journal_root configured)))"

section \<open>Writing\<close>

definition event_res :: "event_error + 'a \<Rightarrow> file_error + 'a" where
  "event_res x = (case x of Inl e \<Rightarrow> Inl (EventErr e) | Inr y \<Rightarrow> Inr y)"

definition canonical_event :: "(string \<Rightarrow> string) \<Rightarrow> json \<Rightarrow> file_error + string" where
  "canonical_event H event = (let raw = utf8 (dumps True event) in
     bind_res (event_res (parse_host_event H raw)) (\<lambda>_. Inr raw))"

definition journal_name :: "(string \<Rightarrow> string) \<Rightarrow> json \<Rightarrow> string" where
  "journal_name H event = (let p = jfield event ''process'' in
     H (utf8 (dumps True (JArr [jfield event ''plan_id'', jfield event ''launch_id'', jfield p ''host'', jfield p ''role'',
       jfield p ''ordinal'', jfield p ''pid'', jfield p ''start_identity'', jfield p ''process_epoch'']))) @ ''.jsonl'')"

definition append_event :: "file_env \<Rightarrow> (string \<Rightarrow> string option) \<Rightarrow> json \<Rightarrow> unit file_exec" where
  "append_event E env event =
     bind_x (lift_file (canonical_event (fe_hash E) event)) (\<lambda>raw.
     bind_x (configured_journal_root env) (\<lambda>d.
     append_line E (case env FSYNC_ENV of None \<Rightarrow> ''0'' | Some x \<Rightarrow> x) d (journal_name (fe_hash E) event) (raw @ [CHR 0x0A])))"

section \<open>Reading\<close>

record journal_event =
  je_journal :: string
  je_line_number :: nat
  je_raw :: string
  je_event :: json

text \<open>\<open>bytes.splitlines\<close>\<close>

fun splitlines :: "string \<Rightarrow> string list" where
  "splitlines [] = []"
| "splitlines (c # s) =
     (if c = CHR 0x0A then [] # splitlines s
      else if c = CHR 0x0D then [] # (case s of [] \<Rightarrow> [] | d # t \<Rightarrow> if d = CHR 0x0A then splitlines t else splitlines s)
      else (case splitlines s of [] \<Rightarrow> [[c]] | x # xs \<Rightarrow> (c # x) # xs))"

definition event_ids :: "journal_event list \<Rightarrow> json list" where
  "event_ids rs = map (\<lambda>r. jfield (je_event r) ''event_id'') rs"

fun parse_lines :: "(string \<Rightarrow> string) \<Rightarrow> string \<Rightarrow> nat \<Rightarrow> string list \<Rightarrow> journal_event list \<Rightarrow> file_error + journal_event list" where
  "parse_lines H name k [] records = Inr records"
| "parse_lines H name k (raw # lines) records =
     bind_res (guard_res (raw \<noteq> []) SinkErr) (\<lambda>_.
     bind_res (event_res (parse_host_event H raw)) (\<lambda>event.
     bind_res (guard_res (jfield event ''event_id'' \<notin> set (event_ids records)) SinkErr) (\<lambda>_.
     parse_lines H name (Suc k) lines (records @ [\<lparr>je_journal = name, je_line_number = k, je_raw = raw, je_event = event\<rparr>]))))"

definition read_journal :: "string \<Rightarrow> int option \<Rightarrow> int \<Rightarrow> string \<Rightarrow> string file_exec" where
  "read_journal d max_total used name =
     bind_x (os_as SinkErr (os_open d name)) (\<lambda>n.
     then_x (guard_x (fn_regular n \<and> fn_owned n) SinkErr)
     (bind_x (case max_total of
         None \<Rightarrow> os_read n (int (length (fn_raw n)))
       | Some m \<Rightarrow> bind_x (os_read n (m - used + 1)) (\<lambda>raw.
           then_x (guard_x (int (length raw) \<le> m - used) SinkErr) (return_x raw))) (\<lambda>raw.
      then_x (guard_x (complete_lines raw) SinkErr) (return_x raw))))"

fun read_journals ::
  "file_env \<Rightarrow> string \<Rightarrow> int option \<Rightarrow> string list \<Rightarrow> journal_event list \<Rightarrow> int \<Rightarrow> journal_event list file_exec" where
  "read_journals E d max_total [] records used = return_x records"
| "read_journals E d max_total (name # names) records used =
     bind_x (read_journal d max_total used name) (\<lambda>raw.
     bind_x (lift_file (parse_lines (fe_hash E) name 1 (splitlines raw) records)) (\<lambda>records.
     read_journals E d max_total names records (used + int (length raw))))"

definition read_events ::
  "file_env \<Rightarrow> (string \<Rightarrow> string option) \<Rightarrow> string \<Rightarrow> (int \<times> int) option \<Rightarrow> int option \<Rightarrow> journal_event list file_exec" where
  "read_events E env root expected max_total =
     then_x (guard_x (case max_total of None \<Rightarrow> True | Some m \<Rightarrow> m > 0) SinkErr)
     (bind_x (if expected = None \<and> env JOURNAL_ENV = Some root then lift_file (expected_directory_identity env) else return_x expected) (\<lambda>expected.
      bind_x (open_journal_root root expected) (\<lambda>d.
      bind_x (os_listdir d) (\<lambda>names.
      read_journals E d max_total (filter (ends_with ''.jsonl'') (sort names)) [] 0))))"

end
