(* ===== verification/Event_Properties.thy ===== *)
theory Event_Properties
  imports Host_Evidence Attestation_Properties
begin

text \<open>
  Lemmas on host events: the tests do not depend on the order of keys, so that a dumped event is parsed
  back; what an accepted event looks like; and that the digest of the material determines the material.
\<close>

lemma canon_scalar [simp]:
  "canon v = JNull \<longleftrightarrow> v = JNull" "canon v = JStr s \<longleftrightarrow> v = JStr s" "canon v = JInt i \<longleftrightarrow> v = JInt i"
  by (cases v; simp)+

lemma run_checks_iff: "run_checks cs = Inr () \<longleftrightarrow> list_all (\<lambda>c. c = Inr True) cs"
  by (induction cs) (auto split: if_splits)

lemma event_tests_canon [simp]:
  "member (canon v) xs = member v xs" "nonneg_integer (canon v) = nonneg_integer v" "occurrence_ok (canon v) = occurrence_ok v"
  "positive_integer (canon v) = positive_integer v" "dispatch_ok (canon v) = dispatch_ok v" "is_int (canon v) = is_int v"
  "null_or nonempty_string (canon v) = null_or nonempty_string v" "null_or occurrence_ok (canon v) = null_or occurrence_ok v"
  "null_or positive_integer (canon v) = null_or positive_integer v" "null_or dispatch_ok (canon v) = null_or dispatch_ok v"
  by (cases v; simp add: member_def nonneg_integer_def occurrence_ok_def positive_integer_def dispatch_ok_def is_int_def null_or_def image_iff
      nonempty_string_def)+

lemma material_canon: "material H (map canon items) = material H items"
proof -
  have "dumps True (JArr (map canon items)) = dumps True (canon (JArr items))" by simp
  then show ?thesis unfolding material_def dumps_canon by simp
qed

lemma event_material_canon: "event_material (canon v) = map canon (event_material v)"
  by (simp add: event_material_def Let_def)

lemma dispatch_material_canon: "dispatch_material (canon v) = map canon (dispatch_material v)"
  by (simp add: dispatch_material_def Let_def)

lemma start_identity_canon [simp]: "start_identity_ok (canon p) = start_identity_ok p"
  by (simp add: start_identity_ok_def Let_def)

lemma material_string: "canon x = material H items \<longleftrightarrow> x = material H items"
  by (simp add: material_def)

lemma scheduler_canon [simp]: "scheduler_ok H (canon v) = scheduler_ok H v"
proof -
  have "(canon (jfield v a) = canon (jfield v b)) = (jfield v a = jfield v b)" if "is_int (jfield v b)" for a b
    using that by (cases "jfield v b") (auto simp: is_int_def)
  then show ?thesis
    by (simp add: scheduler_ok_def Let_def dispatch_material_canon material_canon material_string cong: conj_cong)
qed

lemma event_checks_canon [simp]: "event_checks H (canon v) = event_checks H v"
  by (simp add: event_checks_def Let_def event_material_canon material_canon material_string)

lemma parse_strict_dumps:
  assumes "keys_ok (JObj kvs)"
  shows "parse_strict (utf8 (dumps a (JObj kvs))) = Inr (canon (JObj kvs))"
proof -
  have "loads_with unique_pairs (utf8 (dumps a (JObj kvs))) = Inr (canon (JObj kvs))"
    using strict.loads_with_dumps [OF assms, of "[]" a] by simp
  then show ?thesis by (simp add: parse_strict_def)
qed

text \<open>A dumped event is accepted exactly if its fields pass the tests.\<close>

lemma parse_dumped_event:
  assumes "keys_ok v" and "is_object v"
  shows "parse_host_event H (utf8 (dumps a v)) = (case run_checks (event_checks H v) of Inl e \<Rightarrow> Inl e | Inr _ \<Rightarrow> Inr (canon v))"
proof -
  obtain kvs where "v = JObj kvs" using assms(2) by (cases v) (auto simp: is_object_def)
  then have "parse_strict (utf8 (dumps a v)) = Inr (canon v)" using parse_strict_dumps assms(1) by blast
  then show ?thesis by (simp add: parse_host_event_def attest_res_def split: sum.splits)
qed

lemma parse_host_event_iff:
  "parse_host_event H raw = Inr v \<longleftrightarrow> parse_strict raw = Inr v \<and> run_checks (event_checks H v) = Inr ()"
  by (auto simp: parse_host_event_def attest_res_def split: sum.splits)

section \<open>Accepted events\<close>

text \<open>The material of an event consists of strings, numbers and null.\<close>

definition scalar :: "json \<Rightarrow> bool" where
  "scalar v \<longleftrightarrow> (case v of JNull \<Rightarrow> True | JStr _ \<Rightarrow> True | JInt _ \<Rightarrow> True | _ \<Rightarrow> False)"

lemma scalarI:
  "nonempty_string v \<Longrightarrow> scalar v" "nonneg_integer v \<Longrightarrow> scalar v" "null_or nonempty_string v \<Longrightarrow> scalar v"
  "null_or occurrence_ok v \<Longrightarrow> scalar v" "member v xs = Inr True \<Longrightarrow> scalar v" "scalar JNull"
  by (cases v; auto simp: scalar_def nonempty_string_def nonneg_integer_def null_or_def occurrence_ok_def member_def)+

lemma event_material_scalar:
  assumes "run_checks (event_checks H v) = Inr ()"
  shows "list_all scalar (event_material v)"
proof -
  note c = assms [unfolded run_checks_iff event_checks_def Let_def, simplified]
  let ?p = "jfield v ''process''"
  have "scalar (jfield ?p ''assignment_source'')"
  proof (cases "''assignment_source'' \<in> jkeys ?p")
    case True
    then show ?thesis using c by (auto intro: scalarI)
  next
    case False
    then have "jfield ?p ''assignment_source'' = JNull"
      by (cases ?p) (auto simp: jfield_def jget_def jkeys_def map_of_eq_None_iff [symmetric] split: option.splits)
    then show ?thesis by (simp add: scalarI)
  qed
  then show ?thesis using c by (auto simp: event_material_def Let_def intro: scalarI)
qed

lemma scalar_canon: "list_all scalar xs \<Longrightarrow> map canon xs = xs \<and> list_all keys_ok xs"
proof (induction xs)
  case (Cons x xs)
  then show ?case by (cases x) (auto simp: scalar_def)
qed simp

text \<open>Equal texts of such material are texts of equal material.\<close>

lemma dumps_scalar_inj:
  assumes "list_all scalar xs" and "list_all scalar ys" and "utf8 (dumps a (JArr xs)) = utf8 (dumps a (JArr ys))"
  shows "xs = ys"
proof -
  have "loads (utf8 (dumps a (JArr zs))) = Inr (JArr zs)" if "list_all scalar zs" for zs
    using loads_dumps [of "JArr zs" a] scalar_canon [OF that] by simp
  then have "Inr (JArr xs) = (Inr (JArr ys) :: parse_error + json)" using assms by metis
  then show ?thesis by simp
qed

end
