(* ===== verification/Quarantine_Transaction.thy ===== *)
theory Quarantine_Transaction
  imports Journal_Files Json_Parse Base64
begin

text \<open>
  The crash-consistent quarantine of a journal (quarantine\_transaction.py): canonical records that are
  written once, the fence that keeps writers away from a withheld journal, the steps of a transaction and
  the reconciliation after a crash; and the actuator that runs a transaction
  (\<open>commit_fault\<close> of formal\_lifecycle\_source.py).
\<close>

section \<open>Records\<close>

record durable_record =
  du_name :: string
  du_raw :: string
  du_digest :: string
  du_value :: json

definition MAX_TRANSACTION_RECORD_BYTES :: int where
  "MAX_TRANSACTION_RECORD_BYTES = 2 * 1024 * 1024"

definition STAGES :: "string list" where
  "STAGES = [''intent'', ''applied'', ''finalized'', ''restored'', ''blocked'']"

definition INTENT_FIELDS :: "string list" where
  "INTENT_FIELDS = [''schema'', ''transaction_id'', ''binding'', ''source_directory'', ''quarantine_directory'',
     ''journal'', ''journal_device'', ''journal_inode'', ''journal_bytes'', ''journal_base64'', ''journal_sha256'']"

definition APPLIED_FIELDS :: "string list" where
  "APPLIED_FIELDS = [''schema'', ''transaction_id'', ''intent_digest'', ''journal'', ''journal_device'',
     ''journal_inode'', ''journal_bytes'', ''journal_sha256'']"

definition TERMINAL_FIELDS :: "string list" where
  "TERMINAL_FIELDS = [''schema'', ''transaction_id'', ''intent_digest'', ''applied_digest'', ''reason'', ''finalized_digest'']"

definition FINALIZED_FIELDS :: "string list" where
  "FINALIZED_FIELDS = [''schema'', ''transaction_id'', ''intent_digest'', ''applied_digest'',
     ''fact_receipt_sha256'', ''source_process_identity'']"

definition RESTORE_REASONS :: "string list" where
  "RESTORE_REASONS = [''catchable-post-move-failure'', ''no-move-observed'', ''restored-after-applied'', ''restored-after-move'']"

definition BLOCK_REASONS :: "string list" where
  "BLOCK_REASONS = [''journal-missing-from-both-roots'', ''restore-verification-failed'',
     ''source-changed-before-recovery'', ''source-replacement-collision'', ''source-replacement-after-finalize'']"

definition FENCE_FIELDS :: "string list" where
  "FENCE_FIELDS = [''schema'', ''transaction_id'', ''intent_digest'', ''journal'', ''journal_device'',
     ''journal_inode'', ''journal_sha256'']"

definition NEWLINE :: char where
  "NEWLINE = CHR 0x0A"

definition quarantine_transaction_id :: "(string \<Rightarrow> string) \<Rightarrow> json \<Rightarrow> string" where
  "quarantine_transaction_id H binding = H (canonical_bytes binding)"

definition q_digest :: "(string \<Rightarrow> string) \<Rightarrow> string \<Rightarrow> string" where
  "q_digest H raw = ''sha256:'' @ H raw"

definition is_digest :: "json \<Rightarrow> bool" where
  "is_digest v \<longleftrightarrow> (case v of
     JStr s \<Rightarrow> take 7 s = ''sha256:'' \<and> length s = 71 \<and> list_all is_hex (drop 7 s) | _ \<Rightarrow> False)"

definition directory_value :: "int \<times> int \<Rightarrow> json" where
  "directory_value i = JObj [(''device'', JInt (fst i)), (''inode'', JInt (snd i))]"

definition id_ok :: "string \<Rightarrow> bool" where
  "id_ok tid \<longleftrightarrow> length tid = 64 \<and> list_all is_hex tid"

definition record_file :: "string \<Rightarrow> string \<Rightarrow> string" where
  "record_file tid stage = ''ecpa-'' @ tid @ ''.'' @ stage @ ''.json''"

definition record_name :: "string \<Rightarrow> string \<Rightarrow> string file_exec" where
  "record_name tid stage =
     then_x (guard_x (id_ok tid \<and> stage \<in> set STAGES) TransactionErr) (return_x (record_file tid stage))"

text \<open>\<open>json.loads\<close> of a record, and the comparison with its canonical text; both fail with the same error.\<close>

definition record_value :: "string \<Rightarrow> json option" where
  "record_value raw = (case loads raw of
     Inr (JObj kvs) \<Rightarrow> if raw = canonical_bytes (JObj kvs) @ [NEWLINE] then Some (JObj kvs) else None
   | _ \<Rightarrow> None)"

definition read_record :: "file_env \<Rightarrow> string \<Rightarrow> string \<Rightarrow> bool \<Rightarrow> durable_record option file_exec" where
  "read_record E d name required =
     bind_x (catch_x (bind_x (os_open d name) (\<lambda>n. return_x (Some n)))
       (\<lambda>e. if e = OsErr ENOENT \<and> \<not> required then return_x None
            else raise_x (case e of OsErr _ \<Rightarrow> TransactionErr | _ \<Rightarrow> e))) (\<lambda>n. case n of
       None \<Rightarrow> return_x None
     | Some n \<Rightarrow>
         then_x (guard_x (safe_node n) TransactionErr)
         (bind_x (os_read n (MAX_TRANSACTION_RECORD_BYTES + 1)) (\<lambda>raw.
          then_x (guard_x (int (length raw) \<le> MAX_TRANSACTION_RECORD_BYTES) TransactionErr)
          (case record_value raw of
             None \<Rightarrow> raise_x TransactionErr
           | Some v \<Rightarrow> return_x (Some \<lparr>du_name = name, du_raw = raw, du_digest = q_digest (fe_hash E) raw, du_value = v\<rparr>)))))"

text \<open>A record that must be there: \<open>assert record is not None\<close>.\<close>

definition need_record :: "file_env \<Rightarrow> string \<Rightarrow> string \<Rightarrow> durable_record file_exec" where
  "need_record E d name = bind_x (read_record E d name True) (\<lambda>r. case r of
     None \<Rightarrow> raise_x AssertErr | Some r \<Rightarrow> return_x r)"

definition read_quarantine_record ::
  "file_env \<Rightarrow> string \<Rightarrow> int \<times> int \<Rightarrow> string \<Rightarrow> string \<Rightarrow> bool \<Rightarrow> durable_record option file_exec" where
  "read_quarantine_record E root expected tid stage required =
     bind_x (open_journal_root root (Some expected)) (\<lambda>d.
     bind_x (record_name tid stage) (\<lambda>name. read_record E d name required))"

text \<open>The removal of a temporary file, whose failure is ignored.\<close>

definition drop_temporary :: "string \<Rightarrow> string \<Rightarrow> unit file_exec" where
  "drop_temporary d temporary =
     catch_x (then_x (os_unlink d temporary) (os_fsync d))
       (\<lambda>e. case e of OsErr _ \<Rightarrow> return_x () | _ \<Rightarrow> raise_x e)"

definition same_or_conflict :: "string \<Rightarrow> durable_record \<Rightarrow> durable_record file_exec" where
  "same_or_conflict raw r = then_x (guard_x (du_raw r = raw) TransactionErr) (return_x r)"

text \<open>
  Publishing a file: a temporary file is written, synchronised and moved to its name, never over another
  file. The same code writes records (\<open>_write_record\<close>) and fences
  (\<open>install_quarantine_source_fence\<close>).
\<close>

definition publish :: "file_env \<Rightarrow> string \<Rightarrow> string \<Rightarrow> string \<Rightarrow> string \<Rightarrow> durable_record file_exec" where
  "publish E d temporary name raw =
     bind_x (read_record E d name False) (\<lambda>existing. case existing of
       Some r \<Rightarrow> same_or_conflict raw r
     | None \<Rightarrow>
         then_x (os_as TransactionErr (os_create d temporary))
         (bind_x (except_x
            (then_x (os_as TransactionErr (then_x (write_all TransactionErr d temporary raw) (os_fsync d)))
            (catch_x (then_x (rename_noreplace d temporary d name) (return_x True))
              (\<lambda>e. if e = OsErr EEXIST then return_x False else raise_x (case e of OsErr _ \<Rightarrow> TransactionErr | _ \<Rightarrow> e))))
            (\<lambda>e. then_x (drop_temporary d temporary) (raise_x e))) (\<lambda>renamed.
          if renamed
          then then_x (os_fsync d) (bind_x (need_record E d name) (same_or_conflict raw))
          else finally_x (bind_x (need_record E d name) (same_or_conflict raw)) (drop_temporary d temporary))))"

definition next_token :: "file_env \<Rightarrow> string file_exec" where
  "next_token E = bind_x (gets_x fs_count) (\<lambda>n.
     then_x (modify_x (\<lambda>s. s\<lparr>fs_count := n + 1\<rparr>)) (return_x (show_int (fe_pid E) @ ''.'' @ fe_token E n)))"

definition write_record ::
  "file_env \<Rightarrow> string \<Rightarrow> int \<times> int \<Rightarrow> string \<Rightarrow> string \<Rightarrow> json \<Rightarrow> durable_record file_exec" where
  "write_record E root expected tid stage v =
     bind_x (record_name tid stage) (\<lambda>name.
     let raw = canonical_bytes v @ [NEWLINE] in
     then_x (guard_x (int (length raw) \<le> MAX_TRANSACTION_RECORD_BYTES) TransactionErr)
     (bind_x (open_journal_root root (Some expected)) (\<lambda>d.
      bind_x (next_token E) (\<lambda>token.
      publish E d (''.ecpa-transaction-'' @ tid @ ''.'' @ stage @ ''.'' @ token @ ''.tmp'') name raw))))"

section \<open>The fence of a withheld journal\<close>

definition fence_value :: "(string \<Rightarrow> string) \<Rightarrow> string \<Rightarrow> string \<Rightarrow> quarantined_journal \<Rightarrow> json" where
  "fence_value H tid intent_digest q = JObj [(''schema'', JStr ''ecpa-quarantine-source-fence/v1''),
     (''transaction_id'', JStr tid), (''intent_digest'', JStr intent_digest), (''journal'', JStr (qj_journal q)),
     (''journal_device'', JInt (qj_device q)), (''journal_inode'', JInt (qj_inode q)),
     (''journal_sha256'', JStr (q_digest H (qj_raw q)))]"

definition install_quarantine_source_fence ::
  "file_env \<Rightarrow> string \<Rightarrow> int \<times> int \<Rightarrow> string \<Rightarrow> string \<Rightarrow> quarantined_journal \<Rightarrow> durable_record file_exec" where
  "install_quarantine_source_fence E source_root source_identity tid intent_digest q =
     bind_x (open_journal_root source_root (Some source_identity)) (\<lambda>d.
     bind_x (next_token E) (\<lambda>token.
     os_as TransactionErr (publish E d (''.ecpa-fence-temp-'' @ tid @ ''.'' @ token @ ''.tmp'')
       (fence_name (fe_hash E) (qj_journal q))
       (canonical_bytes (fence_value (fe_hash E) tid intent_digest q) @ [NEWLINE]))))"

definition read_source_fence ::
  "file_env \<Rightarrow> string \<Rightarrow> string \<Rightarrow> string \<Rightarrow> quarantined_journal \<Rightarrow> bool \<Rightarrow> durable_record option file_exec" where
  "read_source_fence E d tid intent_digest q required =
     bind_x (read_record E d (fence_name (fe_hash E) (qj_journal q)) required) (\<lambda>r.
     then_x (guard_x (case r of None \<Rightarrow> True
         | Some r \<Rightarrow> jkeys (du_value r) = set FENCE_FIELDS
                     \<and> py_eq (du_value r) (fence_value (fe_hash E) tid intent_digest q)) TransactionErr)
     (return_x r))"

definition remove_source_fence ::
  "file_env \<Rightarrow> string \<Rightarrow> string \<Rightarrow> string \<Rightarrow> quarantined_journal \<Rightarrow> unit file_exec" where
  "remove_source_fence E d tid intent_digest q =
     bind_x (read_source_fence E d tid intent_digest q False) (\<lambda>r. case r of
       None \<Rightarrow> return_x ()
     | Some r \<Rightarrow> os_as TransactionErr (then_x (os_unlink d (du_name r)) (os_fsync d)))"

definition remove_quarantine_source_fence ::
  "file_env \<Rightarrow> string \<Rightarrow> int \<times> int \<Rightarrow> string \<Rightarrow> string \<Rightarrow> quarantined_journal \<Rightarrow> unit file_exec" where
  "remove_quarantine_source_fence E source_root source_identity tid intent_digest q =
     bind_x (open_journal_root source_root (Some source_identity)) (\<lambda>d. remove_source_fence E d tid intent_digest q)"

section \<open>Steps of a transaction\<close>

definition intent_value ::
  "(string \<Rightarrow> string) \<Rightarrow> string \<Rightarrow> json \<Rightarrow> int \<times> int \<Rightarrow> int \<times> int \<Rightarrow> quarantined_journal \<Rightarrow> json" where
  "intent_value H tid binding source_identity expected q = JObj [(''schema'', JStr ''ecpa-quarantine-intent/v1''),
     (''transaction_id'', JStr tid), (''binding'', binding), (''source_directory'', directory_value source_identity),
     (''quarantine_directory'', directory_value expected), (''journal'', JStr (qj_journal q)),
     (''journal_device'', JInt (qj_device q)), (''journal_inode'', JInt (qj_inode q)),
     (''journal_bytes'', JInt (int (length (qj_raw q)))), (''journal_base64'', JStr (b64encode (qj_raw q))),
     (''journal_sha256'', JStr (q_digest H (qj_raw q)))]"

definition prepare_quarantine_transaction ::
  "file_env \<Rightarrow> string \<Rightarrow> int \<times> int \<Rightarrow> string \<Rightarrow> json \<Rightarrow> int \<times> int \<Rightarrow> quarantined_journal \<Rightarrow> durable_record file_exec" where
  "prepare_quarantine_transaction E root expected tid binding source_identity q =
     write_record E root expected tid ''intent'' (intent_value (fe_hash E) tid binding source_identity expected q)"

definition applied_value :: "(string \<Rightarrow> string) \<Rightarrow> string \<Rightarrow> string \<Rightarrow> quarantined_journal \<Rightarrow> json" where
  "applied_value H tid intent_digest q = JObj [(''schema'', JStr ''ecpa-quarantine-applied/v1''),
     (''transaction_id'', JStr tid), (''intent_digest'', JStr intent_digest), (''journal'', JStr (qj_journal q)),
     (''journal_device'', JInt (qj_device q)), (''journal_inode'', JInt (qj_inode q)),
     (''journal_bytes'', JInt (int (length (qj_raw q)))), (''journal_sha256'', JStr (q_digest H (qj_raw q)))]"

definition mark_quarantine_applied ::
  "file_env \<Rightarrow> string \<Rightarrow> int \<times> int \<Rightarrow> string \<Rightarrow> string \<Rightarrow> quarantined_journal \<Rightarrow> durable_record file_exec" where
  "mark_quarantine_applied E root expected tid intent_digest q =
     write_record E root expected tid ''applied'' (applied_value (fe_hash E) tid intent_digest q)"

definition opt_digest :: "string option \<Rightarrow> json" where
  "opt_digest d = (case d of None \<Rightarrow> JNull | Some s \<Rightarrow> JStr s)"

definition terminal_value ::
  "string \<Rightarrow> string \<Rightarrow> string \<Rightarrow> string option \<Rightarrow> string option \<Rightarrow> string \<Rightarrow> json" where
  "terminal_value schema tid intent_digest applied_digest finalized_digest reason = JObj [(''schema'', JStr schema),
     (''transaction_id'', JStr tid), (''intent_digest'', JStr intent_digest),
     (''applied_digest'', opt_digest applied_digest), (''finalized_digest'', opt_digest finalized_digest),
     (''reason'', JStr reason)]"

definition RESTORED_SCHEMA :: string where
  "RESTORED_SCHEMA = ''ecpa-quarantine-restored/v1''"

definition BLOCKED_SCHEMA :: string where
  "BLOCKED_SCHEMA = ''ecpa-quarantine-blocked/v1''"

definition mark_quarantine_restored ::
  "file_env \<Rightarrow> string \<Rightarrow> int \<times> int \<Rightarrow> string \<Rightarrow> string \<Rightarrow> string option \<Rightarrow> string \<Rightarrow> durable_record file_exec" where
  "mark_quarantine_restored E root expected tid intent_digest applied_digest reason =
     write_record E root expected tid ''restored''
       (terminal_value RESTORED_SCHEMA tid intent_digest applied_digest None reason)"

definition mark_blocked ::
  "file_env \<Rightarrow> string \<Rightarrow> int \<times> int \<Rightarrow> string \<Rightarrow> string \<Rightarrow> string option \<Rightarrow> string option \<Rightarrow> string \<Rightarrow> unit file_exec" where
  "mark_blocked E root expected tid intent_digest applied_digest finalized_digest reason =
     then_x (write_record E root expected tid ''blocked''
       (terminal_value BLOCKED_SCHEMA tid intent_digest applied_digest finalized_digest reason)) (return_x ())"

section \<open>The checks of records\<close>

definition positive_int :: "json \<Rightarrow> bool" where
  "positive_int v \<longleftrightarrow> (case v of JInt n \<Rightarrow> n > 0 | _ \<Rightarrow> False)"

definition valid_process_identity :: "json \<Rightarrow> bool" where
  "valid_process_identity v \<longleftrightarrow>
     jkeys v = {''pid'', ''start_ticks'', ''argv'', ''executable_device'', ''executable_inode''}
     \<and> list_all (\<lambda>k. positive_int (jfield v k)) [''pid'', ''start_ticks'', ''executable_device'', ''executable_inode'']
     \<and> (case jfield v ''argv'' of
          JArr xs \<Rightarrow> xs \<noteq> [] \<and> list_all (\<lambda>x. case x of JStr s \<Rightarrow> s \<noteq> [] | _ \<Rightarrow> False) xs
        | _ \<Rightarrow> False)"

definition is_directory_value :: "json \<Rightarrow> bool" where
  "is_directory_value v \<longleftrightarrow> jkeys v = {''device'', ''inode''}"

text \<open>The snapshot an intent carries; every failed check raises the same error.\<close>

definition intent_snapshot :: "(string \<Rightarrow> string) \<Rightarrow> durable_record \<Rightarrow> string \<Rightarrow> quarantined_journal option" where
  "intent_snapshot H intent tid = (let v = du_value intent in
     case (jfield v ''journal_base64'', jfield v ''journal'', jfield v ''journal_device'', jfield v ''journal_inode'') of
       (JStr text, JStr journal, JInt device, JInt inode) \<Rightarrow> (case b64decode text of
           None \<Rightarrow> None
         | Some raw \<Rightarrow>
             if jkeys v = set INTENT_FIELDS \<and> jfield v ''schema'' = JStr ''ecpa-quarantine-intent/v1''
                \<and> jfield v ''transaction_id'' = JStr tid \<and> id_ok tid \<and> du_name intent = record_file tid ''intent''
                \<and> quarantine_transaction_id H (jfield v ''binding'') = tid
                \<and> journal_name_ok journal \<and> device > 0 \<and> inode > 0
                \<and> py_eq (jfield v ''journal_bytes'') (JInt (int (length raw)))
                \<and> jfield v ''journal_sha256'' = JStr (q_digest H raw)
                \<and> is_directory_value (jfield v ''source_directory'') \<and> is_directory_value (jfield v ''quarantine_directory'')
             then Some \<lparr>qj_journal = journal, qj_raw = raw, qj_device = device, qj_inode = inode\<rparr>
             else None)
     | _ \<Rightarrow> None)"

definition applied_valid :: "(string \<Rightarrow> string) \<Rightarrow> durable_record \<Rightarrow> string \<Rightarrow> durable_record \<Rightarrow> quarantined_journal \<Rightarrow> bool" where
  "applied_valid H applied tid intent q \<longleftrightarrow> (let v = du_value applied in
     jkeys v = set APPLIED_FIELDS \<and> du_name applied = record_file tid ''applied''
     \<and> jfield v ''schema'' = JStr ''ecpa-quarantine-applied/v1'' \<and> jfield v ''transaction_id'' = JStr tid
     \<and> jfield v ''intent_digest'' = JStr (du_digest intent) \<and> jfield v ''journal'' = JStr (qj_journal q)
     \<and> py_eq (jfield v ''journal_device'') (JInt (qj_device q)) \<and> py_eq (jfield v ''journal_inode'') (JInt (qj_inode q))
     \<and> py_eq (jfield v ''journal_bytes'') (JInt (int (length (qj_raw q))))
     \<and> jfield v ''journal_sha256'' = JStr (q_digest H (qj_raw q)))"

definition terminal_valid ::
  "durable_record \<Rightarrow> string \<Rightarrow> string \<Rightarrow> string \<Rightarrow> string \<Rightarrow> string option \<Rightarrow> string option \<Rightarrow> bool" where
  "terminal_valid r tid schema stage intent_digest applied_digest finalized_digest \<longleftrightarrow> (let v = du_value r in
     jkeys v = set TERMINAL_FIELDS \<and> du_name r = record_file tid stage \<and> jfield v ''schema'' = JStr schema
     \<and> jfield v ''transaction_id'' = JStr tid \<and> jfield v ''intent_digest'' = JStr intent_digest
     \<and> jfield v ''applied_digest'' = opt_digest applied_digest \<and> jfield v ''finalized_digest'' = opt_digest finalized_digest
     \<and> jfield v ''reason'' \<in> JStr ` set (if schema = RESTORED_SCHEMA then RESTORE_REASONS else BLOCK_REASONS)
     \<and> \<not> (schema = BLOCKED_SCHEMA
          \<and> (jfield v ''reason'' = JStr ''source-replacement-after-finalize'') \<noteq> (finalized_digest \<noteq> None)))"

definition finalized_valid :: "durable_record \<Rightarrow> string \<Rightarrow> string \<Rightarrow> string \<Rightarrow> bool" where
  "finalized_valid r tid intent_digest applied_digest \<longleftrightarrow> (let v = du_value r in
     jkeys v = set FINALIZED_FIELDS \<and> du_name r = record_file tid ''finalized''
     \<and> jfield v ''schema'' = JStr ''ecpa-quarantine-finalized/v1'' \<and> jfield v ''transaction_id'' = JStr tid
     \<and> jfield v ''intent_digest'' = JStr intent_digest \<and> jfield v ''applied_digest'' = JStr applied_digest
     \<and> is_digest (jfield v ''fact_receipt_sha256'') \<and> valid_process_identity (jfield v ''source_process_identity''))"

definition need :: "'a option \<Rightarrow> file_error \<Rightarrow> 'a file_exec" where
  "need x e = (case x of None \<Rightarrow> raise_x e | Some x \<Rightarrow> return_x x)"

definition file_exists :: "string \<Rightarrow> string \<Rightarrow> bool file_exec" where
  "file_exists d name = catch_x (then_x (os_stat d name) (return_x True))
     (\<lambda>e. if e = OsErr ENOENT then return_x False else raise_x (case e of OsErr _ \<Rightarrow> TransactionErr | _ \<Rightarrow> e))"

definition is_same_append_only_journal :: "quarantined_journal \<Rightarrow> quarantined_journal \<Rightarrow> bool" where
  "is_same_append_only_journal current q \<longleftrightarrow> qj_journal current = qj_journal q \<and> qj_device current = qj_device q
     \<and> qj_inode current = qj_inode q \<and> take (length (qj_raw q)) (qj_raw current) = qj_raw q"

end
