(* ===== verification/Quarantine_Reconcile.thy ===== *)
theory Quarantine_Reconcile
  imports Quarantine_Transaction
begin

text \<open>
  The transaction lease, the acceptance of an applied transaction, the reconciliation of all transactions
  of a quarantine directory after a crash (quarantine\_transaction.py), and the actuator that runs one
  transaction (\<open>commit_fault\<close> of formal\_lifecycle\_source.py).
\<close>

section \<open>The lease\<close>

record quarantine_lease =
  le_root :: string
  le_identity :: "int \<times> int"
  le_held :: bool

definition acquire_quarantine_transaction_lease :: "string \<Rightarrow> int \<times> int \<Rightarrow> quarantine_lease file_exec" where
  "acquire_quarantine_transaction_lease root expected =
     bind_x (open_journal_root root (Some expected)) (\<lambda>d.
     then_x (sink_as TransactionErr (acquire_exclusive d))
     (then_x (os_fsync d)
     (return_x \<lparr>le_root = d, le_identity = expected, le_held = True\<rparr>)))"

definition close_lease :: "quarantine_lease \<Rightarrow> unit file_exec" where
  "close_lease lease = when_x (le_held lease) (release_lock (le_root lease))"

text \<open>\<open>root.resolve(strict=True)\<close> raises when there is no such directory.\<close>

definition require_lease :: "quarantine_lease \<Rightarrow> string \<Rightarrow> int \<times> int \<Rightarrow> unit file_exec" where
  "require_lease lease root expected =
     then_x (guard_x (le_held lease \<and> le_identity lease = expected) TransactionErr)
     (bind_x (gets_x (\<lambda>s. fs_dir s root)) (\<lambda>d.
      then_x (guard_x (d \<noteq> None) (OsErr ENOENT))
      (guard_x (root = le_root lease) TransactionErr)))"

text \<open>Work under the given lease, or under one of its own.\<close>

definition with_lease :: "quarantine_lease option \<Rightarrow> string \<Rightarrow> int \<times> int \<Rightarrow> 'a file_exec \<Rightarrow> 'a file_exec" where
  "with_lease lease root expected m =
     bind_x (case lease of Some l \<Rightarrow> return_x l | None \<Rightarrow> acquire_quarantine_transaction_lease root expected) (\<lambda>active.
     finally_x (then_x (require_lease active root expected) m)
       (when_x (lease = None) (close_lease active)))"

section \<open>Accepting an applied transaction\<close>

definition finalized_value :: "string \<Rightarrow> string \<Rightarrow> string \<Rightarrow> string \<Rightarrow> json \<Rightarrow> json" where
  "finalized_value tid intent_digest applied_digest receipt process_identity =
     JObj [(''schema'', JStr ''ecpa-quarantine-finalized/v1''), (''transaction_id'', JStr tid),
       (''intent_digest'', JStr intent_digest), (''applied_digest'', JStr applied_digest),
       (''fact_receipt_sha256'', JStr receipt), (''source_process_identity'', process_identity)]"

definition finalize_locked ::
  "file_env \<Rightarrow> string \<Rightarrow> int \<times> int \<Rightarrow> string \<Rightarrow> string \<Rightarrow> int \<times> int \<Rightarrow> string \<Rightarrow> string \<Rightarrow> json \<Rightarrow> durable_record file_exec" where
  "finalize_locked E root expected tid source_root source_identity applied_digest receipt process_identity =
     bind_x (bind_x (read_quarantine_record E root expected tid ''intent'' True) (\<lambda>r. need r AssertErr)) (\<lambda>intent.
     bind_x (bind_x (read_quarantine_record E root expected tid ''applied'' True) (\<lambda>r. need r AssertErr)) (\<lambda>applied.
     bind_x (need (intent_snapshot (fe_hash E) intent tid) TransactionErr) (\<lambda>q.
     then_x (guard_x (applied_valid (fe_hash E) applied tid intent q) TransactionErr)
     (then_x (guard_x (py_eq (jfield (du_value intent) ''source_directory'') (directory_value source_identity)
          \<and> py_eq (jfield (du_value intent) ''quarantine_directory'') (directory_value expected)
          \<and> du_digest applied = applied_digest \<and> is_digest (JStr receipt) \<and> valid_process_identity process_identity) TransactionErr)
     (bind_x (read_quarantine_record E root expected tid ''restored'' False) (\<lambda>restored.
      then_x (guard_x (restored = None) TransactionErr)
      (bind_x (read_quarantine_record E root expected tid ''blocked'' False) (\<lambda>blocked.
       then_x (guard_x (blocked = None) TransactionErr)
       (bind_x (sink_as TransactionErr (snapshot_journal root (qj_journal q) expected (max (int (length (qj_raw q))) 1))) (\<lambda>retained.
        then_x (guard_x (retained = q) TransactionErr)
        (bind_x (open_journal_root source_root (Some source_identity)) (\<lambda>source.
         then_x (read_source_fence E source tid (du_digest intent) q True)
         (bind_x (file_exists source (qj_journal q)) (\<lambda>reappeared.
          then_x (when_x reappeared
            (then_x (mark_blocked E root expected tid (du_digest intent) (Some (du_digest applied)) None ''source-replacement-collision'')
            (raise_x TransactionErr)))
          (write_record E root expected tid ''finalized''
            (finalized_value tid (du_digest intent) (du_digest applied) receipt process_identity))))))))))))))))"

definition finalize_quarantine_transaction ::
  "file_env \<Rightarrow> string \<Rightarrow> int \<times> int \<Rightarrow> string \<Rightarrow> string \<Rightarrow> int \<times> int \<Rightarrow> string \<Rightarrow> string \<Rightarrow> json \<Rightarrow>
   quarantine_lease option \<Rightarrow> durable_record file_exec" where
  "finalize_quarantine_transaction E root expected tid source_root source_identity applied_digest receipt process_identity lease =
     with_lease lease source_root source_identity
       (finalize_locked E root expected tid source_root source_identity applied_digest receipt process_identity)"

section \<open>Reconciliation\<close>

text \<open>The names of temporary files, as the regular expressions of the source have them.\<close>

definition positive_decimal :: "string \<Rightarrow> bool" where
  "positive_decimal s \<longleftrightarrow> s \<noteq> [] \<and> list_all is_digit s \<and> hd s \<noteq> CHR ''0''"

definition hex_of_length :: "nat \<Rightarrow> string \<Rightarrow> bool" where
  "hex_of_length n s \<longleftrightarrow> length s = n \<and> list_all is_hex s"

definition TRANSACTION_TEMP :: string where
  "TRANSACTION_TEMP = ''.ecpa-transaction-''"

definition FENCE_TEMP :: string where
  "FENCE_TEMP = ''.ecpa-fence-temp-''"

definition transaction_temp_ok :: "string \<Rightarrow> bool" where
  "transaction_temp_ok name \<longleftrightarrow> starts_with TRANSACTION_TEMP name \<and>
     (case split_dots (drop (length TRANSACTION_TEMP) name) of
        [tid, stage, pid, token, suffix] \<Rightarrow> hex_of_length 64 tid \<and> stage \<in> set STAGES
          \<and> positive_decimal pid \<and> hex_of_length 32 token \<and> suffix = ''tmp''
      | _ \<Rightarrow> False)"

definition fence_temp_ok :: "string \<Rightarrow> bool" where
  "fence_temp_ok name \<longleftrightarrow> starts_with FENCE_TEMP name \<and>
     (case split_dots (drop (length FENCE_TEMP) name) of
        [tid, pid, token, suffix] \<Rightarrow> hex_of_length 64 tid
          \<and> positive_decimal pid \<and> hex_of_length 32 token \<and> suffix = ''tmp''
      | _ \<Rightarrow> False)"

definition clean_temporary :: "(string \<Rightarrow> bool) \<Rightarrow> string \<Rightarrow> string \<Rightarrow> unit file_exec" where
  "clean_temporary ok d name =
     then_x (guard_x (ok name) TransactionErr)
     (bind_x (os_as TransactionErr (os_stat d name)) (\<lambda>n.
      then_x (guard_x (safe_node n) TransactionErr)
      (os_as TransactionErr (os_unlink d name))))"

definition clean_temporaries :: "(string \<Rightarrow> bool) \<Rightarrow> string \<Rightarrow> string list \<Rightarrow> unit file_exec" where
  "clean_temporaries ok d names = then_x (each_x (clean_temporary ok d) names) (when_x (names \<noteq> []) (os_fsync d))"

text \<open>The records of the directory: the names of the intents, if every record is of a known stage and has its intent.\<close>

definition transaction_names :: "string list \<Rightarrow> string list" where
  "transaction_names names = filter (\<lambda>x. starts_with ''ecpa-'' x \<and> ends_with ''.json'' x) names"

definition intent_names :: "string list \<Rightarrow> string list" where
  "intent_names names = filter (ends_with ''.intent.json'') (transaction_names names)"

definition check_record_name :: "string list \<Rightarrow> string \<Rightarrow> unit file_exec" where
  "check_record_name intents name =
     bind_x (record_name (hd (split_dots (drop 5 name))) ''intent'') (\<lambda>intent.
     guard_x (intent \<in> set intents) TransactionErr)"

definition check_record_names :: "string list \<Rightarrow> unit file_exec" where
  "check_record_names names =
     then_x (guard_x (list_all (\<lambda>x. list_ex (\<lambda>stage. ends_with (''.'' @ stage @ ''.json'') x) STAGES) (transaction_names names)) TransactionErr)
     (each_x (check_record_name (intent_names names)) (transaction_names names))"

record settle_args =
  sa_source :: string
  sa_quarantine :: string
  sa_source_identity :: "int \<times> int"
  sa_quarantine_identity :: "int \<times> int"
  sa_max :: int

text \<open>A transaction with a finalized record, with a restored record, and with neither. The result of
  settling tells whether the transaction is restored.\<close>

definition settle_finalized ::
  "file_env \<Rightarrow> settle_args \<Rightarrow> string \<Rightarrow> durable_record \<Rightarrow> quarantined_journal \<Rightarrow> durable_record option \<Rightarrow> durable_record \<Rightarrow> bool file_exec" where
  "settle_finalized E a tid intent q applied finalized =
     bind_x (need applied TransactionErr) (\<lambda>applied.
     then_x (guard_x (finalized_valid finalized tid (du_digest intent) (du_digest applied)) TransactionErr)
     (bind_x (sink_as TransactionErr (snapshot_journal (sa_quarantine a) (qj_journal q) (sa_quarantine_identity a) (sa_max a))) (\<lambda>retained.
      then_x (guard_x (retained = q) TransactionErr)
      (then_x (read_source_fence E (sa_source a) tid (du_digest intent) q True)
      (bind_x (file_exists (sa_source a) (qj_journal q)) (\<lambda>replaced.
       then_x (when_x replaced
         (then_x (mark_blocked E (sa_quarantine a) (sa_quarantine_identity a) tid (du_digest intent) (Some (du_digest applied))
                    (Some (du_digest finalized)) ''source-replacement-after-finalize'')
         (raise_x TransactionErr)))
       (return_x False)))))))"

definition settle_restored ::
  "file_env \<Rightarrow> settle_args \<Rightarrow> string \<Rightarrow> durable_record \<Rightarrow> quarantined_journal \<Rightarrow> durable_record option \<Rightarrow> durable_record \<Rightarrow> bool file_exec" where
  "settle_restored E a tid intent q applied restored =
     then_x (guard_x (terminal_valid restored tid RESTORED_SCHEMA ''restored'' (du_digest intent) (map_option du_digest applied) None) TransactionErr)
     (bind_x (read_source_fence E (sa_source a) tid (du_digest intent) q False) (\<lambda>fence.
      then_x (guard_x (fence = None) TransactionErr)
      (bind_x (file_exists (sa_quarantine a) (qj_journal q)) (\<lambda>withheld.
       then_x (guard_x (\<not> withheld) TransactionErr)
       (bind_x (sink_as TransactionErr (snapshot_journal (sa_source a) (qj_journal q) (sa_source_identity a) (sa_max a))) (\<lambda>current.
        then_x (guard_x (is_same_append_only_journal current q) TransactionErr)
        (return_x True)))))))"

definition block :: "file_env \<Rightarrow> settle_args \<Rightarrow> string \<Rightarrow> durable_record \<Rightarrow> durable_record option \<Rightarrow> string \<Rightarrow> 'a file_exec" where
  "block E a tid intent applied reason =
     then_x (mark_blocked E (sa_quarantine a) (sa_quarantine_identity a) tid (du_digest intent) (map_option du_digest applied) None reason)
     (raise_x TransactionErr)"

text \<open>Where the journal is decides; the result is the reason of the restored record.\<close>

definition recover_journal ::
  "file_env \<Rightarrow> settle_args \<Rightarrow> string \<Rightarrow> durable_record \<Rightarrow> quarantined_journal \<Rightarrow> durable_record option \<Rightarrow> bool \<Rightarrow> bool \<Rightarrow> string file_exec" where
  "recover_journal E a tid intent q applied in_source in_quarantine =
     (if in_source \<and> in_quarantine then block E a tid intent applied ''source-replacement-collision''
      else if in_quarantine then
        then_x (read_source_fence E (sa_source a) tid (du_digest intent) q True)
        (then_x (catch_x (restore_quarantined_journal (sa_source a) (sa_quarantine a) q (sa_source_identity a)
                            (sa_quarantine_identity a) (sa_max a))
                   (\<lambda>e. if e = SinkErr then block E a tid intent applied ''restore-verification-failed'' else raise_x e))
        (return_x (if applied \<noteq> None then ''restored-after-applied'' else ''restored-after-move'')))
      else if in_source then
        bind_x (snapshot_journal (sa_source a) (qj_journal q) (sa_source_identity a) (sa_max a)) (\<lambda>current.
        then_x (when_x (\<not> is_same_append_only_journal current q) (block E a tid intent applied ''source-changed-before-recovery''))
        (return_x ''no-move-observed''))
      else block E a tid intent applied ''journal-missing-from-both-roots'')"

definition settle_pending ::
  "file_env \<Rightarrow> settle_args \<Rightarrow> string \<Rightarrow> durable_record \<Rightarrow> quarantined_journal \<Rightarrow> durable_record option \<Rightarrow> bool file_exec" where
  "settle_pending E a tid intent q applied =
     bind_x (file_exists (sa_source a) (qj_journal q)) (\<lambda>in_source.
     bind_x (file_exists (sa_quarantine a) (qj_journal q)) (\<lambda>in_quarantine.
     bind_x (recover_journal E a tid intent q applied in_source in_quarantine) (\<lambda>reason.
     then_x (remove_source_fence E (sa_source a) tid (du_digest intent) q)
     (then_x (mark_quarantine_restored E (sa_quarantine a) (sa_quarantine_identity a) tid (du_digest intent)
                (map_option du_digest applied) reason)
     (return_x True)))))"

text \<open>A blocked transaction needs an operator; its records are still checked.\<close>

definition settle_blocked ::
  "string \<Rightarrow> durable_record \<Rightarrow> durable_record option \<Rightarrow> durable_record option \<Rightarrow> durable_record \<Rightarrow> bool file_exec" where
  "settle_blocked tid intent applied finalized blocked =
     bind_x (case finalized of
         None \<Rightarrow> return_x None
       | Some f \<Rightarrow> bind_x (need applied TransactionErr) (\<lambda>applied.
           then_x (guard_x (finalized_valid f tid (du_digest intent) (du_digest applied)) TransactionErr)
           (return_x (Some (du_digest f))))) (\<lambda>finalized_digest.
     then_x (guard_x (terminal_valid blocked tid BLOCKED_SCHEMA ''blocked'' (du_digest intent) (map_option du_digest applied) finalized_digest) TransactionErr)
     (raise_x TransactionErr))"

definition settle :: "file_env \<Rightarrow> settle_args \<Rightarrow> string \<Rightarrow> bool file_exec" where
  "settle E a name =
     (let tid = take (length name - 12 - 5) (drop 5 name);
          optional = (\<lambda>stage. bind_x (record_name tid stage) (\<lambda>x. read_record E (sa_quarantine a) x False)) in
     bind_x (need_record E (sa_quarantine a) name) (\<lambda>intent.
     bind_x (need (intent_snapshot (fe_hash E) intent tid) TransactionErr) (\<lambda>q.
     then_x (guard_x (py_eq (jfield (du_value intent) ''source_directory'') (directory_value (sa_source_identity a))
         \<and> py_eq (jfield (du_value intent) ''quarantine_directory'') (directory_value (sa_quarantine_identity a))) TransactionErr)
     (bind_x (optional ''applied'') (\<lambda>applied.
      then_x (guard_x (case applied of None \<Rightarrow> True | Some r \<Rightarrow> applied_valid (fe_hash E) r tid intent q) TransactionErr)
      (bind_x (optional ''finalized'') (\<lambda>finalized.
       bind_x (optional ''restored'') (\<lambda>restored.
       bind_x (optional ''blocked'') (\<lambda>blocked.
       then_x (guard_x (\<not> (restored \<noteq> None \<and> (finalized \<noteq> None \<or> blocked \<noteq> None))) TransactionErr)
       (case blocked of Some b \<Rightarrow> settle_blocked tid intent applied finalized b
        | None \<Rightarrow> (case finalized of Some f \<Rightarrow> settle_finalized E a tid intent q applied f
        | None \<Rightarrow> (case restored of Some r \<Rightarrow> settle_restored E a tid intent q applied r
        | None \<Rightarrow> settle_pending E a tid intent q applied))))))))))))"

fun settle_all :: "file_env \<Rightarrow> settle_args \<Rightarrow> string list \<Rightarrow> (string list \<times> string list) file_exec" where
  "settle_all E a [] = return_x ([], [])"
| "settle_all E a (name # names) =
     bind_x (settle E a name) (\<lambda>is_restored.
     bind_x (settle_all E a names) (\<lambda>(restored, finalized).
     let tid = take (length name - 12 - 5) (drop 5 name) in
     return_x (if is_restored then (tid # restored, finalized) else (restored, tid # finalized))))"

definition reconcile_locked ::
  "file_env \<Rightarrow> string \<Rightarrow> string \<Rightarrow> int \<times> int \<Rightarrow> int \<times> int \<Rightarrow> int \<Rightarrow> (string list \<times> string list) file_exec" where
  "reconcile_locked E source_root quarantine_root source_identity quarantine_identity max_bytes =
     bind_x (open_journal_root source_root (Some source_identity)) (\<lambda>source.
     bind_x (open_journal_root quarantine_root (Some quarantine_identity)) (\<lambda>quarantine.
     bind_x (gets_x id) (\<lambda>s.
     then_x (guard_x (device_of s source = device_of s quarantine \<and> source_identity \<noteq> quarantine_identity) TransactionErr)
     (bind_x (os_listdir source) (\<lambda>source_names.
      then_x (clean_temporaries fence_temp_ok source (filter (starts_with FENCE_TEMP) source_names))
      (bind_x (os_listdir quarantine) (\<lambda>listed.
       let names = sort listed; temporaries = filter (starts_with TRANSACTION_TEMP) names;
           rest = filter (\<lambda>x. x \<notin> set temporaries) names in
       then_x (clean_temporaries transaction_temp_ok quarantine temporaries)
       (then_x (check_record_names rest)
       (settle_all E \<lparr>sa_source = source, sa_quarantine = quarantine, sa_source_identity = source_identity,
          sa_quarantine_identity = quarantine_identity, sa_max = max_bytes\<rparr> (intent_names rest))))))))))"

definition reconcile_quarantine_transactions ::
  "file_env \<Rightarrow> string \<Rightarrow> string \<Rightarrow> int \<times> int \<Rightarrow> int \<times> int \<Rightarrow> int \<Rightarrow> quarantine_lease option \<Rightarrow> (string list \<times> string list) file_exec" where
  "reconcile_quarantine_transactions E source_root quarantine_root source_identity quarantine_identity max_bytes lease =
     with_lease lease source_root source_identity
       (reconcile_locked E source_root quarantine_root source_identity quarantine_identity max_bytes)"

section \<open>The actuator\<close>

definition mark_settled :: "unit file_exec" where
  "mark_settled = modify_x (\<lambda>s. s\<lparr>fs_settled := True\<rparr>)"

definition abort_prepare :: "file_env \<Rightarrow> settle_args \<Rightarrow> unit file_exec" where
  "abort_prepare E a = bind_x (gets_x fs_settled) (\<lambda>settled. when_x (\<not> settled)
     (bind_x (acquire_quarantine_transaction_lease (sa_source a) (sa_source_identity a)) (\<lambda>lease.
      finally_x
        (then_x (reconcile_quarantine_transactions E (sa_source a) (sa_quarantine a) (sa_source_identity a)
                   (sa_quarantine_identity a) (sa_max a) (Some lease))
        mark_settled)
        (close_lease lease))))"

text \<open>
  \<open>commit_fault\<close>: fence, move and record under the lease, and compensation when something raises. The
  checks of the remaining events and the audit line are the argument \<open>check\<close>, an arbitrary computation;
  \<open>quarantined\<close> and so on of the source are the stages of the nested handlers.
\<close>

definition compensate ::
  "file_env \<Rightarrow> settle_args \<Rightarrow> string \<Rightarrow> string \<Rightarrow> quarantined_journal \<Rightarrow> bool \<Rightarrow> quarantined_journal option \<Rightarrow>
   durable_record option \<Rightarrow> file_error \<Rightarrow> 'a file_exec" where
  "compensate E a tid intent_digest q fenced quarantined applied e =
     then_x (except_x
       (then_x (case quarantined of None \<Rightarrow> return_x ()
          | Some w \<Rightarrow> restore_quarantined_journal (sa_source a) (sa_quarantine a) w (sa_source_identity a) (sa_quarantine_identity a) (sa_max a))
       (then_x (when_x fenced (remove_quarantine_source_fence E (sa_source a) (sa_source_identity a) tid intent_digest q))
       (when_x (quarantined \<noteq> None)
          (then_x (mark_quarantine_restored E (sa_quarantine a) (sa_quarantine_identity a) tid intent_digest
             (map_option du_digest applied) ''catchable-post-move-failure'') mark_settled))))
       (\<lambda>_. raise_x LifecycleErr))
     (raise_x e)"

definition no_later_record :: "file_env \<Rightarrow> settle_args \<Rightarrow> string \<Rightarrow> string \<Rightarrow> unit file_exec" where
  "no_later_record E a tid stage =
     bind_x (read_quarantine_record E (sa_quarantine a) (sa_quarantine_identity a) tid stage False) (\<lambda>r.
     guard_x (r = None) LifecycleErr)"

definition commit_fault ::
  "file_env \<Rightarrow> settle_args \<Rightarrow> string \<Rightarrow> string \<Rightarrow> quarantined_journal \<Rightarrow> unit file_exec \<Rightarrow> unit file_exec" where
  "commit_fault E a tid intent_digest q check =
     bind_x (gets_x fs_settled) (\<lambda>settled.
     then_x (guard_x (\<not> settled) LifecycleErr)
     (bind_x (acquire_quarantine_transaction_lease (sa_source a) (sa_source_identity a)) (\<lambda>lease.
     finally_x
       (then_x (except_x
          (then_x (each_x (no_later_record E a tid) [''applied'', ''finalized'', ''restored'', ''blocked''])
          (bind_x (snapshot_journal (sa_source a) (qj_journal q) (sa_source_identity a) (sa_max a)) (\<lambda>current.
           then_x (guard_x (current = q) LifecycleErr)
           (then_x (install_quarantine_source_fence E (sa_source a) (sa_source_identity a) tid intent_digest q) (return_x ())))))
          (compensate E a tid intent_digest q False None None))
       (bind_x (except_x
          (quarantine_journal (sa_source a) (sa_quarantine a) (qj_journal q) (sa_source_identity a)
             (sa_quarantine_identity a) (sa_max a) (Some q))
          (compensate E a tid intent_digest q True None None)) (\<lambda>w.
        bind_x (except_x
          (then_x (guard_x (qj_raw w = qj_raw q) LifecycleErr)
          (mark_quarantine_applied E (sa_quarantine a) (sa_quarantine_identity a) tid intent_digest w))
          (compensate E a tid intent_digest q True (Some w) None)) (\<lambda>applied.
        except_x (then_x check mark_settled) (compensate E a tid intent_digest q True (Some w) (Some applied))))))
       (close_lease lease))))"

end
