(* ===== verification/Quarantine_Invariant.thy ===== *)
theory Quarantine_Invariant
  imports Quarantine_Reconcile "HOL-Library.Multiset"
begin

text \<open>
  Invariants of the two directories of a quarantine. The locale \<open>quarantine_files\<close> states what an
  invariant needs of the few ways in which the code changes a directory; inside it, every operation keeps
  the invariant, for every schedule of failures and whether it returns, raises or crashes.
\<close>

section \<open>The invariant rules\<close>

text \<open>Names of temporary files, fences and the lock.\<close>

definition hidden :: "string \<Rightarrow> bool" where
  "hidden x \<longleftrightarrow> starts_with ''.ecpa-'' x \<and> \<not> ends_with ''.jsonl'' x"

definition record_like :: "string \<Rightarrow> bool" where
  "record_like x \<longleftrightarrow> starts_with ''ecpa-'' x \<and> ends_with ''.json'' x"

lemma ends_with_append [simp]: "ends_with x (y @ x)"
  by (simp add: ends_with_def)

lemma ends_with_last:
  assumes "ends_with x s" and "ends_with y s" and "x \<noteq> []" and "y \<noteq> []"
  shows "last x = last y"
  using assms by (metis append_take_drop_id ends_with_def last_appendR)

lemma not_jsonl: "ends_with y s \<Longrightarrow> y \<noteq> [] \<Longrightarrow> last y \<noteq> CHR ''l'' \<Longrightarrow> \<not> ends_with ''.jsonl'' s"
  using ends_with_last [of "''.jsonl''" s y] by auto

lemma hidden_temp: "hidden (''.ecpa-transaction-'' @ s @ ''.tmp'')" "hidden (''.ecpa-fence-temp-'' @ s @ ''.tmp'')"
  using not_jsonl [of "''.tmp''" "''.ecpa-transaction-'' @ s @ ''.tmp''"] not_jsonl [of "''.tmp''" "''.ecpa-fence-temp-'' @ s @ ''.tmp''"]
    ends_with_append [of "''.tmp''" "''.ecpa-transaction-'' @ s"] ends_with_append [of "''.tmp''" "''.ecpa-fence-temp-'' @ s"]
  by (simp_all add: hidden_def starts_with_def)

lemma hidden_fence: "hidden (fence_name H x)"
  using not_jsonl [of "''.fence''" "fence_name H x"] ends_with_append [of "''.fence''" "''.ecpa-quarantine-'' @ H (utf8 x)"]
  by (simp add: hidden_def starts_with_def fence_name_def)

lemma hidden_lock: "hidden QUARANTINE_LOCK"
  by (simp add: hidden_def starts_with_def QUARANTINE_LOCK_def ends_with_def)

lemma record_like_file: "record_like (record_file tid stage)"
  using ends_with_append [of "''.json''" "''ecpa-'' @ tid @ ''.'' @ stage"]
  by (simp add: record_like_def starts_with_def record_file_def)

lemma record_not_jsonl: "record_like x \<Longrightarrow> \<not> ends_with ''.jsonl'' x"
  using not_jsonl [of "''.json''" x] by (simp add: record_like_def)

lemma join_dots_tmp: "xs \<noteq> [] \<Longrightarrow> \<exists>z. join_dots (xs @ [''tmp'']) = z @ ''.tmp''"
  by (induction xs rule: join_dots.induct) auto

lemma split_tmp_hidden:
  assumes "starts_with p x" and "starts_with ''.ecpa-'' p" and "split_dots (drop (length p) x) = xs @ [''tmp'']" and "xs \<noteq> []"
  shows "hidden x"
proof -
  obtain z where "drop (length p) x = z @ ''.tmp''"
    using join_dots_tmp [OF assms(4)] join_split_dots [of "drop (length p) x"] assms(3) by auto
  moreover have x: "x = p @ drop (length p) x" using assms(1) by (metis append_take_drop_id starts_with_def)
  ultimately have "ends_with ''.tmp'' x" using ends_with_append [of "''.tmp''" "p @ z"] by simp
  moreover obtain z' where "p = ''.ecpa-'' @ z'" using assms(2) by (auto simp: starts_with_iff)
  with x have "starts_with ''.ecpa-'' x" by (metis append.assoc starts_with_iff)
  ultimately show ?thesis using not_jsonl [of "''.tmp''" x] by (simp add: hidden_def)
qed

lemma temp_ok_hidden: "transaction_temp_ok x \<Longrightarrow> hidden x" "fence_temp_ok x \<Longrightarrow> hidden x"
proof -
  assume "transaction_temp_ok x"
  then obtain a b c d where "starts_with TRANSACTION_TEMP x"
      and "split_dots (drop (length TRANSACTION_TEMP) x) = [a, b, c, d] @ [''tmp'']"
    by (auto simp: transaction_temp_ok_def split: list.splits)
  then show "hidden x" by (elim split_tmp_hidden [rotated 2]) (simp_all add: TRANSACTION_TEMP_def starts_with_def)
next
  assume "fence_temp_ok x"
  then obtain a b c where "starts_with FENCE_TEMP x"
      and "split_dots (drop (length FENCE_TEMP) x) = [a, b, c] @ [''tmp'']"
    by (auto simp: fence_temp_ok_def split: list.splits)
  then show "hidden x" by (elim split_tmp_hidden [rotated 2]) (simp_all add: FENCE_TEMP_def starts_with_def)
qed

locale quarantine_files =
  fixes I :: "files \<Rightarrow> bool" and source quarantine :: string
  assumes I_outcomes: "I s \<Longrightarrow> I (s\<lparr>fs_outcomes := xs\<rparr>)"
    and I_locks: "I s \<Longrightarrow> I (s\<lparr>fs_locks := ls\<rparr>)"
    and I_count: "I s \<Longrightarrow> I (s\<lparr>fs_count := k\<rparr>)"
    and I_settled: "I s \<Longrightarrow> I (s\<lparr>fs_settled := b\<rparr>)"
    and I_add: "I s \<Longrightarrow> hidden x \<Longrightarrow> entry s d x = None \<Longrightarrow> I (add_node d x s)"
    and I_change: "I s \<Longrightarrow> hidden x \<Longrightarrow> I (change_node d x f s)"
    and I_remove: "I s \<Longrightarrow> hidden x \<Longrightarrow> I (on_entries d (filter (\<lambda>(z, n). z \<noteq> x)) s)"
    and I_publish: "I s \<Longrightarrow> hidden x \<Longrightarrow> hidden y \<or> record_like y \<Longrightarrow> entry s d x = Some n \<Longrightarrow> entry s d y = None
      \<Longrightarrow> fs_dir s d \<noteq> None \<Longrightarrow> I (move_node d x d y n s)"
    and I_move: "I s \<Longrightarrow> journal_name_ok x \<Longrightarrow> d \<in> {source, quarantine} \<Longrightarrow> e \<in> {source, quarantine} \<Longrightarrow> d \<noteq> e
      \<Longrightarrow> entry s d x = Some n \<Longrightarrow> entry s e x = None \<Longrightarrow> fs_dir s e \<noteq> None \<Longrightarrow> I (move_node d x e x n s)"
begin

lemma keeps_os_call:
  assumes "\<And>x. keeps I (m x)"
  shows "keeps I (os_call m)"
proof (rule keepsI)
  fix s assume I: "I s"
  have m: "wp (m x) (\<lambda>_. I) (\<lambda>_. I) (s\<lparr>fs_outcomes := xs\<rparr>)" for x xs
    using keepsD [OF assms I_outcomes [OF I]] .
  have "wp (m Go) (\<lambda>_. I) (\<lambda>_. I) s" using keepsD [OF assms I] .
  then show "wp (os_call m) (\<lambda>_. I) (\<lambda>_. I) s"
    using m I_outcomes [OF I] by (auto simp: wp_def os_call_def split: list.splits outcome.splits)
qed

lemma keeps_ok [keep_intros]: "keeps I os_ok" "keeps I (os_fsync d)"
  by (simp_all add: os_ok_def os_fsync_def keeps_os_call keep_intros)

lemma keeps_stat [keep_intros]: "keeps I (os_stat d x)" "keeps I (os_open d x)"
  unfolding os_open_def os_stat_def by (auto intro!: keeps_os_call keep_intros)

lemma keeps_read [keep_intros]: "keeps I (os_read n l)"
  unfolding os_read_def by (auto intro!: keeps_os_call keep_intros)

lemma keeps_listdir [keep_intros]: "keeps I (os_listdir d)"
  unfolding os_listdir_def by (auto intro!: keeps_os_call keep_intros)

lemma keeps_create [keep_intros]: "hidden x \<Longrightarrow> keeps I (os_create d x)"
  unfolding os_create_def by (rule keeps_os_call, rule keepsI) (auto intro!: I_add)

lemma keeps_write [keep_intros]: "hidden x \<Longrightarrow> keeps I (os_write d x raw)"
  unfolding os_write_def by (rule keeps_os_call, rule keepsI) (auto intro!: I_change simp: Let_def)

lemma keeps_unlink [keep_intros]: "hidden x \<Longrightarrow> keeps I (os_unlink d x)"
  unfolding os_unlink_def by (rule keeps_os_call, rule keepsI) (auto intro!: I_remove)

lemma entry_dir: "entry s d x = Some n \<Longrightarrow> fs_dir s d \<noteq> None"
  by (simp add: entry_def split: option.splits)

lemma keeps_rename [keep_intros]: "hidden x \<Longrightarrow> hidden y \<or> record_like y \<Longrightarrow> keeps I (rename_noreplace d x d y)"
  unfolding rename_noreplace_def by (intro keeps_os_call keepsI) (auto split: option.splits intro!: I_publish dest: entry_dir)

lemma keeps_journal_rename [keep_intros]:
  "journal_name_ok x \<Longrightarrow> d \<in> {source, quarantine} \<Longrightarrow> e \<in> {source, quarantine} \<Longrightarrow> d \<noteq> e \<Longrightarrow> keeps I (rename_noreplace d x e x)"
  unfolding rename_noreplace_def by (intro keeps_os_call keepsI) (auto split: option.splits intro!: I_move dest: entry_dir)

lemma keeps_handlers [keep_intros]:
  "keeps I m \<Longrightarrow> keeps I (os_as e m)" "keeps I m \<Longrightarrow> keeps I (sink_as e m)"
  unfolding os_as_def sink_as_def by (auto intro!: keep_intros)

lemma keeps_except [keep_intros]: "keeps I m \<Longrightarrow> (\<And>e. keeps I (h e)) \<Longrightarrow> keeps I (except_x m h)"
  unfolding except_x_def by (auto intro!: keep_intros)

lemma keeps_finally [keep_intros]: "keeps I m \<Longrightarrow> keeps I f \<Longrightarrow> keeps I (finally_x m f)"
  unfolding finally_x_def by (auto intro!: keep_intros)

lemma keeps_write_all [keep_intros]: "hidden x \<Longrightarrow> keeps I (write_all e d x raw)"
proof (induction e d x raw rule: write_all.induct)
  case (1 e d x view)
  then show ?case by (subst write_all.simps) (auto intro!: keep_intros)
qed

lemma keeps_open_root [keep_intros]: "keeps I (open_journal_root root i)"
  unfolding open_journal_root_def by (auto intro!: keep_intros)

lemma keeps_snapshot [keep_intros]: "keeps I (snapshot_journal root j i m)"
  unfolding snapshot_journal_def by (auto intro!: keep_intros)

lemma keeps_inspect [keep_intros]: "keeps I (inspect_source d e j m w)"
  unfolding inspect_source_def by (auto intro!: keep_intros)

lemma keeps_verify [keep_intros]: "keeps I (verify_moved d e j m raw n)"
  unfolding verify_moved_def by (auto intro!: keep_intros)

lemma keeps_undo [keep_intros]:
  "journal_name_ok j \<Longrightarrow> d \<in> {source, quarantine} \<Longrightarrow> e \<in> {source, quarantine} \<Longrightarrow> d \<noteq> e \<Longrightarrow> keeps I (undo_move d e j x)"
  unfolding undo_move_def by (auto intro!: keep_intros)

lemma keeps_guarded: "(c \<Longrightarrow> keeps I m) \<Longrightarrow> keeps I (then_x (guard_x c e) m)"
  by (cases c) (simp_all add: guard_x_def then_x_def keeps_def)

lemma keeps_at_root: "keeps I (f r) \<Longrightarrow> keeps I (bind_x (open_journal_root r x) f)"
proof (rule keepsI)
  fix s assume f: "keeps I (f r)" and I: "I s"
  have "wp (open_journal_root r x) (\<lambda>y t. y = r \<and> I t) (\<lambda>_. I) s"
    using keepsD [OF keeps_open_root I, of r x] by (auto simp: wp_def open_journal_root_def exec_defs os_as_def split: option.splits prod.splits sum.splits if_splits)
  then show "wp (bind_x (open_journal_root r x) f) (\<lambda>_. I) (\<lambda>_. I) s"
    using keepsD [OF f] by (auto elim!: wp_mono)
qed

lemma keeps_quarantine_journal [keep_intros]:
  assumes "d \<in> {source, quarantine}" and "e \<in> {source, quarantine}" and "d \<noteq> e"
  shows "keeps I (quarantine_journal d e j i k m w)"
  unfolding quarantine_journal_def using assms
  by (auto intro!: keeps_guarded keeps_at_root keep_intros simp: case_prod_unfold)

lemma keeps_restore [keep_intros]:
  "d \<in> {source, quarantine} \<Longrightarrow> e \<in> {source, quarantine} \<Longrightarrow> d \<noteq> e \<Longrightarrow> keeps I (restore_quarantined_journal d e w i k m)"
  unfolding restore_quarantined_journal_def by (auto intro!: keep_intros)

lemma keeps_lock [keep_intros]: "keeps I (acquire_exclusive d)" "keeps I (release_lock d)"
proof -
  have "keeps I (modify_x (\<lambda>s. if entry s d QUARANTINE_LOCK = None then add_node d QUARANTINE_LOCK s else s))"
    by (rule keepsI) (auto intro: I_add hidden_lock)
  moreover have "keeps I (modify_x (\<lambda>s. s\<lparr>fs_locks := ls\<rparr>))" for ls
    by (rule keepsI) (auto intro: I_locks)
  ultimately show "keeps I (acquire_exclusive d)"
    unfolding acquire_exclusive_def open_lock_def by (auto intro!: keeps_os_call keep_intros)
  show "keeps I (release_lock d)" unfolding release_lock_def by (rule keepsI) (auto intro: I_locks)
qed

lemma keeps_record [keep_intros]:
  "keeps I (read_record E d x r)" "keeps I (need_record E d x)" "keeps I (need y e)" "keeps I (record_name tid stage)"
  "keeps I (read_quarantine_record E root i tid stage r)" "keeps I (same_or_conflict raw rec)"
  unfolding read_record_def need_record_def need_def record_name_def read_quarantine_record_def same_or_conflict_def
  by (auto intro!: keep_intros)

lemma keeps_drop [keep_intros]: "hidden x \<Longrightarrow> keeps I (drop_temporary d x)"
proof -
  assume "hidden x"
  moreover have "keeps I (case e of OsErr y \<Rightarrow> return_x () | _ \<Rightarrow> raise_x e)" for e
    by (cases e) (auto intro: keep_intros)
  ultimately show ?thesis unfolding drop_temporary_def by (auto intro!: keep_intros)
qed

lemma keeps_publish [keep_intros]:
  "hidden x \<Longrightarrow> hidden y \<or> record_like y \<Longrightarrow> keeps I (publish E d x y raw)"
  unfolding publish_def by (intro keep_intros keeps_option) (auto intro!: keep_intros)

lemma keeps_token [keep_intros]: "keeps I (next_token E)"
  unfolding next_token_def by (auto intro!: keep_intros keepsI I_count)

lemma keeps_named: "keeps I (f (record_file tid stage)) \<Longrightarrow> keeps I (bind_x (record_name tid stage) f)"
  unfolding record_name_def then_x_def [symmetric] bind_x_assoc
  by (auto simp: keeps_def wp_def exec_defs split: if_splits)

lemma keeps_write_record [keep_intros]: "keeps I (write_record E root i tid stage v)"
  using hidden_temp(1) [of "tid @ ''.'' @ stage @ ''.'' @ _"] record_like_file
  unfolding write_record_def Let_def by (intro keeps_named keep_intros) auto

lemma keeps_fence [keep_intros]:
  "keeps I (install_quarantine_source_fence E root i tid g q)" "keeps I (read_source_fence E d tid g q r)"
  using hidden_temp(2) [of "tid @ ''.'' @ _"] hidden_fence
  unfolding install_quarantine_source_fence_def read_source_fence_def by (auto intro!: keep_intros)

lemma read_record_name: "wp (read_record E d x r) (\<lambda>y _. \<forall>z. y = Some z \<longrightarrow> du_name z = x) (\<lambda>_ _. True) s"
  unfolding read_record_def by (auto simp: wp_def exec_defs split: option.splits prod.splits sum.splits if_splits)

lemma keeps_remove_fence [keep_intros]: "keeps I (remove_source_fence E d tid g q)"
proof (rule keepsI)
  fix s assume I: "I s"
  let ?f = "fence_name (fe_hash E) (qj_journal q)"
  have "wp (read_source_fence E d tid g q False) (\<lambda>y _. \<forall>z. y = Some z \<longrightarrow> du_name z = ?f) (\<lambda>_ _. True) s"
    unfolding read_source_fence_def using read_record_name [of E d ?f False s]
    by (auto simp: wp_def exec_defs split: option.splits prod.splits sum.splits if_splits)
  from wp_conj [OF this keepsD [OF keeps_fence(2) I]]
  have "wp (read_source_fence E d tid g q False) (\<lambda>y t. (\<forall>z. y = Some z \<longrightarrow> du_name z = ?f) \<and> I t) (\<lambda>_. I) s"
    by (auto elim!: wp_mono)
  moreover have "keeps I (os_as TransactionErr (then_x (os_unlink d ?f) (os_fsync d)))"
    using hidden_fence by (auto intro!: keep_intros)
  ultimately show "wp (remove_source_fence E d tid g q) (\<lambda>_. I) (\<lambda>_. I) s"
    unfolding remove_source_fence_def by (auto elim!: wp_mono split: option.splits dest: keepsD)
qed

lemma keeps_steps [keep_intros]:
  "keeps I (remove_quarantine_source_fence E root i tid g q)" "keeps I (prepare_quarantine_transaction E root i tid b k q)"
  "keeps I (mark_quarantine_applied E root i tid g q)" "keeps I (mark_quarantine_restored E root i tid g ad reason)"
  "keeps I (mark_blocked E root i tid g ad fd reason)"
  unfolding remove_quarantine_source_fence_def prepare_quarantine_transaction_def mark_quarantine_applied_def
    mark_quarantine_restored_def mark_blocked_def by (auto intro!: keep_intros)

lemma keeps_exists [keep_intros]: "keeps I (file_exists d x)"
  unfolding file_exists_def by (auto intro!: keep_intros)

lemma keeps_lease [keep_intros]:
  "keeps I (acquire_quarantine_transaction_lease root i)" "keeps I (close_lease l)" "keeps I (require_lease l root i)"
  unfolding acquire_quarantine_transaction_lease_def close_lease_def require_lease_def by (auto intro!: keep_intros)

lemma keeps_with_lease [keep_intros]: "keeps I m \<Longrightarrow> keeps I (with_lease l root i m)"
  unfolding with_lease_def by (auto intro!: keep_intros)

lemma keeps_finalize [keep_intros]: "keeps I (finalize_quarantine_transaction E root i tid sr si ad rc pi l)"
  unfolding finalize_quarantine_transaction_def finalize_locked_def by (auto intro!: keep_intros)

lemma keeps_clean [keep_intros]:
  assumes "\<And>x. ok x \<Longrightarrow> hidden x"
  shows "keeps I (clean_temporaries ok d names)"
  unfolding clean_temporaries_def clean_temporary_def
  by (auto intro!: keep_intros keeps_guarded dest: assms)

lemma keeps_names [keep_intros]: "keeps I (check_record_names names)"
  unfolding check_record_names_def check_record_name_def by (auto intro!: keep_intros)

lemma keeps_block [keep_intros]: "keeps I (block E a tid intent applied reason)"
  unfolding block_def by (auto intro!: keep_intros)

lemma keeps_settle_blocked [keep_intros]: "keeps I (settle_blocked tid intent applied finalized blocked)"
  unfolding settle_blocked_def by (auto intro!: keep_intros)

lemma keeps_settle_finalized [keep_intros]: "keeps I (settle_finalized E a tid intent q applied finalized)"
  unfolding settle_finalized_def by (auto intro!: keep_intros)

lemma keeps_settle_restored [keep_intros]: "keeps I (settle_restored E a tid intent q applied restored)"
  unfolding settle_restored_def by (auto intro!: keep_intros)

lemma keeps_no_later [keep_intros]: "keeps I (no_later_record E a tid stage)"
  unfolding no_later_record_def by (auto intro!: keep_intros)

lemma keeps_settle [keep_intros]:
  assumes "sa_source a = source" and "sa_quarantine a = quarantine" and "source \<noteq> quarantine"
  shows "keeps I (settle E a name)"
proof -
  have "keeps I (settle_pending E a tid intent q applied)" for tid intent q applied
    unfolding settle_pending_def recover_journal_def using assms by (auto intro!: keep_intros)
  then show ?thesis unfolding settle_def Let_def by (auto intro!: keep_intros)
qed

lemma keeps_settle_all [keep_intros]:
  assumes "sa_source a = source" and "sa_quarantine a = quarantine" and "source \<noteq> quarantine"
  shows "keeps I (settle_all E a names)"
  by (induction names) (auto intro!: keep_intros assms simp: Let_def case_prod_unfold)

lemma keeps_reconcile [keep_intros]:
  "source \<noteq> quarantine \<Longrightarrow> keeps I (reconcile_quarantine_transactions E source quarantine i k m l)"
  unfolding reconcile_quarantine_transactions_def reconcile_locked_def Let_def
  by (auto intro!: keeps_at_root keep_intros intro: temp_ok_hidden)

lemma keeps_settled [keep_intros]: "keeps I mark_settled"
  unfolding mark_settled_def by (rule keepsI) (auto intro: I_settled)

lemma keeps_abort [keep_intros]:
  "sa_source a = source \<Longrightarrow> sa_quarantine a = quarantine \<Longrightarrow> source \<noteq> quarantine \<Longrightarrow> keeps I (abort_prepare E a)"
  unfolding abort_prepare_def by (intro keep_intros) (simp_all add: keeps_reconcile)

lemma keeps_compensate [keep_intros]:
  "sa_source a = source \<Longrightarrow> sa_quarantine a = quarantine \<Longrightarrow> source \<noteq> quarantine \<Longrightarrow>
   keeps I (compensate E a tid g q fenced w applied e)"
  unfolding compensate_def by (auto intro!: keep_intros)

lemma keeps_commit_fault [keep_intros]:
  "sa_source a = source \<Longrightarrow> sa_quarantine a = quarantine \<Longrightarrow> source \<noteq> quarantine \<Longrightarrow> keeps I check \<Longrightarrow>
   keeps I (commit_fault E a tid g q check)"
  unfolding commit_fault_def by (auto intro!: keep_intros)

end

section \<open>Journals are conserved\<close>

definition dir_entries :: "files \<Rightarrow> string \<Rightarrow> (string \<times> file_node) list" where
  "dir_entries s d = (case fs_dir s d of None \<Rightarrow> [] | Some r \<Rightarrow> dr_entries r)"

definition distinct_names :: "files \<Rightarrow> string \<Rightarrow> bool" where
  "distinct_names s d \<longleftrightarrow> distinct (map fst (dir_entries s d))"

text \<open>The journals of a directory, with the file each name stands for.\<close>

definition journals_of :: "(string \<times> file_node) list \<Rightarrow> (string \<times> file_node) multiset" where
  "journals_of es = mset (filter (\<lambda>(x, n). ends_with ''.jsonl'' x) es)"

definition journals :: "files \<Rightarrow> string \<Rightarrow> (string \<times> file_node) multiset" where
  "journals s d = journals_of (dir_entries s d)"

definition conserved :: "string \<Rightarrow> string \<Rightarrow> (string \<times> file_node) multiset \<Rightarrow> files \<Rightarrow> bool" where
  "conserved source quarantine J s \<longleftrightarrow> distinct_names s source \<and> distinct_names s quarantine
     \<and> journals s source + journals s quarantine = J"

lemma dir_entries_simps [simp]:
  "dir_entries (s\<lparr>fs_outcomes := xs\<rparr>) d = dir_entries s d"
  "dir_entries (s\<lparr>fs_locks := ls\<rparr>) d = dir_entries s d"
  "dir_entries (s\<lparr>fs_count := k\<rparr>) d = dir_entries s d"
  "dir_entries (s\<lparr>fs_next := i\<rparr>) d = dir_entries s d"
  "dir_entries (s\<lparr>fs_settled := b\<rparr>) d = dir_entries s d"
  by (simp_all add: dir_entries_def)

lemma dir_entries_on:
  "dir_entries (on_entries d f s) e = (if e = d \<and> fs_dir s d \<noteq> None then f (dir_entries s d) else dir_entries s e)"
  by (auto simp: dir_entries_def on_entries_def split: option.splits)

lemma entry_entries: "entry s d x = map_of (dir_entries s d) x"
  by (simp add: entry_def dir_entries_def split: option.splits)

lemma fs_dir_on [simp]: "fs_dir (on_entries d f s) e = None \<longleftrightarrow> fs_dir s e = None"
  by (auto simp: on_entries_def)

lemma distinct_filter_key: "distinct (map fst xs) \<Longrightarrow> distinct (map fst (filter P xs))"
  by (simp add: distinct_map_filter)

lemma fs_dir_simps [simp]:
  "dir_entries (add_node d x s) e = dir_entries (on_entries d (dict_set x (new_node d s)) s) e"
  by (simp add: add_node_def)

lemma journals_of_change: "\<not> ends_with ''.jsonl'' x \<Longrightarrow> journals_of (map (\<lambda>(k, n). (k, if k = x then f n else n)) es) = journals_of es"
  unfolding journals_of_def by (induction es) auto

lemma journals_of_drop: "\<not> ends_with ''.jsonl'' x \<Longrightarrow> journals_of (filter (\<lambda>(z, n). z \<noteq> x) es) = journals_of es"
  unfolding journals_of_def by (induction es) (auto simp del: mset_filter)

lemma journals_of_append: "journals_of (es @ [(x, n)]) = (if ends_with ''.jsonl'' x then add_mset (x, n) (journals_of es) else journals_of es)"
  by (simp add: journals_of_def)

lemma journals_of_take:
  "distinct (map fst es) \<Longrightarrow> map_of es x = Some n \<Longrightarrow> ends_with ''.jsonl'' x \<Longrightarrow>
   add_mset (x, n) (journals_of (filter (\<lambda>(z, m). z \<noteq> x) es)) = journals_of es"
proof (induction es)
  case (Cons e es)
  show ?case
  proof (cases "fst e = x")
    case True
    have "x \<notin> fst ` set es" using Cons.prems(1) True by auto
    then have "\<forall>p \<in> set es. fst p \<noteq> x" by blast
    then have "filter (\<lambda>(z, m). z \<noteq> x) es = es" by (intro filter_True) auto
    with True show ?thesis using Cons.prems by (cases e) (simp add: journals_of_def)
  qed (use Cons in \<open>cases e, auto simp: journals_of_def\<close>)
qed simp

lemma hidden_not_jsonl: "hidden x \<Longrightarrow> \<not> ends_with ''.jsonl'' x"
  by (simp add: hidden_def)

lemma keys_change: "map fst (map (\<lambda>(k, n). (k, if k = x then f n else n)) es) = map fst es"
  by (induction es) auto

interpretation conservation: quarantine_files "conserved source quarantine J" source quarantine
  for source quarantine J
proof unfold_locales
  fix s :: files and d e x y n and f :: "file_node \<Rightarrow> file_node"
  note defs = conserved_def distinct_names_def journals_def dir_entries_on
  assume I: "conserved source quarantine J s"
  show "hidden x \<Longrightarrow> entry s d x = None \<Longrightarrow> conserved source quarantine J (add_node d x s)"
    using I by (auto simp: defs entry_entries dict_set_fresh hidden_not_jsonl journals_of_append map_of_eq_None_iff)
  show "hidden x \<Longrightarrow> conserved source quarantine J (change_node d x f s)"
    using I by (auto simp add: defs change_node_def journals_of_change hidden_not_jsonl keys_change simp del: map_map)
  show "hidden x \<Longrightarrow> conserved source quarantine J (on_entries d (filter (\<lambda>(z, n). z \<noteq> x)) s)"
    using I by (auto simp: defs hidden_not_jsonl distinct_filter_key journals_of_drop)
  show "hidden x \<Longrightarrow> hidden y \<or> record_like y \<Longrightarrow> entry s d x = Some n \<Longrightarrow> entry s d y = None
      \<Longrightarrow> fs_dir s d \<noteq> None \<Longrightarrow> conserved source quarantine J (move_node d x d y n s)"
    using I by (auto simp: defs move_node_def hidden_not_jsonl record_not_jsonl distinct_filter_key entry_entries
        journals_of_append journals_of_drop map_of_eq_None_iff)
  show "conserved source quarantine J (move_node d x e x n s)"
    if j: "journal_name_ok x" and de: "d \<in> {source, quarantine}" "e \<in> {source, quarantine}" "d \<noteq> e"
      and x: "entry s d x = Some n" "entry s e x = None" "fs_dir s e \<noteq> None"
  proof -
    have dist: "distinct (map fst (dir_entries s d))" "distinct (map fst (dir_entries s e))" using I de by (auto simp: defs)
    have "ends_with ''.jsonl'' x" using j by (simp add: journal_name_ok_def)
    note t = journals_of_take [OF dist(1) x(1) [unfolded entry_entries] this]
    have "fs_dir s d \<noteq> None" using x(1) by (auto simp: entry_def split: option.splits)
    then have m: "dir_entries (move_node d x e x n s) d = filter (\<lambda>(z, n). z \<noteq> x) (dir_entries s d)"
        "dir_entries (move_node d x e x n s) e = dir_entries s e @ [(x, n)]"
      using de(3) x(3) by (auto simp: move_node_def dir_entries_on)
    have "journals (move_node d x e x n s) d + journals (move_node d x e x n s) e = journals s d + journals s e"
      using j t by (auto simp: journals_def m journals_of_append journal_name_ok_def)
    moreover have "distinct_names (move_node d x e x n s) d" "distinct_names (move_node d x e x n s) e"
      using dist x(2) by (auto simp: distinct_names_def m distinct_filter_key entry_entries map_of_eq_None_iff)
    ultimately show ?thesis using I de by (auto simp: conserved_def ac_simps)
  qed
qed (simp_all add: conserved_def distinct_names_def journals_def)

section \<open>Records are written once\<close>

definition written :: "string \<Rightarrow> string \<Rightarrow> file_node \<Rightarrow> files \<Rightarrow> bool" where
  "written d x n s \<longleftrightarrow> (record_like x \<longrightarrow> entry s d x = Some n)"

lemma hidden_not_record: "hidden x \<Longrightarrow> \<not> record_like x"
  by (auto simp: hidden_def record_like_def starts_with_iff)

lemma jsonl_not_record: "journal_name_ok x \<Longrightarrow> \<not> record_like x"
  using record_not_jsonl by (auto simp: journal_name_ok_def)

lemma map_of_drop_other: "y \<noteq> x \<Longrightarrow> map_of (filter (\<lambda>(z, n). z \<noteq> x) es) y = map_of es y"
  by (induction es) auto

lemma map_of_change_other: "y \<noteq> x \<Longrightarrow> map_of (map (\<lambda>(k, n). (k, if k = x then f n else n)) es) y = map_of es y"
  by (induction es) auto

interpretation written_once: quarantine_files "written r z m" source quarantine
  for r z m source quarantine
proof unfold_locales
  fix s :: files and d e x y n and f :: "file_node \<Rightarrow> file_node"
  note defs = written_def entry_entries dir_entries_on
  assume I: "written r z m s"
  show "hidden x \<Longrightarrow> entry s d x = None \<Longrightarrow> written r z m (add_node d x s)"
    using I hidden_not_record [of x] by (auto simp: defs)
  show "hidden x \<Longrightarrow> written r z m (change_node d x f s)"
    using I hidden_not_record [of x] by (cases "z = x") (auto simp: defs change_node_def map_of_change_other)
  show "hidden x \<Longrightarrow> written r z m (on_entries d (filter (\<lambda>(z, n). z \<noteq> x)) s)"
    using I hidden_not_record [of x] by (cases "z = x") (auto simp: defs map_of_drop_other)
  show "hidden x \<Longrightarrow> hidden y \<or> record_like y \<Longrightarrow> entry s d x = Some n \<Longrightarrow> entry s d y = None
      \<Longrightarrow> fs_dir s d \<noteq> None \<Longrightarrow> written r z m (move_node d x d y n s)"
    using I hidden_not_record [of x] by (cases "z = x") (auto simp: defs move_node_def map_of_drop_other map_add_def)
  show "journal_name_ok x \<Longrightarrow> d \<in> {source, quarantine} \<Longrightarrow> e \<in> {source, quarantine} \<Longrightarrow> d \<noteq> e
      \<Longrightarrow> entry s d x = Some n \<Longrightarrow> entry s e x = None \<Longrightarrow> fs_dir s e \<noteq> None \<Longrightarrow> written r z m (move_node d x e x n s)"
    using I jsonl_not_record [of x] by (cases "z = x") (auto simp: defs move_node_def map_of_drop_other map_add_def)
qed (simp_all add: written_def entry_entries)

section \<open>The directories stay the directories they are\<close>

definition rooted :: "string \<Rightarrow> bool \<times> bool \<times> int \<times> int \<Rightarrow> files \<Rightarrow> bool" where
  "rooted d k s \<longleftrightarrow> map_option (\<lambda>r. (dr_canonical r, dr_private r, dr_identity r)) (fs_dir s d) = Some k"

lemma rooted_simps [simp]:
  "rooted d k (s\<lparr>fs_outcomes := xs\<rparr>) = rooted d k s" "rooted d k (s\<lparr>fs_locks := ls\<rparr>) = rooted d k s"
  "rooted d k (s\<lparr>fs_count := c\<rparr>) = rooted d k s" "rooted d k (s\<lparr>fs_next := i\<rparr>) = rooted d k s"
  "rooted d k (s\<lparr>fs_settled := b\<rparr>) = rooted d k s"
  by (simp_all add: rooted_def)

lemma rooted_on [simp]: "rooted d k (on_entries e f s) = rooted d k s"
  by (auto simp: rooted_def on_entries_def option.map_comp comp_def)

interpretation rooted_dirs: quarantine_files "rooted r k" source quarantine
  for r k source quarantine
  by unfold_locales (simp_all add: add_node_def change_node_def move_node_def)

end
