(* ===== verification/File_Views.thy ===== *)
theory File_Views
  imports Quarantine_Invariant
begin

text \<open>
  Runs of file operations over what the directories hold. A view is the file each name stands for;
  \<open>ends\<close> says with which results, errors and views a computation ends when system calls do not fail, though
  they may write less than they were given and, if \<open>crash\<close>, the process may die at any of them.
\<close>

type_synonym view = "string \<Rightarrow> string \<Rightarrow> file_node option"

definition set_file :: "string \<Rightarrow> string \<Rightarrow> file_node option \<Rightarrow> view \<Rightarrow> view" where
  "set_file d x n v = v(d := (v d)(x := n))"

lemma set_file_apply [simp]: "set_file d x n v e y = (if e = d \<and> y = x then n else v e y)"
  by (simp add: set_file_def)

lemma set_file_at: "set_file d x n v d x = n"
  by simp

lemma set_file_same [simp]: "v d x = n \<Longrightarrow> set_file d x n v = v"
  by (auto simp: fun_eq_iff)

lemma set_file_twice [simp]: "set_file d x n (set_file d x m v) = set_file d x n v"
  by (auto simp: fun_eq_iff)

definition sound :: "bool \<Rightarrow> settle_args \<Rightarrow> files \<Rightarrow> bool" where
  "sound crash a s \<longleftrightarrow> (if crash then Fail \<notin> set (fs_outcomes s) else fs_outcomes s = [])
     \<and> rooted (sa_source a) (True, True, sa_source_identity a) s
     \<and> rooted (sa_quarantine a) (True, True, sa_quarantine_identity a) s
     \<and> distinct_names s (sa_source a) \<and> distinct_names s (sa_quarantine a)"

definition ends ::
  "bool \<Rightarrow> settle_args \<Rightarrow> 'a file_exec \<Rightarrow> ('a \<Rightarrow> view \<Rightarrow> bool) \<Rightarrow> (file_error \<Rightarrow> view \<Rightarrow> bool) \<Rightarrow> view \<Rightarrow> bool" where
  "ends crash a m Q R v \<longleftrightarrow> (\<forall>s. sound crash a s \<longrightarrow> entry s = v \<longrightarrow>
     wp m (\<lambda>x t. sound crash a t \<and> Q x (entry t)) (\<lambda>e t. sound crash a t \<and> R e (entry t)) s)"

named_theorems end_intros \<open>rules for the runs of file operations\<close>

lemma endsI:
  "(\<And>s. sound crash a s \<Longrightarrow> entry s = v \<Longrightarrow>
      wp m (\<lambda>x t. sound crash a t \<and> Q x (entry t)) (\<lambda>e t. sound crash a t \<and> R e (entry t)) s) \<Longrightarrow>
   ends crash a m Q R v"
  by (simp add: ends_def)

lemma endsD:
  "ends crash a m Q R v \<Longrightarrow> sound crash a s \<Longrightarrow> entry s = v \<Longrightarrow>
   wp m (\<lambda>x t. sound crash a t \<and> Q x (entry t)) (\<lambda>e t. sound crash a t \<and> R e (entry t)) s"
  by (simp add: ends_def)

lemma ends_mono:
  assumes "ends crash a m Q R v" and "\<And>x w. Q x w \<Longrightarrow> Q' x w" and "\<And>e w. R e w \<Longrightarrow> R' e w"
  shows "ends crash a m Q' R' v"
  using assms unfolding ends_def by (blast intro: wp_mono)

lemma ends_return [end_intros]: "Q x v \<Longrightarrow> ends crash a (return_x x) Q R v"
  by (simp add: ends_def)

lemma ends_raise [end_intros]: "R e v \<Longrightarrow> ends crash a (raise_x e) Q R v"
  by (simp add: ends_def)

lemma ends_bind [end_intros]: "ends crash a m (\<lambda>x. ends crash a (k x) Q R) R v \<Longrightarrow> ends crash a (bind_x m k) Q R v"
  unfolding ends_def by (auto elim!: wp_mono)

lemma ends_then [end_intros]: "ends crash a m (\<lambda>_. ends crash a k Q R) R v \<Longrightarrow> ends crash a (then_x m k) Q R v"
  unfolding then_x_def by (rule ends_bind)

lemma ends_catch [end_intros]: "ends crash a m Q (\<lambda>e. ends crash a (h e) Q R) v \<Longrightarrow> ends crash a (catch_x m h) Q R v"
  unfolding ends_def by (auto elim!: wp_mono)

lemma ends_guard [end_intros]: "(c \<Longrightarrow> Q () v) \<Longrightarrow> (\<not> c \<Longrightarrow> R e v) \<Longrightarrow> ends crash a (guard_x c e) Q R v"
  by (simp add: ends_def)

lemma ends_when [end_intros]:
  "(c \<Longrightarrow> ends crash a m Q R v) \<Longrightarrow> (\<not> c \<Longrightarrow> Q () v) \<Longrightarrow> ends crash a (when_x c m) Q R v"
  by (simp add: when_x_def ends_return)

lemma ends_if [end_intros]:
  "(c \<Longrightarrow> ends crash a m Q R v) \<Longrightarrow> (\<not> c \<Longrightarrow> ends crash a m' Q R v) \<Longrightarrow> ends crash a (if c then m else m') Q R v"
  by simp

lemma ends_gets: "(\<And>s. sound crash a s \<Longrightarrow> entry s = v \<Longrightarrow> Q (f s) v) \<Longrightarrow> ends crash a (gets_x f) Q R v"
  by (simp add: ends_def)

lemma ends_gets_id: "(\<And>s. sound crash a s \<Longrightarrow> entry s = v \<Longrightarrow> Q s v) \<Longrightarrow> ends crash a (gets_x id) Q R v"
  by (rule ends_gets) simp

lemma ends_gets_entry [end_intros]: "Q (v d x) v \<Longrightarrow> ends crash a (gets_x (\<lambda>s. entry s d x)) Q R v"
  by (rule ends_gets) simp

lemma ends_os_as [end_intros]:
  "ends crash a m Q (\<lambda>e. R (case e of OsErr _ \<Rightarrow> err | _ \<Rightarrow> e)) v \<Longrightarrow> ends crash a (os_as err m) Q R v"
  unfolding os_as_def by (rule ends_catch) (auto elim!: ends_mono intro: ends_raise)

lemma ends_sink_as [end_intros]:
  "ends crash a m Q (\<lambda>e. R (if e = SinkErr then err else e)) v \<Longrightarrow> ends crash a (sink_as err m) Q R v"
  unfolding sink_as_def by (rule ends_catch) (auto elim!: ends_mono intro: ends_raise)

lemma ends_except [end_intros]:
  "ends crash a m Q (\<lambda>e w. if e = Crash then R e w else ends crash a (h e) Q R w) v \<Longrightarrow> ends crash a (except_x m h) Q R v"
  unfolding except_x_def by (rule ends_catch) (auto elim!: ends_mono intro: ends_raise split: if_splits)

text \<open>A final block that always returns and leaves the files alone.\<close>

lemma ends_finally:
  assumes "ends crash a m Q R v" and "\<And>w. ends crash a f (\<lambda>_ u. u = w) (\<lambda>_ _. False) w"
  shows "ends crash a (finally_x m f) Q R v"
  unfolding finally_x_def
proof (rule ends_bind, rule ends_except, rule ends_mono [OF assms(1)])
  fix x w assume q: "Q x w"
  show "ends crash a (then_x f (return_x x)) Q R w"
    by (rule ends_then, rule ends_mono [OF assms(2)]) (auto intro: ends_return q)
next
  fix e w assume r: "R e w"
  have "ends crash a (then_x f (raise_x e)) Q' R w" for Q' :: "'a \<Rightarrow> view \<Rightarrow> bool"
    by (rule ends_then, rule ends_mono [OF assms(2)]) (auto intro: ends_raise r)
  then show "if e = Crash then R e w else ends crash a (then_x f (raise_x e)) (\<lambda>x. ends crash a (then_x f (return_x x)) Q R) R w"
    using r by (cases "e = Crash") simp_all
qed

section \<open>System calls\<close>

lemma sound_outcomes:
  "sound crash a s \<Longrightarrow> fs_outcomes s = x # xs \<Longrightarrow> crash \<and> x \<noteq> Fail \<and> sound crash a (s\<lparr>fs_outcomes := xs\<rparr>)"
  by (auto simp: sound_def distinct_names_def split: if_splits)

lemma ends_os_call:
  assumes "\<And>x. x \<noteq> Fail \<Longrightarrow> x \<noteq> Die \<Longrightarrow> x = Go \<or> crash \<Longrightarrow> ends crash a (m x) Q R v" and "crash \<Longrightarrow> R Crash v"
  shows "ends crash a (os_call m) Q R v"
proof (rule endsI)
  fix s assume s: "sound crash a s" "entry s = v"
  show "wp (os_call m) (\<lambda>x t. sound crash a t \<and> Q x (entry t)) (\<lambda>e t. sound crash a t \<and> R e (entry t)) s"
  proof (cases "fs_outcomes s")
    case Nil
    then show ?thesis using endsD [OF assms(1) s, of Go] by (simp add: wp_def os_call_def)
  next
    case (Cons x xs)
    note so = sound_outcomes [OF s(1) Cons]
    show ?thesis
      using so s(2) Cons assms(2) endsD [OF assms(1), of x "s\<lparr>fs_outcomes := xs\<rparr>"]
      by (cases x) (auto simp: wp_def os_call_def)
  qed
qed

lemma ends_ok [end_intros]: "Q () v \<Longrightarrow> (crash \<Longrightarrow> R Crash v) \<Longrightarrow> ends crash a os_ok Q R v"
  unfolding os_ok_def by (rule ends_os_call) (auto intro: ends_return)

lemma ends_fsync [end_intros]: "Q () v \<Longrightarrow> (crash \<Longrightarrow> R Crash v) \<Longrightarrow> ends crash a (os_fsync d) Q R v"
  unfolding os_fsync_def by (rule ends_ok)

lemma ends_stat [end_intros]:
  "(\<And>n. v d x = Some n \<Longrightarrow> Q n v) \<Longrightarrow> (v d x = None \<Longrightarrow> R (OsErr ENOENT) v) \<Longrightarrow> (crash \<Longrightarrow> R Crash v) \<Longrightarrow>
   ends crash a (os_stat d x) Q R v"
  unfolding os_stat_def
  by (rule ends_os_call, rule ends_bind, rule ends_gets_entry) (auto split: option.splits intro: ends_return ends_raise)

lemma ends_open [end_intros]:
  "(\<And>n. v d x = Some n \<Longrightarrow> Q n v) \<Longrightarrow> (v d x = None \<Longrightarrow> R (OsErr ENOENT) v) \<Longrightarrow> (crash \<Longrightarrow> R Crash v) \<Longrightarrow>
   ends crash a (os_open d x) Q R v"
  unfolding os_open_def by (rule ends_stat)

lemma ends_read [end_intros]:
  "Q (take (nat limit) (fn_raw n)) v \<Longrightarrow> (crash \<Longrightarrow> R Crash v) \<Longrightarrow> ends crash a (os_read n limit) Q R v"
  unfolding os_read_def by (rule ends_os_call) (auto intro: ends_return)

definition root_of :: "settle_args \<Rightarrow> string \<Rightarrow> bool" where
  "root_of a d \<longleftrightarrow> d = sa_source a \<or> d = sa_quarantine a"

lemma rooted_dir: "rooted d k s \<Longrightarrow> \<exists>r. fs_dir s d = Some r \<and> k = (dr_canonical r, dr_private r, dr_identity r)"
  by (auto simp: rooted_def)

lemma sound_dir: "sound crash a s \<Longrightarrow> root_of a d \<Longrightarrow> fs_dir s d \<noteq> None"
  by (auto simp: sound_def root_of_def dest: rooted_dir)

lemma entry_on:
  "fs_dir s d \<noteq> None \<Longrightarrow> entry (on_entries d f s) = (entry s)(d := map_of (f (dir_entries s d)))"
  by (auto simp: fun_eq_iff entry_entries dir_entries_on)

lemma sound_on:
  assumes "sound crash a s" and "\<And>es. distinct (map fst es) \<Longrightarrow> es = dir_entries s d \<Longrightarrow> distinct (map fst (f es))"
  shows "sound crash a (on_entries d f s)"
proof -
  have "fs_outcomes (on_entries d f s) = fs_outcomes s" by (simp add: on_entries_def)
  moreover have "distinct_names (on_entries d f s) e" if "distinct_names s e" for e
    using that assms(2) by (auto simp: distinct_names_def dir_entries_on)
  ultimately show ?thesis using assms(1) by (simp add: sound_def)
qed

lemma ends_modify:
  "(\<And>s. sound crash a s \<Longrightarrow> entry s = v \<Longrightarrow> sound crash a (f s) \<and> Q () (entry (f s))) \<Longrightarrow> ends crash a (modify_x f) Q R v"
  by (simp add: ends_def)

lemma sound_next [simp]: "sound crash a (s\<lparr>fs_next := i\<rparr>) = sound crash a s" "sound crash a (s\<lparr>fs_locks := ls\<rparr>) = sound crash a s"
  "sound crash a (s\<lparr>fs_count := k\<rparr>) = sound crash a s" "sound crash a (s\<lparr>fs_settled := b\<rparr>) = sound crash a s"
  by (simp_all add: sound_def distinct_names_def)

lemma add_node_view:
  assumes "sound crash a s" and "root_of a d"
  shows "sound crash a (add_node d x s) \<and> (\<exists>n. safe_node n \<and> fn_raw n = [] \<and> entry (add_node d x s) = set_file d x (Some n) (entry s))"
proof
  show "sound crash a (add_node d x s)"
    unfolding add_node_def by (simp, rule sound_on [OF assms(1)]) (simp add: distinct_dict_set)
  have "entry (add_node d x s) = set_file d x (Some (new_node d s)) (entry s)"
    using sound_dir [OF assms] by (auto simp: add_node_def entry_on set_file_def fun_eq_iff entry_entries)
  then show "\<exists>n. safe_node n \<and> fn_raw n = [] \<and> entry (add_node d x s) = set_file d x (Some n) (entry s)"
    by (intro exI [of _ "new_node d s"]) (simp add: new_node_def safe_node_def)
qed

lemma ends_create [end_intros]:
  assumes "root_of a d" and "\<And>n. v d x = None \<Longrightarrow> safe_node n \<Longrightarrow> fn_raw n = [] \<Longrightarrow> Q () (set_file d x (Some n) v)"
    and "v d x \<noteq> None \<Longrightarrow> R (OsErr EEXIST) v" and "crash \<Longrightarrow> R Crash v"
  shows "ends crash a (os_create d x) Q R v"
proof -
  have "ends crash a (modify_x (add_node d x)) Q R v" if "v d x = None"
    by (rule ends_modify) (use add_node_view [OF _ assms(1)] assms(2) [OF that] in metis)
  then show ?thesis unfolding os_create_def
    by (intro ends_os_call ends_bind ends_gets_entry ends_then ends_guard) (use assms in auto)
qed

lemma map_of_change: "map_of (map (\<lambda>(k, n). (k, if k = x then f n else n)) es) = (map_of es)(x := map_option f (map_of es x))"
  by (induction es) (auto simp: fun_eq_iff)

lemma map_of_drop: "map_of (filter (\<lambda>(k, n). k \<noteq> x) es) = (map_of es)(x := None)"
  by (induction es) (auto simp: fun_eq_iff)

lemma entry_change:
  assumes "fs_dir s d \<noteq> None" and "entry s d x = Some n"
  shows "entry (change_node d x f s) = set_file d x (Some (f n)) (entry s)"
  using assms by (auto simp: change_node_def entry_on map_of_change set_file_def fun_eq_iff entry_entries)

lemma ends_change:
  assumes "root_of a d" and "v d x = Some n" and "Q () (set_file d x (Some (f n)) v)"
  shows "ends crash a (modify_x (change_node d x f)) Q R v"
proof (rule ends_modify)
  fix s assume s: "sound crash a s" "entry s = v"
  have "sound crash a (change_node d x f s)"
    unfolding change_node_def by (rule sound_on [OF s(1)]) (simp add: keys_change del: map_map)
  then show "sound crash a (change_node d x f s) \<and> Q () (entry (change_node d x f s))"
    using entry_change [OF sound_dir [OF s(1) assms(1)]] s(2) assms(2,3) by auto
qed

lemma ends_write:
  assumes "root_of a d" and "v d x = Some n"
    and "\<And>k. k \<le> length raw \<Longrightarrow> k = length raw \<or> crash \<Longrightarrow> Q k (set_file d x (Some (n\<lparr>fn_raw := fn_raw n @ take k raw\<rparr>)) v)"
    and "crash \<Longrightarrow> R Crash v"
  shows "ends crash a (os_write d x raw) Q R v"
  unfolding os_write_def Let_def
  by (rule ends_os_call, rule ends_then, rule ends_change [where n = n and f = "\<lambda>f. f\<lparr>fn_raw := fn_raw f @ take _ raw\<rparr>"])
     (use assms assms(3) [of "length raw"] in \<open>auto intro!: ends_return split: outcome.splits\<close>)

lemma ends_drop:
  assumes "root_of a d" and "Q () (set_file d x None v)"
  shows "ends crash a (modify_x (on_entries d (filter (\<lambda>(k, n). k \<noteq> x)))) Q R v"
proof (rule ends_modify)
  fix s assume s: "sound crash a s" "entry s = v"
  have "sound crash a (on_entries d (filter (\<lambda>(k, n). k \<noteq> x)) s)"
    by (rule sound_on [OF s(1)]) (simp add: distinct_filter_key)
  moreover have "entry (on_entries d (filter (\<lambda>(k, n). k \<noteq> x)) s) = set_file d x None v"
    using sound_dir [OF s(1) assms(1)] s(2) by (auto simp: entry_on map_of_drop set_file_def fun_eq_iff entry_entries)
  ultimately show "sound crash a (on_entries d (filter (\<lambda>(k, n). k \<noteq> x)) s) \<and> Q () (entry (on_entries d (filter (\<lambda>(k, n). k \<noteq> x)) s))"
    using assms(2) by simp
qed

lemma ends_unlink [end_intros]:
  assumes "root_of a d" and "v d x \<noteq> None \<Longrightarrow> Q () (set_file d x None v)" and "v d x = None \<Longrightarrow> R (OsErr ENOENT) v"
    and "crash \<Longrightarrow> R Crash v"
  shows "ends crash a (os_unlink d x) Q R v"
  unfolding os_unlink_def
  by (intro ends_os_call ends_bind ends_gets_entry ends_then ends_guard ends_drop) (use assms in auto)

lemma sound_device: "sound crash a s \<Longrightarrow> root_of a d \<Longrightarrow>
  device_of s d = (if d = sa_source a then fst (sa_source_identity a) else fst (sa_quarantine_identity a))"
  by (auto simp: sound_def root_of_def device_of_def dest!: rooted_dir)

definition one_device :: "settle_args \<Rightarrow> bool" where
  "one_device a \<longleftrightarrow> fst (sa_source_identity a) = fst (sa_quarantine_identity a)"

lemma ends_rename [end_intros]:
  assumes "root_of a d" and "root_of a e" and "one_device a" and "d \<noteq> e \<or> x \<noteq> y"
    and "\<And>n. v d x = Some n \<Longrightarrow> v e y = None \<Longrightarrow> Q () (set_file e y (Some n) (set_file d x None v))"
    and "v d x = None \<Longrightarrow> R (OsErr ENOENT) v" and "v d x \<noteq> None \<Longrightarrow> v e y \<noteq> None \<Longrightarrow> R (OsErr EEXIST) v"
    and "crash \<Longrightarrow> R Crash v"
  shows "ends crash a (rename_noreplace d x e y) Q R v"
  unfolding rename_noreplace_def
proof (rule ends_os_call, rule ends_bind, rule ends_gets_id)
  fix s assume s: "sound crash a s" "entry s = v"
  have dev: "device_of s d = device_of s e \<and> fs_dir s e \<noteq> None"
    using sound_device [OF s(1)] sound_dir [OF s(1)] assms(1-3) by (auto simp: one_device_def)
  have mv: "ends crash a (modify_x (move_node d x e y n)) Q R v" if n: "v d x = Some n" "v e y = None" for n
  proof (rule ends_modify)
    fix t assume t: "sound crash a t" "entry t = v"
    let ?u = "on_entries d (filter (\<lambda>(k, n). k \<noteq> x)) t"
    have u: "sound crash a ?u" by (rule sound_on [OF t(1)]) (simp add: distinct_filter_key)
    have eu: "entry ?u = set_file d x None v"
      using sound_dir [OF t(1) assms(1)] t(2) by (auto simp: entry_on map_of_drop set_file_def fun_eq_iff entry_entries)
    have y: "entry ?u e y = None" using n(2) by (simp add: eu)
    have "sound crash a (move_node d x e y n t)" unfolding move_node_def
      by (rule sound_on [OF u]) (use y in \<open>auto simp: entry_entries map_of_eq_None_iff\<close>)
    moreover have "entry (move_node d x e y n t) = set_file e y (Some n) (set_file d x None v)"
      using sound_dir [OF u assms(2)] eu y
      by (auto simp: move_node_def entry_on set_file_def fun_eq_iff entry_entries map_add_def split: option.splits)
    ultimately show "sound crash a (move_node d x e y n t) \<and> Q () (entry (move_node d x e y n t))"
      using assms(5) [OF n] by simp
  qed
  show "ends crash a (case entry s d x of None \<Rightarrow> raise_x (OsErr ENOENT)
       | Some n \<Rightarrow> then_x (guard_x (entry s e y = None) (OsErr EEXIST))
           (then_x (guard_x (device_of s d = device_of s e \<and> fs_dir s e \<noteq> None) (OsErr EOTHER)) (modify_x (move_node d x e y n)))) Q R v"
    unfolding s(2) using dev by (auto split: option.splits intro!: ends_raise ends_then ends_guard mv assms(6,7))
qed (use assms(8) in auto)

lemma ends_listdir [end_intros]:
  assumes "root_of a d" and "\<And>xs. distinct xs \<Longrightarrow> set xs = dom (v d) \<Longrightarrow> Q xs v" and "crash \<Longrightarrow> R Crash v"
  shows "ends crash a (os_listdir d) Q R v"
  unfolding os_listdir_def
proof (rule ends_os_call, rule ends_gets)
  fix s assume s: "sound crash a s" "entry s = v"
  have eq: "(case fs_dir s d of None \<Rightarrow> [] | Some r \<Rightarrow> map fst (dr_entries r)) = map fst (dir_entries s d)"
    by (simp add: dir_entries_def split: option.splits)
  have "distinct (map fst (dir_entries s d))" using s(1) assms(1) by (auto simp: sound_def root_of_def distinct_names_def)
  moreover have "v d = map_of (dir_entries s d)" using s(2) by (auto simp: entry_entries fun_eq_iff)
  then have "set (map fst (dir_entries s d)) = dom (v d)" by (simp add: dom_map_of_conv_image_fst)
  ultimately show "Q (case fs_dir s d of None \<Rightarrow> [] | Some r \<Rightarrow> map fst (dr_entries r)) v"
    using assms(2) unfolding eq by blast
qed (use assms(3) in auto)

section \<open>Roots, writing and records\<close>

definition is_root :: "settle_args \<Rightarrow> string \<Rightarrow> int \<times> int \<Rightarrow> bool" where
  "is_root a d i \<longleftrightarrow> d = sa_source a \<and> i = sa_source_identity a \<or> d = sa_quarantine a \<and> i = sa_quarantine_identity a"

lemma is_root_simps [simp]: "is_root a (sa_source a) (sa_source_identity a)" "is_root a (sa_quarantine a) (sa_quarantine_identity a)"
  "root_of a (sa_source a)" "root_of a (sa_quarantine a)" "is_root a d i \<Longrightarrow> root_of a d"
  by (auto simp: is_root_def root_of_def)

lemma ends_open_root [end_intros]:
  assumes "is_root a d i" and "Q d v" and "crash \<Longrightarrow> R Crash v"
  shows "ends crash a (open_journal_root d (Some i)) Q R v"
  unfolding open_journal_root_def
proof (rule ends_bind, rule ends_gets)
  fix s assume s: "sound crash a s"
  then obtain r where "fs_dir s d = Some r" "dr_canonical r" "dr_private r" "dr_identity r = i"
    using assms(1) by (auto simp: sound_def is_root_def dest!: rooted_dir)
  then show "ends crash a (case fs_dir s d of None \<Rightarrow> raise_x SinkErr
       | Some r \<Rightarrow> then_x (guard_x (dr_canonical r) SinkErr) (then_x (os_as SinkErr os_ok) (then_x (os_as SinkErr os_ok)
           (then_x (guard_x (dr_private r) SinkErr) (then_x (guard_x (Some i = None \<or> Some i = Some (dr_identity r)) SinkErr)
           (return_x d)))))) Q R v"
    using assms(2,3) by (auto intro!: end_intros)
qed

lemma ends_write_all:
  assumes "root_of a d" and "v d x = Some n" and "Q () (set_file d x (Some (n\<lparr>fn_raw := fn_raw n @ raw\<rparr>)) v)"
    and "\<And>e r. crash \<Longrightarrow> R e (set_file d x (Some (n\<lparr>fn_raw := r\<rparr>)) v)"
  shows "ends crash a (write_all err d x raw) Q R v"
  using assms
proof (induction err d x raw arbitrary: v n rule: write_all.induct)
  case (1 err d x raw)
  have same: "set_file d x (Some (n\<lparr>fn_raw := fn_raw n\<rparr>)) v = v" using "1.prems"(2) by simp
  have crash: "crash \<Longrightarrow> R Crash v" using "1.prems"(4) [of Crash "fn_raw n"] unfolding same .
  have step: "ends crash a (if k = 0 then raise_x err else write_all err d x (drop k raw)) Q R
        (set_file d x (Some (n\<lparr>fn_raw := fn_raw n @ take k raw\<rparr>)) v)"
    if ne: "raw \<noteq> []" and k: "k \<le> length raw" "k = length raw \<or> crash" for k
  proof (cases "k = 0")
    case True
    with k ne have crash by auto
    then have "R err (set_file d x (Some (n\<lparr>fn_raw := fn_raw n @ take k raw\<rparr>)) v)" by (rule "1.prems"(4))
    then show ?thesis unfolding True by (subst if_P [OF refl]) (rule ends_raise)
  next
    case False
    let ?n = "n\<lparr>fn_raw := fn_raw n @ take k raw\<rparr>"
    have "ends crash a (write_all err d x (drop k raw)) Q R (set_file d x (Some ?n) v)"
    proof (rule "1.IH" [OF ne False "1.prems"(1), where n = ?n])
      show "Q () (set_file d x (Some (?n\<lparr>fn_raw := fn_raw ?n @ drop k raw\<rparr>)) (set_file d x (Some ?n) v))"
        using "1.prems"(3) unfolding set_file_twice by (simp del: set_file_apply)
      show "R e (set_file d x (Some (?n\<lparr>fn_raw := r\<rparr>)) (set_file d x (Some ?n) v))" if crash for e r
        using "1.prems"(4) [OF that, of e r] unfolding set_file_twice by (simp del: set_file_apply)
    qed simp
    then show ?thesis unfolding if_not_P [OF False] .
  qed
  show ?case
  proof (cases "raw = []")
    case True
    then have "Q () v" using "1.prems"(3) same by (simp del: set_file_apply)
    with True show ?thesis by (subst write_all.simps) (simp add: ends_return)
  next
    case False
    show ?thesis
      by (subst write_all.simps, subst if_not_P [OF False], rule ends_bind)
         (rule ends_write [of a d v x n, OF "1.prems"(1,2)], rule step [OF False], auto intro: crash)
  qed
qed

definition holds :: "view \<Rightarrow> string \<Rightarrow> string \<Rightarrow> string \<Rightarrow> bool" where
  "holds v d x raw \<longleftrightarrow> (\<exists>n. v d x = Some n \<and> safe_node n \<and> fn_raw n = raw)"

definition record_ok :: "string \<Rightarrow> json \<Rightarrow> bool" where
  "record_ok raw u \<longleftrightarrow> record_value raw = Some u \<and> int (length raw) \<le> MAX_TRANSACTION_RECORD_BYTES"

definition the_record :: "file_env \<Rightarrow> string \<Rightarrow> string \<Rightarrow> json \<Rightarrow> durable_record" where
  "the_record E x raw u = \<lparr>du_name = x, du_raw = raw, du_digest = q_digest (fe_hash E) raw, du_value = u\<rparr>"

lemma the_record_simps [simp]: "du_name (the_record E x raw u) = x" "du_raw (the_record E x raw u) = raw"
  "du_digest (the_record E x raw u) = q_digest (fe_hash E) raw" "du_value (the_record E x raw u) = u"
  by (simp_all add: the_record_def)

lemma ends_read_record:
  assumes "holds v d x raw" and "record_ok raw u" and "Q (Some (the_record E x raw u)) v" and "crash \<Longrightarrow> R Crash v"
  shows "ends crash a (read_record E d x required) Q R v"
proof -
  obtain n where n: "v d x = Some n" "safe_node n" "fn_raw n = raw" using assms(1) by (auto simp: holds_def)
  have t: "take (nat (MAX_TRANSACTION_RECORD_BYTES + 1)) raw = raw" using assms(2) by (simp add: record_ok_def MAX_TRANSACTION_RECORD_BYTES_def)
  show ?thesis unfolding read_record_def
    by (intro ends_bind ends_catch ends_open)
       (use n t assms(2-4) in \<open>auto intro!: ends_return ends_raise ends_then ends_guard ends_bind ends_read simp: record_ok_def the_record_def\<close>)
qed

lemma ends_read_record_None:
  assumes "v d x = None" and "Q None v" and "crash \<Longrightarrow> R Crash v"
  shows "ends crash a (read_record E d x False) Q R v"
  unfolding read_record_def
  by (intro ends_bind ends_catch ends_open) (use assms in \<open>auto intro!: ends_return ends_raise\<close>)

lemma ends_need_record:
  assumes "holds v d x raw" and "record_ok raw u" and "Q (the_record E x raw u) v" and "crash \<Longrightarrow> R Crash v"
  shows "ends crash a (need_record E d x) Q R v"
  unfolding need_record_def
  by (rule ends_bind, rule ends_read_record [OF assms(1,2)]) (use assms(3,4) in \<open>auto intro: ends_return\<close>)

lemma ends_drop_temporary:
  assumes "root_of a d" and "Q () (set_file d x None v)" and "crash \<Longrightarrow> R Crash v" and "crash \<Longrightarrow> R Crash (set_file d x None v)"
  shows "ends crash a (drop_temporary d x) Q R v"
  unfolding drop_temporary_def
  by (intro ends_catch ends_then ends_unlink ends_fsync) (use assms in \<open>auto intro!: ends_return ends_raise\<close>)

text \<open>Publishing: the file is there in full, or a crash leaves the old files, perhaps with a temporary one.\<close>

lemma ends_publish:
  assumes root: "root_of a d" "one_device a" and ne: "temporary \<noteq> name"
    and fresh: "v d name = None \<or> holds v d name raw" and rec: "record_ok raw u"
    and Q: "\<And>n. safe_node n \<Longrightarrow> fn_raw n = raw \<Longrightarrow> v d name = None \<or> v d name = Some n \<Longrightarrow>
        Q (the_record E name raw u) (set_file d name (Some n) v)"
    and R: "\<And>e. crash \<or> v d temporary \<noteq> None \<Longrightarrow> R e v"
      "\<And>e n. crash \<Longrightarrow> v d temporary = None \<Longrightarrow> safe_node n \<Longrightarrow> R e (set_file d temporary (Some n) v)"
      "\<And>n. crash \<Longrightarrow> v d name = None \<Longrightarrow> safe_node n \<Longrightarrow> fn_raw n = raw \<Longrightarrow> R Crash (set_file d name (Some n) v)"
  shows "ends crash a (publish E d temporary name raw) Q R v"
proof (cases "v d name")
  case (Some n)
  with fresh have h: "holds v d name raw" by simp
  then have "Q (the_record E name raw u) v" using Q [of n] Some by (auto simp: holds_def)
  then show ?thesis unfolding publish_def
    by (intro ends_bind ends_read_record [OF h rec]) (use R(1) in \<open>auto simp: same_or_conflict_def intro!: ends_then ends_guard ends_return\<close>)
next
  case None
  let ?w = "\<lambda>n. set_file d temporary (Some n) v"
  let ?fin = "\<lambda>n. set_file d name (Some n) v"
  have undone: "set_file d temporary None (?w n) = v" if "v d temporary = None" for n using that by (auto simp: fun_eq_iff)
  have moved: "set_file d name (Some n) (set_file d temporary None (?w n)) = ?fin n" if "v d temporary = None" for n
    using that by (auto simp: fun_eq_iff)
  have final: "ends crash a (then_x (os_fsync d) (bind_x (need_record E d name) (same_or_conflict raw))) Q R (?fin n)"
    if n: "safe_node n" "fn_raw n = raw" for n
  proof -
    have h: "holds (?fin n) d name raw" using n by (simp add: holds_def)
    show ?thesis
      by (intro ends_then ends_fsync ends_bind ends_need_record [OF h rec])
         (use R(3) [OF _ None n] Q [OF n] None in \<open>auto simp: same_or_conflict_def intro!: ends_then ends_guard ends_return\<close>)
  qed
  have after: "ends crash a (if b then then_x (os_fsync d) (bind_x (need_record E d name) (same_or_conflict raw)) else k) Q R w"
    if "b \<and> (\<exists>n. safe_node n \<and> fn_raw n = raw \<and> w = ?fin n)" for b w k
  proof -
    from that obtain n where "b" "safe_node n" "fn_raw n = raw" "w = ?fin n" by blast
    then show ?thesis using final [of n] by simp
  qed
  have body: "ends crash a (except_x
            (then_x (os_as TransactionErr (then_x (write_all TransactionErr d temporary raw) (os_fsync d)))
            (catch_x (then_x (rename_noreplace d temporary d name) (return_x True))
              (\<lambda>e. if e = OsErr EEXIST then return_x False else raise_x (case e of OsErr _ \<Rightarrow> TransactionErr | _ \<Rightarrow> e))))
            (\<lambda>e. then_x (drop_temporary d temporary) (raise_x e)))
          (\<lambda>b w. b \<and> (\<exists>n. safe_node n \<and> fn_raw n = raw \<and> w = ?fin n)) R (?w m)"
    if t: "v d temporary = None" and m: "safe_node m" "fn_raw m = []" for m
  proof -
    have r: "crash \<Longrightarrow> R e (?w (m\<lparr>fn_raw := r\<rparr>))" for e r
      by (rule R(2) [OF _ t]) (use m in \<open>auto simp: safe_node_def\<close>)
    have undo: "crash \<Longrightarrow> ends crash a (then_x (drop_temporary d temporary) (raise_x e)) Q' R (?w (m\<lparr>fn_raw := r\<rparr>))"
      for e r and Q' :: "bool \<Rightarrow> view \<Rightarrow> bool"
      by (intro ends_then ends_drop_temporary [OF root(1)]) (use R(1) r undone [OF t] in \<open>auto intro!: ends_raise\<close>)
    have sm: "safe_node (m\<lparr>fn_raw := raw\<rparr>)" using m by (simp add: safe_node_def)
    show ?thesis
      by (intro ends_except ends_then ends_os_as ends_write_all [where n = m, OF root(1)] ends_fsync ends_catch
            ends_rename [OF root(1) root(1) root(2)] ends_return)
         (use r undo t sm m ne None moved [OF t] in \<open>auto simp: fun_eq_iff intro!: ends_raise ends_return\<close>)
  qed
  show ?thesis unfolding publish_def
  proof (rule ends_bind, rule ends_read_record_None [of v d name, OF None])
    show "ends crash a (case None of Some r \<Rightarrow> same_or_conflict raw r | None \<Rightarrow> then_x (os_as TransactionErr (os_create d temporary))
         (bind_x (except_x
            (then_x (os_as TransactionErr (then_x (write_all TransactionErr d temporary raw) (os_fsync d)))
            (catch_x (then_x (rename_noreplace d temporary d name) (return_x True))
              (\<lambda>e. if e = OsErr EEXIST then return_x False else raise_x (case e of OsErr _ \<Rightarrow> TransactionErr | _ \<Rightarrow> e))))
            (\<lambda>e. then_x (drop_temporary d temporary) (raise_x e))) (\<lambda>renamed.
          if renamed
          then then_x (os_fsync d) (bind_x (need_record E d name) (same_or_conflict raw))
          else finally_x (bind_x (need_record E d name) (same_or_conflict raw)) (drop_temporary d temporary)))) Q R v"
      unfolding option.case
      by (intro ends_then ends_os_as ends_create [OF root(1)] ends_bind)
         (assumption | rule R ends_mono [OF body] after | simp)+
  qed (use R(1) in auto)
qed

section \<open>Journals\<close>

definition journal_node :: "int \<Rightarrow> file_node \<Rightarrow> bool" where
  "journal_node m n \<longleftrightarrow> fn_regular n \<and> fn_owned n \<and> int (length (fn_raw n)) \<le> m \<and> complete_lines (fn_raw n)"

definition node_snapshot :: "string \<Rightarrow> file_node \<Rightarrow> quarantined_journal" where
  "node_snapshot j n = \<lparr>qj_journal = j, qj_raw = fn_raw n, qj_device = fn_device n, qj_inode = fn_inode n\<rparr>"

lemma node_snapshot_simps [simp]: "qj_journal (node_snapshot j n) = j" "qj_raw (node_snapshot j n) = fn_raw n"
  "qj_device (node_snapshot j n) = fn_device n" "qj_inode (node_snapshot j n) = fn_inode n"
  by (simp_all add: node_snapshot_def)

lemma take_all_of_node: "journal_node m n \<Longrightarrow> take (nat (m + 1)) (fn_raw n) = fn_raw n"
  unfolding journal_node_def by (intro take_all) linarith

lemma ends_snapshot:
  assumes "is_root a d i" and "journal_name_ok j" and "m > 0" and "v d j = Some n" and "journal_node m n"
    and "Q (node_snapshot j n) v" and "crash \<Longrightarrow> R Crash v"
  shows "ends crash a (snapshot_journal d j i m) Q R v"
proof -
  have q: "\<lparr>qj_journal = j, qj_raw = fn_raw n, qj_device = fn_device n, qj_inode = fn_inode n\<rparr> = node_snapshot j n"
    by (simp add: node_snapshot_def)
  show ?thesis unfolding snapshot_journal_def
    by (intro ends_then ends_guard ends_bind ends_open_root [OF assms(1)] ends_os_as ends_open ends_read ends_stat ends_return)
       (use assms(2-) in \<open>auto simp: take_all_of_node journal_node_def q\<close>)
qed

lemma ends_snapshot_missing:
  assumes "is_root a d i" and "v d j = None" and "R SinkErr v" and "crash \<Longrightarrow> R Crash v"
  shows "ends crash a (snapshot_journal d j i m) Q R v"
  unfolding snapshot_journal_def
  by (intro ends_then ends_guard ends_bind ends_open_root [OF assms(1)] ends_os_as ends_open) (use assms(2-) in auto)

definition moved :: "string \<Rightarrow> string \<Rightarrow> string \<Rightarrow> file_node \<Rightarrow> view \<Rightarrow> view" where
  "moved d e j n v = set_file e j (Some n) (set_file d j None v)"

lemma ends_absent_probe:
  assumes "v e j = None" and "Q () v" and "crash \<Longrightarrow> R Crash v"
  shows "ends crash a (catch_x (then_x (os_stat e j) (raise_x SinkErr))
         (\<lambda>e. if e = OsErr ENOENT then return_x () else raise_x (case e of OsErr _ \<Rightarrow> SinkErr | _ \<Rightarrow> e))) Q R v"
  by (intro ends_catch ends_then ends_stat) (use assms in \<open>auto intro!: ends_return ends_raise\<close>)

lemma ends_inspect:
  assumes roots: "root_of a d" "root_of a e" "one_device a" "d \<noteq> e"
    and v: "v d j = Some n" "v e j = None" "journal_node m n"
    and Q: "Q (fn_raw n, n) v" and R: "crash \<Longrightarrow> R Crash v"
  shows "ends crash a (inspect_source d e j m (Some (node_snapshot j n))) Q R v"
proof -
  have dev: "device_of s d = device_of s e" if "sound crash a s" for s
    using sound_device [OF that] roots by (auto simp: one_device_def)
  have t: "take (nat (m + 1)) (fn_raw n) = fn_raw n" by (rule take_all_of_node [OF v(3)])
  show ?thesis unfolding inspect_source_def
    apply (intro ends_then ends_guard ends_bind ends_gets_id ends_absent_probe ends_os_as ends_open ends_read ends_stat ends_return)
    apply (simp_all add: v Q R roots t dev)
    using v R Q by (auto simp: journal_node_def)
qed

lemma ends_verify:
  assumes v: "v e j = Some n" "v d j = None" "journal_node m n" and Q: "Q () v" and R: "crash \<Longrightarrow> R Crash v"
  shows "ends crash a (verify_moved d e j m (fn_raw n) n) Q R v"
proof -
  have t: "take (nat (m + 1)) (fn_raw n) = fn_raw n" by (rule take_all_of_node [OF v(3)])
  have probe: "ends crash a (catch_x (then_x (os_stat d j) (raise_x SinkErr))
      (\<lambda>e. if e = OsErr ENOENT then return_x () else raise_x e)) Q R' v" if "crash \<Longrightarrow> R' Crash v" for R'
    by (intro ends_catch ends_then ends_stat) (simp_all add: v Q that ends_return ends_raise)
  show ?thesis unfolding verify_moved_def
    by (intro ends_os_as ends_then ends_fsync ends_bind ends_stat ends_guard ends_open ends_read probe)
       (simp_all add: v Q R t [unfolded take_all_iff])
qed

text \<open>The move of a journal: either the crash comes before it, or the journal is in the other directory.\<close>

lemma ends_quarantine:
  assumes roots: "is_root a d i" "is_root a e k" "one_device a" "d \<noteq> e" and j: "journal_name_ok j" "m > 0"
    and v: "v d j = Some n" "v e j = None" "journal_node m n"
    and Q: "Q (node_snapshot j n) (moved d e j n v)" and R: "crash \<Longrightarrow> R Crash v" "crash \<Longrightarrow> R Crash (moved d e j n v)"
  shows "ends crash a (quarantine_journal d e j i k m (Some (node_snapshot j n))) Q R v"
proof -
  have w: "moved d e j n v e j = Some n" "moved d e j n v d j = None" using roots(4) by (auto simp: moved_def)
  have fin: "ends crash a (then_x (except_x (verify_moved d e j m (fn_raw n) n) (undo_move d e j))
      (return_x \<lparr>qj_journal = j, qj_raw = fn_raw n, qj_device = fn_device n, qj_inode = fn_inode n\<rparr>)) Q R (moved d e j n v)"
    by (intro ends_then ends_except ends_verify [where v = "moved d e j n v", OF w v(3)] ends_return)
       (use Q R in \<open>auto simp: node_snapshot_def\<close>)
  have mv: "ends crash a (then_x (os_as SinkErr (rename_noreplace d j e j))
      (then_x (except_x (verify_moved d e j m (fn_raw n) n) (undo_move d e j))
      (return_x \<lparr>qj_journal = j, qj_raw = fn_raw n, qj_device = fn_device n, qj_inode = fn_inode n\<rparr>))) Q R v"
    by (rule ends_then, rule ends_os_as, rule ends_rename [OF _ _ roots(3)])
       (use roots v R fin [unfolded moved_def] in auto)
  show ?thesis unfolding quarantine_journal_def
    by (intro ends_then [of _ _ "guard_x _ _"] ends_guard ends_bind ends_open_root [OF roots(1)] ends_open_root [OF roots(2)]
          ends_inspect [where v = v, OF _ _ roots(3,4) v])
       (use j roots R mv in auto)
qed

lemma ends_restore:
  assumes roots: "is_root a d i" "is_root a e k" "one_device a" "d \<noteq> e" and j: "journal_name_ok j" "m > 0"
    and v: "v e j = Some n" "v d j = None" "journal_node m n"
    and Q: "Q () (moved e d j n v)" and R: "crash \<Longrightarrow> R Crash v" "crash \<Longrightarrow> R Crash (moved e d j n v)"
  shows "ends crash a (restore_quarantined_journal d e (node_snapshot j n) i k m) Q R v"
  unfolding restore_quarantined_journal_def node_snapshot_simps
  by (intro ends_bind ends_quarantine [where v = v, OF roots(2,1,3) _ j v] ends_guard) (use roots(4) Q R in auto)

lemma ends_exists:
  assumes "\<And>b. b = (v d x \<noteq> None) \<Longrightarrow> Q b v" and "crash \<Longrightarrow> R Crash v"
  shows "ends crash a (file_exists d x) Q R v"
  unfolding file_exists_def
  by (intro ends_catch ends_then ends_stat) (use assms in \<open>auto intro!: ends_return ends_raise\<close>)

section \<open>The lease\<close>

definition free_lock :: "view \<Rightarrow> string \<Rightarrow> bool" where
  "free_lock v d \<longleftrightarrow> (\<forall>n. v d QUARANTINE_LOCK = Some n \<longrightarrow> safe_node n)"

text \<open>The view with the lock file, which may be new.\<close>

definition with_lock :: "string \<Rightarrow> view \<Rightarrow> view \<Rightarrow> bool" where
  "with_lock d v w \<longleftrightarrow> (\<exists>n. safe_node n \<and> (v d QUARANTINE_LOCK = None \<or> v d QUARANTINE_LOCK = Some n)
     \<and> w = set_file d QUARANTINE_LOCK (Some n) v)"

lemma with_lock_safe: "with_lock d v w \<Longrightarrow> \<exists>n. w d QUARANTINE_LOCK = Some n \<and> safe_node n"
  by (auto simp: with_lock_def)

lemma add_lock_view:
  assumes s: "sound crash a s" "entry s = v" and d: "root_of a d" and lock: "free_lock v d"
    and t: "t = (if entry s d QUARANTINE_LOCK = None then add_node d QUARANTINE_LOCK s else s)"
  shows "sound crash a t \<and> with_lock d v (entry t)"
proof (cases "v d QUARANTINE_LOCK")
  case None
  then have "t = add_node d QUARANTINE_LOCK s" using s(2) t by simp
  then show ?thesis using add_node_view [OF s(1) d, of QUARANTINE_LOCK] s(2) None by (auto simp: with_lock_def)
next
  case (Some n)
  then have "t = s" using s(2) t by simp
  moreover have "with_lock d v v" using Some lock by (auto simp: with_lock_def free_lock_def)
  ultimately show ?thesis using s by simp
qed

lemma ends_acquire:
  assumes d: "is_root a d i" and lock: "free_lock v d"
    and Q: "\<And>w. with_lock d v w \<Longrightarrow> Q \<lparr>le_root = d, le_identity = i, le_held = True\<rparr> w"
    and R: "\<And>e. R e v" "\<And>e w. with_lock d v w \<Longrightarrow> R e w"
  shows "ends crash a (acquire_quarantine_transaction_lease d i) Q R v"
proof -
  let ?R = "\<lambda>_ w. w = v \<or> with_lock d v w"
  have create: "ends crash a (os_call (\<lambda>_. modify_x (\<lambda>s. if entry s d QUARANTINE_LOCK = None then add_node d QUARANTINE_LOCK s else s)))
      (\<lambda>_. with_lock d v) ?R v"
    by (intro ends_os_call ends_modify add_lock_view) (use d lock in auto)
  have lockit: "ends crash a (os_call (\<lambda>_. bind_x (gets_x fs_locks) (\<lambda>held.
        then_x (guard_x (d \<notin> set held) (OsErr EAGAIN)) (modify_x (\<lambda>s. s\<lparr>fs_locks := d # held\<rparr>))))) (\<lambda>_. with_lock d v) ?R w"
    if "with_lock d v w" for w
    by (intro ends_os_call ends_bind ends_gets ends_then ends_guard ends_modify) (use that in auto)
  have "ends crash a (acquire_exclusive d) (\<lambda>_. with_lock d v) ?R v"
    unfolding acquire_exclusive_def open_lock_def
    by (rule ends_os_as, rule ends_then, rule ends_then, rule ends_mono [OF create], rule ends_bind, rule ends_gets_entry, frule with_lock_safe)
       (auto intro!: ends_guard lockit)
  then have excl: "ends crash a (sink_as TransactionErr (acquire_exclusive d)) (\<lambda>_. with_lock d v) ?R v"
    by (rule ends_sink_as [OF ends_mono]) auto
  show ?thesis unfolding acquire_quarantine_transaction_lease_def
    by (rule ends_bind, rule ends_open_root [OF d], rule ends_then, rule ends_mono [OF excl])
       (use Q R in \<open>auto intro!: ends_then ends_fsync ends_return\<close>)
qed

lemma acquire_free:
  assumes s: "sound False a s" and d: "is_root a d i" and lock: "free_lock (entry s) d" "d \<notin> set (fs_locks s)"
  shows "\<exists>t. acquire_quarantine_transaction_lease d i s = (Inr \<lparr>le_root = d, le_identity = i, le_held = True\<rparr>, t)
     \<and> sound False a t \<and> with_lock d (entry s) (entry t)"
proof -
  let ?t = "if entry s d QUARANTINE_LOCK = None then add_node d QUARANTINE_LOCK s else s"
  have t: "sound False a ?t" "with_lock d (entry s) (entry ?t)"
    using add_lock_view [OF s refl _ lock(1) refl] d by auto
  have o: "fs_outcomes s = []" "fs_outcomes ?t = []" using s t(1) by (auto simp: sound_def)
  have l: "fs_locks ?t = fs_locks s" by (simp add: add_node_def on_entries_def)
  obtain n where n: "entry ?t d QUARANTINE_LOCK = Some n" "safe_node n" using with_lock_safe [OF t(2)] by blast
  obtain r where r: "fs_dir s d = Some r" "dr_canonical r" "dr_private r" "dr_identity r = i"
    using s d by (auto simp: sound_def is_root_def dest!: rooted_dir)
  have excl: "acquire_exclusive d s = (Inr (), ?t\<lparr>fs_locks := d # fs_locks s\<rparr>)"
    using n o l lock(2) unfolding acquire_exclusive_def open_lock_def
    by (simp add: exec_defs os_as_def os_call_def del: split_paired_All)
  have root: "open_journal_root d (Some i) s = (Inr d, s)"
    using r o by (simp add: open_journal_root_def exec_defs os_as_def os_ok_def os_call_def)
  have "acquire_quarantine_transaction_lease d i s
      = (Inr \<lparr>le_root = d, le_identity = i, le_held = True\<rparr>, ?t\<lparr>fs_locks := d # fs_locks s\<rparr>)"
    using o(2) by (simp add: acquire_quarantine_transaction_lease_def exec_defs root excl sink_as_def os_fsync_def os_ok_def os_call_def)
  then show ?thesis using t by simp
qed

lemma ends_close [end_intros]: "Q () v \<Longrightarrow> ends crash a (close_lease l) Q R v"
  unfolding close_lease_def release_lock_def by (intro ends_when ends_modify) auto

lemma ends_require:
  assumes "is_root a d i" and "Q () v"
  shows "ends crash a (require_lease \<lparr>le_root = d, le_identity = i, le_held = True\<rparr> d i) Q R v"
  unfolding require_lease_def using assms sound_dir [of crash a _ d]
  by (intro ends_then ends_guard ends_bind ends_gets) auto

lemma ends_under_lease:
  assumes "is_root a d i" and "ends crash a m Q R v"
  shows "ends crash a (finally_x (then_x (require_lease \<lparr>le_root = d, le_identity = i, le_held = True\<rparr> d i) m) (when_x c (close_lease l))) Q R v"
  by (rule ends_finally, rule ends_then, rule ends_require [OF assms(1)], rule assms(2))
     (auto intro!: ends_when ends_close)

end
