(* ===== verification/Sink_Properties.thy ===== *)
theory Sink_Properties
  imports Event_Sink Event_Properties File_Views
begin

text \<open>
  Lemmas on the event sink: the text of an event is one line of printable characters, what reading returns
  without faults, and what a successful append changes.
\<close>

section \<open>Lines\<close>

definition printable :: "char \<Rightarrow> bool" where
  "printable c \<longleftrightarrow> 32 \<le> (of_char c :: nat) \<and> (of_char c :: nat) < 127"

lemma printable_not [simp]: "printable c \<Longrightarrow> c \<noteq> CHR 0x0A \<and> c \<noteq> CHR 0x0D"
  by (auto simp: printable_def)

lemma digit_printable: "n < 16 \<Longrightarrow> printable (digit_char n)"
  by (auto simp: printable_def of_char_of)

lemma hex4_printable: "n < 256 \<Longrightarrow> list_all printable (hex4 n)"
  by (auto simp: hex4_def less_mult_imp_div_less simp del: digit_char.simps intro!: digit_printable)

lemma escape_printable: "list_all printable (escape_char True c)"
proof -
  have "printable c" if "\<not> (of_char c :: nat) < 32" "\<not> (of_char c :: nat) > 126" using that by (simp add: printable_def)
  moreover have "list_all printable [CHR 0x5C, CHR 0x22, CHR ''n'', CHR ''r'', CHR ''t'', CHR ''f'', CHR ''b'', CHR ''u'']"
    by (simp add: printable_def)
  ultimately show ?thesis using hex4_printable [of "of_char c"] by (simp add: escape_char_def Let_def)
qed

lemma show_nat_printable: "list_all printable (show_nat n)"
proof (induction n rule: show_nat.induct)
  case (1 n)
  have d: "printable (digit_char (n mod 10))" by (rule digit_printable) simp
  show ?case
  proof (cases "n < 10")
    case True
    then show ?thesis using digit_printable [of n] by (subst show_nat.simps) simp
  next
    case False
    then show ?thesis using 1 d by (subst show_nat.simps) simp
  qed
qed

lemma join_printable: "list_all printable sep \<Longrightarrow> list_all (list_all printable) xs \<Longrightarrow> list_all printable (join sep xs)"
  by (induction sep xs rule: join.induct) auto

lemma printable_structure [simp]:
  "printable (CHR ''['')" "printable (CHR '']'')" "printable (CHR ''{'')" "printable (CHR ''}'')" "printable (CHR '','')"
  "printable (CHR '':'')" "printable (CHR 0x22)" "printable (CHR ''-'')"
  by (simp_all add: printable_def)

lemma dumps_printable: "list_all printable (dumps True v)"
proof (induction v)
  case (JInt i)
  show ?case by (simp add: show_int_def show_nat_printable)
next
  case (JStr s)
  show ?case using escape_printable by (auto simp: dumps_string_def list_all_iff)
next
  case (JArr xs)
  have "list_all printable (join '','' (map (dumps True) xs))"
    by (rule join_printable) (use JArr in \<open>auto simp: list_all_iff\<close>)
  then show ?case by simp
next
  case (JObj kvs)
  have "list_all printable (member_text True (k, v))" if "(k, v) \<in> set kvs" for k v
  proof -
    have "list_all printable (dumps True v)" using JObj [OF that] by simp
    then show ?thesis using escape_printable by (auto simp: member_text_def dumps_string_def list_all_iff)
  qed
  then have "list_all printable (join '','' (map (member_text True) (sort_key fst kvs)))"
    by (intro join_printable) (auto simp: list_all_iff)
  then show ?case unfolding dumps_object by simp
qed (auto simp: printable_def)

lemma utf8_printable: "list_all printable s \<Longrightarrow> utf8 s = s"
  by (induction s) (auto simp: utf8_def printable_def Let_def)

lemma utf8_dumps [simp]: "utf8 (dumps True v) = dumps True v"
  by (rule utf8_printable [OF dumps_printable])

lemma splitlines_line: "list_all printable l \<Longrightarrow> l \<noteq> [] \<Longrightarrow> splitlines (l @ [CHR 0x0A]) = [l]"
proof (induction l)
  case (Cons c l)
  then show ?case by (cases l) auto
qed simp

lemma splitlines_not_Nil: "s \<noteq> [] \<Longrightarrow> splitlines s \<noteq> []"
  by (cases s) (auto split: list.splits)

lemma splitlines_append_line:
  assumes "complete_lines s" and "list_all printable l" and "l \<noteq> []"
  shows "splitlines (s @ l @ [CHR 0x0A]) = splitlines s @ [l]"
  using assms(1)
proof (induction s rule: splitlines.induct)
  case 1
  then show ?case using splitlines_line [OF assms(2,3)] by simp
next
  case (2 c s)
  show ?case
  proof (cases s)
    case Nil
    then have "c = CHR 0x0A" using "2.prems" by (simp add: complete_lines_def)
    then show ?thesis using Nil splitlines_line [OF assms(2,3)] by simp
  next
    case (Cons d t)
    have s: "complete_lines s" using "2.prems" Cons by (simp add: complete_lines_def)
    then have t: "complete_lines t" using Cons by (auto simp: complete_lines_def split: if_splits)
    show ?thesis using 2 s t Cons splitlines_not_Nil [of s] by (auto split: list.splits)
  qed
qed

section \<open>Reading without faults\<close>

definition line_event :: "(string \<Rightarrow> string) \<Rightarrow> string \<Rightarrow> nat \<Rightarrow> string \<Rightarrow> journal_event" where
  "line_event H name k raw = \<lparr>je_journal = name, je_line_number = k, je_raw = raw,
     je_event = (case parse_host_event H raw of Inr v \<Rightarrow> v | Inl _ \<Rightarrow> JNull)\<rparr>"

fun line_events :: "(string \<Rightarrow> string) \<Rightarrow> string \<Rightarrow> nat \<Rightarrow> string list \<Rightarrow> journal_event list" where
  "line_events H name k [] = []"
| "line_events H name k (raw # lines) = line_event H name k raw # line_events H name (Suc k) lines"

definition good_line :: "(string \<Rightarrow> string) \<Rightarrow> string \<Rightarrow> bool" where
  "good_line H raw \<longleftrightarrow> raw \<noteq> [] \<and> (\<exists>v. parse_host_event H raw = Inr v)"

lemma event_ids_append [simp]: "event_ids (rs @ ss) = event_ids rs @ event_ids ss"
  by (simp add: event_ids_def)

lemma parse_lines_iff:
  "distinct (event_ids rs) \<Longrightarrow> parse_lines H name k lines rs = Inr ss \<longleftrightarrow>
     list_all (good_line H) lines \<and> ss = rs @ line_events H name k lines \<and> distinct (event_ids ss)"
proof (induction lines arbitrary: k rs)
  case (Cons raw lines)
  show ?case
  proof (cases "good_line H raw")
    case True
    then obtain v where v: "raw \<noteq> []" "parse_host_event H raw = Inr v" by (auto simp: good_line_def)
    let ?r = "line_event H name k raw"
    have r: "?r = \<lparr>je_journal = name, je_line_number = k, je_raw = raw, je_event = v\<rparr>" by (simp add: line_event_def v)
    show ?thesis
    proof (cases "jfield v ''event_id'' \<in> set (event_ids rs)")
      case False
      then have "distinct (event_ids (rs @ [?r]))" using Cons.prems by (simp add: event_ids_def r)
      from Cons.IH [OF this, of "Suc k"] show ?thesis using False True v r by (simp add: event_res_def guard_res_def)
    next
      case dup: True
      have "\<not> distinct (event_ids (rs @ line_events H name k (raw # lines)))" using dup by (auto simp: event_ids_def r)
      then show ?thesis using dup v r by (auto simp: event_res_def guard_res_def)
    qed
  next
    case False
    then show ?thesis by (auto simp: good_line_def event_res_def split: sum.splits)
  qed
qed auto

lemma line_events_append: "line_events H name k (ls @ ms) = line_events H name k ls @ line_events H name (k + length ls) ms"
  by (induction ls arbitrary: k) auto

text \<open>The events of one journal; a journal that can be read.\<close>

definition journal_events :: "file_env \<Rightarrow> files \<Rightarrow> string \<Rightarrow> string \<Rightarrow> journal_event list" where
  "journal_events E s d name = (case entry s d name of None \<Rightarrow> []
     | Some n \<Rightarrow> line_events (fe_hash E) name 1 (splitlines (fn_raw n)))"

definition readable :: "file_env \<Rightarrow> files \<Rightarrow> string \<Rightarrow> string \<Rightarrow> bool" where
  "readable E s d name \<longleftrightarrow> (\<exists>n. entry s d name = Some n \<and> fn_regular n \<and> fn_owned n \<and> complete_lines (fn_raw n)
     \<and> list_all (good_line (fe_hash E)) (splitlines (fn_raw n)))"

lemma read_journals_iff:
  assumes "fs_outcomes s = []"
  shows "distinct (event_ids rs) \<Longrightarrow> fst (read_journals E d None names rs used s) = Inr ss \<longleftrightarrow>
     list_all (readable E s d) names \<and> ss = rs @ concat (map (journal_events E s d) names) \<and> distinct (event_ids ss)"
proof (induction names arbitrary: rs used)
  case (Cons name names)
  show ?case
  proof (cases "entry s d name")
    case None
    then show ?thesis using assms by (simp add: read_journal_def os_open_def os_stat_def os_as_def os_call_def exec_defs readable_def)
  next
    case (Some n)
    have journal: "read_journal d None used name s = (if fn_regular n \<and> fn_owned n \<and> complete_lines (fn_raw n)
        then (Inr (fn_raw n), s) else (Inl SinkErr, s))"
      using assms Some by (simp add: read_journal_def os_open_def os_stat_def os_as_def os_read_def os_call_def exec_defs)
    let ?ls = "splitlines (fn_raw n)"
    show ?thesis
    proof (cases "fn_regular n \<and> fn_owned n \<and> complete_lines (fn_raw n)")
      case True
      show ?thesis
      proof (cases "parse_lines (fe_hash E) name 1 ?ls rs")
        case (Inl e)
        then have "\<not> (list_all (good_line (fe_hash E)) ?ls \<and> distinct (event_ids (rs @ line_events (fe_hash E) name 1 ?ls)))"
          using parse_lines_iff [OF Cons.prems, of "fe_hash E" name 1 ?ls] by (metis sum.distinct(1))
        then show ?thesis using journal True Inl Some
          by (auto simp: bind_x_def lift_file_def raise_x_def readable_def journal_events_def)
      next
        case (Inr ts)
        then have ts: "list_all (good_line (fe_hash E)) ?ls" "ts = rs @ line_events (fe_hash E) name 1 ?ls" "distinct (event_ids ts)"
          using parse_lines_iff [OF Cons.prems, THEN iffD1] by blast+
        have "read_journals E d None (name # names) rs used s = read_journals E d None names ts (used + int (length (fn_raw n))) s"
          using journal True Inr by (simp add: bind_x_def lift_file_def return_x_def)
        moreover have "readable E s d name" "ts = rs @ journal_events E s d name"
          using True ts(1,2) Some by (simp_all add: readable_def journal_events_def)
        moreover note Cons.IH [OF ts(3), of "used + int (length (fn_raw n))"]
        ultimately show ?thesis by simp
      qed
    next
      case False
      then show ?thesis using journal Some by (auto simp: bind_x_def readable_def)
    qed
  qed
qed (auto simp: return_x_def)

section \<open>What an append changes\<close>

text \<open>Only the named files of one directory differ; the directories themselves are the same.\<close>

definition attributes :: "directory \<Rightarrow> bool \<times> bool \<times> int \<times> int" where
  "attributes r = (dr_canonical r, dr_private r, dr_identity r)"

definition only :: "string set \<Rightarrow> string \<Rightarrow> files \<Rightarrow> files \<Rightarrow> bool" where
  "only X d s t \<longleftrightarrow> (\<forall>e x. e \<noteq> d \<or> x \<notin> X \<longrightarrow> entry t e x = entry s e x)
     \<and> (\<forall>e. map_option attributes (fs_dir t e) = map_option attributes (fs_dir s e))
     \<and> (\<forall>e. distinct_names s e \<longrightarrow> distinct_names t e)"

lemma only_refl [simp]: "only X d s s"
  by (simp add: only_def)

lemma only_outcomes [simp]: "only X d s (t\<lparr>fs_outcomes := os\<rparr>) = only X d s t" "only X d (s\<lparr>fs_outcomes := os\<rparr>) t = only X d s t"
  by (simp_all add: only_def distinct_names_def dir_entries_def)

lemma only_trans: "only X d s t \<Longrightarrow> only Y d t u \<Longrightarrow> X \<union> Y \<subseteq> Z \<Longrightarrow> only Z d s u"
  unfolding only_def by (metis UnCI subsetD)

lemma only_dir: "only X d s t \<Longrightarrow> fs_dir t e \<noteq> None \<longleftrightarrow> fs_dir s e \<noteq> None"
  unfolding only_def by (metis option.map_disc_iff)

lemma only_add:
  assumes "entry s d x = None"
  shows "only {x} d s (add_node d x s)" and "fs_dir s d \<noteq> None \<Longrightarrow> entry (add_node d x s) d x = Some (new_node d s)"
proof -
  have fresh: "dict_set x n (dir_entries s d) = dir_entries s d @ [(x, n)]" for n
    using assms by (simp add: dict_set_fresh entry_entries)
  have "entry (add_node d x s) e y = entry s e y" if "e \<noteq> d \<or> y \<noteq> x" for e y
    using that by (auto simp: add_node_def entry_def on_entries_def split: option.splits)
  moreover have "map_option attributes (fs_dir (add_node d x s) e) = map_option attributes (fs_dir s e)" for e
    by (cases "fs_dir s e") (auto simp: add_node_def on_entries_def attributes_def)
  moreover have "distinct_names (add_node d x s) e" if "distinct_names s e" for e
    using that assms distinct_dict_set [of "dir_entries s d" x]
    by (cases "fs_dir s e") (auto simp: add_node_def on_entries_def distinct_names_def dir_entries_def)
  ultimately show "only {x} d s (add_node d x s)" by (simp add: only_def)
  show "fs_dir s d \<noteq> None \<Longrightarrow> entry (add_node d x s) d x = Some (new_node d s)"
    by (auto simp: add_node_def entry_def on_entries_def)
qed

lemma only_add_later [simp]: "entry s d x = None \<Longrightarrow> only {x} d s (add_node d x (s\<lparr>fs_outcomes := os\<rparr>))"
  using only_add(1) [of "s\<lparr>fs_outcomes := os\<rparr>"] by simp

lemma only_change: "only {x} d s (change_node d x f s)" "entry (change_node d x f s) d x = map_option f (entry s d x)"
proof -
  have "entry (change_node d x f s) e y = (if e = d \<and> y = x then map_option f (entry s d x) else entry s e y)" for e y
    by (cases "fs_dir s e") (auto simp: change_node_def entry_def on_entries_def map_of_change split: option.splits)
  moreover have "map_option attributes (fs_dir (change_node d x f s) e) = map_option attributes (fs_dir s e)" for e
    by (cases "fs_dir s e") (auto simp: change_node_def on_entries_def attributes_def)
  moreover have "distinct_names (change_node d x f s) e" if "distinct_names s e" for e
  proof -
    have same: "fst \<circ> (\<lambda>(k, n). (k, if k = x then f n else n)) = fst" by auto
    show ?thesis using that
      by (cases "fs_dir s e") (auto simp: change_node_def on_entries_def distinct_names_def dir_entries_def same)
  qed
  ultimately show "only {x} d s (change_node d x f s)" "entry (change_node d x f s) d x = map_option f (entry s d x)"
    by (simp_all add: only_def)
qed

lemma acquire_shared_only: "wp (acquire_shared d) (\<lambda>_ t. only {QUARANTINE_LOCK} d s t) (\<lambda>_ _. True) s"
  unfolding acquire_shared_def open_lock_def os_as_def
  by (simp, rule wp_os_call) (auto intro!: wp_os_call)

lemma check_fence_only: "wp (check_fence E d name) (\<lambda>_ t. entry t = entry s \<and> only {} d s t) (\<lambda>_ _. True) s"
  unfolding check_fence_def os_stat_def by (auto intro!: wp_os_call split: option.splits)

text \<open>The content of a journal, empty when there is none.\<close>

definition content :: "files \<Rightarrow> string \<Rightarrow> string \<Rightarrow> string" where
  "content s d x = (case entry s d x of None \<Rightarrow> [] | Some n \<Rightarrow> fn_raw n)"

lemma content_outcomes [simp]: "content (s\<lparr>fs_outcomes := os\<rparr>) = content s"
  by (intro ext) (simp add: content_def)

lemma open_append_only:
  assumes "fs_dir s d \<noteq> None"
  shows "wp (open_append d name) (\<lambda>_ t. only {name} d s t \<and> content t d name = content s d name) (\<lambda>_ _. True) s"
proof -
  have "content (add_node d name (s\<lparr>fs_outcomes := os\<rparr>)) d name = content s d name" if "entry s d name = None" for os
    using that only_add(2) [of "s\<lparr>fs_outcomes := os\<rparr>" d name] assms by (simp add: content_def new_node_def)
  then show ?thesis
    unfolding open_append_def os_create_def os_open_def os_stat_def os_as_def
    by (auto intro!: wp_os_call split: option.splits)
qed

lemma private_journal_only:
  "wp (private_journal d name) (\<lambda>_ t. only {name} d s t \<and> content t d name = content s d name
     \<and> (\<exists>n. entry t d name = Some n \<and> fn_regular n \<and> fn_owned n)) (\<lambda>_ _. True) s"
proof (cases "entry s d name")
  case (Some n)
  note change = only_change [where x = name and d = d and f = "\<lambda>f. f\<lparr>fn_mode := 384\<rparr>" and s = "s\<lparr>fs_outcomes := os\<rparr>" for os]
  show ?thesis unfolding private_journal_def using Some change
    by (auto intro!: wp_os_call simp: content_def)
qed (simp add: private_journal_def)

lemma write_all_only:
  "entry s d x = Some n \<Longrightarrow> wp (write_all err d x view) (\<lambda>_ t. only {x} d s t \<and> entry t d x = Some (n\<lparr>fn_raw := fn_raw n @ view\<rparr>)) (\<lambda>_ _. True) s"
proof (induction err d x view arbitrary: s n rule: write_all.induct)
  case (1 err d x view)
  show ?case
  proof (cases "view = []")
    case False
    have step: "wp (write_all err d x (drop w view))
        (\<lambda>_ t. only {x} d s t \<and> entry t d x = Some (n\<lparr>fn_raw := fn_raw n @ view\<rparr>)) (\<lambda>_ _. True)
        (change_node d x (\<lambda>f. f\<lparr>fn_raw := fn_raw f @ take w view\<rparr>) (s\<lparr>fs_outcomes := os\<rparr>))" (is "wp _ _ _ ?t") if w: "0 < w" for w os
    proof -
      let ?n = "n\<lparr>fn_raw := fn_raw n @ take w view\<rparr>"
      have t: "only {x} d s ?t" "entry ?t d x = Some ?n"
        using only_change [where x = x and d = d and s = "s\<lparr>fs_outcomes := os\<rparr>" and f = "\<lambda>f. f\<lparr>fn_raw := fn_raw f @ take w view\<rparr>"] "1.prems" by simp_all
      have "wp (write_all err d x (drop w view)) (\<lambda>_ u. only {x} d ?t u \<and> entry u d x = Some (?n\<lparr>fn_raw := fn_raw ?n @ drop w view\<rparr>)) (\<lambda>_ _. True) ?t"
        by (rule "1.IH") (use False w t in auto)
      then show ?thesis using only_trans [OF t(1)] by (auto elim!: wp_mono)
    qed
    show ?thesis using False
      by (subst write_all.simps) (auto simp: os_write_def Let_def intro!: wp_os_call step)
  qed (use 1 in \<open>simp add: write_all.simps\<close>)
qed

lemma content_only: "only X d s t \<Longrightarrow> x \<notin> X \<Longrightarrow> content t d x = content s d x"
  by (simp add: only_def content_def)

definition appended :: "string \<Rightarrow> string \<Rightarrow> string \<Rightarrow> files \<Rightarrow> files \<Rightarrow> bool" where
  "appended d name raw s t \<longleftrightarrow> only {QUARANTINE_LOCK, name} d s t
     \<and> (\<exists>n. entry t d name = Some n \<and> fn_regular n \<and> fn_owned n \<and> fn_raw n = content s d name @ raw)"

lemma appended_outcomes [simp]: "appended d name raw s (t\<lparr>fs_outcomes := os\<rparr>) = appended d name raw s t"
  "appended d name raw (s\<lparr>fs_outcomes := os\<rparr>) = appended d name raw s"
  by (simp_all add: appended_def fun_eq_iff)

lemma wp_os_as: "wp m Q (\<lambda>_ _. True) s \<Longrightarrow> wp (os_as err m) Q (\<lambda>_ _. True) s"
  unfolding os_as_def by (auto elim!: wp_mono)

lemma write_journal:
  assumes "only {QUARANTINE_LOCK, name} d s t" and "content t d name = content s d name"
  shows "wp (then_x (private_journal d name) (write_all SinkErr d name raw)) (\<lambda>_. appended d name raw s) (\<lambda>_ _. True) t"
proof (simp, rule wp_mono [OF private_journal_only], elim conjE exE)
  fix u n assume u: "only {name} d t u" "content u d name = content t d name" "entry u d name = Some n" "fn_regular n" "fn_owned n"
  have su: "only {QUARANTINE_LOCK, name} d s u" by (rule only_trans [OF assms(1) u(1)]) simp
  show "wp (write_all SinkErr d name raw) (\<lambda>_. appended d name raw s) (\<lambda>_ _. True) u"
  proof (rule wp_mono [OF write_all_only [OF u(3)]], elim conjE)
    fix w assume w: "only {name} d u w" "entry w d name = Some (n\<lparr>fn_raw := fn_raw n @ raw\<rparr>)"
    have "only {QUARANTINE_LOCK, name} d s w" by (rule only_trans [OF su w(1)]) simp
    moreover have "fn_raw n = content s d name" using u(2,3) assms(2) by (simp add: content_def)
    ultimately show "appended d name raw s w" using w(2) u(4,5) by (simp add: appended_def)
  qed simp
qed simp

lemma append_line_appends:
  assumes "fs_dir s d \<noteq> None" and "name \<noteq> QUARANTINE_LOCK"
  shows "wp (append_line E fsync d name raw) (\<lambda>_. appended d name raw s) (\<lambda>_ _. True) s"
proof -
  have sync: "wp (os_fsync d) (\<lambda>_. appended d name raw s) (\<lambda>_ _. True) u" if "appended d name raw s u" for u
    unfolding os_fsync_def os_ok_def using that by (auto intro!: wp_os_call)
  have written: "wp (os_as SinkErr (then_x (private_journal d name) (then_x (write_all SinkErr d name raw) (when_x b (os_fsync d)))))
      (\<lambda>_. appended d name raw s) (\<lambda>_ _. True) t" if "only {QUARANTINE_LOCK, name} d s t" "content t d name = content s d name" for t b
    using write_journal [OF that, of raw] sync by (cases b) (auto intro!: wp_os_as elim!: wp_mono)
  have opened: "wp (bind_x (open_append d name) (\<lambda>created.
      then_x (os_as SinkErr (then_x (private_journal d name) (then_x (write_all SinkErr d name raw) (when_x b (os_fsync d)))))
      (when_x (b \<and> created) (os_as SinkErr (os_fsync d))))) (\<lambda>_. appended d name raw s) (\<lambda>_ _. True) t"
    if t: "only {QUARANTINE_LOCK} d s t" for t b
  proof -
    have dir: "fs_dir t d \<noteq> None" using only_dir [OF t] assms(1) by blast
    show ?thesis
    proof (simp only: wp_bind, rule wp_mono [OF open_append_only [OF dir]], elim conjE)
    fix created u assume u: "only {name} d t u" "content u d name = content t d name"
    have "only {QUARANTINE_LOCK, name} d s u" by (rule only_trans [OF t u(1)]) simp
    moreover have "content u d name = content s d name" using u(2) content_only [OF t, of name] assms(2) by simp
    ultimately show "wp (then_x (os_as SinkErr (then_x (private_journal d name) (then_x (write_all SinkErr d name raw) (when_x b (os_fsync d)))))
      (when_x (b \<and> created) (os_as SinkErr (os_fsync d)))) (\<lambda>_. appended d name raw s) (\<lambda>_ _. True) u"
      unfolding wp_then [of "os_as SinkErr (then_x (private_journal d name) m)" for m]
      by (intro wp_mono [OF written]) (use sync in \<open>auto intro!: wp_os_as\<close>)
    qed simp
  qed
  have fence: "wp (then_x (check_fence E d name) (bind_x (open_append d name) (\<lambda>created.
      then_x (os_as SinkErr (then_x (private_journal d name) (then_x (write_all SinkErr d name raw) (when_x b (os_fsync d)))))
      (when_x (b \<and> created) (os_as SinkErr (os_fsync d)))))) (\<lambda>_. appended d name raw s) (\<lambda>_ _. True) t"
    if t: "only {QUARANTINE_LOCK} d s t" for t b
    unfolding wp_then [of "check_fence E d name"] by (rule wp_mono [OF check_fence_only]) (elim conjE, rule opened, rule only_trans [OF t], assumption, simp_all)
  show ?thesis unfolding append_line_def wp_then [of "acquire_shared d"]
    by (rule wp_mono [OF acquire_shared_only]) (auto simp only: wp_then [of "guard_x c e" for c e] wp_guard split: if_splits intro!: fence)
qed

lemma open_root_wp:
  "wp (open_journal_root root i) (\<lambda>d t. d = root \<and> (\<exists>os. t = s\<lparr>fs_outcomes := os\<rparr>) \<and> fs_dir s root \<noteq> None) (\<lambda>_ _. True) s"
proof (cases "fs_dir s root")
  case (Some r)
  have o: "s = s\<lparr>fs_outcomes := fs_outcomes s\<rparr>" by simp
  show ?thesis unfolding open_journal_root_def os_ok_def os_as_def using Some o by (auto intro!: wp_os_call) (blast+)?
qed (simp add: open_journal_root_def)

lemma journal_name_end: "ends_with ''.jsonl'' (journal_name H event)"
  by (simp add: journal_name_def Let_def)

lemma append_event_appends:
  assumes "env JOURNAL_ENV = Some d"
  shows "wp (append_event E env event) (\<lambda>_ t. appended d (journal_name (fe_hash E) event) (dumps True event @ [CHR 0x0A]) s t
     \<and> (\<exists>v. parse_host_event (fe_hash E) (dumps True event) = Inr v)) (\<lambda>_ _. True) s"
proof (cases "parse_host_event (fe_hash E) (dumps True event)")
  case (Inr v)
  have ne: "journal_name (fe_hash E) event \<noteq> QUARANTINE_LOCK"
    using journal_name_end [of "fe_hash E" event] by (auto simp: QUARANTINE_LOCK_def ends_with_def)
  have "wp (append_line E fsync d (journal_name (fe_hash E) event) raw) (\<lambda>_. appended d (journal_name (fe_hash E) event) raw s) (\<lambda>_ _. True)
      (s\<lparr>fs_outcomes := os\<rparr>)" if "fs_dir s d \<noteq> None" for fsync raw os
    using append_line_appends [of "s\<lparr>fs_outcomes := os\<rparr>" d, OF _ ne, of E fsync raw] that by simp
  then have "wp (bind_x (open_journal_root d i) (\<lambda>d. append_line E fsync d (journal_name (fe_hash E) event) raw))
      (\<lambda>_. appended d (journal_name (fe_hash E) event) raw s) (\<lambda>_ _. True) s" for fsync raw i
    by (simp only: wp_bind, intro wp_mono [OF open_root_wp]) auto
  then show ?thesis using assms Inr
    by (auto simp: append_event_def canonical_event_def event_res_def lift_file_def configured_journal_root_def Let_def split: sum.splits)
qed (simp add: append_event_def canonical_event_def event_res_def lift_file_def)

section \<open>The journals of a directory\<close>

definition journal_names :: "files \<Rightarrow> string \<Rightarrow> string list" where
  "journal_names s d = filter (ends_with ''.jsonl'') (sort (map fst (dir_entries s d)))"

definition journal_set :: "files \<Rightarrow> string \<Rightarrow> string set" where
  "journal_set s d = {x. entry s d x \<noteq> None \<and> ends_with ''.jsonl'' x}"

lemma journal_names_set: "set (journal_names s d) = journal_set s d"
  by (auto simp: journal_names_def journal_set_def entry_entries map_of_eq_None_iff)

lemma journal_names_sorted: "distinct_names s d \<Longrightarrow> journal_names s d = sorted_list_of_set (journal_set s d)"
  by (rule sorted_distinct_set_unique)
     (simp_all add: journal_names_set [symmetric], simp_all add: journal_names_def distinct_names_def sorted_filter [where f = "\<lambda>x. x", simplified])

lemma insort_splits: "sorted xs \<Longrightarrow> \<exists>as bs. xs = as @ bs \<and> insort x xs = as @ x # bs"
proof (induction xs)
  case (Cons y ys)
  show ?case
  proof (cases "x \<le> y")
    case True
    then have "y # ys = [] @ y # ys \<and> insort x (y # ys) = [] @ x # y # ys" by simp
    then show ?thesis by blast
  next
    case False
    obtain as bs where ab: "ys = as @ bs" "insort x ys = as @ x # bs" using Cons by auto
    then have "y # ys = (y # as) @ bs \<and> insort x (y # ys) = (y # as) @ x # bs" using False by (simp add: ab(2) [unfolded ab(1)])
    then show ?thesis by blast
  qed
qed simp

text \<open>After an append the journals are the same and that of the event, in the same order.\<close>

lemma appended_names:
  assumes "appended d name raw s t" and "distinct_names s d" and "ends_with ''.jsonl'' name"
  obtains A B where "journal_names t d = A @ name # B" "name \<notin> set (A @ B)"
    "journal_names s d = (if entry s d name = None then A @ B else A @ name # B)"
proof -
  have o: "only {QUARANTINE_LOCK, name} d s t" and t: "entry t d name \<noteq> None" using assms(1) by (auto simp: appended_def)
  have lock: "\<not> ends_with ''.jsonl'' QUARANTINE_LOCK" by (simp add: QUARANTINE_LOCK_def ends_with_def)
  have "entry t d x = entry s d x" if "x \<noteq> name" "ends_with ''.jsonl'' x" for x
  proof -
    have "x \<noteq> QUARANTINE_LOCK" using that(2) lock by blast
    then show ?thesis using o that(1) by (simp add: only_def)
  qed
  then have J: "journal_set t d = insert name (journal_set s d)" using t assms(3) by (auto simp: journal_set_def) metis+
  have "distinct_names t d" using o assms(2) by (simp add: only_def)
  then have N: "journal_names t d = sorted_list_of_set (insert name (journal_set s d))" "distinct (journal_names t d)"
    using journal_names_sorted J by auto
  have n: "journal_names s d = sorted_list_of_set (journal_set s d)" by (rule journal_names_sorted [OF assms(2)])
  have fin: "finite (journal_set s d)" by (simp add: journal_names_set [symmetric])
  show thesis
  proof (cases "entry s d name = None")
    case True
    then have "journal_names t d = insort name (journal_names s d)" using N(1) n fin by (simp add: journal_set_def)
    then obtain A B where "journal_names s d = A @ B" "journal_names t d = A @ name # B"
      using insort_splits [of "journal_names s d" name] n by auto
    then show thesis using that True N(2) by auto
  next
    case False
    then have same: "journal_names t d = journal_names s d" using N n assms(3) by (simp add: journal_set_def insert_absorb)
    have "name \<in> set (journal_names t d)" using t assms(3) by (simp add: journal_names_set journal_set_def)
    then obtain A B where "journal_names t d = A @ name # B" by (auto simp: in_set_conv_decomp)
    then show thesis using that False N(2) same by auto
  qed
qed

section \<open>Reading all journals\<close>

definition may_open :: "(string \<Rightarrow> string option) \<Rightarrow> string \<Rightarrow> (int \<times> int) option \<Rightarrow> bool \<times> bool \<times> int \<times> int \<Rightarrow> bool" where
  "may_open env root expected = (\<lambda>(canonical, private, identity). canonical \<and> private
     \<and> (case if expected = None \<and> env JOURNAL_ENV = Some root then expected_directory_identity env else Inr expected of
          Inl _ \<Rightarrow> False | Inr i \<Rightarrow> i = None \<or> i = Some identity))"

lemma read_events_iff:
  assumes "fs_outcomes s = []"
  shows "fst (read_events E env d expected None s) = Inr rs \<longleftrightarrow>
     (\<exists>a. map_option attributes (fs_dir s d) = Some a \<and> may_open env d expected a)
     \<and> list_all (readable E s d) (journal_names s d)
     \<and> rs = concat (map (journal_events E s d) (journal_names s d)) \<and> distinct (event_ids rs)"
proof -
  let ?i = "if expected = None \<and> env JOURNAL_ENV = Some d then expected_directory_identity env else Inr expected"
  have id: "(if expected = None \<and> env JOURNAL_ENV = Some d then lift_file (expected_directory_identity env) else return_x expected) = lift_file ?i"
    by (simp add: lift_file_def)
  have journals: "fst (read_journals E d None (journal_names s d) [] 0 s) = Inr rs \<longleftrightarrow>
     list_all (readable E s d) (journal_names s d)
     \<and> rs = concat (map (journal_events E s d) (journal_names s d)) \<and> distinct (event_ids rs)"
    using read_journals_iff [OF assms, of "[]"] by (simp add: event_ids_def)
  show ?thesis
  proof (cases "\<exists>r. fs_dir s d = Some r \<and> may_open env d expected (attributes r)")
    case True
    then obtain r where r: "fs_dir s d = Some r" "may_open env d expected (attributes r)" by blast
    then obtain i where i: "?i = Inr i" by (cases ?i) (simp_all add: may_open_def split: prod.splits)
    have "fst (read_events E env d expected None s) = fst (read_journals E d None (journal_names s d) [] 0 s)"
      using r assms unfolding read_events_def id i
      by (simp add: may_open_def attributes_def i open_journal_root_def os_ok_def os_as_def os_call_def os_listdir_def lift_file_def exec_defs
        journal_names_def dir_entries_def)
    then show ?thesis using journals r by simp
  next
    case False
    have "\<exists>e. fst (read_events E env d expected None s) = Inl e"
      using False assms unfolding read_events_def id
      by (cases "fs_dir s d"; cases ?i) (auto simp: may_open_def attributes_def open_journal_root_def os_ok_def os_as_def os_call_def lift_file_def exec_defs)
    then show ?thesis using False by auto
  qed
qed

lemma accepted_event_id:
  assumes "run_checks (event_checks H v) = Inr ()"
  shows "jfield v ''event_id'' = material H (event_material v)"
  using assms [unfolded run_checks_iff event_checks_def Let_def, simplified] by blast

text \<open>The journal of the event gains the event; the other journals stay.\<close>

lemma appended_events:
  assumes "appended d name (dumps True event @ [CHR 0x0A]) s t" and "parse_host_event (fe_hash E) (dumps True event) = Inr v"
    and "entry s d name = None \<or> readable E s d name" and "is_object event"
  shows "readable E t d name"
    and "journal_events E t d name = journal_events E s d name
      @ [line_event (fe_hash E) name (Suc (length (splitlines (content s d name)))) (dumps True event)]"
proof -
  let ?raw = "dumps True event" and ?c = "content s d name"
  obtain n where n: "entry t d name = Some n" "fn_regular n" "fn_owned n" "fn_raw n = ?c @ ?raw @ [CHR 0x0A]"
    using assms(1) by (auto simp: appended_def)
  have c: "complete_lines ?c" "list_all (good_line (fe_hash E)) (splitlines ?c)"
    using assms(3) by (auto simp: content_def readable_def complete_lines_def)
  have ne: "?raw \<noteq> []" using assms(4) by (cases event) (simp_all add: is_object_def)
  have l: "splitlines (fn_raw n) = splitlines ?c @ [?raw]"
    unfolding n(4) by (rule splitlines_append_line [OF c(1) dumps_printable ne])
  show "readable E t d name" using n l c(2) ne assms(2) by (simp add: readable_def complete_lines_def good_line_def)
  have "journal_events E s d name = line_events (fe_hash E) name 1 (splitlines ?c)"
    by (simp add: journal_events_def content_def split: option.splits)
  then show "journal_events E t d name = journal_events E s d name @ [line_event (fe_hash E) name (Suc (length (splitlines ?c))) ?raw]"
    using n(1) l by (simp add: journal_events_def line_events_append)
qed

lemma unchanged_journal:
  assumes "appended d name raw s t" and "x \<noteq> name" and "ends_with ''.jsonl'' x"
  shows "readable E t d x = readable E s d x" and "journal_events E t d x = journal_events E s d x"
proof -
  have "x \<noteq> QUARANTINE_LOCK" using assms(3) by (auto simp: QUARANTINE_LOCK_def ends_with_def)
  then have "entry t d x = entry s d x" using assms(1,2) by (simp add: appended_def only_def)
  then show "readable E t d x = readable E s d x" "journal_events E t d x = journal_events E s d x"
    by (simp_all add: readable_def journal_events_def)
qed

lemma reading_outcomes [simp]:
  "readable E (s\<lparr>fs_outcomes := os\<rparr>) d = readable E s d" "journal_events E (s\<lparr>fs_outcomes := os\<rparr>) d = journal_events E s d"
  "journal_names (s\<lparr>fs_outcomes := os\<rparr>) d = journal_names s d"
  by (simp_all add: readable_def journal_events_def journal_names_def dir_entries_def fun_eq_iff)

end
