(* ===== verification/Sink_Theorems.thy ===== *)
theory Sink_Theorems
  imports Sink_Properties
begin

text \<open>
  Properties of the event sink and of host events: what was appended is read back, and what an accepted
  event identifies.
\<close>

section \<open>An example\<close>

definition sink_env :: file_env where
  "sink_env = \<lparr>fe_hash = (\<lambda>_. replicate 64 CHR ''0''), fe_pid = 7, fe_token = (\<lambda>_. replicate 32 CHR ''a'')\<rparr>"

definition sink_files :: files where
  "sink_files = \<lparr>fs_dir = (\<lambda>d. if d = ''/s'' then Some \<lparr>dr_canonical = True, dr_private = True, dr_identity = (1, 10), dr_entries = []\<rparr> else None),
     fs_locks = [], fs_next = 30, fs_count = 0, fs_outcomes = [], fs_settled = False\<rparr>"

definition sink_vars :: "string \<Rightarrow> string option" where
  "sink_vars x = (if x = JOURNAL_ENV then Some ''/s'' else None)"

definition loader_event :: json where
  "loader_event = JObj
     [(''schema'', JStr HOST_SCHEMA), (''event_id'', JStr (replicate 64 CHR ''0'')), (''event'', JStr ''invoked''),
      (''observation_kind'', JStr ''loader_lifecycle''),
      (''entry_point'', JObj [(''group'', JStr ''g''), (''name'', JStr ''n''), (''value'', JStr ''v'')]),
      (''process'', JObj [(''assignment_source'', JStr ''host''), (''host'', JStr ''h''), (''role'', JStr ''r''), (''ordinal'', JInt 0), (''pid'', JInt 5),
         (''start_identity'', JStr ''pid:5:start_ticks:9''), (''process_epoch'', JInt 1)]),
      (''observed_at_ns'', JInt 3), (''delivery_attempt'', JInt 1), (''plan_id'', JStr (''plan:sha256:'' @ replicate 64 CHR ''0'')), (''launch_id'', JStr ''l''),
      (''binding_status'', JStr ''bound''), (''occurrence_id'', JNull), (''controller_instance_id'', JNull),
      (''invocation_seq'', JNull), (''dispatch_id'', JNull), (''plugin_id'', JNull), (''artifact_digest'', JNull),
      (''identity_status'', JStr ''kernel''), (''detail'', JNull)]"

lemma loader_event_ok: "keys_ok loader_event" "is_object loader_event"
  by (simp_all add: loader_event_def is_object_def)

lemma loader_event_fields:
  "jkeys loader_event = set HOST_FIELDS" "jfield loader_event ''event_id'' = JStr (replicate 64 CHR ''0'')"
  "jfield loader_event ''schema'' = JStr HOST_SCHEMA"
  "jfield loader_event ''event'' = JStr ''invoked''" "jfield loader_event ''observation_kind'' = JStr ''loader_lifecycle''"
  "jfield loader_event ''entry_point'' = JObj [(''group'', JStr ''g''), (''name'', JStr ''n''), (''value'', JStr ''v'')]"
  "jfield loader_event ''process'' = JObj [(''assignment_source'', JStr ''host''), (''host'', JStr ''h''), (''role'', JStr ''r''), (''ordinal'', JInt 0), (''pid'', JInt 5),
         (''start_identity'', JStr ''pid:5:start_ticks:9''), (''process_epoch'', JInt 1)]"
  "jfield loader_event ''observed_at_ns'' = JInt 3" "jfield loader_event ''delivery_attempt'' = JInt 1"
  "jfield loader_event ''plan_id'' = JStr (''plan:sha256:'' @ replicate 64 CHR ''0'')" "jfield loader_event ''launch_id'' = JStr ''l''"
  "jfield loader_event ''binding_status'' = JStr ''bound''" "jfield loader_event ''occurrence_id'' = JNull"
  "jfield loader_event ''controller_instance_id'' = JNull" "jfield loader_event ''invocation_seq'' = JNull"
  "jfield loader_event ''dispatch_id'' = JNull" "jfield loader_event ''plugin_id'' = JNull" "jfield loader_event ''artifact_digest'' = JNull"
  "jfield loader_event ''identity_status'' = JStr ''kernel''" "jfield loader_event ''detail'' = JNull"
  by (simp_all add: loader_event_def jkeys_def jfield_def jget_def HOST_FIELDS_def)

lemma loader_process_ok:
  "start_identity_ok (JObj [(''assignment_source'', JStr ''host''), (''host'', JStr ''h''), (''role'', JStr ''r''), (''ordinal'', JInt 0), (''pid'', JInt 5),
         (''start_identity'', JStr ''pid:5:start_ticks:9''), (''process_epoch'', JInt 1)])"
  by code_simp

lemma loader_event_checks: "run_checks (event_checks (\<lambda>_. replicate 64 CHR ''0'') loader_event) = Inr ()"
  unfolding run_checks_iff event_checks_def Let_def loader_event_fields
  by (simp add: loader_process_ok loader_event_fields member_def HOST_EVENTS_def OBSERVATION_KINDS_def is_object_def nonempty_string_def
      nonneg_integer_def null_or_def scheduler_ok_def material_def LEGACY_PROCESS_FIELDS_def jint_def)

lemma loader_event_parses: "parse_host_event (fe_hash sink_env) (dumps True loader_event) = Inr (canon loader_event)"
  using parse_dumped_event [OF loader_event_ok, of "fe_hash sink_env" True] loader_event_checks
  by (simp add: sink_env_def)

definition loader_binding :: entry_point_binding where
  "loader_binding = \<lparr>eb_group = ''g'', eb_name = ''n'', eb_value = ''v'', eb_plugin_id = plugin_id (fe_hash sink_env) demo_plugin, eb_obligation = ''o1''\<rparr>"

definition loader_challenge :: challenge where
  "loader_challenge = \<lparr>ch_issuer = ''i'', ch_kid = ''k'', ch_nonce = ''x'', ch_issued_at = 1, ch_expires_at = 9\<rparr>"

lemma loader_event_appends: "fst (append_event sink_env sink_vars loader_event sink_files) = Inr ()"
proof -
  have w: "write_all SinkErr d x raw s = (Inr (), if raw = [] then s else change_node d x (\<lambda>f. f\<lparr>fn_raw := fn_raw f @ raw\<rparr>) s)"
    if "fs_outcomes s = []" for d x raw s
    using that by (subst write_all.simps) (simp add: os_write_def os_call_def exec_defs Let_def write_all.simps)
  have ok: "canonical_event (fe_hash sink_env) loader_event = Inr (dumps True loader_event)"
    by (simp add: canonical_event_def event_res_def loader_event_parses)
  have root: "configured_journal_root sink_vars sink_files = (Inr ''/s'', sink_files)"
    by (simp add: configured_journal_root_def sink_vars_def JOURNAL_ENV_def lift_file_def expected_directory_identity_def DEVICE_ENV_def INODE_ENV_def
      open_journal_root_def sink_files_def os_ok_def os_as_def os_call_def exec_defs)
  have line: "fst (append_line sink_env ''0'' ''/s'' (replicate 64 CHR ''0'' @ ''.jsonl'') raw sink_files) = Inr ()" for raw
    by (simp add: append_line_def acquire_shared_def open_lock_def check_fence_def open_append_def private_journal_def w os_as_def os_call_def os_stat_def
      os_create_def exec_defs sink_files_def sink_env_def QUARANTINE_LOCK_def fence_name_def add_node_def new_node_def entry_def on_entries_def
      device_of_def safe_node_def)
  show ?thesis using line [of "dumps True loader_event @ [CHR 0x0A]"] ok root
    by (simp add: append_event_def bind_x_def lift_file_def return_x_def sink_vars_def JOURNAL_ENV_def FSYNC_ENV_def journal_name_def sink_env_def Let_def)
qed
section \<open>Append and read\<close>

text \<open>
  C11. When the journals of a directory can be read and \<open>append_event\<close> returns, under any schedule of failures and short
  writes, then \<open>read_events\<close> returns the same records with one more, at its place in the order of the journals: the event
  that was appended, with its journal, line number and raw text. The event identifier has to be new: otherwise
  reading refuses the duplicate.
\<close>

theorem append_then_read:
  assumes "env JOURNAL_ENV = Some d" and "distinct_names s d" and "keys_ok event" and "is_object event"
    and "fst (read_events E env d expected None (s\<lparr>fs_outcomes := []\<rparr>)) = Inr rs"
    and "append_event E env event s = (Inr (), t)"
    and "jfield event ''event_id'' \<notin> set (event_ids rs)"
  shows "\<exists>before after. rs = before @ after \<and>
     fst (read_events E env d expected None (t\<lparr>fs_outcomes := []\<rparr>)) = Inr (before @
       [\<lparr>je_journal = journal_name (fe_hash E) event,
         je_line_number = Suc (length (splitlines (content s d (journal_name (fe_hash E) event)))),
         je_raw = dumps True event, je_event = canon event\<rparr>] @ after)"
proof -
  define name where "name = journal_name (fe_hash E) event"
  define r where "r = line_event (fe_hash E) name (Suc (length (splitlines (content s d name)))) (dumps True event)"
  obtain v where a: "appended d name (dumps True event @ [CHR 0x0A]) s t" and v: "parse_host_event (fe_hash E) (dumps True event) = Inr v"
    using append_event_appends [of env d E event s, OF assms(1)] assms(6) by (auto simp: wp_def name_def)
  have checks: "v = canon event" "run_checks (event_checks (fe_hash E) event) = Inr ()"
    using parse_dumped_event [OF assms(3,4), of "fe_hash E" True] v by (auto split: sum.splits)
  have r: "r = \<lparr>je_journal = name, je_line_number = Suc (length (splitlines (content s d name))), je_raw = dumps True event, je_event = canon event\<rparr>"
    by (simp add: r_def line_event_def v checks(1))
  have "jfield event ''event_id'' = material (fe_hash E) (event_material event)"
    by (rule accepted_event_id [OF checks(2)])
  then have id: "jfield (je_event r) ''event_id'' = jfield event ''event_id''" using material_string by (simp add: r)
  note read = read_events_iff [of "s\<lparr>fs_outcomes := []\<rparr>" E env d expected rs, simplified, THEN iffD1, OF assms(5)]
  have e: "ends_with ''.jsonl'' name" by (simp add: name_def journal_name_end)
  from appended_names [OF a assms(2) e] obtain A B where AB: "journal_names t d = A @ name # B" "name \<notin> set (A @ B)"
    "journal_names s d = (if entry s d name = None then A @ B else A @ name # B)" .
  have old: "entry s d name = None \<or> readable E s d name" "list_all (readable E s d) (A @ B)"
    using read AB(3) by (auto split: if_splits)
  note new = appended_events [OF a v old(1) assms(4), folded r_def]
  have AB': "x \<noteq> name" "ends_with ''.jsonl'' x" if "x \<in> set (A @ B)" for x
    using that AB(1,2) journal_names_set [of t d] by (auto simp: journal_set_def)
  note same = unchanged_journal [OF a AB']
  let ?f = "\<lambda>xs. concat (map (journal_events E s d) xs)"
  have "rs = ?f A @ journal_events E s d name @ ?f B"
  proof (cases "entry s d name")
    case None
    then have "journal_events E s d name = []" by (simp add: journal_events_def)
    then show ?thesis using read AB(3) None by simp
  next
    case (Some n)
    then show ?thesis using read AB(3) by simp
  qed
  note rs = this
  have "fst (read_events E env d expected None (t\<lparr>fs_outcomes := []\<rparr>)) = Inr ((?f A @ journal_events E s d name) @ [r] @ ?f B)"
  proof (rule read_events_iff [THEN iffD2], simp, intro conjI)
    have "map_option attributes (fs_dir t d) = map_option attributes (fs_dir s d)" using a by (simp add: appended_def only_def)
    then show "\<exists>z. map_option attributes (fs_dir (t\<lparr>fs_outcomes := []\<rparr>) d) = Some z \<and> may_open env d expected z"
      using conjunct1 [OF read] by simp
    show "list_all (readable E (t\<lparr>fs_outcomes := []\<rparr>) d) (journal_names (t\<lparr>fs_outcomes := []\<rparr>) d)"
      using old(2) same(1) new(1) AB(1) by (simp add: list_all_iff)
    show "(?f A @ journal_events E s d name) @ [r] @ ?f B
        = concat (map (journal_events E (t\<lparr>fs_outcomes := []\<rparr>) d) (journal_names (t\<lparr>fs_outcomes := []\<rparr>) d))"
      using same(2) new(2) by (simp add: AB(1) cong: map_cong)
    have "distinct (event_ids rs)" by (rule conjunct2 [OF conjunct2 [OF conjunct2 [OF read]]])
    then show "distinct (event_ids ((?f A @ journal_events E s d name) @ [r] @ ?f B))"
      using rs assms(7) id by (auto simp: event_ids_def)
  qed
  then show ?thesis unfolding name_def [symmetric] r [symmetric]
    by (intro exI [of _ "?f A @ journal_events E s d name"] exI [of _ "?f B"]) (simp add: rs)
qed

theorem append_then_read_witness:
  "fst (read_events sink_env sink_vars ''/s'' None None ((snd (append_event sink_env sink_vars loader_event sink_files))\<lparr>fs_outcomes := []\<rparr>)) =
     Inr [\<lparr>je_journal = replicate 64 CHR ''0'' @ ''.jsonl'', je_line_number = 1, je_raw = dumps True loader_event, je_event = canon loader_event\<rparr>]"
proof -
  have read: "fst (read_events sink_env sink_vars ''/s'' None None (sink_files\<lparr>fs_outcomes := []\<rparr>)) = Inr []"
    by (simp add: read_events_def sink_vars_def JOURNAL_ENV_def DEVICE_ENV_def INODE_ENV_def lift_file_def expected_directory_identity_def
      open_journal_root_def sink_files_def os_ok_def os_as_def os_call_def os_listdir_def exec_defs)
  have append: "append_event sink_env sink_vars loader_event sink_files = (Inr (), snd (append_event sink_env sink_vars loader_event sink_files))"
    using loader_event_appends by (metis prod.collapse)
  have "sink_vars JOURNAL_ENV = Some ''/s''" "distinct_names sink_files ''/s''"
    by (simp_all add: sink_vars_def sink_files_def distinct_names_def dir_entries_def)
  from append_then_read [OF this loader_event_ok read append]
  show ?thesis by (simp add: event_ids_def content_def entry_def sink_files_def journal_name_def sink_env_def Let_def)
qed

section \<open>Translation of an invocation\<close>

lemma accepted_process:
  assumes "run_checks (event_checks H v) = Inr ()"
  shows "jfield (jfield v ''process'') ''host'' = JStr (jstr (jfield (jfield v ''process'') ''host''))"
    and "jfield (jfield v ''process'') ''role'' = JStr (jstr (jfield (jfield v ''process'') ''role''))"
    and "jfield (jfield v ''process'') ''start_identity'' = JStr (jstr (jfield (jfield v ''process'') ''start_identity''))"
    and "jfield (jfield v ''process'') ''ordinal'' = JInt (jint (jfield (jfield v ''process'') ''ordinal''))"
    and "jfield v ''observed_at_ns'' = JInt (jint (jfield v ''observed_at_ns''))"
proof -
  have s: "x = JStr (jstr x)" if "nonempty_string x" for x using that by (cases x) (simp_all add: nonempty_string_def jstr_def)
  have i: "x = JInt (jint x)" if "nonneg_integer x" for x using that by (cases x) (simp_all add: nonneg_integer_def jint_def)
  note c = assms [unfolded run_checks_iff event_checks_def Let_def, simplified]
  show "jfield (jfield v ''process'') ''host'' = JStr (jstr (jfield (jfield v ''process'') ''host''))"
    "jfield (jfield v ''process'') ''role'' = JStr (jstr (jfield (jfield v ''process'') ''role''))"
    "jfield (jfield v ''process'') ''start_identity'' = JStr (jstr (jfield (jfield v ''process'') ''start_identity''))"
    "jfield (jfield v ''process'') ''ordinal'' = JInt (jint (jfield (jfield v ''process'') ''ordinal''))"
    "jfield v ''observed_at_ns'' = JInt (jint (jfield v ''observed_at_ns''))"
    using c by (blast intro: s i)+
qed

text \<open>
  A translated invocation claims what the event says and nothing else: plan, launch, process, epoch and obligation
  of the statement are those of an accepted, bound \<open>invoked\<close> event whose ordinal the host assigned, the plugin is one of
  the plan and the one bound to the entry point, the artifact digest is that plugin's, the evidence digest is the digest
  of the raw event, and the time is that of the event in whole seconds.
\<close>

theorem translation_binds:
  assumes "translate_invocation H raw p launch_id epoch b c = Inr r"
  defines "v \<equiv> hr_event r" and "a \<equiv> hr_statement r"
  shows "parse_host_event H raw = Inr v \<and> hr_raw r = raw \<and> jfield v ''event'' = JStr ''invoked'' \<and> jfield v ''binding_status'' = JStr ''bound''
     \<and> jfield (jfield v ''process'') ''assignment_source'' = JStr ''host''
     \<and> jfield v ''plan_id'' = JStr (as_plan_id a) \<and> as_plan_id a = plan_id H p
     \<and> jfield v ''launch_id'' = JStr (as_launch_id a) \<and> as_launch_id a = launch_id
     \<and> jfield (jfield v ''process'') ''host'' = JStr (ps_host (as_process a)) \<and> jfield (jfield v ''process'') ''role'' = JStr (ps_role (as_process a))
     \<and> jfield (jfield v ''process'') ''ordinal'' = JInt (ps_ordinal (as_process a))
     \<and> jfield (jfield v ''process'') ''start_identity'' = JStr (ps_start_identity (as_process a))
     \<and> jfield (jfield v ''process'') ''process_epoch'' = JInt (ps_epoch (as_process a)) \<and> ps_epoch (as_process a) = epoch
     \<and> map (jfield (jfield v ''entry_point'')) [''group'', ''name'', ''value''] = map JStr [eb_group b, eb_name b, eb_value b]
     \<and> (\<exists>q \<in> set (plan_plugins p). plugin_id H q = eb_plugin_id b \<and> as_plugin_id a = eb_plugin_id b
          \<and> as_artifact_digest a = ''sha256:'' @ pl_artifact_sha256 q)
     \<and> as_obligation a = eb_obligation b \<and> as_evidence_digest a = ''sha256:'' @ H raw \<and> as_challenge_nonce a = ch_nonce c
     \<and> (\<exists>ns. jfield v ''observed_at_ns'' = JInt ns \<and> as_observed_at a * 1000000000 \<le> ns \<and> ns < (as_observed_at a + 1) * 1000000000)"
proof -
  obtain w q where w: "parse_host_event H raw = Inr w" and q: "find (\<lambda>q. plugin_id H q = eb_plugin_id b) (plan_plugins p) = Some q"
    and r: "r = \<lparr>hr_raw = raw, hr_event = w, hr_statement = invocation_statement H raw w p launch_id epoch b c q\<rparr>"
    and g: "jfield w ''event'' = JStr ''invoked''" "jfield w ''binding_status'' = JStr ''bound''"
      "jfield (jfield w ''process'') ''assignment_source'' = JStr ''host''" "jfield w ''plan_id'' = JStr (plan_id H p)"
      "jfield w ''launch_id'' = JStr launch_id" "jfield (jfield w ''process'') ''process_epoch'' = JInt epoch"
      "map (jfield (jfield w ''entry_point'')) [''group'', ''name'', ''value''] = map JStr [eb_group b, eb_name b, eb_value b]"
    using assms(1) by (auto simp: translate_invocation_def mismatch_def Let_def split: option.splits)
  have "q \<in> set (plan_plugins p)" "plugin_id H q = eb_plugin_id b" using q by (auto simp: find_Some_iff)
  moreover have "run_checks (event_checks H w) = Inr ()" using w by (simp add: parse_host_event_iff)
  note f = accepted_process [OF this]
  ultimately show ?thesis unfolding v_def a_def r using w g f
    by (auto simp: invocation_statement_def Let_def)
qed

theorem translation_binds_witness:
  "\<exists>r. translate_invocation (fe_hash sink_env) (dumps True loader_event) demo_plan ''l'' 1 loader_binding loader_challenge = Inr r
     \<and> as_plugin_id (hr_statement r) = plugin_id (fe_hash sink_env) demo_plugin \<and> ps_epoch (as_process (hr_statement r)) = 1"
proof -
  have "plan_id (fe_hash sink_env) demo_plan = ''plan:sha256:'' @ replicate 64 CHR ''0''" by (simp add: plan_id_def content_id_def sink_env_def)
  then obtain r where r: "translate_invocation (fe_hash sink_env) (dumps True loader_event) demo_plan ''l'' 1 loader_binding loader_challenge = Inr r"
    by (simp add: translate_invocation_def loader_event_parses mismatch_def guard_res_def loader_event_fields loader_binding_def demo_plan_def)
  from translation_binds [OF this] show ?thesis using r
    by (auto simp: loader_binding_def)
qed

end
