(* ===== verification/Host_Observer.thy ===== *)
theory Host_Observer
  imports Event_Sink Base64 "HOL-Library.Product_Lexorder"
begin

text \<open>
  The observer of effects (host\_observer.py): from the journals of a directory, the bindings of entry
  points and the processes that a plan requires, the snapshot of the invocations that cover the plan's
  obligations. What \<open>/proc\<close> shows when a record is examined is the argument \<open>proc\<close>; it may be different
  for every record. Arguments of a command line are kept as bytes.
\<close>

section \<open>Process identities\<close>

datatype observer_error = ObservationErr | ZeroDivisionErr | KeyErr | ReadErr file_error

text \<open>\<open>bytes.rfind\<close> of one byte, \<open>bytes.split\<close> without and with a separator, and \<open>int\<close> of bytes without blanks.\<close>

definition rfind :: "char \<Rightarrow> string \<Rightarrow> int" where
  "rfind c s = (if c \<in> set s then int (length (dropWhile (\<lambda>x. x \<noteq> c) (rev s))) - 1 else -1)"

definition is_blank :: "char \<Rightarrow> bool" where
  "is_blank c \<longleftrightarrow> (let n = of_char c :: nat in (9 \<le> n \<and> n \<le> 13) \<or> n = 32)"

fun byte_words :: "string \<Rightarrow> string list" where
  "byte_words [] = []"
| "byte_words (c # s) =
     (if is_blank c then byte_words s
      else case s of [] \<Rightarrow> [[c]] | d # t \<Rightarrow> if is_blank d then [c] # byte_words s
        else (case byte_words s of [] \<Rightarrow> [[c]] | w # ws \<Rightarrow> (c # w) # ws))"

fun split_char :: "char \<Rightarrow> string \<Rightarrow> string list" where
  "split_char x [] = [[]]"
| "split_char x (c # s) = (if c = x then [] # split_char x s
     else (case split_char x s of [] \<Rightarrow> [[c]] | w # ws \<Rightarrow> (c # w) # ws))"

definition bytes_int :: "string \<Rightarrow> int option" where
  "bytes_int w = (case w of
     [] \<Rightarrow> None
   | c # s \<Rightarrow> if c = CHR ''-'' then map_option uminus (py_nat s) else if c = CHR ''+'' then py_nat s else py_nat w)"

definition parse_linux_start_ticks :: "string \<Rightarrow> observer_error + int" where
  "parse_linux_start_ticks raw = (let close = rfind (CHR '')'') raw; fields = byte_words (drop (nat (close + 2)) raw) in
     bind_res (guard_res (\<not> (close < 2 \<or> close + 2 \<ge> int (length raw) \<or> raw ! nat (close + 1) \<noteq> CHR '' '')) ObservationErr) (\<lambda>_.
     bind_res (guard_res (\<not> length fields \<le> 19) ObservationErr) (\<lambda>_.
     case bytes_int (fields ! 19) of
       None \<Rightarrow> Inl ObservationErr
     | Some ticks \<Rightarrow> bind_res (guard_res (ticks > 0) ObservationErr) (\<lambda>_. Inr ticks))))"

text \<open>The three reads of one look at a process; \<open>None\<close> is an \<open>OSError\<close>.\<close>

record proc_view =
  pv_stat :: "string option"
  pv_cmdline :: "string option"
  pv_stat_again :: "string option"

record linux_identity =
  li_pid :: int
  li_start_ticks :: int
  li_start_identity :: string
  li_argv :: "string list"

definition need_read :: "string option \<Rightarrow> observer_error + string" where
  "need_read x = (case x of None \<Rightarrow> Inl ObservationErr | Some raw \<Rightarrow> Inr raw)"

definition read_linux_process_identity :: "proc_view \<Rightarrow> int \<Rightarrow> string \<Rightarrow> observer_error + linux_identity" where
  "read_linux_process_identity view pid expected =
     bind_res (guard_res (\<not> pid \<le> 0) ObservationErr) (\<lambda>_.
     bind_res (bind_res (need_read (pv_stat view)) parse_linux_start_ticks) (\<lambda>before.
     bind_res (need_read (pv_cmdline view)) (\<lambda>argv_raw.
     bind_res (bind_res (need_read (pv_stat_again view)) parse_linux_start_ticks) (\<lambda>after.
     bind_res (guard_res (before = after) ObservationErr) (\<lambda>_.
     let start_identity = ''pid:'' @ show_int pid @ '':start_ticks:'' @ show_int before;
         argv = filter (\<lambda>part. part \<noteq> []) (split_char (CHR 0x00) argv_raw) in
     bind_res (guard_res (expected = start_identity) ObservationErr) (\<lambda>_.
     bind_res (guard_res (argv \<noteq> []) ObservationErr) (\<lambda>_.
     Inr \<lparr>li_pid = pid, li_start_ticks = before, li_start_identity = start_identity, li_argv = argv\<rparr>)))))))"

section \<open>Required processes\<close>

type_synonym slot = "string \<times> string \<times> int"
type_synonym required = "string \<times> string \<times> int \<times> int"

definition slot_of :: "required \<Rightarrow> slot" where
  "slot_of = (\<lambda>(host, role, ordinal, epoch). (host, role, ordinal))"

definition trimmed :: "json \<Rightarrow> bool" where
  "trimmed v \<longleftrightarrow> nonempty_string v \<and> strip (jstr v) = jstr v"

definition required_process :: "json \<Rightarrow> observer_error + required" where
  "required_process v =
     bind_res (guard_res (is_object v \<and> jkeys v = {''host'', ''role'', ''ordinal'', ''process_epoch''}) ObservationErr) (\<lambda>_.
     bind_res (guard_res (trimmed (jfield v ''host'') \<and> trimmed (jfield v ''role'')
       \<and> nonneg_integer (jfield v ''ordinal'') \<and> nonneg_integer (jfield v ''process_epoch'')) ObservationErr) (\<lambda>_.
     Inr (jstr (jfield v ''host''), jstr (jfield v ''role''), jint (jfield v ''ordinal''), jint (jfield v ''process_epoch''))))"

definition required_processes :: "json list \<Rightarrow> observer_error + required list" where
  "required_processes values =
     bind_res (map_res required_process values) (\<lambda>parsed.
     bind_res (guard_res (\<not> (parsed = [] \<or> parsed \<noteq> sort parsed \<or> \<not> distinct parsed)) ObservationErr) (\<lambda>_.
     bind_res (guard_res (distinct (map slot_of parsed)) ObservationErr) (\<lambda>_.
     Inr parsed)))"

section \<open>Bindings\<close>

definition dict_of :: "('a \<Rightarrow> 'k) \<Rightarrow> 'a list \<Rightarrow> ('k \<times> 'a) list" where
  "dict_of key xs = fold (\<lambda>x. dict_set (key x) x) xs []"

definition entry_of :: "entry_point_binding \<Rightarrow> string \<times> string \<times> string" where
  "entry_of b = (eb_group b, eb_name b, eb_value b)"

type_synonym by_entry = "((string \<times> string \<times> string) \<times> entry_point_binding) list"
type_synonym by_obligation = "(string \<times> entry_point_binding) list"

fun bind_entries ::
  "(string \<times> plugin_identity) list \<Rightarrow> (string \<times> evidence_obligation) list \<Rightarrow> entry_point_binding list \<Rightarrow> by_entry \<Rightarrow> by_obligation \<Rightarrow>
   observer_error + by_entry \<times> by_obligation" where
  "bind_entries plugins obligations [] entries bound = Inr (entries, bound)"
| "bind_entries plugins obligations (b # bs) entries bound =
     bind_res (guard_res (\<not> (map_of entries (entry_of b) \<noteq> None \<or> map_of bound (eb_obligation b) \<noteq> None)) ObservationErr) (\<lambda>_.
     bind_res (guard_res (map_of plugins (eb_plugin_id b) \<noteq> None) ObservationErr) (\<lambda>_.
     bind_res (guard_res (case map_of obligations (eb_obligation b) of None \<Rightarrow> False | Some o' \<Rightarrow> ob_event o' = ''invoked'') ObservationErr) (\<lambda>_.
     bind_entries plugins obligations bs (dict_set (entry_of b) b entries) (dict_set (eb_obligation b) b bound))))"

definition obligated :: "string \<Rightarrow> plan \<Rightarrow> slot list" where
  "obligated local_host p = concat (map (\<lambda>o'. map (\<lambda>n. (local_host, ob_role o', n)) (ob_required_ordinals o')) (plan_obligations p))"

definition targets :: "required list \<Rightarrow> evidence_obligation \<Rightarrow> required list" where
  "targets required o' = filter (\<lambda>(host, role, ordinal, epoch). role = ob_role o' \<and> ordinal \<in> set (ob_required_ordinals o')) required"

definition epoch_of :: "required list \<Rightarrow> slot \<Rightarrow> int option" where
  "epoch_of required = map_of (map (\<lambda>(host, role, ordinal, epoch). ((host, role, ordinal), epoch)) required)"

section \<open>The records\<close>

record evidence_record =
  er_event_id :: json
  er_journal :: string
  er_line_number :: nat
  er_raw_base64 :: string
  er_raw_sha256 :: string

definition make_evidence :: "(string \<Rightarrow> string) \<Rightarrow> journal_event \<Rightarrow> evidence_record" where
  "make_evidence H r = \<lparr>er_event_id = jfield (je_event r) ''event_id'', er_journal = je_journal r, er_line_number = je_line_number r,
     er_raw_base64 = b64encode (je_raw r), er_raw_sha256 = ''sha256:'' @ H (je_raw r)\<rparr>"

record observed_process =
  op_slot :: slot
  op_process_epoch :: int
  op_linux :: linux_identity

text \<open>The dictionaries by obligation have an entry for every obligation from the start.\<close>

record observation =
  on_effects :: "string \<Rightarrow> (slot \<times> observed_process) list"
  on_effect_records :: "string \<Rightarrow> evidence_record list"
  on_stale_records :: "string \<Rightarrow> evidence_record list"
  on_controller_bound :: "string \<Rightarrow> bool"
  on_linux_slots :: "((string \<times> int \<times> int) \<times> slot) list"
  on_other_records :: "evidence_record list"

definition no_observation :: observation where
  "no_observation = \<lparr>on_effects = (\<lambda>_. []), on_effect_records = (\<lambda>_. []), on_stale_records = (\<lambda>_. []),
     on_controller_bound = (\<lambda>_. False), on_linux_slots = [], on_other_records = []\<rparr>"

record observer =
  ov_hash :: "string \<Rightarrow> string"
  ov_proc :: "journal_event \<Rightarrow> proc_view"
  ov_plan :: plan
  ov_launch_id :: string
  ov_controller :: string
  ov_entries :: by_entry
  ov_obligations :: "(string \<times> evidence_obligation) list"
  ov_required :: "required list"

text \<open>A record for this plan and launch, of a process the host assigned.\<close>

definition bound_record :: "observer \<Rightarrow> json \<Rightarrow> bool" where
  "bound_record O' v \<longleftrightarrow> \<not> (jfield v ''binding_status'' \<noteq> JStr ''bound''
     \<or> jfield v ''plan_id'' \<noteq> JStr (plan_id (ov_hash O') (ov_plan O')) \<or> jfield v ''launch_id'' \<noteq> JStr (ov_launch_id O')
     \<or> jfield (jfield v ''process'') ''assignment_source'' \<noteq> JStr ''host'')"

definition record_slot :: "json \<Rightarrow> slot" where
  "record_slot v = (let p = jfield v ''process'' in (jstr (jfield p ''host''), jstr (jfield p ''role''), jint (jfield p ''ordinal'')))"

definition record_entry :: "json \<Rightarrow> string \<times> string \<times> string" where
  "record_entry v = (let e = jfield v ''entry_point'' in (jstr (jfield e ''group''), jstr (jfield e ''name''), jstr (jfield e ''value'')))"

definition linux_key :: "slot \<Rightarrow> linux_identity \<Rightarrow> string \<times> int \<times> int" where
  "linux_key s l = (fst s, li_pid l, li_start_ticks l)"

text \<open>An invocation of the required epoch: the process is looked at, and neither has the slot another live
  process nor the process another slot.\<close>

definition observe_effect :: "observer \<Rightarrow> journal_event \<Rightarrow> string \<Rightarrow> slot \<Rightarrow> observation \<Rightarrow> observer_error + observation" where
  "observe_effect O' r i s st = (let v = je_event r; p = jfield v ''process'' in
     bind_res (read_linux_process_identity (ov_proc O' r) (jint (jfield p ''pid'')) (jstr (jfield p ''start_identity''))) (\<lambda>linux.
     let observed = \<lparr>op_slot = s, op_process_epoch = jint (jfield p ''process_epoch''), op_linux = linux\<rparr>;
         prior = (case map_of (on_linux_slots st) (linux_key s linux) of None \<Rightarrow> s | Some t \<Rightarrow> t) in
     bind_res (guard_res (case map_of (on_effects st i) s of None \<Rightarrow> True | Some existing \<Rightarrow> existing = observed) ObservationErr) (\<lambda>_.
     bind_res (guard_res (prior = s) ObservationErr) (\<lambda>_.
     Inr (st\<lparr>on_linux_slots := dict_set (linux_key s linux) prior (on_linux_slots st),
             on_effects := (on_effects st)(i := dict_set s observed (on_effects st i)),
             on_effect_records := (on_effect_records st)(i := on_effect_records st i @ [make_evidence (ov_hash O') r]),
             on_controller_bound := (on_controller_bound st)(i := on_controller_bound st i \<or> jfield v ''observation_kind'' = JStr ''scheduler_dispatch'')\<rparr>)))))"

definition observe_record :: "observer \<Rightarrow> journal_event \<Rightarrow> observation \<Rightarrow> observer_error + observation" where
  "observe_record O' r st = (let v = je_event r; s = record_slot v in
     bind_res (guard_res (bound_record O' v) ObservationErr) (\<lambda>_.
     bind_res (guard_res (\<not> (jfield v ''observation_kind'' \<in> {JStr ''scheduler_resolution'', JStr ''scheduler_dispatch''}
         \<and> jfield v ''controller_instance_id'' \<noteq> JStr (ov_controller O'))) ObservationErr) (\<lambda>_.
     case map_of (ov_entries O') (record_entry v) of
       None \<Rightarrow> Inr (st\<lparr>on_other_records := on_other_records st @ [make_evidence (ov_hash O') r]\<rparr>)
     | Some b \<Rightarrow>
         if jfield v ''event'' \<noteq> JStr ''invoked'' then Inr (st\<lparr>on_other_records := on_other_records st @ [make_evidence (ov_hash O') r]\<rparr>)
         else (case map_of (ov_obligations O') (eb_obligation b) of
             None \<Rightarrow> Inl KeyErr
           | Some o' \<Rightarrow>
               bind_res (guard_res (\<not> (epoch_of (ov_required O') s = None \<or> fst (snd s) \<noteq> ob_role o'
                 \<or> snd (snd s) \<notin> set (ob_required_ordinals o'))) ObservationErr) (\<lambda>_.
               if Some (jint (jfield (jfield v ''process'') ''process_epoch'')) \<noteq> epoch_of (ov_required O') s
               then Inr (st\<lparr>on_stale_records := (on_stale_records st)(eb_obligation b := on_stale_records st (eb_obligation b) @ [make_evidence (ov_hash O') r])\<rparr>)
               else observe_effect O' r (eb_obligation b) s st)))))"

fun observe_records :: "observer \<Rightarrow> journal_event list \<Rightarrow> observation \<Rightarrow> observer_error + observation" where
  "observe_records O' [] st = Inr st"
| "observe_records O' (r # rs) st = bind_res (observe_record O' r st) (observe_records O' rs)"

section \<open>The snapshot\<close>

text \<open>A coverage is kept as its two numbers: the quotient is 1.0 exactly if they are equal.\<close>

record obligation_result =
  br_plugin_id :: string
  br_artifact_digest :: string
  br_entry_point :: "string \<times> string \<times> string"
  br_controller_binding :: "string option"
  br_effect_records :: "evidence_record list"
  br_stale_effect_records :: "evidence_record list"
  br_effect_process_identities :: "observed_process list"
  br_plugin_invoked :: bool
  br_coverage :: "nat \<times> nat"
  br_complete_coverage :: bool

record effect_snapshot =
  sn_plan_id :: string
  sn_launch_id :: string
  sn_journal_directory :: "int \<times> int"
  sn_audited_event_count :: nat
  sn_other_records :: "evidence_record list"
  sn_obligations :: "(string \<times> obligation_result) list"
  sn_effect_process_identities :: "observed_process list"
  sn_complete_coverage :: bool

text \<open>\<open>[d[key] for key in sorted(d)]\<close> and \<open>dict.update\<close>\<close>

definition sorted_values :: "(slot \<times> 'a) list \<Rightarrow> 'a list" where
  "sorted_values d = map (\<lambda>k. the (map_of d k)) (sort (map fst d))"

definition dict_update :: "('k \<times> 'v) list \<Rightarrow> ('k \<times> 'v) list \<Rightarrow> ('k \<times> 'v) list" where
  "dict_update d e = fold (\<lambda>(k, v). dict_set k v) e d"

definition need_key :: "'v option \<Rightarrow> observer_error + 'v" where
  "need_key x = (case x of None \<Rightarrow> Inl KeyErr | Some v \<Rightarrow> Inr v)"

definition make_result ::
  "observer \<Rightarrow> (string \<times> plugin_identity) list \<Rightarrow> by_obligation \<Rightarrow> observation \<Rightarrow> string \<times> evidence_obligation \<Rightarrow> observer_error + string \<times> obligation_result" where
  "make_result O' plugins bound st = (\<lambda>(i, o').
     bind_res (need_key (map_of bound i)) (\<lambda>b.
     bind_res (need_key (map_of plugins (eb_plugin_id b))) (\<lambda>q.
     let observed = sorted_values (on_effects st i); wanted = targets (ov_required O') o';
         complete = (length observed = length wanted) in
     bind_res (guard_res (wanted \<noteq> []) ZeroDivisionErr) (\<lambda>_.
     Inr (i, \<lparr>br_plugin_id = plugin_id (ov_hash O') q, br_artifact_digest = ''sha256:'' @ pl_artifact_sha256 q, br_entry_point = entry_of b,
       br_controller_binding = (if on_controller_bound st i then Some (ov_controller O') else None),
       br_effect_records = on_effect_records st i, br_stale_effect_records = on_stale_records st i,
       br_effect_process_identities = observed, br_plugin_invoked = (observed \<noteq> []),
       br_coverage = (length observed, length wanted), br_complete_coverage = complete\<rparr>)))))"

definition directory_stat :: "string \<Rightarrow> (int \<times> int) file_exec" where
  "directory_stat root = then_x os_ok (bind_x (gets_x (\<lambda>s. fs_dir s root)) (\<lambda>d. case d of
     None \<Rightarrow> raise_x (OsErr ENOENT) | Some r \<Rightarrow> return_x (dr_identity r)))"

definition read_x :: "'a file_exec \<Rightarrow> (files, observer_error, 'a) exec" where
  "read_x m = zoom_x (\<lambda>s. s) (\<lambda>t s. t) ReadErr m"

definition observer_res :: "observer_error + 'a \<Rightarrow> (files, observer_error, 'a) exec" where
  "observer_res x = (case x of Inl e \<Rightarrow> raise_x e | Inr y \<Rightarrow> return_x y)"

definition host_name :: "string \<Rightarrow> string option \<Rightarrow> string" where
  "host_name gethostname local_host = (case local_host of None \<Rightarrow> gethostname | Some h \<Rightarrow> h)"

definition make_observer :: "file_env \<Rightarrow> (journal_event \<Rightarrow> proc_view) \<Rightarrow> plan \<Rightarrow> string \<Rightarrow> string \<Rightarrow> by_entry \<Rightarrow> required list \<Rightarrow> observer" where
  "make_observer E proc p launch_id controller entries required =
     \<lparr>ov_hash = fe_hash E, ov_proc = proc, ov_plan = p, ov_launch_id = launch_id, ov_controller = controller,
      ov_entries = entries, ov_obligations = dict_of ob_id (plan_obligations p), ov_required = required\<rparr>"

definition observe_bound_invocations ::
  "file_env \<Rightarrow> (string \<Rightarrow> string option) \<Rightarrow> (journal_event \<Rightarrow> proc_view) \<Rightarrow> string \<Rightarrow>
   string \<Rightarrow> int \<times> int \<Rightarrow> plan \<Rightarrow> string \<Rightarrow> string \<Rightarrow> entry_point_binding list \<Rightarrow> json list \<Rightarrow> string option \<Rightarrow>
   (files, observer_error, effect_snapshot) exec" where
  "observe_bound_invocations E env proc gethostname root identity p launch_id controller bindings required_processes' local_host =
     bind_x (observer_res (required_processes required_processes')) (\<lambda>required.
     let local_host = host_name gethostname local_host;
         plugins = dict_of (plugin_id (fe_hash E)) (plan_plugins p);
         obligations = dict_of ob_id (plan_obligations p) in
     then_x (guard_x (local_host \<noteq> []) ObservationErr)
     (bind_x (observer_res (bind_entries plugins obligations bindings [] [])) (\<lambda>(entries, bound).
     then_x (guard_x (set (map fst bound) = set (map fst obligations)) ObservationErr)
     (then_x (guard_x (set (map slot_of required) = set (obligated local_host p)) ObservationErr)
     (then_x (guard_x (\<not> (fst identity < 0 \<or> snd identity < 0 \<or> snd identity \<le> 0)) ObservationErr)
     (bind_x (catch_x (read_x (directory_stat root))
         (\<lambda>e. raise_x (case e of ReadErr (OsErr _) \<Rightarrow> ObservationErr | _ \<Rightarrow> e))) (\<lambda>metadata.
     then_x (guard_x (metadata = identity) ObservationErr)
     (bind_x (read_x (read_events E env root (Some identity) None)) (\<lambda>records.
     let O' = make_observer E proc p launch_id controller entries required in
     bind_x (observer_res (observe_records O' records no_observation)) (\<lambda>st.
     bind_x (observer_res (map_res (make_result O' plugins bound st) obligations)) (\<lambda>results.
     return_x \<lparr>sn_plan_id = plan_id (fe_hash E) p, sn_launch_id = launch_id, sn_journal_directory = metadata,
       sn_audited_event_count = length records, sn_other_records = on_other_records st, sn_obligations = results,
       sn_effect_process_identities = sorted_values (fold (\<lambda>i d. dict_update d (on_effects st i)) (map fst obligations) []),
       sn_complete_coverage = list_all (\<lambda>(i, x). br_complete_coverage x) results\<rparr>)))))))))))"

end
