(* ===== verification/Observer_Properties.thy ===== *)
theory Observer_Properties
  imports Host_Observer
begin

text \<open>
  Lemmas on the observer of effects: what the loop over the records establishes for every process it
  keeps, that as many processes as targets cover all targets, and what a call that returns went through.
\<close>

section \<open>The loop over the records\<close>

text \<open>A record covers a slot of an obligation with a process.\<close>

definition covers :: "observer \<Rightarrow> journal_event \<Rightarrow> string \<Rightarrow> slot \<Rightarrow> observed_process \<Rightarrow> bool" where
  "covers O' r i s x \<longleftrightarrow> (let v = je_event r; p = jfield v ''process'' in
     bound_record O' v \<and> jfield v ''event'' = JStr ''invoked'' \<and> record_slot v = s
     \<and> (\<exists>b. map_of (ov_entries O') (record_entry v) = Some b \<and> eb_obligation b = i)
     \<and> (jfield v ''observation_kind'' = JStr ''scheduler_dispatch'' \<longrightarrow> jfield v ''controller_instance_id'' = JStr (ov_controller O'))
     \<and> epoch_of (ov_required O') s = Some (jint (jfield p ''process_epoch''))
     \<and> read_linux_process_identity (ov_proc O' r) (jint (jfield p ''pid'')) (jstr (jfield p ''start_identity'')) = Inr (op_linux x))"

definition target_of :: "observer \<Rightarrow> string \<Rightarrow> slot \<Rightarrow> bool" where
  "target_of O' i s \<longleftrightarrow> epoch_of (ov_required O') s \<noteq> None
     \<and> (\<exists>o'. map_of (ov_obligations O') i = Some o' \<and> fst (snd s) = ob_role o' \<and> snd (snd s) \<in> set (ob_required_ordinals o'))"

definition justified :: "observer \<Rightarrow> journal_event list \<Rightarrow> observation \<Rightarrow> string \<Rightarrow> slot \<Rightarrow> observed_process \<Rightarrow> bool" where
  "justified O' rs st i s x \<longleftrightarrow> (\<exists>r \<in> set rs. covers O' r i s x)
     \<and> map_of (on_linux_slots st) (linux_key s (op_linux x)) = Some s \<and> target_of O' i s"

definition observed_ok :: "observer \<Rightarrow> journal_event list \<Rightarrow> observation \<Rightarrow> bool" where
  "observed_ok O' rs st \<longleftrightarrow> (\<forall>i. distinct (map fst (on_effects st i))
     \<and> (\<forall>s x. map_of (on_effects st i) s = Some x \<longrightarrow> justified O' rs st i s x))"

lemma observed_okD: "observed_ok O' rs st \<Longrightarrow> map_of (on_effects st i) s = Some x \<Longrightarrow> justified O' rs st i s x"
  unfolding observed_ok_def by blast

lemma observed_ok_none: "observed_ok O' [] no_observation"
  by (simp add: observed_ok_def no_observation_def)

lemma observed_ok_same:
  assumes "observed_ok O' rs st" and "on_effects st' = on_effects st" and "on_linux_slots st' = on_linux_slots st" and "set rs \<subseteq> set rs'"
  shows "observed_ok O' rs' st'"
  using assms unfolding observed_ok_def justified_def by (metis subsetD)

lemma observe_effect_ok:
  assumes "observe_effect O' r i s st = Inr st'" and "observed_ok O' rs st" and "target_of O' i s"
    and "\<And>x. read_linux_process_identity (ov_proc O' r) (jint (jfield (jfield (je_event r) ''process'') ''pid''))
        (jstr (jfield (jfield (je_event r) ''process'') ''start_identity'')) = Inr (op_linux x) \<Longrightarrow> covers O' r i s x"
  shows "observed_ok O' (r # rs) st'"
proof -
  obtain l where l: "read_linux_process_identity (ov_proc O' r) (jint (jfield (jfield (je_event r) ''process'') ''pid''))
        (jstr (jfield (jfield (je_event r) ''process'') ''start_identity'')) = Inr l"
    and prior: "(case map_of (on_linux_slots st) (linux_key s l) of None \<Rightarrow> s | Some t \<Rightarrow> t) = s"
    and st': "on_linux_slots st' = dict_set (linux_key s l) s (on_linux_slots st)"
      "on_effects st' = (on_effects st)(i := dict_set s \<lparr>op_slot = s, op_process_epoch = jint (jfield (jfield (je_event r) ''process'') ''process_epoch''), op_linux = l\<rparr> (on_effects st i))"
    using assms(1) unfolding observe_effect_def Let_def by (auto split: if_splits)
  have key: "map_of (on_linux_slots st') k = Some u" if "map_of (on_linux_slots st) k = Some u" for k u
    using that prior by (auto simp: st'(1) split: option.splits)
  have old: "justified O' (r # rs) st' j u x" if "map_of (on_effects st j) u = Some x" for j u x
    using observed_okD [OF assms(2) that] key by (auto simp: justified_def)
  have "justified O' (r # rs) st' i s x" if "op_linux x = l" for x
    using assms(3) assms(4) [of x] l that by (auto simp: justified_def st'(1))
  then have "justified O' (r # rs) st' j u x" if "map_of (on_effects st' j) u = Some x" for j u x
    using that old by (auto simp: st'(2) split: if_splits)
  moreover have "distinct (map fst (on_effects st' j))" for j
  proof -
    have "distinct (map fst (on_effects st k))" for k using assms(2) unfolding observed_ok_def by blast
    then show ?thesis by (simp add: st'(2) distinct_dict_set)
  qed
  ultimately show ?thesis unfolding observed_ok_def by blast
qed

lemma observe_record_ok:
  assumes "observe_record O' r st = Inr st'" and "observed_ok O' rs st"
  shows "observed_ok O' (r # rs) st'"
proof -
  let ?v = "je_event r" and ?s = "record_slot (je_event r)"
  note d = assms(1) [unfolded observe_record_def Let_def]
  have g: "bound_record O' ?v" "jfield ?v ''observation_kind'' = JStr ''scheduler_dispatch'' \<longrightarrow> jfield ?v ''controller_instance_id'' = JStr (ov_controller O')"
    using d by auto
  have same: "observed_ok O' (r # rs) st'" if "on_effects st' = on_effects st" "on_linux_slots st' = on_linux_slots st"
    by (rule observed_ok_same [OF assms(2) that]) auto
  show ?thesis
  proof (cases "map_of (ov_entries O') (record_entry ?v)")
    case None
    then show ?thesis using d same by auto
  next
    case (Some b)
    show ?thesis
    proof (cases "jfield ?v ''event'' = JStr ''invoked''")
      case False
      then show ?thesis using d same Some by auto
    next
      case True
      obtain o' where o': "map_of (ov_obligations O') (eb_obligation b) = Some o'"
        "epoch_of (ov_required O') ?s \<noteq> None" "fst (snd ?s) = ob_role o'" "snd (snd ?s) \<in> set (ob_required_ordinals o')"
        using d Some True by (auto split: option.splits)
      show ?thesis
      proof (cases "Some (jint (jfield (jfield ?v ''process'') ''process_epoch'')) = epoch_of (ov_required O') ?s")
        case False
        then show ?thesis using d same Some True o' by auto
      next
        case epoch: True
        have "observe_effect O' r (eb_obligation b) ?s st = Inr st'" using d Some True o' epoch by auto
        then show ?thesis
          by (rule observe_effect_ok [OF _ assms(2)])
             (use o' g epoch Some True in \<open>auto simp: target_of_def covers_def Let_def\<close>)
      qed
    qed
  qed
qed

lemma observe_records_ok:
  "observe_records O' rs st = Inr st' \<Longrightarrow> observed_ok O' rs0 st \<Longrightarrow> observed_ok O' (rev rs @ rs0) st'"
proof (induction rs arbitrary: st rs0)
  case (Cons r rs)
  then obtain u where u: "observe_record O' r st = Inr u" "observe_records O' rs u = Inr st'" by auto
  from Cons.IH [OF u(2) observe_record_ok [OF u(1) Cons.prems(2)]] show ?case by simp
qed simp

lemmas observe_all_ok = observe_records_ok [OF _ observed_ok_none, simplified]

section \<open>The snapshot\<close>

lemma dict_of_distinct: "distinct (map key xs) \<Longrightarrow> dict_of key xs = map (\<lambda>x. (key x, x)) xs"
proof -
  have "distinct (map fst d @ map key xs) \<Longrightarrow> fold (\<lambda>x. dict_set (key x) x) xs d = d @ map (\<lambda>x. (key x, x)) xs" for d
  proof (induction xs arbitrary: d)
    case (Cons x xs)
    have "dict_set (key x) x d = d @ [(key x, x)]" using Cons.prems by (intro dict_set_fresh) (auto simp: map_of_eq_None_iff)
    then show ?case using Cons.prems Cons.IH [of "d @ [(key x, x)]"] by auto
  qed simp
  from this [of "[]"] show "distinct (map key xs) \<Longrightarrow> ?thesis" by (simp add: dict_of_def)
qed

lemma sorted_values_length [simp]: "length (sorted_values d) = length d"
  by (simp add: sorted_values_def)

lemma slot_fields: "slot_of t = (fst t, fst (snd t), fst (snd (snd t)))"
  by (simp add: slot_of_def case_prod_beta)

lemma targets_slots: "targets required o' = filter (\<lambda>t. fst (snd (slot_of t)) = ob_role o' \<and> snd (snd (slot_of t)) \<in> set (ob_required_ordinals o')) required"
  by (simp add: targets_def slot_fields case_prod_unfold)

lemma epoch_of_slot: "epoch_of required s \<noteq> None \<longleftrightarrow> s \<in> slot_of ` set required"
proof -
  have "epoch_of required = map_of (map (\<lambda>t. (slot_of t, snd (snd (snd t)))) required)"
    by (simp add: epoch_of_def slot_fields case_prod_unfold)
  then show ?thesis by (simp add: map_of_eq_None_iff image_image)
qed

text \<open>As many processes as targets: every target has a process.\<close>

lemma complete_targets:
  assumes "observed_ok O' rs st" and "distinct (map slot_of (ov_required O'))" and "map_of (ov_obligations O') i = Some o'"
    and "length (sorted_values (on_effects st i)) = length (targets (ov_required O') o')" and "t \<in> set (targets (ov_required O') o')"
  shows "\<exists>x. map_of (on_effects st i) (slot_of t) = Some x"
proof -
  let ?T = "targets (ov_required O') o'" and ?K = "fst ` set (on_effects st i)"
  have "distinct (map slot_of ?T)" using assms(2) by (simp add: targets_slots distinct_map_filter)
  then have T: "card (slot_of ` set ?T) = length ?T" using distinct_card by fastforce
  have "distinct (map fst (on_effects st i))" using assms(1) unfolding observed_ok_def by blast
  then have K: "card ?K = length (on_effects st i)" using distinct_card by fastforce
  have "s \<in> slot_of ` set ?T" if s: "s \<in> ?K" for s
  proof -
    obtain x where "map_of (on_effects st i) s = Some x" using s by (metis map_of_eq_None_iff option.exhaust)
    then have "target_of O' i s" using observed_okD [OF assms(1)] by (simp add: justified_def)
    then obtain t where "t \<in> set (ov_required O')" "slot_of t = s" "fst (snd s) = ob_role o'" "snd (snd s) \<in> set (ob_required_ordinals o')"
      using assms(3) unfolding target_of_def epoch_of_slot by (metis imageE option.inject)
    then show ?thesis by (intro image_eqI [of _ _ t]) (simp_all add: targets_slots)
  qed
  then have "?K \<subseteq> slot_of ` set ?T" by blast
  then have "?K = slot_of ` set ?T" using T K assms(4) by (intro card_subset_eq) simp_all
  then have "slot_of t \<in> ?K" using assms(5) by blast
  then show ?thesis by (metis map_of_eq_None_iff option.exhaust)
qed

lemma required_processes_distinct: "required_processes vs = Inr required \<Longrightarrow> distinct (map slot_of required)"
  by (auto simp: required_processes_def)

lemma obligated_target:
  assumes "set (map slot_of required) = set (obligated h p)" and "o' \<in> set (plan_obligations p)" and "n \<in> set (ob_required_ordinals o')"
  obtains t where "t \<in> set (targets required o')" "slot_of t = (h, ob_role o', n)"
proof -
  have "(h, ob_role o', n) \<in> set (obligated h p)" using assms(2,3) by (auto simp: obligated_def)
  then obtain t where "t \<in> set required" "slot_of t = (h, ob_role o', n)" using assms(1) by (metis imageE set_map)
  then show thesis using assms(3) by (intro that [of t]) (simp_all add: targets_slots)
qed

text \<open>What a call that returns went through.\<close>

lemma observer_res_Inr: "observer_res x s = (Inr y, t) \<longleftrightarrow> x = Inr y \<and> t = s"
  by (cases x) (auto simp: observer_res_def exec_defs)

lemma bind_x_Inr: "bind_x m k s = (Inr y, t) \<longleftrightarrow> (\<exists>x u. m s = (Inr x, u) \<and> k x u = (Inr y, t))"
  by (auto simp: bind_x_def split: prod.splits sum.splits)

lemma guard_x_Inr: "guard_x c e s = (Inr y, t) \<longleftrightarrow> c \<and> t = s"
  by (auto simp: guard_x_def exec_defs)

lemma directory_stat_Inr:
  assumes "catch_x (read_x (directory_stat root)) h s = (Inr y, u)" and "\<And>e s x v. h e s \<noteq> (Inr x, v)"
  shows "\<exists>os. u = s\<lparr>fs_outcomes := os\<rparr>"
proof -
  have "directory_stat root s = (Inr y, u)"
    using assms by (auto simp: catch_x_def read_x_def zoom_x_def split: prod.splits sum.splits)
  moreover have "wp (directory_stat root) (\<lambda>_ u. \<exists>os. u = s\<lparr>fs_outcomes := os\<rparr>) (\<lambda>_ _. True) s"
    unfolding directory_stat_def os_ok_def by (simp, rule wp_os_call) (auto split: option.splits)
  ultimately show ?thesis by (simp add: wp_def)
qed

lemma read_x_Inr: "read_x m s = (Inr y, t) \<longleftrightarrow> m s = (Inr y, t)"
  by (auto simp: read_x_def zoom_x_def split: prod.splits sum.splits)

lemma observe_returns:
  assumes "observe_bound_invocations E env proc gethostname root identity p launch_id controller bindings vs local_host s = (Inr sn, t)"
  obtains required entries bound os records st where
    "required_processes vs = Inr required"
    "bind_entries (dict_of (plugin_id (fe_hash E)) (plan_plugins p)) (dict_of ob_id (plan_obligations p)) bindings [] [] = Inr (entries, bound)"
    "set (map slot_of required) = set (obligated (host_name gethostname local_host) p)"
    "read_events E env root (Some identity) None (s\<lparr>fs_outcomes := os\<rparr>) = (Inr records, t)"
    "observe_records (make_observer E proc p launch_id controller entries required) records no_observation = Inr st"
    "map_res (make_result (make_observer E proc p launch_id controller entries required)
        (dict_of (plugin_id (fe_hash E)) (plan_plugins p)) bound st) (dict_of ob_id (plan_obligations p)) = Inr (sn_obligations sn)"
    "sn_complete_coverage sn = list_all (\<lambda>(i, x). br_complete_coverage x) (sn_obligations sn)"
proof -
  note d = assms [unfolded observe_bound_invocations_def Let_def then_x_def bind_x_Inr observer_res_Inr guard_x_Inr read_x_Inr]
  show thesis using d that
    by (auto simp: bind_x_Inr observer_res_Inr guard_x_Inr read_x_Inr return_x_def raise_x_def dest!: directory_stat_Inr)
qed

lemma result_of:
  assumes "map_res f xs = Inr ys" and "x \<in> set xs"
  shows "\<exists>y \<in> set ys. f x = Inr y"
  using assms by (induction xs arbitrary: ys) auto

lemma complete_result:
  assumes "map_res (make_result O' plugins bound st) obligations = Inr results" and "(i, o') \<in> set obligations"
    and "list_all (\<lambda>(i, x). br_complete_coverage x) results"
  shows "length (sorted_values (on_effects st i)) = length (targets (ov_required O') o')"
  using result_of [OF assms(1,2)] assms(3) by (auto simp: make_result_def Let_def list_all_iff)

lemma result_targets:
  assumes "map_res (make_result O' plugins bound st) obligations = Inr results" and "(i, o') \<in> set obligations"
  shows "targets (ov_required O') o' \<noteq> []"
  using result_of [OF assms] by (auto simp: make_result_def Let_def)

lemma bind_entries_sound:
  assumes "bind_entries plugins obligations bs [] [] = Inr (entries, bound)" and "map_of entries e = Some b"
  shows "b \<in> set bs \<and> entry_of b = e"
proof -
  have "bind_entries plugins obligations bs xs ys = Inr (entries, bound) \<Longrightarrow> map_of entries e = Some b \<Longrightarrow>
      b \<in> set bs \<and> entry_of b = e \<or> map_of xs e = Some b" for xs ys
  proof (induction bs arbitrary: xs ys)
    case (Cons c bs)
    then have "bind_entries plugins obligations bs (dict_set (entry_of c) c xs) (dict_set (eb_obligation c) c ys) = Inr (entries, bound)" by auto
    from Cons.IH [OF this Cons.prems(2)] show ?case by (auto split: if_splits)
  qed simp
  from this [OF assms] show ?thesis by simp
qed

end
