(* ===== verification/Observer_Theorems.thy ===== *)
theory Observer_Theorems
  imports Observer_Properties Sink_Theorems
begin

text \<open>
  Properties of the observer of effects: what complete coverage means, and obligations without ordinals.
\<close>

section \<open>An example\<close>

lemma example_ticks: "parse_linux_start_ticks ''5 (p) S 1 1 1 0 0 0 0 0 0 0 0 0 0 0 20 0 1 0 9 0'' = Inr 9"
  by code_simp

lemma example_argv: "filter (\<lambda>part. part \<noteq> []) (split_char (CHR 0x00) [CHR ''a'', CHR 0x00, CHR ''b'', CHR 0x00]) = [''a'', ''b'']"
  by simp

lemma example_identity: "show_int 5 = ''5''" "show_int 9 = ''9''"
  by code_simp+

definition example_view :: proc_view where
  "example_view = \<lparr>pv_stat = Some ''5 (p) S 1 1 1 0 0 0 0 0 0 0 0 0 0 0 20 0 1 0 9 0'', pv_cmdline = Some [CHR ''a'', CHR 0x00, CHR ''b'', CHR 0x00],
     pv_stat_again = Some ''5 (p) S 1 1 1 0 0 0 0 0 0 0 0 0 0 0 20 0 1 0 9 0''\<rparr>"

lemma example_process: "read_linux_process_identity example_view 5 ''pid:5:start_ticks:9'' =
    Inr \<lparr>li_pid = 5, li_start_ticks = 9, li_start_identity = ''pid:5:start_ticks:9'', li_argv = [''a'', ''b'']\<rparr>"
  by (simp add: read_linux_process_identity_def example_view_def need_read_def example_ticks example_argv example_identity guard_res_def Let_def del: split_char.simps)

definition example_obligation :: evidence_obligation where
  "example_obligation = \<lparr>ob_id = ''o1'', ob_role = ''r'', ob_event = ''invoked'', ob_required_ordinals = [0]\<rparr>"

definition idle_obligation :: evidence_obligation where
  "idle_obligation = \<lparr>ob_id = ''o2'', ob_role = ''r'', ob_event = ''invoked'', ob_required_ordinals = []\<rparr>"

definition example_plan :: plan where
  "example_plan = demo_plan\<lparr>plan_obligations := [example_obligation]\<rparr>"

definition example_required :: "json list" where
  "example_required = [JObj [(''host'', JStr ''h''), (''role'', JStr ''r''), (''ordinal'', JInt 0), (''process_epoch'', JInt 1)]]"

definition example_files :: files where
  "example_files = sink_files\<lparr>fs_dir := (\<lambda>d. if d = ''/s'' then Some \<lparr>dr_canonical = True, dr_private = True, dr_identity = (1, 10),
     dr_entries = [(''x.jsonl'', \<lparr>fn_device = 1, fn_inode = 20, fn_regular = True, fn_owned = True, fn_mode = 384,
       fn_raw = dumps True loader_event @ [CHR 0x0A]\<rparr>)]\<rparr> else None)\<rparr>"

lemma example_read: "fst (read_events sink_env sink_vars ''/s'' (Some (1, 10)) None example_files) =
    Inr [\<lparr>je_journal = ''x.jsonl'', je_line_number = 1, je_raw = dumps True loader_event, je_event = canon loader_event\<rparr>]"
proof -
  have o: "fs_outcomes example_files = []" by (simp add: example_files_def sink_files_def)
  have ne: "dumps True loader_event \<noteq> []" by (simp add: loader_event_def)
  have n: "journal_names example_files ''/s'' = [''x.jsonl'']"
    by (simp add: journal_names_def dir_entries_def example_files_def ends_with_def)
  have l: "splitlines (dumps True loader_event @ [CHR 0x0A]) = [dumps True loader_event]"
    by (rule splitlines_line [OF dumps_printable ne])
  show ?thesis unfolding read_events_iff [OF o] n
    using l ne loader_event_parses by (simp add: readable_def journal_events_def entry_def example_files_def complete_lines_def good_line_def
      line_event_def attributes_def may_open_def event_ids_def)
qed

lemma example_required_ok: "required_processes example_required = Inr [(''h'', ''r'', 0, 1)]"
proof -
  have "strip ''h'' = ''h''" "strip ''r'' = ''r''" by code_simp+
  then show ?thesis
    by (simp add: required_processes_def example_required_def required_process_def is_object_def trimmed_def nonempty_string_def nonneg_integer_def
      jstr_def jint_def guard_res_def)
qed

lemma example_snapshot: "\<exists>sn t. observe_bound_invocations sink_env sink_vars (\<lambda>_. example_view) ''h'' ''/s'' (1, 10) example_plan ''l'' ''c''
     [loader_binding] example_required None example_files = (Inr sn, t) \<and> sn_complete_coverage sn"
proof -
  obtain t where read: "read_events sink_env sink_vars ''/s'' (Some (1, 10)) None example_files =
      (Inr [\<lparr>je_journal = ''x.jsonl'', je_line_number = 1, je_raw = dumps True loader_event, je_event = canon loader_event\<rparr>], t)"
    using example_read by (metis prod.collapse)
  have stat: "directory_stat ''/s'' example_files = (Inr (1, 10), example_files)"
    by (simp add: directory_stat_def os_ok_def os_call_def exec_defs example_files_def sink_files_def)
  have id: "plan_id (fe_hash sink_env) q = ''plan:sha256:'' @ replicate 64 CHR ''0''" for q by (simp add: plan_id_def content_id_def sink_env_def)
  have bind: "bind_entries (dict_of (plugin_id (fe_hash sink_env)) (plan_plugins example_plan)) (dict_of ob_id (plan_obligations example_plan)) [loader_binding] [] []
      = Inr ([((''g'', ''n'', ''v''), loader_binding)], [(''o1'', loader_binding)])"
    by (simp add: dict_of_def example_plan_def example_obligation_def demo_plan_def loader_binding_def entry_of_def guard_res_def)
  let ?O = "make_observer sink_env (\<lambda>_. example_view) example_plan ''l'' ''c'' [((''g'', ''n'', ''v''), loader_binding)] [(''h'', ''r'', 0, 1)]"
  obtain st where st: "observe_records ?O [\<lparr>je_journal = ''x.jsonl'', je_line_number = 1, je_raw = dumps True loader_event, je_event = canon loader_event\<rparr>]
      no_observation = Inr st" "length (on_effects st ''o1'') = 1"
    by (simp add: observe_record_def bound_record_def make_observer_def loader_event_fields id record_entry_def record_slot_def jstr_def jint_def
      loader_binding_def example_plan_def example_obligation_def dict_of_def epoch_of_def observe_effect_def example_process no_observation_def guard_res_def Let_def)
  obtain results where res: "map_res (make_result ?O (dict_of (plugin_id (fe_hash sink_env)) (plan_plugins example_plan)) [(''o1'', loader_binding)] st)
      (dict_of ob_id (plan_obligations example_plan)) = Inr results" "list_all (\<lambda>(i, x). br_complete_coverage x) results"
    using st(2) by (simp add: make_result_def dict_of_def example_plan_def example_obligation_def need_key_def loader_binding_def demo_plan_def
      make_observer_def targets_def guard_res_def Let_def)
  have slots: "set (map slot_of [(''h'', ''r'', 0, 1)]) = set (obligated ''h'' example_plan)" "set (map fst [(''o1'', loader_binding)]) = set (map fst (dict_of ob_id (plan_obligations example_plan)))"
    by (simp_all add: slot_of_def obligated_def example_plan_def example_obligation_def dict_of_def)
  show ?thesis unfolding observe_bound_invocations_def Let_def
    by (simp add: example_required_ok bind slots [simplified] stat read st(1) res bind_x_def then_x_def observer_res_def return_x_def guard_x_def host_name_def catch_x_def read_x_def zoom_x_def
      del: One_nat_def bind_entries.simps observe_records.simps map_res.simps)
qed

section \<open>Complete coverage\<close>

text \<open>
  C10. A snapshot that reports complete coverage is justified: for every ordinal that an obligation of the plan requires,
  the journals that were read have an \<open>invoked\<close> event for it, bound to the plan, the launch and the entry point of the
  obligation, of the required process on this host in the required epoch, whose process was alive with the start
  identity of the event when the record was examined; and no process covers two places of the plan.
\<close>

theorem complete_coverage_justified:
  assumes "observe_bound_invocations E env proc gethostname root identity p launch_id controller bindings vs local_host s = (Inr sn, t)"
    and "sn_complete_coverage sn" and "distinct (map ob_id (plan_obligations p))"
  shows "\<exists>os records required live. required_processes vs = Inr required
     \<and> read_events E env root (Some identity) None (s\<lparr>fs_outcomes := os\<rparr>) = (Inr records, t)
     \<and> (\<forall>o' \<in> set (plan_obligations p). \<forall>n \<in> set (ob_required_ordinals o').
          let place = (host_name gethostname local_host, ob_role o', n) in
          \<exists>r \<in> set records. \<exists>b. let v = je_event r; q = jfield v ''process'' in
            jfield v ''event'' = JStr ''invoked'' \<and> jfield v ''binding_status'' = JStr ''bound''
            \<and> jfield v ''plan_id'' = JStr (plan_id (fe_hash E) p) \<and> jfield v ''launch_id'' = JStr launch_id
            \<and> jfield q ''assignment_source'' = JStr ''host'' \<and> record_slot v = place
            \<and> b \<in> set bindings \<and> eb_obligation b = ob_id o' \<and> record_entry v = entry_of b
            \<and> epoch_of required place = Some (jint (jfield q ''process_epoch''))
            \<and> read_linux_process_identity (proc r) (jint (jfield q ''pid'')) (jstr (jfield q ''start_identity'')) = Inr (live (ob_id o') place))
     \<and> (\<forall>o1 \<in> set (plan_obligations p). \<forall>o2 \<in> set (plan_obligations p).
          \<forall>n1 \<in> set (ob_required_ordinals o1). \<forall>n2 \<in> set (ob_required_ordinals o2).
          let h = host_name gethostname local_host; l1 = live (ob_id o1) (h, ob_role o1, n1); l2 = live (ob_id o2) (h, ob_role o2, n2) in
          li_pid l1 = li_pid l2 \<and> li_start_ticks l1 = li_start_ticks l2 \<longrightarrow> (ob_role o1, n1) = (ob_role o2, n2))"
proof -
  from observe_returns [OF assms(1)] obtain required entries bound os records st where
    required: "required_processes vs = Inr required"
    and entries: "bind_entries (dict_of (plugin_id (fe_hash E)) (plan_plugins p)) (dict_of ob_id (plan_obligations p)) bindings [] [] = Inr (entries, bound)"
    and slots: "set (map slot_of required) = set (obligated (host_name gethostname local_host) p)"
    and read: "read_events E env root (Some identity) None (s\<lparr>fs_outcomes := os\<rparr>) = (Inr records, t)"
    and loop: "observe_records (make_observer E proc p launch_id controller entries required) records no_observation = Inr st"
    and results: "map_res (make_result (make_observer E proc p launch_id controller entries required) (dict_of (plugin_id (fe_hash E)) (plan_plugins p)) bound st) (dict_of ob_id (plan_obligations p)) = Inr (sn_obligations sn)"
    and complete: "sn_complete_coverage sn = list_all (\<lambda>(i, x). br_complete_coverage x) (sn_obligations sn)" by metis
  let ?h = "host_name gethostname local_host" and ?O = "make_observer E proc p launch_id controller entries required"
  define live where "live i place = op_linux (the (map_of (on_effects st i) place))" for i place
  have ok: "observed_ok ?O (rev records) st" by (rule observe_all_ok [OF loop])
  have d: "distinct (map slot_of (ov_required ?O))" using required_processes_distinct [OF required] by (simp add: make_observer_def)
  have found: "justified ?O (rev records) st (ob_id o') (?h, ob_role o', n) (the (map_of (on_effects st (ob_id o')) (?h, ob_role o', n)))"
    if o': "o' \<in> set (plan_obligations p)" and n: "n \<in> set (ob_required_ordinals o')" for o' n
  proof -
    have i: "(ob_id o', o') \<in> set (dict_of ob_id (plan_obligations p))" using o' by (simp add: dict_of_distinct [OF assms(3)])
    then have m: "map_of (ov_obligations ?O) (ob_id o') = Some o'"
      using assms(3) by (simp add: make_observer_def dict_of_distinct [OF assms(3)] comp_def)
    have "length (sorted_values (on_effects st (ob_id o'))) = length (targets required o')"
      using complete_result [OF results i] assms(2) complete by (simp add: make_observer_def)
    moreover obtain u where u: "u \<in> set (targets required o')" "slot_of u = (?h, ob_role o', n)"
      using obligated_target [OF slots o' n] by blast
    ultimately obtain x where "map_of (on_effects st (ob_id o')) (?h, ob_role o', n) = Some x"
      using complete_targets [OF ok d m, of u] by (auto simp: make_observer_def)
    then show ?thesis using observed_okD [OF ok] by simp
  qed
  show ?thesis
  proof (intro exI conjI ballI)
    show "required_processes vs = Inr required" "read_events E env root (Some identity) None (s\<lparr>fs_outcomes := os\<rparr>) = (Inr records, t)"
      by (rule required, rule read)
  next
    fix o' n assume o': "o' \<in> set (plan_obligations p)" "n \<in> set (ob_required_ordinals o')"
    from found [OF o'] obtain r where r: "r \<in> set records"
      and c: "covers ?O r (ob_id o') (?h, ob_role o', n) (the (map_of (on_effects st (ob_id o')) (?h, ob_role o', n)))"
      by (auto simp: justified_def)
    then obtain b where b: "map_of entries (record_entry (je_event r)) = Some b" "eb_obligation b = ob_id o'" by (auto simp: covers_def make_observer_def Let_def)
    then have "b \<in> set bindings" "entry_of b = record_entry (je_event r)" using bind_entries_sound [OF entries] by auto
    then show "let place = (?h, ob_role o', n) in
          \<exists>r \<in> set records. \<exists>b. let v = je_event r; q = jfield v ''process'' in
            jfield v ''event'' = JStr ''invoked'' \<and> jfield v ''binding_status'' = JStr ''bound''
            \<and> jfield v ''plan_id'' = JStr (plan_id (fe_hash E) p) \<and> jfield v ''launch_id'' = JStr launch_id
            \<and> jfield q ''assignment_source'' = JStr ''host'' \<and> record_slot v = place
            \<and> b \<in> set bindings \<and> eb_obligation b = ob_id o' \<and> record_entry v = entry_of b
            \<and> epoch_of required place = Some (jint (jfield q ''process_epoch''))
            \<and> read_linux_process_identity (proc r) (jint (jfield q ''pid'')) (jstr (jfield q ''start_identity'')) = Inr (live (ob_id o') place)"
      unfolding Let_def using r b(2) c by (intro bexI [of _ r] exI [of _ b]) (auto simp: covers_def make_observer_def bound_record_def live_def Let_def)
  next
    fix o1 o2 n1 n2 assume o1: "o1 \<in> set (plan_obligations p)" "n1 \<in> set (ob_required_ordinals o1)"
      and o2: "o2 \<in> set (plan_obligations p)" "n2 \<in> set (ob_required_ordinals o2)"
    have "map_of (on_linux_slots st) (linux_key (?h, ob_role o1, n1) (live (ob_id o1) (?h, ob_role o1, n1))) = Some (?h, ob_role o1, n1)"
      "map_of (on_linux_slots st) (linux_key (?h, ob_role o2, n2) (live (ob_id o2) (?h, ob_role o2, n2))) = Some (?h, ob_role o2, n2)"
      using found [OF o1] found [OF o2] by (simp_all add: justified_def live_def)
    then show "let h = ?h; l1 = live (ob_id o1) (h, ob_role o1, n1); l2 = live (ob_id o2) (h, ob_role o2, n2) in
          li_pid l1 = li_pid l2 \<and> li_start_ticks l1 = li_start_ticks l2 \<longrightarrow> (ob_role o1, n1) = (ob_role o2, n2)"
      by (auto simp: linux_key_def Let_def)
  qed
qed

theorem complete_coverage_justified_witness:
  "\<exists>sn t os records r. observe_bound_invocations sink_env sink_vars (\<lambda>_. example_view) ''h'' ''/s'' (1, 10) example_plan ''l'' ''c''
     [loader_binding] example_required None example_files = (Inr sn, t) \<and> sn_complete_coverage sn
     \<and> read_events sink_env sink_vars ''/s'' (Some (1, 10)) None (example_files\<lparr>fs_outcomes := os\<rparr>) = (Inr records, t) \<and> r \<in> set records
     \<and> jfield (je_event r) ''event'' = JStr ''invoked'' \<and> record_slot (je_event r) = (''h'', ''r'', 0)"
proof -
  obtain sn t where s: "observe_bound_invocations sink_env sink_vars (\<lambda>_. example_view) ''h'' ''/s'' (1, 10) example_plan ''l'' ''c''
     [loader_binding] example_required None example_files = (Inr sn, t)" "sn_complete_coverage sn" using example_snapshot by blast
  have "distinct (map ob_id (plan_obligations example_plan))" by (simp add: example_plan_def)
  from complete_coverage_justified [OF s this] obtain os records where
    read: "read_events sink_env sink_vars ''/s'' (Some (1, 10)) None (example_files\<lparr>fs_outcomes := os\<rparr>) = (Inr records, t)"
    and "\<forall>o' \<in> set (plan_obligations example_plan). \<forall>n \<in> set (ob_required_ordinals o'). \<exists>r \<in> set records.
      jfield (je_event r) ''event'' = JStr ''invoked'' \<and> record_slot (je_event r) = (host_name ''h'' None, ob_role o', n)"
    unfolding Let_def by blast
  then have "\<exists>r \<in> set records. jfield (je_event r) ''event'' = JStr ''invoked'' \<and> record_slot (je_event r) = (''h'', ''r'', 0)"
    by (simp add: example_plan_def example_obligation_def host_name_def)
  then show ?thesis using s read by blast
qed

section \<open>Obligations without ordinals\<close>

text \<open>
  A plan with an obligation that requires no ordinals has no snapshot: the coverage of that obligation divides by the
  number of its targets.
\<close>

theorem no_ordinals_no_snapshot:
  assumes "o' \<in> set (plan_obligations p)" and "ob_required_ordinals o' = []" and "distinct (map ob_id (plan_obligations p))"
  shows "fst (observe_bound_invocations E env proc gethostname root identity p launch_id controller bindings vs local_host s) \<noteq> Inr sn"
proof
  assume "fst (observe_bound_invocations E env proc gethostname root identity p launch_id controller bindings vs local_host s) = Inr sn"
  then obtain t where "observe_bound_invocations E env proc gethostname root identity p launch_id controller bindings vs local_host s = (Inr sn, t)"
    by (metis prod.collapse)
  from observe_returns [OF this] obtain required entries bound st where
    results: "map_res (make_result (make_observer E proc p launch_id controller entries required) (dict_of (plugin_id (fe_hash E)) (plan_plugins p)) bound st)
      (dict_of ob_id (plan_obligations p)) = Inr (sn_obligations sn)" by metis
  have "(ob_id o', o') \<in> set (dict_of ob_id (plan_obligations p))" using assms(1) by (simp add: dict_of_distinct [OF assms(3)])
  from result_targets [OF results this] show False using assms(2) by (simp add: targets_slots)
qed

theorem no_ordinals_no_snapshot_witness:
  "fst (observe_bound_invocations sink_env sink_vars (\<lambda>_. example_view) ''h'' ''/s'' (1, 10)
     (example_plan\<lparr>plan_obligations := [example_obligation, idle_obligation]\<rparr>) ''l'' ''c''
     [loader_binding, loader_binding\<lparr>eb_name := ''m'', eb_obligation := ''o2''\<rparr>] example_required None sink_files) = Inl ZeroDivisionErr
   \<and> (\<nexists>sn. fst (observe_bound_invocations sink_env sink_vars (\<lambda>_. example_view) ''h'' ''/s'' (1, 10)
     (example_plan\<lparr>plan_obligations := [example_obligation, idle_obligation]\<rparr>) ''l'' ''c''
     [loader_binding, loader_binding\<lparr>eb_name := ''m'', eb_obligation := ''o2''\<rparr>] example_required None sink_files) = Inr sn)"
proof (intro conjI notI, goal_cases)
  case 1
  have "fst (read_events sink_env sink_vars ''/s'' (Some (1, 10)) None sink_files) = Inr []"
    by (simp add: read_events_def lift_file_def open_journal_root_def sink_files_def os_ok_def os_as_def os_call_def os_listdir_def exec_defs)
  then obtain t where read: "read_events sink_env sink_vars ''/s'' (Some (1, 10)) None sink_files = (Inr [], t)" by (metis prod.collapse)
  have stat: "directory_stat ''/s'' sink_files = (Inr (1, 10), sink_files)"
    by (simp add: directory_stat_def os_ok_def os_call_def exec_defs sink_files_def)
  show ?case
    by (simp add: observe_bound_invocations_def example_required_ok stat read bind_x_def then_x_def observer_res_def return_x_def raise_x_def
      guard_x_def host_name_def catch_x_def read_x_def zoom_x_def dict_of_def example_plan_def demo_plan_def example_obligation_def idle_obligation_def
      loader_binding_def entry_of_def guard_res_def slot_of_def obligated_def make_result_def make_observer_def need_key_def targets_def Let_def insert_commute)
next
  case 2
  then obtain sn where "fst (observe_bound_invocations sink_env sink_vars (\<lambda>_. example_view) ''h'' ''/s'' (1, 10)
     (example_plan\<lparr>plan_obligations := [example_obligation, idle_obligation]\<rparr>) ''l'' ''c''
     [loader_binding, loader_binding\<lparr>eb_name := ''m'', eb_obligation := ''o2''\<rparr>] example_required None sink_files) = Inr sn" ..
  moreover have "idle_obligation \<in> set (plan_obligations (example_plan\<lparr>plan_obligations := [example_obligation, idle_obligation]\<rparr>))"
    "ob_required_ordinals idle_obligation = []"
    "distinct (map ob_id (plan_obligations (example_plan\<lparr>plan_obligations := [example_obligation, idle_obligation]\<rparr>)))"
    by (simp_all add: idle_obligation_def example_obligation_def)
  note no_ordinals_no_snapshot [OF this]
  ultimately show False by blast
qed

end
