(* ===== verification/Transaction_Model.thy ===== *)
theory Transaction_Model
  imports Prelude
begin

text \<open>
  The finite exposure-transaction abstraction of experiments/transaction\_model/explore.py:
  its states, the transition function with every guard, the invariant checker, and the
  breadth-first exploration with the counts it reports. \<open>tx_step\<close> is the step relation
  the transition function induces.
\<close>

section \<open>States and actions\<close>

datatype phase =
    Ph_PREDECESSOR_OPEN | Ph_CANDIDATE_STAGED | Ph_CANDIDATE_CLOSED | Ph_OPENING
  | Ph_CANDIDATE_OPEN | Ph_DRAINING | Ph_RECOVERING | Ph_ROLLED_BACK | Ph_FAILED_SAFE
  | Ph_SAFETY_UNKNOWN

datatype route = Rt_PREDECESSOR | Rt_CANDIDATE | Rt_CLOSED | Rt_UNKNOWN

record tx_state =
  tx_phase :: phase
  tx_route :: route
  tx_proof_complete :: bool
  tx_lease_valid :: bool
  tx_generation :: int
  tx_open_intent :: bool
  tx_open_receipt :: bool

datatype action =
    Stage | ObserveComplete | CloseCandidate | OpenIntent | OpenEffect | OpenReceipt
  | AdmitRequest | StartDrain | FinishDrain | LoseLease | RenewLease | Crash | Reconcile
  | RollbackStrong | RollbackFailedClosed | RollbackFailedUnknown

definition ACTIONS :: "action list" where
  "ACTIONS = [Stage, ObserveComplete, CloseCandidate, OpenIntent, OpenEffect, OpenReceipt,
     AdmitRequest, StartDrain, FinishDrain, LoseLease, RenewLease, Crash, Reconcile,
     RollbackStrong, RollbackFailedClosed, RollbackFailedUnknown]"

definition initial_state :: tx_state where
  "initial_state = \<lparr>tx_phase = Ph_PREDECESSOR_OPEN, tx_route = Rt_PREDECESSOR,
     tx_proof_complete = False, tx_lease_valid = True, tx_generation = 0,
     tx_open_intent = False, tx_open_receipt = False\<rparr>"

section \<open>The transition function\<close>

definition pre_exposure :: "phase \<Rightarrow> bool" where
  "pre_exposure p \<longleftrightarrow> p \<in> {Ph_PREDECESSOR_OPEN, Ph_CANDIDATE_STAGED, Ph_CANDIDATE_CLOSED}"

definition can_admit :: "tx_state \<Rightarrow> bool" where
  "can_admit s =
     (if tx_route s = Rt_PREDECESSOR then pre_exposure (tx_phase s)
      else tx_route s = Rt_CANDIDATE
        \<and> tx_phase s \<in> {Ph_CANDIDATE_OPEN, Ph_DRAINING}
        \<and> tx_proof_complete s \<and> tx_lease_valid s \<and> tx_generation s = 1
        \<and> tx_open_receipt s)"

definition rollback_phases :: "phase set" where
  "rollback_phases =
     {Ph_CANDIDATE_STAGED, Ph_CANDIDATE_CLOSED, Ph_OPENING, Ph_CANDIDATE_OPEN, Ph_DRAINING}"

text \<open>\<open>None\<close> stands for the exception \<open>RejectedTransition\<close>.\<close>

fun transition :: "tx_state \<Rightarrow> action \<Rightarrow> tx_state option" where
  "transition s Stage =
     (if tx_phase s = Ph_PREDECESSOR_OPEN then Some (s\<lparr>tx_phase := Ph_CANDIDATE_STAGED\<rparr>)
      else None)"
| "transition s ObserveComplete =
     (if tx_phase s \<in> {Ph_CANDIDATE_STAGED, Ph_CANDIDATE_CLOSED} \<and> tx_lease_valid s
      then Some (s\<lparr>tx_proof_complete := True\<rparr>) else None)"
| "transition s CloseCandidate =
     (if tx_phase s = Ph_CANDIDATE_STAGED then Some (s\<lparr>tx_phase := Ph_CANDIDATE_CLOSED\<rparr>)
      else None)"
| "transition s OpenIntent =
     (if tx_phase s = Ph_CANDIDATE_CLOSED \<and> tx_proof_complete s \<and> tx_lease_valid s
      then Some (s\<lparr>tx_phase := Ph_OPENING, tx_open_intent := True\<rparr>) else None)"
| "transition s OpenEffect =
     (if tx_phase s = Ph_OPENING \<and> tx_route s = Rt_PREDECESSOR \<and> tx_open_intent s
         \<and> tx_proof_complete s \<and> tx_lease_valid s
      then Some (s\<lparr>tx_route := Rt_CANDIDATE\<rparr>) else None)"
| "transition s OpenReceipt =
     (if tx_phase s = Ph_OPENING \<and> tx_route s = Rt_CANDIDATE \<and> tx_proof_complete s
         \<and> tx_lease_valid s \<and> tx_open_intent s
      then Some (s\<lparr>tx_phase := Ph_CANDIDATE_OPEN, tx_generation := 1, tx_open_receipt := True\<rparr>)
      else None)"
| "transition s AdmitRequest = (if can_admit s then Some s else None)"
| "transition s StartDrain =
     (if tx_phase s = Ph_CANDIDATE_OPEN then Some (s\<lparr>tx_phase := Ph_DRAINING\<rparr>) else None)"
| "transition s FinishDrain =
     (if tx_phase s = Ph_DRAINING then Some (s\<lparr>tx_phase := Ph_CANDIDATE_OPEN\<rparr>) else None)"
| "transition s LoseLease =
     (if tx_lease_valid s
      then if tx_route s = Rt_CANDIDATE
        then Some (s\<lparr>tx_phase := Ph_SAFETY_UNKNOWN, tx_route := Rt_UNKNOWN,
                     tx_lease_valid := False\<rparr>)
        else Some (s\<lparr>tx_lease_valid := False\<rparr>)
      else None)"
| "transition s RenewLease =
     (if \<not> tx_lease_valid s \<and> pre_exposure (tx_phase s)
      then Some (s\<lparr>tx_lease_valid := True, tx_proof_complete := False\<rparr>) else None)"
| "transition s Crash =
     (if tx_phase s \<in> {Ph_OPENING, Ph_CANDIDATE_OPEN, Ph_DRAINING}
      then Some (s\<lparr>tx_phase := Ph_RECOVERING\<rparr>) else None)"
| "transition s Reconcile =
     (if tx_phase s = Ph_RECOVERING
      then if tx_route s = Rt_UNKNOWN then Some (s\<lparr>tx_phase := Ph_SAFETY_UNKNOWN\<rparr>)
        else if tx_route s = Rt_CANDIDATE \<and> tx_proof_complete s \<and> tx_lease_valid s
        then Some (s\<lparr>tx_phase := Ph_CANDIDATE_OPEN, tx_generation := 1,
                     tx_open_receipt := True\<rparr>)
        else Some (s\<lparr>tx_phase := Ph_FAILED_SAFE, tx_route := Rt_CLOSED\<rparr>)
      else None)"
| "transition s RollbackStrong =
     (if tx_phase s \<in> rollback_phases
      then Some \<lparr>tx_phase = Ph_ROLLED_BACK, tx_route = Rt_PREDECESSOR,
                 tx_proof_complete = tx_proof_complete s, tx_lease_valid = tx_lease_valid s,
                 tx_generation = 0, tx_open_intent = False, tx_open_receipt = False\<rparr>
      else None)"
| "transition s RollbackFailedClosed =
     (if tx_phase s \<in> rollback_phases
      then Some (s\<lparr>tx_phase := Ph_FAILED_SAFE, tx_route := Rt_CLOSED\<rparr>) else None)"
| "transition s RollbackFailedUnknown =
     (if tx_phase s \<in> rollback_phases
      then Some (s\<lparr>tx_phase := Ph_SAFETY_UNKNOWN, tx_route := Rt_UNKNOWN\<rparr>) else None)"

section \<open>The invariant checker\<close>

datatype invariant_error =
    ReceiptLacksProof | EffectBeforeReceipt | LostPredecessorRoute | FailedSafeNotClosed
  | UnknownAdmits | RollbackIdentity | AdmissionLacksAuthority

definition invariant_errors :: "tx_state \<Rightarrow> invariant_error list" where
  "invariant_errors s =
     (if tx_route s = Rt_CANDIDATE \<and> tx_open_receipt s
         \<and> \<not> (tx_proof_complete s \<and> tx_generation s = 1 \<and> tx_open_intent s)
      then [ReceiptLacksProof] else [])
   @ (if tx_route s = Rt_CANDIDATE \<and> \<not> tx_open_receipt s
         \<and> (\<not> tx_proof_complete s \<or> \<not> tx_lease_valid s
            \<or> tx_phase s \<notin> {Ph_OPENING, Ph_RECOVERING} \<or> can_admit s)
      then [EffectBeforeReceipt] else [])
   @ (if pre_exposure (tx_phase s)
         \<and> (tx_route s \<noteq> Rt_PREDECESSOR \<or> tx_generation s \<noteq> 0)
      then [LostPredecessorRoute] else [])
   @ (if tx_phase s = Ph_FAILED_SAFE \<and> (tx_route s \<noteq> Rt_CLOSED \<or> can_admit s)
      then [FailedSafeNotClosed] else [])
   @ (if tx_phase s = Ph_SAFETY_UNKNOWN \<and> can_admit s then [UnknownAdmits] else [])
   @ (if tx_phase s = Ph_ROLLED_BACK
         \<and> (tx_route s \<noteq> Rt_PREDECESSOR \<or> tx_generation s \<noteq> 0 \<or> tx_open_intent s
            \<or> tx_open_receipt s)
      then [RollbackIdentity] else [])
   @ (if can_admit s \<and> tx_route s = Rt_CANDIDATE
         \<and> \<not> (tx_proof_complete s \<and> tx_lease_valid s \<and> tx_open_receipt s)
      then [AdmissionLacksAuthority] else [])"

section \<open>Exploration\<close>

record explore_acc =
  ex_queue :: "(tx_state \<times> nat) list"
  ex_distances :: "(tx_state \<times> nat) list"
  ex_edges :: "(tx_state \<times> action \<times> tx_state) list"
  ex_rejected :: "(tx_state \<times> action) list"
  ex_counterexamples :: "(action \<times> invariant_error list \<times> tx_state \<times> tx_state) list"

definition visit_action :: "tx_state \<Rightarrow> nat \<Rightarrow> explore_acc \<Rightarrow> action \<Rightarrow> explore_acc" where
  "visit_action s depth acc act =
     (case transition s act of
        None \<Rightarrow> acc\<lparr>ex_rejected := List.insert (s, act) (ex_rejected acc)\<rparr>
      | Some t \<Rightarrow>
          (let errors = invariant_errors t;
               acc1 = (if errors \<noteq> []
                       then acc\<lparr>ex_counterexamples :=
                              ex_counterexamples acc @ [(act, errors, s, t)]\<rparr>
                       else acc);
               acc2 = acc1\<lparr>ex_edges := List.insert (s, act, t) (ex_edges acc1)\<rparr>
           in if map_of (ex_distances acc2) t = None
              then acc2\<lparr>ex_distances := dict_set t (Suc depth) (ex_distances acc2),
                        ex_queue := ex_queue acc2 @ [(t, Suc depth)]\<rparr>
              else acc2))"

definition visit_state :: "tx_state \<Rightarrow> nat \<Rightarrow> explore_acc \<Rightarrow> explore_acc" where
  "visit_state s depth acc = foldl (visit_action s depth) acc ACTIONS"

partial_function (option) explore_loop :: "explore_acc \<Rightarrow> explore_acc option" where
  "explore_loop acc =
     (case ex_queue acc of
        [] \<Rightarrow> Some acc
      | (s, depth) # q \<Rightarrow> explore_loop (visit_state s depth (acc\<lparr>ex_queue := q\<rparr>)))"

definition explore_start :: explore_acc where
  "explore_start = \<lparr>ex_queue = [(initial_state, 0)], ex_distances = [(initial_state, 0)],
     ex_edges = [], ex_rejected = [], ex_counterexamples = []\<rparr>"

record explore_report =
  rep_actions :: nat
  rep_reachable_states :: nat
  rep_valid_edges :: nat
  rep_rejected_pairs :: nat
  rep_maximum_shortest_trace_length :: nat
  rep_counterexamples :: "(action \<times> invariant_error list \<times> tx_state \<times> tx_state) list"

definition explore :: "explore_report option" where
  "explore = map_option (\<lambda>acc.
     \<lparr>rep_actions = length ACTIONS,
      rep_reachable_states = length (ex_distances acc),
      rep_valid_edges = length (ex_edges acc),
      rep_rejected_pairs = length (ex_rejected acc),
      rep_maximum_shortest_trace_length = fold max (map snd (ex_distances acc)) 0,
      rep_counterexamples = ex_counterexamples acc\<rparr>) (explore_loop explore_start)"

section \<open>Reachable states and their invariant\<close>

inductive tx_step :: "tx_state \<Rightarrow> tx_state \<Rightarrow> bool" where
  tx_step_action: "transition s act = Some t \<Longrightarrow> tx_step s t"

abbreviation tx_reachable :: "tx_state \<Rightarrow> bool" where
  "tx_reachable \<equiv> reach (\<lambda>s. s = initial_state) tx_step"

fun phase_inv :: "phase \<Rightarrow> tx_state \<Rightarrow> bool" where
  "phase_inv Ph_OPENING s \<longleftrightarrow> tx_route s \<in> {Rt_PREDECESSOR, Rt_CANDIDATE} \<and> tx_open_intent s
     \<and> \<not> tx_open_receipt s \<and> tx_generation s = 0"
| "phase_inv Ph_CANDIDATE_OPEN s \<longleftrightarrow> tx_route s = Rt_CANDIDATE \<and> tx_open_intent s
     \<and> tx_open_receipt s \<and> tx_generation s = 1"
| "phase_inv Ph_DRAINING s \<longleftrightarrow> tx_route s = Rt_CANDIDATE \<and> tx_open_intent s
     \<and> tx_open_receipt s \<and> tx_generation s = 1"
| "phase_inv Ph_RECOVERING s \<longleftrightarrow> tx_route s \<in> {Rt_PREDECESSOR, Rt_CANDIDATE}
     \<and> tx_open_intent s \<and> tx_generation s = (if tx_open_receipt s then 1 else 0)"
| "phase_inv Ph_ROLLED_BACK s \<longleftrightarrow> tx_route s = Rt_PREDECESSOR \<and> tx_generation s = 0
     \<and> \<not> tx_open_intent s \<and> \<not> tx_open_receipt s"
| "phase_inv Ph_FAILED_SAFE s \<longleftrightarrow> tx_route s = Rt_CLOSED"
| "phase_inv Ph_SAFETY_UNKNOWN s \<longleftrightarrow> tx_route s = Rt_UNKNOWN"
| "phase_inv _ s \<longleftrightarrow> tx_route s = Rt_PREDECESSOR \<and> tx_generation s = 0
     \<and> \<not> tx_open_intent s \<and> \<not> tx_open_receipt s"

definition tx_inv :: "tx_state \<Rightarrow> bool" where
  "tx_inv s \<longleftrightarrow> phase_inv (tx_phase s) s
     \<and> (tx_route s = Rt_CANDIDATE \<longrightarrow> tx_proof_complete s \<and> tx_lease_valid s)"

lemma transition_keeps_tx_inv: "tx_inv s \<Longrightarrow> transition s act = Some t \<Longrightarrow> tx_inv t"
  by (cases act; cases "tx_phase s")
     (auto simp: tx_inv_def pre_exposure_def rollback_phases_def split: if_splits)

interpretation tx: step_invariant "\<lambda>s. s = initial_state" tx_step tx_inv
proof unfold_locales
  show "s = initial_state \<Longrightarrow> tx_inv s" for s
    by (simp add: tx_inv_def initial_state_def)
  show "tx_inv s \<Longrightarrow> tx_step s t \<Longrightarrow> tx_inv t" for s t
    by (auto elim!: tx_step.cases intro: transition_keeps_tx_inv)
qed

lemma tx_inv_no_errors: "tx_inv s \<Longrightarrow> invariant_errors s = []"
  by (cases "tx_phase s")
     (auto simp: tx_inv_def invariant_errors_def can_admit_def pre_exposure_def split: if_splits)

section \<open>The exploration enumerates exactly the reachable states\<close>

text \<open>
  The part of the loop that decides which states are visited, without the records of edges,
  rejected pairs and counterexamples.
\<close>

type_synonym bfs = "(tx_state \<times> nat) list \<times> (tx_state \<times> nat) list"

fun bfs_action :: "tx_state \<Rightarrow> nat \<Rightarrow> bfs \<Rightarrow> action \<Rightarrow> bfs" where
  "bfs_action s depth (q, ds) act =
     (case transition s act of
        None \<Rightarrow> (q, ds)
      | Some t \<Rightarrow> if map_of ds t = None then (q @ [(t, Suc depth)], dict_set t (Suc depth) ds)
                  else (q, ds))"

partial_function (option) bfs_loop :: "bfs \<Rightarrow> bfs option" where
  "bfs_loop b =
     (case fst b of
        [] \<Rightarrow> Some b
      | (s, depth) # q \<Rightarrow> bfs_loop (foldl (bfs_action s depth) (q, snd b) ACTIONS))"

declare bfs_loop.simps [code]

definition bfs_of :: "explore_acc \<Rightarrow> bfs" where
  "bfs_of acc = (ex_queue acc, ex_distances acc)"

lemma bfs_of_visit_action:
  "bfs_of (visit_action s depth acc act) = bfs_action s depth (bfs_of acc) act"
  by (auto simp: bfs_of_def visit_action_def Let_def split: option.splits)

lemma bfs_of_visit_state:
  "bfs_of (visit_state s depth acc) = foldl (bfs_action s depth) (bfs_of acc) ACTIONS"
proof -
  have "bfs_of (foldl (visit_action s depth) acc acts) = foldl (bfs_action s depth) (bfs_of acc) acts"
    for acts
    by (induction acts arbitrary: acc) (simp_all add: bfs_of_visit_action)
  then show ?thesis by (simp add: visit_state_def)
qed

lemma explore_loop_follows_bfs:
  assumes "bfs_loop b = Some r" and "bfs_of acc = b"
  shows "\<exists>acc'. explore_loop acc = Some acc' \<and> bfs_of acc' = r"
proof -
  have "\<forall>acc. bfs_of acc = b \<longrightarrow> (\<exists>acc'. explore_loop acc = Some acc' \<and> bfs_of acc' = r)"
  proof (rule bfs_loop.raw_induct
      [where P = "\<lambda>b r. \<forall>acc. bfs_of acc = b \<longrightarrow> (\<exists>acc'. explore_loop acc = Some acc' \<and> bfs_of acc' = r)",
       OF _ assms(1)], intro allI impI)
    fix loop b r acc
    assume IH: "\<And>b r. loop b = Some r \<Longrightarrow>
        \<forall>acc. bfs_of acc = b \<longrightarrow> (\<exists>acc'. explore_loop acc = Some acc' \<and> bfs_of acc' = r)"
      and ret: "(case fst b of [] \<Rightarrow> Some b
                | (s, depth) # q \<Rightarrow> loop (foldl (bfs_action s depth) (q, snd b) ACTIONS)) = Some r"
      and acc: "bfs_of acc = b"
    have q: "fst b = ex_queue acc" "snd b = ex_distances acc"
      using acc by (auto simp: bfs_of_def)
    show "\<exists>acc'. explore_loop acc = Some acc' \<and> bfs_of acc' = r"
    proof (cases "ex_queue acc")
      case Nil
      with ret q acc show ?thesis by (subst explore_loop.simps) simp
    next
      case (Cons sd q')
      obtain s depth where sd: "sd = (s, depth)" by fastforce
      have "bfs_of (visit_state s depth (acc\<lparr>ex_queue := q'\<rparr>))
          = foldl (bfs_action s depth) (q', snd b) ACTIONS"
        by (simp add: bfs_of_visit_state q) (simp add: bfs_of_def)
      with IH ret Cons sd q obtain acc' where
        "explore_loop (visit_state s depth (acc\<lparr>ex_queue := q'\<rparr>)) = Some acc'" "bfs_of acc' = r"
        by fastforce
      with Cons sd show ?thesis by (subst explore_loop.simps) simp
    qed
  qed
  with assms(2) show ?thesis by blast
qed


fun bfs_iter :: "nat \<Rightarrow> bfs \<Rightarrow> bfs" where
  "bfs_iter 0 b = b"
| "bfs_iter (Suc n) ([], ds) = ([], ds)"
| "bfs_iter (Suc n) ((s, depth) # q, ds) = bfs_iter n (foldl (bfs_action s depth) (q, ds) ACTIONS)"




fun valid_actions :: "tx_state \<times> nat \<Rightarrow> nat" where
  "valid_actions (s, _) = length (filter (\<lambda>a. transition s a \<noteq> None) ACTIONS)"

fun bfs_summary :: "bfs \<Rightarrow> bool \<times> nat \<times> nat \<times> nat" where
  "bfs_summary (q, ds) = (q = [], length ds, sum_list (map valid_actions ds),
     fold max (map snd ds) 0)"



lemma bfs_result:
  "bfs_summary (bfs_iter 39 ([(initial_state, 0)], [(initial_state, 0)])) = (True, 39, 102, 8)"
  by code_simp

lemma bfs_iter_loop: "fst (bfs_iter n b) = [] \<Longrightarrow> bfs_loop b = Some (bfs_iter n b)"
proof (induction n b rule: bfs_iter.induct)
  case (1 b)
  then show ?case by (subst bfs_loop.simps) simp
next
  case (2 n ds)
  then show ?case by (subst bfs_loop.simps) simp
next
  case (3 n s depth q ds)
  then show ?case by (subst bfs_loop.simps) simp
qed

definition explored :: "explore_acc \<Rightarrow> tx_state set" where
  "explored acc = fst ` set (ex_distances acc)"

definition settled :: "explore_acc \<Rightarrow> tx_state \<Rightarrow> action \<Rightarrow> bool" where
  "settled acc s act =
     (case transition s act of
        None \<Rightarrow> (s, act) \<in> set (ex_rejected acc)
      | Some t \<Rightarrow> (s, act, t) \<in> set (ex_edges acc) \<and> t \<in> explored acc)"

text \<open>What the records of the exploration say at every moment.\<close>

definition explore_sound :: "explore_acc \<Rightarrow> bool" where
  "explore_sound acc \<longleftrightarrow>
     initial_state \<in> explored acc \<and> (\<forall>s \<in> explored acc. tx_reachable s)
     \<and> distinct (map fst (ex_distances acc))
     \<and> fst ` set (ex_queue acc) \<subseteq> explored acc
     \<and> (\<forall>(s, act, t) \<in> set (ex_edges acc). s \<in> explored acc \<and> transition s act = Some t)
     \<and> (\<forall>(s, act) \<in> set (ex_rejected acc). s \<in> explored acc \<and> transition s act = None)
     \<and> distinct (ex_edges acc) \<and> distinct (ex_rejected acc)
     \<and> ex_counterexamples acc = []"

lemma explored_queue_update [simp]: "explored (acc\<lparr>ex_queue := q\<rparr>) = explored acc"
  by (simp add: explored_def)

lemma settled_queue_update [simp]: "settled (acc\<lparr>ex_queue := q\<rparr>) = settled acc"
  by (simp add: settled_def fun_eq_iff split: option.splits)

lemma tx_reachable_step: "tx_reachable s \<Longrightarrow> transition s act = Some t \<Longrightarrow> tx_reachable t"
  by (rule reach.reach_step) (auto intro: tx_step.intros)

lemma tx_reachable_no_errors: "tx_reachable s \<Longrightarrow> invariant_errors s = []"
  by (rule tx_inv_no_errors) (rule tx.inv_reach)

lemma visit_action_sound:
  assumes "explore_sound acc" and "s \<in> explored acc"
  shows "explore_sound (visit_action s depth acc act)"
proof (cases "transition s act")
  case None
  with assms show ?thesis
    by (auto simp: explore_sound_def explored_def visit_action_def)
next
  case (Some t)
  have "tx_reachable t"
    using assms Some by (auto simp: explore_sound_def intro: tx_reachable_step)
  then have errs: "invariant_errors t = []" by (rule tx_reachable_no_errors)
  show ?thesis
  proof (cases "map_of (ex_distances acc) t")
    case None
    with assms Some errs \<open>tx_reachable t\<close> show ?thesis
      by (auto simp: explore_sound_def explored_def visit_action_def distinct_dict_set)
  next
    case (Some d)
    with assms \<open>transition s act = Some t\<close> errs show ?thesis
      by (auto simp: explore_sound_def explored_def visit_action_def)
  qed
qed

lemma visit_action_grows:
  "explored acc \<subseteq> explored (visit_action s depth acc act)
   \<and> set (ex_edges acc) \<subseteq> set (ex_edges (visit_action s depth acc act))
   \<and> set (ex_rejected acc) \<subseteq> set (ex_rejected (visit_action s depth acc act))"
  by (auto simp: explored_def visit_action_def Let_def split: option.splits)

lemma settled_grows: "settled acc s' act' \<Longrightarrow> settled (visit_action s depth acc act) s' act'"
  using visit_action_grows [of acc s depth act] unfolding settled_def
  by (auto split: option.splits)

lemma visit_action_settles: "settled (visit_action s depth acc act) s act"
proof (cases "transition s act")
  case (Some t)
  then show ?thesis
    by (cases "map_of (ex_distances acc) t")
       (auto simp: settled_def visit_action_def explored_def Let_def
             dest!: map_of_SomeD intro: image_eqI [rotated])
qed (simp add: settled_def visit_action_def)

lemma visit_state_correct:
  assumes "explore_sound acc" and "s \<in> explored acc"
  shows "explore_sound (visit_state s depth acc)"
    and "\<forall>act \<in> set ACTIONS. settled (visit_state s depth acc) s act"
    and "settled acc s' act' \<Longrightarrow> settled (visit_state s depth acc) s' act'"
    and "explored acc \<subseteq> explored (visit_state s depth acc)"
proof -
  have "explore_sound (foldl (visit_action s depth) acc acts)
      \<and> (\<forall>act \<in> set acts. settled (foldl (visit_action s depth) acc acts) s act)
      \<and> (\<forall>s' act'. settled acc s' act' \<longrightarrow> settled (foldl (visit_action s depth) acc acts) s' act')
      \<and> explored acc \<subseteq> explored (foldl (visit_action s depth) acc acts)"
    for acts
  proof (induction acts rule: rev_induct)
    case Nil
    with assms show ?case by simp
  next
    case (snoc act acts)
    let ?acc = "foldl (visit_action s depth) acc acts"
    have "s \<in> explored ?acc" using snoc assms(2) by auto
    with snoc have "explore_sound (visit_action s depth ?acc act)"
      by (auto intro: visit_action_sound)
    with snoc show ?case
      using visit_action_grows [of ?acc s depth act]
      by (auto intro: settled_grows visit_action_settles)
  qed
  then show "explore_sound (visit_state s depth acc)"
    and "\<forall>act \<in> set ACTIONS. settled (visit_state s depth acc) s act"
    and "settled acc s' act' \<Longrightarrow> settled (visit_state s depth acc) s' act'"
    and "explored acc \<subseteq> explored (visit_state s depth acc)"
    by (auto simp: visit_state_def)
qed

definition explore_inv :: "explore_acc \<Rightarrow> bool" where
  "explore_inv acc \<longleftrightarrow> explore_sound acc
     \<and> (\<forall>s \<in> explored acc. s \<in> fst ` set (ex_queue acc) \<or> (\<forall>act \<in> set ACTIONS. settled acc s act))"

lemma visit_action_queues:
  "explored (visit_action s depth acc act)
     \<subseteq> explored acc \<union> fst ` set (ex_queue (visit_action s depth acc act))
   \<and> set (ex_queue acc) \<subseteq> set (ex_queue (visit_action s depth acc act))"
  by (auto simp: explored_def visit_action_def Let_def split: option.splits)

lemma visit_state_queues:
  "explored (visit_state s depth acc)
     \<subseteq> explored acc \<union> fst ` set (ex_queue (visit_state s depth acc))
   \<and> set (ex_queue acc) \<subseteq> set (ex_queue (visit_state s depth acc))"
proof -
  have "explored (foldl (visit_action s depth) acc acts)
       \<subseteq> explored acc \<union> fst ` set (ex_queue (foldl (visit_action s depth) acc acts))
     \<and> set (ex_queue acc) \<subseteq> set (ex_queue (foldl (visit_action s depth) acc acts))" for acts
  proof (induction acts rule: rev_induct)
    case (snoc act acts)
    then show ?case
      using visit_action_queues [of s depth "foldl (visit_action s depth) acc acts" act] by simp blast
  qed simp
  then show ?thesis by (simp add: visit_state_def)
qed

lemma explore_inv_visit:
  assumes inv: "explore_inv acc" and q: "ex_queue acc = (s, depth) # q"
  shows "explore_inv (visit_state s depth (acc\<lparr>ex_queue := q\<rparr>))"
proof -
  let ?acc = "acc\<lparr>ex_queue := q\<rparr>" and ?v = "visit_state s depth (acc\<lparr>ex_queue := q\<rparr>)"
  have sound: "explore_sound ?acc" and s: "s \<in> explored ?acc"
    and old: "s' \<in> explored ?acc \<Longrightarrow> s' \<noteq> s \<Longrightarrow>
      s' \<in> fst ` set q \<or> (\<forall>act \<in> set ACTIONS. settled ?acc s' act)" for s'
    using inv q by (auto simp: explore_inv_def explore_sound_def)
  note visit = visit_state_correct [OF sound s, where depth = depth]
  have "s' \<in> fst ` set (ex_queue ?v) \<or> (\<forall>act \<in> set ACTIONS. settled ?v s' act)"
    if "s' \<in> explored ?v" for s'
  proof (cases "s' \<in> explored ?acc")
    case True
    then show ?thesis
      using old [of s'] visit(2,3) visit_state_queues [of s depth ?acc] by (cases "s' = s") auto
  next
    case False
    then show ?thesis using that visit_state_queues [of s depth ?acc] by auto
  qed
  with visit(1) show ?thesis by (simp add: explore_inv_def)
qed

lemma explore_loop_inv:
  assumes "explore_loop acc = Some acc'" and "explore_inv acc"
  shows "explore_inv acc' \<and> ex_queue acc' = []"
proof -
  have "explore_inv acc \<longrightarrow> explore_inv acc' \<and> ex_queue acc' = []"
  proof (rule explore_loop.raw_induct
      [where P = "\<lambda>acc acc'. explore_inv acc \<longrightarrow> explore_inv acc' \<and> ex_queue acc' = []",
       OF _ assms(1)], intro impI)
    fix loop acc acc'
    assume IH: "\<And>acc acc'. loop acc = Some acc' \<Longrightarrow>
        explore_inv acc \<longrightarrow> explore_inv acc' \<and> ex_queue acc' = []"
      and ret: "(case ex_queue acc of [] \<Rightarrow> Some acc
          | (s, depth) # q \<Rightarrow> loop (visit_state s depth (acc\<lparr>ex_queue := q\<rparr>))) = Some acc'"
      and inv: "explore_inv acc"
    show "explore_inv acc' \<and> ex_queue acc' = []"
    proof (cases "ex_queue acc")
      case Nil
      with ret inv show ?thesis by simp
    next
      case (Cons sd q)
      with ret IH explore_inv_visit [OF inv] show ?thesis
        by (cases sd) fastforce
    qed
  qed
  with assms(2) show ?thesis by blast
qed

lemma explore_inv_start: "explore_inv explore_start"
  by (auto simp: explore_inv_def explore_sound_def explore_start_def explored_def
      intro: reach.reach_init)

lemma all_actions: "act \<in> set ACTIONS"
  by (cases act) (simp_all add: ACTIONS_def)

lemma explored_all_reachable:
  assumes "explore_inv acc" and "ex_queue acc = []"
  shows "explored acc = Collect tx_reachable"
proof
  show "explored acc \<subseteq> Collect tx_reachable"
    using assms by (auto simp: explore_inv_def explore_sound_def)
  have "s \<in> explored acc" if "tx_reachable s" for s
    using that
  proof (induction rule: reach.induct)
    case (reach_init s)
    with assms show ?case by (simp add: explore_inv_def explore_sound_def)
  next
    case (reach_step s t)
    from reach_step.hyps(2) obtain act where "transition s act = Some t"
      by (auto elim: tx_step.cases)
    moreover have "settled acc s act"
      using assms reach_step.IH all_actions by (auto simp: explore_inv_def)
    ultimately show ?case by (simp add: settled_def)
  qed
  then show "Collect tx_reachable \<subseteq> explored acc" by blast
qed

lemma explore_loop_result:
  obtains acc where "explore_loop explore_start = Some acc" "explore_inv acc" "ex_queue acc = []"
    "bfs_summary (bfs_of acc) = (True, 39, 102, 8)"
proof -
  let ?b = "bfs_iter 39 ([(initial_state, 0)], [(initial_state, 0)])"
  have "fst ?b = []" using bfs_result by (cases ?b) simp
  then have "bfs_loop ([(initial_state, 0)], [(initial_state, 0)]) = Some ?b"
    by (rule bfs_iter_loop)
  then obtain acc where acc: "explore_loop explore_start = Some acc" "bfs_of acc = ?b"
    using explore_loop_follows_bfs [of _ ?b explore_start]
    by (auto simp: bfs_of_def explore_start_def)
  then show thesis
    using that explore_loop_inv [OF acc(1) explore_inv_start] bfs_result by metis
qed

lemma explored_edges:
  assumes "explore_inv acc" and "ex_queue acc = []"
  shows "set (ex_edges acc) = {(s, act, t). tx_reachable s \<and> transition s act = Some t}"
    and "set (ex_rejected acc) = {(s, act). tx_reachable s \<and> transition s act = None}"
proof -
  have reached: "s \<in> explored acc \<longleftrightarrow> tx_reachable s" for s
    using explored_all_reachable [OF assms] by blast
  have settled: "settled acc s act" if "tx_reachable s" for s act
    using that assms all_actions reached by (auto simp: explore_inv_def)
  have sound: "explore_sound acc" using assms by (simp add: explore_inv_def)
  have "e \<in> set (ex_edges acc) \<longleftrightarrow> (case e of (s, act, t) \<Rightarrow> tx_reachable s \<and> transition s act = Some t)"
    for e
  proof (cases e)
    case (fields s act t)
    then show ?thesis
      using settled [of s act] sound reached unfolding explore_sound_def settled_def by force
  qed
  then show "set (ex_edges acc) = {(s, act, t). tx_reachable s \<and> transition s act = Some t}"
    by blast
  have "r \<in> set (ex_rejected acc) \<longleftrightarrow> (case r of (s, act) \<Rightarrow> tx_reachable s \<and> transition s act = None)"
    for r
  proof (cases r)
    case (Pair s act)
    then show ?thesis
      using settled [of s act] sound reached unfolding explore_sound_def settled_def by force
  qed
  then show "set (ex_rejected acc) = {(s, act). tx_reachable s \<and> transition s act = None}"
    by blast
qed

lemma distinct_ACTIONS: "distinct ACTIONS"
  by (simp add: ACTIONS_def)

lemma card_actions: "card {act. P act} = length (filter P ACTIONS)"
proof -
  have "{act. P act} = set (filter P ACTIONS)" using all_actions by auto
  then show ?thesis using distinct_card [OF distinct_filter [OF distinct_ACTIONS, of P]] by metis
qed

lemma explored_sum:
  assumes "explore_sound acc"
  shows "(\<Sum>s \<in> explored acc. f s) = sum_list (map (\<lambda>x. f (fst x)) (ex_distances acc))"
proof -
  have "distinct (map fst (ex_distances acc))"
    using assms by (simp add: explore_sound_def)
  then have "(\<Sum>s \<in> set (map fst (ex_distances acc)). f s)
      = sum_list (map f (map fst (ex_distances acc)))"
    by (rule sum_list_distinct_conv_sum_set [symmetric])
  then show ?thesis by (simp add: explored_def comp_def)
qed

lemma card_edges:
  assumes "explore_inv acc" and "ex_queue acc = []"
  shows "length (ex_edges acc) = sum_list (map valid_actions (ex_distances acc))"
    and "length (ex_rejected acc) + length (ex_edges acc) = 16 * length (ex_distances acc)"
proof -
  have sound: "explore_sound acc" using assms by (simp add: explore_inv_def)
  have reached: "explored acc = Collect tx_reachable" by (rule explored_all_reachable [OF assms])
  have fin: "finite (explored acc)" by (simp add: explored_def)
  have finA: "finite {act :: action. P act}" for P
    using finite_subset [of "{act :: action. P act}" "set ACTIONS"] all_actions by auto
  let ?ok = "SIGMA s : explored acc. {act. transition s act \<noteq> None}"
  let ?no = "SIGMA s : explored acc. {act. transition s act = None}"
  have "set (ex_edges acc) = (\<lambda>(s, act). (s, act, the (transition s act))) ` ?ok"
    unfolding explored_edges(1) [OF assms] reached by force
  moreover have "inj_on (\<lambda>(s, act). (s, act, the (transition s act))) ?ok"
    by (auto simp: inj_on_def)
  ultimately have "card (set (ex_edges acc)) = card ?ok"
    by (simp add: card_image)
  then have edges: "length (ex_edges acc) = card ?ok"
    using sound by (simp add: explore_sound_def distinct_card)
  also have "\<dots> = (\<Sum>s \<in> explored acc. length (filter (\<lambda>act. transition s act \<noteq> None) ACTIONS))"
    by (subst card_SigmaI) (simp_all only: fin finA card_actions, simp)
  also have "\<dots> = sum_list (map valid_actions (ex_distances acc))"
    unfolding explored_sum [OF sound] by (intro arg_cong [where f = sum_list] map_cong) auto
  finally show "length (ex_edges acc) = sum_list (map valid_actions (ex_distances acc))" .
  have "set (ex_rejected acc) = ?no"
    unfolding explored_edges(2) [OF assms] reached by auto
  then have no: "length (ex_rejected acc) = card ?no"
    using sound distinct_card [of "ex_rejected acc"] by (simp add: explore_sound_def)
  have "?no \<union> ?ok = explored acc \<times> set ACTIONS" using all_actions by auto
  moreover have "card (?no \<union> ?ok) = card ?no + card ?ok"
    by (rule card_Un_disjoint) (auto simp: fin finA)
  ultimately have "card ?no + card ?ok = card (explored acc \<times> set ACTIONS)" by simp
  also have "card (explored acc) = length (ex_distances acc)"
    using sound distinct_card [of "map fst (ex_distances acc)"]
    by (simp add: explore_sound_def explored_def)
  then have "card (explored acc \<times> set ACTIONS) = 16 * length (ex_distances acc)"
    using distinct_card [OF distinct_ACTIONS] by (simp add: card_cartesian_product ACTIONS_def)
  finally show "length (ex_rejected acc) + length (ex_edges acc) = 16 * length (ex_distances acc)"
    using no edges by simp
qed

section \<open>Properties of the finite transaction model\<close>

lemmas tx_unfold = tx_inv_def can_admit_def pre_exposure_def rollback_phases_def

lemma tx_run:
  "foldl (\<lambda>r act. Option.bind r (\<lambda>s. transition s act)) (Some initial_state) acts = Some t \<Longrightarrow>
   tx_reachable t"
proof (induction acts arbitrary: t rule: rev_induct)
  case Nil
  then show ?case by (auto intro: reach.reach_init)
next
  case (snoc act acts)
  then show ?case by (auto simp: bind_eq_Some_conv intro: tx_reachable_step)
qed

definition tx_opened :: tx_state where
  "tx_opened = initial_state\<lparr>tx_phase := Ph_CANDIDATE_OPEN, tx_route := Rt_CANDIDATE,
     tx_proof_complete := True, tx_generation := 1, tx_open_intent := True, tx_open_receipt := True\<rparr>"

lemma tx_opened_reachable: "tx_reachable tx_opened"
  by (rule tx_run [where acts = "[Stage, ObserveComplete, CloseCandidate, OpenIntent, OpenEffect,
        OpenReceipt]"]) (simp add: initial_state_def tx_opened_def)

lemma tx_terminal_steps:
  assumes "tx_step\<^sup>*\<^sup>* s t" and "tx_reachable s"
    and "tx_phase s \<in> {Ph_ROLLED_BACK, Ph_FAILED_SAFE, Ph_SAFETY_UNKNOWN}"
  shows "tx_phase t = tx_phase s \<and> tx_route t = tx_route s \<and> tx_reachable t"
  using assms(1)
proof (induction rule: rtranclp_induct)
  case base
  with assms show ?case by simp
next
  case (step t u)
  from step.hyps(2) obtain act where act: "transition t act = Some u" by (auto elim: tx_step.cases)
  moreover have "tx_inv t" using step.IH by (blast intro: tx.inv_reach)
  moreover have "tx_reachable u" using act step.IH by (blast intro: tx_reachable_step)
  ultimately show ?case
    using step.IH assms(3) by (cases act; cases "tx_phase t") (auto simp: tx_unfold split: if_splits)
qed

text \<open>
  C14. Every state the transaction model can reach passes its own invariant checker: no action
  sequence, with losses and renewals of the lease, crashes and failed rollbacks in any order,
  leads to a state for which \<open>invariant_errors\<close> reports anything.
\<close>

theorem tx_invariants_hold: "tx_reachable s \<Longrightarrow> invariant_errors s = []"
  by (rule tx_reachable_no_errors)

theorem tx_invariants_hold_witness: "tx_reachable tx_opened \<and> invariant_errors tx_opened = []"
  using tx_invariants_hold [OF tx_opened_reachable] tx_opened_reachable by simp

text \<open>
  A request is admitted to the candidate only with a complete proof, a valid lease, the
  committed generation, and both the open intent and the open receipt on record; and it is
  admitted to the predecessor only before exposure.
\<close>

theorem tx_admission_authorised:
  assumes "tx_reachable s" and "transition s AdmitRequest = Some t"
  shows "t = s \<and> (if tx_route s = Rt_CANDIDATE
     then tx_proof_complete s \<and> tx_lease_valid s \<and> tx_generation s = 1 \<and> tx_open_intent s
       \<and> tx_open_receipt s \<and> tx_phase s \<in> {Ph_CANDIDATE_OPEN, Ph_DRAINING}
     else tx_route s = Rt_PREDECESSOR \<and> pre_exposure (tx_phase s) \<and> \<not> tx_open_intent s)"
  using tx.inv_reach [OF assms(1)] assms(2)
  by (cases "tx_phase s") (auto simp: tx_unfold split: if_splits)

theorem tx_admission_authorised_witness:
  "tx_reachable tx_opened \<and> transition tx_opened AdmitRequest = Some tx_opened
   \<and> tx_open_intent tx_opened"
proof -
  have admit: "transition tx_opened AdmitRequest = Some tx_opened"
    by (simp add: tx_opened_def initial_state_def can_admit_def)
  from tx_admission_authorised [OF tx_opened_reachable admit] show ?thesis
    using admit tx_opened_reachable by (simp add: tx_opened_def split: if_splits)
qed

text \<open>
  C18. The breadth-first exploration terminates, and what it has recorded when it does is exact:
  the visited states are the reachable ones, the edges are the transitions between them, the
  rejected pairs are the state and action pairs the transition function refuses, and there is no
  counterexample.
\<close>

theorem explore_matches_reachability:
  "\<exists>acc. explore_loop explore_start = Some acc
     \<and> set (map fst (ex_distances acc)) = Collect tx_reachable
     \<and> set (ex_edges acc) = {(s, act, t). tx_reachable s \<and> transition s act = Some t}
     \<and> set (ex_rejected acc) = {(s, act). tx_reachable s \<and> transition s act = None}
     \<and> ex_counterexamples acc = []"
proof -
  obtain acc where acc: "explore_loop explore_start = Some acc" "explore_inv acc" "ex_queue acc = []"
    by (rule explore_loop_result)
  then have "ex_counterexamples acc = []" by (simp add: explore_inv_def explore_sound_def)
  with acc(1) explored_all_reachable [OF acc(2,3)] explored_edges [OF acc(2,3)] show ?thesis
    by (auto simp: explored_def)
qed

text \<open>
  The report of the exploration has the values of the checked-in artifact
  result-summary.json: 16 actions, 39 reachable states, 102 valid edges, 522 rejected pairs, a
  longest shortest trace of 8 actions, and no counterexample.
\<close>

theorem explore_reports:
  "explore = Some \<lparr>rep_actions = 16, rep_reachable_states = 39, rep_valid_edges = 102,
     rep_rejected_pairs = 522, rep_maximum_shortest_trace_length = 8, rep_counterexamples = []\<rparr>"
proof -
  obtain acc where acc: "explore_loop explore_start = Some acc" "explore_inv acc" "ex_queue acc = []"
    and summary: "bfs_summary (bfs_of acc) = (True, 39, 102, 8)"
    by (rule explore_loop_result)
  have "ex_counterexamples acc = []" using acc(2) by (simp add: explore_inv_def explore_sound_def)
  with acc summary card_edges [OF acc(2,3)] show ?thesis
    by (simp add: explore_def bfs_of_def ACTIONS_def)
qed

text \<open>
  The three final phases are absorbing: whatever happens after a rollback, a fail-safe or an
  unknown outcome, phase and route stay as they are and no request is admitted.
\<close>

theorem tx_final_phases_absorbing:
  assumes "tx_reachable s" and "tx_step\<^sup>*\<^sup>* s t"
    and "tx_phase s \<in> {Ph_ROLLED_BACK, Ph_FAILED_SAFE, Ph_SAFETY_UNKNOWN}"
  shows "tx_phase t = tx_phase s \<and> tx_route t = tx_route s \<and> transition t AdmitRequest = None"
proof -
  have t: "tx_phase t = tx_phase s" "tx_route t = tx_route s" "tx_inv t"
    using tx_terminal_steps [OF assms(2,1,3)] by (auto intro: tx.inv_reach)
  then have "\<not> can_admit t" using assms(3) by (auto simp: tx_unfold)
  with t show ?thesis by simp
qed

theorem tx_final_phases_absorbing_witness:
  "\<exists>s t. tx_reachable s \<and> tx_phase s = Ph_FAILED_SAFE \<and> tx_step s t \<and> t \<noteq> s
     \<and> transition t AdmitRequest = None"
proof -
  let ?s = "initial_state\<lparr>tx_phase := Ph_FAILED_SAFE, tx_route := Rt_CLOSED\<rparr>"
  let ?t = "?s\<lparr>tx_lease_valid := False\<rparr>"
  have s: "tx_reachable ?s"
    by (rule tx_run [where acts = "[Stage, RollbackFailedClosed]"])
       (simp add: initial_state_def rollback_phases_def)
  have t: "tx_step ?s ?t"
    by (rule tx_step_action [where act = LoseLease]) (simp add: initial_state_def)
  have "transition ?t AdmitRequest = None"
    using tx_final_phases_absorbing [OF s r_into_rtranclp [of tx_step, OF t]] by simp
  with s t show ?thesis by (intro exI [of _ ?s] exI [of _ ?t]) (simp add: initial_state_def)
qed

end
