(* ===== verification/Trace_Oracle.thy ===== *)
theory Trace_Oracle
  imports Exposure_Gate
begin

text \<open>
  The offline oracle over the raw rows of a gate database (\<open>evaluate_trace\<close>) and the export of the
  rows (\<open>export_trace\<close>). An error message of the oracle is a constructor that carries what the
  message interpolates; the admission errors carry the request id. Details of rows are JSON objects,
  as the gate writes them.
\<close>

datatype trace_error =
    TE_missing
  | TE_sequence_gap nat
  | TE_source_mismatch nat "gate_state option" gate_state
  | TE_duplicate_intent string
  | TE_receipt_without_intent string
  | TE_unknown_transition gate_state gate_state
  | TE_generation_mismatch nat
  | TE_unpaired_intents "string list"
  | TE_final_state
  | TE_multiple_open_generations
  | TE_final_route
  | TE_open_snapshot
  | TE_close_snapshot
  | TE_crossed_generation string
  | TE_candidate_before_open string
  | TE_predecessor_after_open string
  | TE_unknown_generation string
  | TE_missing_fence string
  | TE_candidate_fence string
  | TE_predecessor_fence string

record trace_report =
  tp_pass :: bool
  tp_errors :: "trace_error list"
  tp_transition_count :: "nat option"
  tp_admission_count :: "nat option"
  tp_candidate :: "int option"
  tp_predecessor :: "int option"
  tp_first_open_seq :: "nat option"

text \<open>The oracle's own table of legal transitions: the terminal states have no entry, which
  \<open>allowed.get\<close> reads as the empty set.\<close>

fun oracle_allowed :: "gate_state \<Rightarrow> gate_state list" where
  "oracle_allowed PREDECESSOR_OPEN = [CANDIDATE_STAGED, FAILED_SAFE, SAFETY_UNKNOWN]"
| "oracle_allowed CANDIDATE_STAGED = [CANDIDATE_CLOSED, ROLLED_BACK, FAILED_SAFE, SAFETY_UNKNOWN]"
| "oracle_allowed CANDIDATE_CLOSED = [OPENING, ROLLED_BACK, FAILED_SAFE, SAFETY_UNKNOWN]"
| "oracle_allowed OPENING = [CANDIDATE_OPEN, FAILED_SAFE, SAFETY_UNKNOWN]"
| "oracle_allowed CANDIDATE_OPEN = [DRAINING, ROLLED_BACK, FAILED_SAFE, SAFETY_UNKNOWN]"
| "oracle_allowed DRAINING = [CANDIDATE_OPEN]"
| "oracle_allowed _ = []"

definition is_open_receipt :: "transition_row \<Rightarrow> bool" where
  "is_open_receipt r \<longleftrightarrow> tr_kind r = ''receipt'' \<and> tr_to r = Some CANDIDATE_OPEN
     \<and> take 4 (tr_operation r) = ''open''"

definition open_receipts :: "transition_row list \<Rightarrow> transition_row list" where
  "open_receipts rows = filter is_open_receipt rows"

section \<open>Replay of the transition rows\<close>

record replay =
  re_expected_seq :: nat
  re_state :: gate_state
  re_pending :: "(string \<times> nat) list"

definition replay_start :: replay where
  "replay_start = \<lparr>re_expected_seq = 1, re_state = PREDECESSOR_OPEN, re_pending = []\<rparr>"

definition replay_next :: "transition_row \<Rightarrow> replay \<Rightarrow> replay" where
  "replay_next row a =
     \<lparr>re_expected_seq = tr_seq row + 1,
      re_state = (case tr_to row of None \<Rightarrow> re_state a | Some t \<Rightarrow> t),
      re_pending =
        (if tr_kind row = ''intent'' then dict_set (tr_operation_id row) (tr_seq row) (re_pending a)
         else if tr_kind row = ''receipt'' \<and> tr_operation row \<noteq> ''stage''
         then filter (\<lambda>kv. fst kv \<noteq> tr_operation_id row) (re_pending a)
         else re_pending a)\<rparr>"

definition replay_errors :: "int option \<Rightarrow> transition_row \<Rightarrow> replay \<Rightarrow> trace_error list" where
  "replay_errors candidate row a =
     (if tr_seq row \<noteq> re_expected_seq a then [TE_sequence_gap (re_expected_seq a)] else [])
     @ (if tr_from row \<noteq> Some (re_state a) then [TE_source_mismatch (tr_seq row) (tr_from row) (re_state a)]
        else [])
     @ (if tr_kind row = ''intent''
        then (if tr_operation_id row \<in> fst ` set (re_pending a)
              then [TE_duplicate_intent (tr_operation_id row)] else [])
        else if tr_kind row = ''receipt'' \<and> tr_operation row \<noteq> ''stage''
        then (if tr_operation_id row \<notin> fst ` set (re_pending a)
              then [TE_receipt_without_intent (tr_operation_id row)] else [])
        else [])
     @ (case tr_to row of None \<Rightarrow> []
        | Some t \<Rightarrow> if t \<noteq> re_state a \<and> t \<notin> set (oracle_allowed (re_state a))
                   then [TE_unknown_transition (re_state a) t] else [])
     @ (case candidate of None \<Rightarrow> []
        | Some c \<Rightarrow> if tr_generation row \<noteq> c then [TE_generation_mismatch (tr_seq row)] else [])"

fun replay_rows :: "int option \<Rightarrow> transition_row list \<Rightarrow> replay \<Rightarrow> replay \<times> trace_error list" where
  "replay_rows candidate [] a = (a, [])"
| "replay_rows candidate (row # rows) a =
     (fst (replay_rows candidate rows (replay_next row a)),
      replay_errors candidate row a @ snd (replay_rows candidate rows (replay_next row a)))"

section \<open>Snapshots, requests and admissions\<close>

definition open_snapshot_errors :: "string \<Rightarrow> transition_row list \<Rightarrow> trace_error list" where
  "open_snapshot_errors digest receipts =
     concat (map (\<lambda>r. if jget ''observed_candidate_digest'' (tr_detail r) \<noteq> Some (JStr digest)
                      then [TE_open_snapshot] else []) receipts)"

definition close_observation :: "transition_row \<Rightarrow> json option" where
  "close_observation r =
     (if op_kind ''close'' ''receipt'' r \<and> jget ''cancelled'' (tr_detail r) = None
      then (case jget ''observed_predecessor_digest'' (tr_detail r) of
              None \<Rightarrow> None | Some v \<Rightarrow> if v = JNull then None else Some v)
      else None)"

definition close_snapshot_errors :: "string \<Rightarrow> transition_row list \<Rightarrow> trace_error list" where
  "close_snapshot_errors digest rows =
     concat (map (\<lambda>r. case close_observation r of None \<Rightarrow> []
        | Some v \<Rightarrow> if v \<noteq> JStr digest then [TE_close_snapshot] else []) rows)"

fun crossed_errors :: "(string \<times> int) list \<Rightarrow> event_row list \<Rightarrow> trace_error list" where
  "crossed_errors seen [] = []"
| "crossed_errors seen (e # es) =
     (case map_of seen (ev_request_id e) of
        None \<Rightarrow> crossed_errors (dict_set (ev_request_id e) (ev_chosen_generation e) seen) es
      | Some prior \<Rightarrow>
          (if prior \<noteq> ev_chosen_generation e then [TE_crossed_generation (ev_request_id e)] else [])
          @ crossed_errors seen es)"

definition admission_errors ::
  "int option \<Rightarrow> int option \<Rightarrow> nat option \<Rightarrow> string option \<Rightarrow> admission_row \<Rightarrow> trace_error list" where
  "admission_errors candidate predecessor first_open_seq ofence a =
     (let g = Some (ad_chosen_generation a); rid = ad_request_id a in
      (if candidate \<noteq> None \<and> g = candidate
          \<and> (case first_open_seq of None \<Rightarrow> True | Some n \<Rightarrow> ad_transition_seq a < n)
       then [TE_candidate_before_open rid] else [])
      @ (if predecessor \<noteq> None \<and> g = predecessor
          \<and> (case first_open_seq of None \<Rightarrow> False | Some n \<Rightarrow> ad_transition_seq a \<ge> n)
         then [TE_predecessor_after_open rid] else [])
      @ (if g \<noteq> candidate \<and> g \<noteq> predecessor then [TE_unknown_generation rid] else [])
      @ (if ad_route_epoch a = [] then [TE_missing_fence rid] else [])
      @ (if g = candidate \<and> Some (ad_route_epoch a) \<noteq> ofence then [TE_candidate_fence rid] else [])
      @ (if g = predecessor \<and> ad_route_epoch a \<noteq> fence_of (ad_chosen_generation a)
         then [TE_predecessor_fence rid] else []))"

section \<open>The oracle\<close>

definition sorted_admissions :: "gate_db \<Rightarrow> admission_row list" where
  "sorted_admissions d = sort_key ad_admitted_at (gd_admission d)"

definition evaluate_trace :: "gate_db \<Rightarrow> gate_error + trace_report" where
  "evaluate_trace d =
     (let rows = gd_transition d; receipts = open_receipts rows; state = gd_state d;
          candidate = map_option gr_candidate_generation state;
          predecessor = map_option gr_predecessor_generation state;
          first_open_seq = (case receipts of [] \<Rightarrow> None | r # _ \<Rightarrow> Some (tr_seq r));
          ofence = (case receipts of [] \<Rightarrow> None | r # _ \<Rightarrow> tr_fence r);
          final = fst (replay_rows candidate rows replay_start);
          observed_close = filter (\<lambda>r. close_observation r \<noteq> None) rows in
      if state = None \<and> (receipts \<noteq> [] \<or> observed_close \<noteq> []) then Inl (PyError TypeError)
      else
       (let errors =
          (if state = None \<or> rows = [] then [TE_missing] else [])
          @ snd (replay_rows candidate rows replay_start)
          @ (if re_pending final \<noteq> [] then [TE_unpaired_intents (sort (map fst (re_pending final)))] else [])
          @ (case state of None \<Rightarrow> [] | Some r \<Rightarrow> if re_state final \<noteq> gr_state r then [TE_final_state] else [])
          @ (if card (set (map tr_generation receipts)) > 1 then [TE_multiple_open_generations] else [])
          @ (case state of None \<Rightarrow> []
             | Some r \<Rightarrow> if gr_state r = CANDIDATE_OPEN
                 \<and> (gr_route_generation r \<noteq> candidate \<or> Some (gr_route_fence r) \<noteq> ofence
                    \<or> gr_observed_candidate_digest r \<noteq> Some (gr_candidate_digest r))
                 then [TE_final_route] else [])
          @ (case state of None \<Rightarrow> [] | Some r \<Rightarrow> open_snapshot_errors (gr_candidate_digest r) receipts)
          @ (case state of None \<Rightarrow> [] | Some r \<Rightarrow> close_snapshot_errors (gr_predecessor_digest r) rows)
          @ crossed_errors [] (gd_event d)
          @ concat (map (admission_errors candidate predecessor first_open_seq ofence)
                     (sorted_admissions d)) in
        Inr \<lparr>tp_pass = (errors = []), tp_errors = errors,
             tp_transition_count = (if rows = [] then None else Some (length rows)),
             tp_admission_count = (if gd_admission d = [] then None else Some (length (gd_admission d))),
             tp_candidate = candidate, tp_predecessor = predecessor,
             tp_first_open_seq = first_open_seq\<rparr>))"

section \<open>Export\<close>

definition opt_state :: "gate_state option \<Rightarrow> json" where
  "opt_state x = (case x of None \<Rightarrow> JNull | Some s \<Rightarrow> JStr (gate_state_value s))"

definition export_transition :: "transition_row \<Rightarrow> json" where
  "export_transition r = JObj [(''seq'', JInt (int (tr_seq r))), (''generation'', JInt (tr_generation r)),
     (''kind'', JStr (tr_kind r)), (''operation'', JStr (tr_operation r)),
     (''operation_id'', JStr (tr_operation_id r)), (''from_state'', opt_state (tr_from r)),
     (''to_state'', opt_state (tr_to r)), (''fence'', opt_string (tr_fence r)), (''at'', JInt (tr_at r)),
     (''detail'', tr_detail r), (''classification'', JStr ''synthetic/reference'')]"

definition export_admission :: "admission_row \<Rightarrow> json" where
  "export_admission a = JObj [(''request_id'', JStr (ad_request_id a)),
     (''route_epoch'', JStr (ad_route_epoch a)), (''chosen_generation'', JInt (ad_chosen_generation a)),
     (''admitted_at'', JInt (ad_admitted_at a)), (''finished_at'', opt_int (ad_finished_at a)),
     (''result'', opt_string (ad_result a)), (''abort'', opt_string (ad_abort a)),
     (''transition_seq'', JInt (int (ad_transition_seq a))), (''type'', JStr ''admission''),
     (''classification'', JStr ''synthetic/reference'')]"

definition export_event :: "event_row \<Rightarrow> json" where
  "export_event e = JObj [(''seq'', JInt (int (ev_seq e))), (''request_id'', JStr (ev_request_id e)),
     (''kind'', JStr (ev_kind e)), (''chosen_generation'', JInt (ev_chosen_generation e)),
     (''route_epoch'', JStr (ev_route_epoch e)), (''at'', JInt (ev_at e)),
     (''transition_seq'', JInt (int (ev_transition_seq e))), (''detail'', ev_detail e),
     (''type'', JStr ''admission_event''), (''classification'', JStr ''synthetic/reference'')]"

definition export_trace :: "gate_db \<Rightarrow> json list" where
  "export_trace d = map export_transition (gd_transition d) @ map export_admission (sorted_admissions d)
     @ map export_event (gd_event d)"

end
