(* ===== verification/Gate_Invariant.thy ===== *)
theory Gate_Invariant
  imports Trace_Oracle
begin

text \<open>
  The invariant of the gate's store and that every operation keeps it, whatever the adapter does,
  wherever a fault is injected and whichever way the operation ends. It speaks about the database
  only: route, leases, faults and clock are unconstrained.
\<close>

section \<open>Symbolic execution of the gate's primitives\<close>

lemma wp_lift_res [simp]:
  "wp (lift_res r) Q R s = (case r of Inl e \<Rightarrow> R e s | Inr x \<Rightarrow> Q x s)"
  by (simp add: lift_res_def split: sum.splits)

lemma wp_g_db [simp]: "wp (g_db f) Q R s = Q () (s\<lparr>gs_db := f (gs_db s)\<rparr>)"
  by (simp add: g_db_def)

lemma wp_g_clock [simp]:
  "wp (g_clock E) Q R s = Q (ge_clock E (gs_ticks s)) (s\<lparr>gs_ticks := gs_ticks s + 1\<rparr>)"
  by (simp add: g_clock_def)

lemma wp_g_route [simp]: "wp g_route Q R s = Q (ta_route (gs_traffic s)) s"
  by (simp add: g_route_def)

lemma wp_g_row [simp]:
  "wp g_row Q R s = (case gd_state (gs_db s) of
      None \<Rightarrow> R (GateError ''gate is not initialized'') s
    | Some row \<Rightarrow> if gr_schema_version row = gate_schema_version then Q row s
                 else R (GateError ''unknown gate schema version'') s)"
  by (simp add: g_row_def split: option.splits)

lemma wp_g_append [simp]:
  "wp (g_append E g k p f t fe det oid) Q R s =
   Q (next_seq (gd_transition (gs_db s)))
     (s\<lparr>gs_ticks := gs_ticks s + 1, gs_db := insert_transition g k p (correlation oid p g) f t fe
          (ge_clock E (gs_ticks s)) det (gs_db s)\<rparr>)"
  by (simp add: g_append_def)

lemma gd_state_insert_transition [simp]:
  "gd_state (insert_transition g k p oid f t fe at_time det d) = gd_state d"
  "gd_admission (insert_transition g k p oid f t fe at_time det d) = gd_admission d"
  "gd_event (insert_transition g k p oid f t fe at_time det d) = gd_event d"
  by (simp_all add: insert_transition_def)

lemma update_row_simps [simp]:
  "gd_state (update_row f d) = map_option f (gd_state d)"
  "gd_transition (update_row f d) = gd_transition d"
  "gd_admission (update_row f d) = gd_admission d"
  "gd_event (update_row f d) = gd_event d"
  by (simp_all add: update_row_def)

text \<open>The store after a legal transition of a gate in row \<open>row\<close>.\<close>

definition moved ::
  "gate_row \<Rightarrow> int \<Rightarrow> gate_state \<Rightarrow> string \<Rightarrow> string \<Rightarrow> json \<Rightarrow> string option \<Rightarrow> string \<Rightarrow> int \<Rightarrow> gate_db \<Rightarrow> gate_db" where
  "moved row g target operation kind det fe oid at_time d =
     update_row (\<lambda>r. r\<lparr>gr_state := target, gr_transition_seq := next_seq (gd_transition d),
        gr_revision := gr_revision r + 1\<rparr>)
       (insert_transition g kind operation oid (Some (gr_state row)) (Some target) fe at_time det d)"

lemma wp_g_transition [simp]:
  "wp (g_transition E g target p k det fe oid) Q R s =
   (case gd_state (gs_db s) of
      None \<Rightarrow> R (GateError ''gate is not initialized'') s
    | Some row \<Rightarrow>
        if gr_schema_version row \<noteq> gate_schema_version then R (GateError ''unknown gate schema version'') s
        else if target \<noteq> gr_state row \<and> target \<notin> set (ALLOWED (gr_state row))
        then R (GateError (''invalid gate transition '' @ gate_state_value (gr_state row) @ ''->''
                 @ gate_state_value target)) s
        else Q (next_seq (gd_transition (gs_db s)))
               (s\<lparr>gs_ticks := gs_ticks s + 1,
                  gs_db := moved row g target p k det fe (correlation oid p g)
                    (ge_clock E (gs_ticks s)) (gs_db s)\<rparr>))"
  by (cases "gd_state (gs_db s)") (auto simp: g_transition_def Let_def moved_def)

section \<open>Programs that leave the store alone\<close>

lemma frames_g_traffic [frame_intros]: "frames gs_db (g_traffic m)"
  by (simp add: frames_def g_traffic_def zoom_x_def split: prod.splits sum.splits)

lemma frames_g_hit [frame_intros]: "frames gs_db (g_hit point)"
  by (rule framesI) (simp add: g_hit_def)

lemma frames_g_clock [frame_intros]: "frames gs_db (g_clock E)"
  by (rule framesI) simp

lemma frames_g_route [frame_intros]: "frames gs_db g_route"
  by (rule framesI) simp

lemma frames_lift_res [frame_intros]: "frames gs_db (lift_res r)"
  by (rule framesI) (simp split: sum.splits)

lemma frames_g_lease_ok [frame_intros]: "frames gs_db (g_lease_ok E lease staged)"
  unfolding g_lease_ok_def by (intro frame_intros)

lemma frames_open_checks [frame_intros]: "frames gs_db (open_checks E g pf row)"
  unfolding open_checks_def by (intro frame_intros)

lemma frames_close_all [frame_intros]: "frames gs_db close_all_suppressed"
  unfolding close_all_suppressed_def by (intro frame_intros)

lemma frames_rollback_effect [frame_intros]: "frames gs_db (rollback_effect row oracle)"
  unfolding rollback_effect_def Let_def by (intro frame_intros)

section \<open>The invariant of the store\<close>

text \<open>The state after replaying rows, and that every recorded change of state is legal.\<close>

fun end_state :: "gate_state \<Rightarrow> transition_row list \<Rightarrow> gate_state" where
  "end_state st [] = st"
| "end_state st (r # rs) = end_state (case tr_to r of None \<Rightarrow> st | Some t \<Rightarrow> t) rs"

fun legal_path :: "gate_state \<Rightarrow> transition_row list \<Rightarrow> bool" where
  "legal_path st [] = True"
| "legal_path st (r # rs) = (case tr_to r of
       None \<Rightarrow> legal_path st rs
     | Some t \<Rightarrow> (t = st \<or> t \<in> set (ALLOWED st)) \<and> legal_path t rs)"

definition history_ok :: "gate_row \<Rightarrow> transition_row list \<Rightarrow> bool" where
  "history_ok r rows \<longleftrightarrow> rows \<noteq> [] \<and> map tr_seq rows = [1..<Suc (length rows)]
     \<and> (\<forall>t \<in> set rows. tr_generation t = gr_candidate_generation r)
     \<and> legal_path PREDECESSOR_OPEN rows \<and> end_state PREDECESSOR_OPEN rows = gr_state r
     \<and> gr_transition_seq r \<le> length rows
     \<and> (\<forall>t \<in> set rows. is_open_receipt t \<longrightarrow>
          jget ''observed_candidate_digest'' (tr_detail t) = Some (JStr (gr_candidate_digest r)))
     \<and> (\<forall>t \<in> set rows. close_observation t \<in> {None, Some (JStr (gr_predecessor_digest r))})"

definition intent_ok :: "(string \<Rightarrow> string) \<Rightarrow> gate_row \<Rightarrow> transition_row \<Rightarrow> bool" where
  "intent_ok H r i \<longleftrightarrow> (\<exists>pf f. tr_fence i = Some f \<and> f \<noteq> []
     \<and> tr_detail i = canon (JObj (proof_fields pf @ [(''proof_digest'', JStr (proof_digest H pf))]))
     \<and> op_candidate_digest pf = gr_candidate_digest r \<and> op_generation pf = gr_candidate_generation r
     \<and> op_lease pf = gr_lease r)"

definition route_ok :: "(string \<Rightarrow> string) \<Rightarrow> gate_row \<Rightarrow> transition_row list \<Rightarrow> bool" where
  "route_ok H r rows \<longleftrightarrow> (case gr_state r of
       PREDECESSOR_OPEN \<Rightarrow> False
     | CANDIDATE_STAGED \<Rightarrow> open_receipts rows = []
         \<and> gr_route_generation r = Some (gr_predecessor_generation r)
         \<and> gr_route_fence r = fence_of (gr_predecessor_generation r)
     | CANDIDATE_CLOSED \<Rightarrow> open_receipts rows = []
         \<and> gr_route_generation r = Some (gr_predecessor_generation r)
         \<and> gr_route_fence r = fence_of (gr_predecessor_generation r)
     | OPENING \<Rightarrow> open_receipts rows = []
         \<and> (\<exists>i. last_row (op_kind ''open'' ''intent'') rows = Some i \<and> intent_ok H r i)
     | CANDIDATE_OPEN \<Rightarrow> \<exists>q. open_receipts rows = [q] \<and> tr_seq q \<le> gr_transition_seq r
         \<and> gr_route_generation r = Some (gr_candidate_generation r)
         \<and> tr_fence q = Some (gr_route_fence r) \<and> gr_route_fence r \<noteq> []
         \<and> gr_observed_candidate_digest r = Some (gr_candidate_digest r)
     | DRAINING \<Rightarrow> \<exists>q. open_receipts rows = [q] \<and> tr_seq q \<le> gr_transition_seq r
         \<and> gr_route_generation r = Some (gr_candidate_generation r)
         \<and> tr_fence q = Some (gr_route_fence r) \<and> gr_route_fence r \<noteq> []
         \<and> gr_observed_candidate_digest r = Some (gr_candidate_digest r)
     | _ \<Rightarrow> length (open_receipts rows) \<le> 1)"

text \<open>An admission went to the predecessor before the open receipt or to the candidate after it.\<close>

definition admission_ok :: "gate_row \<Rightarrow> transition_row list \<Rightarrow> admission_row \<Rightarrow> bool" where
  "admission_ok r rows a \<longleftrightarrow> ad_transition_seq a \<le> length rows \<and>
     (ad_chosen_generation a = gr_predecessor_generation r
        \<and> ad_route_epoch a = fence_of (gr_predecessor_generation r)
        \<and> (\<forall>q \<in> set (open_receipts rows). ad_transition_seq a < tr_seq q)
      \<or> ad_chosen_generation a = gr_candidate_generation r \<and> ad_route_epoch a \<noteq> []
        \<and> (\<exists>q. open_receipts rows = [q] \<and> tr_fence q = Some (ad_route_epoch a)
             \<and> tr_seq q \<le> ad_transition_seq a))"

definition requests_ok :: "admission_row list \<Rightarrow> event_row list \<Rightarrow> bool" where
  "requests_ok adm ev \<longleftrightarrow> distinct (map ad_request_id adm)
     \<and> (\<forall>e \<in> set ev. \<exists>a \<in> set adm. ad_request_id a = ev_request_id e
          \<and> ad_chosen_generation a = ev_chosen_generation e)"

definition gate_inv :: "(string \<Rightarrow> string) \<Rightarrow> gate_db \<Rightarrow> bool" where
  "gate_inv H d \<longleftrightarrow> (case gd_state d of
       None \<Rightarrow> gd_transition d = [] \<and> gd_admission d = [] \<and> gd_event d = []
     | Some r \<Rightarrow> gr_schema_version r = gate_schema_version
         \<and> gr_candidate_generation r = gr_predecessor_generation r + 1
         \<and> history_ok r (gd_transition d) \<and> route_ok H r (gd_transition d)
         \<and> (\<forall>a \<in> set (gd_admission d). admission_ok r (gd_transition d) a)
         \<and> requests_ok (gd_admission d) (gd_event d))"

section \<open>Appending rows\<close>

lemma end_state_append: "end_state st (xs @ ys) = end_state (end_state st xs) ys"
  by (induction st xs rule: end_state.induct) auto

lemma legal_path_append: "legal_path st (xs @ ys) \<longleftrightarrow> legal_path st xs \<and> legal_path (end_state st xs) ys"
  by (induction st xs rule: legal_path.induct) (auto split: option.splits)

lemma open_receipts_append: "open_receipts (xs @ ys) = open_receipts xs @ open_receipts ys"
  by (simp add: open_receipts_def)

lemma last_row_snoc: "last_row P (rows @ [r]) = (if P r then Some r else last_row P rows)"
  by (simp add: last_row_def)

lemma next_seq_history: "history_ok r rows \<Longrightarrow> next_seq rows = Suc (length rows)"
proof -
  assume h: "history_ok r rows"
  then have "last (map tr_seq rows) = length rows" and "rows \<noteq> []"
    by (simp_all only: history_ok_def) (cases rows, auto simp: history_ok_def)
  then show ?thesis by (simp add: next_seq_def last_map)
qed

lemma history_ok_snoc:
  assumes "history_ok r rows" and "tr_seq n = Suc (length rows)"
    and "tr_generation n = gr_candidate_generation r"
    and "case tr_to n of None \<Rightarrow> True | Some t \<Rightarrow> t = gr_state r \<or> t \<in> set (ALLOWED (gr_state r))"
    and "gr_state r' = (case tr_to n of None \<Rightarrow> gr_state r | Some t \<Rightarrow> t)"
    and "gr_candidate_generation r' = gr_candidate_generation r"
    and "gr_candidate_digest r' = gr_candidate_digest r"
    and "gr_predecessor_digest r' = gr_predecessor_digest r"
    and "gr_transition_seq r' \<le> Suc (length rows)"
    and "is_open_receipt n \<Longrightarrow> jget ''observed_candidate_digest'' (tr_detail n) = Some (JStr (gr_candidate_digest r))"
    and "close_observation n \<in> {None, Some (JStr (gr_predecessor_digest r))}"
  shows "history_ok r' (rows @ [n])"
  using assms by (auto simp: history_ok_def legal_path_append end_state_append split: option.splits)

lemma admission_ok_snoc:
  assumes "admission_ok r rows a" and "tr_seq n = Suc (length rows)"
    and "is_open_receipt n \<Longrightarrow> open_receipts rows = []"
    and "gr_predecessor_generation r' = gr_predecessor_generation r"
    and "gr_candidate_generation r' = gr_candidate_generation r"
  shows "admission_ok r' (rows @ [n]) a"
  using assms
  by (cases "is_open_receipt n") (auto simp: admission_ok_def open_receipts_append, auto simp: open_receipts_def)

text \<open>
  The effect of adding one row, with the gate row changed along: the invariant is kept if the
  recorded state change is legal, the row's details are right and the route columns fit.
\<close>

lemma gate_inv_step:
  assumes inv: "gate_inv H d" and r: "gd_state d = Some r"
    and d': "gd_state d' = Some r'" "gd_transition d' = gd_transition d @ [n]"
      "gd_admission d' = gd_admission d" "gd_event d' = gd_event d"
    and same: "gr_schema_version r' = gr_schema_version r"
      "gr_predecessor_generation r' = gr_predecessor_generation r"
      "gr_candidate_generation r' = gr_candidate_generation r"
      "gr_candidate_digest r' = gr_candidate_digest r" "gr_predecessor_digest r' = gr_predecessor_digest r"
    and n: "tr_seq n = next_seq (gd_transition d)" "tr_generation n = gr_candidate_generation r"
      "case tr_to n of None \<Rightarrow> True | Some t \<Rightarrow> t = gr_state r \<or> t \<in> set (ALLOWED (gr_state r))"
      "gr_state r' = (case tr_to n of None \<Rightarrow> gr_state r | Some t \<Rightarrow> t)"
    and seq: "gr_transition_seq r' \<le> next_seq (gd_transition d)"
    and receipt: "is_open_receipt n \<Longrightarrow> gr_state r = OPENING \<and>
      jget ''observed_candidate_digest'' (tr_detail n) = Some (JStr (gr_candidate_digest r))"
    and close: "close_observation n \<in> {None, Some (JStr (gr_predecessor_digest r))}"
    and route: "route_ok H r' (gd_transition d @ [n])"
  shows "gate_inv H d'"
proof -
  have h: "history_ok r (gd_transition d)" using inv r by (simp add: gate_inv_def)
  note len = next_seq_history [OF h]
  have "history_ok r' (gd_transition d @ [n])"
    using n seq receipt close same by (intro history_ok_snoc [OF h]) (auto simp: len)
  moreover have "is_open_receipt n \<Longrightarrow> open_receipts (gd_transition d) = []"
    using receipt inv r by (auto simp: gate_inv_def route_ok_def)
  then have "admission_ok r' (gd_transition d @ [n]) a" if "a \<in> set (gd_admission d)" for a
    using inv r that n(1) same len by (intro admission_ok_snoc [of r]) (auto simp: gate_inv_def)
  ultimately show ?thesis using inv r d' same route by (simp add: gate_inv_def)
qed

section \<open>Kept by single rows and by transitions\<close>

text \<open>The part of a gate row that an update after a transition leaves alone.\<close>

definition same_identity :: "gate_row \<Rightarrow> gate_row \<Rightarrow> bool" where
  "same_identity r' r \<longleftrightarrow> gr_schema_version r' = gr_schema_version r
     \<and> gr_predecessor_generation r' = gr_predecessor_generation r
     \<and> gr_candidate_generation r' = gr_candidate_generation r
     \<and> gr_candidate_digest r' = gr_candidate_digest r \<and> gr_predecessor_digest r' = gr_predecessor_digest r
     \<and> gr_state r' = gr_state r \<and> gr_transition_seq r' = gr_transition_seq r"

definition close_detail_ok :: "gate_row \<Rightarrow> string \<Rightarrow> string \<Rightarrow> json \<Rightarrow> bool" where
  "close_detail_ok r operation kind det \<longleftrightarrow> operation = ''close'' \<and> kind = ''receipt'' \<longrightarrow>
     jget ''cancelled'' det \<noteq> None
     \<or> jget ''observed_predecessor_digest'' det = Some (JStr (gr_predecessor_digest r))"

lemma close_detail_okD:
  assumes "close_detail_ok r (tr_operation n) (tr_kind n) det" and "tr_detail n = canon det"
  shows "close_observation n \<in> {None, Some (JStr (gr_predecessor_digest r))}"
  using assms
  by (auto simp: close_detail_ok_def close_observation_def op_kind_def split: option.splits if_splits)

lemma open_receipts_snoc [simp]:
  "open_receipts (rows @ [n]) = open_receipts rows @ (if is_open_receipt n then [n] else [])"
  by (simp add: open_receipts_def)

text \<open>A row that records no change of state, for instance an intent.\<close>

lemma gate_inv_append:
  assumes inv: "gate_inv H d" and r: "gd_state d = Some r" and g: "g = gr_candidate_generation r"
    and no_open: "\<not> (p = ''open'' \<and> k = ''intent'')" and close: "close_detail_ok r p k det"
  shows "gate_inv H (insert_transition g k p oid f None fe at_time det d)"
proof -
  let ?n = "\<lparr>tr_seq = next_seq (gd_transition d), tr_generation = g, tr_kind = k, tr_operation = p,
     tr_operation_id = oid, tr_from = f, tr_to = None, tr_fence = fe, tr_at = at_time, tr_detail = canon det\<rparr>"
  have h: "history_ok r (gd_transition d)" and route: "route_ok H r (gd_transition d)"
    using inv r by (simp_all add: gate_inv_def)
  have not_open: "\<not> is_open_receipt ?n" by (simp add: is_open_receipt_def)
  have "route_ok H r (gd_transition d @ [?n])"
    using route not_open no_open
    by (auto simp: route_ok_def last_row_snoc op_kind_def split: gate_state.splits)
  moreover have "gr_transition_seq r \<le> next_seq (gd_transition d)"
    using h by (simp add: next_seq_history) (simp add: history_ok_def)
  moreover have "close_observation ?n \<in> {None, Some (JStr (gr_predecessor_digest r))}"
    using close by (intro close_detail_okD [of _ _ det]) simp_all
  ultimately show ?thesis
    using not_open g
    by (intro gate_inv_step [OF inv r, where n = ?n and r' = r]) (simp_all add: r insert_transition_def)
qed

text \<open>A transition with the update of further columns that follows it in the same transaction.\<close>

lemma gate_inv_moved:
  assumes inv: "gate_inv H d" and r: "gd_state d = Some r" and g: "g = gr_candidate_generation r"
    and legal: "target = gr_state r \<or> target \<in> set (ALLOWED (gr_state r))"
    and upd: "\<And>x. same_identity (u x) x"
    and close: "close_detail_ok r p k det"
    and receipt: "k = ''receipt'' \<and> target = CANDIDATE_OPEN \<and> take 4 p = ''open'' \<Longrightarrow>
      gr_state r = OPENING \<and> jget ''observed_candidate_digest'' det = Some (JStr (gr_candidate_digest r))"
    and route: "\<And>(n :: transition_row) rv. tr_seq n = next_seq (gd_transition d) \<Longrightarrow> tr_kind n = k \<Longrightarrow> tr_operation n = p \<Longrightarrow>
      tr_to n = Some target \<Longrightarrow> tr_fence n = fe \<Longrightarrow> tr_detail n = canon det \<Longrightarrow>
      route_ok H (u (r\<lparr>gr_state := target, gr_transition_seq := next_seq (gd_transition d), gr_revision := rv\<rparr>))
        (gd_transition d @ [n])"
  shows "gate_inv H (update_row u (moved r g target p k det fe oid at_time d))"
proof -
  let ?n = "\<lparr>tr_seq = next_seq (gd_transition d), tr_generation = g, tr_kind = k, tr_operation = p,
     tr_operation_id = oid, tr_from = Some (gr_state r), tr_to = Some target, tr_fence = fe,
     tr_at = at_time, tr_detail = canon det\<rparr>"
  let ?r = "r\<lparr>gr_state := target, gr_transition_seq := next_seq (gd_transition d), gr_revision := gr_revision r + 1\<rparr>"
  have "same_identity (u ?r) ?r" by (rule upd)
  moreover have "close_observation ?n \<in> {None, Some (JStr (gr_predecessor_digest r))}"
    using close by (intro close_detail_okD [of _ _ det]) simp_all
  moreover have "route_ok H (u ?r) (gd_transition d @ [?n])"
    by (rule route) simp_all
  moreover have "gr_state r = OPENING \<and>
      jget ''observed_candidate_digest'' (tr_detail ?n) = Some (JStr (gr_candidate_digest r))"
    if "is_open_receipt ?n"
    using receipt that by (auto simp: is_open_receipt_def)
  ultimately show ?thesis
    using g legal
    by (intro gate_inv_step [OF inv r, where n = ?n and r' = "u ?r"])
       (simp_all add: r moved_def insert_transition_def same_identity_def)
qed

lemma gate_inv_terminal:
  assumes inv: "gate_inv H d" and r: "gd_state d = Some r" and g: "g = gr_candidate_generation r"
    and legal: "target = gr_state r \<or> target \<in> set (ALLOWED (gr_state r))"
    and upd: "\<And>x. same_identity (u x) x"
    and target: "target \<in> {ROLLED_BACK, FAILED_SAFE, SAFETY_UNKNOWN}" and p: "p \<noteq> ''close''"
  shows "gate_inv H (update_row u (moved r g target p k det fe oid at_time d))"
proof (rule gate_inv_moved [OF inv r g legal upd])
  show "close_detail_ok r p k det" using p by (simp add: close_detail_ok_def)
next
  fix n :: transition_row and rv
  assume "tr_to n = Some target"
  then have "\<not> is_open_receipt n" using target by (auto simp: is_open_receipt_def)
  moreover have "length (open_receipts (gd_transition d)) \<le> 1"
    using inv r by (auto simp: gate_inv_def route_ok_def split: gate_state.splits)
  moreover have "gr_state (u (r\<lparr>gr_state := target, gr_transition_seq := next_seq (gd_transition d),
      gr_revision := rv\<rparr>)) = target"
    using upd by (simp add: same_identity_def)
  ultimately show "route_ok H (u (r\<lparr>gr_state := target, gr_transition_seq := next_seq (gd_transition d),
      gr_revision := rv\<rparr>)) (gd_transition d @ [n])"
    using target by (auto simp: route_ok_def)
qed (use target in auto)

lemma update_row_id [simp]: "update_row (\<lambda>r. r) d = d"
  by (simp add: update_row_def option.map_ident)

lemma gate_inv_route:
  "gate_inv H d \<Longrightarrow> gd_state d = Some r \<Longrightarrow> route_ok H r (gd_transition d)"
  by (simp add: gate_inv_def)

lemma gate_inv_close:
  assumes "gate_inv H d" and "gd_state d = Some r" and "gr_state r = CANDIDATE_STAGED"
    and "jget ''observed_predecessor_digest'' det = Some (JStr (gr_predecessor_digest r))"
  shows "gate_inv H (update_row (\<lambda>r. r\<lparr>gr_observed_predecessor_digest := x\<rparr>)
           (moved r (gr_candidate_generation r) CANDIDATE_CLOSED ''close'' ''receipt'' det fe oid at_time d))"
  using gate_inv_route [OF assms(1,2)] assms(3,4)
  by (intro gate_inv_moved [OF assms(1,2)])
     (auto simp: same_identity_def close_detail_ok_def route_ok_def is_open_receipt_def)

lemma gate_inv_opening:
  assumes "gate_inv H d" and "gd_state d = Some r" and "gr_state r = CANDIDATE_CLOSED"
    and "op_candidate_digest pf = gr_candidate_digest r" and "op_generation pf = gr_candidate_generation r"
    and "op_lease pf = gr_lease r" and "f \<noteq> []"
  shows "gate_inv H (update_row (\<lambda>r. r\<lparr>gr_proof_digest := x\<rparr>)
           (moved r (gr_candidate_generation r) OPENING ''open'' ''intent''
              (JObj (proof_fields pf @ [(''proof_digest'', JStr (proof_digest H pf))])) (Some f) oid at_time d))"
  using gate_inv_route [OF assms(1,2)] assms(3-7)
  by (intro gate_inv_moved [OF assms(1,2)])
     (auto simp: same_identity_def close_detail_ok_def route_ok_def is_open_receipt_def last_row_snoc
        op_kind_def intent_ok_def)

lemma gate_inv_open:
  assumes "gate_inv H d" and "gd_state d = Some r" and "gr_state r = OPENING"
    and "gr_candidate_generation r = g" and "gr_candidate_digest r = dg"
    and "jget ''observed_candidate_digest'' det = Some (JStr dg)"
    and "take 4 p = ''open''" and "f \<noteq> []" and "q = next_seq (gd_transition d)"
  shows "gate_inv H (update_row (\<lambda>x. x\<lparr>gr_route_generation := Some g,
             gr_route_fence := f, gr_transition_seq := q, gr_observed_candidate_digest := Some dg\<rparr>)
           (moved r g CANDIDATE_OPEN p ''receipt'' det (Some f) oid at_time d))"
proof -
  let ?u = "\<lambda>x. x\<lparr>gr_route_generation := Some g, gr_route_fence := f, gr_observed_candidate_digest := Some dg\<rparr>"
  have "gate_inv H (update_row ?u (moved r g CANDIDATE_OPEN p ''receipt'' det (Some f) oid at_time d))"
    using gate_inv_route [OF assms(1,2)] assms(3-8)
    by (intro gate_inv_moved [OF assms(1,2)])
       (auto simp: same_identity_def close_detail_ok_def route_ok_def is_open_receipt_def)
  moreover have "update_row (\<lambda>x. x\<lparr>gr_route_generation := Some g, gr_route_fence := f,
             gr_transition_seq := q, gr_observed_candidate_digest := Some dg\<rparr>)
           (moved r g CANDIDATE_OPEN p ''receipt'' det (Some f) oid at_time d)
       = update_row ?u (moved r g CANDIDATE_OPEN p ''receipt'' det (Some f) oid at_time d)"
    using assms(2,9) by (simp add: moved_def update_row_def insert_transition_def)
  ultimately show ?thesis by simp
qed

lemma gate_inv_drain:
  assumes "gate_inv H d" and "gd_state d = Some r"
    and "gr_state r = CANDIDATE_OPEN \<and> target = DRAINING \<or> gr_state r = DRAINING \<and> target = CANDIDATE_OPEN"
  shows "gate_inv H (moved r (gr_candidate_generation r) target ''drain'' k det fe oid at_time d)"
proof -
  have h: "gr_transition_seq r \<le> next_seq (gd_transition d)"
    using assms(1,2) by (auto simp: gate_inv_def next_seq_history) (auto simp: history_ok_def)
  have "gate_inv H (update_row (\<lambda>r. r)
    (moved r (gr_candidate_generation r) target ''drain'' k det fe oid at_time d))"
    using gate_inv_route [OF assms(1,2)] assms(3) h
    by (intro gate_inv_moved [OF assms(1,2)])
       (auto simp: same_identity_def close_detail_ok_def route_ok_def is_open_receipt_def)
  then show ?thesis by simp
qed

section \<open>Rules for the operations\<close>

abbreviation gate_safe :: "(string \<Rightarrow> string) \<Rightarrow> 'a gate_exec \<Rightarrow> gate_db \<Rightarrow> bool" where
  "gate_safe H \<equiv> safe gs_db (gate_inv H)"

lemma gate_safe_row:
  "I d \<Longrightarrow> (\<And>row. gd_state d = Some row \<Longrightarrow> gr_schema_version row = gate_schema_version \<Longrightarrow>
     safe gs_db I (k row) d) \<Longrightarrow> safe gs_db I (bind_x g_row k) d"
  by (auto simp: safe_def split: option.splits)

lemma gate_safe_append_then:
  "I d \<Longrightarrow>
   (\<And>at_time. safe gs_db I m (insert_transition g k p (correlation oid p g) f t fe at_time det d)) \<Longrightarrow>
   safe gs_db I (then_x (g_atomic (g_append E g k p f t fe det oid)) m) d"
  unfolding g_atomic_def by (rule safe_tx_then) auto

lemma gate_safe_move_then:
  "I d \<Longrightarrow> gd_state d = Some r \<Longrightarrow>
   (\<And>at_time. target = gr_state r \<or> target \<in> set (ALLOWED (gr_state r)) \<Longrightarrow>
      safe gs_db I m (update_row u (moved r g target p k det fe (correlation oid p g) at_time d))) \<Longrightarrow>
   safe gs_db I (then_x (g_atomic (then_x (g_transition E g target p k det fe oid) (g_db (update_row u)))) m) d"
  unfolding g_atomic_def by (rule safe_tx_then) auto

lemma gate_safe_move:
  "I d \<Longrightarrow> gd_state d = Some r \<Longrightarrow>
   (\<And>at_time. target = gr_state r \<or> target \<in> set (ALLOWED (gr_state r)) \<Longrightarrow>
      I (update_row u (moved r g target p k det fe (correlation oid p g) at_time d))) \<Longrightarrow>
   safe gs_db I (g_atomic (then_x (g_transition E g target p k det fe oid) (g_db (update_row u)))) d"
  unfolding g_atomic_def by (rule safe_tx) auto

lemma gate_safe_move_seq_then:
  "I d \<Longrightarrow> gd_state d = Some r \<Longrightarrow>
   (\<And>at_time. target = gr_state r \<or> target \<in> set (ALLOWED (gr_state r)) \<Longrightarrow>
      safe gs_db I m (update_row (u (next_seq (gd_transition d)))
        (moved r g target p k det fe (correlation oid p g) at_time d))) \<Longrightarrow>
   safe gs_db I (then_x (g_atomic (bind_x (g_transition E g target p k det fe oid)
      (\<lambda>seq. g_db (update_row (u seq))))) m) d"
  unfolding g_atomic_def by (rule safe_tx_then) auto

lemma gate_safe_plain_move_then:
  "I d \<Longrightarrow> gd_state d = Some r \<Longrightarrow>
   (\<And>at_time. target = gr_state r \<or> target \<in> set (ALLOWED (gr_state r)) \<Longrightarrow>
      safe gs_db I m (moved r g target p k det fe (correlation oid p g) at_time d)) \<Longrightarrow>
   safe gs_db I (then_x (g_atomic (g_transition E g target p k det fe oid)) m) d"
  unfolding g_atomic_def by (rule safe_tx_then) auto

lemmas gate_frames =
  safe_frame_then [OF frames_g_hit] safe_frame_then [OF frames_g_traffic]
  safe_frame_bind [OF frames_g_traffic] safe_frame_bind [OF frames_try [OF frames_g_traffic]]
  safe_frame_then [OF frames_try [OF frames_g_traffic]]
  safe_frame_bind [OF frames_g_clock] safe_frame_bind [OF frames_g_route]
  safe_frame_bind [OF frames_rollback_effect]

lemmas gate_rules = gate_safe_row safe_guard_then gate_safe_append_then safe_return safe_raise

lemma same_identity_route [simp]:
  "same_identity (case a of None \<Rightarrow> r\<lparr>gr_route_generation := g, gr_route_fence := f\<rparr>
     | Some x \<Rightarrow> r\<lparr>gr_route_generation := g' x, gr_route_fence := f' x\<rparr>) r"
  by (simp add: same_identity_def split: option.splits)

lemma same_identity_columns [simp]:
  "same_identity (r\<lparr>gr_route_generation := g, gr_route_fence := f\<rparr>) r"
  by (simp add: same_identity_def)

lemma same_identity_refl [simp]: "same_identity r r"
  by (simp add: same_identity_def)

lemma close_detail_ok_other [simp]:
  "p \<noteq> ''close'' \<or> k \<noteq> ''receipt'' \<Longrightarrow> close_detail_ok r p k det"
  by (auto simp: close_detail_ok_def)

section \<open>fail-close and rollback\<close>

lemma gate_fail_close_safe:
  assumes "gate_inv H d"
  shows "gate_safe H (gate_fail_close E g reason) d"
  unfolding gate_fail_close_def Let_def set_route_columns_def
  by (intro gate_rules gate_frames gate_safe_move_then assms gate_inv_append gate_inv_terminal)
     (auto intro: assms)

text \<open>A read inside a transaction may as well come before it.\<close>

lemma g_atomic_reads:
  "then_x (g_atomic (bind_x (gets_x f) m)) k = bind_x (gets_x f) (\<lambda>x. then_x (g_atomic (m x)) k)"
  by (rule ext) (simp add: g_atomic_def then_x_def bind_x_def gets_x_def atomic_x_def)

lemma g_atomic_route:
  "then_x (g_atomic (bind_x g_route m)) k = bind_x g_route (\<lambda>x. then_x (g_atomic (m x)) k)"
  by (simp add: g_route_def g_atomic_reads)

lemma rollback_target_terminal: "rollback_target c \<in> {ROLLED_BACK, FAILED_SAFE, SAFETY_UNKNOWN}"
  by (cases c) auto

lemma gate_rollback_safe:
  assumes "gate_inv H d"
  shows "gate_safe H (gate_rollback E g oracle) d"
  unfolding gate_rollback_def Let_def set_route_columns_def g_atomic_route
  by (intro gate_rules gate_frames gate_safe_move_then assms gate_inv_append gate_inv_terminal
        rollback_target_terminal)
     (auto intro: assms)

section \<open>stage, close, open and drain\<close>

lemma moved_simps [simp]:
  "gd_admission (moved r g target p k det fe oid at_time d) = gd_admission d"
  "gd_event (moved r g target p k det fe oid at_time d) = gd_event d"
  "gd_state (moved r g target p k det fe oid at_time d)
   = map_option (\<lambda>r. r\<lparr>gr_state := target, gr_transition_seq := next_seq (gd_transition d),
        gr_revision := gr_revision r + 1\<rparr>) (gd_state d)"
  by (simp_all add: moved_def)

lemma ALLOWED_iff [simp]:
  "CANDIDATE_CLOSED \<in> set (ALLOWED st) \<longleftrightarrow> st = CANDIDATE_STAGED"
  "OPENING \<in> set (ALLOWED st) \<longleftrightarrow> st = CANDIDATE_CLOSED"
  "DRAINING \<in> set (ALLOWED st) \<longleftrightarrow> st = CANDIDATE_OPEN"
  "CANDIDATE_OPEN \<in> set (ALLOWED st) \<longleftrightarrow> st = OPENING \<or> st = DRAINING"
  "CANDIDATE_STAGED \<in> set (ALLOWED st) \<longleftrightarrow> st = PREDECESSOR_OPEN"
  by (cases st; simp)+

lemma close_effect_safe:
  assumes "gate_inv H d" and "gd_state d = Some row" and "gr_state row \<noteq> CANDIDATE_CLOSED"
  shows "gate_safe H (close_effect E (gr_candidate_generation row) row) d"
  unfolding close_effect_def Let_def using assms
  by (intro gate_frames gate_rules safe_if gate_safe_move safe_then [OF gate_fail_close_safe] gate_inv_append)
     (auto simp: close_detail_ok_def intro: gate_inv_close)

lemma gate_close_safe:
  assumes "gate_inv H d"
  shows "gate_safe H (gate_close E g) d"
  unfolding gate_close_def Let_def using assms
  by (intro gate_rules safe_if safe_gets_bind)
     (auto intro!: close_effect_safe gate_inv_append)

lemma drain_settle_safe:
  assumes "gate_inv H d" and "gd_state d = Some r" and "gr_state r = DRAINING"
    and "gr_candidate_generation row = gr_candidate_generation r"
  shows "gate_safe H (drain_settle E (gr_candidate_generation row) row) d"
  unfolding drain_settle_def using assms
  by (intro safe_gets_bind safe_if gate_rules gate_safe_plain_move_then)
     (auto intro: gate_inv_drain)

lemma gate_drain_safe:
  assumes "gate_inv H d"
  shows "gate_safe H (gate_drain E g) d"
  unfolding gate_drain_def using assms
  by (intro gate_rules safe_if gate_safe_plain_move_then)
     (auto intro!: drain_settle_safe gate_inv_drain)

lemma gate_inv_staged:
  assumes "gate_inv H d" and "gd_state d = None" and "gr_schema_version r = gate_schema_version"
    and "gr_candidate_generation r = gr_predecessor_generation r + 1" and "gr_state r = PREDECESSOR_OPEN"
    and "gr_route_generation r = Some (gr_predecessor_generation r)"
    and "gr_route_fence r = fence_of (gr_predecessor_generation r)"
  shows "gate_inv H (moved r (gr_candidate_generation r) CANDIDATE_STAGED ''stage'' ''receipt'' det fe oid at_time
           (d\<lparr>gd_state := Some r\<rparr>))"
  using assms
  by (simp add: gate_inv_def moved_def insert_transition_def next_seq_def history_ok_def route_ok_def
      open_receipts_def is_open_receipt_def close_observation_def op_kind_def requests_ok_def)

lemma gate_stage_safe:
  assumes "gate_inv H d"
  shows "gate_safe H (gate_stage E candidate predecessor) d"
proof -
  have fresh: "gate_safe H (then_x (g_atomic (bind_x (gets_x g_current) (\<lambda>lease.
      then_x (g_db (\<lambda>d. d\<lparr>gd_state := Some (r lease)\<rparr>))
        (g_transition E (pg + 1) CANDIDATE_STAGED ''stage'' ''receipt'' det None None)))) (return_x x)) d"
    if "gd_state d = None" and "\<And>l. gr_schema_version (r l) = gate_schema_version"
      and "\<And>l. gr_predecessor_generation (r l) = pg"
      and "\<And>l. gr_candidate_generation (r l) = pg + 1" and "\<And>l. gr_state (r l) = PREDECESSOR_OPEN"
      and "\<And>l. gr_route_generation (r l) = Some pg" and "\<And>l. gr_route_fence (r l) = fence_of pg"
    for r pg det x
    unfolding g_atomic_def
    using assms that gate_inv_staged [OF assms that(1), of "r _"]
    by (intro safe_tx_then) (auto intro!: safe_return)
  show ?thesis
    unfolding gate_stage_def Let_def
    using assms
    by (intro safe_frame_bind [OF frames_lift_res] safe_gets_bind)
       (auto split: option.splits intro!: gate_frames gate_rules safe_if fresh)
qed

section \<open>open\<close>

lemma open_checks_wp:
  assumes "gs_db s = d"
    and "\<And>t. gs_db t = d \<Longrightarrow> op_generation pf = g \<Longrightarrow> gr_candidate_generation row = g \<Longrightarrow>
      op_candidate_digest pf = gr_candidate_digest row \<Longrightarrow> op_lease pf = gr_lease row \<Longrightarrow> Q () t"
    and "\<And>e t. gs_db t = d \<Longrightarrow> R e t"
  shows "wp (open_checks E g pf row) Q R s"
  using assms by (auto simp: open_checks_def g_lease_ok_def split: sum.splits)

lemma gate_safe_open_checks:
  assumes "gate_inv H d"
    and "op_generation pf = g \<Longrightarrow> gr_candidate_generation row = g \<Longrightarrow>
      op_candidate_digest pf = gr_candidate_digest row \<Longrightarrow> op_lease pf = gr_lease row \<Longrightarrow> gate_safe H k d"
  shows "gate_safe H (then_x (open_checks E g pf row) k) d"
proof (rule safeI)
  fix s :: gate_sys
  assume s: "gs_db s = d"
  show "wp (then_x (open_checks E g pf row) k) (\<lambda>_ t. gate_inv H (gs_db t)) (\<lambda>_ t. gate_inv H (gs_db t)) s"
    using assms by (simp, intro open_checks_wp [OF s]) (auto simp: safe_def)
qed

lemma open_fence_not_Nil [simp]: "open_fence g pf row \<noteq> []"
  by (simp add: open_fence_def)

lemma open_expose_safe:
  assumes "gate_inv H d" and "gd_state d = Some r" and "gr_state r = OPENING"
    and "gr_candidate_generation r = g" and "gr_candidate_digest r = op_candidate_digest pf"
  shows "gate_safe H (open_expose E g pf row) d"
  unfolding open_expose_def Let_def using assms
  by (intro gate_frames gate_rules safe_if safe_then [OF gate_fail_close_safe]
       gate_safe_move_seq_then [of _ _ r] gate_inv_append [where r = r])
     (auto intro!: gate_inv_open)

lemma open_effect_safe:
  assumes "gate_inv H d" and "gd_state d = Some row" and "H = ge_hash E"
    and "gr_candidate_generation row = g" and "op_generation pf = g"
    and "op_candidate_digest pf = gr_candidate_digest row"
    and "op_lease pf = gr_lease row" and "gr_state row \<noteq> OPENING"
  shows "gate_safe H (open_effect E g pf row) d"
  unfolding open_effect_def Let_def using assms
  by (intro gate_frames gate_safe_move_then [of _ _ row])
     (auto intro!: open_expose_safe gate_inv_opening)

lemma gate_open_safe:
  assumes "gate_inv H d" and "H = ge_hash E"
  shows "gate_safe H (gate_open E g pf) d"
  unfolding gate_open_def using assms
  by (intro gate_rules gate_safe_open_checks safe_if) (auto intro!: open_effect_safe)


section \<open>observe\<close>

lemma gate_inv_admit:
  assumes inv: "gate_inv H d" and r: "gd_state d = Some r"
    and st: "gr_state r \<notin> {OPENING, ROLLED_BACK, FAILED_SAFE, SAFETY_UNKNOWN}"
    and route: "gr_route_generation r = Some g" "f = gr_route_fence r"
    and fresh: "find_admission (aq_request_id request) (gd_admission d) = None"
  shows "gate_inv H (insert_admission request g f (gr_transition_seq r) d)"
proof -
  let ?a = "\<lparr>ad_request_id = aq_request_id request, ad_route_epoch = f, ad_chosen_generation = g,
    ad_admitted_at = aq_admitted_at request, ad_finished_at = None, ad_result = None, ad_abort = None,
    ad_transition_seq = gr_transition_seq r\<rparr>"
  have "admission_ok r (gd_transition d) ?a"
    using inv r st route
    by (cases "gr_state r") (auto simp: gate_inv_def route_ok_def admission_ok_def history_ok_def)
  moreover have "aq_request_id request \<notin> ad_request_id ` set (gd_admission d)"
    using fresh by (auto simp: find_admission_def find_None_iff)
  ultimately show ?thesis
    using inv r by (auto simp: gate_inv_def insert_admission_def requests_ok_def)
qed

lemma finish_row_simps [simp]:
  "ad_request_id (finish_row rid result a) = ad_request_id a"
  "ad_chosen_generation (finish_row rid result a) = ad_chosen_generation a"
  "admission_ok r rows (finish_row rid result a) = admission_ok r rows a"
  by (simp_all add: finish_row_def admission_ok_def)

lemma gate_inv_finish:
  assumes inv: "gate_inv H d" and ex: "existing \<in> set (gd_admission d)" "ad_request_id existing = rid"
  shows "gate_inv H (finish_admission rid result existing d)"
proof -
  obtain r where r: "gd_state d = Some r"
    using inv ex by (cases "gd_state d") (auto simp: gate_inv_def)
  have "requests_ok (gd_admission d) (gd_event d)" using inv r by (simp add: gate_inv_def)
  then have "requests_ok (gd_admission (finish_admission rid result existing d))
      (gd_event (finish_admission rid result existing d))"
    using ex by (auto simp: requests_ok_def finish_admission_def comp_def)
  then show ?thesis using inv r by (simp add: gate_inv_def finish_admission_def)
qed

lemma observe_finish_safe:
  assumes "gate_inv H d" and "existing \<in> set (gd_admission d)" and "ad_request_id existing = rid"
  shows "gate_safe H (observe_finish rid existing result) d"
  unfolding observe_finish_def g_atomic_def using assms
  by (intro gate_rules safe_tx) (simp_all add: gate_inv_finish)

lemma find_admission_Some:
  "find_admission rid adm = Some a \<Longrightarrow> a \<in> set adm \<and> ad_request_id a = rid"
  by (auto simp: find_admission_def find_Some_iff)

lemma find_admission_insert:
  "find_admission (aq_request_id request) (gd_admission (insert_admission request g f n d)) \<noteq> None"
  unfolding find_admission_def find_None_iff
  by (simp add: insert_admission_def) (rule exI, rule conjI, rule disjI1, rule refl, simp)

text \<open>The admission of a new request returns a row of the table.\<close>

lemma observe_new_wp:
  assumes inv: "gate_inv H (gs_db s)"
    and fresh: "find_admission (aq_request_id request) (gd_admission (gs_db s)) = None"
  shows "wp (observe_new E request)
    (\<lambda>a t. gate_inv H (gs_db t) \<and> find_admission (aq_request_id request) (gd_admission (gs_db t)) = Some a)
    (\<lambda>_ t. gate_inv H (gs_db t)) s"
proof -
  have "wp (gate_fail_close E g reason) (\<lambda>_ t. gate_inv H (gs_db t)) (\<lambda>_ t. gate_inv H (gs_db t)) s" for g reason
    using gate_fail_close_safe [OF inv] by (simp add: safe_def)
  then have "wp (gate_fail_close E g reason) (\<lambda>_. wp (raise_x e) Q (\<lambda>_ t. gate_inv H (gs_db t)))
      (\<lambda>_ t. gate_inv H (gs_db t)) s" for g reason e and Q :: "unit \<Rightarrow> gate_sys \<Rightarrow> bool"
    by (rule wp_mono) simp_all
  then show ?thesis
    unfolding observe_new_def g_atomic_def
    using inv fresh find_admission_insert [of request]
    by (auto simp: gate_inv_admit split: option.splits)
qed

lemma gate_observe_safe:
  assumes "gate_inv H d"
  shows "gate_safe H (gate_observe E request result) d"
proof (rule safeI)
  fix s :: gate_sys
  assume s: "gs_db s = d"
  let ?I = "\<lambda>t. gate_inv H (gs_db t)"
  have finish: "wp (observe_finish (aq_request_id request) a r) (\<lambda>_. wp (return_x x) (\<lambda>_. ?I) (\<lambda>_. ?I)) (\<lambda>_. ?I) t"
    if "?I t" "find_admission (aq_request_id request) (gd_admission (gs_db t)) = Some a" for t a r and x :: int
  proof (rule wp_mono)
    show "wp (observe_finish (aq_request_id request) a r) (\<lambda>_. ?I) (\<lambda>_. ?I) t"
      using that find_admission_Some [OF that(2)] observe_finish_safe [of H "gs_db t" a]
      by (auto simp: safe_def)
  qed simp_all
  show "wp (gate_observe E request result) (\<lambda>_. ?I) (\<lambda>_. ?I) s"
    using assms s unfolding gate_observe_def
    by (cases "find_admission (aq_request_id request) (gd_admission (gs_db s))")
       (auto intro!: finish wp_mono [OF observe_new_wp] split: option.splits)
qed

section \<open>reconcile\<close>

lemma py_item_jget:
  "jget k v = Some x \<Longrightarrow> py_item v k = Inr x"
  by (cases v) (simp_all add: py_item_def jget_def)

lemma lease_of_dict_canon: "lease_of_dict (canon (lease_dict g)) = Inr g"
proof -
  have keys: "(case canon (lease_dict g) of
      JObj kvs \<Rightarrow> set (map fst kvs) = {''holder'', ''fencing_token'', ''expires_at''} | _ \<Rightarrow> False)"
    by (auto simp: lease_dict_def)
  have "jget ''holder'' (canon (lease_dict g)) = Some (JStr (lg_holder g))"
    "jget ''fencing_token'' (canon (lease_dict g)) = Some (JInt (lg_fencing_token g))"
    "jget ''expires_at'' (canon (lease_dict g)) = Some (JInt (lg_expires_at g))"
    by (simp_all add: lease_dict_def del: canon.simps(2))
  note items = this [THEN py_item_jget]
  show ?thesis using keys by (simp add: lease_of_dict_def items item_str_def item_int_def)
qed

text \<open>The proof stored with an open intent is the proof the gate was opened with.\<close>

lemma open_intent_items:
  fixes pf x
  defines "detail \<equiv> canon (JObj (proof_fields pf @ [(''proof_digest'', JStr x)]))"
  shows "item_str detail ''plan_id'' = Inr (op_plan_id pf)"
    and "item_int detail ''generation'' = Inr (op_generation pf)"
    and "item_int detail ''evidence_count'' = Inr (op_evidence_count pf)"
    and "item_str detail ''evidence_digest'' = Inr (op_evidence_digest pf)"
    and "item_str detail ''coverage_digest'' = Inr (op_coverage_digest pf)"
    and "py_item detail ''lease'' = Inr (canon (lease_dict (op_lease pf)))"
    and "item_str detail ''candidate_digest'' = Inr (op_candidate_digest pf)"
    and "item_str detail ''proof_digest'' = Inr x"
proof -
  have items: "py_item detail k = Inr (canon v)"
    if "map_of (proof_fields pf @ [(''proof_digest'', JStr x)]) k = Some v" for k v
    using that unfolding detail_def by (intro py_item_jget) (simp del: canon.simps(2))
  show "item_str detail ''plan_id'' = Inr (op_plan_id pf)"
    and "item_int detail ''generation'' = Inr (op_generation pf)"
    and "item_int detail ''evidence_count'' = Inr (op_evidence_count pf)"
    and "item_str detail ''evidence_digest'' = Inr (op_evidence_digest pf)"
    and "item_str detail ''coverage_digest'' = Inr (op_coverage_digest pf)"
    and "py_item detail ''lease'' = Inr (canon (lease_dict (op_lease pf)))"
    and "item_str detail ''candidate_digest'' = Inr (op_candidate_digest pf)"
    and "item_str detail ''proof_digest'' = Inr x"
    by (simp_all add: item_str_def item_int_def items proof_fields_def)
qed

lemma proof_of_detail_canon:
  "proof_of_detail (canon (JObj (proof_fields pf @ [(''proof_digest'', JStr x)]))) = Inr pf"
  by (simp add: proof_of_detail_def open_intent_items lease_of_dict_canon del: canon.simps(2))

lemma close_target_terminal: "close_target a \<in> {ROLLED_BACK, FAILED_SAFE, SAFETY_UNKNOWN}"
  by (simp add: close_target_def)

lemma reconcile_fail_close_safe:
  assumes "gate_inv H d" and "gd_state d = Some row"
  shows "gate_safe H (reconcile_fail_close E row intent) d"
  unfolding reconcile_fail_close_def Let_def set_route_columns_def using assms
  by (intro gate_frames gate_safe_move_then [of _ _ row] gate_rules gate_inv_terminal close_target_terminal) auto

lemma reconcile_rollback_safe:
  assumes "gate_inv H d" and "gd_state d = Some row"
  shows "gate_safe H (reconcile_rollback E row intent) d"
proof -
  have "gate_inv H (moved row (gr_candidate_generation row) (rollback_target c) ''rollback'' ''receipt'' det fe oid at_time d)"
    if "rollback_target c = gr_state row \<or> rollback_target c \<in> set (ALLOWED (gr_state row))" for c det fe oid at_time
    using gate_inv_terminal [OF assms refl that _ rollback_target_terminal, of "\<lambda>r. r" "''rollback''"] by simp
  then show ?thesis
    unfolding reconcile_rollback_def Let_def using assms
    by (intro gate_frames gate_safe_plain_move_then [of _ _ row] gate_rules)
qed

lemma cancel_open_safe:
  assumes "gate_inv H d" and "gd_state d = Some r" and "gr_candidate_generation r = g"
  shows "gate_safe H (cancel_open E g intent reason) d"
  unfolding cancel_open_def using assms
  by (intro gate_rules safe_bind [OF gate_fail_close_safe] gate_inv_append [where r = r]) auto

lemma confirm_open_safe:
  assumes "gate_inv H d" and "gd_state d = Some r" and "gr_state r = OPENING"
    and "gr_candidate_generation r = g" and "gr_candidate_digest r = dg" and "rs_fence actual \<noteq> []"
  shows "gate_safe H (confirm_open E g intent actual dg) d"
  unfolding confirm_open_def using assms
  by (intro gate_safe_move_seq_then [of _ _ r] gate_rules gate_inv_open) auto

lemma recovery_close_safe:
  assumes "gate_inv H d" and "gd_state d = Some r" and "gr_candidate_generation r = g"
  shows "gate_safe H (recovery_close E g intent actual) d"
  unfolding recovery_close_def Let_def using assms
  by (intro gate_rules gate_frames safe_if cancel_open_safe [where r = r] gate_safe_move_then [of _ _ r]
       gate_inv_append [where r = r] gate_inv_terminal) auto

lemma reconcile_recovery_close_safe:
  assumes "gate_inv H d" and "gd_state d = Some row"
  shows "gate_safe H (reconcile_recovery_close E row intent) d"
proof -
  let ?g = "gr_candidate_generation row"
  have tx: "gate_safe H (then_x (g_atomic (then_x
        (g_append E ?g ''receipt'' ''open.reconcile.close_all'' f None fe det oid)
        (case oi of None \<Rightarrow> raise_x e | Some i \<Rightarrow>
          g_transition E ?g (close_target a) ''open'' ''receipt'' det' fe' (oid' i))))
      (return_x x)) d" for f fe det oid oi e a det' fe' oid' x
  proof -
    have inv: "gate_inv H (insert_transition ?g ''receipt'' ''open.reconcile.close_all'' oid f None fe at_time det d)"
      for oid at_time
      using assms by (intro gate_inv_append) auto
    have "gate_inv H (moved row ?g (close_target a) ''open'' ''receipt'' det' fe' oid2 at2
        (insert_transition ?g ''receipt'' ''open.reconcile.close_all'' oid f None fe at_time det d))"
      if "close_target a = gr_state row \<or> close_target a \<in> set (ALLOWED (gr_state row))"
      for oid at_time oid2 at2
      using gate_inv_terminal [OF inv _ refl that same_identity_refl close_target_terminal] assms(2)
      by simp
    then show ?thesis
      unfolding g_atomic_def using assms
      by (intro safe_tx_then) (auto split: option.splits intro!: safe_return)
  qed
  show ?thesis
    unfolding reconcile_recovery_close_def Let_def using assms
    by (intro gate_frames safe_gets_bind tx)
qed

lemma frames_fresh_check:
  "frames gs_db (if c then return_x False else g_lease_ok E l l')"
  by (intro frame_intros)

lemma reconcile_opening_safe:
  assumes inv: "gate_inv H d" and row: "gd_state d = Some row" "gr_state row = OPENING" and E: "H = ge_hash E"
  shows "gate_safe H (reconcile_opening E row) d"
proof -
  obtain i pf f where i: "last_row (op_kind ''open'' ''intent'') (gd_transition d) = Some i"
    "tr_fence i = Some f" "f \<noteq> []" "op_candidate_digest pf = gr_candidate_digest row"
    "tr_detail i = canon (JObj (proof_fields pf @ [(''proof_digest'', JStr (proof_digest H pf))]))"
    using gate_inv_route [OF inv row(1)] row(2) by (auto simp: route_ok_def intent_ok_def)
  have "gate_safe H (confirm_open E (gr_candidate_generation row) i actual (op_candidate_digest pf)) d"
    if "Some (rs_fence actual) = tr_fence i" for actual
    using inv row i that by (intro confirm_open_safe [of _ _ row]) auto
  then show ?thesis
    unfolding reconcile_opening_def Let_def using inv row i
    by (intro safe_gets_bind)
       (auto simp: proof_of_detail_canon open_intent_items lift_res_def simp del: canon.simps(2)
         intro!: safe_frame_bind [OF frames_fresh_check] safe_frame_bind [OF frames_g_lease_ok] safe_if gate_frames
           cancel_open_safe recovery_close_safe split: sum.splits)
qed

lemma gate_reconcile_safe:
  assumes "gate_inv H d" and "H = ge_hash E"
  shows "gate_safe H (gate_reconcile E) d"
  unfolding gate_reconcile_def using assms
  by (intro gate_rules safe_gets_bind)
     (auto split: option.splits intro!: gate_rules safe_if reconcile_fail_close_safe
       reconcile_recovery_close_safe reconcile_rollback_safe reconcile_opening_safe)

end
