(* ===== verification/Gate_Properties.thy ===== *)
theory Gate_Properties
  imports Gate_Invariant
begin

text \<open>
  Runs of the gate under arbitrary interleavings with its environment, and what holds in every
  reachable state: the offline oracle finds no violation of the exposure contract, terminal states
  are final, the candidate is exposed only under a recorded intent, and recovery decides.
\<close>

section \<open>Runs of the gate\<close>

datatype gate_call =
    G_stage json json
  | G_close int
  | G_open int open_proof
  | G_drain int
  | G_observe admission_request "admission_result option"
  | G_reconcile
  | G_rollback int "behavioral_oracle_result option"
  | G_fail_close int string

text \<open>The state a call leaves, whether it returns or raises.\<close>

fun gate_after :: "gate_env \<Rightarrow> gate_call \<Rightarrow> gate_sys \<Rightarrow> gate_sys" where
  "gate_after E (G_stage candidate predecessor) s = snd (gate_stage E candidate predecessor s)"
| "gate_after E (G_close g) s = snd (gate_close E g s)"
| "gate_after E (G_open g pf) s = snd (gate_open E g pf s)"
| "gate_after E (G_drain g) s = snd (gate_drain E g s)"
| "gate_after E (G_observe request result) s = snd (gate_observe E request result s)"
| "gate_after E G_reconcile s = snd (gate_reconcile E s)"
| "gate_after E (G_rollback g oracle) s = snd (gate_rollback E g oracle s)"
| "gate_after E (G_fail_close g reason) s = snd (gate_fail_close E g reason s)"

text \<open>
  A step is a call or a change of anything but the store: the route, the leases, the armed faults
  and the clock may be changed from outside at any time, and a crash with a restart on the same
  database is a change of everything else.
\<close>

inductive gate_step :: "gate_env \<Rightarrow> gate_sys \<Rightarrow> gate_sys \<Rightarrow> bool" for E where
  gate_step_call: "gate_step E s (gate_after E c s)"
| gate_step_environment: "gs_db t = gs_db s \<Longrightarrow> gate_step E s t"

inductive_cases gate_stepE: "gate_step E s t"

definition gate_initial :: "gate_sys \<Rightarrow> bool" where
  "gate_initial s \<longleftrightarrow> gs_db s = gate_schema"

text \<open>One safety fact per operation gives a fact about steps.\<close>

lemma gate_after_safe:
  assumes "\<And>a b. safe gs_db I (gate_stage E a b) d" "\<And>g. safe gs_db I (gate_close E g) d"
    and "\<And>g pf. safe gs_db I (gate_open E g pf) d" "\<And>g. safe gs_db I (gate_drain E g) d"
    and "\<And>q r. safe gs_db I (gate_observe E q r) d" "safe gs_db I (gate_reconcile E) d"
    and "\<And>g b. safe gs_db I (gate_rollback E g b) d" "\<And>g r. safe gs_db I (gate_fail_close E g r) d"
    and "gs_db s = d"
  shows "I (gs_db (gate_after E c s))"
  using assms by (cases c) (auto intro: safe_snd)

interpretation gate: step_invariant gate_initial "gate_step E" "\<lambda>s. gate_inv (ge_hash E) (gs_db s)" for E
proof
  show "gate_inv (ge_hash E) (gs_db s)" if "gate_initial s" for s
    using that by (simp add: gate_initial_def gate_schema_def gate_inv_def)
next
  fix s t
  assume inv: "gate_inv (ge_hash E) (gs_db s)" and "gate_step E s t"
  from this(2) show "gate_inv (ge_hash E) (gs_db t)"
  proof (rule gate_stepE)
    fix c
    assume t: "t = gate_after E c s"
    show ?thesis unfolding t
      by (rule gate_after_safe [where I = "gate_inv (ge_hash E)"])
         (auto intro: inv gate_stage_safe gate_close_safe gate_open_safe gate_drain_safe gate_observe_safe
            gate_reconcile_safe gate_rollback_safe gate_fail_close_safe)
  qed (simp add: inv)
qed

section \<open>What the oracle can find in a reachable store\<close>

text \<open>
  The errors of the oracle that concern the pairing of intents and receipts, and transitions out of
  DRAINING that the gate allows and the oracle's table lacks. All others are violations of the
  exposure contract or of the integrity of the journal.
\<close>

fun bookkeeping_error :: "trace_error \<Rightarrow> bool" where
  "bookkeeping_error (TE_source_mismatch n f st) = True"
| "bookkeeping_error (TE_duplicate_intent oid) = True"
| "bookkeeping_error (TE_receipt_without_intent oid) = True"
| "bookkeeping_error (TE_unpaired_intents oids) = True"
| "bookkeeping_error (TE_unknown_transition st t) = (st = DRAINING \<and> t \<in> set (ALLOWED DRAINING))"
| "bookkeeping_error _ = False"

lemma ALLOWED_oracle:
  "t \<in> set (ALLOWED st) \<Longrightarrow> t \<in> set (oracle_allowed st) \<or> (st = DRAINING \<and> t \<in> set (ALLOWED DRAINING))"
  by (cases st) auto

lemma replay_errors_bookkeeping:
  assumes "tr_seq row = re_expected_seq a" and "tr_generation row = c"
    and "case tr_to row of None \<Rightarrow> True | Some t \<Rightarrow> t = re_state a \<or> t \<in> set (ALLOWED (re_state a))"
    and "e \<in> set (replay_errors (Some c) row a)"
  shows "bookkeeping_error e"
  using assms ALLOWED_oracle [of "the (tr_to row)" "re_state a"]
  by (auto simp: replay_errors_def simp del: ALLOWED.simps oracle_allowed.simps
      split: option.splits if_splits)

lemma replay_rows_bookkeeping:
  assumes "map tr_seq rows = [re_expected_seq a..<re_expected_seq a + length rows]"
    and "\<forall>t \<in> set rows. tr_generation t = c" and "legal_path (re_state a) rows"
  shows "(\<forall>e \<in> set (snd (replay_rows (Some c) rows a)). bookkeeping_error e)
    \<and> re_state (fst (replay_rows (Some c) rows a)) = end_state (re_state a) rows"
  using assms
proof (induction rows arbitrary: a)
  case (Cons row rows)
  have seqs: "tr_seq row = re_expected_seq a"
    "map tr_seq rows = [Suc (re_expected_seq a)..<Suc (re_expected_seq a) + length rows]"
    using Cons.prems(1) by (simp_all add: upt_rec)
  have next': "re_expected_seq (replay_next row a) = Suc (re_expected_seq a)"
    "re_state (replay_next row a) = (case tr_to row of None \<Rightarrow> re_state a | Some t \<Rightarrow> t)"
    using seqs by (simp_all add: replay_next_def)
  have legal: "legal_path (re_state (replay_next row a)) rows"
    "case tr_to row of None \<Rightarrow> True | Some t \<Rightarrow> t = re_state a \<or> t \<in> set (ALLOWED (re_state a))"
    using Cons.prems(3) next' by (auto split: option.splits)
  have "\<forall>e \<in> set (replay_errors (Some c) row a). bookkeeping_error e"
    using replay_errors_bookkeeping [OF seqs(1) _ legal(2), of c] Cons.prems(2) by simp
  moreover have "(\<forall>e \<in> set (snd (replay_rows (Some c) rows (replay_next row a))). bookkeeping_error e)
      \<and> re_state (fst (replay_rows (Some c) rows (replay_next row a)))
        = end_state (re_state (replay_next row a)) rows"
    using Cons.prems seqs legal next' by (intro Cons.IH) auto
  ultimately show ?case using next' by auto
qed simp

lemma crossed_errors_none:
  assumes "\<forall>e \<in> set es. gen (ev_request_id e) = ev_chosen_generation e"
    and "\<forall>k v. map_of seen k = Some v \<longrightarrow> gen k = v"
  shows "crossed_errors seen es = []"
  using assms
proof (induction es arbitrary: seen)
  case (Cons e es)
  then show ?case by (auto split: option.splits)
qed simp

lemma open_receipts_subset: "set (open_receipts rows) \<subseteq> set rows"
  by (auto simp: open_receipts_def)

lemma fence_of_not_Nil [simp]: "fence_of g \<noteq> []"
  by (simp add: fence_of_def)

lemma admission_errors_none:
  assumes "admission_ok r rows a" and "gr_candidate_generation r = gr_predecessor_generation r + 1"
  shows "admission_errors (Some (gr_candidate_generation r)) (Some (gr_predecessor_generation r))
    (case open_receipts rows of [] \<Rightarrow> None | q # _ \<Rightarrow> Some (tr_seq q))
    (case open_receipts rows of [] \<Rightarrow> None | q # _ \<Rightarrow> tr_fence q) a = []"
  using assms by (cases "open_receipts rows") (auto simp: admission_errors_def admission_ok_def Let_def)

lemma request_generation:
  assumes "requests_ok adm ev" and "e \<in> set ev"
  shows "(case map_of (map (\<lambda>a. (ad_request_id a, ad_chosen_generation a)) adm) (ev_request_id e) of
      None \<Rightarrow> 0 | Some g \<Rightarrow> g) = ev_chosen_generation e"
proof -
  obtain a where a: "a \<in> set adm" "ad_request_id a = ev_request_id e" "ad_chosen_generation a = ev_chosen_generation e"
    using assms by (auto simp: requests_ok_def)
  have "map_of (map (\<lambda>a. (ad_request_id a, ad_chosen_generation a)) adm) (ad_request_id a)
    = Some (ad_chosen_generation a)"
    using assms(1) a(1) by (intro map_of_is_SomeI) (auto simp: requests_ok_def comp_def)
  then show ?thesis using a by simp
qed

lemma evaluate_trace_bookkeeping:
  assumes inv: "gate_inv H d" and r: "gd_state d = Some r"
  shows "\<exists>rep. evaluate_trace d = Inr rep \<and> (\<forall>e \<in> set (tp_errors rep). bookkeeping_error e)"
proof -
  let ?rows = "gd_transition d" and ?c = "gr_candidate_generation r" and ?p = "gr_predecessor_generation r"
  have h: "history_ok r ?rows" and route: "route_ok H r ?rows" and pc: "?c = ?p + 1"
    and adm: "\<forall>a \<in> set (gd_admission d). admission_ok r ?rows a"
    and req: "requests_ok (gd_admission d) (gd_event d)"
    using inv r by (simp_all add: gate_inv_def)
  have replay: "(\<forall>e \<in> set (snd (replay_rows (Some ?c) ?rows replay_start)). bookkeeping_error e)
      \<and> re_state (fst (replay_rows (Some ?c) ?rows replay_start)) = gr_state r"
    using h replay_rows_bookkeeping [of ?rows replay_start ?c] by (simp add: history_ok_def replay_start_def)
  have "crossed_errors [] (gd_event d) = []"
    using req by (intro crossed_errors_none [where gen = "\<lambda>i. case map_of (map (\<lambda>a.
        (ad_request_id a, ad_chosen_generation a)) (gd_admission d)) i of None \<Rightarrow> 0 | Some g \<Rightarrow> g"])
      (simp_all add: request_generation)
  moreover have "concat (map (admission_errors (Some ?c) (Some ?p)
      (case open_receipts ?rows of [] \<Rightarrow> None | q # _ \<Rightarrow> Some (tr_seq q))
      (case open_receipts ?rows of [] \<Rightarrow> None | q # _ \<Rightarrow> tr_fence q)) (sorted_admissions d)) = []"
    using admission_errors_none [OF _ pc] adm by (simp add: sorted_admissions_def)
  moreover have "open_snapshot_errors (gr_candidate_digest r) (open_receipts ?rows) = []"
    using h by (auto simp: open_snapshot_errors_def open_receipts_def history_ok_def)
  moreover have "close_snapshot_errors (gr_predecessor_digest r) ?rows = []"
    using h by (auto simp: close_snapshot_errors_def history_ok_def split: option.splits)
  moreover have "\<not> card (set (map tr_generation (open_receipts ?rows))) > 1"
  proof -
    have "tr_generation ` set (open_receipts ?rows) \<subseteq> {?c}"
      using h open_receipts_subset [of ?rows] by (auto simp: history_ok_def)
    then have "card (tr_generation ` set (open_receipts ?rows)) \<le> card {?c}" by (intro card_mono) auto
    then show ?thesis by simp
  qed
  moreover have "gr_state r = CANDIDATE_OPEN \<Longrightarrow> gr_route_generation r = Some ?c
      \<and> Some (gr_route_fence r) = (case open_receipts ?rows of [] \<Rightarrow> None | q # _ \<Rightarrow> tr_fence q)
      \<and> gr_observed_candidate_digest r = Some (gr_candidate_digest r)"
    using route by (auto simp: route_ok_def)
  ultimately show ?thesis
    using replay h r by (simp add: evaluate_trace_def Let_def history_ok_def) auto
qed

section \<open>Terminal states\<close>

text \<open>The gate rests in a terminal state, with a fixed list of admitted requests.\<close>

definition gate_final :: "gate_state \<Rightarrow> string list \<Rightarrow> gate_db \<Rightarrow> bool" where
  "gate_final st ids d \<longleftrightarrow> (\<exists>r. gd_state d = Some r \<and> gr_state r = st
     \<and> st \<in> {ROLLED_BACK, FAILED_SAFE, SAFETY_UNKNOWN} \<and> map ad_request_id (gd_admission d) = ids)"

lemma gate_final_insert [simp]:
  "gate_final st ids (insert_transition g k p oid f t fe at_time det d) = gate_final st ids d"
  by (simp add: gate_final_def)

lemma gate_final_moved:
  assumes "gate_final st ids d" and "gd_state d = Some r"
    and "target = gr_state r \<or> target \<in> set (ALLOWED (gr_state r))" and "\<And>x. gr_state (u x) = gr_state x"
  shows "gate_final st ids (update_row u (moved r g target p k det fe oid at_time d))"
  using assms by (auto simp: gate_final_def)

lemmas gate_final_plain = gate_final_moved [where u = "\<lambda>r. r", simplified]

lemma gate_final_stage: "gate_final st ids d \<Longrightarrow> safe gs_db (gate_final st ids) (gate_stage E a b) d"
  unfolding gate_stage_def Let_def
  by (intro safe_frame_bind [OF frames_lift_res] safe_gets_bind)
     (auto split: option.splits intro!: gate_rules safe_if simp: gate_final_def)

lemma gate_final_fail_close: "gate_final st ids d \<Longrightarrow> safe gs_db (gate_final st ids) (gate_fail_close E g r) d"
  unfolding gate_fail_close_def Let_def set_route_columns_def
  by (intro gate_rules gate_frames gate_safe_move_then gate_final_moved) (auto split: option.splits)

lemma gate_final_close: "gate_final st ids d \<Longrightarrow> safe gs_db (gate_final st ids) (gate_close E g) d"
  unfolding gate_close_def close_effect_def Let_def
  by (intro gate_rules safe_if safe_gets_bind gate_frames gate_safe_move
        safe_then [OF gate_final_fail_close])
     (auto simp: gate_final_def)

lemma gate_final_open: "gate_final st ids d \<Longrightarrow> safe gs_db (gate_final st ids) (gate_open E g pf) d"
  unfolding gate_open_def open_effect_def Let_def
  by (intro gate_rules safe_frame_then [OF frames_open_checks] safe_if gate_frames gate_safe_move_then)
     (auto simp: gate_final_def)

lemma gate_final_drain: "gate_final st ids d \<Longrightarrow> safe gs_db (gate_final st ids) (gate_drain E g) d"
  unfolding gate_drain_def drain_settle_def
  by (intro gate_rules safe_if safe_gets_bind gate_safe_plain_move_then)
     (auto simp: gate_final_def)

lemma gate_final_rollback: "gate_final st ids d \<Longrightarrow> safe gs_db (gate_final st ids) (gate_rollback E g b) d"
  unfolding gate_rollback_def Let_def set_route_columns_def g_atomic_route
  by (intro gate_rules gate_frames gate_safe_move_then gate_final_moved) auto

lemma gate_final_finish [simp]:
  "gate_final st ids (finish_admission rid r a d) = gate_final st ids d"
  by (simp add: gate_final_def finish_admission_def comp_def)

lemma gate_final_observe:
  assumes fin: "gate_final st ids d"
  shows "safe gs_db (gate_final st ids) (gate_observe E q res) d"
proof (rule safeI)
  fix s :: gate_sys
  assume s: "gs_db s = d"
  let ?I = "\<lambda>t. gate_final st ids (gs_db t)"
  obtain row where row: "gd_state d = Some row" "gr_state row \<in> {ROLLED_BACK, FAILED_SAFE, SAFETY_UNKNOWN}"
    using fin by (auto simp: gate_final_def)
  have "safe gs_db (gate_final st ids) (observe_finish rid a r) d" for rid a r
    unfolding observe_finish_def g_atomic_def using fin by (intro gate_rules safe_tx) simp_all
  then have "wp (observe_finish rid a r) (\<lambda>_. ?I) (\<lambda>_. ?I) s" for rid a r
    using s by (simp add: safe_def)
  then have finish: "wp (observe_finish rid a r) (\<lambda>_. wp (return_x x) (\<lambda>_. ?I) (\<lambda>_. ?I)) (\<lambda>_. ?I) s"
    for rid a r and x :: int
    by (rule wp_mono) simp_all
  show "wp (gate_observe E q res) (\<lambda>_. ?I) (\<lambda>_. ?I) s"
  proof (cases "find_admission (aq_request_id q) (gd_admission d)")
    case None
    then show ?thesis
      using s row fin by (cases "gr_state row") (auto simp: gate_observe_def observe_new_def)
  next
    case (Some a)
    then show ?thesis using s fin finish by (cases res) (auto simp: gate_observe_def)
  qed
qed

lemma gate_final_cancel_open:
  "gate_final st ids d \<Longrightarrow> safe gs_db (gate_final st ids) (cancel_open E g i r) d"
  unfolding cancel_open_def by (intro gate_rules safe_bind [OF gate_final_fail_close]) auto

lemma gate_final_reconcile: "gate_final st ids d \<Longrightarrow> safe gs_db (gate_final st ids) (gate_reconcile E) d"
  unfolding gate_reconcile_def
proof (intro gate_safe_row safe_gets_bind, assumption)
  fix row
  assume fin: "gate_final st ids d" and row: "gd_state d = Some row"
  have "safe gs_db (gate_final st ids) (reconcile_fail_close E row i) d" for i
    using fin row unfolding reconcile_fail_close_def Let_def set_route_columns_def
    by (intro gate_frames gate_safe_move_then [of _ _ row] gate_rules gate_final_moved) (auto split: option.splits)
  moreover have "safe gs_db (gate_final st ids) (reconcile_rollback E row i) d" for i
    using fin row unfolding reconcile_rollback_def Let_def
    by (intro gate_frames gate_safe_plain_move_then [of _ _ row] gate_rules gate_final_plain) auto
  moreover have "safe gs_db (gate_final st ids) (reconcile_recovery_close E row i) d" for i
    using fin row unfolding reconcile_recovery_close_def Let_def g_atomic_def
    by (intro gate_frames safe_gets_bind safe_tx_then)
       (auto split: option.splits intro!: safe_return gate_final_plain)
  moreover have "gr_state row \<noteq> OPENING" using fin row by (auto simp: gate_final_def)
  ultimately show "safe gs_db (gate_final st ids)
      (case open_intent_of ''fail_close'' (gd_transition d) of
         Some intent \<Rightarrow> reconcile_fail_close E row intent
       | None \<Rightarrow> (case recovery_close_intent (gd_transition d) of
           Some intent \<Rightarrow> reconcile_recovery_close E row intent
         | None \<Rightarrow> (case open_intent_of ''rollback'' (gd_transition d) of
             Some intent \<Rightarrow> reconcile_rollback E row intent
           | None \<Rightarrow> (if gr_state row \<noteq> OPENING then return_x (gr_state row) else reconcile_opening E row)))) d"
    using fin by (auto split: option.splits intro: safe_return)
qed

lemma gate_final_steps:
  assumes "(gate_step E)\<^sup>*\<^sup>* s t" and "gate_final st ids (gs_db s)"
  shows "gate_final st ids (gs_db t)"
  using assms
proof (induction rule: rtranclp_induct)
  case (step t u)
  from step.hyps(2) show ?case
  proof (rule gate_stepE)
    fix c
    assume u: "u = gate_after E c t"
    show ?thesis unfolding u
      using step
      by (intro gate_after_safe [where I = "gate_final st ids"] gate_final_stage gate_final_close
           gate_final_open gate_final_drain gate_final_observe gate_final_reconcile gate_final_rollback
           gate_final_fail_close) auto
  qed (use step in simp)
qed

section \<open>Exposure is logged before it happens\<close>

text \<open>A step that leaves the actual route to the gate.\<close>

inductive gate_route_step :: "gate_env \<Rightarrow> gate_sys \<Rightarrow> gate_sys \<Rightarrow> bool" for E where
  gate_route_call: "gate_route_step E s (gate_after E c s)"
| gate_route_environment:
    "gs_db t = gs_db s \<Longrightarrow> ta_route (gs_traffic t) = ta_route (gs_traffic s) \<Longrightarrow> gate_route_step E s t"

inductive_cases gate_route_stepE: "gate_route_step E s t"

definition intent_logged :: "string \<Rightarrow> gate_db \<Rightarrow> bool" where
  "intent_logged f d \<longleftrightarrow> (\<exists>t \<in> set (gd_transition d). op_kind ''open'' ''intent'' t \<and> tr_fence t = Some f)"

text \<open>For a gate with predecessor generation \<open>p\<close>: the candidate is routed only under a logged fence.\<close>

definition route_logged :: "int \<Rightarrow> gate_sys \<Rightarrow> bool" where
  "route_logged p s \<longleftrightarrow> (\<exists>r. gd_state (gs_db s) = Some r \<and> gr_predecessor_generation r = p
     \<and> gr_candidate_generation r = p + 1)
     \<and> (rs_generation (ta_route (gs_traffic s)) = Some (p + 1) \<longrightarrow>
          intent_logged (rs_fence (ta_route (gs_traffic s))) (gs_db s))"

definition fence_logged :: "int \<Rightarrow> string \<Rightarrow> gate_sys \<Rightarrow> bool" where
  "fence_logged p f s \<longleftrightarrow> route_logged p s \<and> intent_logged f (gs_db s)"

lemma intent_logged_insert [simp]:
  "intent_logged f d \<Longrightarrow> intent_logged f (insert_transition g k p oid fr t fe at_time det d)"
  by (auto simp: intent_logged_def insert_transition_def)

lemma intent_logged_update [simp]:
  "intent_logged f (update_row u d) = intent_logged f d"
  "intent_logged f (insert_admission q g fe n d) = intent_logged f d"
  "intent_logged f (finish_admission rid res a d) = intent_logged f d"
  by (simp_all add: intent_logged_def insert_admission_def finish_admission_def)

lemma intent_logged_moved [simp]:
  "intent_logged f d \<Longrightarrow> intent_logged f (moved r g target p k det fe oid at_time d)"
  by (simp add: moved_def)

text \<open>
  Both predicates are kept by everything that adds rows, updates columns other than the generations,
  closes the route or leaves it alone.
\<close>

definition log_stable :: "int \<Rightarrow> (gate_sys \<Rightarrow> bool) \<Rightarrow> bool" where
  "log_stable p I \<longleftrightarrow> (I = route_logged p \<or> (\<exists>f. I = fence_logged p f))"

lemma log_stable_route: "log_stable p I \<Longrightarrow> I s \<Longrightarrow> route_logged p s"
  by (auto simp: log_stable_def fence_logged_def)

definition log_grows :: "int \<Rightarrow> gate_sys \<Rightarrow> gate_sys \<Rightarrow> bool" where
  "log_grows p s t \<longleftrightarrow> (\<forall>f. intent_logged f (gs_db s) \<longrightarrow> intent_logged f (gs_db t))
     \<and> (\<exists>r. gd_state (gs_db t) = Some r \<and> gr_predecessor_generation r = p \<and> gr_candidate_generation r = p + 1)
     \<and> (ta_route (gs_traffic t) = ta_route (gs_traffic s) \<or> rs_generation (ta_route (gs_traffic t)) \<noteq> Some (p + 1))"

lemma log_grows_keep: "log_stable p I \<Longrightarrow> I s \<Longrightarrow> log_grows p s t \<Longrightarrow> I t"
  by (auto simp: log_stable_def fence_logged_def route_logged_def log_grows_def)

lemma log_keep:
  assumes "log_stable p I"
    and "\<And>s. I s \<Longrightarrow> route_logged p s \<Longrightarrow> wp m (\<lambda>_ t. log_grows p s t) (\<lambda>_ t. log_grows p s t) s"
  shows "keeps I m"
proof (rule keepsI)
  fix s
  assume s: "I s"
  show "wp m (\<lambda>_. I) (\<lambda>_. I) s"
    by (rule wp_mono [OF assms(2) [OF s log_stable_route [OF assms(1) s]]])
       (auto intro: log_grows_keep [OF assms(1) s])
qed

lemma gd_state_requests [simp]:
  "gd_state (insert_admission q g fe n d) = gd_state d"
  "gd_state (finish_admission rid res a d) = gd_state d"
  by (simp_all add: insert_admission_def finish_admission_def)

named_theorems log_intros

lemma log_frame [log_intros]:
  assumes "log_stable p I"
  shows "keeps I (g_hit point)" "keeps I (g_clock E)" "keeps I g_route" "keeps I (lift_res r)"
    "keeps I (g_traffic (ta_close g))" "keeps I (g_traffic ta_query_route)" "keeps I (g_traffic ta_close_all)"
    "keeps I (g_append E g k q f t fe det oid)" "keeps I (g_transition E g target q k det fe oid)"
    "keeps I (g_db (insert_admission rq g fe' n))" "keeps I (g_db (finish_admission rid res a))"
  by (rule log_keep [OF assms], auto simp: route_logged_def log_grows_def g_hit_def g_traffic_def ta_close_def
       ta_query_route_def ta_close_all_def ta_hit_def ta_set_route_def closed_route_def
       split: option.splits sum.splits)+

lemma log_update [log_intros]:
  assumes "log_stable p I" and "\<And>r. gr_predecessor_generation (u r) = gr_predecessor_generation r
      \<and> gr_candidate_generation (u r) = gr_candidate_generation r"
  shows "keeps I (g_db (update_row u))"
  using assms(2) by (intro log_keep [OF assms(1)]) (auto simp: route_logged_def log_grows_def)

lemma log_stable_cong:
  "log_stable p I \<Longrightarrow> gs_db t = gs_db s \<Longrightarrow> gs_traffic t = gs_traffic s \<Longrightarrow> I s \<Longrightarrow> I t"
  by (auto simp: log_stable_def fence_logged_def route_logged_def)

lemma frames_traffic [frame_intros]:
  "frames gs_traffic (g_db f)" "frames gs_traffic (g_append E g k q fr t fe det oid)"
  "frames gs_traffic (g_transition E g target q k det fe oid)" "frames gs_traffic g_route"
  by (rule framesI, simp split: option.splits)+

lemma log_atomic [log_intros]:
  assumes "log_stable p I" and "frames gs_traffic m" and "keeps I m"
  shows "keeps I (g_atomic m)"
proof (rule keepsI)
  fix s
  assume s: "I s"
  have "wp m (\<lambda>_ t. I t \<and> gs_traffic t = gs_traffic s) (\<lambda>_ t. I t \<and> gs_traffic t = gs_traffic s) s"
    using wp_conj [OF keepsD [OF assms(3) s] framesD [OF assms(2), of s]] .
  then show "wp (g_atomic m) (\<lambda>_. I) (\<lambda>_. I) s"
    unfolding g_atomic_def wp_atomic
    by (rule wp_mono) (auto intro: log_stable_cong [OF assms(1) _ _ s])
qed

lemma log_row [log_intros]:
  assumes "log_stable p I"
    and "\<And>row. gr_predecessor_generation row = p \<Longrightarrow> gr_candidate_generation row = p + 1 \<Longrightarrow> keeps I (k row)"
  shows "keeps I (bind_x g_row k)"
proof (rule keepsI)
  fix s
  assume s: "I s"
  show "wp (bind_x g_row k) (\<lambda>_. I) (\<lambda>_. I) s"
    using log_stable_route [OF assms(1) s] s assms(2)
    by (auto simp: route_logged_def keeps_def)
qed

lemma log_restore [log_intros]:
  assumes "log_stable p I"
  shows "keeps I (g_traffic (ta_restore p f j))"
  by (rule log_keep [OF assms])
     (auto simp: route_logged_def log_grows_def g_traffic_def ta_restore_def ta_set_route_def Let_def split: json.splits)

lemma log_rollback_effect [log_intros]:
  assumes "log_stable p I" and "gr_predecessor_generation row = p"
  shows "keeps I (rollback_effect row oracle)"
  unfolding rollback_effect_def close_all_suppressed_def Let_def assms(2)
  by (intro keep_intros log_intros [OF assms(1)])

lemma log_fail_close [log_intros]:
  assumes "log_stable p I"
  shows "keeps I (gate_fail_close E g reason)"
  unfolding gate_fail_close_def set_route_columns_def Let_def
  by (intro log_row [OF assms] keep_intros log_intros [OF assms] frame_intros) (auto split: option.splits)

lemma log_rollback:
  assumes "log_stable p I"
  shows "keeps I (gate_rollback E g oracle)"
  unfolding gate_rollback_def set_route_columns_def Let_def
  by (intro log_row [OF assms] keep_intros log_intros [OF assms] frame_intros) auto

lemma log_close:
  assumes "log_stable p I"
  shows "keeps I (gate_close E g)"
  unfolding gate_close_def close_effect_def Let_def
  by (intro log_row [OF assms] keep_intros log_intros [OF assms] frame_intros) auto

lemma log_drain:
  assumes "log_stable p I"
  shows "keeps I (gate_drain E g)"
  unfolding gate_drain_def drain_settle_def
  by (intro log_row [OF assms] keep_intros log_intros [OF assms] frame_intros)

lemma log_observe:
  assumes "log_stable p I"
  shows "keeps I (gate_observe E q res)"
  unfolding gate_observe_def observe_new_def observe_finish_def Let_def
  by (intro log_row [OF assms] keep_intros log_intros [OF assms] frame_intros)

lemma log_reconcile:
  assumes "log_stable p I"
  shows "keeps I (gate_reconcile E)"
  unfolding gate_reconcile_def reconcile_fail_close_def reconcile_rollback_def reconcile_recovery_close_def
    reconcile_opening_def cancel_open_def confirm_open_def recovery_close_def g_lease_ok_def
    set_route_columns_def Let_def
  by (intro log_row [OF assms] keep_intros log_intros [OF assms] frame_intros) (auto split: option.splits)

text \<open>Opening: the intent with its fence is on record before traffic is moved under that fence.\<close>

lemma log_traffic_open:
  "keeps (fence_logged p f) (g_traffic (ta_open (p + 1) f j l now))"
  by (rule keepsI)
     (auto simp: fence_logged_def route_logged_def g_traffic_def ta_open_def ta_hit_def ta_set_route_def)

lemma log_stable_instances: "log_stable p (route_logged p)" "log_stable p (fence_logged p f)"
  by (auto simp: log_stable_def)

lemma log_open_expose:
  "keeps (fence_logged p (open_fence (p + 1) pf row)) (open_expose E (p + 1) pf row)"
  unfolding open_expose_def Let_def
  by (intro keep_intros log_intros [OF log_stable_instances(2)] log_traffic_open frame_intros) auto

lemma log_open_intent:
  assumes "route_logged p s"
  shows "wp (g_atomic (then_x (g_transition E g OPENING ''open'' ''intent'' det (Some f) oid)
      (g_db (update_row (\<lambda>r. r\<lparr>gr_proof_digest := x\<rparr>))))) (\<lambda>_. fence_logged p f) (\<lambda>_. route_logged p) s"
proof -
  have "intent_logged f (moved r g OPENING ''open'' ''intent'' det (Some f) oid' at_time d)" for r oid' at_time d
    by (simp add: moved_def intent_logged_def insert_transition_def op_kind_def)
  then show ?thesis
    using assms by (auto simp: g_atomic_def fence_logged_def route_logged_def)
qed

lemma log_open_effect:
  assumes "g = p + 1"
  shows "keeps (route_logged p) (open_effect E g pf row)"
proof (rule keepsI)
  fix s
  assume s: "route_logged p s"
  have hit: "wp (g_hit point) (\<lambda>_. route_logged p) (\<lambda>_. route_logged p) s" for point
    using log_frame(1) [OF log_stable_instances(1)] s by (rule keepsD)
  have expose: "wp (open_expose E (p + 1) pf row) (\<lambda>_. route_logged p) (\<lambda>_. route_logged p) t"
    if "fence_logged p (open_fence (p + 1) pf row) t" for t
    using keepsD [OF log_open_expose that] by (rule wp_mono) (auto simp: fence_logged_def)
  show "wp (open_effect E g pf row) (\<lambda>_. route_logged p) (\<lambda>_. route_logged p) s"
    unfolding open_effect_def Let_def assms wp_then
    by (rule wp_mono [OF hit]) (auto intro!: wp_mono [OF log_open_intent] expose)
qed

lemma log_open_checks:
  assumes "g = gr_candidate_generation row \<Longrightarrow> keeps (route_logged p) k"
  shows "keeps (route_logged p) (then_x (open_checks E g pf row) k)"
proof (rule keepsI)
  fix s
  assume s: "route_logged p s"
  show "wp (then_x (open_checks E g pf row) k) (\<lambda>_. route_logged p) (\<lambda>_. route_logged p) s"
    using s assms unfolding open_checks_def g_lease_ok_def
    by (auto simp: keeps_def route_logged_def split: sum.splits)
qed

lemma log_open: "keeps (route_logged p) (gate_open E g pf)"
  unfolding gate_open_def
  by (rule log_row [OF log_stable_instances(1)], rule log_open_checks)
     (intro keep_intros log_open_effect, simp)

lemma log_stage: "keeps (route_logged p) (gate_stage E a b)"
  by (rule keepsI) (auto simp: gate_stage_def Let_def route_logged_def split: sum.splits)

text \<open>Before anything is staged no call but \<open>stage\<close> does anything.\<close>

lemma gate_unstaged:
  assumes "gd_state (gs_db s) = None" and "gd_admission (gs_db s) = []"
  shows "\<forall>a b. c \<noteq> G_stage a b \<Longrightarrow> gate_after E c s = s"
proof -
  have raises: "snd (m s) = s" if "wp m (\<lambda>_ _. False) (\<lambda>_ t. t = s) s" for m :: "'x gate_exec"
    using that by (auto simp: wp_def split: prod.splits sum.splits)
  show "\<forall>a b. c \<noteq> G_stage a b \<Longrightarrow> gate_after E c s = s"
    using assms
    by (cases c) (auto intro!: raises simp: gate_close_def gate_open_def gate_drain_def gate_observe_def
        observe_new_def find_admission_def gate_reconcile_def gate_rollback_def gate_fail_close_def)
qed

definition exposure_inv :: "gate_sys \<Rightarrow> bool" where
  "exposure_inv s \<longleftrightarrow> (case gd_state (gs_db s) of
       None \<Rightarrow> gd_admission (gs_db s) = []
     | Some r \<Rightarrow> route_logged (gr_predecessor_generation r) s)"

lemma exposure_inv_stage:
  assumes "exposure_inv s" and "gd_state (gs_db s) = None"
  shows "exposure_inv (snd (gate_stage E a b s))"
proof -
  have "wp (gate_stage E a b) (\<lambda>_. exposure_inv) (\<lambda>_. exposure_inv) s"
    using assms
    by (auto simp: gate_stage_def Let_def g_atomic_def exposure_inv_def route_logged_def split: sum.splits)
  then show ?thesis by (simp add: wp_snd)
qed

lemma exposure_inv_call:
  assumes "exposure_inv s"
  shows "exposure_inv (gate_after E c s)"
proof (cases "gd_state (gs_db s)")
  case None
  then have adm: "gd_admission (gs_db s) = []" using assms by (simp add: exposure_inv_def)
  show ?thesis
  proof (cases c)
    case (G_stage a b)
    then show ?thesis using exposure_inv_stage [OF assms None] by simp
  qed (use assms gate_unstaged [OF None adm, of c E] in auto)
next
  case (Some r)
  then have "route_logged (gr_predecessor_generation r) s" using assms by (simp add: exposure_inv_def)
  then have "route_logged (gr_predecessor_generation r) (gate_after E c s)"
    by (cases c) (auto intro: keeps_snd log_stage log_open log_close log_drain log_observe log_reconcile
        log_rollback log_fail_close log_stable_instances)
  then show ?thesis by (auto simp: exposure_inv_def route_logged_def)
qed

interpretation exposure: step_invariant gate_initial "gate_route_step E" exposure_inv for E
proof
  show "exposure_inv s" if "gate_initial s" for s
    using that by (simp add: gate_initial_def gate_schema_def exposure_inv_def)
next
  fix s t
  assume inv: "exposure_inv s" and "gate_route_step E s t"
  from this(2) show "exposure_inv t"
    by (rule gate_route_stepE)
       (use inv in \<open>auto simp: exposure_inv_call\<close>, simp add: exposure_inv_def route_logged_def split: option.splits)
qed

section \<open>Functional behaviour\<close>

text \<open>A total-correctness reading of \<open>wp\<close>: the program returns and its result satisfies \<open>Q\<close>.\<close>

lemma wp_returns:
  "wp m Q (\<lambda>_ _. False) s \<Longrightarrow> \<exists>x t. m s = (Inr x, t) \<and> Q x t"
  by (auto simp: wp_def split: prod.splits sum.splits)

lemma wp_g_hit: "wp (g_hit point) Q R s = (if point \<in> gs_faults s
    then R (InjectedCrash point) (s\<lparr>gs_faults := gs_faults s - {point}\<rparr>) else Q () s)"
  by (simp add: g_hit_def)

lemma wp_ta_hit: "wp (ta_hit point) Q R t = (if point \<in> ta_faults t
    then R (InjectedCrash point) (t\<lparr>ta_faults := ta_faults t - {point}\<rparr>) else Q () t)"
  by (simp add: ta_hit_def)

definition terminal :: "gate_state \<Rightarrow> bool" where
  "terminal st \<longleftrightarrow> st \<in> {ROLLED_BACK, FAILED_SAFE, SAFETY_UNKNOWN}"

lemma ALLOWED_fail: "\<not> terminal st \<Longrightarrow> FAILED_SAFE \<in> set (ALLOWED st) \<and> SAFETY_UNKNOWN \<in> set (ALLOWED st)"
  by (cases st) (auto simp: terminal_def)

definition row_state :: "gate_sys \<Rightarrow> gate_state option" where
  "row_state s = map_option gr_state (gd_state (gs_db s))"

lemma fail_close_wp:
  assumes row: "gd_state (gs_db s) = Some r" "gr_schema_version r = gate_schema_version"
    "gr_candidate_generation r = g" "\<not> terminal (gr_state r)" and faults: "gs_faults s = {}"
  shows "wp (gate_fail_close E g reason) (\<lambda>res t.
      (fc_classification res = RC_FAILED_SAFE \<and> row_state t = Some FAILED_SAFE
         \<and> rs_generation (ta_route (gs_traffic t)) = None \<and> rs_fence (ta_route (gs_traffic t)) = ''closed''
       \<or> fc_classification res = RC_SAFETY_UNKNOWN \<and> row_state t = Some SAFETY_UNKNOWN
         \<and> ta_faults (gs_traffic s) \<inter> {''close_all'', ''route.query''} \<noteq> {}))
    (\<lambda>_ _. False) s"
  using row faults ALLOWED_fail [OF row(4)]
  unfolding gate_fail_close_def g_atomic_def g_traffic_def
  by (auto simp: Let_def wp_g_hit wp_ta_hit ta_close_all_def ta_query_route_def ta_set_route_def closed_route_def
      is_closed_def ok_or_none_def set_route_columns_def row_state_def split: option.splits)

text \<open>The outcome of a recovery: the state returned is the state recorded, and it is decided.\<close>

definition decided :: "gate_state \<Rightarrow> gate_sys \<Rightarrow> bool" where
  "decided st t \<longleftrightarrow> st \<in> {CANDIDATE_OPEN, FAILED_SAFE, SAFETY_UNKNOWN} \<and> row_state t = Some st"

lemma wp_query_route [simp]:
  "ta_faults (gs_traffic s) = {} \<Longrightarrow> wp (g_traffic ta_query_route) Q R s = Q (ta_route (gs_traffic s)) s"
  by (simp add: g_traffic_def ta_query_route_def wp_ta_hit)

lemma wp_close_all [simp]:
  "ta_faults (gs_traffic s) = {} \<Longrightarrow>
   wp (g_traffic ta_close_all) Q R s = Q () (s\<lparr>gs_traffic := (gs_traffic s)\<lparr>ta_route := closed_route\<rparr>\<rparr>)"
  by (simp add: g_traffic_def ta_close_all_def wp_ta_hit ta_set_route_def)

lemma wp_g_hit_quiet [simp]: "gs_faults s = {} \<Longrightarrow> wp (g_hit point) Q R s = Q () s"
  by (simp add: wp_g_hit)

lemma close_target_legal [simp]:
  "\<not> terminal st \<Longrightarrow> close_target a \<in> set (ALLOWED st)"
  using ALLOWED_fail by (simp add: close_target_def)

lemma cancel_open_decides:
  assumes "gd_state (gs_db s) = Some r" "gr_schema_version r = gate_schema_version"
    "gr_candidate_generation r = g" "\<not> terminal (gr_state r)" "gs_faults s = {}"
  shows "wp (cancel_open E g i reason) decided (\<lambda>_ _. False) s"
  unfolding cancel_open_def g_atomic_def using assms
  by (simp, intro wp_mono [OF fail_close_wp [of _ r]])
     (auto simp: decided_def outcome_state_def)

lemma reconcile_opening_decides:
  assumes inv: "gate_inv (ge_hash E) (gs_db s)" and row: "gd_state (gs_db s) = Some r" "gr_state r = OPENING"
    and quiet: "gs_faults s = {}" "ta_faults (gs_traffic s) = {}"
  shows "wp (reconcile_opening E r) decided (\<lambda>_ _. False) s"
proof -
  have schema: "gr_schema_version r = gate_schema_version" using inv row by (simp add: gate_inv_def)
  have nt: "\<not> terminal (gr_state r)" using row by (simp add: terminal_def)
  obtain i pf f where i: "last_row (op_kind ''open'' ''intent'') (gd_transition (gs_db s)) = Some i"
    "tr_fence i = Some f" "op_candidate_digest pf = gr_candidate_digest r" "op_lease pf = gr_lease r"
    "tr_detail i = canon (JObj (proof_fields pf @ [(''proof_digest'', JStr (proof_digest (ge_hash E) pf))]))"
    using gate_inv_route [OF inv row(1)] row(2) by (auto simp: route_ok_def intent_ok_def)
  have confirm: "wp (confirm_open E (gr_candidate_generation r) i a dg) decided (\<lambda>_ _. False) t"
    if "gs_db t = gs_db s" for a dg t
    using that row schema by (simp add: confirm_open_def g_atomic_def decided_def row_state_def)
  have recover: "wp (recovery_close E (gr_candidate_generation r) i a) decided (\<lambda>_ _. False) t"
    if "gs_db t = gs_db s" "gs_faults t = {}" "ta_faults (gs_traffic t) = {}" for a t
    using that row schema
    by (simp add: recovery_close_def g_atomic_def Let_def decided_def row_state_def chain_error_def err_of_def)
  show ?thesis
    using i row quiet schema nt
    by (auto simp: reconcile_opening_def Let_def proof_of_detail_canon open_intent_items g_lease_ok_def
        simp del: canon.simps(2) intro!: cancel_open_decides [of _ r] confirm recover)
qed

lemma gate_reconcile_decides:
  assumes inv: "gate_inv (ge_hash E) (gs_db s)" and row: "gd_state (gs_db s) = Some r" "gr_state r = OPENING"
    and quiet: "gs_faults s = {}" "ta_faults (gs_traffic s) = {}"
    and rollback: "open_intent_of ''rollback'' (gd_transition (gs_db s)) = None"
  shows "wp (gate_reconcile E) decided (\<lambda>_ _. False) s"
proof -
  have schema: "gr_schema_version r = gate_schema_version" using inv row by (simp add: gate_inv_def)
  have nt: "\<not> terminal OPENING" by (simp add: terminal_def)
  obtain oi where oi: "last_row (op_kind ''open'' ''intent'') (gd_transition (gs_db s)) = Some oi"
    using gate_inv_route [OF inv row(1)] row(2) by (auto simp: route_ok_def)
  have "wp (reconcile_fail_close E r i) decided (\<lambda>_ _. False) s" for i
    using row schema quiet
    by (simp add: reconcile_fail_close_def Let_def g_atomic_def decided_def row_state_def set_route_columns_def
        close_target_def split: option.splits)
  moreover have "wp (reconcile_recovery_close E r i) decided (\<lambda>_ _. False) s" for i
    using row schema quiet oi
    by (simp add: reconcile_recovery_close_def Let_def g_atomic_def decided_def row_state_def close_target_def)
  ultimately show ?thesis
    using row schema rollback reconcile_opening_decides [OF inv row quiet]
    by (simp add: gate_reconcile_def split: option.splits)
qed

end
