(* ===== verification/Gate_Theorems.thy ===== *)
theory Gate_Theorems
  imports Gate_Properties
begin

text \<open>
  The properties of the exposure gate, each with a run of a concrete gate that meets its
  hypotheses, and three behaviours of the gate that contradict its documented contract.
\<close>

section \<open>A concrete gate\<close>

definition sample_hash :: "string \<Rightarrow> string" where
  "sample_hash s = replicate 62 (CHR ''0'') @ [digit_char (length s div 10 mod 10), digit_char (length s mod 10)]"

definition sample_env :: gate_env where
  "sample_env = \<lparr>ge_hash = sample_hash, ge_clock = int\<rparr>"

definition sample_predecessor :: json where
  "sample_predecessor = JObj [(''generation'', JInt 0)]"

definition sample_candidate :: json where
  "sample_candidate = JStr ''plan-1''"

definition sample_lease :: lease_grant where
  "sample_lease = \<lparr>lg_holder = ''manager'', lg_fencing_token = 1, lg_expires_at = 100\<rparr>"

definition sample_gate :: gate_sys where
  "sample_gate = gate_init (ta_init 0 sample_predecessor (Some sample_lease) {} False False) None {}"

definition sample_proof :: open_proof where
  "sample_proof = \<lparr>op_plan_id = ''plan-1'', op_generation = 1, op_evidence_count = 1,
     op_evidence_digest = ''sha256:'' @ replicate 64 (CHR ''a''),
     op_coverage_digest = ''sha256:'' @ replicate 64 (CHR ''b''), op_lease = sample_lease,
     op_candidate_digest = gate_digest sample_hash sample_candidate\<rparr>"

definition gate_run :: "gate_env \<Rightarrow> gate_call list \<Rightarrow> gate_sys \<Rightarrow> gate_sys" where
  "gate_run E calls s = fold (gate_after E) calls s"

definition request :: "string \<Rightarrow> int \<Rightarrow> admission_request" where
  "request rid at_time = \<lparr>aq_request_id = rid, aq_admitted_at = at_time\<rparr>"

definition staged :: "gate_call list" where
  "staged = [G_stage sample_candidate sample_predecessor]"

definition opened :: "gate_call list" where
  "opened = staged @ [G_observe (request ''a'' 3) None, G_close 1, G_open 1 sample_proof]"

text \<open>The same gate with a fault armed right after the open intent, and the run into it.\<close>

definition faulty_gate :: gate_sys where
  "faulty_gate = gate_init (ta_init 0 sample_predecessor (Some sample_lease) {} False False) None
     {''open.after_intent''}"

definition crashed :: "gate_call list" where
  "crashed = staged @ [G_close 1, G_open 1 sample_proof]"

lemma gate_run_reach: "reach gate_initial (gate_step E) (gate_run E calls (gate_init t g f))"
proof (induction calls rule: rev_induct)
  case Nil
  then show ?case by (auto simp: gate_run_def gate_init_def gate_initial_def intro: reach.intros)
next
  case (snoc c calls)
  then show ?case using reach_step [OF snoc gate_step_call [of E _ c]] by (simp add: gate_run_def)
qed

lemma gate_run_route_reach: "reach gate_initial (gate_route_step E) (gate_run E calls (gate_init t g f))"
proof (induction calls rule: rev_induct)
  case Nil
  then show ?case by (auto simp: gate_run_def gate_init_def gate_initial_def intro: reach.intros)
next
  case (snoc c calls)
  then show ?case using reach_step [OF snoc gate_route_call [of E _ c]] by (simp add: gate_run_def)
qed

lemmas sample_reach = gate_run_reach [where E = sample_env, of _ "ta_init 0 sample_predecessor (Some sample_lease) {} False False" None "{}",
  folded sample_gate_def]

lemmas sample_route_reach = gate_run_route_reach [where E = sample_env, of _ "ta_init 0 sample_predecessor (Some sample_lease) {} False False" None "{}",
  folded sample_gate_def]

section \<open>The exposure contract\<close>


text \<open>
  C5. Every admitted request went to exactly one generation on the right side of the exposure
  decision: to the predecessor under the predecessor's fence at a transition before every open
  receipt, or to the candidate under the fence of an open receipt recorded before.
\<close>

theorem gate_admissions_respect_exposure:
  assumes "reach gate_initial (gate_step E) s" and "a \<in> set (gd_admission (gs_db s))"
  shows "\<exists>r. gd_state (gs_db s) = Some r \<and>
    (ad_chosen_generation a = gr_predecessor_generation r
       \<and> ad_route_epoch a = fence_of (gr_predecessor_generation r)
       \<and> (\<forall>q \<in> set (open_receipts (gd_transition (gs_db s))). ad_transition_seq a < tr_seq q)
     \<or> ad_chosen_generation a = gr_predecessor_generation r + 1
       \<and> (\<exists>q. open_receipts (gd_transition (gs_db s)) = [q] \<and> tr_fence q = Some (ad_route_epoch a)
            \<and> tr_seq q \<le> ad_transition_seq a))"
proof -
  have inv: "gate_inv (ge_hash E) (gs_db s)" by (rule gate.inv_reach [OF assms(1)])
  then obtain r where r: "gd_state (gs_db s) = Some r"
    using assms(2) by (cases "gd_state (gs_db s)") (auto simp: gate_inv_def)
  then have "admission_ok r (gd_transition (gs_db s)) a" "gr_candidate_generation r = gr_predecessor_generation r + 1"
    using inv assms(2) by (simp_all add: gate_inv_def)
  then show ?thesis using r by (auto simp: admission_ok_def)
qed

text \<open>
  C20. Write-ahead exposure: as long as only the gate moves the route, traffic points to the candidate
  generation only under a fence for which an open intent is already in the journal, at every point
  where a call ended or a fault was injected.
\<close>

theorem gate_exposure_is_logged:
  assumes "reach gate_initial (gate_route_step E) s" and "gd_state (gs_db s) = Some r"
    and "rs_generation (ta_route (gs_traffic s)) = Some (gr_candidate_generation r)"
  shows "\<exists>t \<in> set (gd_transition (gs_db s)). tr_operation t = ''open'' \<and> tr_kind t = ''intent''
    \<and> tr_fence t = Some (rs_fence (ta_route (gs_traffic s)))"
  using exposure.inv_reach [OF assms(1)] assms(2,3)
  by (auto simp: exposure_inv_def route_logged_def intent_logged_def op_kind_def)

text \<open>
  C21. Terminal states are final: from ROLLED\_BACK, FAILED\_SAFE or SAFETY\_UNKNOWN no sequence of
  calls, faults, restarts and outside changes alters the state or admits another request.
\<close>

theorem gate_terminal_states_final:
  assumes "(gate_step E)\<^sup>*\<^sup>* s t" and "gd_state (gs_db s) = Some r"
    and "gr_state r \<in> {ROLLED_BACK, FAILED_SAFE, SAFETY_UNKNOWN}"
  shows "\<exists>r'. gd_state (gs_db t) = Some r' \<and> gr_state r' = gr_state r
    \<and> map ad_request_id (gd_admission (gs_db t)) = map ad_request_id (gd_admission (gs_db s))"
  using gate_final_steps [OF assms(1), of "gr_state r"] assms(2,3) by (auto simp: gate_final_def)

text \<open>
  C22. Fail-close never fails silently: in a state that is not terminal and with no gate fault armed it
  returns, it reports FAILED\_SAFE only if the actual route is closed, and the recorded state is the
  one reported; it reports SAFETY\_UNKNOWN only if closing or querying the route was disturbed.
\<close>

theorem gate_fail_close_classifies:
  assumes "reach gate_initial (gate_step E) s" and "gd_state (gs_db s) = Some r"
    and "gr_state r \<notin> {ROLLED_BACK, FAILED_SAFE, SAFETY_UNKNOWN}" and "gs_faults s = {}"
  shows "\<exists>res t. gate_fail_close E (gr_candidate_generation r) reason s = (Inr res, t) \<and>
    (fc_classification res = RC_FAILED_SAFE \<and> row_state t = Some FAILED_SAFE
       \<and> rs_generation (ta_route (gs_traffic t)) = None \<and> rs_fence (ta_route (gs_traffic t)) = ''closed''
     \<or> fc_classification res = RC_SAFETY_UNKNOWN \<and> row_state t = Some SAFETY_UNKNOWN
       \<and> ta_faults (gs_traffic s) \<inter> {''close_all'', ''route.query''} \<noteq> {})"
proof -
  have "gr_schema_version r = gate_schema_version"
    using gate.inv_reach [OF assms(1)] assms(2) by (simp add: gate_inv_def)
  moreover have "\<not> terminal (gr_state r)" using assms(3) by (simp add: terminal_def)
  ultimately show ?thesis
    using wp_returns [OF fail_close_wp [OF assms(2) _ refl _ assms(4)]] by simp
qed

text \<open>
  C23. Recovery decides: in every reachable state in OPENING without a pending rollback and with no
  fault armed, reconcile returns CANDIDATE\_OPEN, FAILED\_SAFE or SAFETY\_UNKNOWN, and that is the
  state then recorded.
\<close>

theorem gate_reconcile_decides_opening:
  assumes "reach gate_initial (gate_step E) s" and "gd_state (gs_db s) = Some r" and "gr_state r = OPENING"
    and "gs_faults s = {}" and "ta_faults (gs_traffic s) = {}"
    and "open_intent_of ''rollback'' (gd_transition (gs_db s)) = None"
  shows "\<exists>st t. gate_reconcile E s = (Inr st, t) \<and> st \<in> {CANDIDATE_OPEN, FAILED_SAFE, SAFETY_UNKNOWN}
    \<and> row_state t = Some st"
  using wp_returns [OF gate_reconcile_decides [OF gate.inv_reach [OF assms(1)] assms(2-6)]]
  by (auto simp: decided_def)

text \<open>
  Opening is idempotent: a call of open in CANDIDATE\_OPEN that succeeds returns the fence already
  in force, was made with the very proof the gate was opened with (same digest), and changes
  neither the store nor the route.
\<close>

theorem gate_open_idempotent:
  assumes "gd_state (gs_db s) = Some r" and "gr_state r = CANDIDATE_OPEN"
    and "gate_open E g pf s = (Inr fence, t)"
  shows "fence = gr_route_fence r \<and> gr_proof_digest r = Some (proof_digest (ge_hash E) pf)
    \<and> gs_db t = gs_db s \<and> gs_traffic t = gs_traffic s"
proof -
  have "wp (gate_open E g pf) (\<lambda>fence t. fence = gr_route_fence r \<and> gr_proof_digest r = Some (proof_digest (ge_hash E) pf)
    \<and> gs_db t = gs_db s \<and> gs_traffic t = gs_traffic s) (\<lambda>_ _. True) s"
    using assms(1,2) by (auto simp: gate_open_def open_checks_def g_lease_ok_def split: sum.splits)
  then show ?thesis using assms(3) by (rule wp_result)
qed

section \<open>Departures from the documented contract\<close>

text \<open>
  C24. Rolling back a gate that has failed safe reopens the predecessor: with no fault armed, rollback
  in FAILED\_SAFE restores the predecessor route, then raises because FAILED\_SAFE has no transition,
  so the recorded state keeps saying that all traffic is closed while it is not.
\<close>

theorem gate_rollback_reopens_failed_safe:
  assumes "gd_state (gs_db s) = Some r" and "gr_schema_version r = gate_schema_version"
    and "gr_state r = FAILED_SAFE" and "gr_predecessor_json r = JObj kvs"
    and "gs_faults s = {}" and "\<not> ta_rollback_fails (gs_traffic s)" and "\<not> ta_behavioral_restore (gs_traffic s)"
  shows "\<exists>e t. gate_rollback E (gr_candidate_generation r) oracle s = (Inl (GateError e), t)
    \<and> row_state t = Some FAILED_SAFE
    \<and> rs_generation (ta_route (gs_traffic t)) = Some (gr_predecessor_generation r)
    \<and> rs_fence (ta_route (gs_traffic t)) = fence_of (gr_predecessor_generation r)"
proof -
  have "wp (gate_rollback E (gr_candidate_generation r) oracle) (\<lambda>_ _. False)
    (\<lambda>e t. (\<exists>msg. e = GateError msg) \<and> row_state t = Some FAILED_SAFE
    \<and> rs_generation (ta_route (gs_traffic t)) = Some (gr_predecessor_generation r)
    \<and> rs_fence (ta_route (gs_traffic t)) = fence_of (gr_predecessor_generation r)) s"
    using assms
    by (simp add: gate_rollback_def rollback_effect_def g_atomic_def g_traffic_def ta_restore_def ta_set_route_def
        Let_def row_state_def)
  then show ?thesis by (auto simp: wp_def split: prod.splits sum.splits)
qed


text \<open>
  The oracle rejects a legal history: after draining starts with an unfinished request and the
  gate is rolled back, which the gate's table and the documentation allow from DRAINING, the oracle
  reports the unknown transition DRAINING to ROLLED\_BACK.
\<close>

theorem oracle_rejects_draining_rollback:
  "row_state (gate_run sample_env (opened @ [G_drain 1, G_rollback 1 None]) sample_gate) = Some ROLLED_BACK
   \<and> ROLLED_BACK \<in> set (ALLOWED DRAINING)
   \<and> map_sum id tp_errors (evaluate_trace
        (gs_db (gate_run sample_env (opened @ [G_drain 1, G_rollback 1 None]) sample_gate)))
     = Inr [TE_unknown_transition DRAINING ROLLED_BACK, TE_unpaired_intents [''drain:1'']]"
  by code_simp

section \<open>Witnesses\<close>

lemma row_stateE: "row_state s = Some st \<Longrightarrow> \<exists>r. gd_state (gs_db s) = Some r \<and> gr_state r = st"
  by (auto simp: row_state_def)

definition run_summary ::
  "gate_sys \<Rightarrow> gate_state option \<times> string list \<times> bool \<times> bool \<times> bool \<times> bool" where
  "run_summary s = (row_state s, map ad_request_id (gd_admission (gs_db s)),
     map_option gr_candidate_generation (gd_state (gs_db s)) = rs_generation (ta_route (gs_traffic s)),
     gs_faults s = {}, ta_faults (gs_traffic s) = {},
     open_intent_of ''rollback'' (gd_transition (gs_db s)) = None)"

lemma sample_opened_summary:
  "run_summary (gate_run sample_env opened sample_gate) = (Some CANDIDATE_OPEN, [''a''], True, True, True, True)"
  by code_simp

lemma sample_opened: "row_state (gate_run sample_env opened sample_gate) = Some CANDIDATE_OPEN"
  using sample_opened_summary by (simp add: run_summary_def)


theorem gate_admissions_respect_exposure_witness:
  "\<exists>a r. a \<in> set (gd_admission (gs_db (gate_run sample_env opened sample_gate)))
     \<and> gd_state (gs_db (gate_run sample_env opened sample_gate)) = Some r
     \<and> (ad_chosen_generation a = gr_predecessor_generation r
        \<or> ad_chosen_generation a = gr_predecessor_generation r + 1)"
proof -
  obtain a where "a \<in> set (gd_admission (gs_db (gate_run sample_env opened sample_gate)))"
    using sample_opened_summary by (fastforce simp: run_summary_def)
  then show ?thesis using gate_admissions_respect_exposure [OF sample_reach] by blast
qed

theorem gate_exposure_is_logged_witness:
  "\<exists>t \<in> set (gd_transition (gs_db (gate_run sample_env opened sample_gate))).
     tr_operation t = ''open'' \<and> tr_kind t = ''intent''"
proof -
  obtain r where r: "gd_state (gs_db (gate_run sample_env opened sample_gate)) = Some r"
    using row_stateE [OF sample_opened] by blast
  moreover from r have "rs_generation (ta_route (gs_traffic (gate_run sample_env opened sample_gate)))
      = Some (gr_candidate_generation r)"
    using sample_opened_summary by (simp add: run_summary_def)
  ultimately show ?thesis using gate_exposure_is_logged [OF sample_route_reach] by blast
qed

lemma sample_failed: "row_state (gate_run sample_env (opened @ [G_fail_close 1 ''x'']) sample_gate) = Some FAILED_SAFE"
  by code_simp

theorem gate_terminal_states_final_witness:
  "\<exists>r. gd_state (gs_db (gate_after sample_env (G_observe (request ''b'' 9) None)
      (gate_run sample_env (opened @ [G_fail_close 1 ''x'']) sample_gate))) = Some r \<and> gr_state r = FAILED_SAFE"
proof -
  obtain r where r: "gd_state (gs_db (gate_run sample_env (opened @ [G_fail_close 1 ''x'']) sample_gate)) = Some r"
    "gr_state r = FAILED_SAFE"
    using row_stateE [OF sample_failed] by blast
  then show ?thesis
    using gate_terminal_states_final [OF r_into_rtranclp [of "gate_step sample_env", OF gate_step_call] r(1)] by fastforce
qed

theorem gate_fail_close_classifies_witness:
  "\<exists>r res t. gd_state (gs_db (gate_run sample_env opened sample_gate)) = Some r
     \<and> gate_fail_close sample_env (gr_candidate_generation r) ''x'' (gate_run sample_env opened sample_gate) = (Inr res, t)"
proof -
  obtain r where r: "gd_state (gs_db (gate_run sample_env opened sample_gate)) = Some r" "gr_state r = CANDIDATE_OPEN"
    using row_stateE [OF sample_opened] by blast
  then show ?thesis
    using gate_fail_close_classifies [OF sample_reach r(1), of "''x''"] sample_opened_summary
    by (auto simp: run_summary_def)
qed

lemmas faulty_reach = gate_run_reach [where E = sample_env, of _ "ta_init 0 sample_predecessor (Some sample_lease) {} False False" None
  "{''open.after_intent''}", folded faulty_gate_def]

lemma sample_crashed:
  "run_summary (gate_run sample_env crashed faulty_gate) = (Some OPENING, [], False, True, True, True)"
  by code_simp

theorem gate_reconcile_decides_opening_witness:
  "\<exists>st t. gate_reconcile sample_env (gate_run sample_env crashed faulty_gate) = (Inr st, t)
     \<and> st \<in> {CANDIDATE_OPEN, FAILED_SAFE, SAFETY_UNKNOWN}"
proof -
  obtain r where r: "gd_state (gs_db (gate_run sample_env crashed faulty_gate)) = Some r" "gr_state r = OPENING"
    using row_stateE [of "gate_run sample_env crashed faulty_gate"] sample_crashed by (auto simp: run_summary_def)
  then show ?thesis
    using gate_reconcile_decides_opening [OF faulty_reach r] sample_crashed by (auto simp: run_summary_def)
qed

lemma sample_reopen:
  "(case fst (gate_open sample_env 1 sample_proof (gate_run sample_env opened sample_gate)) of
      Inl _ \<Rightarrow> False | Inr _ \<Rightarrow> True)"
  by code_simp

theorem gate_open_idempotent_witness:
  "\<exists>fence t. gate_open sample_env 1 sample_proof (gate_run sample_env opened sample_gate) = (Inr fence, t)
     \<and> gs_db t = gs_db (gate_run sample_env opened sample_gate)"
proof -
  obtain r where r: "gd_state (gs_db (gate_run sample_env opened sample_gate)) = Some r" "gr_state r = CANDIDATE_OPEN"
    using row_stateE [OF sample_opened] by blast
  obtain fence t where "gate_open sample_env 1 sample_proof (gate_run sample_env opened sample_gate) = (Inr fence, t)"
    using sample_reopen
    by (cases "gate_open sample_env 1 sample_proof (gate_run sample_env opened sample_gate)") (auto split: sum.splits)
  then show ?thesis using gate_open_idempotent [OF r] by blast
qed

definition failed_safe_check :: "gate_sys \<Rightarrow> bool" where
  "failed_safe_check s = (case gd_state (gs_db s) of None \<Rightarrow> False
     | Some r \<Rightarrow> gr_schema_version r = gate_schema_version \<and> gr_state r = FAILED_SAFE
         \<and> gr_predecessor_json r = JObj [(''generation'', JInt 0)] \<and> gs_faults s = {}
         \<and> \<not> ta_rollback_fails (gs_traffic s) \<and> \<not> ta_behavioral_restore (gs_traffic s))"

lemma sample_failed_safe: "failed_safe_check (gate_run sample_env (staged @ [G_fail_close 1 ''x'']) sample_gate)"
  by code_simp

theorem gate_rollback_reopens_failed_safe_witness:
  "\<exists>(r :: gate_row) e t. gate_rollback sample_env (gr_candidate_generation r) None
       (gate_run sample_env (staged @ [G_fail_close 1 ''x'']) sample_gate) = (Inl (GateError e), t)
     \<and> row_state t = Some FAILED_SAFE"
proof -
  let ?s = "gate_run sample_env (staged @ [G_fail_close 1 ''x'']) sample_gate"
  obtain r where "gd_state (gs_db ?s) = Some r" "gr_schema_version r = gate_schema_version" "gr_state r = FAILED_SAFE"
    "gr_predecessor_json r = JObj [(''generation'', JInt 0)]" "gs_faults ?s = {}"
    "\<not> ta_rollback_fails (gs_traffic ?s)" "\<not> ta_behavioral_restore (gs_traffic ?s)"
    using sample_failed_safe by (auto simp: failed_safe_check_def split: option.splits)
  from gate_rollback_reopens_failed_safe [OF this, of sample_env None] show ?thesis by blast
qed




end
