(* ===== verification/Contract_Compiler.thy ===== *)
theory Contract_Compiler
  imports Ecpa_Model "HOL-Library.Product_Lexorder"
begin

text \<open>
  The compiler of capability and resource contracts (contract\_compiler.py): the parsers of contracts
  and of the resource taxonomy, and the planner with its five passes. The third-party package
  \<open>packaging\<close> is the parameter \<open>packaging\<close>: \<open>Version\<close>, \<open>SpecifierSet\<close> and membership. An error of the
  planner is its code; the text of the message is not kept. A Python set or dictionary of the source is
  a list without duplicates or an association list.
\<close>

section \<open>Errors and packaging\<close>

datatype planning_error_code =
    INVALID_CONTRACT | DUPLICATE_PLUGIN | INCOMPATIBLE_HOST_PLAN | MISSING_CAPABILITY
  | INCOMPATIBLE_CAPABILITY | AMBIGUOUS_CAPABILITY | DEPENDENCY_CYCLE | RESOURCE_CONFLICT_PLAN
  | AUTHORITY_VIOLATION_PLAN | UNKNOWN_RESOURCE_PLAN | INVALID_RESOURCE_MODE

text \<open>\<open>Uncaught\<close>: an exception of the packaging library or of Python that the compiler does not
  convert; it needs contracts that did not come from the parser.\<close>

datatype compile_error = Planning planning_error_code | UncaughtVersion | UncaughtKey | UncaughtAttribute

abbreviation invalid :: compile_error where
  "invalid \<equiv> Planning INVALID_CONTRACT"

text \<open>
  \<open>Version(raw)\<close> gives its text and its local label, \<open>SpecifierSet(raw)\<close> its text and the version texts
  of its specifiers; None is the exception of the constructor. \<open>pk_contains spec version\<close> is membership.
\<close>

record packaging =
  pk_version :: "string \<Rightarrow> (string \<times> string option) option"
  pk_specifier :: "string \<Rightarrow> (string \<times> string list) option"
  pk_contains :: "string \<Rightarrow> string \<Rightarrow> bool"

definition version_in :: "packaging \<Rightarrow> string \<Rightarrow> string \<Rightarrow> compile_error + bool" where
  "version_in PK version spec = (case pk_version PK version of
       None \<Rightarrow> Inl UncaughtVersion
     | Some _ \<Rightarrow> (case pk_specifier PK spec of
         None \<Rightarrow> Inl UncaughtVersion | Some _ \<Rightarrow> Inr (pk_contains PK spec version)))"

section \<open>Data\<close>

record capability =
  cb_name :: string
  cb_version :: string

record contract_resource =
  cr_name :: string
  cr_mode :: string
  cr_mediator :: "string option"

record taxonomy_resource =
  xr_canonical :: string
  xr_aliases :: "string list"
  xr_allowed_modes :: "string list"

record contract_taxonomy =
  tx_schema :: string
  tx_scope :: string
  tx_decision_precedence :: "string list"
  tx_capabilities :: "string list"
  tx_resources :: "taxonomy_resource list"

record process_obligation =
  po_role :: string
  po_event :: string
  po_completion :: string
  po_authority :: string
  po_direction :: string
  po_capability :: string
  po_quorum :: "int option"

record rollback_contract =
  rb_manager_owned :: "string list"
  rb_external_operator_owned :: "string list"

record authority_grant =
  ag_role :: string
  ag_event :: string
  ag_direction :: string
  ag_capability :: string

record authority_contract =
  ac_provider :: "authority_grant list"
  ac_runtime :: "authority_grant list"
  ac_external :: "authority_grant list"

record extension_contract =
  ec_extension_id :: string
  ec_version :: string
  ec_manifest_sha256 :: string
  ec_host_runtime :: string
  ec_host_version_range :: string
  ec_provides :: "capability list"
  ec_requires :: "capability list"
  ec_resources :: "contract_resource list"
  ec_process_obligations :: "process_obligation list"
  ec_rollback :: rollback_contract
  ec_authority :: authority_contract

record capability_binding =
  bi_capability :: string
  bi_required_range :: string
  bi_consumer :: string
  bi_provider :: string
  bi_provided_version :: string

record resource_ownership =
  ro_resource :: string
  ro_mode :: string
  ro_owners :: "string list"
  ro_mediator :: "string option"

record obligation_binding =
  bo_extension_id :: string
  bo_role :: string
  bo_event :: string
  bo_completion :: string
  bo_authority :: string
  bo_direction :: string
  bo_capability :: string
  bo_provider :: string
  bo_quorum :: "int option"

record contract_plan =
  cp_host_runtime :: string
  cp_host_version :: string
  cp_ordered_contracts :: "extension_contract list"
  cp_capability_bindings :: "capability_binding list"
  cp_resource_ownership :: "resource_ownership list"
  cp_obligation_bindings :: "obligation_binding list"

section \<open>Checked values\<close>

definition p_object :: "string list \<Rightarrow> json \<Rightarrow> compile_error + json" where
  "p_object required v = (case v of
       JObj kvs \<Rightarrow> if fst ` set kvs = set required then Inr v else Inl invalid
     | _ \<Rightarrow> Inl invalid)"

definition p_string :: "json \<Rightarrow> compile_error + string" where
  "p_string v = (case v of
       JStr s \<Rightarrow> if s \<noteq> [] \<and> \<not> is_space (hd s) \<and> \<not> is_space (last s) then Inr s else Inl invalid
     | _ \<Rightarrow> Inl invalid)"

text \<open>The regular expression of an identifier: two or more runs of lower-case letters and digits,
  separated by single dots or hyphens.\<close>

definition ident_char :: "char \<Rightarrow> bool" where
  "ident_char c = (let n = of_char c :: nat in (97 \<le> n \<and> n \<le> 122) \<or> (48 \<le> n \<and> n \<le> 57))"

fun segments :: "string \<Rightarrow> string list" where
  "segments [] = [[]]"
| "segments (c # s) = (if c = CHR ''.'' \<or> c = CHR ''-'' then [] # segments s
     else (case segments s of x # xs \<Rightarrow> (c # x) # xs | [] \<Rightarrow> [[c]]))"

definition is_identifier :: "string \<Rightarrow> bool" where
  "is_identifier s \<longleftrightarrow> (let xs = segments s in
     length xs \<ge> 2 \<and> list_all (\<lambda>x. x \<noteq> [] \<and> list_all ident_char x) xs)"

definition p_identifier :: "json \<Rightarrow> compile_error + string" where
  "p_identifier v = bind_res (p_string v) (\<lambda>s. bind_res (guard_res (is_identifier s) invalid) (\<lambda>_. Inr s))"

definition p_array :: "json \<Rightarrow> compile_error + json list" where
  "p_array v = (case v of JArr xs \<Rightarrow> Inr xs | _ \<Rightarrow> Inl invalid)"

definition p_string_array :: "json \<Rightarrow> compile_error + string list" where
  "p_string_array v =
     bind_res (p_array v) (\<lambda>xs.
     bind_res (map_res p_string xs) (\<lambda>result.
     bind_res (guard_res (distinct result) invalid) (\<lambda>_.
     Inr (sort result))))"

text \<open>A field of a checked object.\<close>

definition p_field :: "json \<Rightarrow> string \<Rightarrow> json" where
  "p_field v k = (case jget k v of Some x \<Rightarrow> x | None \<Rightarrow> JNull)"

definition public_version :: "packaging \<Rightarrow> json \<Rightarrow> compile_error + string" where
  "public_version PK v =
     bind_res (p_string v) (\<lambda>raw. case pk_version PK raw of
       None \<Rightarrow> Inl invalid
     | Some (text, local) \<Rightarrow> if local \<noteq> None then Inl invalid else Inr text)"

text \<open>\<open>str.removesuffix\<close>.\<close>

definition removesuffix :: "string \<Rightarrow> string \<Rightarrow> string" where
  "removesuffix x s = (if drop (length s - length x) s = x \<and> length x \<le> length s
     then take (length s - length x) s else s)"

definition public_specifier :: "packaging \<Rightarrow> json \<Rightarrow> compile_error + string" where
  "public_specifier PK v =
     bind_res (p_string v) (\<lambda>raw. case pk_specifier PK raw of
       None \<Rightarrow> Inl invalid
     | Some (text, versions) \<Rightarrow>
         if list_all (\<lambda>x. case pk_version PK (removesuffix ''.*'' x) of
              None \<Rightarrow> False | Some (_, local) \<Rightarrow> local = None) versions
         then Inr text else Inl invalid)"

definition p_capability :: "packaging \<Rightarrow> bool \<Rightarrow> json \<Rightarrow> compile_error + capability" where
  "p_capability PK requirements raw =
     bind_res (p_object [''name'', ''version''] raw) (\<lambda>item.
     bind_res (p_identifier (p_field item ''name'')) (\<lambda>name.
     bind_res (if requirements then public_specifier PK (p_field item ''version'')
               else public_version PK (p_field item ''version'')) (\<lambda>version.
     Inr \<lparr>cb_name = name, cb_version = version\<rparr>)))"

definition p_capabilities :: "packaging \<Rightarrow> bool \<Rightarrow> json \<Rightarrow> compile_error + capability list" where
  "p_capabilities PK requirements v =
     bind_res (p_array v) (\<lambda>xs.
     bind_res (map_res (p_capability PK requirements) xs) (\<lambda>result.
     bind_res (guard_res (distinct (map cb_name result)) invalid) (\<lambda>_.
     Inr (sort_key cb_name result))))"

definition EVENTS :: "string list" where
  "EVENTS = [''loaded'', ''invoked'', ''health-observed'']"

definition RESOURCE_MODES :: "string list" where
  "RESOURCE_MODES = [''exclusive'', ''shared-read'', ''mediated'']"

definition COMPLETION_MODES :: "string list" where
  "COMPLETION_MODES = [''all'', ''quorum'', ''optional'']"

definition AUTHORITY_KINDS :: "string list" where
  "AUTHORITY_KINDS = [''provider'', ''runtime'', ''external'']"

definition CAPABILITY_DIRECTIONS :: "string list" where
  "CAPABILITY_DIRECTIONS = [''provides'', ''requires'']"

definition runtime_event :: "string \<Rightarrow> bool" where
  "runtime_event event \<longleftrightarrow> event \<in> set [''loaded'', ''invoked'']"

definition grant_key :: "authority_grant \<Rightarrow> string \<times> string \<times> string \<times> string" where
  "grant_key g = (ag_role g, ag_event g, ag_direction g, ag_capability g)"

definition p_grant :: "string \<Rightarrow> json \<Rightarrow> compile_error + authority_grant" where
  "p_grant authority_kind raw =
     bind_res (p_object [''role'', ''event'', ''capability_direction'', ''capability''] raw) (\<lambda>item.
     bind_res (p_string (p_field item ''role'')) (\<lambda>role.
     bind_res (p_string (p_field item ''event'')) (\<lambda>event.
     bind_res (guard_res (event \<in> set EVENTS) invalid) (\<lambda>_.
     bind_res (guard_res (\<not> (runtime_event event \<and> authority_kind \<noteq> ''runtime''))
                (Planning AUTHORITY_VIOLATION_PLAN)) (\<lambda>_.
     bind_res (p_string (p_field item ''capability_direction'')) (\<lambda>direction.
     bind_res (guard_res (direction \<in> set CAPABILITY_DIRECTIONS) invalid) (\<lambda>_.
     bind_res (p_identifier (p_field item ''capability'')) (\<lambda>capability.
     Inr \<lparr>ag_role = role, ag_event = event, ag_direction = direction, ag_capability = capability\<rparr>))))))))"

definition authority_grants :: "string \<Rightarrow> json \<Rightarrow> compile_error + authority_grant list" where
  "authority_grants authority_kind v =
     bind_res (p_array v) (\<lambda>xs.
     bind_res (map_res (p_grant authority_kind) xs) (\<lambda>grants.
     bind_res (guard_res (distinct grants) invalid) (\<lambda>_.
     Inr (sort_key grant_key grants))))"

section \<open>Parsing the taxonomy\<close>

definition TAXONOMY_DECISION_PRECEDENCE :: "string list" where
  "TAXONOMY_DECISION_PRECEDENCE = [''unknown-resource'', ''invalid-mode'', ''capability-cardinality'',
     ''resource-mode'', ''mediator-consistency'', ''mediator-presence'']"

definition TAXONOMY_SCOPE :: string where
  "TAXONOMY_SCOPE = ''vLLM-HUST-static-contract-study''"

definition p_nonempty_array :: "json \<Rightarrow> compile_error + json list" where
  "p_nonempty_array v = bind_res (p_array v) (\<lambda>xs. bind_res (guard_res (xs \<noteq> []) invalid) (\<lambda>_. Inr xs))"

definition p_taxonomy_capability :: "json \<Rightarrow> compile_error + string" where
  "p_taxonomy_capability raw =
     bind_res (p_object [''name'', ''description''] raw) (\<lambda>capability.
     bind_res (p_identifier (p_field capability ''name'')) (\<lambda>name.
     bind_res (p_string (p_field capability ''description'')) (\<lambda>_. Inr name)))"

definition p_taxonomy_resource :: "json \<Rightarrow> compile_error + taxonomy_resource" where
  "p_taxonomy_resource raw =
     bind_res (p_object [''canonical'', ''aliases'', ''allowed_modes'', ''description''] raw) (\<lambda>resource.
     bind_res (p_identifier (p_field resource ''canonical'')) (\<lambda>canonical.
     bind_res (p_string_array (p_field resource ''aliases'')) (\<lambda>aliases.
     bind_res (map_res (\<lambda>alias. p_identifier (JStr alias)) aliases) (\<lambda>_.
     bind_res (p_string_array (p_field resource ''allowed_modes'')) (\<lambda>allowed_modes.
     bind_res (guard_res (allowed_modes \<noteq> [] \<and> set allowed_modes \<subseteq> set RESOURCE_MODES) invalid) (\<lambda>_.
     bind_res (p_string (p_field resource ''description'')) (\<lambda>_.
     Inr \<lparr>xr_canonical = canonical, xr_aliases = aliases, xr_allowed_modes = allowed_modes\<rparr>)))))))"

definition xr_names :: "taxonomy_resource \<Rightarrow> string list" where
  "xr_names r = xr_canonical r # xr_aliases r"

definition parse_contract_taxonomy :: "json \<Rightarrow> compile_error + contract_taxonomy" where
  "parse_contract_taxonomy payload =
     bind_res (p_object [''schema'', ''scope'', ''decision_precedence'', ''capabilities'', ''resources''] payload) (\<lambda>item.
     bind_res (p_string (p_field item ''schema'')) (\<lambda>schema.
     bind_res (guard_res (schema = ''ecpa-contract-taxonomy/0.1-draft'') invalid) (\<lambda>_.
     bind_res (p_string (p_field item ''scope'')) (\<lambda>scope.
     bind_res (guard_res (scope = TAXONOMY_SCOPE) invalid) (\<lambda>_.
     bind_res (bind_res (p_array (p_field item ''decision_precedence'')) (map_res p_string)) (\<lambda>precedence.
     bind_res (guard_res (precedence = TAXONOMY_DECISION_PRECEDENCE) invalid) (\<lambda>_.
     bind_res (bind_res (p_nonempty_array (p_field item ''capabilities'')) (map_res p_taxonomy_capability)) (\<lambda>capabilities.
     bind_res (guard_res (distinct capabilities) invalid) (\<lambda>_.
     bind_res (bind_res (p_nonempty_array (p_field item ''resources'')) (map_res p_taxonomy_resource)) (\<lambda>resources.
     bind_res (guard_res (distinct (concat (map xr_names resources))) invalid) (\<lambda>_.
     Inr \<lparr>tx_schema = schema, tx_scope = scope, tx_decision_precedence = precedence,
          tx_capabilities = sort capabilities, tx_resources = sort_key xr_canonical resources\<rparr>)))))))))))"

section \<open>Parsing a contract\<close>

definition p_resource :: "json \<Rightarrow> compile_error + contract_resource" where
  "p_resource raw =
     bind_res (case raw of
         JObj kvs \<Rightarrow> guard_res (fst ` set kvs \<in> {{''name'', ''mode''}, {''name'', ''mode'', ''mediator''}}) invalid
       | _ \<Rightarrow> Inl invalid) (\<lambda>_.
     bind_res (p_identifier (p_field raw ''name'')) (\<lambda>name.
     bind_res (p_string (p_field raw ''mode'')) (\<lambda>mode.
     bind_res (guard_res (mode \<in> set RESOURCE_MODES) invalid) (\<lambda>_.
     bind_res (if mode = ''mediated''
               then bind_res (p_identifier (p_field raw ''mediator'')) (\<lambda>x. Inr (Some x))
               else bind_res (guard_res (p_field raw ''mediator'' = JNull) invalid) (\<lambda>_. Inr None)) (\<lambda>mediator.
     Inr \<lparr>cr_name = name, cr_mode = mode, cr_mediator = mediator\<rparr>)))))"

definition p_resources :: "json \<Rightarrow> compile_error + contract_resource list" where
  "p_resources v =
     bind_res (bind_res (p_array v) (map_res p_resource)) (\<lambda>resources.
     bind_res (guard_res (distinct (map cr_name resources)) invalid) (\<lambda>_. Inr resources))"

text \<open>\<open>quorum\<close> is None in the parsed obligation unless the completion is a quorum.\<close>

definition p_quorum :: "string \<Rightarrow> json \<Rightarrow> compile_error + int option" where
  "p_quorum completion item =
     (if completion = ''quorum''
      then (case p_field item ''quorum'' of
              JInt n \<Rightarrow> if n < 1 then Inl invalid else Inr (Some n) | _ \<Rightarrow> Inl invalid)
      else Inr None)"

definition declared :: "capability list \<Rightarrow> capability list \<Rightarrow> string \<Rightarrow> string list" where
  "declared provides requires direction =
     map cb_name (if direction = ''provides'' then provides else requires)"

definition p_obligation ::
  "capability list \<Rightarrow> capability list \<Rightarrow> json \<Rightarrow> compile_error + process_obligation" where
  "p_obligation provides requires raw =
     bind_res (case raw of JObj _ \<Rightarrow> Inr () | _ \<Rightarrow> Inl invalid) (\<lambda>_.
     bind_res (p_string (p_field raw ''completion'')) (\<lambda>completion.
     bind_res (p_object ([''role'', ''event'', ''completion'', ''authority'', ''capability_direction'', ''capability'']
                 @ (if completion = ''quorum'' then [''quorum''] else [])) raw) (\<lambda>item.
     bind_res (p_string (p_field item ''role'')) (\<lambda>role.
     bind_res (p_string (p_field item ''event'')) (\<lambda>event.
     bind_res (guard_res (event \<in> set EVENTS \<and> completion \<in> set COMPLETION_MODES) invalid) (\<lambda>_.
     bind_res (p_string (p_field item ''authority'')) (\<lambda>authority_kind.
     bind_res (guard_res (authority_kind \<in> set AUTHORITY_KINDS) invalid) (\<lambda>_.
     bind_res (guard_res (\<not> (runtime_event event \<and> authority_kind \<noteq> ''runtime''))
                (Planning AUTHORITY_VIOLATION_PLAN)) (\<lambda>_.
     bind_res (p_string (p_field item ''capability_direction'')) (\<lambda>direction.
     bind_res (guard_res (direction \<in> set CAPABILITY_DIRECTIONS) invalid) (\<lambda>_.
     bind_res (p_identifier (p_field item ''capability'')) (\<lambda>capability.
     bind_res (guard_res (capability \<in> set (declared provides requires direction))
                (Planning AUTHORITY_VIOLATION_PLAN)) (\<lambda>_.
     bind_res (p_quorum completion item) (\<lambda>quorum.
     Inr \<lparr>po_role = role, po_event = event, po_completion = completion, po_authority = authority_kind,
          po_direction = direction, po_capability = capability, po_quorum = quorum\<rparr>))))))))))))))"

definition obligation_key :: "process_obligation \<Rightarrow> string \<times> string \<times> string \<times> string" where
  "obligation_key b = (po_role b, po_event b, po_direction b, po_capability b)"

definition p_obligations ::
  "capability list \<Rightarrow> capability list \<Rightarrow> json \<Rightarrow> compile_error + process_obligation list" where
  "p_obligations provides requires v =
     bind_res (bind_res (p_nonempty_array v) (map_res (p_obligation provides requires))) (\<lambda>obligations.
     bind_res (guard_res (distinct (map obligation_key obligations)) invalid) (\<lambda>_. Inr obligations))"

text \<open>The grants of one authority kind; \<open>getattr\<close> on another name raises AttributeError.\<close>

definition authority_of :: "authority_contract \<Rightarrow> string \<Rightarrow> compile_error + authority_grant list" where
  "authority_of a kind =
     (if kind = ''provider'' then Inr (ac_provider a)
      else if kind = ''runtime'' then Inr (ac_runtime a)
      else if kind = ''external'' then Inr (ac_external a)
      else Inl UncaughtAttribute)"

definition p_authority :: "json \<Rightarrow> compile_error + authority_contract" where
  "p_authority authority =
     bind_res (authority_grants ''provider'' (p_field authority ''provider'')) (\<lambda>provider.
     bind_res (authority_grants ''runtime'' (p_field authority ''runtime'')) (\<lambda>runtime.
     bind_res (authority_grants ''external'' (p_field authority ''external'')) (\<lambda>external.
     Inr \<lparr>ac_provider = provider, ac_runtime = runtime, ac_external = external\<rparr>)))"

definition grants_declared :: "capability list \<Rightarrow> capability list \<Rightarrow> authority_contract \<Rightarrow> bool" where
  "grants_declared provides requires a =
     list_all (\<lambda>g. ag_capability g \<in> set (declared provides requires (ag_direction g)))
       (ac_external a @ ac_provider a @ ac_runtime a)"

definition p_deprecated :: "json \<Rightarrow> compile_error + unit" where
  "p_deprecated payload = (case jget ''deprecated'' payload of
       None \<Rightarrow> Inr ()
     | Some v \<Rightarrow>
         bind_res (p_object [''since'', ''replacement''] v) (\<lambda>deprecated.
         bind_res (p_string (p_field deprecated ''since'')) (\<lambda>_.
         bind_res (p_identifier (p_field deprecated ''replacement'')) (\<lambda>_. Inr ()))))"

definition obligation_sort_key ::
  "process_obligation \<Rightarrow> string \<times> string \<times> string \<times> string \<times> string \<times> string \<times> int" where
  "obligation_sort_key b = (po_role b, po_event b, po_completion b, po_authority b, po_direction b,
     po_capability b, (case po_quorum b of None \<Rightarrow> 0 | Some n \<Rightarrow> n))"

definition contract_fields :: "string list" where
  "contract_fields = [''schema'', ''id'', ''version'', ''host'', ''capabilities'', ''resources'',
     ''process_obligations'', ''rollback'', ''authority'']"

definition p_contract_object :: "json \<Rightarrow> compile_error + unit" where
  "p_contract_object payload = (case payload of
       JObj kvs \<Rightarrow> guard_res (fst ` set kvs = set contract_fields
                     \<or> fst ` set kvs = set (''deprecated'' # contract_fields)) invalid
     | _ \<Rightarrow> Inl invalid)"

definition parse_contract ::
  "packaging \<Rightarrow> (string \<Rightarrow> string) \<Rightarrow> json \<Rightarrow> compile_error + extension_contract" where
  "parse_contract PK H payload =
     bind_res (p_contract_object payload) (\<lambda>_.
     bind_res (guard_res (p_field payload ''schema'' = JStr ''ecpa-manifest/0.1-draft'') invalid) (\<lambda>_.
     bind_res (p_identifier (p_field payload ''id'')) (\<lambda>extension_id.
     bind_res (public_version PK (p_field payload ''version'')) (\<lambda>version.
     bind_res (p_object [''runtime'', ''version''] (p_field payload ''host'')) (\<lambda>host.
     bind_res (p_string (p_field host ''runtime'')) (\<lambda>host_runtime.
     bind_res (public_specifier PK (p_field host ''version'')) (\<lambda>host_range.
     bind_res (p_object [''provides'', ''requires''] (p_field payload ''capabilities'')) (\<lambda>capabilities.
     bind_res (p_capabilities PK False (p_field capabilities ''provides'')) (\<lambda>provides.
     bind_res (p_capabilities PK True (p_field capabilities ''requires'')) (\<lambda>requires.
     bind_res (p_resources (p_field payload ''resources'')) (\<lambda>resources.
     bind_res (p_obligations provides requires (p_field payload ''process_obligations'')) (\<lambda>obligations.
     bind_res (p_object [''manager_owned'', ''external_operator_owned''] (p_field payload ''rollback'')) (\<lambda>rollback.
     bind_res (p_object [''provider'', ''runtime'', ''external''] (p_field payload ''authority'')) (\<lambda>authority.
     bind_res (p_deprecated payload) (\<lambda>_.
     bind_res (p_authority authority) (\<lambda>authority_contract.
     bind_res (guard_res (grants_declared provides requires authority_contract) (Planning AUTHORITY_VIOLATION_PLAN)) (\<lambda>_.
     bind_res (p_string_array (p_field rollback ''manager_owned'')) (\<lambda>manager_owned.
     bind_res (p_string_array (p_field rollback ''external_operator_owned'')) (\<lambda>external_owned.
     Inr \<lparr>ec_extension_id = extension_id, ec_version = version,
          ec_manifest_sha256 = H (canonical_bytes payload), ec_host_runtime = host_runtime,
          ec_host_version_range = host_range, ec_provides = provides, ec_requires = requires,
          ec_resources = sort_key cr_name resources,
          ec_process_obligations = sort_key obligation_sort_key obligations,
          ec_rollback = \<lparr>rb_manager_owned = manager_owned, rb_external_operator_owned = external_owned\<rparr>,
          ec_authority = authority_contract\<rparr>)))))))))))))))))))"

section \<open>Resolving capabilities\<close>

definition providers :: "extension_contract list \<Rightarrow> string \<Rightarrow> (extension_contract \<times> capability) list" where
  "providers contracts name =
     concat (map (\<lambda>c. map (Pair c) (filter (\<lambda>cap. cb_name cap = name) (ec_provides c))) contracts)"

fun compatible ::
  "packaging \<Rightarrow> string \<Rightarrow> (extension_contract \<times> capability) list \<Rightarrow>
   compile_error + (extension_contract \<times> capability) list" where
  "compatible PK spec [] = Inr []"
| "compatible PK spec ((c, cap) # candidates) =
     bind_res (version_in PK (cb_version cap) spec) (\<lambda>ok.
     bind_res (compatible PK spec candidates) (\<lambda>rest. Inr (if ok then (c, cap) # rest else rest)))"

definition resolve_requirement ::
  "packaging \<Rightarrow> extension_contract list \<Rightarrow> extension_contract \<times> capability \<Rightarrow> compile_error + capability_binding" where
  "resolve_requirement PK contracts cr = (case cr of (consumer, requirement) \<Rightarrow>
     let candidates = providers contracts (cb_name requirement) in
     bind_res (compatible PK (cb_version requirement) candidates) (\<lambda>comp. case comp of
       [] \<Rightarrow> Inl (Planning (if candidates \<noteq> [] then INCOMPATIBLE_CAPABILITY else MISSING_CAPABILITY))
     | [(provider, provision)] \<Rightarrow>
         Inr \<lparr>bi_capability = cb_name requirement, bi_required_range = cb_version requirement,
              bi_consumer = ec_extension_id consumer, bi_provider = ec_extension_id provider,
              bi_provided_version = cb_version provision\<rparr>
     | _ \<Rightarrow> Inl (Planning AMBIGUOUS_CAPABILITY)))"

definition requirements :: "extension_contract list \<Rightarrow> (extension_contract \<times> capability) list" where
  "requirements contracts = concat (map (\<lambda>c. map (Pair c) (ec_requires c)) contracts)"

type_synonym dependencies = "(string \<times> string list) list"

definition no_dependencies :: "extension_contract list \<Rightarrow> dependencies" where
  "no_dependencies contracts = fold (\<lambda>c. dict_set (ec_extension_id c) []) contracts []"

text \<open>\<open>dependencies[consumer].add(provider)\<close>, unless they are the same.\<close>

definition add_dependency :: "capability_binding \<Rightarrow> dependencies \<Rightarrow> dependencies" where
  "add_dependency b deps =
     (if bi_provider b = bi_consumer b then deps
      else map (\<lambda>(k, ps). (k, if k = bi_consumer b then List.insert (bi_provider b) ps else ps)) deps)"

definition binding_key :: "capability_binding \<Rightarrow> string \<times> string" where
  "binding_key b = (bi_consumer b, bi_capability b)"

definition resolve_capabilities ::
  "packaging \<Rightarrow> extension_contract list \<Rightarrow> compile_error + capability_binding list \<times> dependencies" where
  "resolve_capabilities PK contracts =
     bind_res (map_res (resolve_requirement PK contracts) (requirements contracts)) (\<lambda>bindings.
     Inr (sort_key binding_key bindings, fold add_dependency bindings (no_dependencies contracts)))"

section \<open>Ordering\<close>

text \<open>The priority queue of heapq: \<open>heapify\<close>, \<open>heappush\<close>, and \<open>heappop\<close>, which gives the least element.\<close>

definition heapify :: "string list \<Rightarrow> string list" where
  "heapify xs = sort xs"

definition heappush :: "string \<Rightarrow> string list \<Rightarrow> string list" where
  "heappush x h = insort x h"

fun heappop :: "string list \<Rightarrow> (string \<times> string list) option" where
  "heappop [] = None"
| "heappop (x # h) = Some (x, h)"

text \<open>\<open>sorted(dependents[extension\_id])\<close>.\<close>

definition dependents :: "dependencies \<Rightarrow> string \<Rightarrow> string list" where
  "dependents deps provider = sort (map fst (filter (\<lambda>(consumer, required). provider \<in> set required) deps))"

record order_state =
  os_ready :: "string list"
  os_indegree :: "(string \<times> int) list"
  os_ordered :: "string list"

text \<open>One turn of the inner loop: the in-degree of a dependent falls by one.\<close>

definition release :: "string \<Rightarrow> order_state \<Rightarrow> order_state" where
  "release dependent s =
     (let indegree = map (\<lambda>(k, n). (k, if k = dependent then n - 1 else n)) (os_indegree s) in
      s\<lparr>os_indegree := indegree,
        os_ready := (if map_of indegree dependent = Some 0 then heappush dependent (os_ready s) else os_ready s)\<rparr>)"

definition order_step :: "dependencies \<Rightarrow> string \<Rightarrow> string list \<Rightarrow> order_state \<Rightarrow> order_state" where
  "order_step deps extension_id rest s =
     fold release (dependents deps extension_id)
       (s\<lparr>os_ready := rest, os_ordered := os_ordered s @ [extension_id]\<rparr>)"

definition pending :: "order_state \<Rightarrow> nat" where
  "pending s = length (os_ready s) + length (filter (\<lambda>(k, n). n > 0) (os_indegree s))"

lemma pending_release: "pending (release d s) \<le> pending s"
proof -
  let ?f = "\<lambda>(k, n :: int). (k, if k = d then n - 1 else n)"
  have dec: "length (filter (\<lambda>(k, n). n > 0) (map ?f xs)) + (if map_of (map ?f xs) d = Some 0 then 1 else 0)
      \<le> length (filter (\<lambda>(k, n :: int). n > 0) xs)" for xs
  proof (induction xs)
    case (Cons x xs)
    have "length (filter (\<lambda>(k, n). n > 0) (map ?f xs)) \<le> length (filter (\<lambda>(k, n :: int). n > 0) xs)"
      using Cons by simp
    then show ?case using Cons by (cases x) auto
  qed simp
  show ?thesis
    using dec [of "os_indegree s"] by (simp add: pending_def release_def Let_def heappush_def split: if_splits)
qed

lemma pending_order_step:
  assumes "heappop (os_ready s) = Some (x, rest)"
  shows "pending (order_step deps x rest s) < pending s"
proof -
  have "pending (fold release xs t) \<le> pending t" for xs t
    by (induction xs arbitrary: t) (auto intro: order_trans pending_release)
  from this [of "dependents deps x" "s\<lparr>os_ready := rest, os_ordered := os_ordered s @ [x]\<rparr>"] assms show ?thesis
    by (cases "os_ready s") (auto simp: order_step_def pending_def)
qed

function order_loop :: "dependencies \<Rightarrow> order_state \<Rightarrow> order_state" where
  "order_loop deps s = (case heappop (os_ready s) of
       None \<Rightarrow> s
     | Some (extension_id, rest) \<Rightarrow> order_loop deps (order_step deps extension_id rest s))"
  by pat_completeness auto
termination
  by (relation "measure (\<lambda>(_, s). pending s)") (auto dest: pending_order_step)

declare order_loop.simps [simp del]

definition order_start :: "dependencies \<Rightarrow> order_state" where
  "order_start deps =
     (let indegree = map (\<lambda>(k, required). (k, int (length required))) deps in
      \<lparr>os_ready = heapify (map fst (filter (\<lambda>(k, n). n = 0) indegree)), os_indegree = indegree,
       os_ordered = []\<rparr>)"

definition by_id :: "extension_contract list \<Rightarrow> string \<Rightarrow> compile_error + extension_contract" where
  "by_id contracts x = (case map_of (fold (\<lambda>c. dict_set (ec_extension_id c) c) contracts []) x of
       None \<Rightarrow> Inl UncaughtKey | Some c \<Rightarrow> Inr c)"

definition order_contracts ::
  "extension_contract list \<Rightarrow> dependencies \<Rightarrow> compile_error + extension_contract list" where
  "order_contracts contracts deps =
     bind_res (map_res (by_id contracts) (os_ordered (order_loop deps (order_start deps)))) (\<lambda>ordered.
     bind_res (guard_res (length ordered = length contracts) (Planning DEPENDENCY_CYCLE)) (\<lambda>_.
     Inr ordered))"

section \<open>Resources\<close>

definition claims_of :: "extension_contract list \<Rightarrow> string \<Rightarrow> (string \<times> contract_resource) list" where
  "claims_of contracts name =
     concat (map (\<lambda>c. map (Pair (ec_extension_id c)) (filter (\<lambda>r. cr_name r = name) (ec_resources c))) contracts)"

definition resource_names :: "extension_contract list \<Rightarrow> string list" where
  "resource_names contracts = sort (remdups (concat (map (\<lambda>c. map cr_name (ec_resources c)) contracts)))"

record resource_summary =
  rs_name :: string
  rs_claims :: "(string \<times> contract_resource) list"
  rs_owners :: "string list"
  rs_modes :: "string set"
  rs_mediators :: "string option list"

definition summarize :: "extension_contract list \<Rightarrow> string \<Rightarrow> resource_summary" where
  "summarize contracts name =
     (let claims = claims_of contracts name in
      \<lparr>rs_name = name, rs_claims = claims, rs_owners = sort (map fst claims),
       rs_modes = cr_mode ` set (map snd claims), rs_mediators = remdups (map (cr_mediator \<circ> snd) claims)\<rparr>)"

definition mode_error :: "resource_summary \<Rightarrow> bool" where
  "mode_error r \<longleftrightarrow> \<not> distinct (rs_owners r)
     \<or> (length (rs_claims r) > 1 \<and> rs_modes r \<notin> {{''shared-read''}, {''mediated''}})"

definition mediator_inconsistent :: "resource_summary \<Rightarrow> bool" where
  "mediator_inconsistent r \<longleftrightarrow> rs_modes r = {''mediated''} \<and> length (rs_mediators r) \<noteq> 1"

definition mediator_absent :: "resource_summary \<Rightarrow> bool" where
  "mediator_absent r \<longleftrightarrow> rs_modes r = {''mediated''} \<and>
     (case hd (rs_mediators r) of None \<Rightarrow> True | Some m \<Rightarrow> m \<notin> set (rs_owners r))"

definition ownership :: "resource_summary \<Rightarrow> resource_ownership" where
  "ownership r =
     (let (mode, mediator) =
        (if rs_modes r = {''mediated''} then (''mediated'', hd (rs_mediators r))
         else if length (rs_claims r) = 1
         then (cr_mode (snd (hd (rs_claims r))), cr_mediator (snd (hd (rs_claims r))))
         else (''shared-read'', None)) in
      \<lparr>ro_resource = rs_name r, ro_mode = mode, ro_owners = rs_owners r, ro_mediator = mediator\<rparr>)"

definition resolve_resources :: "extension_contract list \<Rightarrow> compile_error + resource_ownership list" where
  "resolve_resources contracts =
     (let summaries = map (summarize contracts) (resource_names contracts) in
      bind_res (guard_res (\<not> list_ex mode_error summaries) (Planning RESOURCE_CONFLICT_PLAN)) (\<lambda>_.
      bind_res (guard_res (\<not> list_ex mediator_inconsistent summaries) (Planning RESOURCE_CONFLICT_PLAN)) (\<lambda>_.
      bind_res (guard_res (\<not> list_ex mediator_absent summaries) (Planning AUTHORITY_VIOLATION_PLAN)) (\<lambda>_.
      Inr (map ownership summaries)))))"

text \<open>A name of the taxonomy; a later rule of the same name would win.\<close>

definition taxonomy_lookup :: "contract_taxonomy \<Rightarrow> string \<Rightarrow> taxonomy_resource option" where
  "taxonomy_lookup t name =
     map_of (fold (\<lambda>r d. fold (\<lambda>x. dict_set x r) (xr_names r) d) (tx_resources t) []) name"

definition normalize_claim :: "contract_taxonomy \<Rightarrow> contract_resource \<Rightarrow> contract_resource" where
  "normalize_claim t claim = (case taxonomy_lookup t (cr_name claim) of
       None \<Rightarrow> claim
     | Some rule \<Rightarrow> \<lparr>cr_name = xr_canonical rule, cr_mode = cr_mode claim, cr_mediator = cr_mediator claim\<rparr>)"

definition normalize_taxonomy_resources ::
  "extension_contract list \<Rightarrow> contract_taxonomy \<Rightarrow> compile_error + extension_contract list" where
  "normalize_taxonomy_resources contracts t =
     (let claims = concat (map ec_resources contracts) in
      bind_res (guard_res (\<not> list_ex (\<lambda>claim. taxonomy_lookup t (cr_name claim) = None) claims)
                 (Planning UNKNOWN_RESOURCE_PLAN)) (\<lambda>_.
      bind_res (guard_res (\<not> list_ex (\<lambda>claim. case taxonomy_lookup t (cr_name claim) of
                   None \<Rightarrow> False | Some rule \<Rightarrow> cr_mode claim \<notin> set (xr_allowed_modes rule)) claims)
                 (Planning INVALID_RESOURCE_MODE)) (\<lambda>_.
      Inr (map (\<lambda>c. c\<lparr>ec_resources := sort_key cr_name (map (normalize_claim t) (ec_resources c))\<rparr>) contracts))))"

section \<open>Obligations\<close>

definition expected_grant :: "process_obligation \<Rightarrow> authority_grant" where
  "expected_grant b = \<lparr>ag_role = po_role b, ag_event = po_event b, ag_direction = po_direction b,
     ag_capability = po_capability b\<rparr>"

definition obligations_of :: "extension_contract list \<Rightarrow> (extension_contract \<times> process_obligation) list" where
  "obligations_of contracts = concat (map (\<lambda>c. map (Pair c) (ec_process_obligations c)) contracts)"

definition obligation_authorised :: "extension_contract \<times> process_obligation \<Rightarrow> compile_error + unit" where
  "obligation_authorised cb = (case cb of (c, b) \<Rightarrow>
     bind_res (authority_of (ec_authority c) (po_authority b)) (\<lambda>grants.
     guard_res (expected_grant b \<in> set grants) (Planning AUTHORITY_VIOLATION_PLAN)))"

definition validate_obligation_authority :: "extension_contract list \<Rightarrow> compile_error + unit" where
  "validate_obligation_authority contracts =
     bind_res (map_res obligation_authorised (obligations_of contracts)) (\<lambda>_. Inr ())"

definition requirement_provider :: "capability_binding list \<Rightarrow> string \<times> string \<Rightarrow> compile_error + string" where
  "requirement_provider bindings key =
     (case map_of (fold (\<lambda>b. dict_set (binding_key b) (bi_provider b)) bindings []) key of
        None \<Rightarrow> Inl UncaughtKey | Some p \<Rightarrow> Inr p)"

definition bind_obligation ::
  "capability_binding list \<Rightarrow> extension_contract \<times> process_obligation \<Rightarrow> compile_error + obligation_binding" where
  "bind_obligation bindings cb = (case cb of (c, b) \<Rightarrow>
     bind_res (if po_direction b = ''requires''
               then requirement_provider bindings (ec_extension_id c, po_capability b)
               else Inr (ec_extension_id c)) (\<lambda>provider.
     Inr \<lparr>bo_extension_id = ec_extension_id c, bo_role = po_role b, bo_event = po_event b,
          bo_completion = po_completion b, bo_authority = po_authority b, bo_direction = po_direction b,
          bo_capability = po_capability b, bo_provider = provider, bo_quorum = po_quorum b\<rparr>))"

definition obligation_binding_key :: "obligation_binding \<Rightarrow> string \<times> string \<times> string \<times> string \<times> string" where
  "obligation_binding_key b = (bo_extension_id b, bo_role b, bo_event b, bo_direction b, bo_capability b)"

definition bind_obligations ::
  "extension_contract list \<Rightarrow> capability_binding list \<Rightarrow> compile_error + obligation_binding list" where
  "bind_obligations contracts bindings =
     bind_res (map_res (bind_obligation bindings) (obligations_of contracts)) (\<lambda>result.
     Inr (sort_key obligation_binding_key result))"

section \<open>compile\_contracts\<close>

definition host_compatible :: "packaging \<Rightarrow> string \<Rightarrow> string \<Rightarrow> extension_contract \<Rightarrow> compile_error + unit" where
  "host_compatible PK runtime version c =
     bind_res (if ec_host_runtime c \<noteq> runtime then Inr False else version_in PK version (ec_host_version_range c)) (\<lambda>ok.
     guard_res ok (Planning INCOMPATIBLE_HOST_PLAN))"

definition compile_contracts ::
  "packaging \<Rightarrow> extension_contract list \<Rightarrow> string \<Rightarrow> string \<Rightarrow> contract_taxonomy option \<Rightarrow>
   compile_error + contract_plan" where
  "compile_contracts PK contracts host_runtime host_version taxonomy =
     bind_res (guard_res (contracts \<noteq> []) invalid) (\<lambda>_.
     bind_res (p_string (JStr host_runtime)) (\<lambda>runtime.
     bind_res (public_version PK (JStr host_version)) (\<lambda>raw.
     bind_res (case pk_version PK raw of None \<Rightarrow> Inl UncaughtVersion | Some (text, _) \<Rightarrow> Inr text) (\<lambda>version.
     bind_res (guard_res (distinct (map ec_extension_id contracts)) (Planning DUPLICATE_PLUGIN)) (\<lambda>_.
     bind_res (map_res (host_compatible PK runtime raw) contracts) (\<lambda>_.
     let sorted_contracts = sort_key ec_extension_id contracts in
     bind_res (case taxonomy of None \<Rightarrow> Inr sorted_contracts
               | Some t \<Rightarrow> normalize_taxonomy_resources sorted_contracts t) (\<lambda>normalized.
     bind_res (validate_obligation_authority normalized) (\<lambda>_.
     bind_res (resolve_capabilities PK normalized) (\<lambda>(bindings, deps).
     bind_res (order_contracts normalized deps) (\<lambda>ordered.
     bind_res (resolve_resources normalized) (\<lambda>resources.
     bind_res (bind_obligations normalized bindings) (\<lambda>obligations.
     Inr \<lparr>cp_host_runtime = runtime, cp_host_version = version, cp_ordered_contracts = ordered,
          cp_capability_bindings = bindings, cp_resource_ownership = resources,
          cp_obligation_bindings = obligations\<rparr>))))))))))))"

text \<open>\<open>asdict\<close> of a plan, and its content identity.\<close>

definition strings_json :: "string list \<Rightarrow> json" where
  "strings_json xs = JArr (map JStr xs)"

definition capability_json :: "capability \<Rightarrow> json" where
  "capability_json c = JObj [(''name'', JStr (cb_name c)), (''version'', JStr (cb_version c))]"

definition grant_json :: "authority_grant \<Rightarrow> json" where
  "grant_json g = JObj [(''role'', JStr (ag_role g)), (''event'', JStr (ag_event g)),
     (''capability_direction'', JStr (ag_direction g)), (''capability'', JStr (ag_capability g))]"

definition opt_int :: "int option \<Rightarrow> json" where
  "opt_int x = (case x of None \<Rightarrow> JNull | Some n \<Rightarrow> JInt n)"

definition process_obligation_json :: "process_obligation \<Rightarrow> json" where
  "process_obligation_json b = JObj [(''role'', JStr (po_role b)), (''event'', JStr (po_event b)),
     (''completion'', JStr (po_completion b)), (''authority'', JStr (po_authority b)),
     (''capability_direction'', JStr (po_direction b)), (''capability'', JStr (po_capability b)),
     (''quorum'', opt_int (po_quorum b))]"

definition contract_json :: "extension_contract \<Rightarrow> json" where
  "contract_json c = JObj [(''extension_id'', JStr (ec_extension_id c)), (''version'', JStr (ec_version c)),
     (''manifest_sha256'', JStr (ec_manifest_sha256 c)), (''host_runtime'', JStr (ec_host_runtime c)),
     (''host_version_range'', JStr (ec_host_version_range c)),
     (''provides'', JArr (map capability_json (ec_provides c))),
     (''requires'', JArr (map capability_json (ec_requires c))),
     (''resources'', JArr (map (\<lambda>r. JObj [(''name'', JStr (cr_name r)), (''mode'', JStr (cr_mode r)),
        (''mediator'', opt_str (cr_mediator r))]) (ec_resources c))),
     (''process_obligations'', JArr (map process_obligation_json (ec_process_obligations c))),
     (''rollback'', JObj [(''manager_owned'', strings_json (rb_manager_owned (ec_rollback c))),
        (''external_operator_owned'', strings_json (rb_external_operator_owned (ec_rollback c)))]),
     (''authority'', JObj [(''provider'', JArr (map grant_json (ac_provider (ec_authority c)))),
        (''runtime'', JArr (map grant_json (ac_runtime (ec_authority c)))),
        (''external'', JArr (map grant_json (ac_external (ec_authority c))))])]"

definition contract_plan_json :: "contract_plan \<Rightarrow> json" where
  "contract_plan_json p = JObj [(''host_runtime'', JStr (cp_host_runtime p)),
     (''host_version'', JStr (cp_host_version p)),
     (''ordered_contracts'', JArr (map contract_json (cp_ordered_contracts p))),
     (''capability_bindings'', JArr (map (\<lambda>b. JObj [(''capability'', JStr (bi_capability b)),
        (''required_range'', JStr (bi_required_range b)), (''consumer'', JStr (bi_consumer b)),
        (''provider'', JStr (bi_provider b)), (''provided_version'', JStr (bi_provided_version b))])
        (cp_capability_bindings p))),
     (''resource_ownership'', JArr (map (\<lambda>r. JObj [(''resource'', JStr (ro_resource r)),
        (''mode'', JStr (ro_mode r)), (''owners'', strings_json (ro_owners r)),
        (''mediator'', opt_str (ro_mediator r))]) (cp_resource_ownership p))),
     (''obligation_bindings'', JArr (map (\<lambda>b. JObj [(''extension_id'', JStr (bo_extension_id b)),
        (''role'', JStr (bo_role b)), (''event'', JStr (bo_event b)), (''completion'', JStr (bo_completion b)),
        (''authority'', JStr (bo_authority b)), (''capability_direction'', JStr (bo_direction b)),
        (''capability'', JStr (bo_capability b)), (''capability_provider'', JStr (bo_provider b)),
        (''quorum'', opt_int (bo_quorum b))]) (cp_obligation_bindings p)))]"

definition contract_plan_id :: "(string \<Rightarrow> string) \<Rightarrow> contract_plan \<Rightarrow> string" where
  "contract_plan_id H p = content_id H ''contract-plan'' (contract_plan_json p)"

end
