(* ===== verification/Compiler_Order.thy ===== *)
theory Compiler_Order
  imports Contract_Compiler "HOL-Library.Multiset"
begin

text \<open>
  The order of the compiled contracts. The loop over the heap computes the order that takes, again and
  again, the least identifier whose dependencies are all placed; it is a permutation of the contracts
  with providers before consumers, and it is refused exactly for cyclic dependencies.
\<close>

section \<open>A priority queue\<close>

text \<open>What the loop needs of heapq.\<close>

locale min_queue =
  fixes make :: "'a :: linorder list \<Rightarrow> 'q" and push :: "'a \<Rightarrow> 'q \<Rightarrow> 'q" and pop :: "'q \<Rightarrow> ('a \<times> 'q) option"
    and content :: "'q \<Rightarrow> 'a multiset" and ok :: "'q \<Rightarrow> bool"
  assumes make_ok: "ok (make xs)" and content_make: "content (make xs) = mset xs"
    and push_ok: "ok q \<Longrightarrow> ok (push x q)" and content_push: "ok q \<Longrightarrow> content (push x q) = add_mset x (content q)"
    and pop_None: "ok q \<Longrightarrow> pop q = None \<longleftrightarrow> content q = {#}"
    and pop_Some: "ok q \<Longrightarrow> pop q = Some (x, r) \<Longrightarrow> ok r \<and> content q = add_mset x (content r) \<and> (\<forall>y \<in># content r. x \<le> y)"
begin

text \<open>A queue that holds each element of a set once.\<close>

definition holds :: "'q \<Rightarrow> 'a set \<Rightarrow> bool" where
  "holds q A \<longleftrightarrow> ok q \<and> finite A \<and> content q = mset_set A"

lemma holds_make: "distinct xs \<Longrightarrow> holds (make xs) (set xs)"
  by (simp add: holds_def make_ok content_make mset_set_set)

lemma holds_push: "holds q A \<Longrightarrow> x \<notin> A \<Longrightarrow> holds (push x q) (insert x A)"
  by (simp add: holds_def push_ok content_push)

lemma holds_pop_None: "holds q A \<Longrightarrow> pop q = None \<longleftrightarrow> A = {}"
  by (auto simp: holds_def pop_None mset_set_empty_iff)

lemma holds_pop:
  assumes "holds q A" and "pop q = Some (x, r)"
  shows "x \<in> A \<and> x = Min A \<and> holds r (A - {x})"
proof -
  have q: "ok q" "finite A" "content q = mset_set A" using assms(1) by (simp_all add: holds_def)
  have r: "ok r" "mset_set A = add_mset x (content r)" "\<forall>y \<in># content r. x \<le> y"
    using pop_Some [OF q(1) assms(2)] q(3) by auto
  have x: "x \<in> A" using r(2) q(2) by (metis elem_mset_set union_single_eq_member add_mset_add_single)
  have rest: "content r = mset_set (A - {x})" using r(2) x q(2) by (simp add: mset_set_Diff)
  then have "x \<le> y" if "y \<in> A" for y using r(3) that q(2) by (cases "y = x") auto
  then have "x = Min A" using x q(2) by (metis Min_eqI)
  then show ?thesis using x rest r(1) q(2) by (simp add: holds_def)
qed

end

interpretation heap: min_queue heapify heappush heappop mset sorted
proof
  show "sorted (heapify xs)" for xs by (simp add: heapify_def)
  show "mset (heapify xs) = mset xs" for xs by (simp add: heapify_def)
  show "sorted q \<Longrightarrow> sorted (heappush x q)" for x q by (simp add: heappush_def sorted_insort)
  show "sorted q \<Longrightarrow> mset (heappush x q) = add_mset x (mset q)" for x q by (simp add: heappush_def)
  show "sorted q \<Longrightarrow> heappop q = None \<longleftrightarrow> mset q = {#}" for q by (cases q) auto
  show "sorted q \<Longrightarrow> heappop q = Some (x, r) \<Longrightarrow> sorted r \<and> mset q = add_mset x (mset r) \<and> (\<forall>y \<in># mset r. x \<le> y)" for q x r
    by (cases q) auto
qed

section \<open>The loop\<close>

definition deps_ok :: "dependencies \<Rightarrow> bool" where
  "deps_ok deps \<longleftrightarrow> distinct (map fst deps)
     \<and> (\<forall>(k, required) \<in> set deps. distinct required \<and> set required \<subseteq> fst ` set deps)"

text \<open>What may be placed next when \<open>P\<close> is placed.\<close>

definition placeable :: "dependencies \<Rightarrow> string list \<Rightarrow> string set" where
  "placeable deps P = {k. k \<notin> set P \<and> (\<exists>required. (k, required) \<in> set deps \<and> set required \<subseteq> set P)}"

definition indegrees :: "dependencies \<Rightarrow> string list \<Rightarrow> (string \<times> int) list" where
  "indegrees deps P = map (\<lambda>(k, required). (k, int (card (set required - set P)))) deps"

text \<open>Every identifier comes after the ones it depends on.\<close>

definition topological :: "dependencies \<Rightarrow> string list \<Rightarrow> bool" where
  "topological deps P \<longleftrightarrow> (\<forall>i < length P. \<forall>required. (P ! i, required) \<in> set deps \<longrightarrow> set required \<subseteq> set (take i P))"

definition order_inv :: "dependencies \<Rightarrow> order_state \<Rightarrow> bool" where
  "order_inv deps s \<longleftrightarrow> distinct (os_ordered s) \<and> topological deps (os_ordered s) \<and> set (os_ordered s) \<subseteq> fst ` set deps
     \<and> os_indegree s = indegrees deps (os_ordered s)
     \<and> heap.holds (os_ready s) (placeable deps (os_ordered s))"

lemma fold_release:
  assumes "distinct xs" and "heap.holds (os_ready s) R" and "set xs \<inter> R = {}"
  shows "os_ordered (fold release xs s) = os_ordered s
    \<and> os_indegree (fold release xs s) = map (\<lambda>(k, n). (k, if k \<in> set xs then n - 1 else n)) (os_indegree s)
    \<and> heap.holds (os_ready (fold release xs s)) (R \<union> {k \<in> set xs. map_of (os_indegree s) k = Some 1})"
  using assms
proof (induction xs arbitrary: s R)
  case (Cons x xs)
  let ?f = "\<lambda>(k, n :: int). (k, if k = x then n - 1 else n)"
  let ?s = "release x s" and ?R = "if map_of (os_indegree s) x = Some 1 then insert x R else R"
  have mo: "map_of (map ?f d) k = map_option (\<lambda>n. if k = x then n - 1 else n) (map_of d k)" for d :: "(string \<times> int) list" and k
    by (induction d) auto
  have ready: "heap.holds (os_ready ?s) ?R"
    using Cons.prems heap.holds_push [of "os_ready s" R x] by (auto simp: release_def Let_def mo)
  have ord: "os_ordered ?s = os_ordered s" and ind: "os_indegree ?s = map ?f (os_indegree s)"
    by (simp_all add: release_def Let_def)
  have "set xs \<inter> ?R = {}" using Cons.prems by auto
  then have IH: "os_ordered (fold release xs ?s) = os_ordered ?s
    \<and> os_indegree (fold release xs ?s) = map (\<lambda>(k, n). (k, if k \<in> set xs then n - 1 else n)) (os_indegree ?s)
    \<and> heap.holds (os_ready (fold release xs ?s)) (?R \<union> {k \<in> set xs. map_of (os_indegree ?s) k = Some 1})"
    using Cons.IH [OF _ ready] Cons.prems(1) by simp
  have "?R \<union> {k \<in> set xs. map_of (os_indegree ?s) k = Some 1}
      = R \<union> {k \<in> set (x # xs). map_of (os_indegree s) k = Some 1}"
    using Cons.prems(1) by (auto simp: ind mo split: if_splits)
  moreover have "map (\<lambda>(k, n). (k, if k \<in> set xs then n - 1 else n)) (os_indegree ?s)
      = map (\<lambda>(k, n). (k, if k \<in> set (x # xs) then n - 1 else n)) (os_indegree s)"
    using Cons.prems(1) by (auto simp: ind)
  ultimately show ?case using IH ord by simp
qed simp

lemma deps_ok_unique:
  "deps_ok deps \<Longrightarrow> (k, a) \<in> set deps \<Longrightarrow> (k, b) \<in> set deps \<Longrightarrow> a = b"
  by (auto simp: deps_ok_def dest: eq_key_imp_eq_value)

lemma topological_closed:
  assumes "topological deps P" and "k \<in> set P" and "(k, required) \<in> set deps"
  shows "set required \<subseteq> set P"
proof -
  obtain i where "i < length P" "P ! i = k" using assms(2) by (auto simp: in_set_conv_nth)
  then have "set required \<subseteq> set (take i P)" using assms(1,3) by (auto simp: topological_def)
  then show ?thesis using set_take_subset [of i P] by blast
qed

lemma topological_snoc:
  assumes "topological deps P" and "x \<in> placeable deps P" and "deps_ok deps"
  shows "topological deps (P @ [x])"
proof -
  have "set required \<subseteq> set P" if "(x, required) \<in> set deps" for required
    using assms(2) that deps_ok_unique [OF assms(3)] unfolding placeable_def by blast
  then show ?thesis using assms(1) by (auto simp: topological_def nth_append less_Suc_eq)
qed

lemma set_dependents: "set (dependents deps x) = {k. \<exists>required. (k, required) \<in> set deps \<and> x \<in> set required}"
  by (force simp: dependents_def)

lemma distinct_dependents: "deps_ok deps \<Longrightarrow> distinct (dependents deps x)"
  by (simp add: dependents_def deps_ok_def distinct_map_filter)

lemma map_of_indegrees:
  "deps_ok deps \<Longrightarrow> (k, required) \<in> set deps \<Longrightarrow>
   map_of (indegrees deps P) k = Some (int (card (set required - set P)))"
  unfolding indegrees_def by (rule map_of_is_SomeI) (force simp: deps_ok_def comp_def case_prod_unfold)+

lemma indegrees_snoc:
  assumes "deps_ok deps" and "x \<notin> set P"
  shows "map (\<lambda>(k, n). (k, if k \<in> set (dependents deps x) then n - 1 else n)) (indegrees deps P) = indegrees deps (P @ [x])"
proof -
  have "(if k \<in> set (dependents deps x) then int (card (set required - set P)) - 1 else int (card (set required - set P)))
      = int (card (set required - set (P @ [x])))" if k: "(k, required) \<in> set deps" for k required
  proof (cases "x \<in> set required")
    case True
    then have "k \<in> set (dependents deps x)" using k by (auto simp: set_dependents)
    moreover have "card (set required - set P) = Suc (card (set required - set (P @ [x])))"
    proof -
      have "set required - set P = insert x (set required - set (P @ [x]))" "x \<notin> set required - set (P @ [x])"
        using True assms(2) by auto
      then show ?thesis by (metis List.finite_set card_insert_disjoint finite_Diff)
    qed
    ultimately show ?thesis by simp
  next
    case False
    then have "k \<notin> set (dependents deps x)" using k deps_ok_unique [OF assms(1)] unfolding set_dependents by blast
    moreover have "set required - set (P @ [x]) = set required - set P" using False by auto
    ultimately show ?thesis by simp
  qed
  then show ?thesis by (auto simp: indegrees_def)
qed

lemma placeable_snoc:
  assumes deps: "deps_ok deps" and top: "topological deps P" and x: "x \<in> placeable deps P"
  shows "placeable deps (P @ [x]) = (placeable deps P - {x})
    \<union> {k \<in> set (dependents deps x). map_of (indegrees deps P) k = Some 1}" (is "?L = ?A \<union> ?B")
proof (rule set_eqI)
  fix k
  have xP: "x \<notin> set P" using x by (simp add: placeable_def)
  show "k \<in> ?L \<longleftrightarrow> k \<in> ?A \<union> ?B"
  proof (cases "\<exists>required. (k, required) \<in> set deps")
    case True
    then obtain r where r: "(k, r) \<in> set deps" by blast
    have L: "k \<in> placeable deps Q \<longleftrightarrow> k \<notin> set Q \<and> set r \<subseteq> set Q" for Q
      using r deps_ok_unique [OF deps r] unfolding placeable_def by blast
    have dep: "k \<in> set (dependents deps x) \<longleftrightarrow> x \<in> set r"
      using r deps_ok_unique [OF deps r] unfolding set_dependents by blast
    show ?thesis
    proof (cases "x \<in> set r")
      case True
      have "k \<notin> set P" using topological_closed [OF top _ r] True xP by blast
      moreover have "k \<noteq> x" using True L [of P] x by (auto simp: xP)
      moreover have "card (set r - set P) = 1 \<longleftrightarrow> set r \<subseteq> insert x (set P)"
      proof
        assume "card (set r - set P) = 1"
        then obtain y where y: "set r - set P = {y}" by (auto simp: card_1_singleton_iff)
        moreover have "x \<in> set r - set P" using True xP by simp
        ultimately have "set r - set P = {x}" by simp
        then show "set r \<subseteq> insert x (set P)" by auto
      next
        assume "set r \<subseteq> insert x (set P)"
        then have "set r - set P = {x}" using True xP by blast
        then show "card (set r - set P) = 1" by simp
      qed
      ultimately show ?thesis using True xP dep map_of_indegrees [OF deps r, of P] L [of P] L [of "P @ [x]"] by auto
    next
      case False
      then show ?thesis using dep L [of P] L [of "P @ [x]"] by auto
    qed
  next
    case False
    then show ?thesis by (auto simp: placeable_def set_dependents)
  qed
qed

lemma order_step_inv:
  assumes deps: "deps_ok deps" and inv: "order_inv deps s" and pop: "heappop (os_ready s) = Some (x, rest)"
  shows "order_inv deps (order_step deps x rest s) \<and> os_ordered (order_step deps x rest s) = os_ordered s @ [x]
    \<and> x = Min (placeable deps (os_ordered s)) \<and> x \<in> placeable deps (os_ordered s)"
proof -
  let ?P = "os_ordered s" and ?t = "s\<lparr>os_ready := rest, os_ordered := os_ordered s @ [x]\<rparr>"
  have top: "topological deps ?P" and hold: "heap.holds (os_ready s) (placeable deps ?P)"
    using inv by (simp_all add: order_inv_def)
  have x: "x \<in> placeable deps ?P" "x = Min (placeable deps ?P)" "heap.holds rest (placeable deps ?P - {x})"
    using heap.holds_pop [OF hold pop] by auto
  have xP: "x \<notin> set ?P" and xd: "x \<in> fst ` set deps" using x(1) by (force simp: placeable_def)+
  have disj: "set (dependents deps x) \<inter> (placeable deps ?P - {x}) = {}"
    using xP deps_ok_unique [OF deps] by (fastforce simp: set_dependents placeable_def)
  have hold': "heap.holds (os_ready ?t) (placeable deps ?P - {x})" using x(3) by simp
  note fr = fold_release [OF distinct_dependents [OF deps] hold' disj]
  have ind: "os_indegree ?t = indegrees deps ?P" using inv by (simp add: order_inv_def)
  have "os_ordered (order_step deps x rest s) = ?P @ [x]" using fr by (simp add: order_step_def)
  moreover have "os_indegree (order_step deps x rest s) = indegrees deps (?P @ [x])"
    using fr indegrees_snoc [OF deps xP] ind by (simp add: order_step_def)
  moreover have "heap.holds (os_ready (order_step deps x rest s)) (placeable deps (?P @ [x]))"
    using fr placeable_snoc [OF deps top x(1)] ind by (simp add: order_step_def)
  ultimately show ?thesis
    using inv x xP xd topological_snoc [OF top x(1) deps] by (simp add: order_inv_def)
qed

lemma order_start_inv:
  assumes "deps_ok deps"
  shows "order_inv deps (order_start deps)"
proof -
  have d: "distinct (map fst deps)" and len: "length r = card (set r)" if "(k, r) \<in> set deps" for k r
    using assms that by (auto simp: deps_ok_def distinct_card)
  have ind: "map (\<lambda>(k, required). (k, int (length required))) deps = indegrees deps []"
    using len by (auto simp: indegrees_def)
  have keys: "distinct (map fst (filter P (indegrees deps [])))" for P
  proof -
    have "map fst (indegrees deps []) = map fst deps" by (simp add: indegrees_def comp_def case_prod_unfold)
    then show ?thesis using assms by (metis deps_ok_def distinct_map_filter)
  qed
  have "set (map fst (filter (\<lambda>(k, n). n = 0) (indegrees deps []))) = placeable deps []"
    by (force simp: indegrees_def placeable_def)
  then have "heap.holds (heapify (map fst (filter (\<lambda>(k, n). n = 0) (indegrees deps [])))) (placeable deps [])"
    using heap.holds_make [OF keys] by metis
  then show ?thesis
    by (simp add: order_start_def ind order_inv_def topological_def Let_def)
qed

text \<open>The reference order: the least identifier that may be placed, until there is none.\<close>

fun greedy :: "nat \<Rightarrow> dependencies \<Rightarrow> string list \<Rightarrow> string list" where
  "greedy 0 deps P = P"
| "greedy (Suc n) deps P =
     (let next = map fst (filter (\<lambda>(k, required). k \<notin> set P \<and> set required \<subseteq> set P) deps) in
      if next = [] then P else greedy n deps (P @ [Min (set next)]))"

lemma greedy_next:
  "set (map fst (filter (\<lambda>(k, required). k \<notin> set P \<and> set required \<subseteq> set P) deps)) = placeable deps P"
  by (force simp: placeable_def)

lemma greedy_stop: "placeable deps P = {} \<Longrightarrow> greedy n deps P = P"
proof (cases n)
  case (Suc m)
  assume "placeable deps P = {}"
  then have "map fst (filter (\<lambda>(k, required). k \<notin> set P \<and> set required \<subseteq> set P) deps) = []"
    using greedy_next [of P deps] by (metis set_empty)
  then show ?thesis using Suc by simp
qed simp

lemma greedy_go:
  assumes "x \<in> placeable deps P"
  shows "greedy (Suc n) deps P = greedy n deps (P @ [Min (placeable deps P)])"
proof -
  let ?n = "map fst (filter (\<lambda>(k, required). k \<notin> set P \<and> set required \<subseteq> set P) deps)"
  have "?n \<noteq> []" using assms greedy_next [of P deps] by (metis empty_iff list.set(1))
  then show ?thesis unfolding greedy.simps Let_def greedy_next by simp
qed

lemma placed_bound:
  assumes "order_inv deps s" and "x \<in> placeable deps (os_ordered s)"
  shows "length (os_ordered s) < length deps"
proof -
  have "insert x (set (os_ordered s)) \<subseteq> fst ` set deps" "x \<notin> set (os_ordered s)" "distinct (os_ordered s)"
    using assms by (force simp: order_inv_def placeable_def)+
  then have "Suc (length (os_ordered s)) \<le> card (fst ` set deps)"
    by (metis List.finite_set card_insert_disjoint card_mono distinct_card finite_imageI)
  also have "\<dots> \<le> length deps" by (metis card_image_le List.finite_set card_length le_trans)
  finally show ?thesis by simp
qed

lemma order_loop_result:
  assumes "deps_ok deps" and "order_inv deps s"
  shows "order_inv deps (order_loop deps s) \<and> placeable deps (os_ordered (order_loop deps s)) = {}
    \<and> (\<forall>n \<ge> length deps - length (os_ordered s). os_ordered (order_loop deps s) = greedy n deps (os_ordered s))"
  using assms
proof (induction deps s rule: order_loop.induct)
  case (1 deps s)
  have hold: "heap.holds (os_ready s) (placeable deps (os_ordered s))" using "1.prems" by (simp add: order_inv_def)
  show ?case
  proof (cases "heappop (os_ready s)")
    case None
    then have "placeable deps (os_ordered s) = {}" using heap.holds_pop_None [OF hold] by simp
    then show ?thesis using None "1.prems" by (simp add: order_loop.simps [of deps s] greedy_stop)
  next
    case (Some p)
    then obtain x rest where p: "heappop (os_ready s) = Some (x, rest)" by (cases p) auto
    let ?s = "order_step deps x rest s"
    have step: "order_inv deps ?s" "os_ordered ?s = os_ordered s @ [x]" "x = Min (placeable deps (os_ordered s))"
      "x \<in> placeable deps (os_ordered s)"
      using order_step_inv [OF "1.prems" p] by auto
    have loop: "order_loop deps s = order_loop deps ?s" by (simp add: order_loop.simps [of deps s] p)
    have IH: "order_inv deps (order_loop deps ?s) \<and> placeable deps (os_ordered (order_loop deps ?s)) = {}
      \<and> (\<forall>n \<ge> length deps - length (os_ordered ?s). os_ordered (order_loop deps ?s) = greedy n deps (os_ordered ?s))"
      using "1.IH" [OF p refl "1.prems"(1) step(1)] .
    have "os_ordered (order_loop deps ?s) = greedy n deps (os_ordered s)"
      if n: "n \<ge> length deps - length (os_ordered s)" for n
    proof -
      have "length (os_ordered s) < length deps" by (rule placed_bound [OF "1.prems"(2) step(4)])
      then obtain m where m: "n = Suc m" "m \<ge> length deps - length (os_ordered ?s)"
        using n step(2) by (cases n) auto
      then have "os_ordered (order_loop deps ?s) = greedy m deps (os_ordered ?s)" using IH by blast
      then show ?thesis using m greedy_go [OF step(4), of m] step(2,3) by simp
    qed
    then show ?thesis using IH loop by simp
  qed
qed

section \<open>Cycles\<close>

definition dep_rel :: "dependencies \<Rightarrow> (string \<times> string) set" where
  "dep_rel deps = {(p, k). \<exists>required. (k, required) \<in> set deps \<and> p \<in> set required}"

lemma finite_dep_rel: "finite (dep_rel deps)"
proof -
  have "dep_rel deps = (\<Union>(k, r) \<in> set deps. (\<lambda>p. (p, k)) ` set r)" by (auto simp: dep_rel_def)
  then show ?thesis by auto
qed

lemma acyclic_complete:
  assumes "deps_ok deps" and "placeable deps P = {}" and "acyclic (dep_rel deps)"
  shows "fst ` set deps \<subseteq> set P"
proof (rule ccontr)
  assume "\<not> ?thesis"
  then obtain k where "k \<in> fst ` set deps - set P" by blast
  moreover have "wf (dep_rel deps)" by (rule finite_acyclic_wf [OF finite_dep_rel assms(3)])
  ultimately obtain z where z: "z \<in> fst ` set deps - set P"
    and least: "\<And>y. (y, z) \<in> dep_rel deps \<Longrightarrow> y \<notin> fst ` set deps - set P"
    by (metis wfE_min)
  then obtain r where r: "(z, r) \<in> set deps" by auto
  have "set r \<subseteq> fst ` set deps" using assms(1) r by (auto simp: deps_ok_def)
  moreover have "(y, z) \<in> dep_rel deps" if "y \<in> set r" for y using r that by (auto simp: dep_rel_def)
  ultimately have "set r \<subseteq> set P" using least by blast
  then have "z \<in> placeable deps P" using z r by (auto simp: placeable_def)
  then show False using assms(2) by simp
qed

lemma topological_acyclic:
  assumes "topological deps P" and "distinct P" and "fst ` set deps \<subseteq> set P"
  shows "acyclic (dep_rel deps)"
proof -
  define f where "f k = length P - (THE i. i < length P \<and> P ! i = k)" for k
  have at: "(THE j. j < length P \<and> P ! j = P ! i) = i" if "i < length P" for i
    using that assms(2) by (auto simp: nth_eq_iff_index_eq)
  show ?thesis
  proof (rule acyclicI_order)
    fix p k
    assume "(p, k) \<in> dep_rel deps"
    then obtain r where r: "(k, r) \<in> set deps" "p \<in> set r" by (auto simp: dep_rel_def)
    have "k \<in> set P" using assms(3) r(1) by force
    then obtain i where i: "i < length P" "P ! i = k" by (meson in_set_conv_nth)
    then have "p \<in> set (take i P)" using assms(1) r by (auto simp: topological_def)
    then obtain j where j: "j < i" "P ! j = p" using i(1) by (auto simp: in_set_conv_nth)
    have "f k = length P - i" "f p = length P - j" unfolding f_def using i j at [of i] at [of j] by simp_all
    then show "f k < f p" using i j by simp
  qed
qed

lemma order_complete_iff:
  assumes "deps_ok deps"
  shows "length (os_ordered (order_loop deps (order_start deps))) = length deps \<longleftrightarrow> acyclic (dep_rel deps)"
proof -
  let ?P = "os_ordered (order_loop deps (order_start deps))"
  have res: "order_inv deps (order_loop deps (order_start deps))" "placeable deps ?P = {}"
    using order_loop_result [OF assms order_start_inv [OF assms]] by auto
  then have P: "distinct ?P" "topological deps ?P" "set ?P \<subseteq> fst ` set deps" by (auto simp: order_inv_def)
  have card: "card (fst ` set deps) = length deps" using assms by (metis deps_ok_def distinct_card length_map set_map)
  have "length ?P = length deps \<longleftrightarrow> fst ` set deps \<subseteq> set ?P"
  proof
    assume "length ?P = length deps"
    then have "card (set ?P) = card (fst ` set deps)" using P(1) card by (simp add: distinct_card)
    then show "fst ` set deps \<subseteq> set ?P" using P(3) by (metis List.finite_set card_subset_eq finite_imageI order_refl)
  next
    assume "fst ` set deps \<subseteq> set ?P"
    then have "set ?P = fst ` set deps" using P(3) by blast
    then show "length ?P = length deps" using P(1) card by (metis distinct_card)
  qed
  then show ?thesis
    using acyclic_complete [OF assms res(2)] topological_acyclic [OF P(2,1)] by blast
qed

end
