(* ===== verification/Compiler_Properties.thy ===== *)
theory Compiler_Properties
  imports Compiler_Order
begin

text \<open>
  What each pass of the compiler gives the next: the parser's well-formed contracts, unique
  compatible providers, dependencies that the ordering pass accepts, admissible resource claims and
  authorised obligations.
\<close>

section \<open>Capabilities and dependencies\<close>

lemma compatible_filter:
  "compatible PK spec xs = Inr ys \<Longrightarrow> ys = filter (\<lambda>(c, cap). pk_contains PK spec (cb_version cap)) xs"
  by (induction PK spec xs arbitrary: ys rule: compatible.induct)
     (auto simp: version_in_def split: option.splits)

definition compatible_providers ::
  "packaging \<Rightarrow> extension_contract list \<Rightarrow> capability \<Rightarrow> (extension_contract \<times> capability) list" where
  "compatible_providers PK cs r =
     filter (\<lambda>(c, cap). pk_contains PK (cb_version r) (cb_version cap)) (providers cs (cb_name r))"

lemma resolve_requirement_Inr:
  assumes "resolve_requirement PK cs (c, r) = Inr b"
  shows "\<exists>d cap. compatible_providers PK cs r = [(d, cap)]
     \<and> b = \<lparr>bi_capability = cb_name r, bi_required_range = cb_version r, bi_consumer = ec_extension_id c,
            bi_provider = ec_extension_id d, bi_provided_version = cb_version cap\<rparr>"
proof (cases "compatible PK (cb_version r) (providers cs (cb_name r))")
  case (Inr comp)
  have comp: "compatible_providers PK cs r = comp"
    using compatible_filter [OF Inr] by (simp add: compatible_providers_def)
  show ?thesis
  proof (cases comp)
    case (Cons p rest)
    then show ?thesis using assms Inr comp by (cases p; cases rest) (auto simp: resolve_requirement_def Let_def)
  qed (use assms Inr in \<open>simp add: resolve_requirement_def Let_def\<close>)
qed (use assms in \<open>simp add: resolve_requirement_def Let_def\<close>)

lemma providers_member:
  "(d, cap) \<in> set (compatible_providers PK cs r) \<Longrightarrow> d \<in> set cs \<and> cap \<in> set (ec_provides d) \<and> cb_name cap = cb_name r
     \<and> pk_contains PK (cb_version r) (cb_version cap)"
  by (auto simp: compatible_providers_def providers_def)

lemma binding_ids:
  assumes "resolve_requirement PK cs (c, r) = Inr b" and "c \<in> set cs"
  shows "bi_provider b \<in> ec_extension_id ` set cs \<and> bi_consumer b \<in> ec_extension_id ` set cs"
proof -
  obtain d cap where "compatible_providers PK cs r = [(d, cap)]" "bi_provider b = ec_extension_id d"
    "bi_consumer b = ec_extension_id c"
    using resolve_requirement_Inr [OF assms(1)] by auto
  moreover from this(1) have "d \<in> set cs" using providers_member [of d cap PK cs r] by simp
  ultimately show ?thesis using assms(2) by simp
qed

lemma no_dependencies_distinct:
  assumes "distinct (map ec_extension_id cs)"
  shows "no_dependencies cs = map (\<lambda>c. (ec_extension_id c, [])) cs"
proof -
  have app: "dict_set k v d = d @ [(k, v)]" if "k \<notin> fst ` set d" for k v and d :: "(string \<times> string list) list"
    using that by (induction k v d rule: dict_set.induct) auto
  have "fold (\<lambda>c. dict_set (ec_extension_id c) []) xs d = d @ map (\<lambda>c. (ec_extension_id c, [])) xs"
    if "distinct (map ec_extension_id xs)" "ec_extension_id ` set xs \<inter> fst ` set d = {}"
    for xs and d :: "(string \<times> string list) list"
    using that
  proof (induction xs arbitrary: d)
    case (Cons x xs)
    have "dict_set (ec_extension_id x) [] d = d @ [(ec_extension_id x, [])]" using Cons.prems by (intro app) auto
    moreover have "ec_extension_id ` set xs \<inter> fst ` set (d @ [(ec_extension_id x, [])]) = {}" using Cons.prems by auto
    ultimately show ?case using Cons.IH [of "d @ [(ec_extension_id x, [])]"] Cons.prems(1) by simp
  qed simp
  from this [OF assms, of "[]"] show ?thesis by (simp add: no_dependencies_def)
qed

definition needs :: "capability_binding list \<Rightarrow> string \<Rightarrow> string list \<Rightarrow> string list" where
  "needs bs k ps = fold (\<lambda>b. if bi_provider b \<noteq> bi_consumer b \<and> k = bi_consumer b then List.insert (bi_provider b) else id) bs ps"

lemma fold_add_dependency: "fold add_dependency bs deps = map (\<lambda>(k, ps). (k, needs bs k ps)) deps"
proof (induction bs arbitrary: deps)
  case Nil
  then show ?case by (simp add: needs_def)
next
  case (Cons b bs)
  then show ?case by (auto simp: add_dependency_def needs_def)
qed

lemma set_needs:
  "set (needs bs k ps) = set ps \<union> {bi_provider b | b. b \<in> set bs \<and> bi_consumer b = k \<and> bi_provider b \<noteq> k}"
proof (induction bs arbitrary: ps)
  case (Cons b bs)
  have "needs (b # bs) k ps = needs bs k (if bi_provider b \<noteq> bi_consumer b \<and> k = bi_consumer b then List.insert (bi_provider b) ps else ps)"
    by (simp add: needs_def)
  then show ?case using Cons by auto
qed (simp add: needs_def)

lemma distinct_needs: "distinct ps \<Longrightarrow> distinct (needs bs k ps)"
proof (induction bs arbitrary: ps)
  case (Cons b bs)
  have "needs (b # bs) k ps = needs bs k (if bi_provider b \<noteq> bi_consumer b \<and> k = bi_consumer b then List.insert (bi_provider b) ps else ps)"
    by (simp add: needs_def)
  then show ?case using Cons by simp
qed (simp add: needs_def)

lemma resolve_capabilities_Inr:
  assumes "resolve_capabilities PK cs = Inr (bs, deps)" and "distinct (map ec_extension_id cs)"
  shows "set bs = {b. \<exists>c r. c \<in> set cs \<and> r \<in> set (ec_requires c) \<and> resolve_requirement PK cs (c, r) = Inr b}"
    and "deps_ok deps" and "map fst deps = map ec_extension_id cs"
    and "dep_rel deps = {(bi_provider b, bi_consumer b) | b. b \<in> set bs \<and> bi_provider b \<noteq> bi_consumer b}"
proof -
  obtain raw where raw: "map_res (resolve_requirement PK cs) (requirements cs) = Inr raw"
    and bs: "bs = sort_key binding_key raw" and deps: "deps = fold add_dependency raw (no_dependencies cs)"
    using assms(1) by (auto simp: resolve_capabilities_def)
  have all: "list_all2 (\<lambda>x y. resolve_requirement PK cs x = Inr y) (requirements cs) raw" using raw by (simp add: map_res_Inr_iff)
  have req: "(c, r) \<in> set (requirements cs) \<longleftrightarrow> c \<in> set cs \<and> r \<in> set (ec_requires c)" for c r
    by (auto simp: requirements_def)
  show bset: "set bs = {b. \<exists>c r. c \<in> set cs \<and> r \<in> set (ec_requires c) \<and> resolve_requirement PK cs (c, r) = Inr b}"
  proof (intro set_eqI iffI)
    fix b assume "b \<in> set bs"
    then have "b \<in> set raw" by (simp add: bs)
    then obtain c r where "(c, r) \<in> set (requirements cs)" "resolve_requirement PK cs (c, r) = Inr b"
      using map_res_set [OF raw] by (metis surj_pair)
    then show "b \<in> {b. \<exists>c r. c \<in> set cs \<and> r \<in> set (ec_requires c) \<and> resolve_requirement PK cs (c, r) = Inr b}"
      using req by auto
  next
    fix b assume "b \<in> {b. \<exists>c r. c \<in> set cs \<and> r \<in> set (ec_requires c) \<and> resolve_requirement PK cs (c, r) = Inr b}"
    then obtain c r where "(c, r) \<in> set (requirements cs)" "resolve_requirement PK cs (c, r) = Inr b" using req by auto
    then obtain i where "i < length (requirements cs)" "resolve_requirement PK cs (requirements cs ! i) = Inr b"
      by (metis in_set_conv_nth)
    then show "b \<in> set bs" using all by (auto simp: bs list_all2_conv_all_nth)
  qed
  have d: "deps = map (\<lambda>c. (ec_extension_id c, needs raw (ec_extension_id c) [])) cs"
    by (simp add: deps fold_add_dependency no_dependencies_distinct [OF assms(2)])
  have "bi_provider b \<in> ec_extension_id ` set cs \<and> bi_consumer b \<in> ec_extension_id ` set cs" if "b \<in> set bs" for b
    using that binding_ids unfolding bset by blast
  then have prov: "bi_provider b \<in> ec_extension_id ` set cs \<and> bi_consumer b \<in> ec_extension_id ` set cs" if "b \<in> set raw" for b
    using that by (simp add: bs)
  show "map fst deps = map ec_extension_id cs" by (simp add: d)
  show "deps_ok deps"
    using assms(2) prov by (auto simp: deps_ok_def d set_needs distinct_needs comp_def image_image)
  show "dep_rel deps = {(bi_provider b, bi_consumer b) | b. b \<in> set bs \<and> bi_provider b \<noteq> bi_consumer b}"
  proof -
    have rel: "(p, k) \<in> dep_rel deps \<longleftrightarrow> k \<in> ec_extension_id ` set cs
        \<and> (\<exists>b \<in> set raw. bi_provider b = p \<and> bi_consumer b = k \<and> p \<noteq> k)" for p k
    proof -
      have "(p, k) \<in> dep_rel deps \<longleftrightarrow> k \<in> ec_extension_id ` set cs \<and> p \<in> set (needs raw k [])"
        unfolding dep_rel_def d by auto
      then show ?thesis by (auto simp: set_needs)
    qed
    show ?thesis
      using rel prov by (fastforce simp: bs)
  qed
qed

section \<open>The ordered contracts\<close>

lemma map_of_by_id:
  assumes "distinct (map ec_extension_id cs)"
  shows "by_id cs x = Inr c \<longleftrightarrow> c \<in> set cs \<and> ec_extension_id c = x"
proof -
  have fold: "map_of (fold (\<lambda>c. dict_set (ec_extension_id c) c) xs d) x
      = (case find (\<lambda>c. ec_extension_id c = x) xs of Some c \<Rightarrow> Some c | None \<Rightarrow> map_of d x)"
    if "distinct (map ec_extension_id xs)" for xs d
    using that
  proof (induction xs arbitrary: d)
    case (Cons y ys)
    have "find (\<lambda>c. ec_extension_id c = x) ys = None" if "ec_extension_id y = x"
    proof -
      have "x \<notin> ec_extension_id ` set ys" using Cons.prems that by auto
      then show ?thesis by (auto simp: find_None_iff)
    qed
    then show ?case using Cons by (auto split: option.splits)
  qed simp
  have "find (\<lambda>c. ec_extension_id c = x) cs = Some c \<longleftrightarrow> c \<in> set cs \<and> ec_extension_id c = x"
  proof
    assume "find (\<lambda>c. ec_extension_id c = x) cs = Some c"
    then show "c \<in> set cs \<and> ec_extension_id c = x" by (auto simp: find_Some_iff)
  next
    assume c: "c \<in> set cs \<and> ec_extension_id c = x"
    then obtain d where d: "find (\<lambda>c. ec_extension_id c = x) cs = Some d"
      by (cases "find (\<lambda>c. ec_extension_id c = x) cs") (auto simp: find_None_iff)
    then have "d \<in> set cs \<and> ec_extension_id d = x" by (auto simp: find_Some_iff)
    then have "d = c" using c assms by (auto simp: distinct_map inj_on_def)
    then show "find (\<lambda>c. ec_extension_id c = x) cs = Some c" using d by simp
  qed
  then show ?thesis
    using fold [OF assms, of "[]"] by (auto simp: by_id_def split: option.splits)
qed

lemma order_contracts_cases:
  assumes ids: "distinct (map ec_extension_id cs)" and deps: "deps_ok deps" and keys: "map fst deps = map ec_extension_id cs"
  defines "P \<equiv> os_ordered (order_loop deps (order_start deps))"
  shows "if acyclic (dep_rel deps)
    then \<exists>ordered. order_contracts cs deps = Inr ordered \<and> map ec_extension_id ordered = P \<and> mset ordered = mset cs
      \<and> topological deps P
    else order_contracts cs deps = Inl (Planning DEPENDENCY_CYCLE)"
proof -
  have inv: "order_inv deps (order_loop deps (order_start deps))"
    using order_loop_result [OF deps order_start_inv [OF deps]] by simp
  have fs: "fst ` set deps = ec_extension_id ` set cs" using keys by (metis set_map)
  then have P: "distinct P" "topological deps P" "set P \<subseteq> ec_extension_id ` set cs"
    using inv by (auto simp: order_inv_def P_def)
  have "\<exists>ordered. map_res (by_id cs) P = Inr ordered \<and> map ec_extension_id ordered = P \<and> set ordered \<subseteq> set cs"
    using P(3)
  proof (induction P)
    case (Cons x xs)
    then obtain ordered c where "map_res (by_id cs) xs = Inr ordered" "map ec_extension_id ordered = xs" "set ordered \<subseteq> set cs"
      "c \<in> set cs" "ec_extension_id c = x" by auto
    moreover from this have "by_id cs x = Inr c" using map_of_by_id [OF ids] by simp
    ultimately show ?case by (intro exI [of _ "c # ordered"]) simp
  qed simp
  then obtain ordered where o: "map_res (by_id cs) P = Inr ordered" "map ec_extension_id ordered = P" "set ordered \<subseteq> set cs"
    by blast
  have len: "length deps = length cs" using keys by (metis length_map)
  have run: "order_contracts cs deps = (if length ordered = length cs then Inr ordered else Inl (Planning DEPENDENCY_CYCLE))"
    using o(1) by (simp add: order_contracts_def P_def guard_res_def)
  have olen: "length ordered = length P" using o(2) by (metis length_map)
  have iff: "length ordered = length cs \<longleftrightarrow> acyclic (dep_rel deps)"
    using order_complete_iff [OF deps] len olen by (simp add: P_def)
  have "mset ordered = mset cs" if "length ordered = length cs"
  proof -
    have d: "distinct ordered" "distinct cs" using P(1) o(2) ids by (metis distinct_map)+
    then have "set ordered = set cs"
      using o(3) that by (metis List.finite_set card_subset_eq distinct_card)
    then show ?thesis using d by (simp add: set_eq_iff_mset_eq_distinct [symmetric])
  qed
  then show ?thesis using run iff o(2) P(2) by auto
qed

lemma topological_before:
  assumes "topological deps P" and "(p, k) \<in> dep_rel deps" and "k \<in> set P"
  shows "\<exists>xs ys zs. P = xs @ p # ys @ k # zs"
proof -
  obtain r where r: "(k, r) \<in> set deps" "p \<in> set r" using assms(2) by (auto simp: dep_rel_def)
  obtain i where i: "i < length P" "P ! i = k" using assms(3) by (meson in_set_conv_nth)
  then have "p \<in> set (take i P)" using assms(1) r by (auto simp: topological_def)
  then obtain xs ys where "take i P = xs @ p # ys" by (meson split_list)
  then have "P = xs @ p # ys @ k # drop (Suc i) P" using id_take_nth_drop [OF i(1)] i(2) by simp
  then show ?thesis by blast
qed

section \<open>Resources\<close>

lemma claims_of_iff: "(o', r) \<in> set (claims_of cs name) \<longleftrightarrow> (\<exists>c \<in> set cs. ec_extension_id c = o' \<and> r \<in> set (ec_resources c) \<and> cr_name r = name)"
  by (auto simp: claims_of_def)

lemma set_owners:
  "set (rs_owners (summarize cs n)) = {ec_extension_id c | c. c \<in> set cs \<and> n \<in> cr_name ` set (ec_resources c)}"
proof -
  have "set (rs_owners (summarize cs n)) = fst ` set (claims_of cs n)" by (simp add: summarize_def Let_def)
  also have "\<dots> = {ec_extension_id c | c. c \<in> set cs \<and> n \<in> cr_name ` set (ec_resources c)}"
    by (fastforce simp: claims_of_def image_iff)
  finally show ?thesis .
qed

lemma set_resource_names: "set (resource_names cs) = {cr_name r | r c. c \<in> set cs \<and> r \<in> set (ec_resources c)}"
  by (auto simp: resource_names_def)

lemma distinct_owners_claims:
  assumes "distinct (map fst xs)" and "(a, r) \<in> set xs" and "(b, q) \<in> set xs" and "(a, r) \<noteq> (b, q)"
  shows "1 < length xs"
proof -
  have "card {(a, r), (b, q)} \<le> card (set xs)" using assms(2,3) by (intro card_mono) auto
  then show ?thesis using assms(4) card_length [of xs] by simp
qed

text \<open>Two claims of one resource in an admitted set of contracts.\<close>

lemma resolve_resources_pair:
  assumes ok: "resolve_resources cs = Inr os" and c: "c \<in> set cs" "r \<in> set (ec_resources c)"
    and d: "d \<in> set cs" "q \<in> set (ec_resources d)" and same: "cr_name r = cr_name q"
    and ne: "ec_extension_id c \<noteq> ec_extension_id d"
  shows "(cr_mode r = ''shared-read'' \<and> cr_mode q = ''shared-read'')
    \<or> (cr_mode r = ''mediated'' \<and> cr_mode q = ''mediated'' \<and> cr_mediator q = cr_mediator r
        \<and> (\<exists>e \<in> set cs. cr_mediator r = Some (ec_extension_id e) \<and> cr_name r \<in> cr_name ` set (ec_resources e)))"
proof -
  let ?s = "summarize cs (cr_name r)"
  have "cr_name r \<in> set (resource_names cs)" using c by (auto simp: set_resource_names)
  then have good: "\<not> mode_error ?s" "\<not> mediator_inconsistent ?s" "\<not> mediator_absent ?s"
    using ok by (auto simp: resolve_resources_def Let_def list_ex_iff)
  have in_claims: "(ec_extension_id c, r) \<in> set (rs_claims ?s)" "(ec_extension_id d, q) \<in> set (rs_claims ?s)"
    using c d same by (auto simp: summarize_def Let_def claims_of_iff)
  have "distinct (map fst (rs_claims ?s))" using good(1) by (simp add: mode_error_def summarize_def Let_def)
  then have "1 < length (rs_claims ?s)" using distinct_owners_claims [OF _ in_claims] ne by simp
  then have modes: "rs_modes ?s = {''shared-read''} \<or> rs_modes ?s = {''mediated''}" using good(1) by (auto simp: mode_error_def)
  have rm: "cr_mode r \<in> rs_modes ?s" "cr_mode q \<in> rs_modes ?s"
    using in_claims by (force simp: summarize_def Let_def)+
  have med: "cr_mediator r \<in> set (rs_mediators ?s)" "cr_mediator q \<in> set (rs_mediators ?s)"
    using in_claims by (force simp: summarize_def Let_def)+
  show ?thesis
  proof (cases "rs_modes ?s = {''mediated''}")
    case True
    then have "length (rs_mediators ?s) = 1" using good(2) by (simp add: mediator_inconsistent_def)
    then obtain m where m: "rs_mediators ?s = [m]" by (auto simp: length_Suc_conv)
    then have "case m of None \<Rightarrow> False | Some x \<Rightarrow> x \<in> set (rs_owners ?s)"
      using good(3) True by (auto simp: mediator_absent_def split: option.splits)
    then obtain x where x: "m = Some x" "x \<in> set (rs_owners ?s)" by (cases m) auto
    then obtain e where "e \<in> set cs" "ec_extension_id e = x" "cr_name r \<in> cr_name ` set (ec_resources e)"
      unfolding set_owners by blast
    then show ?thesis using True rm med m x by auto
  next
    case False
    then show ?thesis using modes rm by auto
  qed
qed

lemma resolve_resources_owners:
  assumes "resolve_resources cs = Inr os"
  shows "map ro_resource os = resource_names cs
    \<and> (\<forall>w \<in> set os. sorted (ro_owners w) \<and> distinct (ro_owners w)
         \<and> set (ro_owners w) = {ec_extension_id c | c. c \<in> set cs \<and> ro_resource w \<in> cr_name ` set (ec_resources c)})"
proof -
  have os: "os = map ownership (map (summarize cs) (resource_names cs))"
    and ok: "\<forall>n \<in> set (resource_names cs). \<not> mode_error (summarize cs n)"
    using assms by (auto simp: resolve_resources_def Let_def list_ex_iff)
  have owner: "ro_resource (ownership s) = rs_name s" "ro_owners (ownership s) = rs_owners s" for s
    by (simp_all add: ownership_def Let_def case_prod_unfold)
  have sum: "rs_name (summarize cs n) = n" "sorted (rs_owners (summarize cs n))"
    "set (rs_owners (summarize cs n)) = {ec_extension_id c | c. c \<in> set cs \<and> n \<in> cr_name ` set (ec_resources c)}" for n
    by (simp_all add: set_owners) (simp_all add: summarize_def Let_def)
  have "distinct (rs_owners (summarize cs n))" if "n \<in> set (resource_names cs)" for n
    using ok that by (auto simp: mode_error_def)
  then show ?thesis using os sum owner by (auto simp: comp_def)
qed

section \<open>Permuted input\<close>

lemma sort_key_perm:
  assumes "mset xs = mset ys" and "distinct (map f xs)"
  shows "sort_key f xs = sort_key f ys"
  by (rule sort_key_inj_key_eq) (use assms in \<open>auto simp: distinct_map\<close>)

lemma map_res_ok_iff: "(\<exists>ys. map_res f xs = Inr ys) \<longleftrightarrow> (\<forall>x \<in> set xs. \<exists>y. f x = Inr y)"
  by (induction xs) auto

end
