(* ===== verification/Compiler_Wellformed.thy ===== *)
theory Compiler_Wellformed
  imports Compiler_Properties
begin

text \<open>
  The contracts the parser admits, and that compiling them raises planning errors only: no exception
  of the packaging library, no KeyError and no AttributeError escapes.
\<close>

section \<open>Well-formed contracts\<close>

text \<open>What the compiler relies on in the packaging library: the text of a parsed version or specifier
  set is parsed again to the same text.\<close>

definition packaging_ok :: "packaging \<Rightarrow> bool" where
  "packaging_ok PK \<longleftrightarrow>
     (\<forall>raw text local. pk_version PK raw = Some (text, local) \<longrightarrow> pk_version PK text = Some (text, local))
     \<and> (\<forall>raw text vs. pk_specifier PK raw = Some (text, vs) \<longrightarrow> (\<exists>ws. pk_specifier PK text = Some (text, ws)))"

definition capability_wf :: "packaging \<Rightarrow> bool \<Rightarrow> capability \<Rightarrow> bool" where
  "capability_wf PK req c \<longleftrightarrow> is_identifier (cb_name c)
     \<and> (if req then pk_specifier PK (cb_version c) \<noteq> None else pk_version PK (cb_version c) \<noteq> None)"

definition resource_wf :: "contract_resource \<Rightarrow> bool" where
  "resource_wf r \<longleftrightarrow> is_identifier (cr_name r) \<and> cr_mode r \<in> set RESOURCE_MODES
     \<and> (cr_mediator r \<noteq> None \<longleftrightarrow> cr_mode r = ''mediated'')"

definition obligation_wf :: "capability list \<Rightarrow> capability list \<Rightarrow> process_obligation \<Rightarrow> bool" where
  "obligation_wf provides requires b \<longleftrightarrow> po_event b \<in> set EVENTS \<and> po_completion b \<in> set COMPLETION_MODES
     \<and> po_authority b \<in> set AUTHORITY_KINDS \<and> po_direction b \<in> set CAPABILITY_DIRECTIONS
     \<and> (runtime_event (po_event b) \<longrightarrow> po_authority b = ''runtime'')
     \<and> po_capability b \<in> set (declared provides requires (po_direction b))
     \<and> (case po_quorum b of None \<Rightarrow> po_completion b \<noteq> ''quorum'' | Some n \<Rightarrow> po_completion b = ''quorum'' \<and> n \<ge> 1)"

definition grants_wf :: "string \<Rightarrow> authority_grant list \<Rightarrow> bool" where
  "grants_wf kind gs \<longleftrightarrow> distinct gs \<and> sorted (map grant_key gs)
     \<and> (\<forall>g \<in> set gs. ag_event g \<in> set EVENTS \<and> (runtime_event (ag_event g) \<longrightarrow> kind = ''runtime''))"

definition contract_wf :: "packaging \<Rightarrow> extension_contract \<Rightarrow> bool" where
  "contract_wf PK c \<longleftrightarrow> is_identifier (ec_extension_id c) \<and> pk_specifier PK (ec_host_version_range c) \<noteq> None
     \<and> distinct (map cb_name (ec_provides c)) \<and> sorted (map cb_name (ec_provides c))
     \<and> distinct (map cb_name (ec_requires c)) \<and> sorted (map cb_name (ec_requires c))
     \<and> (\<forall>cap \<in> set (ec_provides c). capability_wf PK False cap) \<and> (\<forall>cap \<in> set (ec_requires c). capability_wf PK True cap)
     \<and> distinct (map cr_name (ec_resources c)) \<and> sorted (map cr_name (ec_resources c))
     \<and> (\<forall>r \<in> set (ec_resources c). resource_wf r)
     \<and> ec_process_obligations c \<noteq> [] \<and> distinct (map obligation_key (ec_process_obligations c))
     \<and> (\<forall>b \<in> set (ec_process_obligations c). obligation_wf (ec_provides c) (ec_requires c) b)
     \<and> grants_wf ''provider'' (ac_provider (ec_authority c)) \<and> grants_wf ''runtime'' (ac_runtime (ec_authority c))
     \<and> grants_wf ''external'' (ac_external (ec_authority c))
     \<and> grants_declared (ec_provides c) (ec_requires c) (ec_authority c)"

lemma p_identifier_wf: "p_identifier v = Inr s \<Longrightarrow> is_identifier s"
  by (auto simp: p_identifier_def)

lemma public_version_wf:
  assumes "packaging_ok PK" and "public_version PK v = Inr text"
  shows "pk_version PK text = Some (text, None)"
proof -
  obtain raw where raw: "p_string v = Inr raw" using assms(2) by (auto simp: public_version_def)
  show ?thesis
  proof (cases "pk_version PK raw")
    case (Some p)
    then have "pk_version PK raw = Some (text, None)"
      using assms(2) raw by (cases p) (auto simp: public_version_def split: if_splits)
    then show ?thesis using assms(1) by (auto simp: packaging_ok_def)
  qed (use assms(2) raw in \<open>simp add: public_version_def\<close>)
qed

lemma public_specifier_wf:
  "packaging_ok PK \<Longrightarrow> public_specifier PK v = Inr text \<Longrightarrow> pk_specifier PK text \<noteq> None"
  by (fastforce simp: public_specifier_def packaging_ok_def split: option.splits if_splits)

lemma p_capability_wf:
  "packaging_ok PK \<Longrightarrow> p_capability PK req v = Inr c \<Longrightarrow> capability_wf PK req c"
  by (auto simp: p_capability_def capability_wf_def split: if_splits
      dest: p_identifier_wf public_version_wf public_specifier_wf)

lemma map_res_all: "map_res f xs = Inr ys \<Longrightarrow> (\<And>x y. f x = Inr y \<Longrightarrow> P y) \<Longrightarrow> \<forall>y \<in> set ys. P y"
  using map_res_set by metis

lemma p_capabilities_wf:
  assumes "packaging_ok PK" and "p_capabilities PK req v = Inr cs"
  shows "distinct (map cb_name cs) \<and> sorted (map cb_name cs) \<and> (\<forall>c \<in> set cs. capability_wf PK req c)"
proof -
  obtain xs ys where "map_res (p_capability PK req) xs = Inr ys" "distinct (map cb_name ys)" "cs = sort_key cb_name ys"
    using assms(2) by (auto simp: p_capabilities_def)
  then show ?thesis
    using map_res_all [of "p_capability PK req" xs ys "capability_wf PK req"] p_capability_wf [OF assms(1)]
    by (auto simp: distinct_map)
qed

lemma p_resource_wf: "p_resource v = Inr r \<Longrightarrow> resource_wf r"
  by (auto simp: p_resource_def resource_wf_def split: if_splits dest: p_identifier_wf)

lemma p_quorum_wf:
  "p_quorum completion v = Inr q \<Longrightarrow>
   (case q of None \<Rightarrow> completion \<noteq> ''quorum'' | Some n \<Rightarrow> completion = ''quorum'' \<and> n \<ge> 1)"
  by (auto simp: p_quorum_def split: json.splits if_splits)

lemma p_obligation_wf:
  assumes "p_obligation ps rs v = Inr b"
  shows "obligation_wf ps rs b"
  using assms unfolding p_obligation_def bind_res_Inr_iff guard_res_Inr_iff
  by (elim exE conjE) (auto simp: obligation_wf_def dest!: p_quorum_wf split: option.splits)

lemma p_grant_wf:
  "p_grant kind v = Inr g \<Longrightarrow> ag_event g \<in> set EVENTS \<and> (runtime_event (ag_event g) \<longrightarrow> kind = ''runtime'')"
  by (auto simp: p_grant_def)

lemma authority_grants_wf:
  assumes "authority_grants kind v = Inr gs"
  shows "grants_wf kind gs"
proof -
  obtain xs ys where "map_res (p_grant kind) xs = Inr ys" "distinct ys" "gs = sort_key grant_key ys"
    using assms by (auto simp: authority_grants_def)
  then show ?thesis
    using map_res_all [of "p_grant kind" xs ys
        "\<lambda>g. ag_event g \<in> set EVENTS \<and> (runtime_event (ag_event g) \<longrightarrow> kind = ''runtime'')"] p_grant_wf
    by (simp add: grants_wf_def)
qed

lemma distinct_map_sort_key: "distinct (map f (sort_key g xs)) = distinct (map f xs)"
  by (simp add: distinct_map)

lemma p_resources_wf:
  assumes "p_resources v = Inr rs"
  shows "distinct (map cr_name rs) \<and> (\<forall>r \<in> set rs. resource_wf r)"
proof -
  obtain xs where "map_res p_resource xs = Inr rs" "distinct (map cr_name rs)"
    using assms by (auto simp: p_resources_def)
  then show ?thesis using map_res_all [of p_resource xs rs resource_wf] p_resource_wf by auto
qed

lemma p_obligations_wf:
  assumes "p_obligations ps qs v = Inr bs"
  shows "bs \<noteq> [] \<and> distinct (map obligation_key bs) \<and> (\<forall>b \<in> set bs. obligation_wf ps qs b)"
proof -
  obtain xs where xs: "map_res (p_obligation ps qs) xs = Inr bs" "xs \<noteq> []" "distinct (map obligation_key bs)"
    using assms by (auto simp: p_obligations_def p_nonempty_array_def)
  then have "length bs = length xs" by (simp add: map_res_length)
  then show ?thesis
    using xs map_res_all [of "p_obligation ps qs" xs bs "obligation_wf ps qs"] p_obligation_wf by auto
qed

lemma p_authority_wf:
  "p_authority v = Inr a \<Longrightarrow> grants_wf ''provider'' (ac_provider a) \<and> grants_wf ''runtime'' (ac_runtime a)
     \<and> grants_wf ''external'' (ac_external a)"
  by (auto simp: p_authority_def dest: authority_grants_wf)

lemma sort_key_Nil_iff: "sort_key f xs = [] \<longleftrightarrow> xs = []"
  by (metis length_0_conv length_sort)

lemma parse_contract_wf:
  assumes PK: "packaging_ok PK" and "parse_contract PK H payload = Inr c"
  shows "contract_wf PK c"
  using assms(2) unfolding parse_contract_def bind_res_Inr_iff guard_res_Inr_iff
  by (elim exE conjE)
     (auto simp: contract_wf_def distinct_map_sort_key sort_key_Nil_iff
       dest!: p_identifier_wf public_specifier_wf [OF PK] p_capabilities_wf [OF PK] p_resources_wf p_obligations_wf p_authority_wf)

section \<open>Compiling well-formed contracts\<close>

definition only_planning :: "compile_error + 'a \<Rightarrow> bool" where
  "only_planning r \<longleftrightarrow> (\<forall>e. r = Inl e \<longrightarrow> (\<exists>code. e = Planning code))"

lemma only_planning_Inr [simp]: "only_planning (Inr x)"
  by (simp add: only_planning_def)

lemma only_planning_Inl [simp]: "only_planning (Inl (Planning code))"
  by (simp add: only_planning_def)

lemma only_planning_guard [simp]: "only_planning (guard_res c (Planning code))"
  by (simp add: only_planning_def)

lemma only_planning_bind: "only_planning m \<Longrightarrow> (\<And>x. m = Inr x \<Longrightarrow> only_planning (k x)) \<Longrightarrow> only_planning (bind_res m k)"
  by (cases m) (simp_all add: only_planning_def)

lemma only_planning_map: "(\<And>x. x \<in> set xs \<Longrightarrow> only_planning (f x)) \<Longrightarrow> only_planning (map_res f xs)"
  by (induction xs) (auto intro!: only_planning_bind)

lemma version_in_wf:
  "pk_version PK v \<noteq> None \<Longrightarrow> pk_specifier PK spec \<noteq> None \<Longrightarrow> version_in PK v spec = Inr (pk_contains PK spec v)"
  by (auto simp: version_in_def)

text \<open>The part of well-formedness that the passes use; it does not depend on the resources.\<close>

definition core_wf :: "packaging \<Rightarrow> extension_contract \<Rightarrow> bool" where
  "core_wf PK c \<longleftrightarrow> (\<forall>cap \<in> set (ec_provides c). pk_version PK (cb_version cap) \<noteq> None)
     \<and> (\<forall>cap \<in> set (ec_requires c). pk_specifier PK (cb_version cap) \<noteq> None)
     \<and> (\<forall>b \<in> set (ec_process_obligations c). po_authority b \<in> set AUTHORITY_KINDS
          \<and> (po_direction b = ''requires'' \<longrightarrow> po_capability b \<in> cb_name ` set (ec_requires c)))"

lemma contract_wf_core: "contract_wf PK c \<Longrightarrow> core_wf PK c"
  by (auto simp: contract_wf_def core_wf_def capability_wf_def obligation_wf_def declared_def)

lemma core_wf_resources [simp]: "core_wf PK (c\<lparr>ec_resources := rs\<rparr>) = core_wf PK c"
  by (simp add: core_wf_def)

lemma compatible_wf:
  "\<forall>(c, cap) \<in> set xs. pk_version PK (cb_version cap) \<noteq> None \<Longrightarrow> pk_specifier PK spec \<noteq> None \<Longrightarrow>
   \<exists>ys. compatible PK spec xs = Inr ys"
  by (induction PK spec xs rule: compatible.induct) (auto simp: version_in_wf)

lemma resolve_requirement_wf:
  assumes "\<forall>c \<in> set cs. core_wf PK c" and "c \<in> set cs" and "r \<in> set (ec_requires c)"
  shows "only_planning (resolve_requirement PK cs (c, r))"
proof -
  have "\<forall>(c, cap) \<in> set (providers cs (cb_name r)). pk_version PK (cb_version cap) \<noteq> None"
    using assms(1) by (auto simp: providers_def core_wf_def)
  moreover have "pk_specifier PK (cb_version r) \<noteq> None" using assms by (auto simp: core_wf_def)
  ultimately obtain ys where "compatible PK (cb_version r) (providers cs (cb_name r)) = Inr ys"
    using compatible_wf by blast
  then show ?thesis by (auto simp: resolve_requirement_def Let_def split: list.splits)
qed

lemma resolve_capabilities_wf:
  "\<forall>c \<in> set cs. core_wf PK c \<Longrightarrow> only_planning (resolve_capabilities PK cs)"
  unfolding resolve_capabilities_def
  by (auto intro!: only_planning_bind only_planning_map resolve_requirement_wf simp: requirements_def)

lemma obligation_authorised_wf:
  "core_wf PK c \<Longrightarrow> b \<in> set (ec_process_obligations c) \<Longrightarrow> only_planning (obligation_authorised (c, b))"
  by (auto simp: obligation_authorised_def core_wf_def AUTHORITY_KINDS_def authority_of_def)

lemma validate_wf: "\<forall>c \<in> set cs. core_wf PK c \<Longrightarrow> only_planning (validate_obligation_authority cs)"
  unfolding validate_obligation_authority_def
  by (auto intro!: only_planning_bind only_planning_map obligation_authorised_wf simp: obligations_of_def)

lemma map_of_fold_dict:
  "k \<in> f ` set xs \<Longrightarrow> map_of (fold (\<lambda>b. dict_set (f b) (g b)) xs d) k \<noteq> None"
proof (induction xs arbitrary: d)
  case (Cons x xs)
  have keep: "map_of d k \<noteq> None \<Longrightarrow> map_of (fold (\<lambda>b. dict_set (f b) (g b)) ys d) k \<noteq> None" for ys d
    by (induction ys arbitrary: d) auto
  show ?case
  proof (cases "k \<in> f ` set xs")
    case False
    then have "k = f x" using Cons.prems by simp
    then show ?thesis using keep [of "dict_set (f x) (g x) d" xs] by simp
  qed (use Cons.IH in simp)
qed simp

lemma bind_obligations_wf:
  assumes "\<forall>c \<in> set cs. core_wf PK c" and "distinct (map ec_extension_id cs)" and "resolve_capabilities PK cs = Inr (bs, deps)"
  shows "only_planning (bind_obligations cs bs)"
proof -
  have "only_planning (bind_obligation bs (c, b))" if cb: "c \<in> set cs" "b \<in> set (ec_process_obligations c)" for c b
  proof (cases "po_direction b = ''requires''")
    case True
    then have "po_capability b \<in> cb_name ` set (ec_requires c)" using assms(1) cb unfolding core_wf_def by blast
    then obtain r where r: "r \<in> set (ec_requires c)" "cb_name r = po_capability b" by (metis imageE)
    obtain raw where raw: "map_res (resolve_requirement PK cs) (requirements cs) = Inr raw" and bs: "bs = sort_key binding_key raw"
      using assms(3) by (auto simp: resolve_capabilities_def)
    have "(c, r) \<in> set (requirements cs)" using cb r by (auto simp: requirements_def)
    then obtain x where x: "resolve_requirement PK cs (c, r) = Inr x" using raw map_res_ok_iff by metis
    then have "x \<in> set bs" using resolve_capabilities_Inr(1) [OF assms(3,2)] cb r by auto
    moreover have "binding_key x = (ec_extension_id c, po_capability b)"
      using resolve_requirement_Inr [OF x] r by (auto simp: binding_key_def)
    ultimately have "(ec_extension_id c, po_capability b) \<in> binding_key ` set bs" by (metis imageI)
    then have "map_of (fold (\<lambda>b. dict_set (binding_key b) (bi_provider b)) bs []) (ec_extension_id c, po_capability b) \<noteq> None"
      by (rule map_of_fold_dict)
    then show ?thesis by (auto simp: bind_obligation_def requirement_provider_def True)
  qed (simp add: bind_obligation_def)
  then show ?thesis
    unfolding bind_obligations_def
    by (auto intro!: only_planning_bind only_planning_map simp: obligations_of_def)
qed

lemma normalize_ids:
  assumes "normalize_taxonomy_resources cs t = Inr ns"
  shows "ns = map (\<lambda>c. c\<lparr>ec_resources := sort_key cr_name (map (normalize_claim t) (ec_resources c))\<rparr>) cs"
  using assms by (auto simp: normalize_taxonomy_resources_def Let_def)

lemma order_contracts_wf:
  assumes "distinct (map ec_extension_id cs)" and "resolve_capabilities PK cs = Inr (bs, deps)"
  shows "only_planning (order_contracts cs deps)"
  using order_contracts_cases [OF assms(1) resolve_capabilities_Inr(2,3) [OF assms(2,1)]]
  by (auto split: if_splits)

lemma only_planning_p_string [simp]: "only_planning (p_string v)"
  by (simp add: p_string_def split: json.splits)

lemma only_planning_public_version [simp]: "only_planning (public_version PK v)"
  unfolding public_version_def by (rule only_planning_bind) (auto split: option.splits)

lemma compile_only_planning:
  assumes PK: "packaging_ok PK" and wf: "\<forall>c \<in> set cs. contract_wf PK c"
  shows "only_planning (compile_contracts PK cs runtime version taxonomy)"
proof -
  have host: "only_planning (host_compatible PK rt raw c)" if "c \<in> set cs" "public_version PK v = Inr raw" for c rt raw v
    using public_version_wf [OF PK that(2)] wf that(1)
    by (auto simp: host_compatible_def contract_wf_def version_in_def only_planning_bind)
  let ?S = "sort_key ec_extension_id cs"
  have core: "\<forall>c \<in> set ns. core_wf PK c" and dist: "distinct (map ec_extension_id cs) \<Longrightarrow> distinct (map ec_extension_id ns)"
    if "(case taxonomy of None \<Rightarrow> Inr ?S | Some t \<Rightarrow> normalize_taxonomy_resources ?S t) = Inr ns" for ns
    using that wf contract_wf_core
    by (auto split: option.splits dest!: normalize_ids simp: comp_def distinct_map_sort_key)
  have res: "only_planning (resolve_resources ns)" for ns
    unfolding resolve_resources_def Let_def by (intro only_planning_bind) simp_all
  have norm: "only_planning (case taxonomy of None \<Rightarrow> Inr ?S | Some t \<Rightarrow> normalize_taxonomy_resources ?S t)"
    by (auto split: option.splits simp: normalize_taxonomy_resources_def Let_def intro!: only_planning_bind)
  have version: "only_planning (case pk_version PK raw of None \<Rightarrow> Inl UncaughtVersion | Some (text, _) \<Rightarrow> Inr text)"
    if "public_version PK (JStr version) = Inr raw" for raw
    using public_version_wf [OF PK that] by simp
  have passes: "only_planning (bind_res (resolve_capabilities PK ns) (\<lambda>(bindings, deps).
       bind_res (order_contracts ns deps) (\<lambda>ordered.
       bind_res (resolve_resources ns) (\<lambda>resources.
       bind_res (bind_obligations ns bindings) (\<lambda>obligations. Inr (plan bindings ordered resources obligations))))))"
    if "\<forall>c \<in> set ns. core_wf PK c" "distinct (map ec_extension_id ns)" for ns and plan :: "_ \<Rightarrow> _ \<Rightarrow> _ \<Rightarrow> _ \<Rightarrow> contract_plan"
    using that resolve_capabilities_wf [OF that(1)] order_contracts_wf [OF that(2)] bind_obligations_wf [OF that]
    by (auto intro!: only_planning_bind res)
  show ?thesis
    unfolding compile_contracts_def Let_def
    apply (rule only_planning_bind, simp, rule only_planning_bind, simp, rule only_planning_bind, simp)
    apply (rule only_planning_bind, erule version)
    apply (rule only_planning_bind, simp)
    apply (rule only_planning_bind, rule only_planning_map, erule (1) host)
    apply (rule only_planning_bind, rule norm)
    apply (rule only_planning_bind, rule validate_wf, erule core)
    by (rule passes) (auto dest: core dist)
qed

end
