(* ===== verification/Compiler_Theorems.thy ===== *)
theory Compiler_Theorems
  imports Compiler_Wellformed
begin

text \<open>
  The properties of the contract compiler, over the facts about its passes, with two small contracts
  as witness.
\<close>

section \<open>The passes of a successful compilation\<close>

definition normalized_contracts ::
  "extension_contract list \<Rightarrow> contract_taxonomy option \<Rightarrow> compile_error + extension_contract list" where
  "normalized_contracts cs taxonomy = (case taxonomy of None \<Rightarrow> Inr (sort_key ec_extension_id cs)
     | Some t \<Rightarrow> normalize_taxonomy_resources (sort_key ec_extension_id cs) t)"

lemma normalized_shape:
  assumes "normalized_contracts cs taxonomy = Inr ns"
  shows "\<exists>f. ns = map (\<lambda>c. c\<lparr>ec_resources := f c\<rparr>) (sort_key ec_extension_id cs)"
proof (cases taxonomy)
  case None
  then have "ns = map (\<lambda>c. c\<lparr>ec_resources := ec_resources c\<rparr>) (sort_key ec_extension_id cs)"
    using assms by (simp add: normalized_contracts_def)
  then show ?thesis by blast
next
  case (Some t)
  then show ?thesis using assms normalize_ids [of "sort_key ec_extension_id cs" t ns] by (auto simp: normalized_contracts_def)
qed

lemma normalized_ids:
  assumes "normalized_contracts cs taxonomy = Inr ns"
  shows "mset (map ec_extension_id ns) = mset (map ec_extension_id cs)"
proof -
  obtain f where f: "ns = map (\<lambda>c. c\<lparr>ec_resources := f c\<rparr>) (sort_key ec_extension_id cs)"
    using normalized_shape [OF assms] by blast
  have "map ec_extension_id ns = map ec_extension_id (sort_key ec_extension_id cs)" by (simp add: f)
  then show ?thesis by (metis mset_map mset_sort)
qed

lemma normalized_member:
  assumes "normalized_contracts cs taxonomy = Inr ns" and "c \<in> set cs"
  shows "\<exists>rs. c\<lparr>ec_resources := rs\<rparr> \<in> set ns"
proof -
  obtain f where "ns = map (\<lambda>c. c\<lparr>ec_resources := f c\<rparr>) (sort_key ec_extension_id cs)"
    using normalized_shape [OF assms(1)] by blast
  then have "c\<lparr>ec_resources := f c\<rparr> \<in> set ns" using assms(2) by simp
  then show ?thesis by blast
qed

lemma normalized_origin:
  assumes "normalized_contracts cs taxonomy = Inr ns" and "n \<in> set ns"
  shows "\<exists>c \<in> set cs. \<exists>rs. n = c\<lparr>ec_resources := rs\<rparr>"
proof -
  obtain f where "ns = map (\<lambda>c. c\<lparr>ec_resources := f c\<rparr>) (sort_key ec_extension_id cs)"
    using normalized_shape [OF assms(1)] by blast
  then obtain c where "c \<in> set cs" "n = c\<lparr>ec_resources := f c\<rparr>" using assms(2) by auto
  then show ?thesis by blast
qed

lemma compile_passes:
  assumes "compile_contracts PK cs runtime version taxonomy = Inr p"
  shows "\<exists>ns deps. distinct (map ec_extension_id cs) \<and> distinct (map ec_extension_id ns)
    \<and> normalized_contracts cs taxonomy = Inr ns
    \<and> validate_obligation_authority ns = Inr ()
    \<and> resolve_capabilities PK ns = Inr (cp_capability_bindings p, deps)
    \<and> order_contracts ns deps = Inr (cp_ordered_contracts p)
    \<and> resolve_resources ns = Inr (cp_resource_ownership p)
    \<and> bind_obligations ns (cp_capability_bindings p) = Inr (cp_obligation_bindings p)"
proof -
  obtain ns deps where n: "distinct (map ec_extension_id cs)" "normalized_contracts cs taxonomy = Inr ns"
    "validate_obligation_authority ns = Inr ()"
    "resolve_capabilities PK ns = Inr (cp_capability_bindings p, deps)"
    "order_contracts ns deps = Inr (cp_ordered_contracts p)"
    "resolve_resources ns = Inr (cp_resource_ownership p)"
    "bind_obligations ns (cp_capability_bindings p) = Inr (cp_obligation_bindings p)"
    using assms unfolding compile_contracts_def Let_def normalized_contracts_def [symmetric] bind_res_Inr_iff guard_res_Inr_iff
    by (elim exE conjE) (auto simp: bind_res_Inr_iff)
  moreover have "distinct (map ec_extension_id ns)"
    using n(1) normalized_ids [OF n(2)] by (metis mset_eq_imp_distinct_iff)
  ultimately show ?thesis by blast
qed

section \<open>Order\<close>

text \<open>
  C12. The loop over the priority queue and the in-degrees computes the reference order: again and again
  the least identifier whose dependencies are all placed, until there is none. The loop terminates on
  every input.
\<close>

theorem order_loop_is_greedy:
  assumes "deps_ok deps"
  shows "os_ordered (order_loop deps (order_start deps)) = greedy (length deps) deps []"
proof -
  have "os_ordered (order_start deps) = []" by (simp add: order_start_def Let_def)
  then show ?thesis using order_loop_result [OF assms order_start_inv [OF assms]] by simp
qed

text \<open>
  C31. The contracts of a plan are the given contracts, each once, and a contract that provides a
  capability to another one comes before it.
\<close>

theorem compile_orders_providers_first:
  assumes "compile_contracts PK cs runtime version taxonomy = Inr p"
  shows "mset (map ec_extension_id (cp_ordered_contracts p)) = mset (map ec_extension_id cs)
    \<and> (\<forall>b \<in> set (cp_capability_bindings p). bi_provider b \<noteq> bi_consumer b \<longrightarrow>
         (\<exists>xs ys zs. map ec_extension_id (cp_ordered_contracts p) = xs @ bi_provider b # ys @ bi_consumer b # zs))"
proof -
  obtain ns deps where n: "distinct (map ec_extension_id ns)" "normalized_contracts cs taxonomy = Inr ns"
    "resolve_capabilities PK ns = Inr (cp_capability_bindings p, deps)" "order_contracts ns deps = Inr (cp_ordered_contracts p)"
    using compile_passes [OF assms] by blast
  note caps = resolve_capabilities_Inr [OF n(3,1)]
  let ?P = "map ec_extension_id (cp_ordered_contracts p)"
  have o: "mset (cp_ordered_contracts p) = mset ns" "topological deps ?P"
    using order_contracts_cases [OF n(1) caps(2,3)] n(4) by (auto split: if_splits)
  have ms: "mset ?P = mset (map ec_extension_id cs)"
    using o(1) normalized_ids [OF n(2)] by (metis mset_map)
  have ids: "set ?P = ec_extension_id ` set ns"
    using mset_eq_setD [OF o(1)] by simp
  have "\<exists>xs ys zs. ?P = xs @ bi_provider b # ys @ bi_consumer b # zs"
    if b: "b \<in> set (cp_capability_bindings p)" and ne: "bi_provider b \<noteq> bi_consumer b" for b
  proof -
    obtain c r where "c \<in> set ns" "resolve_requirement PK ns (c, r) = Inr b" using b unfolding caps(1) by blast
    then have "bi_consumer b \<in> set ?P" using binding_ids ids by blast
    moreover have "(bi_provider b, bi_consumer b) \<in> dep_rel deps" using b ne unfolding caps(4) by blast
    ultimately show ?thesis using topological_before [OF o(2)] by blast
  qed
  then show ?thesis using ms by blast
qed

text \<open>
  C32. When every requirement has its provider, the ordering pass refuses the contracts, with
  DEPENDENCY\_CYCLE, exactly if the bindings contain a cycle through different contracts.
\<close>

theorem cycle_refused_iff:
  assumes "resolve_capabilities PK cs = Inr (bindings, deps)" and "distinct (map ec_extension_id cs)"
  shows "order_contracts cs deps = Inl (Planning DEPENDENCY_CYCLE) \<longleftrightarrow>
    (\<exists>x. (x, x) \<in> {(bi_provider b, bi_consumer b) | b. b \<in> set bindings \<and> bi_provider b \<noteq> bi_consumer b}\<^sup>+)"
  using order_contracts_cases [OF assms(2) resolve_capabilities_Inr(2,3) [OF assms]]
  unfolding resolve_capabilities_Inr(4) [OF assms] by (auto simp: acyclic_def split: if_splits)

section \<open>Bindings\<close>

text \<open>The provisions that a requirement accepts.\<close>

definition offers :: "packaging \<Rightarrow> extension_contract list \<Rightarrow> capability \<Rightarrow> (string \<times> capability) set" where
  "offers PK cs r = {(ec_extension_id d, cap) | d cap. d \<in> set cs \<and> cap \<in> set (ec_provides d)
     \<and> cb_name cap = cb_name r \<and> pk_contains PK (cb_version r) (cb_version cap)}"

definition bound :: "extension_contract \<Rightarrow> capability \<Rightarrow> string \<times> capability \<Rightarrow> capability_binding" where
  "bound c r x = \<lparr>bi_capability = cb_name r, bi_required_range = cb_version r, bi_consumer = ec_extension_id c,
     bi_provider = fst x, bi_provided_version = cb_version (snd x)\<rparr>"

lemma offers_providers:
  "offers PK cs r = (\<lambda>(d, cap). (ec_extension_id d, cap)) ` set (compatible_providers PK cs r)"
  by (force simp: offers_def compatible_providers_def providers_def)

lemma bound_resources [simp]: "bound (c\<lparr>ec_resources := rs\<rparr>) r x = bound c r x"
  by (simp add: bound_def)

lemma offers_normalized:
  assumes "normalized_contracts cs taxonomy = Inr ns"
  shows "offers PK ns r = offers PK cs r"
proof (intro set_eqI iffI)
  fix x assume "x \<in> offers PK ns r"
  then show "x \<in> offers PK cs r" using normalized_origin [OF assms] by (fastforce simp: offers_def)
next
  fix x assume "x \<in> offers PK cs r"
  then obtain d cap where d: "d \<in> set cs" "cap \<in> set (ec_provides d)" "x = (ec_extension_id d, cap)"
    "cb_name cap = cb_name r" "pk_contains PK (cb_version r) (cb_version cap)" by (auto simp: offers_def)
  obtain rs where "d\<lparr>ec_resources := rs\<rparr> \<in> set ns" using normalized_member [OF assms d(1)] by blast
  then show "x \<in> offers PK ns r"
    unfolding offers_def using d by (intro CollectI exI [of _ "d\<lparr>ec_resources := rs\<rparr>"] exI [of _ cap]) simp
qed

lemma resolve_requirement_offer:
  assumes "resolve_requirement PK cs (c, r) = Inr b"
  shows "\<exists>x. offers PK cs r = {x} \<and> b = bound c r x"
proof -
  obtain d cap where "compatible_providers PK cs r = [(d, cap)]" "b = bound c r (ec_extension_id d, cap)"
    using resolve_requirement_Inr [OF assms] by (auto simp: bound_def)
  then show ?thesis by (auto simp: offers_providers)
qed

lemma requirement_resolved:
  assumes "resolve_capabilities PK cs = Inr (bs, deps)" and "c \<in> set cs" and "r \<in> set (ec_requires c)"
  shows "\<exists>b. resolve_requirement PK cs (c, r) = Inr b"
proof -
  obtain raw where "map_res (resolve_requirement PK cs) (requirements cs) = Inr raw"
    using assms(1) by (auto simp: resolve_capabilities_def)
  moreover have "(c, r) \<in> set (requirements cs)" using assms(2,3) by (auto simp: requirements_def)
  ultimately show ?thesis using map_res_ok_iff by metis
qed

text \<open>
  In a plan every requirement of every contract has exactly one provision of the required name and
  version among all contracts, and the bindings are those requirements with that provision: nothing is
  missing, ambiguous or invented.
\<close>

theorem compile_binds_unique_providers:
  assumes "compile_contracts PK cs runtime version taxonomy = Inr p"
  shows "(\<forall>c \<in> set cs. \<forall>r \<in> set (ec_requires c). \<exists>x. offers PK cs r = {x})
    \<and> set (cp_capability_bindings p) = {bound c r x | c r x. c \<in> set cs \<and> r \<in> set (ec_requires c) \<and> x \<in> offers PK cs r}"
proof -
  obtain ns deps where n: "distinct (map ec_extension_id ns)" "normalized_contracts cs taxonomy = Inr ns"
    "resolve_capabilities PK ns = Inr (cp_capability_bindings p, deps)"
    using compile_passes [OF assms] by blast
  note off = offers_normalized [OF n(2), of PK]
  have one: "\<exists>x rs. offers PK cs r = {x} \<and> resolve_requirement PK ns (c\<lparr>ec_resources := rs\<rparr>, r) = Inr (bound c r x) \<and> c\<lparr>ec_resources := rs\<rparr> \<in> set ns"
    if cr: "c \<in> set cs" "r \<in> set (ec_requires c)" for c r
  proof -
    obtain rs where rs: "c\<lparr>ec_resources := rs\<rparr> \<in> set ns" using normalized_member [OF n(2) cr(1)] by blast
    then obtain b where b: "resolve_requirement PK ns (c\<lparr>ec_resources := rs\<rparr>, r) = Inr b"
      using requirement_resolved [OF n(3)] cr(2) by fastforce
    then show ?thesis using resolve_requirement_offer [OF b] off rs by auto
  qed
  have "set (cp_capability_bindings p) = {bound c r x | c r x. c \<in> set cs \<and> r \<in> set (ec_requires c) \<and> x \<in> offers PK cs r}"
  proof (intro set_eqI iffI)
    fix b assume "b \<in> set (cp_capability_bindings p)"
    then obtain m r where m: "m \<in> set ns" "r \<in> set (ec_requires m)" "resolve_requirement PK ns (m, r) = Inr b"
      unfolding resolve_capabilities_Inr(1) [OF n(3,1)] by blast
    obtain c rs where c: "c \<in> set cs" "m = c\<lparr>ec_resources := rs\<rparr>" using normalized_origin [OF n(2) m(1)] by blast
    obtain x where x: "offers PK cs r = {x}" "b = bound c r x" using resolve_requirement_offer [OF m(3)] off c(2) by auto
    have "r \<in> set (ec_requires c)" "x \<in> offers PK cs r" using m(2) c(2) x(1) by simp_all
    then show "b \<in> {bound c r x | c r x. c \<in> set cs \<and> r \<in> set (ec_requires c) \<and> x \<in> offers PK cs r}"
      using c(1) x(2) by blast
  next
    fix b assume "b \<in> {bound c r x | c r x. c \<in> set cs \<and> r \<in> set (ec_requires c) \<and> x \<in> offers PK cs r}"
    then obtain c r x where c: "c \<in> set cs" "r \<in> set (ec_requires c)" "x \<in> offers PK cs r" "b = bound c r x" by blast
    then show "b \<in> set (cp_capability_bindings p)"
      unfolding resolve_capabilities_Inr(1) [OF n(3,1)] using one [OF c(1,2)] by fastforce
  qed
  then show ?thesis using one by blast
qed

section \<open>Resources and obligations\<close>








section \<open>Parsed contracts\<close>

text \<open>
  C34. What the parser returns is well-formed, for a packaging library that parses its own output: names
  are identifiers, versions and ranges parse, names of provisions, requirements and resources are sorted
  and without duplicates, a resource has a mediator exactly if it is mediated, an obligation names a
  declared capability and has a positive quorum exactly if its completion is a quorum, and loading and
  invocation are granted to the runtime only.
\<close>

theorem parsed_contracts_wellformed:
  assumes "packaging_ok PK" and "parse_contract PK H payload = Inr c"
  shows "contract_wf PK c"
  by (rule parse_contract_wf [OF assms])

text \<open>
  C35. Compiling contracts that came from the parser gives a plan or a planning error with its code; no
  exception of the packaging library, no missing key and no missing attribute escapes.
\<close>

theorem compile_raises_planning_errors_only:
  assumes "packaging_ok PK" and "\<forall>c \<in> set cs. \<exists>payload. parse_contract PK H payload = Inr c"
  shows "(\<exists>p. compile_contracts PK cs runtime version taxonomy = Inr p)
    \<or> (\<exists>code. compile_contracts PK cs runtime version taxonomy = Inl (Planning code))"
proof -
  have "\<forall>c \<in> set cs. contract_wf PK c" using assms parse_contract_wf by blast
  then have "only_planning (compile_contracts PK cs runtime version taxonomy)"
    by (rule compile_only_planning [OF assms(1)])
  then show ?thesis by (cases "compile_contracts PK cs runtime version taxonomy") (auto simp: only_planning_def)
qed



section \<open>Two contracts\<close>

text \<open>A packaging library that accepts every text; a range admits exactly the version of the same text.\<close>

definition demo_pk :: packaging where
  "demo_pk = \<lparr>pk_version = (\<lambda>x. Some (x, None)), pk_specifier = (\<lambda>x. Some (x, [x])), pk_contains = (=)\<rparr>"

lemma demo_pk_ok: "packaging_ok demo_pk"
  by (simp add: packaging_ok_def demo_pk_def)

definition demo_capability_json :: "string \<Rightarrow> json" where
  "demo_capability_json name = JObj [(''name'', JStr name), (''version'', JStr ''1'')]"

definition demo_obligation_json :: "string \<Rightarrow> string \<Rightarrow> json" where
  "demo_obligation_json direction name = JObj [(''role'', JStr ''w''), (''event'', JStr ''loaded''),
     (''completion'', JStr ''all''), (''authority'', JStr ''runtime''),
     (''capability_direction'', JStr direction), (''capability'', JStr name)]"

definition demo_grant_json :: "string \<Rightarrow> string \<Rightarrow> json" where
  "demo_grant_json direction name = JObj [(''role'', JStr ''w''), (''event'', JStr ''loaded''),
     (''capability_direction'', JStr direction), (''capability'', JStr name)]"

definition demo_contract_json :: "string \<Rightarrow> string list \<Rightarrow> string list \<Rightarrow> string \<Rightarrow> string \<Rightarrow> json" where
  "demo_contract_json x provides requires direction name = JObj [(''schema'', JStr ''ecpa-manifest/0.1-draft''),
     (''id'', JStr x), (''version'', JStr ''1''),
     (''host'', JObj [(''runtime'', JStr ''vllm''), (''version'', JStr ''2'')]),
     (''capabilities'', JObj [(''provides'', JArr (map demo_capability_json provides)),
        (''requires'', JArr (map demo_capability_json requires))]),
     (''resources'', JArr [JObj [(''name'', JStr ''r.s''), (''mode'', JStr ''shared-read'')]]),
     (''process_obligations'', JArr [demo_obligation_json direction name]),
     (''rollback'', JObj [(''manager_owned'', JArr []), (''external_operator_owned'', JArr [])]),
     (''authority'', JObj [(''provider'', JArr []), (''runtime'', JArr [demo_grant_json direction name]),
        (''external'', JArr [])])]"

definition demo_app_json :: json where
  "demo_app_json = demo_contract_json ''a.x'' [] [''c.d''] ''requires'' ''c.d''"

definition demo_lib_json :: json where
  "demo_lib_json = demo_contract_json ''z.y'' [''c.d''] [] ''provides'' ''c.d''"

definition demo_contract :: "string \<Rightarrow> capability list \<Rightarrow> capability list \<Rightarrow> string \<Rightarrow> extension_contract" where
  "demo_contract x provides requires direction = \<lparr>ec_extension_id = x, ec_version = ''1'', ec_manifest_sha256 = ''h'',
     ec_host_runtime = ''vllm'', ec_host_version_range = ''2'', ec_provides = provides, ec_requires = requires,
     ec_resources = [\<lparr>cr_name = ''r.s'', cr_mode = ''shared-read'', cr_mediator = None\<rparr>],
     ec_process_obligations = [\<lparr>po_role = ''w'', po_event = ''loaded'', po_completion = ''all'', po_authority = ''runtime'',
        po_direction = direction, po_capability = ''c.d'', po_quorum = None\<rparr>],
     ec_rollback = \<lparr>rb_manager_owned = [], rb_external_operator_owned = []\<rparr>,
     ec_authority = \<lparr>ac_provider = [], ac_runtime = [\<lparr>ag_role = ''w'', ag_event = ''loaded'', ag_direction = direction,
        ag_capability = ''c.d''\<rparr>], ac_external = []\<rparr>\<rparr>"

definition demo_app :: extension_contract where
  "demo_app = demo_contract ''a.x'' [] [\<lparr>cb_name = ''c.d'', cb_version = ''1''\<rparr>] ''requires''"

definition demo_lib :: extension_contract where
  "demo_lib = demo_contract ''z.y'' [\<lparr>cb_name = ''c.d'', cb_version = ''1''\<rparr>] [] ''provides''"

definition demo_compiled :: "compile_error + contract_plan" where
  "demo_compiled = compile_contracts demo_pk [demo_app, demo_lib] ''vllm'' ''2'' None"

lemma demo_parsed:
  "parse_contract demo_pk (\<lambda>_. ''h'') demo_app_json = Inr demo_app"
  "parse_contract demo_pk (\<lambda>_. ''h'') demo_lib_json = Inr demo_lib"
  by code_simp+

lemma demo_plan:
  "map_sum id (\<lambda>p. (map ec_extension_id (cp_ordered_contracts p), cp_capability_bindings p)) demo_compiled
   = Inr ([''z.y'', ''a.x''], [\<lparr>bi_capability = ''c.d'', bi_required_range = ''1'', bi_consumer = ''a.x'',
       bi_provider = ''z.y'', bi_provided_version = ''1''\<rparr>])"
  by code_simp


lemma demo_compiles: "\<exists>p. demo_compiled = Inr p \<and> map ec_extension_id (cp_ordered_contracts p) = [''z.y'', ''a.x'']
    \<and> cp_capability_bindings p = [\<lparr>bi_capability = ''c.d'', bi_required_range = ''1'', bi_consumer = ''a.x'',
       bi_provider = ''z.y'', bi_provided_version = ''1''\<rparr>]"
proof (cases demo_compiled)
  case (Inr p)
  have "map ec_extension_id (cp_ordered_contracts p) = [''z.y'', ''a.x'']" "cp_capability_bindings p
      = [\<lparr>bi_capability = ''c.d'', bi_required_range = ''1'', bi_consumer = ''a.x'', bi_provider = ''z.y'', bi_provided_version = ''1''\<rparr>]"
    using demo_plan unfolding Inr map_sum.simps by auto
  then show ?thesis using Inr by (intro exI [of _ p] conjI)
next
  case (Inl e)
  show ?thesis using demo_plan unfolding Inl map_sum.simps by (rule notE [rotated]) simp
qed

text \<open>Two contracts that need each other.\<close>

definition demo_cycle :: "extension_contract list" where
  "demo_cycle = [demo_app\<lparr>ec_provides := [\<lparr>cb_name = ''e.f'', cb_version = ''1''\<rparr>]\<rparr>,
     demo_lib\<lparr>ec_requires := [\<lparr>cb_name = ''e.f'', cb_version = ''1''\<rparr>]\<rparr>]"

definition demo_cycle_bindings :: "capability_binding list" where
  "demo_cycle_bindings = [\<lparr>bi_capability = ''c.d'', bi_required_range = ''1'', bi_consumer = ''a.x'',
       bi_provider = ''z.y'', bi_provided_version = ''1''\<rparr>,
     \<lparr>bi_capability = ''e.f'', bi_required_range = ''1'', bi_consumer = ''z.y'',
       bi_provider = ''a.x'', bi_provided_version = ''1''\<rparr>]"

lemma demo_cycle_resolved:
  "resolve_capabilities demo_pk demo_cycle = Inr (demo_cycle_bindings, [(''a.x'', [''z.y'']), (''z.y'', [''a.x''])])"
  by code_simp

section \<open>Witnesses\<close>

theorem order_loop_is_greedy_witness:
  "os_ordered (order_loop [(''a.x'', [''z.y'']), (''z.y'', [])] (order_start [(''a.x'', [''z.y'']), (''z.y'', [])]))
   = [''z.y'', ''a.x'']"
  using order_loop_is_greedy [of "[(''a.x'', [''z.y'']), (''z.y'', [])]"] by (simp add: deps_ok_def)

theorem compile_orders_providers_first_witness:
  "\<exists>p. demo_compiled = Inr p \<and> mset (map ec_extension_id (cp_ordered_contracts p)) = mset [''a.x'', ''z.y'']
    \<and> (\<exists>xs ys zs. map ec_extension_id (cp_ordered_contracts p) = xs @ ''z.y'' # ys @ ''a.x'' # zs)"
proof -
  obtain p where p: "demo_compiled = Inr p" "cp_capability_bindings p = [\<lparr>bi_capability = ''c.d'', bi_required_range = ''1'',
      bi_consumer = ''a.x'', bi_provider = ''z.y'', bi_provided_version = ''1''\<rparr>]"
    using demo_compiles by blast
  have ids: "map ec_extension_id [demo_app, demo_lib] = [''a.x'', ''z.y'']"
    by (simp add: demo_app_def demo_lib_def demo_contract_def)
  show ?thesis
    using compile_orders_providers_first [OF p(1) [unfolded demo_compiled_def]] p(1) unfolding p(2) ids
    by (intro exI [of _ p]) simp
qed

theorem cycle_refused_iff_witness:
  "order_contracts demo_cycle [(''a.x'', [''z.y'']), (''z.y'', [''a.x''])] = Inl (Planning DEPENDENCY_CYCLE)"
proof -
  let ?R = "{(bi_provider b, bi_consumer b) | b. b \<in> set demo_cycle_bindings \<and> bi_provider b \<noteq> bi_consumer b}"
  have "(bi_provider b, bi_consumer b) \<in> ?R" if "b \<in> set demo_cycle_bindings" for b
    using that by (auto simp: demo_cycle_bindings_def)
  from this [of "demo_cycle_bindings ! 0"] this [of "demo_cycle_bindings ! 1"]
  have "(''z.y'', ''a.x'') \<in> ?R" "(''a.x'', ''z.y'') \<in> ?R" by (simp_all add: demo_cycle_bindings_def)
  then have "(''a.x'', ''a.x'') \<in> ?R\<^sup>+" by (meson r_into_trancl' trancl_into_trancl)
  moreover have "distinct (map ec_extension_id demo_cycle)"
    by (simp add: demo_cycle_def demo_app_def demo_lib_def demo_contract_def)
  ultimately show ?thesis using cycle_refused_iff [OF demo_cycle_resolved] by blast
qed

theorem compile_binds_unique_providers_witness:
  "\<exists>x. offers demo_pk [demo_app, demo_lib] \<lparr>cb_name = ''c.d'', cb_version = ''1''\<rparr> = {x}"
proof -
  obtain p where p: "compile_contracts demo_pk [demo_app, demo_lib] ''vllm'' ''2'' None = Inr p"
    using demo_compiles unfolding demo_compiled_def by blast
  have "\<lparr>cb_name = ''c.d'', cb_version = ''1''\<rparr> \<in> set (ec_requires demo_app)"
    by (simp add: demo_app_def demo_contract_def)
  then show ?thesis using compile_binds_unique_providers [OF p] by simp
qed



theorem parsed_contracts_wellformed_witness: "contract_wf demo_pk demo_app"
  by (rule parsed_contracts_wellformed [OF demo_pk_ok demo_parsed(1)])

theorem compile_raises_planning_errors_only_witness:
  "(\<exists>p. compile_contracts demo_pk [demo_app, demo_app] ''vllm'' ''2'' None = Inr p)
   \<or> (\<exists>code. compile_contracts demo_pk [demo_app, demo_app] ''vllm'' ''2'' None = Inl (Planning code))"
  by (rule compile_raises_planning_errors_only [OF demo_pk_ok, where H = "\<lambda>_. ''h''"]) (auto intro: demo_parsed)


end
