(* ===== verification/Quarantine_Records.thy ===== *)
theory Quarantine_Records
  imports File_Views
begin

text \<open>
  The records of one transaction: the text each of them has, that reading it gives the value back, and that
  every check of a record accepts what the code itself writes. The parameters of a transaction are collected
  in a record; \<open>tx_ok\<close> states what holds of a transaction that \<open>_journal_fault\<close> prepares.
\<close>

section \<open>Transactions\<close>

record transaction =
  tx_env :: file_env
  tx_args :: settle_args
  tx_id :: string
  tx_binding :: json
  tx_name :: string
  tx_node :: file_node

definition line :: "json \<Rightarrow> string" where
  "line v = canonical_bytes v @ [NEWLINE]"

definition tx_hash :: "transaction \<Rightarrow> string \<Rightarrow> string" where
  "tx_hash X = fe_hash (tx_env X)"

definition tx_snapshot :: "transaction \<Rightarrow> quarantined_journal" where
  "tx_snapshot X = node_snapshot (tx_name X) (tx_node X)"

definition tx_intent :: "transaction \<Rightarrow> json" where
  "tx_intent X = intent_value (tx_hash X) (tx_id X) (tx_binding X) (sa_source_identity (tx_args X))
     (sa_quarantine_identity (tx_args X)) (tx_snapshot X)"

definition intent_key :: "transaction \<Rightarrow> string" where
  "intent_key X = q_digest (tx_hash X) (line (tx_intent X))"

definition tx_fence :: "transaction \<Rightarrow> json" where
  "tx_fence X = fence_value (tx_hash X) (tx_id X) (intent_key X) (tx_snapshot X)"

definition tx_applied :: "transaction \<Rightarrow> json" where
  "tx_applied X = applied_value (tx_hash X) (tx_id X) (intent_key X) (tx_snapshot X)"

definition applied_key :: "transaction \<Rightarrow> string" where
  "applied_key X = q_digest (tx_hash X) (line (tx_applied X))"

definition tx_restored :: "transaction \<Rightarrow> bool \<Rightarrow> string \<Rightarrow> json" where
  "tx_restored X applied reason = terminal_value RESTORED_SCHEMA (tx_id X) (intent_key X)
     (if applied then Some (applied_key X) else None) None reason"

definition tx_finalized :: "transaction \<Rightarrow> string \<Rightarrow> json \<Rightarrow> json" where
  "tx_finalized X receipt process = finalized_value (tx_id X) (intent_key X) (applied_key X) receipt process"

definition fits :: "json \<Rightarrow> bool" where
  "fits v \<longleftrightarrow> int (length (line v)) \<le> MAX_TRANSACTION_RECORD_BYTES"

definition source_of :: "transaction \<Rightarrow> string" where
  "source_of X = sa_source (tx_args X)"

definition quarantine_of :: "transaction \<Rightarrow> string" where
  "quarantine_of X = sa_quarantine (tx_args X)"

text \<open>Two directories on one device; a binding and its identifier; a journal of complete lines that
  does not exceed the limit (\<open>_journal_name\<close> gives it a name that starts with a digit or a letter); records that fit; process identifiers and random tokens as the operating system and
  \<open>secrets.token_hex(16)\<close> give them.\<close>

definition tx_ok :: "transaction \<Rightarrow> bool" where
  "tx_ok X \<longleftrightarrow> source_of X \<noteq> quarantine_of X \<and> one_device (tx_args X)
     \<and> sa_source_identity (tx_args X) \<noteq> sa_quarantine_identity (tx_args X)
     \<and> sa_max (tx_args X) > 0 \<and> journal_name_ok (tx_name X) \<and> \<not> starts_with ''.'' (tx_name X)
     \<and> journal_node (sa_max (tx_args X)) (tx_node X)
     \<and> fn_device (tx_node X) > 0 \<and> fn_inode (tx_node X) > 0
     \<and> id_ok (tx_id X) \<and> quarantine_transaction_id (tx_hash X) (tx_binding X) = tx_id X
     \<and> keys_ok (tx_binding X)
     \<and> fits (tx_intent X) \<and> fits (tx_fence X) \<and> fits (tx_applied X)
     \<and> list_all (\<lambda>r. fits (tx_restored X True r) \<and> fits (tx_restored X False r)) RESTORE_REASONS
     \<and> fe_pid (tx_env X) > 0 \<and> (\<forall>n. hex_of_length 32 (fe_token (tx_env X) n))"

section \<open>Records read back\<close>

lemma record_ok_line: "keys_ok (JObj kvs) \<Longrightarrow> fits (JObj kvs) \<Longrightarrow> record_ok (line (JObj kvs)) (canon (JObj kvs))"
proof -
  assume k: "keys_ok (JObj kvs)" and f: "fits (JObj kvs)"
  have "loads (line (JObj kvs)) = Inr (canon (JObj kvs))"
    using loads_line [OF k] by (simp add: canonical_bytes_def line_def NEWLINE_def)
  moreover obtain es where "canon (JObj kvs) = JObj es" by simp
  moreover have "canonical_bytes (canon (JObj kvs)) = canonical_bytes (JObj kvs)" unfolding canonical_bytes_def dumps_canon ..
  ultimately show ?thesis using f by (simp add: record_ok_def record_value_def line_def fits_def)
qed

lemma q_values_keys [simp]:
  "keys_ok (directory_value i)" "keys_ok (fence_value H tid g q)" "keys_ok (applied_value H tid g q)"
  "keys_ok (terminal_value s tid g ad fd r)" "keys_ok b \<Longrightarrow> keys_ok (intent_value H tid b i k q)"
  "keys_ok p \<Longrightarrow> keys_ok (finalized_value tid g h r p)"
  by (auto simp: directory_value_def fence_value_def applied_value_def terminal_value_def intent_value_def
      finalized_value_def opt_digest_def split: option.splits)

lemma tx_records:
  assumes "tx_ok X"
  shows "record_ok (line (tx_intent X)) (canon (tx_intent X))" "record_ok (line (tx_fence X)) (canon (tx_fence X))"
    "record_ok (line (tx_applied X)) (canon (tx_applied X))"
    "r \<in> set RESTORE_REASONS \<Longrightarrow> record_ok (line (tx_restored X ap r)) (canon (tx_restored X ap r))"
    "keys_ok p \<Longrightarrow> fits (tx_finalized X c p) \<Longrightarrow> record_ok (line (tx_finalized X c p)) (canon (tx_finalized X c p))"
proof -
  have r: "record_ok (line v) (canon v)" if "keys_ok v" "fits v" "\<exists>kvs. v = JObj kvs" for v
    using that record_ok_line by blast
  show "record_ok (line (tx_intent X)) (canon (tx_intent X))" "record_ok (line (tx_fence X)) (canon (tx_fence X))"
    "record_ok (line (tx_applied X)) (canon (tx_applied X))"
    using assms by (auto intro!: r simp: tx_ok_def tx_intent_def tx_fence_def tx_applied_def, auto simp: intent_value_def fence_value_def applied_value_def)
  show "record_ok (line (tx_restored X ap r)) (canon (tx_restored X ap r))" if "r \<in> set RESTORE_REASONS"
  proof (rule r)
    show "fits (tx_restored X ap r)" using assms that by (cases ap) (auto simp: tx_ok_def list_all_iff)
  qed (simp_all add: tx_restored_def, simp add: terminal_value_def)
  show "record_ok (line (tx_finalized X c p)) (canon (tx_finalized X c p))" if "keys_ok p" "fits (tx_finalized X c p)"
    using that by (auto intro!: r simp: tx_finalized_def, auto simp: finalized_value_def)
qed

section \<open>The checks accept what is written\<close>

definition tx_record :: "transaction \<Rightarrow> string \<Rightarrow> json \<Rightarrow> durable_record" where
  "tx_record X stage v = the_record (tx_env X) (record_file (tx_id X) stage) (line v) (canon v)"

lemma tx_record_simps [simp]: "du_digest (tx_record X ''intent'' (tx_intent X)) = intent_key X"
  "du_digest (tx_record X ''applied'' (tx_applied X)) = applied_key X"
  "du_value (tx_record X stage v) = canon v" "du_name (tx_record X stage v) = record_file (tx_id X) stage"
  by (simp_all add: tx_record_def intent_key_def applied_key_def tx_hash_def)

lemma transaction_id_canon: "quarantine_transaction_id H (canon b) = quarantine_transaction_id H b"
  by (simp add: quarantine_transaction_id_def canonical_bytes_def)

lemma directory_canon [simp]: "canon (directory_value i) = directory_value i"
  by (simp add: directory_value_def)

lemma snapshot_of_intent:
  assumes "tx_ok X"
  shows "intent_snapshot (tx_hash X) (tx_record X ''intent'' (tx_intent X)) (tx_id X) = Some (tx_snapshot X)"
proof -
  have d: "is_directory_value (directory_value i)" for i by (auto simp: is_directory_value_def directory_value_def)
  have j: "set INTENT_FIELDS = jkeys (tx_intent X)" by (auto simp: INTENT_FIELDS_def tx_intent_def intent_value_def)
  show ?thesis
    using assms unfolding intent_snapshot_def Let_def tx_record_simps jkeys_canon jfield_canon j
    by (simp add: tx_intent_def intent_value_def tx_ok_def d b64decode_b64encode transaction_id_canon tx_snapshot_def node_snapshot_def tx_hash_def)
qed

lemma intent_directories:
  "py_eq (jfield (canon (tx_intent X)) ''source_directory'') (directory_value (sa_source_identity (tx_args X)))"
  "py_eq (jfield (canon (tx_intent X)) ''quarantine_directory'') (directory_value (sa_quarantine_identity (tx_args X)))"
  by (simp_all add: tx_intent_def intent_value_def)

lemma applied_accepted:
  "applied_valid (tx_hash X) (tx_record X ''applied'' (tx_applied X)) (tx_id X) (tx_record X ''intent'' (tx_intent X)) (tx_snapshot X)"
proof -
  have j: "set APPLIED_FIELDS = jkeys (tx_applied X)" by (auto simp: APPLIED_FIELDS_def tx_applied_def applied_value_def)
  show ?thesis unfolding applied_valid_def Let_def tx_record_simps jkeys_canon jfield_canon j
    by (simp add: tx_applied_def applied_value_def)
qed

lemma fence_accepted:
  "jkeys (canon (tx_fence X)) = set FENCE_FIELDS"
  "py_eq (canon (tx_fence X)) (fence_value (tx_hash X) (tx_id X) (intent_key X) (tx_snapshot X))"
  by (auto simp: tx_fence_def fence_value_def FENCE_FIELDS_def simp del: canon.simps py_eq_canon) (simp add: py_eq_def)

lemma restored_accepted:
  assumes "r \<in> set RESTORE_REASONS"
  shows "terminal_valid (tx_record X ''restored'' (tx_restored X ap r)) (tx_id X) RESTORED_SCHEMA ''restored'' (intent_key X)
     (if ap then Some (applied_key X) else None) None"
proof -
  have j: "set TERMINAL_FIELDS = jkeys (tx_restored X ap r)" by (auto simp: TERMINAL_FIELDS_def tx_restored_def terminal_value_def)
  show ?thesis using assms unfolding terminal_valid_def Let_def tx_record_simps jkeys_canon jfield_canon j
    by (auto simp: tx_restored_def terminal_value_def opt_digest_def RESTORED_SCHEMA_def BLOCKED_SCHEMA_def)
qed

lemma process_canon: "valid_process_identity (canon p) = valid_process_identity p"
proof -
  have a: "positive_int (canon v) = positive_int v" for v by (cases v) (simp_all add: positive_int_def)
  have "(case canon x of JStr s \<Rightarrow> s \<noteq> [] | _ \<Rightarrow> False) = (case x of JStr s \<Rightarrow> s \<noteq> [] | _ \<Rightarrow> False)" for x
    by (cases x) simp_all
  then have b: "(case canon v of JArr xs \<Rightarrow> xs \<noteq> [] \<and> list_all (\<lambda>x. case x of JStr s \<Rightarrow> s \<noteq> [] | _ \<Rightarrow> False) xs | _ \<Rightarrow> False)
      = (case v of JArr xs \<Rightarrow> xs \<noteq> [] \<and> list_all (\<lambda>x. case x of JStr s \<Rightarrow> s \<noteq> [] | _ \<Rightarrow> False) xs | _ \<Rightarrow> False)" for v
    by (cases v) (simp_all add: list.pred_map comp_def)
  show ?thesis unfolding valid_process_identity_def jfield_canon jkeys_canon a b ..
qed

lemma finalized_accepted:
  assumes "is_digest (JStr c)" and "valid_process_identity p"
  shows "finalized_valid (tx_record X ''finalized'' (tx_finalized X c p)) (tx_id X) (intent_key X) (applied_key X)"
proof -
  have j: "set FINALIZED_FIELDS = jkeys (tx_finalized X c p)" by (auto simp: FINALIZED_FIELDS_def tx_finalized_def finalized_value_def)
  show ?thesis using assms unfolding finalized_valid_def Let_def tx_record_simps jkeys_canon jfield_canon j
    by (auto simp: tx_finalized_def finalized_value_def process_canon)
qed

end
