(* ===== verification/Quarantine_Recovery.thy ===== *)
theory Quarantine_Recovery
  imports Quarantine_Records
begin

text \<open>
  One transaction as an abstract machine of phases, and the invariant that ties the files of the two
  directories to the phases the machine can be in. Every operation of the transaction keeps the invariant when
  the process may die at any system call; without a crash, reconciliation ends in a settled phase.
\<close>

section \<open>The phases of a transaction\<close>

record phase =
  ph_intent :: bool
  ph_fence :: bool
  ph_away :: bool
  ph_applied :: bool
  ph_finalized :: bool
  ph_restored :: bool

definition phase_start :: phase where
  "phase_start = \<lparr>ph_intent = False, ph_fence = False, ph_away = False, ph_applied = False, ph_finalized = False, ph_restored = False\<rparr>"

definition phase_open :: "phase \<Rightarrow> bool" where
  "phase_open p \<longleftrightarrow> ph_intent p \<and> \<not> ph_finalized p \<and> \<not> ph_restored p"

text \<open>What one change of the files does; \<open>Away\<close>: the journal is withheld.\<close>

inductive phase_step :: "phase \<Rightarrow> phase \<Rightarrow> bool" where
  Intend: "\<not> ph_intent p \<Longrightarrow> phase_step p (p\<lparr>ph_intent := True\<rparr>)"
| Fence: "phase_open p \<Longrightarrow> \<not> ph_fence p \<Longrightarrow> phase_step p (p\<lparr>ph_fence := True\<rparr>)"
| Withhold: "phase_open p \<Longrightarrow> ph_fence p \<Longrightarrow> \<not> ph_away p \<Longrightarrow> phase_step p (p\<lparr>ph_away := True\<rparr>)"
| Apply: "phase_open p \<Longrightarrow> ph_away p \<Longrightarrow> \<not> ph_applied p \<Longrightarrow> phase_step p (p\<lparr>ph_applied := True\<rparr>)"
| Accept: "phase_open p \<Longrightarrow> ph_away p \<Longrightarrow> ph_applied p \<Longrightarrow> phase_step p (p\<lparr>ph_finalized := True\<rparr>)"
| Return: "phase_open p \<Longrightarrow> ph_away p \<Longrightarrow> phase_step p (p\<lparr>ph_away := False\<rparr>)"
| Unfence: "phase_open p \<Longrightarrow> \<not> ph_away p \<Longrightarrow> ph_fence p \<Longrightarrow> phase_step p (p\<lparr>ph_fence := False\<rparr>)"
| Restore: "phase_open p \<Longrightarrow> \<not> ph_away p \<Longrightarrow> \<not> ph_fence p \<Longrightarrow> phase_step p (p\<lparr>ph_restored := True\<rparr>)"

inductive_cases phase_stepE: "phase_step p p'"

definition phase_ok :: "phase \<Rightarrow> bool" where
  "phase_ok p \<longleftrightarrow> (ph_fence p \<longrightarrow> ph_intent p) \<and> (ph_away p \<longrightarrow> ph_fence p) \<and> (ph_applied p \<longrightarrow> ph_intent p)
     \<and> (ph_finalized p \<longrightarrow> ph_away p \<and> ph_applied p) \<and> (ph_restored p \<longrightarrow> ph_intent p \<and> \<not> ph_fence p)"

interpretation phases: step_invariant "\<lambda>p. p = phase_start" phase_step phase_ok
  by unfold_locales (auto simp: phase_ok_def phase_start_def phase_open_def elim!: phase_stepE)

section \<open>The files of a transaction\<close>

definition tx_file :: "transaction \<Rightarrow> string \<Rightarrow> string" where
  "tx_file X stage = record_file (tx_id X) stage"

definition tx_fence_file :: "transaction \<Rightarrow> string" where
  "tx_fence_file X = fence_name (tx_hash X) (tx_name X)"

definition phase_of :: "transaction \<Rightarrow> view \<Rightarrow> phase" where
  "phase_of X v = \<lparr>ph_intent = (v (quarantine_of X) (tx_file X ''intent'') \<noteq> None),
     ph_fence = (v (source_of X) (tx_fence_file X) \<noteq> None),
     ph_away = (v (source_of X) (tx_name X) = None),
     ph_applied = (v (quarantine_of X) (tx_file X ''applied'') \<noteq> None),
     ph_finalized = (v (quarantine_of X) (tx_file X ''finalized'') \<noteq> None),
     ph_restored = (v (quarantine_of X) (tx_file X ''restored'') \<noteq> None)\<rparr>"

definition slot :: "view \<Rightarrow> string \<Rightarrow> string \<Rightarrow> (string \<Rightarrow> bool) \<Rightarrow> bool" where
  "slot v d x P \<longleftrightarrow> v d x = None \<or> (\<exists>raw. P raw \<and> holds v d x raw)"

definition finalized_text :: "transaction \<Rightarrow> string \<Rightarrow> bool" where
  "finalized_text X raw \<longleftrightarrow> (\<exists>c p. raw = line (tx_finalized X c p) \<and> is_digest (JStr c) \<and> valid_process_identity p
     \<and> keys_ok p \<and> fits (tx_finalized X c p))"

definition restored_text :: "transaction \<Rightarrow> bool \<Rightarrow> string \<Rightarrow> bool" where
  "restored_text X ap raw \<longleftrightarrow> (\<exists>r \<in> set RESTORE_REASONS. raw = line (tx_restored X ap r))"

definition files_ok :: "transaction \<Rightarrow> view \<Rightarrow> bool" where
  "files_ok X v \<longleftrightarrow> (let S = source_of X; Q = quarantine_of X; j = tx_name X in
     (v S j = Some (tx_node X) \<and> v Q j = None \<or> v S j = None \<and> v Q j = Some (tx_node X))
     \<and> slot v Q (tx_file X ''intent'') (\<lambda>raw. raw = line (tx_intent X))
     \<and> slot v Q (tx_file X ''applied'') (\<lambda>raw. raw = line (tx_applied X))
     \<and> slot v Q (tx_file X ''finalized'') (finalized_text X)
     \<and> slot v Q (tx_file X ''restored'') (restored_text X (v Q (tx_file X ''applied'') \<noteq> None))
     \<and> v Q (tx_file X ''blocked'') = None
     \<and> slot v S (tx_fence_file X) (\<lambda>raw. raw = line (tx_fence X)))"

text \<open>Other names: records of this transaction only, temporary files of the known pattern, a proper lock file.\<close>

definition names_ok :: "transaction \<Rightarrow> view \<Rightarrow> bool" where
  "names_ok X v \<longleftrightarrow> free_lock v (source_of X)
     \<and> (\<forall>x n. v (quarantine_of X) x = Some n \<longrightarrow> record_like x \<longrightarrow> x \<in> tx_file X ` set STAGES)
     \<and> (\<forall>x n. v (quarantine_of X) x = Some n \<longrightarrow> starts_with TRANSACTION_TEMP x \<longrightarrow> transaction_temp_ok x \<and> safe_node n)
     \<and> (\<forall>x n. v (source_of X) x = Some n \<longrightarrow> starts_with FENCE_TEMP x \<longrightarrow> fence_temp_ok x \<and> safe_node n)"

definition tx_inv :: "transaction \<Rightarrow> phase \<Rightarrow> view \<Rightarrow> bool" where
  "tx_inv X p v \<longleftrightarrow> files_ok X v \<and> names_ok X v \<and> phase_step\<^sup>*\<^sup>* p (phase_of X v)"

definition core_same :: "transaction \<Rightarrow> view \<Rightarrow> view \<Rightarrow> bool" where
  "core_same X v w \<longleftrightarrow> (\<forall>st \<in> set STAGES. w (quarantine_of X) (tx_file X st) = v (quarantine_of X) (tx_file X st))
     \<and> w (source_of X) (tx_fence_file X) = v (source_of X) (tx_fence_file X)
     \<and> w (source_of X) (tx_name X) = v (source_of X) (tx_name X)
     \<and> w (quarantine_of X) (tx_name X) = v (quarantine_of X) (tx_name X)"

lemma core_same_files: "core_same X v w \<Longrightarrow> files_ok X w = files_ok X v \<and> phase_of X w = phase_of X v"
  by (simp add: core_same_def files_ok_def phase_of_def slot_def holds_def STAGES_def)

lemma inv_core: "tx_inv X p v \<Longrightarrow> core_same X v w \<Longrightarrow> names_ok X w \<Longrightarrow> tx_inv X p w"
  using core_same_files [of X v w] by (simp add: tx_inv_def)

lemma inv_phase: "tx_inv X p v \<Longrightarrow> phase_ok p \<Longrightarrow> phase_ok (phase_of X v)"
  using phases.inv_steps unfolding tx_inv_def by blast

section \<open>Names\<close>

lemma tx_file_simps [simp]: "record_like (tx_file X st)" "tx_file X st = tx_file X st' \<longleftrightarrow> st = st'"
  by (simp_all add: tx_file_def record_like_file, simp add: record_file_def)

lemma tx_fence_hidden [simp]: "hidden (tx_fence_file X)"
  by (simp add: tx_fence_file_def hidden_fence)

lemma tx_name_apart:
  assumes "tx_ok X"
  shows "tx_name X \<noteq> tx_file X st" "tx_file X st \<noteq> tx_name X" "tx_name X \<noteq> tx_fence_file X" "tx_fence_file X \<noteq> tx_name X"
    "\<not> hidden (tx_name X)" "\<not> record_like (tx_name X)"
proof -
  have j: "ends_with ''.jsonl'' (tx_name X)" using assms by (simp add: tx_ok_def journal_name_ok_def)
  then show h: "\<not> hidden (tx_name X)" "\<not> record_like (tx_name X)"
    using hidden_not_jsonl record_not_jsonl by blast+
  have "record_like (tx_file X st)" "hidden (tx_fence_file X)" by simp_all
  with h show "tx_name X \<noteq> tx_file X st" "tx_file X st \<noteq> tx_name X" "tx_name X \<noteq> tx_fence_file X" "tx_fence_file X \<noteq> tx_name X"
    by metis+
qed

lemma fence_not_lock [simp]: "tx_fence_file X \<noteq> QUARANTINE_LOCK" "QUARANTINE_LOCK \<noteq> tx_fence_file X"
  by (simp_all add: tx_fence_file_def fence_name_def QUARANTINE_LOCK_def)

lemma temp_apart:
  "starts_with TRANSACTION_TEMP x \<Longrightarrow> x \<noteq> QUARANTINE_LOCK" "starts_with FENCE_TEMP x \<Longrightarrow> x \<noteq> QUARANTINE_LOCK"
  "starts_with FENCE_TEMP x \<Longrightarrow> x \<noteq> tx_fence_file X" "\<not> starts_with FENCE_TEMP QUARANTINE_LOCK" "\<not> starts_with FENCE_TEMP (tx_fence_file X)"
  by (auto simp: starts_with_iff TRANSACTION_TEMP_def FENCE_TEMP_def QUARANTINE_LOCK_def tx_fence_file_def fence_name_def)

lemma record_not_temp: "record_like x \<Longrightarrow> \<not> starts_with TRANSACTION_TEMP x"
  by (auto simp: record_like_def starts_with_iff TRANSACTION_TEMP_def)

lemma temp_ok_start: "transaction_temp_ok x \<Longrightarrow> starts_with TRANSACTION_TEMP x" "fence_temp_ok x \<Longrightarrow> starts_with FENCE_TEMP x"
  by (simp_all add: transaction_temp_ok_def fence_temp_ok_def)

section \<open>Changes that keep the invariant\<close>

lemma tx_name_not_dot: "tx_ok X \<Longrightarrow> starts_with p (tx_name X) \<Longrightarrow> starts_with ''.'' p \<Longrightarrow> False"
  by (auto simp: tx_ok_def starts_with_iff)

lemma temp_dots: "starts_with ''.'' TRANSACTION_TEMP" "starts_with ''.'' FENCE_TEMP"
  by (simp_all add: TRANSACTION_TEMP_def FENCE_TEMP_def starts_with_def)

lemma tx_roots: "tx_ok X \<Longrightarrow> source_of X \<noteq> quarantine_of X" "tx_ok X \<Longrightarrow> quarantine_of X \<noteq> source_of X"
  by (auto simp: tx_ok_def)

lemma hidden_not_file: "hidden x \<Longrightarrow> x \<noteq> tx_file X st"
  using hidden_not_record tx_file_simps(1) by metis

lemma lock_not_temp [simp]: "\<not> starts_with FENCE_TEMP QUARANTINE_LOCK"
  by (simp add: temp_apart)

lemma names_set:
  assumes X: "tx_ok X" and v: "names_ok X v"
  shows "transaction_temp_ok x \<Longrightarrow> safe_node n \<Longrightarrow> names_ok X (set_file (quarantine_of X) x (Some n) v)"
    "fence_temp_ok x \<Longrightarrow> safe_node n \<Longrightarrow> names_ok X (set_file (source_of X) x (Some n) v)"
    "st \<in> set STAGES \<Longrightarrow> names_ok X (set_file (quarantine_of X) (tx_file X st) (Some n) v)"
    "names_ok X (set_file (source_of X) (tx_fence_file X) (Some n) v)"
    "names_ok X (set_file d x None v)"
    "names_ok X (set_file (source_of X) (tx_name X) (Some n) v)"
    "names_ok X (set_file (quarantine_of X) (tx_name X) (Some n) v)"
    "safe_node n \<Longrightarrow> names_ok X (set_file (source_of X) QUARANTINE_LOCK (Some n) v)"
proof -
  note r = tx_roots [OF X]
  note dot = tx_name_not_dot [OF X _ temp_dots(1)] tx_name_not_dot [OF X _ temp_dots(2)]
  have lock: "tx_name X \<noteq> QUARANTINE_LOCK" using tx_name_apart(5) [OF X] hidden_lock by auto
  note defs = names_ok_def free_lock_def
  show "transaction_temp_ok x \<Longrightarrow> safe_node n \<Longrightarrow> names_ok X (set_file (quarantine_of X) x (Some n) v)"
    using v r hidden_not_record [OF temp_ok_hidden(1)] by (auto simp: defs)
  show "fence_temp_ok x \<Longrightarrow> safe_node n \<Longrightarrow> names_ok X (set_file (source_of X) x (Some n) v)"
    using v r temp_apart(2) [OF temp_ok_start(2)] by (auto simp: defs)
  show "st \<in> set STAGES \<Longrightarrow> names_ok X (set_file (quarantine_of X) (tx_file X st) (Some n) v)"
    using v r record_not_temp [of "tx_file X st"] by (auto simp: defs)
  show "names_ok X (set_file (source_of X) (tx_fence_file X) (Some n) v)"
    using v r temp_apart(5) [of X] by (auto simp: defs)
  show "names_ok X (set_file d x None v)" using v by (auto simp: defs)
  show "names_ok X (set_file (source_of X) (tx_name X) (Some n) v)" using v r lock dot(2) by (auto simp: defs)
  show "names_ok X (set_file (quarantine_of X) (tx_name X) (Some n) v)"
    using v r dot(1) tx_name_apart(6) [OF X] by (auto simp: defs)
  show "safe_node n \<Longrightarrow> names_ok X (set_file (source_of X) QUARANTINE_LOCK (Some n) v)"
    using v r by (auto simp: defs)
qed

lemma core_hidden:
  assumes "tx_ok X" and "hidden x" and "d = source_of X \<Longrightarrow> x \<noteq> tx_fence_file X"
  shows "core_same X v (set_file d x n v)"
  using assms tx_name_apart(5) [OF assms(1)] hidden_not_file [OF assms(2), of X] by (auto simp: core_same_def)

lemma inv_temp:
  assumes X: "tx_ok X" and v: "tx_inv X p v"
  shows "transaction_temp_ok x \<Longrightarrow> safe_node n \<Longrightarrow> tx_inv X p (set_file (quarantine_of X) x (Some n) v)"
    "transaction_temp_ok x \<Longrightarrow> tx_inv X p (set_file (quarantine_of X) x None v)"
    "fence_temp_ok x \<Longrightarrow> safe_node n \<Longrightarrow> tx_inv X p (set_file (source_of X) x (Some n) v)"
    "fence_temp_ok x \<Longrightarrow> tx_inv X p (set_file (source_of X) x None v)"
    "with_lock (source_of X) v w \<Longrightarrow> tx_inv X p w"
proof -
  have n: "names_ok X v" using v by (simp add: tx_inv_def)
  note c = core_hidden [OF X]
  show "transaction_temp_ok x \<Longrightarrow> safe_node n \<Longrightarrow> tx_inv X p (set_file (quarantine_of X) x (Some n) v)"
    "transaction_temp_ok x \<Longrightarrow> tx_inv X p (set_file (quarantine_of X) x None v)"
    using tx_roots [OF X] temp_ok_hidden(1) [of x] by (auto intro!: inv_core [OF v] c names_set [OF X n])
  show "fence_temp_ok x \<Longrightarrow> safe_node n \<Longrightarrow> tx_inv X p (set_file (source_of X) x (Some n) v)"
    "fence_temp_ok x \<Longrightarrow> tx_inv X p (set_file (source_of X) x None v)"
    using temp_ok_hidden(2) [of x] temp_apart(3) [OF temp_ok_start(2), of x X] by (auto intro!: inv_core [OF v] c names_set [OF X n])
  show "with_lock (source_of X) v w \<Longrightarrow> tx_inv X p w"
    using hidden_lock by (auto simp: with_lock_def intro!: inv_core [OF v] c names_set [OF X n])
qed

text \<open>One change of a file of the transaction is one step of the machine.\<close>

lemma inv_step:
  assumes "tx_inv X p v" and "names_ok X w" and "files_ok X w" and "phase_step (phase_of X v) (phase_of X w)"
  shows "tx_inv X p w"
  using assms by (auto simp: tx_inv_def)

lemma phase_of_put:
  assumes X: "tx_ok X"
  shows "phase_of X (set_file (quarantine_of X) (tx_file X ''intent'') (Some n) v) = (phase_of X v)\<lparr>ph_intent := True\<rparr>"
    "phase_of X (set_file (quarantine_of X) (tx_file X ''applied'') (Some n) v) = (phase_of X v)\<lparr>ph_applied := True\<rparr>"
    "phase_of X (set_file (quarantine_of X) (tx_file X ''finalized'') (Some n) v) = (phase_of X v)\<lparr>ph_finalized := True\<rparr>"
    "phase_of X (set_file (quarantine_of X) (tx_file X ''restored'') (Some n) v) = (phase_of X v)\<lparr>ph_restored := True\<rparr>"
    "phase_of X (set_file (source_of X) (tx_fence_file X) m v) = (phase_of X v)\<lparr>ph_fence := (m \<noteq> None)\<rparr>"
    "phase_of X (moved (source_of X) (quarantine_of X) (tx_name X) n v) = (phase_of X v)\<lparr>ph_away := True\<rparr>"
    "phase_of X (moved (quarantine_of X) (source_of X) (tx_name X) n v) = (phase_of X v)\<lparr>ph_away := False\<rparr>"
  using tx_roots [OF X] tx_name_apart [OF X] by (auto simp: phase_of_def moved_def)

definition good_node :: "json \<Rightarrow> file_node \<Rightarrow> bool" where
  "good_node u n \<longleftrightarrow> safe_node n \<and> fn_raw n = line u"

lemma phase_simps [simp]:
  "ph_intent (phase_of X v) = (v (quarantine_of X) (tx_file X ''intent'') \<noteq> None)"
  "ph_fence (phase_of X v) = (v (source_of X) (tx_fence_file X) \<noteq> None)"
  "ph_away (phase_of X v) = (v (source_of X) (tx_name X) = None)"
  "ph_applied (phase_of X v) = (v (quarantine_of X) (tx_file X ''applied'') \<noteq> None)"
  "ph_finalized (phase_of X v) = (v (quarantine_of X) (tx_file X ''finalized'') \<noteq> None)"
  "ph_restored (phase_of X v) = (v (quarantine_of X) (tx_file X ''restored'') \<noteq> None)"
  by (simp_all add: phase_of_def)

lemma inv_put_record:
  assumes X: "tx_ok X" and p: "phase_ok p" and v: "tx_inv X p v"
  shows "good_node (tx_intent X) n \<Longrightarrow> \<not> ph_intent (phase_of X v) \<Longrightarrow>
      tx_inv X p (set_file (quarantine_of X) (tx_file X ''intent'') (Some n) v)"
    "good_node (tx_applied X) n \<Longrightarrow> phase_open (phase_of X v) \<Longrightarrow> ph_away (phase_of X v) \<Longrightarrow> \<not> ph_applied (phase_of X v) \<Longrightarrow>
      tx_inv X p (set_file (quarantine_of X) (tx_file X ''applied'') (Some n) v)"
    "safe_node n \<Longrightarrow> finalized_text X (fn_raw n) \<Longrightarrow> phase_open (phase_of X v) \<Longrightarrow> ph_away (phase_of X v) \<Longrightarrow> ph_applied (phase_of X v) \<Longrightarrow>
      tx_inv X p (set_file (quarantine_of X) (tx_file X ''finalized'') (Some n) v)"
    "safe_node n \<Longrightarrow> restored_text X (ph_applied (phase_of X v)) (fn_raw n) \<Longrightarrow> phase_open (phase_of X v) \<Longrightarrow>
      \<not> ph_away (phase_of X v) \<Longrightarrow> \<not> ph_fence (phase_of X v) \<Longrightarrow>
      tx_inv X p (set_file (quarantine_of X) (tx_file X ''restored'') (Some n) v)"
proof -
  have nf: "names_ok X v" "files_ok X v" using v by (simp_all add: tx_inv_def)
  have st: "''intent'' \<in> set STAGES" "''applied'' \<in> set STAGES" "''finalized'' \<in> set STAGES" "''restored'' \<in> set STAGES"
    by (simp_all add: STAGES_def)
  note n = names_set(3) [OF X nf(1)] and r = tx_roots [OF X] and a = tx_name_apart [OF X]
  note defs = files_ok_def Let_def slot_def holds_def good_node_def phase_open_def
  show "tx_inv X p (set_file (quarantine_of X) (tx_file X ''intent'') (Some n) v)"
    if "good_node (tx_intent X) n" "\<not> ph_intent (phase_of X v)"
    by (rule inv_step [OF v n [OF st(1)]]) (use nf that r a in \<open>simp_all add: defs phase_of_put [OF X] Intend\<close>)
  show "tx_inv X p (set_file (quarantine_of X) (tx_file X ''applied'') (Some n) v)"
    if "good_node (tx_applied X) n" "phase_open (phase_of X v)" "ph_away (phase_of X v)" "\<not> ph_applied (phase_of X v)"
    by (rule inv_step [OF v n [OF st(2)]]) (use nf that r a in \<open>simp_all add: defs phase_of_put [OF X] Apply\<close>)
  show "tx_inv X p (set_file (quarantine_of X) (tx_file X ''finalized'') (Some n) v)"
    if "safe_node n" "finalized_text X (fn_raw n)" "phase_open (phase_of X v)" "ph_away (phase_of X v)" "ph_applied (phase_of X v)"
    by (rule inv_step [OF v n [OF st(3)]]) (use nf that r a in \<open>simp_all add: defs phase_of_put [OF X] Accept\<close>)
  show "tx_inv X p (set_file (quarantine_of X) (tx_file X ''restored'') (Some n) v)"
    if "safe_node n" "restored_text X (ph_applied (phase_of X v)) (fn_raw n)" "phase_open (phase_of X v)"
      "\<not> ph_away (phase_of X v)" "\<not> ph_fence (phase_of X v)"
    by (rule inv_step [OF v n [OF st(4)]]) (use nf that r a in \<open>simp_all add: defs phase_of_put [OF X] Restore\<close>)
qed

lemma files_place:
  "files_ok X v \<Longrightarrow> v (source_of X) (tx_name X) = None \<Longrightarrow> v (quarantine_of X) (tx_name X) = Some (tx_node X)"
  "files_ok X v \<Longrightarrow> v (source_of X) (tx_name X) \<noteq> None \<Longrightarrow> v (source_of X) (tx_name X) = Some (tx_node X) \<and> v (quarantine_of X) (tx_name X) = None"
  by (auto simp: files_ok_def Let_def)

lemma inv_move:
  assumes X: "tx_ok X" and v: "tx_inv X p v"
  shows "good_node (tx_fence X) n \<Longrightarrow> phase_open (phase_of X v) \<Longrightarrow> \<not> ph_fence (phase_of X v) \<Longrightarrow>
      tx_inv X p (set_file (source_of X) (tx_fence_file X) (Some n) v)"
    "phase_open (phase_of X v) \<Longrightarrow> \<not> ph_away (phase_of X v) \<Longrightarrow> ph_fence (phase_of X v) \<Longrightarrow>
      tx_inv X p (set_file (source_of X) (tx_fence_file X) None v)"
    "phase_open (phase_of X v) \<Longrightarrow> ph_fence (phase_of X v) \<Longrightarrow> \<not> ph_away (phase_of X v) \<Longrightarrow>
      tx_inv X p (moved (source_of X) (quarantine_of X) (tx_name X) (tx_node X) v)"
    "phase_open (phase_of X v) \<Longrightarrow> ph_away (phase_of X v) \<Longrightarrow>
      tx_inv X p (moved (quarantine_of X) (source_of X) (tx_name X) (tx_node X) v)"
proof -
  have nf: "names_ok X v" "files_ok X v" using v by (simp_all add: tx_inv_def)
  note n = names_set [OF X nf(1)] and r = tx_roots [OF X] and a = tx_name_apart [OF X]
  note defs = files_ok_def Let_def slot_def holds_def good_node_def phase_open_def
  show "tx_inv X p (set_file (source_of X) (tx_fence_file X) (Some n) v)"
    if "good_node (tx_fence X) n" "phase_open (phase_of X v)" "\<not> ph_fence (phase_of X v)" for n
    by (rule inv_step [OF v n(4)]) (use nf that r a in \<open>simp_all add: defs phase_of_put [OF X] phase_step.Fence [unfolded phase_open_def]\<close>)
  show "tx_inv X p (set_file (source_of X) (tx_fence_file X) None v)"
    if "phase_open (phase_of X v)" "\<not> ph_away (phase_of X v)" "ph_fence (phase_of X v)"
    by (rule inv_step [OF v n(5)]) (use nf that r a in \<open>simp_all add: defs phase_of_put [OF X] Unfence [unfolded phase_open_def]\<close>)
  show "tx_inv X p (moved (source_of X) (quarantine_of X) (tx_name X) (tx_node X) v)"
    if "phase_open (phase_of X v)" "ph_fence (phase_of X v)" "\<not> ph_away (phase_of X v)"
  proof (rule inv_step [OF v])
    show "names_ok X (moved (source_of X) (quarantine_of X) (tx_name X) (tx_node X) v)"
      unfolding moved_def by (rule names_set(7) [OF X n(5)])
    show "files_ok X (moved (source_of X) (quarantine_of X) (tx_name X) (tx_node X) v)"
      using nf(2) r a unfolding moved_def by (simp add: defs)
  qed (use that in \<open>simp add: phase_of_put [OF X] Withhold del: phase_simps\<close>)
  show "tx_inv X p (moved (quarantine_of X) (source_of X) (tx_name X) (tx_node X) v)"
    if "phase_open (phase_of X v)" "ph_away (phase_of X v)"
  proof (rule inv_step [OF v])
    show "names_ok X (moved (quarantine_of X) (source_of X) (tx_name X) (tx_node X) v)"
      unfolding moved_def by (rule names_set(6) [OF X n(5)])
    show "files_ok X (moved (quarantine_of X) (source_of X) (tx_name X) (tx_node X) v)"
      using nf(2) r a unfolding moved_def by (simp add: defs)
  qed (use that in \<open>simp add: phase_of_put [OF X] Return del: phase_simps\<close>)
qed

section \<open>The records\<close>

lemma tx_root [simp]:
  "is_root (tx_args X) (source_of X) (sa_source_identity (tx_args X))"
  "is_root (tx_args X) (quarantine_of X) (sa_quarantine_identity (tx_args X))"
  "root_of (tx_args X) (source_of X)" "root_of (tx_args X) (quarantine_of X)"
  by (simp_all add: source_of_def quarantine_of_def)

lemma positive_decimal_show: "i > 0 \<Longrightarrow> positive_decimal (show_int i)"
  using show_nat_digits [of "nat i"] show_nat_lead [of "nat i"]
  by (simp add: positive_decimal_def show_int_def list_all_iff)

lemma decimal_no_dot: "positive_decimal x \<Longrightarrow> CHR ''.'' \<notin> set x"
  by (auto simp: positive_decimal_def list_all_iff is_digit_def)

lemma stage_no_dot: "st \<in> set STAGES \<Longrightarrow> CHR ''.'' \<notin> set st"
  by (auto simp: STAGES_def)

lemma tx_temp_names:
  assumes "tx_ok X" and "st \<in> set STAGES"
  shows "transaction_temp_ok (''.ecpa-transaction-'' @ tx_id X @ ''.'' @ st @ ''.'' @ (show_int (fe_pid (tx_env X)) @ ''.'' @ fe_token (tx_env X) n) @ ''.tmp'')"
    "fence_temp_ok (''.ecpa-fence-temp-'' @ tx_id X @ ''.'' @ (show_int (fe_pid (tx_env X)) @ ''.'' @ fe_token (tx_env X) n) @ ''.tmp'')"
proof -
  have tid: "hex_of_length 64 (tx_id X)" using assms(1) by (simp add: tx_ok_def id_ok_def hex_of_length_def)
  have pid: "positive_decimal (show_int (fe_pid (tx_env X)))" using assms(1) positive_decimal_show by (simp add: tx_ok_def)
  have tok: "hex_of_length 32 (fe_token (tx_env X) n)" using assms(1) by (simp add: tx_ok_def)
  have dots: "CHR ''.'' \<notin> set (tx_id X)" "CHR ''.'' \<notin> set (fe_token (tx_env X) n)" "CHR ''.'' \<notin> set (show_int (fe_pid (tx_env X)))"
    "CHR ''.'' \<notin> set st"
    using tid tok pid assms(2) hex_no_dot decimal_no_dot stage_no_dot by (auto simp: hex_of_length_def)
  show "transaction_temp_ok (''.ecpa-transaction-'' @ tx_id X @ ''.'' @ st @ ''.'' @ (show_int (fe_pid (tx_env X)) @ ''.'' @ fe_token (tx_env X) n) @ ''.tmp'')"
    using dots tid pid tok assms(2) by (simp add: transaction_temp_ok_def starts_with_def TRANSACTION_TEMP_def split_dots_first)
  show "fence_temp_ok (''.ecpa-fence-temp-'' @ tx_id X @ ''.'' @ (show_int (fe_pid (tx_env X)) @ ''.'' @ fe_token (tx_env X) n) @ ''.tmp'')"
    using dots tid pid tok by (simp add: fence_temp_ok_def starts_with_def FENCE_TEMP_def split_dots_first)
qed

definition no_temps :: "transaction \<Rightarrow> view \<Rightarrow> bool" where
  "no_temps X v \<longleftrightarrow> (\<forall>x. starts_with TRANSACTION_TEMP x \<longrightarrow> v (quarantine_of X) x = None)"

lemma ends_token: "(\<And>n. Q (show_int (fe_pid E) @ ''.'' @ fe_token E n) v) \<Longrightarrow> ends crash a (next_token E) Q R v"
  unfolding next_token_def by (intro ends_bind ends_gets ends_then ends_modify) (auto intro: ends_return)

lemma ends_record_name:
  "id_ok tid \<Longrightarrow> st \<in> set STAGES \<Longrightarrow> Q (record_file tid st) v \<Longrightarrow> ends crash a (record_name tid st) Q R v"
  unfolding record_name_def by (intro ends_then ends_guard) (auto intro: ends_return)

lemma ends_write_record:
  assumes X: "tx_ok X" and st: "st \<in> set STAGES"
    and u: "fits u \<Longrightarrow> record_ok (line u) (canon u)" and slot: "slot v (quarantine_of X) (tx_file X st) (\<lambda>raw. raw = line u)"
    and Q: "\<And>n. good_node u n \<Longrightarrow> v (quarantine_of X) (tx_file X st) = None \<or> v (quarantine_of X) (tx_file X st) = Some n \<Longrightarrow>
        Q (tx_record X st u) (set_file (quarantine_of X) (tx_file X st) (Some n) v)"
    and R: "\<And>e. crash \<or> \<not> fits u \<or> \<not> no_temps X v \<Longrightarrow> R e v"
      "\<And>e x n. crash \<Longrightarrow> transaction_temp_ok x \<Longrightarrow> safe_node n \<Longrightarrow> R e (set_file (quarantine_of X) x (Some n) v)"
      "\<And>n. crash \<Longrightarrow> v (quarantine_of X) (tx_file X st) = None \<Longrightarrow> good_node u n \<Longrightarrow>
        R Crash (set_file (quarantine_of X) (tx_file X st) (Some n) v)"
  shows "ends crash (tx_args X) (write_record (tx_env X) (quarantine_of X) (sa_quarantine_identity (tx_args X)) (tx_id X) st u) Q R v"
proof -
  have id: "id_ok (tx_id X)" "one_device (tx_args X)" using X by (simp_all add: tx_ok_def)
  have pub: "ends crash (tx_args X) (publish (tx_env X) (quarantine_of X)
      (''.ecpa-transaction-'' @ tx_id X @ ''.'' @ st @ ''.'' @ (show_int (fe_pid (tx_env X)) @ ''.'' @ fe_token (tx_env X) k) @ ''.tmp'')
      (record_file (tx_id X) st) (canonical_bytes u @ [NEWLINE])) Q R v"
    (is "ends _ _ (publish _ _ ?t _ _) _ _ _") if f: "fits u" for k
  proof (rule ends_publish [where u = "canon u"])
    note t = tx_temp_names(1) [OF X st, of k]
    show "?t \<noteq> record_file (tx_id X) st"
      using hidden_not_file [OF temp_ok_hidden(1) [OF t], of X st] by (simp add: tx_file_def)
    show "v (quarantine_of X) (record_file (tx_id X) st) = None \<or>
        holds v (quarantine_of X) (record_file (tx_id X) st) (canonical_bytes u @ [NEWLINE])"
      using slot by (auto simp: slot_def tx_file_def line_def)
    show "record_ok (canonical_bytes u @ [NEWLINE]) (canon u)" using u [OF f] by (simp add: line_def)
    show "R e v" if "crash \<or> v (quarantine_of X) ?t \<noteq> None" for e
      using that R(1) temp_ok_start(1) [OF t] by (auto simp: no_temps_def)
  qed (use id Q R(2) [OF _ tx_temp_names(1) [OF X st, of k]] R(3) in \<open>auto simp: good_node_def line_def tx_file_def tx_record_def\<close>)
  show ?thesis unfolding write_record_def Let_def
    by (intro ends_bind ends_record_name [OF id(1) st] ends_then ends_guard ends_open_root ends_token pub)
       (use R(1) in \<open>auto simp: fits_def line_def\<close>)
qed

lemma ends_read_slot:
  assumes st: "st \<in> set STAGES" and X: "tx_ok X" and slot: "slot v (quarantine_of X) (tx_file X st) P"
    and rec: "\<And>raw. P raw \<Longrightarrow> \<exists>u. raw = line u \<and> record_ok raw (canon u)"
    and none: "v (quarantine_of X) (tx_file X st) = None \<Longrightarrow> Q None v"
    and some: "\<And>u. P (line u) \<Longrightarrow> record_ok (line u) (canon u) \<Longrightarrow> v (quarantine_of X) (tx_file X st) \<noteq> None \<Longrightarrow> Q (Some (tx_record X st u)) v"
    and R: "crash \<Longrightarrow> R Crash v"
  shows "ends crash a (read_record (tx_env X) (quarantine_of X) (record_file (tx_id X) st) False) Q R v"
proof (cases "v (quarantine_of X) (tx_file X st)")
  case None
  then show ?thesis using none R by (intro ends_read_record_None) (auto simp: tx_file_def)
next
  case (Some n)
  then obtain raw where raw: "P raw" "holds v (quarantine_of X) (tx_file X st) raw" using slot by (auto simp: slot_def)
  then obtain u where u: "raw = line u" "record_ok raw (canon u)" using rec by blast
  show ?thesis
    by (rule ends_read_record [where raw = raw and u = "canon u"])
       (use raw u some [of u] Some R in \<open>auto simp: tx_file_def tx_record_def\<close>)
qed

section \<open>The fence\<close>

lemma tx_fence_value: "fence_value (fe_hash (tx_env X)) (tx_id X) (intent_key X) (tx_snapshot X) = tx_fence X"
  by (simp add: tx_fence_def tx_hash_def)

lemma tx_fence_name: "fence_name (fe_hash (tx_env X)) (qj_journal (tx_snapshot X)) = tx_fence_file X"
  by (simp add: tx_fence_file_def tx_hash_def tx_snapshot_def)

lemma ends_install_fence:
  assumes X: "tx_ok X" and slot: "slot v (source_of X) (tx_fence_file X) (\<lambda>raw. raw = line (tx_fence X))"
    and Q: "\<And>n r. good_node (tx_fence X) n \<Longrightarrow> v (source_of X) (tx_fence_file X) = None \<or> v (source_of X) (tx_fence_file X) = Some n \<Longrightarrow>
        Q r (set_file (source_of X) (tx_fence_file X) (Some n) v)"
    and R: "\<And>e. R e v" "\<And>e x n. fence_temp_ok x \<Longrightarrow> safe_node n \<Longrightarrow> R e (set_file (source_of X) x (Some n) v)"
      "\<And>n. v (source_of X) (tx_fence_file X) = None \<Longrightarrow> good_node (tx_fence X) n \<Longrightarrow>
        R Crash (set_file (source_of X) (tx_fence_file X) (Some n) v)"
  shows "ends crash (tx_args X) (install_quarantine_source_fence (tx_env X) (source_of X) (sa_source_identity (tx_args X))
      (tx_id X) (intent_key X) (tx_snapshot X)) Q R v"
proof -
  have st: "''intent'' \<in> set STAGES" by (simp add: STAGES_def)
  have pub: "ends crash (tx_args X) (os_as TransactionErr (publish (tx_env X) (source_of X)
      (''.ecpa-fence-temp-'' @ tx_id X @ ''.'' @ (show_int (fe_pid (tx_env X)) @ ''.'' @ fe_token (tx_env X) k) @ ''.tmp'')
      (tx_fence_file X) (line (tx_fence X)))) Q R v" (is "ends _ _ (os_as _ (publish _ _ ?t _ _)) _ _ _") for k
  proof (rule ends_os_as, rule ends_publish [where u = "canon (tx_fence X)"])
    note t = tx_temp_names(2) [OF X st, of k]
    show "?t \<noteq> tx_fence_file X" by (rule temp_apart(3) [OF temp_ok_start(2) [OF t]])
    show "v (source_of X) (tx_fence_file X) = None \<or> holds v (source_of X) (tx_fence_file X) (line (tx_fence X))"
      using slot by (auto simp: slot_def)
    show "record_ok (line (tx_fence X)) (canon (tx_fence X))" by (rule tx_records(2) [OF X])
    show "R (case e of OsErr _ \<Rightarrow> TransactionErr | _ \<Rightarrow> e) (set_file (source_of X) ?t (Some n) v)" if "safe_node n" for e n
      by (rule R(2) [OF t that])
  qed (use X Q R in \<open>auto simp: good_node_def tx_ok_def\<close>)
  show ?thesis unfolding install_quarantine_source_fence_def tx_fence_value tx_fence_name line_def [symmetric]
    by (intro ends_bind ends_open_root ends_token pub) (use R(1) in auto)
qed

lemma ends_read_fence:
  assumes X: "tx_ok X" and f: "holds v (source_of X) (tx_fence_file X) (line (tx_fence X))"
    and Q: "Q (Some (the_record (tx_env X) (tx_fence_file X) (line (tx_fence X)) (canon (tx_fence X)))) v" and R: "crash \<Longrightarrow> R Crash v"
  shows "ends crash a (read_source_fence (tx_env X) (source_of X) (tx_id X) (intent_key X) (tx_snapshot X) required) Q R v"
  unfolding read_source_fence_def tx_fence_value tx_fence_name
  by (rule ends_bind, rule ends_read_record [OF f tx_records(2) [OF X]], intro ends_then ends_guard ends_return)
     (use Q R fence_accepted [of X] in \<open>auto simp: tx_fence_def [symmetric] tx_hash_def\<close>)

lemma ends_read_no_fence:
  assumes "v (source_of X) (tx_fence_file X) = None" and "Q None v" and "crash \<Longrightarrow> R Crash v"
  shows "ends crash a (read_source_fence (tx_env X) (source_of X) (tx_id X) (intent_key X) (tx_snapshot X) False) Q R v"
  unfolding read_source_fence_def tx_fence_value tx_fence_name
  by (rule ends_bind, rule ends_read_record_None, rule assms(1), intro ends_then ends_guard ends_return) (use assms in auto)

lemma ends_remove_fence:
  assumes X: "tx_ok X" and slot: "slot v (source_of X) (tx_fence_file X) (\<lambda>raw. raw = line (tx_fence X))"
    and Q: "Q () (set_file (source_of X) (tx_fence_file X) None v)"
    and R: "crash \<Longrightarrow> R Crash v" "crash \<Longrightarrow> R Crash (set_file (source_of X) (tx_fence_file X) None v)"
  shows "ends crash (tx_args X) (remove_source_fence (tx_env X) (source_of X) (tx_id X) (intent_key X) (tx_snapshot X)) Q R v"
proof (cases "v (source_of X) (tx_fence_file X)")
  case None
  then have "set_file (source_of X) (tx_fence_file X) None v = v" by simp
  then show ?thesis unfolding remove_source_fence_def
    by (intro ends_bind ends_read_no_fence [of v X, OF None]) (use Q R in \<open>auto intro!: ends_return\<close>)
next
  case (Some n)
  then have h: "holds v (source_of X) (tx_fence_file X) (line (tx_fence X))" using slot by (auto simp: slot_def)
  show ?thesis unfolding remove_source_fence_def
    by (rule ends_bind, rule ends_read_fence [OF X h], simp, intro ends_os_as ends_then ends_unlink ends_fsync)
       (use Q R Some in auto)
qed

section \<open>Prepare, commit and compensate\<close>

lemma slots:
  assumes "files_ok X v"
  shows "slot v (quarantine_of X) (tx_file X ''intent'') (\<lambda>raw. raw = line (tx_intent X))"
    "slot v (quarantine_of X) (tx_file X ''applied'') (\<lambda>raw. raw = line (tx_applied X))"
    "slot v (quarantine_of X) (tx_file X ''finalized'') (finalized_text X)"
    "slot v (quarantine_of X) (tx_file X ''restored'') (restored_text X (v (quarantine_of X) (tx_file X ''applied'') \<noteq> None))"
    "slot v (source_of X) (tx_fence_file X) (\<lambda>raw. raw = line (tx_fence X))"
    "v (quarantine_of X) (tx_file X ''blocked'') = None"
  using assms by (simp_all add: files_ok_def Let_def)

lemma in_stages [simp]: "''intent'' \<in> set STAGES" "''applied'' \<in> set STAGES" "''finalized'' \<in> set STAGES"
  "''restored'' \<in> set STAGES" "''blocked'' \<in> set STAGES"
  by (simp_all add: STAGES_def)

lemma ends_prepare:
  assumes X: "tx_ok X" and p: "phase_ok p" and v: "tx_inv X p v"
  shows "ends True (tx_args X) (prepare_quarantine_transaction (tx_env X) (quarantine_of X) (sa_quarantine_identity (tx_args X))
      (tx_id X) (tx_binding X) (sa_source_identity (tx_args X)) (tx_snapshot X))
    (\<lambda>r w. tx_inv X p w \<and> ph_intent (phase_of X w) \<and> du_digest r = intent_key X) (\<lambda>_. tx_inv X p) v"
proof -
  have f: "files_ok X v" using v by (simp add: tx_inv_def)
  have put: "tx_inv X p (set_file (quarantine_of X) (tx_file X ''intent'') (Some n) v)"
    if "good_node (tx_intent X) n" "v (quarantine_of X) (tx_file X ''intent'') = None \<or> v (quarantine_of X) (tx_file X ''intent'') = Some n" for n
    using that inv_put_record(1) [OF X p v that(1)] v by (cases "v (quarantine_of X) (tx_file X ''intent'') = None") auto
  have "ends True (tx_args X) (write_record (tx_env X) (quarantine_of X) (sa_quarantine_identity (tx_args X)) (tx_id X) ''intent'' (tx_intent X))
    (\<lambda>r w. tx_inv X p w \<and> ph_intent (phase_of X w) \<and> du_digest r = intent_key X) (\<lambda>_. tx_inv X p) v"
    by (rule ends_write_record [OF X in_stages(1) tx_records(1) [OF X] slots(1) [OF f]])
       (use v put inv_temp(1) [OF X v] in \<open>auto simp del: phase_simps simp: phase_of_put [OF X]\<close>)
  then show ?thesis unfolding prepare_quarantine_transaction_def tx_intent_def tx_hash_def .
qed

lemma ends_mark_applied:
  assumes X: "tx_ok X" and p: "phase_ok p" and v: "tx_inv X p v"
    and ph: "phase_open (phase_of X v)" "ph_away (phase_of X v)" "\<not> ph_applied (phase_of X v)"
  shows "ends True (tx_args X) (mark_quarantine_applied (tx_env X) (quarantine_of X) (sa_quarantine_identity (tx_args X))
      (tx_id X) (intent_key X) (tx_snapshot X))
    (\<lambda>r w. tx_inv X p w \<and> phase_of X w = (phase_of X v)\<lparr>ph_applied := True\<rparr> \<and> du_digest r = applied_key X)
    (\<lambda>e w. tx_inv X p w \<and> (e \<noteq> Crash \<longrightarrow> phase_of X w = phase_of X v)) v"
proof -
  have f: "files_ok X v" using v by (simp add: tx_inv_def)
  note put = inv_put_record(2) [OF X p v _ ph]
  have t: "tx_inv X p (set_file (quarantine_of X) x (Some n) v) \<and> phase_of X (set_file (quarantine_of X) x (Some n) v) = phase_of X v"
    if "transaction_temp_ok x" "safe_node n" for x n
    using inv_temp(1) [OF X v that] core_same_files [OF core_hidden [OF X temp_ok_hidden(1) [OF that(1)], of "quarantine_of X" v "Some n"]] tx_roots [OF X]
    by auto
  have "ends True (tx_args X) (write_record (tx_env X) (quarantine_of X) (sa_quarantine_identity (tx_args X)) (tx_id X) ''applied'' (tx_applied X))
    (\<lambda>r w. tx_inv X p w \<and> phase_of X w = (phase_of X v)\<lparr>ph_applied := True\<rparr> \<and> du_digest r = applied_key X)
    (\<lambda>e w. tx_inv X p w \<and> (e \<noteq> Crash \<longrightarrow> phase_of X w = phase_of X v)) v"
    by (rule ends_write_record [OF X in_stages(2) tx_records(3) [OF X] slots(2) [OF f]])
       (use v put t ph in \<open>auto simp: phase_of_put [OF X]\<close>)
  then show ?thesis unfolding mark_quarantine_applied_def tx_applied_def tx_hash_def .
qed

text \<open>A restored record at the end of every way back.\<close>

lemma ends_mark_restored:
  assumes X: "tx_ok X" and p: "phase_ok p" and v: "tx_inv X p v" and r: "r \<in> set RESTORE_REASONS"
    and ap: "ad = (if ph_applied (phase_of X v) then Some (applied_key X) else None)"
    and ph: "phase_open (phase_of X v)" "\<not> ph_away (phase_of X v)" "\<not> ph_fence (phase_of X v)"
    and nt: "crash \<or> no_temps X v"
  shows "ends crash (tx_args X) (mark_quarantine_restored (tx_env X) (quarantine_of X) (sa_quarantine_identity (tx_args X))
      (tx_id X) (intent_key X) ad r)
    (\<lambda>_ w. tx_inv X p w \<and> phase_of X w = (phase_of X v)\<lparr>ph_restored := True\<rparr>) (\<lambda>_ w. crash \<and> tx_inv X p w) v"
proof -
  let ?u = "tx_restored X (ph_applied (phase_of X v)) r"
  have f: "files_ok X v" using v by (simp add: tx_inv_def)
  have none: "v (quarantine_of X) (tx_file X ''restored'') = None" using ph(1) by (simp add: phase_open_def)
  have put: "tx_inv X p (set_file (quarantine_of X) (tx_file X ''restored'') (Some n) v)" if "good_node ?u n" for n
    using inv_put_record(4) [OF X p v, of n] that r ph unfolding good_node_def restored_text_def by blast
  have rec: "record_ok (line ?u) (canon ?u)" by (rule tx_records(4) [OF X r])
  have fit: "fits ?u" using rec by (simp add: record_ok_def fits_def)
  have "ends crash (tx_args X) (write_record (tx_env X) (quarantine_of X) (sa_quarantine_identity (tx_args X)) (tx_id X) ''restored'' ?u)
    (\<lambda>_ w. tx_inv X p w \<and> phase_of X w = (phase_of X v)\<lparr>ph_restored := True\<rparr>) (\<lambda>_ w. crash \<and> tx_inv X p w) v"
    by (rule ends_write_record [OF X in_stages(4) rec])
       (use v put inv_temp(1) [OF X v] none fit nt in \<open>auto simp: slot_def phase_of_put [OF X]\<close>)
  then show ?thesis unfolding mark_quarantine_restored_def tx_restored_def ap .
qed

lemma no_temps_simps [simp]:
  "tx_ok X \<Longrightarrow> no_temps X (moved (quarantine_of X) (source_of X) (tx_name X) n v) = no_temps X v"
  "tx_ok X \<Longrightarrow> no_temps X (set_file (source_of X) x m v) = no_temps X v"
proof -
  assume X: "tx_ok X"
  have "\<not> starts_with TRANSACTION_TEMP (tx_name X)" using tx_name_not_dot [OF X _ temp_dots(1)] by blast
  then show "no_temps X (moved (quarantine_of X) (source_of X) (tx_name X) n v) = no_temps X v"
    using tx_roots [OF X] unfolding no_temps_def moved_def set_file_apply by metis
  show "no_temps X (set_file (source_of X) x m v) = no_temps X v"
    using tx_roots [OF X] by (simp add: no_temps_def)
qed

lemma ends_way_back:
  assumes X: "tx_ok X" and v: "tx_inv X p v" and ph: "phase_open (phase_of X v)" "ph_away (phase_of X v)"
  shows "ends crash (tx_args X) (restore_quarantined_journal (source_of X) (quarantine_of X) (tx_snapshot X)
      (sa_source_identity (tx_args X)) (sa_quarantine_identity (tx_args X)) (sa_max (tx_args X)))
    (\<lambda>_ w. tx_inv X p w \<and> phase_of X w = (phase_of X v)\<lparr>ph_away := False\<rparr> \<and> (no_temps X v \<longrightarrow> no_temps X w))
    (\<lambda>e w. crash \<and> e = Crash \<and> tx_inv X p w) v"
proof -
  have f: "files_ok X v" using v by (simp add: tx_inv_def)
  have pl: "v (quarantine_of X) (tx_name X) = Some (tx_node X)" "v (source_of X) (tx_name X) = None"
    using files_place(1) [OF f] ph(2) by simp_all
  show ?thesis unfolding tx_snapshot_def
    by (rule ends_restore [where n = "tx_node X"])
       (use X v pl inv_move(4) [OF X v ph] tx_roots [OF X] phase_of_put(7) [OF X] in \<open>auto simp: tx_ok_def\<close>)
qed

lemma ends_unfence:
  assumes X: "tx_ok X" and v: "tx_inv X p v" and ph: "phase_open (phase_of X v)" "\<not> ph_away (phase_of X v)"
  shows "ends crash (tx_args X) (remove_source_fence (tx_env X) (source_of X) (tx_id X) (intent_key X) (tx_snapshot X))
    (\<lambda>_ w. tx_inv X p w \<and> phase_of X w = (phase_of X v)\<lparr>ph_fence := False\<rparr> \<and> (no_temps X v \<longrightarrow> no_temps X w))
    (\<lambda>e w. crash \<and> e = Crash \<and> tx_inv X p w) v"
proof -
  have f: "files_ok X v" using v by (simp add: tx_inv_def)
  have i: "tx_inv X p (set_file (source_of X) (tx_fence_file X) None v)"
  proof (cases "v (source_of X) (tx_fence_file X)")
    case None
    then show ?thesis using v by simp
  qed (use inv_move(2) [OF X v ph] in simp)
  show ?thesis by (rule ends_remove_fence [OF X slots(5) [OF f]]) (use X i v in \<open>auto simp: phase_of_put [OF X]\<close>)
qed

lemma ends_compensate:
  assumes X: "tx_ok X" and p: "phase_ok p" and v: "tx_inv X p v"
    and ph: "phase_open (phase_of X v)" "ph_away (phase_of X v)"
    and ap: "map_option du_digest applied = (if ph_applied (phase_of X v) then Some (applied_key X) else None)"
  shows "ends True (tx_args X) (compensate (tx_env X) (tx_args X) (tx_id X) (intent_key X) (tx_snapshot X) True
      (Some (tx_snapshot X)) applied e) Q (\<lambda>_. tx_inv X p) v"
proof -
  let ?J = "tx_inv X p"
  have way: "ends True (tx_args X) (then_x (restore_quarantined_journal (source_of X) (quarantine_of X) (tx_snapshot X)
        (sa_source_identity (tx_args X)) (sa_quarantine_identity (tx_args X)) (sa_max (tx_args X)))
      (then_x (remove_quarantine_source_fence (tx_env X) (source_of X) (sa_source_identity (tx_args X)) (tx_id X) (intent_key X) (tx_snapshot X))
      (then_x (mark_quarantine_restored (tx_env X) (quarantine_of X) (sa_quarantine_identity (tx_args X)) (tx_id X) (intent_key X)
         (map_option du_digest applied) ''catchable-post-move-failure'') mark_settled))) (\<lambda>_. ?J) (\<lambda>_. ?J) v"
  proof (rule ends_then, rule ends_mono [OF ends_way_back [OF X v ph]])
    fix w
    assume w: "?J w \<and> phase_of X w = (phase_of X v)\<lparr>ph_away := False\<rparr> \<and> (no_temps X v \<longrightarrow> no_temps X w)"
    then have wo: "phase_open (phase_of X w)" "\<not> ph_away (phase_of X w)"
      using ph(1) by (simp_all add: phase_open_def del: phase_simps)
    have wi: "?J w" and wa: "ph_applied (phase_of X w) = ph_applied (phase_of X v)" using w by (simp_all add: phase_open_def del: phase_simps)
    show "ends True (tx_args X) (then_x (remove_quarantine_source_fence (tx_env X) (source_of X) (sa_source_identity (tx_args X)) (tx_id X) (intent_key X) (tx_snapshot X))
      (then_x (mark_quarantine_restored (tx_env X) (quarantine_of X) (sa_quarantine_identity (tx_args X)) (tx_id X) (intent_key X)
         (map_option du_digest applied) ''catchable-post-move-failure'') mark_settled)) (\<lambda>_. ?J) (\<lambda>_. ?J) w"
      unfolding remove_quarantine_source_fence_def
    proof (rule ends_then, rule ends_bind, rule ends_open_root, simp, rule ends_mono [OF ends_unfence [OF X wi wo]])
      fix u assume u: "?J u \<and> phase_of X u = (phase_of X w)\<lparr>ph_fence := False\<rparr> \<and> (no_temps X w \<longrightarrow> no_temps X u)"
      have "phase_open (phase_of X u)" "\<not> ph_away (phase_of X u)" "\<not> ph_fence (phase_of X u)"
        "map_option du_digest applied = (if ph_applied (phase_of X u) then Some (applied_key X) else None)" "?J u"
        using u wo ap wa by (simp_all add: phase_open_def del: phase_simps)
      from ends_mark_restored [OF X p this(5) _ this(4) this(1-3), of "''catchable-post-move-failure''" True]
      show "ends True (tx_args X) (then_x (mark_quarantine_restored (tx_env X) (quarantine_of X) (sa_quarantine_identity (tx_args X)) (tx_id X) (intent_key X)
         (map_option du_digest applied) ''catchable-post-move-failure'') mark_settled) (\<lambda>_. ?J) (\<lambda>_. ?J) u"
        by (intro ends_then) (auto simp: RESTORE_REASONS_def mark_settled_def intro!: ends_modify elim!: ends_mono)
    qed (use wi in auto)
  qed auto
  show ?thesis unfolding compensate_def source_of_def [symmetric] quarantine_of_def [symmetric]
    by (rule ends_then, rule ends_except, simp only: option.case when_x_def if_True option.distinct simp_thms, rule ends_mono [OF way])
       (auto intro!: ends_raise)
qed

lemma compensate_nothing: "compensate E b tid g q False None None e = raise_x e"
  by (rule ext) (simp add: compensate_def except_x_def exec_defs)

lemma ends_tx_snapshot:
  assumes X: "tx_ok X" and d: "is_root (tx_args X) d i" "v d (tx_name X) = Some (tx_node X)"
    and m: "m > 0" "journal_node m (tx_node X)" and Q: "Q (tx_snapshot X) v" and R: "crash \<Longrightarrow> R Crash v"
  shows "ends crash (tx_args X) (snapshot_journal d (qj_journal (tx_snapshot X)) i m) Q R v"
proof -
  have j: "qj_journal (tx_snapshot X) = tx_name X" by (simp add: tx_snapshot_def)
  have n: "journal_name_ok (tx_name X)" using X by (simp add: tx_ok_def)
  show ?thesis unfolding j using Q R unfolding tx_snapshot_def by (rule ends_snapshot [of _ d i _ _ v, OF d(1) n m(1) d(2) m(2)])
qed

text \<open>The files stay as they are while the events that remain are checked.\<close>

definition leaves_files :: "transaction \<Rightarrow> unit file_exec \<Rightarrow> bool" where
  "leaves_files X check \<longleftrightarrow> (\<forall>v. ends True (tx_args X) check (\<lambda>_ w. w = v) (\<lambda>_ w. w = v) v)"

lemma ends_no_later:
  assumes X: "tx_ok X" and v: "tx_inv X p v" and st: "st \<in> {''applied'', ''finalized'', ''restored'', ''blocked''}"
    and Q: "v (quarantine_of X) (tx_file X st) = None \<Longrightarrow> Q () v" and R: "\<And>e. R e v"
  shows "ends crash (tx_args X) (no_later_record (tx_env X) (tx_args X) (tx_id X) st) Q R v"
proof -
  have f: "files_ok X v" using v by (simp add: tx_inv_def)
  have st': "st \<in> set STAGES" using st by auto
  have id: "id_ok (tx_id X)" using X by (simp add: tx_ok_def)
  have rec: "\<exists>P. slot v (quarantine_of X) (tx_file X st) P \<and> (\<forall>raw. P raw \<longrightarrow> (\<exists>u. raw = line u \<and> record_ok raw (canon u)))"
    using st
  proof (elim insertE emptyE)
    assume "st = ''applied''" then show ?thesis using slots(2) [OF f] tx_records(3) [OF X] by blast
  next
    assume "st = ''finalized''" then show ?thesis
      using slots(3) [OF f] tx_records(5) [OF X] by (intro exI [of _ "finalized_text X"]) (auto simp: finalized_text_def)
  next
    assume "st = ''restored''" then show ?thesis
      using slots(4) [OF f] tx_records(4) [OF X]
      by (intro exI [of _ "restored_text X (v (quarantine_of X) (tx_file X ''applied'') \<noteq> None)"]) (auto simp: restored_text_def)
  next
    assume "st = ''blocked''" then show ?thesis using slots(6) [OF f] by (intro exI [of _ "\<lambda>_. False"]) (auto simp: slot_def)
  qed
  then obtain P where P: "slot v (quarantine_of X) (tx_file X st) P" "\<And>raw. P raw \<Longrightarrow> \<exists>u. raw = line u \<and> record_ok raw (canon u)" by blast
  show ?thesis unfolding no_later_record_def read_quarantine_record_def source_of_def [symmetric] quarantine_of_def [symmetric]
    by (intro ends_bind ends_open_root ends_record_name [OF id st'] ends_read_slot [OF st' X P] ends_guard) (use Q R in auto)
qed

lemma ends_commit_start:
  assumes X: "tx_ok X" and p: "phase_ok p" and v: "tx_inv X p v" and i: "ph_intent (phase_of X v)"
  shows "ends True (tx_args X) (then_x (each_x (no_later_record (tx_env X) (tx_args X) (tx_id X)) [''applied'', ''finalized'', ''restored'', ''blocked''])
      (bind_x (snapshot_journal (source_of X) (qj_journal (tx_snapshot X)) (sa_source_identity (tx_args X)) (sa_max (tx_args X))) (\<lambda>current.
       then_x (guard_x (current = tx_snapshot X) LifecycleErr)
       (then_x (install_quarantine_source_fence (tx_env X) (source_of X) (sa_source_identity (tx_args X)) (tx_id X) (intent_key X) (tx_snapshot X)) (return_x ())))))
    (\<lambda>_ w. tx_inv X p w \<and> phase_open (phase_of X w) \<and> \<not> ph_applied (phase_of X w) \<and> \<not> ph_away (phase_of X w) \<and> ph_fence (phase_of X w))
    (\<lambda>_. tx_inv X p) v"
proof -
  have f: "files_ok X v" using v by (simp add: tx_inv_def)
  have snap: "ends True (tx_args X) (bind_x (snapshot_journal (source_of X) (qj_journal (tx_snapshot X)) (sa_source_identity (tx_args X)) (sa_max (tx_args X))) (\<lambda>current.
       then_x (guard_x (current = tx_snapshot X) LifecycleErr)
       (then_x (install_quarantine_source_fence (tx_env X) (source_of X) (sa_source_identity (tx_args X)) (tx_id X) (intent_key X) (tx_snapshot X)) (return_x ()))))
    (\<lambda>_ w. tx_inv X p w \<and> phase_open (phase_of X w) \<and> \<not> ph_applied (phase_of X w) \<and> \<not> ph_away (phase_of X w) \<and> ph_fence (phase_of X w))
    (\<lambda>_. tx_inv X p) v" if o: "phase_open (phase_of X v)" "\<not> ph_applied (phase_of X v)"
  proof (cases "v (source_of X) (tx_name X)")
    case None
    show ?thesis by (rule ends_bind, rule ends_snapshot_missing) (use None v in \<open>auto simp: tx_snapshot_def\<close>)
  next
    case (Some n)
    then have n: "n = tx_node X" using files_place(2) [OF f] by simp
    have put: "tx_inv X p (set_file (source_of X) (tx_fence_file X) (Some m) v)"
      if "good_node (tx_fence X) m" "v (source_of X) (tx_fence_file X) = None \<or> v (source_of X) (tx_fence_file X) = Some m" for m
      using that v inv_move(1) [OF X v that(1) o(1)] by (cases "v (source_of X) (tx_fence_file X) = None") auto
    have fenced: "phase_of X (set_file (source_of X) (tx_fence_file X) (Some m) v) = (phase_of X v)\<lparr>ph_fence := True\<rparr>" for m
      using phase_of_put(5) [OF X, of "Some m"] by simp
    have m: "0 < sa_max (tx_args X)" "journal_node (sa_max (tx_args X)) (tx_node X)" using X by (simp_all add: tx_ok_def)
    show ?thesis
    proof (rule ends_bind, rule ends_tx_snapshot [of X _ _ v, OF X tx_root(1) _ m])
      show "v (source_of X) (tx_name X) = Some (tx_node X)" using Some n by simp
      show "ends True (tx_args X) (then_x (guard_x (tx_snapshot X = tx_snapshot X) LifecycleErr)
          (then_x (install_quarantine_source_fence (tx_env X) (source_of X) (sa_source_identity (tx_args X)) (tx_id X) (intent_key X) (tx_snapshot X)) (return_x ())))
        (\<lambda>_ w. tx_inv X p w \<and> phase_open (phase_of X w) \<and> \<not> ph_applied (phase_of X w) \<and> \<not> ph_away (phase_of X w) \<and> ph_fence (phase_of X w))
        (\<lambda>_. tx_inv X p) v"
        by (intro ends_then ends_guard ends_install_fence [OF X slots(5) [OF f]] ends_return conjI put)
           (use v o Some fenced put inv_temp(3) [OF X v] in \<open>auto simp: phase_open_def del: phase_simps\<close>)
    qed (use v in auto)
  qed
  have base: "tx_inv X p v \<Longrightarrow> phase_open (phase_of X v)"
    if "v (quarantine_of X) (tx_file X ''finalized'') = None" "v (quarantine_of X) (tx_file X ''restored'') = None"
    using that i by (simp add: phase_open_def)
  show ?thesis unfolding each_x.simps
    by (intro ends_then ends_no_later [OF X v] ends_return snap) (use v base in auto)
qed

lemma ends_commit_end:
  assumes X: "tx_ok X" and p: "phase_ok p" and check: "leaves_files X check" and v: "tx_inv X p v"
    and ph: "phase_open (phase_of X v)" "\<not> ph_applied (phase_of X v)" "ph_away (phase_of X v)"
  shows "ends True (tx_args X) (bind_x (except_x
          (then_x (guard_x True LifecycleErr)
          (mark_quarantine_applied (tx_env X) (quarantine_of X) (sa_quarantine_identity (tx_args X)) (tx_id X) (intent_key X) (tx_snapshot X)))
          (compensate (tx_env X) (tx_args X) (tx_id X) (intent_key X) (tx_snapshot X) True (Some (tx_snapshot X)) None)) (\<lambda>applied.
        except_x (then_x check mark_settled)
          (compensate (tx_env X) (tx_args X) (tx_id X) (intent_key X) (tx_snapshot X) True (Some (tx_snapshot X)) (Some applied))))
     (\<lambda>_ w. tx_inv X p w \<and> ph_applied (phase_of X w)) (\<lambda>_. tx_inv X p) v"
proof -
  let ?Q = "\<lambda>r w. tx_inv X p w \<and> phase_of X w = (phase_of X v)\<lparr>ph_applied := True\<rparr> \<and> du_digest r = applied_key X"
  have comp: "ends True (tx_args X) (compensate (tx_env X) (tx_args X) (tx_id X) (intent_key X) (tx_snapshot X) True (Some (tx_snapshot X)) None e)
      Q' (\<lambda>_. tx_inv X p) w" if "tx_inv X p w" "phase_of X w = phase_of X v" for e w and Q' :: "durable_record \<Rightarrow> view \<Rightarrow> bool"
    by (rule ends_compensate [OF X p that(1)]) (use that ph in \<open>simp_all del: phase_simps\<close>)
  have mark: "ends True (tx_args X) (except_x
          (then_x (guard_x True LifecycleErr)
          (mark_quarantine_applied (tx_env X) (quarantine_of X) (sa_quarantine_identity (tx_args X)) (tx_id X) (intent_key X) (tx_snapshot X)))
          (compensate (tx_env X) (tx_args X) (tx_id X) (intent_key X) (tx_snapshot X) True (Some (tx_snapshot X)) None)) ?Q (\<lambda>_. tx_inv X p) v"
    by (rule ends_except, rule ends_then, rule ends_guard, rule ends_mono [OF ends_mark_applied [OF X p v ph(1,3,2)]])
       (auto simp del: phase_simps intro: comp)
  have fin: "ends True (tx_args X) (except_x (then_x check mark_settled)
          (compensate (tx_env X) (tx_args X) (tx_id X) (intent_key X) (tx_snapshot X) True (Some (tx_snapshot X)) (Some r)))
     (\<lambda>_ w. tx_inv X p w \<and> ph_applied (phase_of X w)) (\<lambda>_. tx_inv X p) w" if w: "?Q r w" for r w
  proof -
    have o: "phase_open (phase_of X w)" "ph_away (phase_of X w)" "ph_applied (phase_of X w)" "tx_inv X p w"
      using w ph by (simp_all add: phase_open_def del: phase_simps)
    have c: "ends True (tx_args X) (compensate (tx_env X) (tx_args X) (tx_id X) (intent_key X) (tx_snapshot X) True (Some (tx_snapshot X)) (Some r) e)
        Q' (\<lambda>_. tx_inv X p) w" for e and Q' :: "unit \<Rightarrow> view \<Rightarrow> bool"
      by (rule ends_compensate [OF X p o(4,1,2)]) (use o w in \<open>simp del: phase_simps\<close>)
    have "ends True (tx_args X) check (\<lambda>_ u. u = w) (\<lambda>_ u. u = w) w" using check by (simp add: leaves_files_def)
    then have chk: "ends True (tx_args X) (then_x check mark_settled) (\<lambda>_ u. u = w) (\<lambda>_ u. u = w) w"
      by (rule ends_then [OF ends_mono]) (auto simp: mark_settled_def intro: ends_modify)
    show ?thesis
      by (rule ends_except, rule ends_mono [OF chk]) (use o c in \<open>auto simp del: phase_simps\<close>)
  qed
  show ?thesis by (rule ends_bind, rule ends_mono [OF mark]) (use fin in auto)
qed

lemma ends_commit_fault:
  assumes X: "tx_ok X" and p: "phase_ok p" and check: "leaves_files X check" and v: "tx_inv X p v" and i: "ph_intent (phase_of X v)"
  shows "ends True (tx_args X) (commit_fault (tx_env X) (tx_args X) (tx_id X) (intent_key X) (tx_snapshot X) check)
     (\<lambda>_ w. tx_inv X p w \<and> ph_applied (phase_of X w)) (\<lambda>_. tx_inv X p) v"
proof -
  have mid: "ends True (tx_args X) (except_x
          (quarantine_journal (source_of X) (quarantine_of X) (qj_journal (tx_snapshot X)) (sa_source_identity (tx_args X))
             (sa_quarantine_identity (tx_args X)) (sa_max (tx_args X)) (Some (tx_snapshot X)))
          (compensate (tx_env X) (tx_args X) (tx_id X) (intent_key X) (tx_snapshot X) True None None))
       (\<lambda>r u. r = tx_snapshot X \<and> tx_inv X p u \<and> phase_of X u = (phase_of X w)\<lparr>ph_away := True\<rparr>) (\<lambda>_. tx_inv X p) w"
    if w: "tx_inv X p w" "phase_open (phase_of X w)" "\<not> ph_away (phase_of X w)" "ph_fence (phase_of X w)" for w
  proof -
    have f: "files_ok X w" using w(1) by (simp add: tx_inv_def)
    have pl: "w (source_of X) (tx_name X) = Some (tx_node X)" "w (quarantine_of X) (tx_name X) = None"
      using files_place(2) [OF f] w(3) by simp_all
    have j: "qj_journal (tx_snapshot X) = tx_name X" by (simp add: tx_snapshot_def)
    show ?thesis unfolding j
      by (rule ends_except, unfold tx_snapshot_def, rule ends_quarantine [where n = "tx_node X"])
         (use X w pl inv_move(3) [OF X w(1,2,4,3)] tx_roots [OF X] phase_of_put(6) [OF X] in \<open>auto simp: tx_ok_def\<close>)
  qed
  have lock: "tx_inv X p u \<and> ph_intent (phase_of X u)" if "with_lock (source_of X) v u" for u
  proof
    show "tx_inv X p u" by (rule inv_temp(5) [OF X v that])
    have "hidden QUARANTINE_LOCK" "source_of X \<noteq> quarantine_of X" using hidden_lock X by (auto simp: tx_ok_def)
    then show "ph_intent (phase_of X u)" using that i by (auto simp: with_lock_def)
  qed
  have free: "free_lock v (source_of X)" using v by (simp add: tx_inv_def names_ok_def)
  show ?thesis unfolding commit_fault_def compensate_nothing source_of_def [symmetric] quarantine_of_def [symmetric]
    apply (rule ends_bind, rule ends_gets, rule ends_then, rule ends_guard, rule ends_bind, rule ends_acquire [OF tx_root(1) free],
        rule ends_finally, rule ends_then, rule ends_except, drule lock, rule ends_mono [OF ends_commit_start [OF X p]], simp, simp,
        rule ends_bind, rule ends_mono [OF mid])
    using v lock by (auto simp del: phase_simps simp: phase_open_def intro!: ends_raise ends_commit_end [OF X p check] ends_close)
qed

end
