(* ===== verification/Quarantine_Settle.thy ===== *)
theory Quarantine_Settle
  imports Quarantine_Recovery
begin

text \<open>
  Reconciliation and acceptance of a transaction. The runs of \<open>settle\<close>, \<open>reconcile_locked\<close> and
  \<open>finalize_locked\<close> from every state that the invariant allows: with crashes they keep the invariant,
  without them reconciliation returns and the transaction is settled.
\<close>

section \<open>Reading the records of a transaction\<close>

lemma tx_record_unique:
  "line u = line u' \<Longrightarrow> record_ok (line u) (canon u) \<Longrightarrow> record_ok (line u') (canon u') \<Longrightarrow> tx_record X st u = tx_record X st u'"
  by (simp add: tx_record_def record_ok_def)

lemma ends_optional:
  assumes X: "tx_ok X" and st: "st \<in> set STAGES" and r: "ends crash a (read_record E d (record_file (tx_id X) st) False) Q R v"
  shows "ends crash a (bind_x (record_name (tx_id X) st) (\<lambda>x. read_record E d x False)) Q R v"
  by (rule ends_bind, rule ends_record_name [OF _ st]) (use X r in \<open>auto simp: tx_ok_def\<close>)

lemma ends_applied:
  assumes X: "tx_ok X" and f: "files_ok X v"
    and Q: "Q (if v (quarantine_of X) (tx_file X ''applied'') = None then None else Some (tx_record X ''applied'' (tx_applied X))) v"
    and R: "crash \<Longrightarrow> R Crash v"
  shows "ends crash a (read_record (tx_env X) (quarantine_of X) (record_file (tx_id X) ''applied'') False) Q R v"
proof (rule ends_read_slot [OF _ X slots(2) [OF f]])
  show "Q (Some (tx_record X ''applied'' u)) v"
    if "line u = line (tx_applied X)" "record_ok (line u) (canon u)" "v (quarantine_of X) (tx_file X ''applied'') \<noteq> None" for u
    using Q that(3) tx_record_unique [OF that(1,2) tx_records(3) [OF X], of X "''applied''"] by simp
qed (use Q R tx_records(3) [OF X] in auto)

lemma ends_finalized:
  assumes X: "tx_ok X" and f: "files_ok X v" and N: "v (quarantine_of X) (tx_file X ''finalized'') = None \<Longrightarrow> Q None v"
    and Q: "\<And>c p. v (quarantine_of X) (tx_file X ''finalized'') \<noteq> None \<Longrightarrow> is_digest (JStr c) \<Longrightarrow> valid_process_identity p \<Longrightarrow>
      Q (Some (tx_record X ''finalized'' (tx_finalized X c p))) v"
    and R: "crash \<Longrightarrow> R Crash v"
  shows "ends crash a (read_record (tx_env X) (quarantine_of X) (record_file (tx_id X) ''finalized'') False) Q R v"
proof (rule ends_read_slot [OF _ X slots(3) [OF f]])
  show "\<exists>u. raw = line u \<and> record_ok raw (canon u)" if "finalized_text X raw" for raw
    using that tx_records(5) [OF X] by (auto simp: finalized_text_def)
  show "Q (Some (tx_record X ''finalized'' u)) v"
    if u: "finalized_text X (line u)" "record_ok (line u) (canon u)" "v (quarantine_of X) (tx_file X ''finalized'') \<noteq> None" for u
  proof -
    obtain c p where c: "line u = line (tx_finalized X c p)" "is_digest (JStr c)" "valid_process_identity p" "keys_ok p"
        "fits (tx_finalized X c p)" using u(1) by (auto simp: finalized_text_def)
    show ?thesis using Q [OF u(3) c(2,3)] tx_record_unique [OF c(1) u(2) tx_records(5) [OF X c(4,5)], of X "''finalized''"] by simp
  qed
qed (use N R in auto)

lemma ends_restored:
  assumes X: "tx_ok X" and f: "files_ok X v" and N: "v (quarantine_of X) (tx_file X ''restored'') = None \<Longrightarrow> Q None v"
    and Q: "\<And>r. v (quarantine_of X) (tx_file X ''restored'') \<noteq> None \<Longrightarrow> r \<in> set RESTORE_REASONS \<Longrightarrow>
      Q (Some (tx_record X ''restored'' (tx_restored X (ph_applied (phase_of X v)) r))) v"
    and R: "crash \<Longrightarrow> R Crash v"
  shows "ends crash a (read_record (tx_env X) (quarantine_of X) (record_file (tx_id X) ''restored'') False) Q R v"
proof (rule ends_read_slot [OF _ X slots(4) [OF f]])
  show "\<exists>u. raw = line u \<and> record_ok raw (canon u)" if "restored_text X b raw" for b raw
    using that tx_records(4) [OF X] by (auto simp: restored_text_def)
  show "Q (Some (tx_record X ''restored'' u)) v"
    if u: "restored_text X (v (quarantine_of X) (tx_file X ''applied'') \<noteq> None) (line u)" "record_ok (line u) (canon u)"
      "v (quarantine_of X) (tx_file X ''restored'') \<noteq> None" for u
  proof -
    obtain r where r: "line u = line (tx_restored X (ph_applied (phase_of X v)) r)" "r \<in> set RESTORE_REASONS"
      using u(1) by (auto simp: restored_text_def)
    show ?thesis using Q [OF u(3) r(2)] tx_record_unique [OF r(1) u(2) tx_records(4) [OF X r(2)], of X "''restored''"] by simp
  qed
qed (use N R in auto)

lemma ends_blocked:
  assumes f: "files_ok X v" and Q: "Q None v" and R: "crash \<Longrightarrow> R Crash v"
  shows "ends crash a (read_record (tx_env X) (quarantine_of X) (record_file (tx_id X) ''blocked'') False) Q R v"
  by (rule ends_read_record_None) (use slots(6) [OF f] Q R in \<open>auto simp: tx_file_def\<close>)

lemma ends_intent:
  assumes X: "tx_ok X" and f: "files_ok X v" and i: "v (quarantine_of X) (tx_file X ''intent'') \<noteq> None"
    and Q: "Q (tx_record X ''intent'' (tx_intent X)) v" and R: "crash \<Longrightarrow> R Crash v"
  shows "ends crash a (need_record (tx_env X) (quarantine_of X) (tx_file X ''intent'')) Q R v"
proof -
  have h: "holds v (quarantine_of X) (tx_file X ''intent'') (line (tx_intent X))" using slots(1) [OF f] i by (auto simp: slot_def)
  show ?thesis by (rule ends_need_record [OF h tx_records(1) [OF X]]) (use Q R in \<open>auto simp: tx_record_def tx_file_def\<close>)
qed

section \<open>Settling\<close>

definition settled :: "transaction \<Rightarrow> phase \<Rightarrow> bool \<Rightarrow> view \<Rightarrow> bool" where
  "settled X p restored w \<longleftrightarrow> tx_inv X p w \<and>
     (if restored then ph_restored (phase_of X w) \<and> \<not> ph_away (phase_of X w) \<and> \<not> ph_fence (phase_of X w)
      else ph_finalized (phase_of X w) \<and> ph_away (phase_of X w) \<and> ph_fence (phase_of X w))"

lemma same_append_only_refl [simp]: "is_same_append_only_journal q q"
  by (simp add: is_same_append_only_journal_def)

lemma ends_recover:
  assumes X: "tx_ok X" and p: "phase_ok p" and v: "tx_inv X p v" and ph: "phase_open (phase_of X v)"
  shows "ends crash (tx_args X) (recover_journal (tx_env X) (tx_args X) (tx_id X) (tx_record X ''intent'' (tx_intent X)) (tx_snapshot X) applied
      (v (source_of X) (tx_name X) \<noteq> None) (v (quarantine_of X) (tx_name X) \<noteq> None))
    (\<lambda>r w. r \<in> set RESTORE_REASONS \<and> tx_inv X p w \<and> phase_of X w = (phase_of X v)\<lparr>ph_away := False\<rparr> \<and> (no_temps X v \<longrightarrow> no_temps X w))
    (\<lambda>_ w. crash \<and> tx_inv X p w) v"
proof (cases "v (source_of X) (tx_name X)")
  case None
  have f: "files_ok X v" using v by (simp add: tx_inv_def)
  have pl: "v (quarantine_of X) (tx_name X) = Some (tx_node X)" using files_place(1) [OF f] None by simp
  have "ph_fence (phase_of X v)" using inv_phase [OF v p] None by (simp add: phase_ok_def)
  then have h: "holds v (source_of X) (tx_fence_file X) (line (tx_fence X))" using slots(5) [OF f] by (auto simp: slot_def)
  have away: "ph_away (phase_of X v)" using None by simp
  show ?thesis unfolding recover_journal_def source_of_def [symmetric] quarantine_of_def [symmetric]
    using None pl v
    by (auto simp del: phase_simps simp: RESTORE_REASONS_def
        intro!: ends_then ends_read_fence [OF X h] ends_catch ends_mono [OF ends_way_back [OF X v ph away]] ends_return ends_raise)
next
  case (Some n)
  have f: "files_ok X v" using v by (simp add: tx_inv_def)
  have pl: "v (source_of X) (tx_name X) = Some (tx_node X)" "v (quarantine_of X) (tx_name X) = None" using files_place(2) [OF f] Some by auto
  have same: "(phase_of X v)\<lparr>ph_away := False\<rparr> = phase_of X v" using Some by (simp add: phase_of_def)
  have m: "0 < sa_max (tx_args X)" "journal_node (sa_max (tx_args X)) (tx_node X)" using X by (simp_all add: tx_ok_def)
  show ?thesis unfolding recover_journal_def source_of_def [symmetric] quarantine_of_def [symmetric] same
    using pl v
    by (auto simp: RESTORE_REASONS_def intro!: ends_bind ends_tx_snapshot [of X _ _ v, OF X tx_root(1) pl(1) m] ends_then ends_when ends_return)
qed

lemma ends_settle_pending:
  assumes X: "tx_ok X" and p: "phase_ok p" and v: "tx_inv X p v" and ph: "phase_open (phase_of X v)" and nt: "crash \<or> no_temps X v"
    and ap: "map_option du_digest applied = (if ph_applied (phase_of X v) then Some (applied_key X) else None)"
  shows "ends crash (tx_args X) (settle_pending (tx_env X) (tx_args X) (tx_id X) (tx_record X ''intent'' (tx_intent X)) (tx_snapshot X) applied)
    (\<lambda>b w. b \<and> settled X p True w) (\<lambda>_ w. crash \<and> tx_inv X p w) v"
proof -
  have j: "qj_journal (tx_snapshot X) = tx_name X" by (simp add: tx_snapshot_def)
  have unf: "ends crash (tx_args X) (then_x (remove_source_fence (tx_env X) (source_of X) (tx_id X) (intent_key X) (tx_snapshot X))
      (then_x (mark_quarantine_restored (tx_env X) (quarantine_of X) (sa_quarantine_identity (tx_args X)) (tx_id X) (intent_key X)
        (map_option du_digest applied) r) (return_x True))) (\<lambda>b w. b \<and> settled X p True w) (\<lambda>_ w. crash \<and> tx_inv X p w) w"
    if w: "r \<in> set RESTORE_REASONS" "tx_inv X p w" "phase_of X w = (phase_of X v)\<lparr>ph_away := False\<rparr>" "no_temps X v \<longrightarrow> no_temps X w" for r w
  proof -
    have wo: "phase_open (phase_of X w)" "\<not> ph_away (phase_of X w)"
      using w(3) ph by (simp_all add: phase_open_def del: phase_simps)
    show ?thesis
    proof (rule ends_then, rule ends_mono [OF ends_unfence [OF X w(2) wo]])
      fix u assume u: "tx_inv X p u \<and> phase_of X u = (phase_of X w)\<lparr>ph_fence := False\<rparr> \<and> (no_temps X w \<longrightarrow> no_temps X u)"
      have uo: "phase_open (phase_of X u)" "\<not> ph_away (phase_of X u)" "\<not> ph_fence (phase_of X u)" "crash \<or> no_temps X u" "tx_inv X p u"
          "map_option du_digest applied = (if ph_applied (phase_of X u) then Some (applied_key X) else None)"
        using u wo nt w(3,4) ap by (auto simp add: phase_open_def simp del: phase_simps)
      show "ends crash (tx_args X) (then_x (mark_quarantine_restored (tx_env X) (quarantine_of X) (sa_quarantine_identity (tx_args X)) (tx_id X) (intent_key X)
        (map_option du_digest applied) r) (return_x True)) (\<lambda>b w. b \<and> settled X p True w) (\<lambda>_ w. crash \<and> tx_inv X p w) u"
        by (rule ends_then, rule ends_mono [OF ends_mark_restored [OF X p uo(5) w(1) uo(6) uo(1-4)]])
           (use uo in \<open>auto simp: settled_def simp del: phase_simps intro!: ends_return\<close>)
    qed auto
  qed
  show ?thesis unfolding settle_pending_def source_of_def [symmetric] quarantine_of_def [symmetric] j tx_record_simps
    by (intro ends_bind ends_exists, simp only:, rule ends_mono [OF ends_recover [OF X p v ph]]) (use v unf in auto)
qed

lemma ends_settle_finalized:
  assumes X: "tx_ok X" and p: "phase_ok p" and v: "tx_inv X p v" and ph: "ph_finalized (phase_of X v)"
    and c: "is_digest (JStr c)" "valid_process_identity pid"
  shows "ends crash (tx_args X) (settle_finalized (tx_env X) (tx_args X) (tx_id X) (tx_record X ''intent'' (tx_intent X)) (tx_snapshot X)
      (Some (tx_record X ''applied'' (tx_applied X))) (tx_record X ''finalized'' (tx_finalized X c pid)))
    (\<lambda>b w. \<not> b \<and> settled X p False w) (\<lambda>_ w. crash \<and> tx_inv X p w) v"
proof -
  have f: "files_ok X v" using v by (simp add: tx_inv_def)
  have o: "ph_away (phase_of X v)" "ph_fence (phase_of X v)" using inv_phase [OF v p] ph by (simp_all add: phase_ok_def)
  then have h: "holds v (source_of X) (tx_fence_file X) (line (tx_fence X))" using slots(5) [OF f] by (auto simp: slot_def)
  have pl: "v (source_of X) (tx_name X) = None" "v (quarantine_of X) (tx_name X) = Some (tx_node X)" using o files_place(1) [OF f] by auto
  have m: "0 < sa_max (tx_args X)" "journal_node (sa_max (tx_args X)) (tx_node X)" using X by (simp_all add: tx_ok_def)
  have j: "qj_journal (tx_snapshot X) = tx_name X" by (simp add: tx_snapshot_def)
  have s: "settled X p False v" using v o ph by (simp add: settled_def)
  show ?thesis unfolding settle_finalized_def source_of_def [symmetric] quarantine_of_def [symmetric] need_def option.case
    by (intro ends_bind ends_return ends_then ends_guard ends_sink_as ends_tx_snapshot [of X _ _ v, OF X tx_root(2) pl(2) m] ends_when,
        unfold tx_record_simps, rule ends_read_fence [OF X h], intro ends_bind ends_exists ends_then ends_when ends_return)
       (use finalized_accepted [OF c] v s pl in \<open>auto simp: j\<close>)
qed

lemma ends_settle_restored:
  assumes X: "tx_ok X" and p: "phase_ok p" and v: "tx_inv X p v" and ph: "ph_restored (phase_of X v)" and r: "r \<in> set RESTORE_REASONS"
    and ap: "map_option du_digest applied = (if ph_applied (phase_of X v) then Some (applied_key X) else None)"
  shows "ends crash (tx_args X) (settle_restored (tx_env X) (tx_args X) (tx_id X) (tx_record X ''intent'' (tx_intent X)) (tx_snapshot X)
      applied (tx_record X ''restored'' (tx_restored X (ph_applied (phase_of X v)) r)))
    (\<lambda>b w. b \<and> settled X p True w) (\<lambda>_ w. crash \<and> tx_inv X p w) v"
proof -
  have f: "files_ok X v" using v by (simp add: tx_inv_def)
  have o: "\<not> ph_away (phase_of X v)" "\<not> ph_fence (phase_of X v)" using inv_phase [OF v p] ph by (auto simp: phase_ok_def)
  then have nf: "v (source_of X) (tx_fence_file X) = None" by simp
  have pl: "v (source_of X) (tx_name X) = Some (tx_node X)" "v (quarantine_of X) (tx_name X) = None" using o files_place(2) [OF f] by auto
  have m: "0 < sa_max (tx_args X)" "journal_node (sa_max (tx_args X)) (tx_node X)" using X by (simp_all add: tx_ok_def)
  have j: "qj_journal (tx_snapshot X) = tx_name X" by (simp add: tx_snapshot_def)
  have s: "settled X p True v" using v o ph by (simp add: settled_def)
  show ?thesis unfolding settle_restored_def source_of_def [symmetric] quarantine_of_def [symmetric] tx_record_simps ap
    by (intro ends_then ends_guard ends_bind ends_read_no_fence [of v X, OF nf] ends_exists ends_sink_as
          ends_tx_snapshot [of X _ _ v, OF X tx_root(1) pl(1) m] ends_return)
       (use restored_accepted [OF r, of X] v s pl in \<open>auto simp: j\<close>)
qed

lemma intent_id: "id_ok (tx_id X) \<Longrightarrow> take (length (tx_file X ''intent'') - 12 - 5) (drop 5 (tx_file X ''intent'')) = tx_id X"
  by (simp add: tx_file_def record_file_def)

lemma ends_settle:
  assumes X: "tx_ok X" and p: "phase_ok p" and v: "tx_inv X p v" and i: "ph_intent (phase_of X v)" and nt: "crash \<or> no_temps X v"
  shows "ends crash (tx_args X) (settle (tx_env X) (tx_args X) (tx_file X ''intent'')) (settled X p) (\<lambda>_ w. crash \<and> tx_inv X p w) v"
proof -
  have f: "files_ok X v" using v by (simp add: tx_inv_def)
  have id: "id_ok (tx_id X)" using X by (simp add: tx_ok_def)
  have h: "fe_hash (tx_env X) = tx_hash X" by (simp add: tx_hash_def)
  note ok = inv_phase [OF v p]
  define ap where "ap = (if v (quarantine_of X) (tx_file X ''applied'') = None then None else Some (tx_record X ''applied'' (tx_applied X)))"
  have apd: "map_option du_digest ap = (if ph_applied (phase_of X v) then Some (applied_key X) else None)" by (simp add: ap_def)
  have apv: "case ap of None \<Rightarrow> True | Some r \<Rightarrow> applied_valid (tx_hash X) r (tx_id X) (tx_record X ''intent'' (tx_intent X)) (tx_snapshot X)"
    by (simp add: ap_def applied_accepted)
  have excl: "v (quarantine_of X) (tx_file X ''finalized'') = None \<or> v (quarantine_of X) (tx_file X ''restored'') = None"
    using ok by (auto simp: phase_ok_def)
  have pend: "ends crash (tx_args X) (settle_pending (tx_env X) (tx_args X) (tx_id X) (tx_record X ''intent'' (tx_intent X)) (tx_snapshot X) ap)
      (settled X p) (\<lambda>_ w. crash \<and> tx_inv X p w) v"
    if "v (quarantine_of X) (tx_file X ''finalized'') = None" "v (quarantine_of X) (tx_file X ''restored'') = None"
    by (rule ends_mono [OF ends_settle_pending [OF X p v _ nt apd]]) (use that i in \<open>auto simp: phase_open_def\<close>)
  have finl: "ends crash (tx_args X) (settle_finalized (tx_env X) (tx_args X) (tx_id X) (tx_record X ''intent'' (tx_intent X)) (tx_snapshot X)
      ap (tx_record X ''finalized'' (tx_finalized X c pid))) (settled X p) (\<lambda>_ w. crash \<and> tx_inv X p w) v"
    if "v (quarantine_of X) (tx_file X ''finalized'') \<noteq> None" "is_digest (JStr c)" "valid_process_identity pid" for c pid
  proof -
    have "ap = Some (tx_record X ''applied'' (tx_applied X))" using ok that(1) by (auto simp: phase_ok_def ap_def)
    moreover have "ph_finalized (phase_of X v)" using that(1) by simp
    ultimately show ?thesis by (simp only:) (rule ends_mono [OF ends_settle_finalized [OF X p v _ that(2,3)]], auto)
  qed
  have rest: "ends crash (tx_args X) (settle_restored (tx_env X) (tx_args X) (tx_id X) (tx_record X ''intent'' (tx_intent X)) (tx_snapshot X)
      ap (tx_record X ''restored'' (tx_restored X (ph_applied (phase_of X v)) r))) (settled X p) (\<lambda>_ w. crash \<and> tx_inv X p w) v"
    if "v (quarantine_of X) (tx_file X ''restored'') \<noteq> None" "r \<in> set RESTORE_REASONS" for r
    by (rule ends_mono [OF ends_settle_restored [OF X p v _ that(2) apd]]) (use that in auto)
  note reads = ends_applied [OF X f, folded ap_def] ends_finalized [OF X f] ends_restored [OF X f] ends_blocked [OF f]
  show ?thesis
    unfolding settle_def Let_def intent_id [OF id] source_of_def [symmetric] quarantine_of_def [symmetric] h tx_record_simps
    apply (rule ends_bind, rule ends_intent [OF X f], use i in simp)
     apply (unfold snapshot_of_intent [OF X] need_def option.case tx_record_simps)
     apply (intro ends_bind ends_return ends_then ends_guard ends_record_name [OF id] in_stages reads)
    using v excl apv intent_directories [of X] pend finl rest by (auto simp del: tx_record_simps phase_simps)
qed

section \<open>Temporary files\<close>

definition without :: "string \<Rightarrow> string list \<Rightarrow> view \<Rightarrow> view" where
  "without d xs v = (\<lambda>e y. if e = d \<and> y \<in> set xs then None else v e y)"

lemma ends_clean:
  assumes d: "root_of a d" and step: "\<And>w x. I w \<Longrightarrow> ok x \<Longrightarrow> I (set_file d x None w)"
    and xs: "distinct xs" "\<forall>x \<in> set xs. ok x \<and> (\<exists>n. v d x = Some n \<and> safe_node n)" and v: "I v"
  shows "ends crash a (clean_temporaries ok d xs) (\<lambda>_ w. w = without d xs v \<and> I w) (\<lambda>_ w. crash \<and> I w) v"
proof -
  have each: "ends crash a (each_x (clean_temporary ok d) xs) (\<lambda>_ w. w = without d xs v \<and> I w) (\<lambda>_ w. crash \<and> I w) v"
    using xs v
  proof (induction xs arbitrary: v)
    case Nil
    then show ?case by (auto intro!: ends_return simp: without_def fun_eq_iff)
  next
    case (Cons x xs)
    obtain n where n: "v d x = Some n" "safe_node n" and x: "ok x" using Cons.prems(2) by auto
    have w: "without d xs (set_file d x None v) = without d (x # xs) v" by (auto simp: without_def fun_eq_iff)
    have IH: "ends crash a (each_x (clean_temporary ok d) xs) (\<lambda>_ w. w = without d (x # xs) v \<and> I w) (\<lambda>_ w. crash \<and> I w) (set_file d x None v)"
    proof -
      have "\<forall>y \<in> set xs. ok y \<and> (\<exists>n. set_file d x None v d y = Some n \<and> safe_node n)" using Cons.prems(1,2) by auto
      moreover have "distinct xs" using Cons.prems(1) by simp
      ultimately show ?thesis unfolding w [symmetric] by (intro Cons.IH step [OF Cons.prems(3) x])
    qed
    have "ends crash a (clean_temporary ok d x) (\<lambda>_ w. w = set_file d x None v) (\<lambda>_ w. crash \<and> I w) v"
      unfolding clean_temporary_def
      by (intro ends_then ends_guard ends_bind ends_os_as ends_stat ends_unlink [OF d]) (use n x Cons.prems(3) in auto)
    then show ?case unfolding each_x.simps by (rule ends_then [OF ends_mono]) (use IH in auto)
  qed
  show ?thesis unfolding clean_temporaries_def
    by (rule ends_then, rule ends_mono [OF each]) (auto intro!: ends_when ends_fsync)
qed

lemma without_simps:
  "e \<noteq> d \<or> y \<notin> set xs \<Longrightarrow> without d xs v e y = v e y"
  by (auto simp: without_def)

section \<open>The names of the records\<close>

lemma ends_with_prefix: "length x \<le> length y \<Longrightarrow> ends_with x (p @ y) = ends_with x y"
  by (simp add: ends_with_def)

lemma tx_file_ends:
  "st \<in> set STAGES \<Longrightarrow> ends_with ''.intent.json'' (tx_file X st) \<longleftrightarrow> st = ''intent''"
  "ends_with (''.'' @ st @ ''.json'') (tx_file X st)"
proof -
  have *: "tx_file X st = (''ecpa-'' @ tx_id X) @ (''.'' @ st @ ''.json'')" by (simp add: tx_file_def record_file_def)
  show "ends_with (''.'' @ st @ ''.json'') (tx_file X st)" by (subst *) (rule ends_with_append)
  assume "st \<in> set STAGES"
  then have "st = ''intent'' \<or> st = ''applied'' \<or> st = ''finalized'' \<or> st = ''restored'' \<or> st = ''blocked''"
    by (simp add: STAGES_def)
  then show "ends_with ''.intent.json'' (tx_file X st) \<longleftrightarrow> st = ''intent''"
    unfolding tx_file_def record_file_def by (elim disjE) (simp_all add: ends_with_def)
qed

lemma tx_file_id: "tx_ok X \<Longrightarrow> hd (split_dots (drop 5 (tx_file X st))) = tx_id X"
  using hex_no_dot [of "tx_id X"] by (simp add: tx_file_def record_file_def split_dots_first tx_ok_def id_ok_def)

lemma filter_single: "distinct xs \<Longrightarrow> (\<And>x. x \<in> set xs \<Longrightarrow> P x \<longleftrightarrow> x = c) \<Longrightarrow> filter P xs = (if c \<in> set xs then [c] else [])"
  by (induction xs) (auto simp: filter_empty_conv)

lemma record_names_iff: "x \<in> set (transaction_names xs) \<longleftrightarrow> x \<in> set xs \<and> record_like x"
  by (auto simp: transaction_names_def record_like_def)

lemma intents_of:
  assumes n: "names_ok X v" and xs: "distinct xs" "\<And>x. x \<in> set xs \<Longrightarrow> v (quarantine_of X) x \<noteq> None"
  shows "intent_names xs = (if tx_file X ''intent'' \<in> set xs then [tx_file X ''intent''] else [])"
proof -
  have "(ends_with ''.intent.json'' x \<and> starts_with ''ecpa-'' x \<and> ends_with ''.json'' x) \<longleftrightarrow> x = tx_file X ''intent''" if x: "x \<in> set xs" for x
  proof
    assume a: "ends_with ''.intent.json'' x \<and> starts_with ''ecpa-'' x \<and> ends_with ''.json'' x"
    then have "record_like x" by (simp add: record_like_def)
    then obtain st where "st \<in> set STAGES" "x = tx_file X st" using n xs(2) [OF x] by (auto simp: names_ok_def)
    then show "x = tx_file X ''intent''" using a tx_file_ends(1) by auto
  next
    assume "x = tx_file X ''intent''"
    then show "ends_with ''.intent.json'' x \<and> starts_with ''ecpa-'' x \<and> ends_with ''.json'' x"
      using tx_file_ends(1) [OF in_stages(1), of X] tx_file_simps(1) [of X "''intent''"] by (auto simp: record_like_def)
  qed
  then show ?thesis unfolding intent_names_def transaction_names_def filter_filter
    by (intro filter_single [OF xs(1)]) auto
qed

lemma ends_check_names:
  assumes X: "tx_ok X" and p: "phase_ok p" and v: "tx_inv X p v"
    and xs: "distinct xs" "\<And>x. x \<in> set xs \<Longrightarrow> v (quarantine_of X) x \<noteq> None" and i: "ph_intent (phase_of X v) \<Longrightarrow> tx_file X ''intent'' \<in> set xs"
    and Q: "Q () v"
  shows "ends crash a (check_record_names xs) Q R v"
proof -
  have n: "names_ok X v" and f: "files_ok X v" using v by (simp_all add: tx_inv_def)
  have st: "\<exists>st \<in> set STAGES. x = tx_file X st" if "x \<in> set (transaction_names xs)" for x
    using that n xs(2) by (auto simp: record_names_iff names_ok_def)
  have int: "tx_file X ''intent'' \<in> set (intent_names xs)" if x: "x \<in> set (transaction_names xs)" for x
  proof -
    obtain st where s: "st \<in> set STAGES" "x = tx_file X st" using st [OF x] by blast
    have "v (quarantine_of X) (tx_file X st) \<noteq> None" using x s(2) xs(2) by (simp add: record_names_iff)
    then have "ph_intent (phase_of X v)"
      using inv_phase [OF v p] s(1) slots(6) [OF f] by (auto simp: phase_ok_def STAGES_def)
    then show ?thesis using i intents_of [OF n xs] by simp
  qed
  have id: "id_ok (tx_id X)" using X by (simp add: tx_ok_def)
  have each: "ends crash a (each_x (check_record_name (intent_names xs)) ys) Q R v" if "set ys \<subseteq> set (transaction_names xs)" for ys
    using that
  proof (induction ys)
    case Nil
    then show ?case using Q by (auto intro: ends_return)
  next
    case (Cons y ys)
    then obtain s where "y = tx_file X s" using st by auto
    then have y: "hd (split_dots (drop 5 y)) = tx_id X" using tx_file_id [OF X] by simp
    have "record_file (tx_id X) ''intent'' \<in> set (intent_names xs)" using int [of y] Cons.prems by (simp add: tx_file_def)
    then have "ends crash a (check_record_name (intent_names xs) y) (\<lambda>_ w. w = v) R v"
      unfolding check_record_name_def y by (intro ends_bind ends_record_name [OF id] ends_guard) auto
    then show ?case using Cons unfolding each_x.simps by (intro ends_then) (auto elim!: ends_mono)
  qed
  show ?thesis unfolding check_record_names_def
    by (intro ends_then ends_guard each) (use st tx_file_ends(2) in \<open>fastforce simp: list_all_iff list_ex_iff\<close>)+
qed

section \<open>Reconciliation\<close>

definition reconciled :: "transaction \<Rightarrow> phase \<Rightarrow> string list \<times> string list \<Rightarrow> view \<Rightarrow> bool" where
  "reconciled X p r w \<longleftrightarrow>
     r = ([], []) \<and> tx_inv X p w \<and> \<not> ph_intent (phase_of X w)
   \<or> r = ([tx_id X], []) \<and> settled X p True w
   \<or> r = ([], [tx_id X]) \<and> settled X p False w"

lemma reconciled_inv: "reconciled X p r w \<Longrightarrow> tx_inv X p w"
  by (auto simp: reconciled_def settled_def)

lemma ends_settle_all:
  assumes X: "tx_ok X" and p: "phase_ok p" and v: "tx_inv X p v" and nt: "crash \<or> no_temps X v"
    and xs: "xs = (if ph_intent (phase_of X v) then [tx_file X ''intent''] else [])"
  shows "ends crash (tx_args X) (settle_all (tx_env X) (tx_args X) xs) (reconciled X p) (\<lambda>_ w. crash \<and> tx_inv X p w) v"
proof (cases "ph_intent (phase_of X v)")
  case False
  then show ?thesis using v xs by (auto simp: reconciled_def simp del: phase_simps intro!: ends_return)
next
  case True
  have id: "id_ok (tx_id X)" using X by (simp add: tx_ok_def)
  have "xs = [tx_file X ''intent'']" using xs True by (simp del: phase_simps)
  then show ?thesis
    by (simp only: settle_all.simps) (rule ends_bind, rule ends_mono [OF ends_settle [OF X p v True nt]],
      auto intro!: ends_bind ends_return simp: intent_id [OF id, simplified] Let_def reconciled_def)
qed

lemma inv_without:
  assumes X: "tx_ok X" and v: "tx_inv X p v"
  shows "core_same X v (without (source_of X) (filter (starts_with FENCE_TEMP) xs) v)"
    "core_same X v (without (quarantine_of X) (filter (starts_with TRANSACTION_TEMP) xs) v)"
proof -
  have "\<not> starts_with FENCE_TEMP (tx_name X)" "\<not> starts_with TRANSACTION_TEMP (tx_name X)"
    using tx_name_not_dot [OF X _ temp_dots(1)] tx_name_not_dot [OF X _ temp_dots(2)] by blast+
  moreover have "\<not> starts_with TRANSACTION_TEMP (tx_file X st)" for st using record_not_temp [of "tx_file X st"] by simp
  ultimately show "core_same X v (without (source_of X) (filter (starts_with FENCE_TEMP) xs) v)"
    "core_same X v (without (quarantine_of X) (filter (starts_with TRANSACTION_TEMP) xs) v)"
    using tx_roots [OF X] temp_apart(5) [of X] by (auto simp: core_same_def without_def)
qed

lemma tx_args_eta: "\<lparr>sa_source = source_of X, sa_quarantine = quarantine_of X, sa_source_identity = sa_source_identity (tx_args X),
    sa_quarantine_identity = sa_quarantine_identity (tx_args X), sa_max = sa_max (tx_args X)\<rparr> = tx_args X"
  by (simp add: source_of_def quarantine_of_def)

lemma ends_reconcile_locked:
  assumes X: "tx_ok X" and p: "phase_ok p" and v: "tx_inv X p v"
  shows "ends crash (tx_args X) (reconcile_locked (tx_env X) (source_of X) (quarantine_of X) (sa_source_identity (tx_args X))
      (sa_quarantine_identity (tx_args X)) (sa_max (tx_args X))) (reconciled X p) (\<lambda>_ w. crash \<and> tx_inv X p w) v"
proof -
  let ?J = "tx_inv X p"
  have dev: "device_of s (source_of X) = device_of s (quarantine_of X)" if "sound crash (tx_args X) s" for s
    using sound_device [OF that tx_root(3)] sound_device [OF that tx_root(4)] X by (auto simp: tx_ok_def one_device_def)
  have temps: "v (source_of X) x = Some n \<Longrightarrow> starts_with FENCE_TEMP x \<Longrightarrow> fence_temp_ok x \<and> safe_node n"
      "v (quarantine_of X) x = Some n \<Longrightarrow> starts_with TRANSACTION_TEMP x \<Longrightarrow> transaction_temp_ok x \<and> safe_node n"
    if "?J v" for v x n using that by (simp_all add: tx_inv_def names_ok_def)
  have clean1: "ends crash (tx_args X) (clean_temporaries fence_temp_ok (source_of X) (filter (starts_with FENCE_TEMP) xs))
      (\<lambda>_ w. ?J w) (\<lambda>_ w. crash \<and> ?J w) v" if "distinct xs" "set xs = dom (v (source_of X))" for xs
  proof (rule ends_mono [OF ends_clean [where I = ?J and v = v and a = "tx_args X" and crash = crash]])
    show "\<forall>x \<in> set (filter (starts_with FENCE_TEMP) xs). fence_temp_ok x \<and> (\<exists>n. v (source_of X) x = Some n \<and> safe_node n)"
      using temps(1) [OF v] that(2) by (auto simp: domIff)
  qed (use that v inv_temp(4) [OF X] in auto)
  have clean2: "ends crash (tx_args X) (clean_temporaries transaction_temp_ok (quarantine_of X) (filter (starts_with TRANSACTION_TEMP) xs))
      (\<lambda>_ u. ?J u \<and> u = without (quarantine_of X) (filter (starts_with TRANSACTION_TEMP) xs) w) (\<lambda>_ w. crash \<and> ?J w) w"
    if "distinct xs" "set xs = dom (w (quarantine_of X))" "?J w" for xs w
  proof (rule ends_mono [OF ends_clean [where I = ?J and v = w and a = "tx_args X" and crash = crash]])
    show "\<forall>x \<in> set (filter (starts_with TRANSACTION_TEMP) xs). transaction_temp_ok x \<and> (\<exists>n. w (quarantine_of X) x = Some n \<and> safe_node n)"
      using temps(2) [OF that(3)] that(2) by (auto simp: domIff)
  qed (use that inv_temp(2) [OF X] in auto)
  have rest: "ends crash (tx_args X) (then_x (check_record_names (filter (\<lambda>x. x \<notin> set (filter (starts_with TRANSACTION_TEMP) xs)) xs))
      (settle_all (tx_env X) (tx_args X) (intent_names (filter (\<lambda>x. x \<notin> set (filter (starts_with TRANSACTION_TEMP) xs)) xs))))
      (reconciled X p) (\<lambda>_ w. crash \<and> ?J w) u"
    if xs: "distinct xs" "set xs = dom (w (quarantine_of X))"
      and u: "?J u" "u = without (quarantine_of X) (filter (starts_with TRANSACTION_TEMP) xs) w" for xs u w
  proof -
    let ?ys = "filter (\<lambda>x. x \<notin> set (filter (starts_with TRANSACTION_TEMP) xs)) xs"
    have ys: "set ?ys = dom (u (quarantine_of X))" using xs(2) unfolding u(2) by (auto simp: without_def split: if_splits)
    have nt: "no_temps X u" using xs(2) unfolding u(2) no_temps_def without_def by (auto simp: domIff)
    have d: "distinct ?ys" using xs(1) by simp
    have i: "tx_file X ''intent'' \<in> set ?ys \<longleftrightarrow> ph_intent (phase_of X u)" unfolding ys by (auto simp: domIff)
    have n: "names_ok X u" using u(1) by (simp add: tx_inv_def)
    have mem: "u (quarantine_of X) x \<noteq> None" if "x \<in> set ?ys" for x using that unfolding ys by (simp add: domIff)
    have names: "intent_names ?ys = (if ph_intent (phase_of X u) then [tx_file X ''intent''] else [])"
      using intents_of [OF n d mem] i by (simp del: phase_simps set_filter)
    show ?thesis
    proof (rule ends_then, rule ends_check_names [OF X p u(1) d mem])
      show "ph_intent (phase_of X u) \<Longrightarrow> tx_file X ''intent'' \<in> set ?ys" using i by blast
      show "ends crash (tx_args X) (settle_all (tx_env X) (tx_args X) (intent_names ?ys)) (reconciled X p) (\<lambda>_ w. crash \<and> ?J w) u"
        by (rule ends_settle_all [OF X p u(1) _ names]) (simp add: nt)
    qed
  qed
  show ?thesis unfolding reconcile_locked_def Let_def
    apply (rule ends_bind, rule ends_open_root, simp, rule ends_bind, rule ends_open_root, simp,
        rule ends_bind, rule ends_gets_id, rule ends_then, rule ends_guard, rule ends_bind, rule ends_listdir, simp,
        rule ends_then, rule ends_mono [OF clean1], simp, simp, rule ends_bind, rule ends_listdir, simp,
        rule ends_then, rule ends_mono [OF clean2], simp, simp, simp)
    using v X dev rest by (auto simp: tx_args_eta tx_ok_def)
qed

lemma ends_reconcile_crash:
  assumes X: "tx_ok X" and p: "phase_ok p" and v: "tx_inv X p v"
  shows "ends True (tx_args X) (reconcile_quarantine_transactions (tx_env X) (source_of X) (quarantine_of X) (sa_source_identity (tx_args X))
      (sa_quarantine_identity (tx_args X)) (sa_max (tx_args X)) None) (\<lambda>_. tx_inv X p) (\<lambda>_. tx_inv X p) v"
proof -
  have free: "free_lock v (source_of X)" using v by (simp add: tx_inv_def names_ok_def)
  show ?thesis unfolding reconcile_quarantine_transactions_def with_lease_def option.case
    by (rule ends_bind, rule ends_acquire [OF tx_root(1) free], rule ends_under_lease [OF tx_root(1)], rule ends_mono [OF ends_reconcile_locked [OF X p]])
       (use v inv_temp(5) [OF X v] in \<open>auto dest: reconciled_inv\<close>)
qed

lemma ends_abort:
  assumes X: "tx_ok X" and p: "phase_ok p" and v: "tx_inv X p v"
  shows "ends True (tx_args X) (abort_prepare (tx_env X) (tx_args X)) (\<lambda>_. tx_inv X p) (\<lambda>_. tx_inv X p) v"
proof -
  have free: "free_lock v (source_of X)" using v by (simp add: tx_inv_def names_ok_def)
  have rec: "ends True (tx_args X) (reconcile_quarantine_transactions (tx_env X) (source_of X) (quarantine_of X) (sa_source_identity (tx_args X))
      (sa_quarantine_identity (tx_args X)) (sa_max (tx_args X))
      (Some \<lparr>le_root = source_of X, le_identity = sa_source_identity (tx_args X), le_held = True\<rparr>)) (\<lambda>_. tx_inv X p) (\<lambda>_. tx_inv X p) w"
    if "tx_inv X p w" for w
    unfolding reconcile_quarantine_transactions_def with_lease_def option.case
    by (rule ends_bind, rule ends_return, rule ends_under_lease [OF tx_root(1)], rule ends_mono [OF ends_reconcile_locked [OF X p that]])
       (auto dest: reconciled_inv)
  show ?thesis unfolding abort_prepare_def source_of_def [symmetric] quarantine_of_def [symmetric]
    apply (rule ends_bind, rule ends_gets, rule ends_when, rule ends_bind, rule ends_acquire [OF tx_root(1) free], rule ends_finally,
        rule ends_then, rule ends_mono [OF rec])
    using v inv_temp(5) [OF X v] by (auto intro!: ends_modify ends_close simp: mark_settled_def)
qed

text \<open>Without a crash and with the lock free, reconciliation returns.\<close>

lemma reconcile_returns:
  assumes X: "tx_ok X" and p: "phase_ok p" and s: "sound False (tx_args X) s" "tx_inv X p (entry s)" "source_of X \<notin> set (fs_locks s)"
  shows "\<exists>r t. reconcile_quarantine_transactions (tx_env X) (source_of X) (quarantine_of X) (sa_source_identity (tx_args X))
      (sa_quarantine_identity (tx_args X)) (sa_max (tx_args X)) None s = (Inr r, t) \<and> reconciled X p r (entry t)"
proof -
  have free: "free_lock (entry s) (source_of X)" using s(2) by (simp add: tx_inv_def names_ok_def)
  obtain t where t: "acquire_quarantine_transaction_lease (source_of X) (sa_source_identity (tx_args X)) s
      = (Inr \<lparr>le_root = source_of X, le_identity = sa_source_identity (tx_args X), le_held = True\<rparr>, t)"
      "sound False (tx_args X) t" "with_lock (source_of X) (entry s) (entry t)"
    using acquire_free [OF s(1) tx_root(1) free s(3)] by blast
  note i = inv_temp(5) [OF X s(2) t(3)]
  have "ends False (tx_args X) (finally_x (then_x (require_lease \<lparr>le_root = source_of X, le_identity = sa_source_identity (tx_args X), le_held = True\<rparr>
        (source_of X) (sa_source_identity (tx_args X)))
        (reconcile_locked (tx_env X) (source_of X) (quarantine_of X) (sa_source_identity (tx_args X)) (sa_quarantine_identity (tx_args X)) (sa_max (tx_args X))))
      (when_x (None = (None :: quarantine_lease option)) (close_lease \<lparr>le_root = source_of X, le_identity = sa_source_identity (tx_args X), le_held = True\<rparr>)))
      (reconciled X p) (\<lambda>_ _. False) (entry t)"
    by (rule ends_under_lease [OF tx_root(1)], rule ends_mono [OF ends_reconcile_locked [OF X p i]]) auto
  from endsD [OF this t(2) refl]
  have "wp (reconcile_quarantine_transactions (tx_env X) (source_of X) (quarantine_of X) (sa_source_identity (tx_args X))
      (sa_quarantine_identity (tx_args X)) (sa_max (tx_args X)) None) (\<lambda>r t. sound False (tx_args X) t \<and> reconciled X p r (entry t)) (\<lambda>_ _. False) s"
    unfolding reconcile_quarantine_transactions_def with_lease_def option.case wp_bind wp_run [of "acquire_quarantine_transaction_lease _ _" s, OF t(1)] by simp
  then show ?thesis by (auto simp: wp_def split: prod.splits sum.splits)
qed

section \<open>Acceptance\<close>

lemma ends_read_missing:
  "v d x = None \<Longrightarrow> (\<And>e. R e v) \<Longrightarrow> ends crash a (read_record E d x True) Q R v"
  unfolding read_record_def by (intro ends_bind ends_catch ends_open) (auto intro!: ends_raise)

lemma ends_write_existing:
  assumes X: "tx_ok X" and st: "st \<in> set STAGES" and h: "holds v (quarantine_of X) (tx_file X st) raw" "record_ok raw u'"
    and Q: "\<And>r. Q r v" and R: "\<And>e. R e v"
  shows "ends crash (tx_args X) (write_record (tx_env X) (quarantine_of X) (sa_quarantine_identity (tx_args X)) (tx_id X) st u) Q R v"
proof -
  have id: "id_ok (tx_id X)" using X by (simp add: tx_ok_def)
  have pub: "ends crash (tx_args X) (publish (tx_env X) (quarantine_of X) temp (record_file (tx_id X) st) bytes) Q R v" for temp bytes
    unfolding publish_def
    by (rule ends_bind, rule ends_read_record [OF h [unfolded tx_file_def]])
       (use Q R in \<open>auto simp: same_or_conflict_def intro!: ends_then ends_guard ends_return\<close>)
  show ?thesis unfolding write_record_def Let_def
    by (intro ends_bind ends_record_name [OF id st] ends_then ends_guard ends_open_root ends_token pub) (use R in auto)
qed

lemma ends_required:
  assumes X: "tx_ok X" and st: "st \<in> set STAGES" and slot: "slot v (quarantine_of X) (tx_file X st) (\<lambda>raw. raw = line u)"
    and rec: "record_ok (line u) (canon u)"
    and Q: "v (quarantine_of X) (tx_file X st) \<noteq> None \<Longrightarrow> Q (tx_record X st u) v" and R: "\<And>e. R e v"
  shows "ends crash (tx_args X) (bind_x (read_quarantine_record (tx_env X) (quarantine_of X) (sa_quarantine_identity (tx_args X)) (tx_id X) st True)
     (\<lambda>r. need r AssertErr)) Q R v"
proof -
  have id: "id_ok (tx_id X)" using X by (simp add: tx_ok_def)
  have rd: "ends crash (tx_args X) (read_record (tx_env X) (quarantine_of X) (tx_file X st) True) (\<lambda>r. ends crash (tx_args X) (need r AssertErr) Q R) R v"
  proof (cases "v (quarantine_of X) (tx_file X st)")
    case None
    then show ?thesis by (rule ends_read_missing) (rule R)
  next
    case (Some n)
    then have "holds v (quarantine_of X) (tx_file X st) (line u)" using slot by (auto simp: slot_def)
    then show ?thesis
      by (rule ends_read_record [OF _ rec]) (use Q Some R in \<open>auto simp: need_def tx_record_def tx_file_def intro!: ends_return\<close>)
  qed
  show ?thesis unfolding read_quarantine_record_def
    by (intro ends_bind ends_open_root ends_record_name [OF id st]) (use rd R in \<open>auto simp: tx_file_def\<close>)
qed

lemma ends_write_finalized:
  assumes X: "tx_ok X" and p: "phase_ok p" and v: "tx_inv X p v"
    and ph: "ph_applied (phase_of X v)" "ph_away (phase_of X v)" and c: "is_digest (JStr c)" "valid_process_identity pid" "keys_ok pid"
  shows "ends True (tx_args X) (write_record (tx_env X) (quarantine_of X) (sa_quarantine_identity (tx_args X)) (tx_id X) ''finalized''
      (finalized_value (tx_id X) (intent_key X) (applied_key X) c pid)) (\<lambda>_ w. tx_inv X p w \<and> ph_finalized (phase_of X w)) (\<lambda>_. tx_inv X p) v"
proof (cases "v (quarantine_of X) (tx_file X ''finalized'')")
  case None
  have ok: "phase_ok (phase_of X v)" by (rule inv_phase [OF v p])
  then have o: "phase_open (phase_of X v)" using ph None by (auto simp: phase_ok_def phase_open_def)
  have put: "tx_inv X p (set_file (quarantine_of X) (tx_file X ''finalized'') (Some n) v)"
    if "good_node (tx_finalized X c pid) n" "fits (tx_finalized X c pid)" for n
    by (rule inv_put_record(3) [OF X p v _ _ o ph(2,1)]) (use that c in \<open>auto simp: good_node_def finalized_text_def\<close>)
  have n: "fits (tx_finalized X c pid)" if "good_node (tx_finalized X c pid) n" "int (length (line (tx_finalized X c pid))) \<le> MAX_TRANSACTION_RECORD_BYTES" for n
    using that by (simp add: fits_def)
  show ?thesis
  proof (cases "fits (tx_finalized X c pid)")
    case True
    show ?thesis unfolding tx_finalized_def [symmetric]
      by (rule ends_write_record [OF X in_stages(3)])
         (use v put True None inv_temp(1) [OF X v] tx_records(5) [OF X c(3)] in \<open>auto simp: slot_def\<close>)
  next
    case False
    show ?thesis unfolding tx_finalized_def [symmetric] write_record_def Let_def
      by (rule ends_bind, rule ends_record_name) (use X v False in \<open>auto simp: tx_ok_def fits_def line_def intro!: ends_then ends_guard\<close>)
  qed
next
  case (Some n)
  have f: "files_ok X v" using v by (simp add: tx_inv_def)
  obtain raw where raw: "finalized_text X raw" "holds v (quarantine_of X) (tx_file X ''finalized'') raw"
    using slots(3) [OF f] Some by (auto simp: slot_def)
  then obtain c' p' where "raw = line (tx_finalized X c' p')" "keys_ok p'" "fits (tx_finalized X c' p')" by (auto simp: finalized_text_def)
  then have "record_ok raw (canon (tx_finalized X c' p'))" using tx_records(5) [OF X] by simp
  from ends_write_existing [OF X in_stages(3) raw(2) this] show ?thesis using v Some by auto
qed

lemma ends_finalize_locked:
  assumes X: "tx_ok X" and p: "phase_ok p" and v: "tx_inv X p v" and pid: "keys_ok pid"
  shows "ends True (tx_args X) (finalize_locked (tx_env X) (quarantine_of X) (sa_quarantine_identity (tx_args X)) (tx_id X) (source_of X)
      (sa_source_identity (tx_args X)) ad c pid) (\<lambda>_ w. tx_inv X p w \<and> ph_finalized (phase_of X w)) (\<lambda>_. tx_inv X p) v"
proof -
  let ?Q = "\<lambda>_ w. tx_inv X p w \<and> ph_finalized (phase_of X w)"
  have f: "files_ok X v" using v by (simp add: tx_inv_def)
  have id: "id_ok (tx_id X)" using X by (simp add: tx_ok_def)
  have h: "fe_hash (tx_env X) = tx_hash X" by (simp add: tx_hash_def)
  have len: "0 < max (int (length (qj_raw (tx_snapshot X)))) 1" "journal_node (max (int (length (qj_raw (tx_snapshot X)))) 1) (tx_node X)"
    using X by (auto simp: tx_ok_def journal_node_def tx_snapshot_def)
  have fin: "ends True (tx_args X) (sink_as TransactionErr (snapshot_journal (quarantine_of X) (qj_journal (tx_snapshot X))
          (sa_quarantine_identity (tx_args X)) (max (int (length (qj_raw (tx_snapshot X)))) 1))) (\<lambda>retained. ends True (tx_args X)
        (then_x (guard_x (retained = tx_snapshot X) TransactionErr)
        (bind_x (open_journal_root (source_of X) (Some (sa_source_identity (tx_args X)))) (\<lambda>source.
         then_x (read_source_fence (tx_env X) source (tx_id X) (intent_key X) (tx_snapshot X) True)
         (bind_x (file_exists source (qj_journal (tx_snapshot X))) (\<lambda>reappeared.
          then_x (when_x reappeared
            (then_x (mark_blocked (tx_env X) (quarantine_of X) (sa_quarantine_identity (tx_args X)) (tx_id X) (intent_key X) (Some (applied_key X)) None ''source-replacement-collision'')
            (raise_x TransactionErr)))
          (write_record (tx_env X) (quarantine_of X) (sa_quarantine_identity (tx_args X)) (tx_id X) ''finalized''
            (finalized_value (tx_id X) (intent_key X) (applied_key X) c pid))))))) ?Q (\<lambda>_. tx_inv X p)) (\<lambda>_. tx_inv X p) v"
    if a: "ph_applied (phase_of X v)" and c: "is_digest (JStr c)" "valid_process_identity pid"
  proof (cases "v (source_of X) (tx_name X)")
    case None
    have pl: "v (quarantine_of X) (tx_name X) = Some (tx_node X)" using files_place(1) [OF f] None by simp
    have "ph_fence (phase_of X v)" using inv_phase [OF v p] None by (simp add: phase_ok_def)
    then have hf: "holds v (source_of X) (tx_fence_file X) (line (tx_fence X))" using slots(5) [OF f] by (auto simp: slot_def)
    have w: "ph_away (phase_of X v)" using None by simp
    have j: "qj_journal (tx_snapshot X) = tx_name X" by (simp add: tx_snapshot_def)
    show ?thesis
      by (rule ends_sink_as, rule ends_tx_snapshot [of X _ _ v, OF X tx_root(2) pl len],
          intro ends_then ends_guard ends_bind ends_open_root ends_read_fence [OF X hf] ends_exists ends_when ends_write_finalized [OF X p v a w c pid])
         (use v None in \<open>auto simp: j\<close>)
  next
    case (Some n)
    have "v (quarantine_of X) (qj_journal (tx_snapshot X)) = None" using files_place(2) [OF f] Some by (auto simp: tx_snapshot_def)
    then show ?thesis by (intro ends_sink_as ends_snapshot_missing [of _ _ _ v]) (use v in auto)
  qed
  show ?thesis unfolding finalize_locked_def h
    apply (rule ends_bind, rule ends_required [OF X in_stages(1) slots(1) [OF f] tx_records(1) [OF X]],
        rule ends_bind, rule ends_required [OF X in_stages(2) slots(2) [OF f] tx_records(3) [OF X]])
      apply (unfold snapshot_of_intent [OF X] need_def option.case tx_record_simps read_quarantine_record_def)
      apply (intro ends_bind ends_return ends_then ends_guard ends_open_root ends_record_name [OF id] in_stages tx_root
        ends_restored [OF X f] ends_blocked [OF f] fin)
    using v by auto
qed

lemma ends_finalize:
  assumes X: "tx_ok X" and p: "phase_ok p" and v: "tx_inv X p v" and pid: "keys_ok pid"
  shows "ends True (tx_args X) (finalize_quarantine_transaction (tx_env X) (quarantine_of X) (sa_quarantine_identity (tx_args X)) (tx_id X) (source_of X)
      (sa_source_identity (tx_args X)) ad c pid None) (\<lambda>_ w. tx_inv X p w \<and> ph_finalized (phase_of X w)) (\<lambda>_. tx_inv X p) v"
proof -
  have free: "free_lock v (source_of X)" using v by (simp add: tx_inv_def names_ok_def)
  show ?thesis unfolding finalize_quarantine_transaction_def with_lease_def option.case
    by (rule ends_bind, rule ends_acquire [OF tx_root(1) free], rule ends_under_lease [OF tx_root(1)], rule ends_finalize_locked [OF X p _ pid])
       (use v inv_temp(5) [OF X v] in auto)
qed

end
