(* ===== verification/Quarantine_Theorems.thy ===== *)
theory Quarantine_Theorems
  imports Quarantine_Settle
begin

text \<open>
  The properties of the quarantine of a journal. The first group holds for one transaction whose process may
  die at any system call and be started again, any number of times; the second for every schedule of
  failures, short writes and crashes.
\<close>

section \<open>The size of records\<close>

text \<open>A bound on the length of the canonical text of a value.\<close>

fun text_bound :: "json \<Rightarrow> nat" where
  "text_bound JNull = 4"
| "text_bound (JBool b) = 5"
| "text_bound (JInt i) = 1 + nat \<bar>i\<bar> + 1"
| "text_bound (JStr s) = 6 * length s + 2"
| "text_bound (JArr xs) = 2 + sum_list (map (\<lambda>x. text_bound x + 1) xs)"
| "text_bound (JObj kvs) = 2 + sum_list (map (\<lambda>(k, v). 6 * length k + 4 + text_bound v) kvs)"

lemma escape_length: "length (escape_char a c) \<le> 6"
  by (simp add: escape_char_def Let_def hex4_def)

lemma dumps_string_length: "length (dumps_string a s) \<le> 6 * length s + 2"
proof -
  have "length (concat (map (escape_char a) s)) \<le> 6 * length s"
    using escape_length by (induction s) (auto intro: add_mono)
  then show ?thesis by (simp add: dumps_string_def)
qed

lemma show_nat_length: "length (show_nat n) \<le> n + 1"
proof (induction n rule: show_nat.induct)
  case (1 n)
  show ?case
  proof (cases "n < 10")
    case True
    then show ?thesis by (subst show_nat.simps) simp
  next
    case False
    then have "length (show_nat (n div 10)) \<le> n div 10 + 1" using 1 by simp
    moreover have "n div 10 + 2 \<le> n + 1" using False by linarith
    ultimately show ?thesis using False by (subst show_nat.simps) simp
  qed
qed

lemma join_length: "length (join '','' xs) \<le> sum_list (map (\<lambda>x. length x + 1) xs)"
  by (induction xs rule: induct_list012) auto

lemma sum_list_sort: "sum_list (map f (sort_key g xs)) = (sum_list (map f xs) :: nat)"
proof -
  have "sum_list ys = sum_mset (mset ys)" for ys :: "nat list" by (simp add: sum_mset_sum_list)
  then show ?thesis by simp
qed

lemma dumps_length: "length (dumps a v) \<le> text_bound v"
proof (induction v)
  case (JInt i)
  then show ?case using show_nat_length [of "nat i"] show_nat_length [of "nat (- i)"] by (auto simp: show_int_def)
next
  case (JStr s)
  then show ?case using dumps_string_length [of a s] by simp
next
  case (JArr xs)
  have "sum_list (map (\<lambda>x. length (dumps a x) + 1) xs) \<le> sum_list (map (\<lambda>x. text_bound x + 1) xs)"
    using JArr by (intro sum_list_mono) auto
  then show ?case using join_length [of "map (dumps a) xs"] by (simp add: comp_def)
next
  case (JObj kvs)
  let ?f = "\<lambda>(k, v). dumps_string a k @ '':'' @ v"
  have "sum_list (map (\<lambda>x. length x + 1) (map ?f (sort_key fst (map (\<lambda>(k, v). (k, dumps a v)) kvs))))
      = sum_list (map (\<lambda>kv. length (?f kv) + 1) (map (\<lambda>(k, v). (k, dumps a v)) kvs))"
    by (simp only: map_map comp_def sum_list_sort)
  also have "\<dots> = sum_list (map (\<lambda>(k, v). length (dumps_string a k) + 2 + length (dumps a v)) kvs)"
    by (simp add: comp_def case_prod_unfold add.commute add.left_commute)
  also have "\<dots> \<le> sum_list (map (\<lambda>(k, v). 6 * length k + 4 + text_bound v) kvs)"
    using JObj dumps_string_length [of a] by (intro sum_list_mono) (fastforce intro: add_mono)
  finally show ?case using join_length [of "map ?f (sort_key fst (map (\<lambda>(k, v). (k, dumps a v)) kvs))"] by simp
qed auto

lemma utf8_length: "length (utf8 s) \<le> 2 * length s"
  unfolding utf8_def by (induction s) (auto simp: Let_def)

lemma fits_bound:
  assumes "2 * text_bound v < 2000000"
  shows "fits v"
  using assms utf8_length [of "dumps False v"] dumps_length [of False v]
  by (simp add: fits_def line_def canonical_bytes_def MAX_TRANSACTION_RECORD_BYTES_def)

section \<open>A transaction to start with\<close>

definition demo_env :: file_env where
  "demo_env = \<lparr>fe_hash = (\<lambda>_. replicate 64 CHR ''0''), fe_pid = 7, fe_token = (\<lambda>_. replicate 32 CHR ''a'')\<rparr>"

definition demo_args :: settle_args where
  "demo_args = \<lparr>sa_source = ''/s'', sa_quarantine = ''/q'', sa_source_identity = (1, 10), sa_quarantine_identity = (1, 11), sa_max = 100\<rparr>"

definition demo_node :: file_node where
  "demo_node = \<lparr>fn_device = 1, fn_inode = 20, fn_regular = True, fn_owned = True, fn_mode = 384, fn_raw = [CHR 0x7B, CHR 0x7D, CHR 0x0A]\<rparr>"

definition demo_tx :: transaction where
  "demo_tx = \<lparr>tx_env = demo_env, tx_args = demo_args, tx_id = replicate 64 CHR ''0'', tx_binding = JObj [],
     tx_name = ''j.jsonl'', tx_node = demo_node\<rparr>"

definition demo_files :: files where
  "demo_files = \<lparr>fs_dir = (\<lambda>d. if d = ''/s'' then Some \<lparr>dr_canonical = True, dr_private = True, dr_identity = (1, 10), dr_entries = [(''j.jsonl'', demo_node)]\<rparr>
       else if d = ''/q'' then Some \<lparr>dr_canonical = True, dr_private = True, dr_identity = (1, 11), dr_entries = []\<rparr> else None),
     fs_locks = [], fs_next = 30, fs_count = 0, fs_outcomes = [], fs_settled = False\<rparr>"

lemma demo_tx_ok: "tx_ok demo_tx"
proof -
  have d: "length (q_digest (tx_hash demo_tx) raw) = 71" for raw
    by (simp add: q_digest_def tx_hash_def demo_tx_def demo_env_def)
  note s = tx_snapshot_def node_snapshot_def demo_tx_def demo_args_def demo_node_def
  have b: "length (b64_digits n) = 4" for n by (simp add: b64_digits_def)
  have i: "length (intent_key demo_tx) = 71" "length (applied_key demo_tx) = 71"
    unfolding intent_key_def applied_key_def by (rule d)+
  have "fits (tx_intent demo_tx)"
    by (rule fits_bound, simp add: tx_intent_def intent_value_def directory_value_def d, simp add: s b)
  moreover have "fits (tx_fence demo_tx)" by (rule fits_bound, simp add: tx_fence_def fence_value_def d i, simp add: s)
  moreover have "fits (tx_applied demo_tx)" by (rule fits_bound, simp add: tx_applied_def applied_value_def d i, simp add: s)
  moreover have "fits (tx_restored demo_tx ap r)" if "r \<in> set RESTORE_REASONS" for ap r
    by (rule fits_bound) (use that i in \<open>auto simp: tx_restored_def terminal_value_def opt_digest_def RESTORE_REASONS_def RESTORED_SCHEMA_def s\<close>)
  moreover have "id_ok (tx_id demo_tx)" by (simp add: demo_tx_def id_ok_def list_all_iff is_hex_def)
  moreover have "hex_of_length 32 (fe_token (tx_env demo_tx) n)" for n
    by (simp add: demo_tx_def demo_env_def hex_of_length_def list_all_iff is_hex_def)
  ultimately show ?thesis
    by (simp add: tx_ok_def list_all_iff)
       (simp add: demo_tx_def demo_env_def demo_args_def demo_node_def source_of_def quarantine_of_def one_device_def journal_name_ok_def
          ends_with_def starts_with_def journal_node_def complete_lines_def quarantine_transaction_id_def tx_hash_def)
qed

section \<open>Runs of a transaction with crashes\<close>

text \<open>A new process: the schedule of its system calls, the locks others hold, its variable \<open>settled\<close>.\<close>

definition restart :: "outcome list \<Rightarrow> string list \<Rightarrow> bool \<Rightarrow> files \<Rightarrow> files" where
  "restart os ls b s = s\<lparr>fs_outcomes := os, fs_locks := ls, fs_settled := b\<rparr>"

definition tx_prepare :: "transaction \<Rightarrow> durable_record file_exec" where
  "tx_prepare X = prepare_quarantine_transaction (tx_env X) (quarantine_of X) (sa_quarantine_identity (tx_args X)) (tx_id X)
     (tx_binding X) (sa_source_identity (tx_args X)) (tx_snapshot X)"

definition tx_commit :: "transaction \<Rightarrow> unit file_exec \<Rightarrow> unit file_exec" where
  "tx_commit X check = commit_fault (tx_env X) (tx_args X) (tx_id X) (intent_key X) (tx_snapshot X) check"

definition tx_accept :: "transaction \<Rightarrow> string \<Rightarrow> string \<Rightarrow> json \<Rightarrow> durable_record file_exec" where
  "tx_accept X ad c pid = finalize_quarantine_transaction (tx_env X) (quarantine_of X) (sa_quarantine_identity (tx_args X)) (tx_id X)
     (source_of X) (sa_source_identity (tx_args X)) ad c pid None"

definition tx_reconcile :: "transaction \<Rightarrow> (string list \<times> string list) file_exec" where
  "tx_reconcile X = reconcile_quarantine_transactions (tx_env X) (source_of X) (quarantine_of X) (sa_source_identity (tx_args X))
     (sa_quarantine_identity (tx_args X)) (sa_max (tx_args X)) None"

text \<open>One operation of the transaction, in a process that may die at any system call; the commit follows a
  prepare that returned.\<close>

inductive tx_run :: "transaction \<Rightarrow> files \<Rightarrow> files \<Rightarrow> bool" for X where
  run_prepare: "Fail \<notin> set os \<Longrightarrow> tx_run X s (snd (tx_prepare X (restart os ls b s)))"
| run_commit: "Fail \<notin> set os \<Longrightarrow> ph_intent (phase_of X (entry s)) \<Longrightarrow> leaves_files X check \<Longrightarrow>
    tx_run X s (snd (tx_commit X check (restart os ls b s)))"
| run_abort: "Fail \<notin> set os \<Longrightarrow> tx_run X s (snd (abort_prepare (tx_env X) (tx_args X) (restart os ls b s)))"
| run_accept: "Fail \<notin> set os \<Longrightarrow> keys_ok pid \<Longrightarrow> tx_run X s (snd (tx_accept X ad c pid (restart os ls b s)))"
| run_reconcile: "Fail \<notin> set os \<Longrightarrow> tx_run X s (snd (tx_reconcile X (restart os ls b s)))"

text \<open>The journal is in the source directory; there is no file of the transaction and no temporary file yet.\<close>

definition tx_start :: "transaction \<Rightarrow> files \<Rightarrow> bool" where
  "tx_start X s \<longleftrightarrow> rooted (source_of X) (True, True, sa_source_identity (tx_args X)) s
     \<and> rooted (quarantine_of X) (True, True, sa_quarantine_identity (tx_args X)) s
     \<and> distinct_names s (source_of X) \<and> distinct_names s (quarantine_of X)
     \<and> entry s (source_of X) (tx_name X) = Some (tx_node X) \<and> entry s (source_of X) (tx_fence_file X) = None
     \<and> list_all (\<lambda>(x, n). \<not> starts_with FENCE_TEMP x \<and> (x = QUARANTINE_LOCK \<longrightarrow> safe_node n)) (dir_entries s (source_of X))
     \<and> list_all (\<lambda>(x, n). x \<noteq> tx_name X \<and> \<not> record_like x \<and> \<not> starts_with TRANSACTION_TEMP x) (dir_entries s (quarantine_of X))"

definition tx_good :: "transaction \<Rightarrow> phase \<Rightarrow> files \<Rightarrow> bool" where
  "tx_good X p s \<longleftrightarrow> sound True (tx_args X) (s\<lparr>fs_outcomes := []\<rparr>) \<and> tx_inv X p (entry s)"

lemma tx_good_restart:
  "tx_good X p s \<Longrightarrow> Fail \<notin> set os \<Longrightarrow> sound True (tx_args X) (restart os ls b s)" "entry (restart os ls b s) = entry s"
  "tx_good X p s \<Longrightarrow> sound False (tx_args X) (restart [] ls b s)"
  by (auto simp: tx_good_def sound_def restart_def distinct_names_def)

lemma sound_good: "sound True (tx_args X) t \<Longrightarrow> tx_inv X p (entry t) \<Longrightarrow> tx_good X p t"
  by (simp add: tx_good_def sound_def distinct_names_def)

lemma ends_good:
  assumes "ends True (tx_args X) m (\<lambda>_. tx_inv X p) (\<lambda>_. tx_inv X p) (entry s)" and "tx_good X p s" and "Fail \<notin> set os"
  shows "tx_good X p (snd (m (restart os ls b s)))"
proof -
  have "wp m (\<lambda>_ t. sound True (tx_args X) t \<and> tx_inv X p (entry t)) (\<lambda>_ t. sound True (tx_args X) t \<and> tx_inv X p (entry t)) (restart os ls b s)"
    by (rule endsD [OF assms(1) tx_good_restart(1) [OF assms(2,3)] tx_good_restart(2)])
  then show ?thesis unfolding wp_snd by (auto intro: sound_good)
qed

lemma run_good:
  assumes X: "tx_ok X" and p: "phase_ok p" and s: "tx_good X p s" and r: "tx_run X s t"
  shows "tx_good X p t"
proof -
  have i: "tx_inv X p (entry s)" using s by (simp add: tx_good_def)
  from r show ?thesis
  proof cases
    case (run_prepare os ls b)
    show ?thesis unfolding run_prepare(1) tx_prepare_def
      by (rule ends_good [OF ends_mono [OF ends_prepare [OF X p i]] s run_prepare(2)]) auto
  next
    case (run_commit os check ls b)
    show ?thesis unfolding run_commit(1) tx_commit_def
      by (rule ends_good [OF ends_mono [OF ends_commit_fault [OF X p run_commit(4) i run_commit(3)]] s run_commit(2)]) auto
  next
    case (run_abort os ls b)
    show ?thesis unfolding run_abort(1) by (rule ends_good [OF ends_abort [OF X p i] s run_abort(2)])
  next
    case (run_accept os pid ad c ls b)
    show ?thesis unfolding run_accept(1) tx_accept_def
      by (rule ends_good [OF ends_mono [OF ends_finalize [OF X p i run_accept(3)]] s run_accept(2)]) auto
  next
    case (run_reconcile os ls b)
    show ?thesis unfolding run_reconcile(1) tx_reconcile_def by (rule ends_good [OF ends_reconcile_crash [OF X p i] s run_reconcile(2)])
  qed
qed

lemma runs_good: "(tx_run X)\<^sup>*\<^sup>* s t \<Longrightarrow> tx_ok X \<Longrightarrow> phase_ok p \<Longrightarrow> tx_good X p s \<Longrightarrow> tx_good X p t"
  by (induction rule: rtranclp_induct) (auto intro: run_good)

lemma phase_start_ok: "phase_ok phase_start"
  by (simp add: phase_ok_def phase_start_def)

lemma entry_list: "entry s d x = Some n \<Longrightarrow> (x, n) \<in> set (dir_entries s d)"
  by (simp add: entry_entries map_of_SomeD)

lemma start_good:
  assumes X: "tx_ok X" and s: "tx_start X s"
  shows "tx_good X phase_start s" "phase_of X (entry s) = phase_start"
proof -
  have q: "entry s (quarantine_of X) x = None" if "x = tx_name X \<or> record_like x \<or> starts_with TRANSACTION_TEMP x" for x
  proof (cases "entry s (quarantine_of X) x")
    case (Some n)
    then show ?thesis using s that entry_list [OF Some] by (auto simp: tx_start_def list_all_iff)
  qed
  have src: "\<not> starts_with FENCE_TEMP x \<and> (x = QUARANTINE_LOCK \<longrightarrow> safe_node n)" if "entry s (source_of X) x = Some n" for x n
    using s entry_list [OF that] by (auto simp: tx_start_def list_all_iff)
  show ph: "phase_of X (entry s) = phase_start"
    using s q by (auto simp: phase_of_def phase_start_def tx_start_def)
  have "files_ok X (entry s)" using s q by (simp add: files_ok_def Let_def slot_def tx_start_def)
  moreover have "names_ok X (entry s)" using src q by (auto simp: names_ok_def free_lock_def)
  ultimately have "tx_inv X phase_start (entry s)" using ph by (simp add: tx_inv_def)
  moreover have "sound True (tx_args X) (s\<lparr>fs_outcomes := []\<rparr>)"
    using s by (simp add: sound_def tx_start_def source_of_def quarantine_of_def distinct_names_def)
  ultimately show "tx_good X phase_start s" by (simp add: tx_good_def)
qed

lemma demo_start: "tx_start demo_tx demo_files"
  by (simp add: tx_start_def demo_tx_def demo_files_def demo_args_def rooted_def source_of_def quarantine_of_def distinct_names_def
      dir_entries_def entry_def starts_with_def FENCE_TEMP_def QUARANTINE_LOCK_def tx_fence_file_def fence_name_def)

definition demo_crashed :: files where
  "demo_crashed = snd (tx_prepare demo_tx (restart [Go, Go, Go, Go, Short 5, Go, Go, Die] [] False demo_files))"

lemma demo_runs: "(tx_run demo_tx)\<^sup>*\<^sup>* demo_files demo_crashed" "tx_run demo_tx demo_crashed (snd (tx_reconcile demo_tx (restart [Go, Go, Die] [] False demo_crashed)))"
  unfolding demo_crashed_def by (auto intro!: r_into_rtranclp run_prepare run_reconcile)

section \<open>Crash recovery\<close>

text \<open>
  C2. However often the processes of a transaction die and are started again, what an operation does to the
  two directories is a sequence of steps of the abstract machine of phases.
\<close>

theorem quarantine_refines_phases:
  assumes "tx_ok X" and "tx_start X s" and "(tx_run X)\<^sup>*\<^sup>* s t" and "tx_run X t u"
  shows "phase_step\<^sup>*\<^sup>* phase_start (phase_of X (entry t)) \<and> phase_step\<^sup>*\<^sup>* (phase_of X (entry t)) (phase_of X (entry u))"
proof
  have t: "tx_good X phase_start t" using runs_good [OF assms(3,1) phase_start_ok start_good(1) [OF assms(1,2)]] .
  then have i: "tx_inv X phase_start (entry t)" by (simp add: tx_good_def)
  then show "phase_step\<^sup>*\<^sup>* phase_start (phase_of X (entry t))" by (simp add: tx_inv_def)
  have "phase_ok (phase_of X (entry t))" by (rule inv_phase [OF i phase_start_ok])
  moreover have "tx_good X (phase_of X (entry t)) t" using t by (auto simp: tx_good_def tx_inv_def)
  ultimately have "tx_good X (phase_of X (entry t)) u" using run_good [OF assms(1) _ _ assms(4)] by blast
  then show "phase_step\<^sup>*\<^sup>* (phase_of X (entry t)) (phase_of X (entry u))" by (simp add: tx_good_def tx_inv_def)
qed

theorem quarantine_refines_phases_witness:
  "tx_ok demo_tx \<and> tx_start demo_tx demo_files \<and> phase_step\<^sup>*\<^sup>* phase_start (phase_of demo_tx (entry demo_crashed))
   \<and> phase_step\<^sup>*\<^sup>* (phase_of demo_tx (entry demo_crashed)) (phase_of demo_tx (entry (snd (tx_reconcile demo_tx (restart [Go, Go, Die] [] False demo_crashed)))))"
  using quarantine_refines_phases [OF demo_tx_ok demo_start demo_runs] demo_tx_ok demo_start by blast





section \<open>Every schedule\<close>

text \<open>
  C37. Whatever system calls fail, write short or are the last of the process, and whether the operation returns, raises
  or crashes: commit, abort, reconciliation and acceptance keep every journal of the two directories, with its inode and
  bytes, in exactly one place; none is lost, copied, renamed or changed.
\<close>

theorem journals_conserved:
  assumes "sa_source a \<noteq> sa_quarantine a" and "distinct_names s (sa_source a)" and "distinct_names s (sa_quarantine a)"
    and "\<forall>J. keeps (conserved (sa_source a) (sa_quarantine a) J) check"
    and "t \<in> {snd (commit_fault E a tid g q check s), snd (abort_prepare E a s),
      snd (reconcile_quarantine_transactions E (sa_source a) (sa_quarantine a) i k m lease s),
      snd (finalize_quarantine_transaction E root k tid source i ad c pid lease s),
      snd (prepare_quarantine_transaction E root k tid b i q s)}"
  shows "journals t (sa_source a) + journals t (sa_quarantine a) = journals s (sa_source a) + journals s (sa_quarantine a)"
proof -
  let ?I = "conserved (sa_source a) (sa_quarantine a) (journals s (sa_source a) + journals s (sa_quarantine a))"
  have s: "?I s" using assms(2,3) by (simp add: conserved_def)
  note ending = keeps_snd [of ?I, OF _ s]
  have "?I (snd (commit_fault E a tid g q check s))"
    by (rule ending, rule conservation.keeps_commit_fault [OF refl refl]) (use assms(1,4) in simp_all)
  moreover have "?I (snd (abort_prepare E a s))" by (rule ending, rule conservation.keeps_abort [OF refl refl assms(1)])
  moreover have "?I (snd (reconcile_quarantine_transactions E (sa_source a) (sa_quarantine a) i k m lease s))"
    by (rule ending, rule conservation.keeps_reconcile [OF assms(1)])
  moreover have "?I (snd (finalize_quarantine_transaction E root k tid source i ad c pid lease s))"
    by (rule ending, rule conservation.keeps_finalize)
  moreover have "?I (snd (prepare_quarantine_transaction E root k tid b i q s))" by (rule ending, rule conservation.keeps_steps(2))
  ultimately have "?I t" using assms(5) by blast
  then show ?thesis by (simp add: conserved_def)
qed

lemma demo_directories:
  "sa_source demo_args \<noteq> sa_quarantine demo_args" "distinct_names demo_files (sa_source demo_args)" "distinct_names demo_files (sa_quarantine demo_args)"
  "journals demo_files (sa_source demo_args) + journals demo_files (sa_quarantine demo_args) = {#(''j.jsonl'', demo_node)#}"
  by (simp_all add: demo_args_def demo_files_def distinct_names_def dir_entries_def journals_def journals_of_def ends_with_def)

theorem journals_conserved_witness:
  "journals (snd (commit_fault demo_env demo_args (replicate 64 CHR ''0'') ''sha256:0'' (node_snapshot ''j.jsonl'' demo_node) (return_x ()) demo_files)) (sa_source demo_args)
   + journals (snd (commit_fault demo_env demo_args (replicate 64 CHR ''0'') ''sha256:0'' (node_snapshot ''j.jsonl'' demo_node) (return_x ()) demo_files)) (sa_quarantine demo_args)
   = {#(''j.jsonl'', demo_node)#}" (is "journals ?t _ + _ = _")
proof -
  have k: "\<forall>J. keeps (conserved (sa_source demo_args) (sa_quarantine demo_args) J) (return_x ())" by (simp add: keeps_return)
  have "journals ?t (sa_source demo_args) + journals ?t (sa_quarantine demo_args)
      = journals demo_files (sa_source demo_args) + journals demo_files (sa_quarantine demo_args)"
    by (rule journals_conserved [OF demo_directories(1-3) k]) (rule insertI1)
  then show ?thesis unfolding demo_directories(4) .
qed

text \<open>
  C38. Under every schedule a record is written once: a record file that is in a directory stays there with its inode and
  bytes through commit, abort, reconciliation, acceptance and every other write of a record.
\<close>

theorem records_written_once:
  assumes "record_like x" and "entry s d x = Some n" and "sa_source a \<noteq> sa_quarantine a" and "keeps (written d x n) check"
    and "t \<in> {snd (write_record E root k tid stage v s), snd (commit_fault E a tid g q check s), snd (abort_prepare E a s),
      snd (reconcile_quarantine_transactions E (sa_source a) (sa_quarantine a) i k m lease s),
      snd (finalize_quarantine_transaction E root k tid source i ad c pid lease s)}"
  shows "entry t d x = Some n"
proof -
  have s: "written d x n s" using assms(2) by (simp add: written_def)
  note ending = keeps_snd [of "written d x n", OF _ s]
  have "written d x n (snd (write_record E root k tid stage v s))" by (rule ending, rule written_once.keeps_write_record)
  moreover have "written d x n (snd (commit_fault E a tid g q check s))"
    by (rule ending, rule written_once.keeps_commit_fault [OF refl refl assms(3,4)])
  moreover have "written d x n (snd (abort_prepare E a s))"
    by (rule ending, rule written_once.keeps_abort [OF refl refl assms(3)])
  moreover have "written d x n (snd (reconcile_quarantine_transactions E (sa_source a) (sa_quarantine a) i k m lease s))"
    by (rule ending, rule written_once.keeps_reconcile [OF assms(3)])
  moreover have "written d x n (snd (finalize_quarantine_transaction E root k tid source i ad c pid lease s))"
    by (rule ending, rule written_once.keeps_finalize)
  ultimately have "written d x n t" using assms(5) by blast
  then show ?thesis using assms(1) by (simp add: written_def)
qed

definition demo_recorded :: files where
  "demo_recorded = on_entries ''/q'' (\<lambda>es. es @ [(''ecpa-0.applied.json'', demo_node)]) demo_files"

theorem records_written_once_witness:
  "record_like ''ecpa-0.applied.json'' \<and>
   entry (snd (write_record demo_env ''/q'' (1, 11) (replicate 64 CHR ''0'') ''applied'' JNull (demo_recorded\<lparr>fs_outcomes := [Go, Fail, Die]\<rparr>)))
     ''/q'' ''ecpa-0.applied.json'' = Some demo_node"
proof -
  have r: "record_like ''ecpa-0.applied.json''" by (simp add: record_like_def starts_with_def ends_with_def)
  have e: "entry (demo_recorded\<lparr>fs_outcomes := [Go, Fail, Die]\<rparr>) ''/q'' ''ecpa-0.applied.json'' = Some demo_node"
    by (simp add: demo_recorded_def demo_files_def entry_def on_entries_def)
  show ?thesis by (rule conjI [OF r], rule records_written_once [OF r e demo_directories(1) _ insertI1]) (rule keeps_return)
qed

text \<open>
  C15. While the fence of a journal is in place, \<open>append_event\<close> never writes to it: it raises, waits or crashes under every
  schedule, and no file but the lock file is created, changed or removed.
\<close>

theorem fence_stops_append:
  assumes "entry s d (fence_name (fe_hash E) name) \<noteq> None"
  shows "\<exists>e t. append_line E fsync d name raw s = (Inl e, t) \<and> (\<forall>e x. x \<noteq> QUARANTINE_LOCK \<longrightarrow> entry t e x = entry s e x)"
proof -
  obtain n where n: "entry s d (fence_name (fe_hash E) name) = Some n" using assms by auto
  have lock: "fence_name (fe_hash E) name \<noteq> QUARANTINE_LOCK" by (simp add: fence_name_def QUARANTINE_LOCK_def)
  let ?same = "\<lambda>t. \<forall>e x. x \<noteq> QUARANTINE_LOCK \<longrightarrow> entry t e x = entry s e x"
  have add: "?same (add_node d QUARANTINE_LOCK (s\<lparr>fs_outcomes := os\<rparr>))" for os
    by (auto simp: add_node_def entry_def on_entries_def split: option.splits)
  have locked: "wp (acquire_shared d) (\<lambda>_. ?same) (\<lambda>_. ?same) s"
    unfolding acquire_shared_def open_lock_def os_as_def
    by (simp, rule wp_os_call) (auto intro!: wp_os_call simp: add)
  have stops: "wp (check_fence E d name) (\<lambda>_ _. False) (\<lambda>_. ?same) t" if "?same t" for t
    using that n lock unfolding check_fence_def os_stat_def
    by (auto intro!: wp_os_call)
  have "wp (then_x (guard_x c SinkErr) (then_x (check_fence E d name) m)) Q (\<lambda>_. ?same) t" if "?same t"
    for t c Q and m :: "unit file_exec"
    using that by (simp only: wp_then wp_guard) (auto intro: wp_mono [OF stops [OF that]])
  then have "wp (append_line E fsync d name raw) (\<lambda>_ _. False) (\<lambda>_. ?same) s"
    unfolding append_line_def wp_then [of "acquire_shared d"] by (rule wp_mono [OF locked])
  then show ?thesis by (auto simp: wp_raises_iff)
qed

theorem fence_stops_append_witness:
  "\<exists>e t. append_line demo_env ''1'' ''/s'' ''j.jsonl'' ''x''
     (add_node ''/s'' (fence_name (fe_hash demo_env) ''j.jsonl'') demo_files) = (Inl e, t)"
proof -
  have "entry (add_node ''/s'' (fence_name (fe_hash demo_env) ''j.jsonl'') demo_files) ''/s'' (fence_name (fe_hash demo_env) ''j.jsonl'') \<noteq> None"
    by (simp add: add_node_def entry_def on_entries_def demo_files_def)
  from fence_stops_append [OF this, of "''1''" "''x''"] show ?thesis by blast
qed

section \<open>Records and snapshots\<close>




text \<open>
  A snapshot has at most the given number of bytes, ends with a complete line, and is the whole content of the
  journal it names, with the identity of that file.\<close>

theorem snapshot_bounded:
  assumes "snapshot_journal d j i m s = (Inr q, t)"
  shows "int (length (qj_raw q)) \<le> m \<and> complete_lines (qj_raw q) \<and> qj_journal q = j
    \<and> (\<exists>n. entry s d j = Some n \<and> fn_regular n \<and> fn_owned n \<and> qj_raw q = fn_raw n \<and> qj_device q = fn_device n \<and> qj_inode q = fn_inode n)"
proof -
  have "wp (snapshot_journal d j i m) (\<lambda>q _. 0 < m \<and> qj_journal q = j \<and> int (length (qj_raw q)) \<le> m \<and> complete_lines (qj_raw q)
      \<and> (\<exists>n. entry s d j = Some n \<and> fn_regular n \<and> fn_owned n \<and> qj_raw q = take (nat (m + 1)) (fn_raw n)
         \<and> qj_device q = fn_device n \<and> qj_inode q = fn_inode n)) (\<lambda>_ _. True) s"
    unfolding snapshot_journal_def os_open_def os_stat_def os_read_def open_journal_root_def os_ok_def os_as_def
    by (auto simp: os_call_def wp_def exec_defs entry_def split: list.splits outcome.splits option.splits prod.splits sum.splits if_splits)
  from wp_result [OF this assms] obtain n where n: "0 < m" "qj_journal q = j" "int (length (qj_raw q)) \<le> m" "complete_lines (qj_raw q)"
      "entry s d j = Some n" "fn_regular n" "fn_owned n" "qj_raw q = take (nat (m + 1)) (fn_raw n)"
      "qj_device q = fn_device n" "qj_inode q = fn_inode n" by blast
  have "qj_raw q = fn_raw n" using n(1,3,8) by (auto simp: min_def split: if_splits)
  with n show ?thesis by blast
qed

theorem snapshot_bounded_witness:
  "snapshot_journal ''/s'' ''j.jsonl'' (1, 10) 100 demo_files = (Inr (node_snapshot ''j.jsonl'' demo_node), demo_files)
   \<and> int (length (fn_raw demo_node)) \<le> 100 \<and> complete_lines (fn_raw demo_node)"
proof -
  have s: "snapshot_journal ''/s'' ''j.jsonl'' (1, 10) 100 demo_files = (Inr (node_snapshot ''j.jsonl'' demo_node), demo_files)"
    by (simp add: snapshot_journal_def open_journal_root_def os_open_def os_stat_def os_read_def os_as_def os_ok_def os_call_def exec_defs
        demo_files_def demo_node_def journal_name_ok_def ends_with_def entry_def complete_lines_def node_identity_def node_snapshot_def)
  from snapshot_bounded [OF s] s show ?thesis by simp
qed

text \<open>
  C40. The intent that \<open>prepare_quarantine_transaction\<close> writes is read back as the snapshot it was made from: name, device,
  inode and every byte of the journal survive Base64, canonical JSON and the checks of the reader.
\<close>

theorem intent_round_trip:
  assumes "tx_ok X"
  shows "\<exists>v. record_value (canonical_bytes (intent_value (fe_hash (tx_env X)) (tx_id X) (tx_binding X) (sa_source_identity (tx_args X))
        (sa_quarantine_identity (tx_args X)) (tx_snapshot X)) @ [NEWLINE]) = Some v
    \<and> intent_snapshot (fe_hash (tx_env X)) \<lparr>du_name = record_file (tx_id X) ''intent'', du_raw = raw, du_digest = g, du_value = v\<rparr> (tx_id X)
      = Some (tx_snapshot X)"
proof (intro exI [of _ "canon (tx_intent X)"] conjI)
  show "record_value (canonical_bytes (intent_value (fe_hash (tx_env X)) (tx_id X) (tx_binding X) (sa_source_identity (tx_args X))
        (sa_quarantine_identity (tx_args X)) (tx_snapshot X)) @ [NEWLINE]) = Some (canon (tx_intent X))"
    using tx_records(1) [OF assms] by (simp add: record_ok_def line_def tx_intent_def tx_hash_def)
  have "intent_snapshot H r tid = intent_snapshot H r' tid" if "du_value r = du_value r'" "du_name r = du_name r'" for H r r' tid
    using that unfolding intent_snapshot_def by (simp only:)
  then show "intent_snapshot (fe_hash (tx_env X)) \<lparr>du_name = record_file (tx_id X) ''intent'', du_raw = raw, du_digest = g, du_value = canon (tx_intent X)\<rparr> (tx_id X)
      = Some (tx_snapshot X)"
    using snapshot_of_intent [OF assms] unfolding tx_hash_def tx_record_def the_record_def by (metis durable_record.select_convs(1,4))
qed

theorem intent_round_trip_witness:
  "\<exists>v. record_value (canonical_bytes (intent_value (fe_hash demo_env) (replicate 64 CHR ''0'') (JObj []) (1, 10) (1, 11)
      (node_snapshot ''j.jsonl'' demo_node)) @ [NEWLINE]) = Some v"
  using intent_round_trip [OF demo_tx_ok] by (auto simp: demo_tx_def demo_args_def tx_snapshot_def)

end
