(* ===== verification/Spec2Isabelle.thy ===== *)
theory Spec2Isabelle
  imports Attestation_Theorems Sink_Theorems Observer_Theorems Transaction_Model Ecpa_Model Gate_Theorems Coordinator_Theorems Compiler_Theorems
    Quarantine_Theorems
begin

text \<open>
  A verification library for vllm-hust-ext, the extension manager of vLLM-HUST. The program decides
  which inference plugins run in production: it compiles their declared contracts to a plan, activates
  a plan in steps that are written ahead to a durable store, collects attested evidence that every
  process loaded the plan, and only then moves traffic to the candidate.

  \<^bold>\<open>The parts and how they interact.\<close> Paths are below \<^verbatim>\<open>src/src/vllm_hust_ext/\<close> unless given in full.

  \<^item> \<^verbatim>\<open>contract_compiler.py\<close> parses the contracts of extensions (\<^verbatim>\<open>parse_contract\<close>) and the taxonomy of
    resources, and compiles a set of contracts to an ordered plan (\<^verbatim>\<open>compile_contracts\<close>).
  \<^item> \<^verbatim>\<open>ecpa_model.py\<close> is the in-memory reference model of an activation: \<^verbatim>\<open>ReferenceModel\<close> with its
    evidence store; it also has the data classes and content identities that the durable parts share.
  \<^item> \<^verbatim>\<open>durable_coordinator.py\<close> is the activation over SQLite: \<^verbatim>\<open>ActivationCoordinator\<close> keeps
    activations, a journal, process inventories, evidence and outcomes, calls host, traffic, evidence and
    lease adapters, and, when it has one, the exposure gate.
  \<^item> \<^verbatim>\<open>exposure_gate.py\<close> is the gate that moves traffic: \<^verbatim>\<open>ReferenceExposureGate\<close> over SQLite and a
    traffic adapter, with recovery (\<^verbatim>\<open>reconcile\<close>, \<^verbatim>\<open>rollback\<close>, \<^verbatim>\<open>fail_close\<close>), and the offline oracle
    \<^verbatim>\<open>evaluate_trace\<close> that judges an exported history.
  \<^item> \<^verbatim>\<open>attestation/model.py\<close> and \<^verbatim>\<open>attestation/profile.py\<close> are the signed statements: strict JSON, detached
    signatures, a trust store, \<^verbatim>\<open>sign\<close> and \<^verbatim>\<open>verify\<close>, and \<^verbatim>\<open>SignedAttestationVerifier\<close>, the evidence adapter
    of the coordinator.
  \<^item> \<^verbatim>\<open>host_evidence.py\<close> parses the events that the host writes and translates an invocation to a statement;
    \<^verbatim>\<open>host_event_sink.py\<close> keeps the events in journal files, one per process, under a lock;
    \<^verbatim>\<open>host_observer.py\<close> derives from them which obligations of a plan are covered by live processes.
  \<^item> \<^verbatim>\<open>quarantine_transaction.py\<close> takes a journal out of the evidence directory and puts it back, as a
    transaction of durable records with a fence against late writers; \<^verbatim>\<open>formal_lifecycle_source.py\<close> runs it.
  \<^item> \<^verbatim>\<open>src/experiments/transaction_model/explore.py\<close> is a finite model of the exposure transaction with a
    breadth-first exploration.

  \<^bold>\<open>The theories.\<close>

  \<^item> Prelude: shared lemmas, the result type with \<open>bind_res\<close>, \<open>guard_res\<close> and \<open>map_res\<close>, dictionaries as
    association lists, and reachability. Exec\_Monad: the state and error monad in which the stateful
    operations are written (\<open>bind_x\<close>, \<open>guard_x\<close>, \<open>catch_x\<close>, and \<open>atomic_x\<close> for a SQLite transaction that
    restores the store when its body raises), its weakest preconditions, and frame rules.
    Json\_Value: JSON values and \<^verbatim>\<open>json.dumps\<close> with sorted keys. Json\_Parse: \<^verbatim>\<open>json.loads\<close> with its object
    hook, in a locale of hooks that the plain and the strict parser interpret, and that it reads what
    \<^verbatim>\<open>json.dumps\<close> wrote. Base64: encoding and decoding.
  \<^item> Transaction\_Model: explore.py. \<open>transition\<close>, \<open>invariant_errors\<close> and the exploration loop, which
    terminates because it only visits states of a finite type.
  \<^item> Ecpa\_Model: ecpa\_model.py, one definition \<open>rm_...\<close> per method.
  \<^item> Exposure\_Gate: the traffic adapter (\<open>ta_...\<close>), the four tables as lists of rows, and one definition
    \<open>gate_...\<close> per method of the gate; \<open>open_...\<close>, \<open>close_...\<close>, \<open>reconcile_...\<close> and so on are the stages of
    the longer methods. Trace\_Oracle: \<^verbatim>\<open>evaluate_trace\<close> and \<^verbatim>\<open>export_trace\<close>. Gate\_Invariant: the invariant
    of the store and that every operation keeps it, also when it raises or a fault stops it;
    Gate\_Properties: what each operation does; Gate\_Theorems: the properties.
  \<^item> Durable\_Coordinator: the tables, one definition \<open>co_...\<close> per method of the coordinator, and the
    reference adapters (\<open>fake_...\<close>). Coordinator\_Invariant, Coordinator\_Properties and
    Coordinator\_Theorems are layered as for the gate; the steps of the coordinator include the gate's.
  \<^item> Contract\_Compiler: the parsers (\<open>p_...\<close>, \<open>parse_...\<close>) and the passes. Compiler\_Order: a locale of
    priority queues, interpreted by the model of heapq, the loop over it and a reference order.
    Compiler\_Properties and Compiler\_Wellformed: what the passes establish for each other, and what the
    parser establishes for all of them; Compiler\_Theorems: the properties.

  \<^item> Attestation: one definition per function of the profile (\<open>verify_header\<close>, \<open>verify_payload\<close> and \<open>verify_times\<close>
    are the stages of \<open>verify_envelope\<close>). Attestation\_Properties: what each stage accepts;
    Attestation\_Theorems: the properties, and the composition with the coordinator.
  \<^item> Host\_Evidence: \<open>parse_host_event\<close> as the list of its tests in their order, and \<open>translate_invocation\<close>.
    Event\_Properties: dumped events are accepted exactly if their fields pass the tests.
  \<^item> Journal\_Files: directories, files and system calls, and the locked part of the sink; Event\_Sink:
    \<open>append_event\<close> and \<open>read_events\<close>. Sink\_Properties and Sink\_Theorems: what is appended is read back.
  \<^item> Host\_Observer: host\_observer.py, with the loop over the records as \<open>observe_record\<close> on the record of its
    dictionaries. Observer\_Properties: what the loop establishes; Observer\_Theorems: the properties.
  \<^item> Quarantine\_Transaction: records, fence, lease and the steps of a transaction; Quarantine\_Reconcile:
    recovery and the closures \<open>commit_fault\<close> and \<open>abort_prepare\<close> of formal\_lifecycle\_source.py.
    Quarantine\_Invariant, Quarantine\_Records, File\_Views, Quarantine\_Settle and Quarantine\_Recovery: the files
    as a map, the phases of a transaction, and that every operation moves along them under every schedule;
    Quarantine\_Theorems: the properties.

  \<^bold>\<open>What is proved.\<close>

  \<^item> Transaction model: every reachable state passes the checker, admissions are authorised, the
    exploration visits exactly the reachable states and reports the checked-in numbers.
  \<^item> Reference model: it is effective only with complete, bound, host-issued evidence; nonces are used
    once; a crash never leads back to an effective model; receipts follow write-ahead records; planning
    decides resource conflicts.
  \<^item> Gate: in every store that calls, faults, crashes and outside changes can produce, the oracle finds
    no violation; requests go to the predecessor before exposure and to the candidate under a recorded
    receipt; traffic moves only after its intent is recorded; terminal states are final; \<^verbatim>\<open>fail_close\<close>
    classifies and \<^verbatim>\<open>reconcile\<close> decides; and three situations in which the code does not do what it
    means to.
  \<^item> Coordinator: the journal explains the state, the generation counts commits, the store only grows,
    commit succeeds exactly under its conditions and leaves the store alone when it refuses, nonces are
    accepted once across restarts, side effects come after their write-ahead row, rollback always
    settles, and plans survive the store.
  \<^item> Compiler: the loop computes the greedy topological order; plans have providers first, unique
    providers, no resource conflict and only authorised obligations; cycles are refused exactly; parsed
    contracts are well-formed and compile to a plan or a planning error; the order of input is irrelevant.

  \<^item> Attestation: \<^verbatim>\<open>verify\<close> accepts an envelope exactly if it is the canonical text of a timely statement,
    signed under the profile's header by a trusted key; what \<^verbatim>\<open>sign\<close> makes is accepted; the coordinator
    records evidence only for receipts that a verified statement binds.
  \<^item> Events: after \<^verbatim>\<open>append_event\<close> returns, \<^verbatim>\<open>read_events\<close> returns the records of before and the event, at its
    place; a translated invocation claims what the event says.
  \<^item> Observer: complete coverage is justified by bound events of live processes, one process per place of
    the plan; a plan with an obligation without ordinals has no snapshot.
  \<^item> Quarantine: every run, under every schedule of failures, short writes and crashes, refines the phases of
    a transaction; the journal is never lost, copied or changed and is withheld only behind its fence; a
    fence stops writers; records are written once, are bounded, and are read back; a reconcile without faults
    settles what any crash left.

  \<^bold>\<open>Choices.\<close> A Python exception is the left value of a result, with the state at the raise; the text of a
  message is kept only where code or properties depend on it. The hash function, the clock, the adapters
  and the library \<^verbatim>\<open>packaging\<close> are parameters. Identifiers of rows are natural numbers, Python integers
  are \<open>int\<close>. Loops are structural, or \<open>function\<close> with a measure (the exploration by unvisited states, the
  ordering loop by pending contracts, writing by the bytes left). Only the JSON parser has a bound: a text of
  length \<open>n\<close> is parsed with nesting up to \<open>2 * n + 1\<close>, which is enough for every text that
  \<^verbatim>\<open>json.dumps\<close> makes (\<open>loads_dumps\<close>). A fault point is a named flag of the state
  that makes the code raise there, as the injectors of the source do; a crash is a step that keeps the
  store and loses the rest. For files, a schedule gives the outcome of each system call: it goes through,
  fails, writes less than asked, or is the last one before a crash; properties hold for every schedule.
  Calls of different processes do not overlap: the lock orders them. The canonicalization of RFC 8785 and the
  signature scheme are parameters; the hypothesis \<open>rfc8785\<close> says that canonical bytes of profile values are
  the texts with sorted keys, and the round trip of signing assumes that a public key checks what its
  private key signs. What \<^verbatim>\<open>/proc\<close> shows is a parameter, for every record anew.

  \<^bold>\<open>Not modelled.\<close> SQL text, connections and migrations of columns; digests of artifacts; file descriptors and
  symbolic links; JSON numbers with fractions, byte order marks and code points above 255. Of
  \<^verbatim>\<open>formal_lifecycle_source.py\<close> only the two closures around a prepared fault: the rest drives processes and
  HTTP services. Whole modules: \<^verbatim>\<open>process_supervisor.py\<close>,
  \<^verbatim>\<open>formal_adapter_admission.py\<close>, \<^verbatim>\<open>manager_controller.py\<close>, \<^verbatim>\<open>plan_artifact.py\<close>, \<^verbatim>\<open>runtime_evidence.py\<close>,
  manifests, catalog, discovery and configuration, the providers, the command line, the experiment
  harnesses and the paper scripts: process inspection, packaging metadata and input and output around
  third-party services.
\<close>

end
